(* ===== verification/Prelude.thy ===== *)
theory Prelude
  imports Complex_Main "HOL-Library.Word" "HOL-Library.Signed_Division" "HOL-Library.AList"
    "HOL-Library.List_Lexorder" "HOL-Library.Char_ord" "HOL-Library.Code_Target_Nat"
begin

text \<open>
  Shared vocabulary of the development: the theorem collections, the error monad (an error is the
  left injection of a sum), a fold that stops at the first error, finite maps as association
  lists (a Go map with string keys), and list facts that several components use.
\<close>

named_theorems result_simps \<open>equations of the error monad\<close>
named_theorems keep \<open>a handler keeps an invariant of the machine\<close>

subsection \<open>Errors as values\<close>

definition rbind :: "'e + 'a \<Rightarrow> ('a \<Rightarrow> 'e + 'b) \<Rightarrow> 'e + 'b" where
  "rbind m f = (case m of Inl e \<Rightarrow> Inl e | Inr a \<Rightarrow> f a)"

lemma rbind_Inl [simp, result_simps]: "rbind (Inl e) f = Inl e"
  by (simp add: rbind_def)

lemma rbind_Inr [simp, result_simps]: "rbind (Inr a) f = f a"
  by (simp add: rbind_def)

lemma rbind_eq_Inr [result_simps]: "rbind m f = Inr b \<longleftrightarrow> (\<exists>a. m = Inr a \<and> f a = Inr b)"
  by (cases m) auto

lemma rbind_eq_Inl [result_simps]:
  "rbind m f = Inl e \<longleftrightarrow> m = Inl e \<or> (\<exists>a. m = Inr a \<and> f a = Inl e)"
  by (cases m) auto

lemma rbind_cong [fundef_cong]:
  "m = m' \<Longrightarrow> (\<And>a. m' = Inr a \<Longrightarrow> f a = f' a) \<Longrightarrow> rbind m f = rbind m' f'"
  by (cases m') auto

definition ensure :: "bool \<Rightarrow> 'e \<Rightarrow> 'e + unit" where
  "ensure b e = (if b then Inr () else Inl e)"

lemma ensure_Inr [simp, result_simps]: "ensure b e = Inr u \<longleftrightarrow> b"
  by (simp add: ensure_def)

lemma ensure_Inl [result_simps]: "ensure b e = Inl e' \<longleftrightarrow> \<not> b \<and> e' = e"
  by (auto simp: ensure_def)

fun traverse :: "('a \<Rightarrow> 'e + 'b) \<Rightarrow> 'a list \<Rightarrow> 'e + 'b list" where
  "traverse f [] = Inr []"
| "traverse f (x # xs) = rbind (f x) (\<lambda>y. rbind (traverse f xs) (\<lambda>ys. Inr (y # ys)))"

lemma traverse_cong [fundef_cong]:
  "xs = ys \<Longrightarrow> (\<And>x. x \<in> set ys \<Longrightarrow> f x = g x) \<Longrightarrow> traverse f xs = traverse g ys"
  by (induction ys arbitrary: xs) (auto intro!: rbind_cong)

lemma traverse_Inr_length: "traverse f xs = Inr ys \<Longrightarrow> length ys = length xs"
  by (induction xs arbitrary: ys) (auto simp: result_simps)

lemma traverse_Inr_set:
  "traverse f xs = Inr ys \<Longrightarrow> y \<in> set ys \<Longrightarrow> \<exists>x \<in> set xs. f x = Inr y"
  by (induction xs arbitrary: ys) (auto simp: result_simps)

text \<open>\<open>first_error\<close> runs a check on each element in order and stops at the first failure, as a Go
  loop with an early \<open>return err\<close> does.\<close>

fun first_error :: "('a \<Rightarrow> 'e + unit) \<Rightarrow> 'a list \<Rightarrow> 'e + unit" where
  "first_error f [] = Inr ()"
| "first_error f (x # xs) = rbind (f x) (\<lambda>_. first_error f xs)"

lemma first_error_Inr [result_simps]:
  "first_error f xs = Inr u \<longleftrightarrow> (\<forall>x \<in> set xs. f x = Inr ())"
  by (induction xs) (auto simp: result_simps)

lemma first_error_append:
  "first_error f (xs @ ys) = rbind (first_error f xs) (\<lambda>_. first_error f ys)"
proof (induction xs)
  case (Cons x xs)
  then show ?case by (cases "f x") auto
qed simp

subsection \<open>Finite maps with string keys\<close>

text \<open>A Go \<open>map[string]T\<close> is an association list without duplicate keys. \<open>AList.update\<close>
  overwrites in place or appends, \<open>AList.delete\<close> removes, and every enumeration whose order the
  program observes goes through \<open>sort\<close> (Go string order is the lexicographic byte order of
  \<open>List_Lexorder\<close> and \<open>Char_ord\<close>).\<close>

type_synonym 'v strmap = "(string \<times> 'v) list"

abbreviation lookup :: "'v strmap \<Rightarrow> string \<Rightarrow> 'v option" where
  "lookup m k \<equiv> map_of m k"

abbreviation put :: "string \<Rightarrow> 'v \<Rightarrow> 'v strmap \<Rightarrow> 'v strmap" where
  "put k v m \<equiv> AList.update k v m"

abbreviation remove_key :: "string \<Rightarrow> 'v strmap \<Rightarrow> 'v strmap" where
  "remove_key k m \<equiv> AList.delete k m"

definition sorted_keys :: "'v strmap \<Rightarrow> string list" where
  "sorted_keys m = sort (remdups (map fst m))"

lemma sorted_keys_set [simp]: "set (sorted_keys m) = dom (map_of m)"
  by (simp add: sorted_keys_def dom_map_of_conv_image_fst)

lemma sorted_keys_sorted: "sorted (sorted_keys m)"
  by (simp add: sorted_keys_def)

lemma sorted_keys_distinct: "distinct (sorted_keys m)"
  by (simp add: sorted_keys_def)

lemma lookup_put: "lookup (put k v m) k' = (if k' = k then Some v else lookup m k')"
  by (simp add: update_conv')

lemma lookup_remove: "lookup (remove_key k m) k' = (if k' = k then None else lookup m k')"
  by (simp add: delete_conv')

subsection \<open>Lists\<close>

lemma take_append_exact [simp]: "take (length xs) (xs @ ys) = xs"
  by simp

lemma nth_append_offset: "(xs @ ys) ! (length xs + k) = ys ! k"
  by (simp add: nth_append)

lemma dropWhile_length_le: "length (dropWhile P xs) \<le> length xs"
  by (induction xs) auto

end
