(* ===== verification/GoText.thy ===== *)
theory GoText
  imports Prelude
begin

text \<open>
  What the program uses of Go's \<open>strings\<close>, \<open>strconv\<close>, \<open>unicode\<close> and \<open>unicode/utf8\<close>. A Go string is
  a sequence of bytes, here a \<open>char list\<close> (one \<open>char\<close> is one byte). Code points are natural
  numbers. The Unicode category tables of code points above 127 are data of the Go distribution
  and are a parameter (\<open>uni\<close>); below 128 the categories are written out.
\<close>

type_synonym bytes = string
type_synonym rune = nat

abbreviation byte :: "char \<Rightarrow> nat" where
  "byte c \<equiv> (of_char c :: nat)"

abbreviation chr :: "nat \<Rightarrow> char" where
  "chr n \<equiv> char_of n"

subsection \<open>Prefixes, suffixes, splitting\<close>

definition hasPrefix :: "string \<Rightarrow> string \<Rightarrow> bool" where
  "hasPrefix s p \<longleftrightarrow> take (length p) s = p"

definition hasSuffix :: "string \<Rightarrow> string \<Rightarrow> bool" where
  "hasSuffix s p \<longleftrightarrow> length p \<le> length s \<and> drop (length s - length p) s = p"

definition trimPrefix :: "string \<Rightarrow> string \<Rightarrow> string" where
  "trimPrefix s p = (if hasPrefix s p then drop (length p) s else s)"

definition trimSuffix :: "string \<Rightarrow> string \<Rightarrow> string" where
  "trimSuffix s p = (if hasSuffix s p then take (length s - length p) s else s)"

definition cutPrefix :: "string \<Rightarrow> string \<Rightarrow> string option" where
  "cutPrefix s p = (if hasPrefix s p then Some (drop (length p) s) else None)"

lemma hasPrefix_iff: "hasPrefix s p \<longleftrightarrow> (\<exists>t. s = p @ t)"
  by (metis append_eq_conv_conj append_take_drop_id hasPrefix_def)

lemma hasPrefix_append [simp]: "hasPrefix (p @ t) p"
  by (simp add: hasPrefix_def)

lemma hasPrefix_Nil [simp]: "hasPrefix s []"
  by (simp add: hasPrefix_def)

lemma hasPrefix_Cons [simp]: "hasPrefix (c # s) (d # p) \<longleftrightarrow> c = d \<and> hasPrefix s p"
  by (auto simp: hasPrefix_def)

lemma hasPrefix_empty [simp]: "hasPrefix [] (d # p) = False"
  by (simp add: hasPrefix_def)

lemma cutPrefix_Some [simp]: "cutPrefix s p = Some t \<longleftrightarrow> s = p @ t"
  by (auto simp: cutPrefix_def hasPrefix_def) (metis append_take_drop_id)

lemma cutPrefix_append [simp]: "cutPrefix (p @ t) p = Some t"
  by simp

lemma trimPrefix_append [simp]: "trimPrefix (p @ t) p = t"
  by (simp add: trimPrefix_def)

fun indexOf :: "string \<Rightarrow> string \<Rightarrow> nat option" where
  "indexOf [] p = (if p = [] then Some 0 else None)"
| "indexOf (c # s) p = (if hasPrefix (c # s) p then Some 0 else map_option Suc (indexOf s p))"

definition contains :: "string \<Rightarrow> string \<Rightarrow> bool" where
  "contains s p \<longleftrightarrow> indexOf s p \<noteq> None"

definition containsAny :: "string \<Rightarrow> string \<Rightarrow> bool" where
  "containsAny s cs \<longleftrightarrow> (\<exists>c \<in> set s. c \<in> set cs)"

fun lastIndexByte :: "string \<Rightarrow> char \<Rightarrow> nat option" where
  "lastIndexByte [] c = None"
| "lastIndexByte (d # s) c =
     (case lastIndexByte s c of
        Some i \<Rightarrow> Some (Suc i)
      | None \<Rightarrow> if d = c then Some 0 else None)"

lemma indexOf_bound: "indexOf s p = Some i \<Longrightarrow> i + length p \<le> length s"
proof (induction s arbitrary: i)
  case (Cons c s)
  show ?case
  proof (cases "hasPrefix (c # s) p")
    case True
    with Cons.prems show ?thesis
      by (auto simp: hasPrefix_iff simp del: hasPrefix_Cons) (metis Suc_eq_plus1 add_leE le_add1 length_Cons length_append)
  next
    case False
    with Cons show ?thesis by auto
  qed
qed (simp split: if_splits)

text \<open>\<open>strings.Split\<close> with a non-empty separator; \<open>strings.Join\<close>.\<close>

function splitOn :: "string \<Rightarrow> string \<Rightarrow> string list" where
  "splitOn sep s =
     (if sep = [] then [s]
      else case indexOf s sep of
        None \<Rightarrow> [s]
      | Some i \<Rightarrow> take i s # splitOn sep (drop (i + length sep) s))"
  by pat_completeness auto
termination
proof (relation "measure (\<lambda>(sep, s). length s)", simp)
  fix sep s :: string and i
  assume "sep \<noteq> []" "indexOf s sep = Some i"
  then have "0 < length sep" "i + length sep \<le> length s"
    by (auto dest: indexOf_bound)
  then have "length s - (i + length sep) < length s" by linarith
  then show "((sep, drop (i + length sep) s), sep, s) \<in> measure (\<lambda>(sep, s). length s)"
    by simp
qed

declare splitOn.simps [simp del]

fun join :: "string \<Rightarrow> string list \<Rightarrow> string" where
  "join sep [] = []"
| "join sep [x] = x"
| "join sep (x # y # ys) = x @ sep @ join sep (y # ys)"

lemma indexOf_take_drop:
  "indexOf s p = Some i \<Longrightarrow> s = take i s @ p @ drop (i + length p) s"
proof (induction s arbitrary: i)
  case (Cons c s)
  show ?case
  proof (cases "hasPrefix (c # s) p")
    case True
    with Cons.prems have "i = 0" by simp
    with True show ?thesis
      by (auto simp: hasPrefix_iff simp del: hasPrefix_Cons)
  next
    case False
    with Cons.prems obtain j where "i = Suc j" "indexOf s p = Some j" by auto
    with Cons.IH[of j] show ?thesis by simp
  qed
qed (simp split: if_splits)

lemma splitOn_not_Nil [simp]: "splitOn sep s \<noteq> []"
  by (subst splitOn.simps) (simp split: option.split)

lemma join_Cons: "xs \<noteq> [] \<Longrightarrow> join sep (x # xs) = x @ sep @ join sep xs"
  by (cases xs) auto

lemma join_splitOn: "join sep (splitOn sep s) = s"
proof (induction sep s rule: splitOn.induct)
  case (1 sep s)
  show ?case
  proof (cases "sep = []")
    case True
    then show ?thesis by (simp add: splitOn.simps)
  next
    case False
    show ?thesis
    proof (cases "indexOf s sep")
      case None
      with False show ?thesis by (simp add: splitOn.simps)
    next
      case (Some i)
      with False 1 show ?thesis
        by (subst splitOn.simps) (simp add: join_Cons indexOf_take_drop [OF Some, symmetric])
    qed
  qed
qed

subsection \<open>UTF-8\<close>

definition runeError :: rune where
  "runeError = 0xFFFD"

definition cont :: "nat \<Rightarrow> bool" where
  "cont b \<longleftrightarrow> 0x80 \<le> b \<and> b \<le> 0xBF"

definition decodeRune :: "bytes \<Rightarrow> rune \<times> nat" where
  "decodeRune s =
     (case map byte s of
        [] \<Rightarrow> (runeError, 0)
      | a # r \<Rightarrow>
         if a < 0x80 then (a, 1)
         else if a < 0xC2 \<or> a > 0xF4 then (runeError, 1)
         else if a < 0xE0 then
           (case r of b # _ \<Rightarrow> if cont b then ((a - 0xC0) * 64 + (b - 0x80), 2) else (runeError, 1)
            | _ \<Rightarrow> (runeError, 1))
         else if a < 0xF0 then
           (case r of b # c # _ \<Rightarrow>
              if cont b \<and> cont c \<and> (a = 0xE0 \<longrightarrow> 0xA0 \<le> b) \<and> (a = 0xED \<longrightarrow> b \<le> 0x9F)
              then ((a - 0xE0) * 4096 + (b - 0x80) * 64 + (c - 0x80), 3) else (runeError, 1)
            | _ \<Rightarrow> (runeError, 1))
         else
           (case r of b # c # d # _ \<Rightarrow>
              if cont b \<and> cont c \<and> cont d \<and> (a = 0xF0 \<longrightarrow> 0x90 \<le> b) \<and> (a = 0xF4 \<longrightarrow> b \<le> 0x8F)
              then ((a - 0xF0) * 262144 + (b - 0x80) * 4096 + (c - 0x80) * 64 + (d - 0x80), 4)
              else (runeError, 1)
            | _ \<Rightarrow> (runeError, 1)))"

definition encodeRune :: "rune \<Rightarrow> bytes" where
  "encodeRune r =
     (let bs =
        (if r < 0x80 then [r]
         else if r < 0x800 then [0xC0 + r div 64, 0x80 + r mod 64]
         else if (0xD800 \<le> r \<and> r \<le> 0xDFFF) \<or> r > 0x10FFFF then [0xEF, 0xBF, 0xBD]
         else if r < 0x10000 then [0xE0 + r div 4096, 0x80 + r div 64 mod 64, 0x80 + r mod 64]
         else [0xF0 + r div 262144, 0x80 + r div 4096 mod 64, 0x80 + r div 64 mod 64, 0x80 + r mod 64])
      in map chr bs)"

lemma decodeRune_Cons_pos: "s \<noteq> [] \<Longrightarrow> 0 < snd (decodeRune s)"
  by (cases s) (auto simp: decodeRune_def split: list.split)

lemma decodeRune_bound: "snd (decodeRune s) \<le> length s"
  by (auto simp: decodeRune_def split: list.split)

lemma decodeRune_ascii: "byte c < 128 \<Longrightarrow> decodeRune (c # s) = (byte c, 1)"
  by (simp add: decodeRune_def)

text \<open>The runes of a string with the bytes each was read from; \<open>utf8.ValidString\<close>.\<close>

function runesOf :: "bytes \<Rightarrow> (rune \<times> bytes) list" where
  "runesOf s =
     (if s = [] then []
      else let (r, n) = decodeRune s in (r, take n s) # runesOf (drop n s))"
  by pat_completeness auto
termination
proof (relation "measure length", simp)
  fix s :: string and x xa y
  assume a: "s \<noteq> []" "x = decodeRune s" "(xa, y) = x"
  then have "0 < y" using decodeRune_Cons_pos [OF a(1)] by (metis snd_conv)
  with a(1) show "(drop y s, s) \<in> measure length" by simp
qed

declare runesOf.simps [simp del]

definition validUTF8 :: "bytes \<Rightarrow> bool" where
  "validUTF8 s \<longleftrightarrow> (\<forall>(r, bs) \<in> set (runesOf s). \<not> (r = runeError \<and> length bs = 1))"

lemma runesOf_concat: "concat (map snd (runesOf s)) = s"
proof (induction s rule: runesOf.induct)
  case (1 s)
  then show ?case
    by (subst runesOf.simps) (auto simp: Let_def split: prod.split)
qed

text \<open>A byte that is not a continuation byte ends the sequence before it.\<close>

definition stop :: "bytes \<Rightarrow> bool" where
  "stop b \<longleftrightarrow> b = [] \<or> \<not> cont (byte (hd b))"

lemma runesOf_Nil [simp]: "runesOf [] = []"
  by (simp add: runesOf.simps)

lemma decodeRune_stop:
  assumes "x \<noteq> []" "stop b" shows "decodeRune (x @ b) = decodeRune x"
proof -
  obtain a r where x: "x = a # r" using assms(1) by (cases x) auto
  consider "b = []" | c t where "b = c # t" "\<not> cont (byte c)" using assms(2) by (cases b) (auto simp: stop_def)
  then show ?thesis
  proof cases
    case 2
    then show ?thesis unfolding x decodeRune_def
      by (cases r; cases "tl r"; cases "tl (tl r)") (auto split: list.split)
  qed simp
qed

lemma runesOf_stop: "stop b \<Longrightarrow> runesOf (x @ b) = runesOf x @ runesOf b"
proof (induction x rule: runesOf.induct)
  case (1 x)
  show ?case
  proof (cases "x = []")
    case False
    obtain r n where d: "decodeRune x = (r, n)" by fastforce
    then have "n \<le> length x" using decodeRune_bound [of x] by simp
    moreover have "runesOf (drop n x @ b) = runesOf (drop n x) @ runesOf b"
      using "1.IH" [OF False d [symmetric] refl] "1.prems" by simp
    ultimately show ?thesis using False d decodeRune_stop [OF False "1.prems"]
      by (subst runesOf.simps, subst (2) runesOf.simps) simp
  qed simp
qed

text \<open>\<open>strings.Split\<close> splits into UTF-8 sequences when the separator is empty.\<close>

definition splitString :: "string \<Rightarrow> string \<Rightarrow> string list" where
  "splitString s sep = (if sep = [] then map snd (runesOf s) else splitOn sep s)"

lemma join_Nil_concat: "join [] xs = concat xs"
  by (induction "[] :: string" xs rule: join.induct) auto

lemma join_splitString: "join sep (splitString s sep) = s"
  by (simp add: splitString_def join_splitOn join_Nil_concat runesOf_concat)

subsection \<open>Character classes\<close>

record unicode =
  uni_letter :: "rune \<Rightarrow> bool"
  uni_digit :: "rune \<Rightarrow> bool"
  uni_print :: "rune \<Rightarrow> bool"

definition isAsciiDigit :: "nat \<Rightarrow> bool" where
  "isAsciiDigit r \<longleftrightarrow> 48 \<le> r \<and> r \<le> 57"

definition isAsciiLetter :: "nat \<Rightarrow> bool" where
  "isAsciiLetter r \<longleftrightarrow> (65 \<le> r \<and> r \<le> 90) \<or> (97 \<le> r \<and> r \<le> 122)"

definition isDigit :: "unicode \<Rightarrow> rune \<Rightarrow> bool" where
  "isDigit u r = (if r < 128 then isAsciiDigit r else uni_digit u r)"

definition isLetter :: "unicode \<Rightarrow> rune \<Rightarrow> bool" where
  "isLetter u r = (if r < 128 then isAsciiLetter r else uni_letter u r)"

definition isSpace :: "rune \<Rightarrow> bool" where
  "isSpace r \<longleftrightarrow> (9 \<le> r \<and> r \<le> 13) \<or> r \<in> {32, 0x85, 0xA0, 0x1680, 0x2028, 0x2029, 0x202F, 0x205F, 0x3000}
     \<or> (0x2000 \<le> r \<and> r \<le> 0x200A)"

definition trimSpace :: "string \<Rightarrow> string" where
  "trimSpace s =
     (let sp = (\<lambda>(r, bs). isSpace r)
      in concat (map snd (rev (dropWhile sp (rev (dropWhile sp (runesOf s)))))))"

fun fieldsOf :: "(rune \<times> bytes) list \<Rightarrow> bytes \<Rightarrow> string list" where
  "fieldsOf [] acc = (if acc = [] then [] else [acc])"
| "fieldsOf ((r, bs) # rs) acc =
     (if isSpace r then (if acc = [] then [] else [acc]) @ fieldsOf rs []
      else fieldsOf rs (acc @ bs))"

definition fields :: "string \<Rightarrow> string list" where
  "fields s = fieldsOf (runesOf s) []"

text \<open>The fields of a text are words, and words joined by blanks are its fields.\<close>

definition fieldWord :: "bytes \<Rightarrow> bool" where
  "fieldWord w \<longleftrightarrow> w \<noteq> [] \<and> (\<forall>(r, bs) \<in> set (runesOf w). \<not> isSpace r)"

lemma runesOf_blank: "runesOf (CHR '' '' # t) = (32, '' '') # runesOf t"
  by (subst runesOf.simps) (simp add: decodeRune_ascii)

lemma fieldsOf_word:
  "\<forall>(r, bs) \<in> set rs. \<not> isSpace r \<Longrightarrow> fieldsOf (rs @ qs) acc = fieldsOf qs (acc @ concat (map snd rs))"
  by (induction rs arbitrary: acc) auto

lemma fields_join: "\<forall>w \<in> set ws. fieldWord w \<Longrightarrow> fields (join '' '' ws) = ws"
proof (induction ws)
  case (Cons w ws)
  have w: "\<forall>(r, bs) \<in> set (runesOf w). \<not> isSpace r" "w \<noteq> []" using Cons.prems by (auto simp: fieldWord_def)
  show ?case
  proof (cases ws)
    case Nil
    with fieldsOf_word [OF w(1), of "[]" "[]"] w(2) show ?thesis
      by (simp add: fields_def runesOf_concat)
  next
    case (Cons v vs)
    then have "join '' '' (w # ws) = w @ CHR '' '' # join '' '' ws" by simp
    moreover have "stop (CHR '' '' # join '' '' ws)" by (simp add: stop_def cont_def)
    ultimately have "runesOf (join '' '' (w # ws)) = runesOf w @ (32, '' '') # runesOf (join '' '' ws)"
      by (simp add: runesOf_stop runesOf_blank)
    with fieldsOf_word [OF w(1), of "(32, '' '') # runesOf (join '' '' ws)" "[]"] w(2) Cons.IH Cons.prems
    show ?thesis by (simp add: fields_def runesOf_concat isSpace_def)
  qed
qed (simp add: fields_def)

lemma decodeRune_cont: "cont (byte c) \<Longrightarrow> decodeRune (c # s) = (runeError, 1)"
  by (simp add: decodeRune_def cont_def)

lemma isSpace_runeError: "\<not> isSpace runeError"
  by (simp add: isSpace_def runeError_def)

lemma isSpace_stop:
  assumes "decodeRune s = (r, n)" "isSpace r" shows "stop s"
proof (cases s)
  case (Cons c t)
  have "\<not> cont (byte c)"
  proof
    assume "cont (byte c)"
    from decodeRune_cont [OF this, of t] assms(1) have "r = runeError" by (simp only: Cons prod.inject)
    with assms(2) isSpace_runeError show False by simp
  qed
  with Cons show ?thesis by (simp add: stop_def)
qed (simp add: stop_def)

lemma fieldsOf_words:
  "runesOf (acc @ s) = qs @ runesOf s \<Longrightarrow> concat (map snd qs) = acc \<Longrightarrow> \<forall>(r, bs) \<in> set qs. \<not> isSpace r \<Longrightarrow>
   w \<in> set (fieldsOf (runesOf s) acc) \<Longrightarrow> fieldWord w"
proof (induction s arbitrary: acc qs rule: runesOf.induct)
  case (1 s)
  show ?case
  proof (cases "s = []")
    case True
    with "1.prems" show ?thesis by (auto simp: fieldWord_def split: if_splits)
  next
    case False
    obtain r n where d: "decodeRune s = (r, n)" by fastforce
    have n: "0 < n" "n \<le> length s" using decodeRune_Cons_pos [OF False] decodeRune_bound [of s] d by auto
    have rs: "runesOf s = (r, take n s) # runesOf (drop n s)"
      using False d by (subst runesOf.simps) simp
    note IH = "1.IH" [OF False d [symmetric] refl]
    show ?thesis
    proof (cases "isSpace r")
      case True
      with d have "stop s" by (rule isSpace_stop)
      with "1.prems"(1) have "runesOf acc = qs" by (simp add: runesOf_stop)
      with "1.prems" True show ?thesis
        using IH [of "[]" "[]"] by (auto simp: rs fieldWord_def split: if_splits)
    next
      case nospace: False
      have e: "runesOf ((acc @ take n s) @ drop n s) = (qs @ [(r, take n s)]) @ runesOf (drop n s)"
        using "1.prems"(1) by (simp add: rs)
      have m: "w \<in> set (fieldsOf (runesOf (drop n s)) (acc @ take n s))"
        using "1.prems"(4) nospace by (simp add: rs)
      show ?thesis
        by (rule IH [OF e _ _ m]) (use "1.prems" nospace in auto)
    qed
  qed
qed

lemma fields_words: "w \<in> set (fields s) \<Longrightarrow> fieldWord w"
  using fieldsOf_words [of "[]" s "[]" w] by (simp add: fields_def)

lemma fields_idem: "fields (join '' '' (fields s)) = fields s"
  by (rule fields_join) (auto intro: fields_words)
definition lowerByte :: "char \<Rightarrow> char" where
  "lowerByte c = (if 65 \<le> byte c \<and> byte c \<le> 90 then chr (byte c + 32) else c)"

text \<open>\<open>strings.EqualFold\<close> where one side is ASCII, as it is at every call: two code points above 127
  fold to ASCII letters, the long s and the Kelvin sign.\<close>

definition foldRune :: "rune \<Rightarrow> rune" where
  "foldRune r = (if 65 \<le> r \<and> r \<le> 90 then r + 32 else if r = 0x17F then 115 else if r = 0x212A then 107 else r)"

definition equalFold :: "string \<Rightarrow> string \<Rightarrow> bool" where
  "equalFold s t \<longleftrightarrow> map (foldRune \<circ> fst) (runesOf s) = map (foldRune \<circ> fst) (runesOf t)"

subsection \<open>Decimal integers\<close>

fun natDigits :: "nat \<Rightarrow> string" where
  "natDigits n = (if n < 10 then [chr (48 + n)] else natDigits (n div 10) @ [chr (48 + n mod 10)])"

declare natDigits.simps [simp del]

definition itoa :: "int \<Rightarrow> string" where
  "itoa i = (if i < 0 then CHR ''-'' # natDigits (nat (- i)) else natDigits (nat i))"

definition digitsValue :: "string \<Rightarrow> nat" where
  "digitsValue s = foldl (\<lambda>n c. n * 10 + (byte c - 48)) 0 s"

definition allDigits :: "string \<Rightarrow> bool" where
  "allDigits s \<longleftrightarrow> s \<noteq> [] \<and> (\<forall>c \<in> set s. isAsciiDigit (byte c))"

definition inInt64 :: "int \<Rightarrow> bool" where
  "inInt64 i \<longleftrightarrow> - (2 ^ 63) \<le> i \<and> i < 2 ^ 63"

text \<open>\<open>strconv.ParseInt(s, 10, 64)\<close>: an optional sign and digits, in range.\<close>

definition parseInt :: "string \<Rightarrow> int option" where
  "parseInt s =
     (let (neg, ds) = (case s of
          [] \<Rightarrow> (False, [])
        | c # t \<Rightarrow> if c = CHR ''-'' then (True, t) else if c = CHR ''+'' then (False, t) else (False, s));
        v = (if neg then - int (digitsValue ds) else int (digitsValue ds))
      in if allDigits ds \<and> inInt64 v then Some v else None)"

lemma natDigits_all: "allDigits (natDigits n)"
proof (induction n rule: natDigits.induct)
  case (1 n)
  have d: "isAsciiDigit (byte (chr (48 + k)))" "isAsciiDigit (48 + k)" if "k < 10" for k
    using that by (simp_all add: isAsciiDigit_def)
  show ?case
  proof (cases "n < 10")
    case True
    then show ?thesis by (subst natDigits.simps) (simp add: allDigits_def d)
  next
    case False
    with 1 show ?thesis by (subst natDigits.simps) (auto simp: allDigits_def intro!: d)
  qed
qed

lemma digitsValue_natDigits: "digitsValue (natDigits n) = n"
proof (induction n rule: natDigits.induct)
  case (1 n)
  show ?case
  proof (cases "n < 10")
    case True
    then show ?thesis by (subst natDigits.simps) (simp add: digitsValue_def)
  next
    case False
    with 1 have "digitsValue (natDigits (n div 10)) = n div 10" by simp
    with False show ?thesis
      by (subst natDigits.simps) (simp add: digitsValue_def)
  qed
qed

lemma natDigits_head: "\<exists>c t. natDigits n = c # t \<and> c \<noteq> CHR ''-'' \<and> c \<noteq> CHR ''+''"
proof -
  from natDigits_all [of n] obtain c t where ct: "natDigits n = c # t" "isAsciiDigit (byte c)"
    by (cases "natDigits n") (auto simp: allDigits_def)
  then have "c \<noteq> CHR ''-'' \<and> c \<noteq> CHR ''+''" by (auto simp: isAsciiDigit_def)
  with ct show ?thesis by blast
qed

lemma parseInt_itoa: "inInt64 i \<Longrightarrow> parseInt (itoa i) = Some i"
proof (cases "i < 0")
  case True
  assume "inInt64 i"
  with True show ?thesis
    by (simp add: itoa_def parseInt_def natDigits_all digitsValue_natDigits)
next
  case False
  assume "inInt64 i"
  with False natDigits_head [of "nat i"] show ?thesis
    by (auto simp: itoa_def parseInt_def natDigits_all digitsValue_natDigits)
      (metis digitsValue_natDigits natDigits_all nat_0_le not_less)+
qed

end
