(* ===== verification/GoPath.thy ===== *)
theory GoPath
  imports GoText
begin

text \<open>
  What the program uses of Go's \<open>path/filepath\<close> on Unix. A path is handled through its
  components: \<open>components\<close> splits at \<open>/\<close> and drops empty ones, \<open>cleanComps\<close> removes \<open>.\<close> and
  resolves \<open>..\<close> lexically, and \<open>Clean\<close>, \<open>Abs\<close>, \<open>Dir\<close>, \<open>Base\<close> and \<open>Rel\<close> are stated on top of them.
\<close>

definition isAbs :: "string \<Rightarrow> bool" where
  "isAbs p \<longleftrightarrow> hasPrefix p ''/''"

definition components :: "string \<Rightarrow> string list" where
  "components p = filter (\<lambda>c. c \<noteq> []) (splitOn ''/'' p)"

text \<open>The stack of components kept so far is reversed.\<close>

fun cleanStep :: "bool \<Rightarrow> string list \<Rightarrow> string \<Rightarrow> string list" where
  "cleanStep rooted st c =
     (if c = ''.'' then st
      else if c = ''..'' then
        (case st of
           [] \<Rightarrow> if rooted then [] else [''..'']
         | t # st' \<Rightarrow> if t = ''..'' then ''..'' # st else st')
      else c # st)"

definition cleanComps :: "bool \<Rightarrow> string list \<Rightarrow> string list" where
  "cleanComps rooted cs = rev (foldl (cleanStep rooted) [] cs)"

definition render :: "bool \<Rightarrow> string list \<Rightarrow> string" where
  "render rooted cs =
     (if rooted then CHR ''/'' # join ''/'' cs
      else if cs = [] then ''.'' else join ''/'' cs)"

definition Clean :: "string \<Rightarrow> string" where
  "Clean p = render (isAbs p) (cleanComps (isAbs p) (components p))"

definition absPath :: "string \<Rightarrow> string \<Rightarrow> string" where
  "absPath cwd p = (if isAbs p then Clean p else Clean (cwd @ ''/'' @ p))"

definition dirName :: "string \<Rightarrow> string" where
  "dirName p = (case lastIndexByte p (CHR ''/'') of None \<Rightarrow> Clean [] | Some i \<Rightarrow> Clean (take (Suc i) p))"

definition baseName :: "string \<Rightarrow> string" where
  "baseName p =
     (if p = [] then ''.''
      else if components p = [] then ''/'' else last (components p))"

definition joinPath :: "string \<Rightarrow> string \<Rightarrow> string" where
  "joinPath a b =
     (if a = [] \<and> b = [] then [] else if a = [] then Clean b else if b = [] then Clean a
      else Clean (a @ ''/'' @ b))"

fun stripCommon :: "string list \<Rightarrow> string list \<Rightarrow> string list \<times> string list" where
  "stripCommon (x # xs) (y # ys) = (if x = y then stripCommon xs ys else (x # xs, y # ys))"
| "stripCommon xs ys = (xs, ys)"

definition Rel :: "string \<Rightarrow> string \<Rightarrow> string option" where
  "Rel base targ =
     (let b = Clean base; t = Clean targ in
      if t = b then Some ''.''
      else if isAbs b \<noteq> isAbs t then None
      else case stripCommon (if b = ''.'' then [] else components b) (components t) of
        (bs, ts) \<Rightarrow>
          if (case bs of x # _ \<Rightarrow> x = ''..'' | [] \<Rightarrow> False) then None
          else Some (join ''/'' (replicate (length bs) ''..'' @ ts)))"

subsection \<open>Components of rendered paths\<close>

definition plain :: "string \<Rightarrow> bool" where
  "plain c \<longleftrightarrow> c \<noteq> [] \<and> c \<noteq> ''.'' \<and> c \<noteq> ''..'' \<and> CHR ''/'' \<notin> set c"

lemma indexOf_sep_None: "indexOf s [d] = None \<longleftrightarrow> d \<notin> set s"
  by (induction s) auto

lemma indexOf_sep_append: "d \<notin> set s \<Longrightarrow> indexOf (s @ d # t) [d] = Some (length s)"
  by (induction s) auto

lemma splitOn_no_sep: "d \<notin> set s \<Longrightarrow> splitOn [d] s = [s]"
  by (subst splitOn.simps) (simp add: indexOf_sep_None [THEN iffD2])

lemma splitOn_cons_sep: "d \<notin> set s \<Longrightarrow> splitOn [d] (s @ d # t) = s # splitOn [d] t"
  by (subst splitOn.simps) (simp add: indexOf_sep_append)

lemma splitOn_join:
  "cs \<noteq> [] \<Longrightarrow> \<forall>c \<in> set cs. d \<notin> set c \<Longrightarrow> splitOn [d] (join [d] cs) = cs"
proof (induction cs)
  case (Cons c cs)
  then show ?case by (cases cs) (auto simp: splitOn_no_sep splitOn_cons_sep)
qed simp

lemma components_join:
  "\<forall>c \<in> set cs. plain c \<Longrightarrow> components (join ''/'' cs) = cs"
proof (cases "cs = []")
  case True
  then show ?thesis by (simp add: components_def splitOn_no_sep)
next
  case False
  assume p: "\<forall>c \<in> set cs. plain c"
  then have "splitOn ''/'' (join ''/'' cs) = cs"
    by (intro splitOn_join [OF False]) (auto simp: plain_def)
  with p show ?thesis by (auto simp: components_def plain_def filter_id_conv)
qed

lemma components_Cons_slash: "components (CHR ''/'' # p) = components p"
  using splitOn_cons_sep [of "CHR ''/''" "[]" p] by (simp add: components_def)

lemma components_render: "\<forall>c \<in> set cs. plain c \<Longrightarrow> components (render True cs) = cs"
  by (simp add: render_def components_Cons_slash components_join)

lemma splitOn_sep_free: "c \<in> set (splitOn [d] s) \<Longrightarrow> d \<notin> set c"
proof (induction "[d]" s rule: splitOn.induct)
  case (1 s)
  show ?case
  proof (cases "indexOf s [d]")
    case None
    with "1.prems" show ?thesis by (auto simp: splitOn.simps indexOf_sep_None [symmetric])
  next
    case (Some i)
    have free: "d \<notin> set (take i s)" using Some
    proof (induction s arbitrary: i)
      case (Cons x xs)
      then show ?case by (auto split: if_splits)
    qed simp
    from "1.prems" Some have "c = take i s \<or> c \<in> set (splitOn [d] (drop (i + length [d]) s))"
      by (simp add: splitOn.simps [of "[d]" s])
    with free "1.hyps" Some show ?thesis by auto
  qed
qed

lemma components_slash_free: "c \<in> set (components p) \<Longrightarrow> c \<noteq> [] \<and> CHR ''/'' \<notin> set c"
  by (auto simp: components_def dest: splitOn_sep_free)

lemma cleanComps_plain_aux:
  "\<forall>c \<in> set cs. c \<noteq> [] \<and> CHR ''/'' \<notin> set c \<Longrightarrow> \<forall>c \<in> set st. plain c \<Longrightarrow>
   \<forall>c \<in> set (foldl (cleanStep True) st cs). plain c"
proof (induction cs arbitrary: st)
  case (Cons x xs)
  have "\<forall>c \<in> set (cleanStep True st x). plain c"
    using Cons.prems by (cases st) (auto simp: plain_def)
  with Cons show ?case by simp
qed simp

lemma cleanComps_plain: "c \<in> set (cleanComps True (components p)) \<Longrightarrow> plain c"
  using cleanComps_plain_aux [of "components p" "[]"] components_slash_free
  by (auto simp: cleanComps_def)

lemma cleanComps_id_aux:
  "\<forall>c \<in> set cs. plain c \<Longrightarrow> foldl (cleanStep r) st cs = rev cs @ st"
  by (induction cs arbitrary: st) (auto simp: plain_def)

lemma cleanComps_id: "\<forall>c \<in> set cs. plain c \<Longrightarrow> cleanComps r cs = cs"
  by (simp add: cleanComps_def cleanComps_id_aux)

lemma isAbs_render [simp]: "isAbs (render True cs)"
  by (simp add: render_def isAbs_def)

lemma isAbs_Clean: "isAbs p \<Longrightarrow> isAbs (Clean p)"
  by (simp add: Clean_def)

lemma components_Clean: "isAbs p \<Longrightarrow> components (Clean p) = cleanComps True (components p)"
  by (simp add: Clean_def components_render cleanComps_plain)

lemma Clean_render: "\<forall>c \<in> set cs. plain c \<Longrightarrow> Clean (render True cs) = render True cs"
  by (simp add: Clean_def components_render cleanComps_id)

lemma Clean_idem: "isAbs p \<Longrightarrow> Clean (Clean p) = Clean p"
  using Clean_render [of "cleanComps True (components p)"]
  by (simp add: Clean_def [of p] cleanComps_plain)

lemma isAbs_cleaned_iff: "isAbs p \<Longrightarrow> Clean p = p \<longleftrightarrow> (\<exists>cs. (\<forall>c \<in> set cs. plain c) \<and> p = render True cs)"
  by (metis Clean_def Clean_render cleanComps_plain)

lemma stripCommon_prefix: "stripCommon xs (xs @ ys) = ([], ys)"
  by (induction xs; cases ys; simp)

lemma stripCommon_eq: "stripCommon xs ys = (bs, ts) \<Longrightarrow> \<exists>ps. xs = ps @ bs \<and> ys = ps @ ts"
proof (induction xs ys rule: stripCommon.induct)
  case (1 x xs y ys)
  then show ?case by (auto split: if_splits)
qed auto

lemma join_dotdot_prefix:
  "0 < n \<Longrightarrow> join ''/'' (replicate n ''..'' @ ts) = ''..'' \<or>
   hasPrefix (join ''/'' (replicate n ''..'' @ ts)) ''../''"
proof (cases n)
  case (Suc m)
  then show ?thesis by (cases "replicate m ''..'' @ ts") auto
qed simp

lemma join_plain_not_dotdot:
  assumes "\<forall>c \<in> set ts. plain c" "ts \<noteq> []"
  shows "join ''/'' ts \<noteq> ''..'' \<and> \<not> hasPrefix (join ''/'' ts) ''../'' \<and> \<not> isAbs (join ''/'' ts)"
proof -
  obtain c cs where ts: "ts = c # cs" using assms(2) by (cases ts) auto
  have c: "plain c" using assms ts by simp
  obtain s where s: "join ''/'' ts = c @ s" "s = [] \<or> hasPrefix s ''/''"
    unfolding ts by (cases cs) auto
  have "\<not> isAbs (c @ s)" using c by (cases c) (auto simp: isAbs_def plain_def)
  moreover have "c @ s \<noteq> ''..'' \<and> \<not> hasPrefix (c @ s) ''../''"
  proof (intro conjI notI)
    assume "c @ s = ''..''"
    with c s(2) show False
      by (cases c; cases "tl c"; cases s) (auto simp: plain_def)
  next
    assume "hasPrefix (c @ s) ''../''"
    with c s(2) show False
      by (cases c; cases "tl c"; cases "tl (tl c)"; cases s) (auto simp: plain_def)
  qed
  ultimately show ?thesis using s(1) by simp
qed

lemma components_Nil [simp]: "components [] = []"
  by (simp add: components_def splitOn_no_sep)

lemma isAbs_absPath: "isAbs wd \<Longrightarrow> isAbs (absPath wd p)"
  by (cases wd) (auto simp: absPath_def isAbs_Clean isAbs_def [of "_ @ _"] isAbs_def [of "_ # _"])

lemma absPath_clean: "isAbs wd \<Longrightarrow> Clean (absPath wd p) = absPath wd p"
  by (cases wd) (auto simp: absPath_def Clean_idem isAbs_def [of "_ # _"])

lemma isAbs_joinPath: "isAbs a \<Longrightarrow> isAbs (joinPath a b)"
  by (cases a) (auto simp: joinPath_def isAbs_def [of "_ # _"] isAbs_def [of "[]"] intro!: isAbs_Clean)

lemma joinPath_clean: "isAbs a \<Longrightarrow> Clean (joinPath a b) = joinPath a b"
  by (cases a) (auto simp: joinPath_def isAbs_def [of "_ # _"] isAbs_def [of "[]"] intro!: Clean_idem)

lemma isAbs_dirName: "isAbs p \<Longrightarrow> isAbs (dirName p)"
proof (cases p)
  case (Cons c t)
  assume "isAbs p"
  with Cons have "c = CHR ''/''" by (simp add: isAbs_def)
  with Cons obtain i where "lastIndexByte p (CHR ''/'') = Some i"
    by (cases "lastIndexByte t (CHR ''/'')") auto
  moreover have "isAbs (take (Suc i) p)" using Cons \<open>isAbs p\<close> by (simp add: isAbs_def)
  ultimately show ?thesis by (simp add: dirName_def isAbs_Clean)
qed (simp add: isAbs_def)

end
