(* ===== verification/NetAddr.thy ===== *)
theory NetAddr
  imports GoText
begin

unbundle bit_operations_syntax

text \<open>
  IP addresses (Go's \<open>net/netip\<close>) and the table of destinations a host name grant may not reach,
  \<open>internal/capability/destinations.go\<close>. An address is a 32-bit or a 128-bit word; a zone is kept
  as text. \<open>ParseAddr\<close> and \<open>String\<close> follow the documented textual forms.
\<close>

datatype Addr = A4 "32 word" | A6 "128 word" string

definition is4 :: "Addr \<Rightarrow> bool" where
  "is4 a = (case a of A4 _ \<Rightarrow> True | A6 _ _ \<Rightarrow> False)"

definition is6 :: "Addr \<Rightarrow> bool" where
  "is6 a = (\<not> is4 a)"

definition zone :: "Addr \<Rightarrow> string" where
  "zone a = (case a of A4 _ \<Rightarrow> [] | A6 _ z \<Rightarrow> z)"

definition is4In6 :: "Addr \<Rightarrow> bool" where
  "is4In6 a = (case a of A4 _ \<Rightarrow> False | A6 w _ \<Rightarrow> drop_bit 32 w = 0xFFFF)"

definition Unmap :: "Addr \<Rightarrow> Addr" where
  "Unmap a = (case a of A4 w \<Rightarrow> A4 w
     | A6 w z \<Rightarrow> if drop_bit 32 w = 0xFFFF then A4 (ucast w) else A6 w z)"

definition isMulticast :: "Addr \<Rightarrow> bool" where
  "isMulticast a = (case Unmap a of A4 w \<Rightarrow> drop_bit 28 w = 0xE | A6 w _ \<Rightarrow> drop_bit 120 w = 0xFF)"

definition isLoopback :: "Addr \<Rightarrow> bool" where
  "isLoopback a = (case Unmap a of A4 w \<Rightarrow> drop_bit 24 w = 127 | A6 w _ \<Rightarrow> w = 1)"

definition isLinkLocalUnicast :: "Addr \<Rightarrow> bool" where
  "isLinkLocalUnicast a = (case Unmap a of A4 w \<Rightarrow> drop_bit 16 w = 0xA9FE | A6 w _ \<Rightarrow> drop_bit 118 w = 0x3FA)"

definition isUnspecified :: "Addr \<Rightarrow> bool" where
  "isUnspecified a = (case a of A4 w \<Rightarrow> w = 0 | A6 w z \<Rightarrow> w = 0 \<and> z = [])"

definition isGlobalUnicast :: "Addr \<Rightarrow> bool" where
  "isGlobalUnicast a =
     (let u = Unmap a in
      \<not> (case u of A4 w \<Rightarrow> w = 0 \<or> w = 0xFFFFFFFF | A6 _ _ \<Rightarrow> False)
      \<and> \<not> isUnspecified u \<and> \<not> isLoopback u \<and> \<not> isMulticast u \<and> \<not> isLinkLocalUnicast u)"

subsection \<open>Textual forms\<close>

definition parseOctet :: "string \<Rightarrow> nat option" where
  "parseOctet s =
     (if allDigits s \<and> length s \<le> 3 \<and> \<not> (length s > 1 \<and> hd s = CHR ''0'') \<and> digitsValue s < 256
      then Some (digitsValue s) else None)"

definition parse4 :: "string \<Rightarrow> (32 word) option" where
  "parse4 s =
     (case map parseOctet (splitOn ''.'' s) of
        [Some a, Some b, Some c, Some d] \<Rightarrow> Some (of_nat (((a * 256 + b) * 256 + c) * 256 + d))
      | _ \<Rightarrow> None)"

definition hexDigit :: "char \<Rightarrow> nat option" where
  "hexDigit c =
     (let b = byte c in
      if 48 \<le> b \<and> b \<le> 57 then Some (b - 48)
      else if 97 \<le> b \<and> b \<le> 102 then Some (b - 87)
      else if 65 \<le> b \<and> b \<le> 70 then Some (b - 55) else None)"

fun hexValue :: "string \<Rightarrow> nat \<Rightarrow> nat option" where
  "hexValue [] n = Some n"
| "hexValue (c # s) n = (case hexDigit c of None \<Rightarrow> None | Some d \<Rightarrow> hexValue s (n * 16 + d))"

definition parseGroup :: "string \<Rightarrow> nat option" where
  "parseGroup s = (if s = [] \<or> 4 < length s then None else hexValue s 0)"

text \<open>The 16-bit groups of one side of \<open>::\<close>; the last piece may be dotted IPv4.\<close>

fun parseGroups :: "string list \<Rightarrow> nat list option" where
  "parseGroups [] = Some []"
| "parseGroups [s] =
     (if contains s ''.'' then
        (case parse4 s of None \<Rightarrow> None | Some w \<Rightarrow> Some [unat w div 65536, unat w mod 65536])
      else map_option (\<lambda>g. [g]) (parseGroup s))"
| "parseGroups (s # t # ss) =
     (case parseGroup s of None \<Rightarrow> None | Some g \<Rightarrow> map_option (\<lambda>gs. g # gs) (parseGroups (t # ss)))"

definition groupsOf :: "string \<Rightarrow> nat list option" where
  "groupsOf s = (if s = [] then Some [] else parseGroups (splitOn '':'' s))"

definition parse6 :: "string \<Rightarrow> (128 word) option" where
  "parse6 s =
     (let value = (\<lambda>gs. of_nat (foldl (\<lambda>n g. n * 65536 + g) 0 gs)) in
      case indexOf s ''::'' of
        None \<Rightarrow> (case groupsOf s of Some gs \<Rightarrow> if length gs = 8 then Some (value gs) else None | None \<Rightarrow> None)
      | Some i \<Rightarrow>
         (let l = take i s; r = drop (i + 2) s in
          if contains l ''.'' then None
          else case (groupsOf l, groupsOf r) of
            (Some gs, Some hs) \<Rightarrow>
              if length gs + length hs < 8
              then Some (value (gs @ replicate (8 - length gs - length hs) 0 @ hs)) else None
          | _ \<Rightarrow> None))"

definition ParseAddr :: "string \<Rightarrow> Addr option" where
  "ParseAddr s =
     (case List.find (\<lambda>c. c \<in> {CHR ''.'', CHR '':'', CHR ''%''}) s of
        Some c \<Rightarrow>
          if c = CHR ''.'' then map_option A4 (parse4 s)
          else if c = CHR '':'' then
            (case indexOf s ''%'' of
               None \<Rightarrow> map_option (\<lambda>w. A6 w []) (parse6 s)
             | Some i \<Rightarrow>
                 if drop (Suc i) s = [] then None
                 else map_option (\<lambda>w. A6 w (drop (Suc i) s)) (parse6 (take i s)))
          else None
      | None \<Rightarrow> None)"

definition string4 :: "32 word \<Rightarrow> string" where
  "string4 w = join ''.'' (map (\<lambda>k. natDigits (unat w div 256 ^ k mod 256)) [3, 2, 1, 0])"

fun hexDigits :: "nat \<Rightarrow> string" where
  "hexDigits n = (if n < 16 then [''0123456789abcdef'' ! n] else hexDigits (n div 16) @ [''0123456789abcdef'' ! (n mod 16)])"

declare hexDigits.simps [simp del]

definition groups6 :: "128 word \<Rightarrow> nat list" where
  "groups6 w = map (\<lambda>k. unat w div 65536 ^ k mod 65536) [7, 6, 5, 4, 3, 2, 1, 0]"

fun zeroRun :: "nat list \<Rightarrow> nat" where
  "zeroRun (0 # gs) = Suc (zeroRun gs)"
| "zeroRun gs = 0"

text \<open>The start and length of the leftmost longest run of two or more zero groups.\<close>

definition longestZeros :: "nat list \<Rightarrow> nat \<times> nat" where
  "longestZeros gs =
     foldl (\<lambda>(s, l) i. let k = zeroRun (drop i gs) in if l < k \<and> 2 \<le> k then (i, k) else (s, l))
       (0, 0) [0..<length gs]"

definition string6 :: "128 word \<Rightarrow> string" where
  "string6 w =
     (let gs = groups6 w; (s, l) = longestZeros gs; txt = (\<lambda>hs. join '':'' (map hexDigits hs)) in
      if l = 0 then txt gs else txt (take s gs) @ ''::'' @ txt (drop (s + l) gs))"

definition addrString :: "Addr \<Rightarrow> string" where
  "addrString a = (case a of A4 w \<Rightarrow> string4 w
     | A6 w z \<Rightarrow>
        (if drop_bit 32 w = 0xFFFF then ''::ffff:'' @ string4 (ucast w) else string6 w)
        @ (if z = [] then [] else ''%'' @ z))"

subsection \<open>Destinations a host name may not resolve to\<close>

datatype Prefix = P4 "32 word" nat | P6 "128 word" nat

text \<open>The rows of \<open>SpecialPrefixes\<close>, parsed (\<open>netip.MustParsePrefix\<close>).\<close>

definition SpecialPrefixes :: "Prefix list" where
  "SpecialPrefixes =
    [P4 0x00000000 8, P4 0x0A000000 8, P4 0x64400000 10, P4 0x7F000000 8, P4 0xA9FE0000 16,
     P4 0xAC100000 12, P4 0xC0000000 24, P4 0xC0000200 24, P4 0xC0586300 24, P4 0xC0A80000 16,
     P4 0xC6120000 15, P4 0xC6336400 24, P4 0xCB007100 24, P4 0xE0000000 4, P4 0xF0000000 4,
     P6 0 128, P6 1 128, P6 0x0064FF9B000000000000000000000000 96,
     P6 0x0064FF9B000100000000000000000000 48, P6 0x01000000000000000000000000000000 64,
     P6 0x20010000000000000000000000000000 32, P6 0x20010DB8000000000000000000000000 32,
     P6 0x3FFF0000000000000000000000000000 20, P6 0x5F000000000000000000000000000000 16,
     P6 0xFC000000000000000000000000000000 7, P6 0xFE800000000000000000000000000000 10,
     P6 0xFEC00000000000000000000000000000 10, P6 0xFF000000000000000000000000000000 8]"

text \<open>\<open>Prefix.Contains\<close>: families must agree, and an address with a zone is in no prefix.\<close>

definition prefixContains :: "Prefix \<Rightarrow> Addr \<Rightarrow> bool" where
  "prefixContains p a =
     (case (p, a) of
        (P4 b n, A4 w) \<Rightarrow> drop_bit (32 - n) w = drop_bit (32 - n) b
      | (P6 b n, A6 w z) \<Rightarrow> z = [] \<and> drop_bit (128 - n) w = drop_bit (128 - n) b
      | _ \<Rightarrow> False)"

text \<open>\<open>translatedIPv4\<close>: the form \<open>::ffff:0:a.b.c.d\<close>.\<close>

definition translatedIPv4 :: "128 word \<Rightarrow> bool" where
  "translatedIPv4 w \<longleftrightarrow> drop_bit 32 w = 0xFFFF0000"

definition forbidden4 :: "32 word \<Rightarrow> bool" where
  "forbidden4 w \<longleftrightarrow> \<not> isGlobalUnicast (A4 w) \<or> (\<exists>p \<in> set SpecialPrefixes. prefixContains p (A4 w))"

text \<open>\<open>ForbiddenDestination\<close>. Its recursive calls are on IPv4 addresses, which take none of the
  IPv6 branches: \<open>forbidden4\<close> is the function on those.\<close>

definition ForbiddenDestination :: "Addr \<Rightarrow> bool" where
  "ForbiddenDestination a0 =
     (case Unmap a0 of
        A4 w \<Rightarrow> forbidden4 w
      | A6 w z \<Rightarrow>
          if drop_bit 112 w = 0x2002 \<and> forbidden4 (ucast (drop_bit 80 w)) then True
          else if drop_bit 32 w = 0 \<and> drop_bit 8 w \<noteq> 0 then forbidden4 (ucast w)
          else if translatedIPv4 w then forbidden4 (ucast w)
          else \<not> isGlobalUnicast (A6 w z)
            \<or> (\<exists>p \<in> set SpecialPrefixes. prefixContains p (A6 w z)))"

subsection \<open>What is forbidden\<close>

lemma forbidden4_range:
  "P4 b n \<in> set SpecialPrefixes \<Longrightarrow> drop_bit (32 - n) w = drop_bit (32 - n) b \<Longrightarrow> forbidden4 w"
  unfolding forbidden4_def by (rule disjI2, rule bexI [of _ "P4 b n"]) (simp_all add: prefixContains_def)

text \<open>How an IPv4 address may be written inside an IPv6 address.\<close>

definition mapped :: "32 word \<Rightarrow> 128 word" where
  "mapped w = push_bit 32 0xFFFF OR ucast w"

definition compatible :: "32 word \<Rightarrow> 128 word" where
  "compatible w = ucast w"

definition translated :: "32 word \<Rightarrow> 128 word" where
  "translated w = push_bit 32 0xFFFF0000 OR ucast w"

definition sixToFour :: "32 word \<Rightarrow> 80 word \<Rightarrow> 128 word" where
  "sixToFour w rest = push_bit 112 0x2002 OR push_bit 80 (ucast w) OR ucast rest"

lemma high_low_bits:
  fixes w :: "32 word" and h :: "128 word"
  assumes "h < 2 ^ 96"
  shows "drop_bit 32 (push_bit 32 h OR ucast w) = h" "ucast (push_bit 32 h OR ucast w :: 128 word) = w"
proof -
  have h: "\<not> bit h n" if "96 \<le> n" for n
  proof -
    have "take_bit 96 h = h"
      using assms by (simp add: take_bit_eq_mask less_mask_eq)
    then show ?thesis using that by (metis bit_take_bit_iff not_less)
  qed
  show "drop_bit 32 (push_bit 32 h OR ucast w) = h"
    by (rule bit_eqI) (use h not_less in \<open>auto simp: bit_simps dest: bit_imp_le_length\<close>)
  show "ucast (push_bit 32 h OR ucast w :: 128 word) = w"
    by (rule bit_eqI) (auto simp: bit_simps)
qed

lemma mapped_bits: "drop_bit 32 (mapped w) = 0xFFFF" "ucast (mapped w) = w"
  unfolding mapped_def by (rule high_low_bits; simp)+

lemma translated_bits: "drop_bit 32 (translated w) = 0xFFFF0000" "ucast (translated w) = w"
  unfolding translated_def by (rule high_low_bits; simp)+

lemma compatible_bits: "drop_bit 32 (compatible w) = 0" "ucast (compatible w) = w"
  using high_low_bits [of 0 w] by (simp_all add: compatible_def)

lemma sixToFour_bits: "drop_bit 112 (sixToFour w r) = 0x2002" "ucast (drop_bit 80 (sixToFour w r)) = w"
proof -
  have b: "\<not> bit (0x2002 :: 128 word) n" if "16 \<le> n" for n
  proof -
    have "take_bit 16 (0x2002 :: 128 word) = 0x2002" by simp
    then show ?thesis using that by (metis bit_take_bit_iff not_less)
  qed
  show "drop_bit 112 (sixToFour w r) = 0x2002" unfolding sixToFour_def
    by (rule bit_eqI) (use b in \<open>auto simp: bit_simps dest: bit_imp_le_length\<close>)
  have c: "\<not> bit (push_bit 32 (0x2002 :: 128 word)) n" if "n < 32" for n
    using that by (subst bit_push_bit_iff) auto
  show "ucast (drop_bit 80 (sixToFour w r)) = w" unfolding sixToFour_def
    by (rule bit_eqI) (use c in \<open>auto simp: bit_simps dest: bit_imp_le_length\<close>)
qed

end
