(* ===== verification/TextCase.thy ===== *)
theory TextCase
  imports GoText
begin

text \<open>
  The case mapping of \<open>to_lower\<close> and \<open>to_upper\<close>, \<open>internal/textcase\<close>: a table of ranges of code
  points with the distances to their upper and lower case, searched by bisection. The title case
  column of the table is never read by this package and is left out.
\<close>

text \<open>Rows \<open>(Lo, Hi, Delta[UpperCase], Delta[LowerCase])\<close>.\<close>

type_synonym caseRange = "nat \<times> nat \<times> int \<times> int"

definition CaseRanges :: "caseRange list" where
  "CaseRanges =
    [(0x0041, 0x005A, 0, 32), (0x0061, 0x007A, -32, 0),
     (0x00B5, 0x00B5, 743, 0), (0x00C0, 0x00D6, 0, 32),
     (0x00D8, 0x00DE, 0, 32), (0x00E0, 0x00F6, -32, 0),
     (0x00F8, 0x00FE, -32, 0), (0x00FF, 0x00FF, 121, 0),
     (0x0100, 0x012F, 1114112, 1114112), (0x0130, 0x0130, 0, -199),
     (0x0131, 0x0131, -232, 0), (0x0132, 0x0137, 1114112, 1114112),
     (0x0139, 0x0148, 1114112, 1114112), (0x014A, 0x0177, 1114112, 1114112),
     (0x0178, 0x0178, 0, -121), (0x0179, 0x017E, 1114112, 1114112),
     (0x017F, 0x017F, -300, 0), (0x0180, 0x0180, 195, 0),
     (0x0181, 0x0181, 0, 210), (0x0182, 0x0185, 1114112, 1114112),
     (0x0186, 0x0186, 0, 206), (0x0187, 0x0188, 1114112, 1114112),
     (0x0189, 0x018A, 0, 205), (0x018B, 0x018C, 1114112, 1114112),
     (0x018E, 0x018E, 0, 79), (0x018F, 0x018F, 0, 202),
     (0x0190, 0x0190, 0, 203), (0x0191, 0x0192, 1114112, 1114112),
     (0x0193, 0x0193, 0, 205), (0x0194, 0x0194, 0, 207),
     (0x0195, 0x0195, 97, 0), (0x0196, 0x0196, 0, 211),
     (0x0197, 0x0197, 0, 209), (0x0198, 0x0199, 1114112, 1114112),
     (0x019A, 0x019A, 163, 0), (0x019C, 0x019C, 0, 211),
     (0x019D, 0x019D, 0, 213), (0x019E, 0x019E, 130, 0),
     (0x019F, 0x019F, 0, 214), (0x01A0, 0x01A5, 1114112, 1114112),
     (0x01A6, 0x01A6, 0, 218), (0x01A7, 0x01A8, 1114112, 1114112),
     (0x01A9, 0x01A9, 0, 218), (0x01AC, 0x01AD, 1114112, 1114112),
     (0x01AE, 0x01AE, 0, 218), (0x01AF, 0x01B0, 1114112, 1114112),
     (0x01B1, 0x01B2, 0, 217), (0x01B3, 0x01B6, 1114112, 1114112),
     (0x01B7, 0x01B7, 0, 219), (0x01B8, 0x01B9, 1114112, 1114112),
     (0x01BC, 0x01BD, 1114112, 1114112), (0x01BF, 0x01BF, 56, 0),
     (0x01C4, 0x01C4, 0, 2), (0x01C5, 0x01C5, -1, 1),
     (0x01C6, 0x01C6, -2, 0), (0x01C7, 0x01C7, 0, 2),
     (0x01C8, 0x01C8, -1, 1), (0x01C9, 0x01C9, -2, 0),
     (0x01CA, 0x01CA, 0, 2), (0x01CB, 0x01CB, -1, 1),
     (0x01CC, 0x01CC, -2, 0), (0x01CD, 0x01DC, 1114112, 1114112),
     (0x01DD, 0x01DD, -79, 0), (0x01DE, 0x01EF, 1114112, 1114112),
     (0x01F1, 0x01F1, 0, 2), (0x01F2, 0x01F2, -1, 1),
     (0x01F3, 0x01F3, -2, 0), (0x01F4, 0x01F5, 1114112, 1114112),
     (0x01F6, 0x01F6, 0, -97), (0x01F7, 0x01F7, 0, -56),
     (0x01F8, 0x021F, 1114112, 1114112), (0x0220, 0x0220, 0, -130),
     (0x0222, 0x0233, 1114112, 1114112), (0x023A, 0x023A, 0, 10795),
     (0x023B, 0x023C, 1114112, 1114112), (0x023D, 0x023D, 0, -163),
     (0x023E, 0x023E, 0, 10792), (0x023F, 0x0240, 10815, 0),
     (0x0241, 0x0242, 1114112, 1114112), (0x0243, 0x0243, 0, -195),
     (0x0244, 0x0244, 0, 69), (0x0245, 0x0245, 0, 71),
     (0x0246, 0x024F, 1114112, 1114112), (0x0250, 0x0250, 10783, 0),
     (0x0251, 0x0251, 10780, 0), (0x0252, 0x0252, 10782, 0),
     (0x0253, 0x0253, -210, 0), (0x0254, 0x0254, -206, 0),
     (0x0256, 0x0257, -205, 0), (0x0259, 0x0259, -202, 0),
     (0x025B, 0x025B, -203, 0), (0x025C, 0x025C, 42319, 0),
     (0x0260, 0x0260, -205, 0), (0x0261, 0x0261, 42315, 0),
     (0x0263, 0x0263, -207, 0), (0x0265, 0x0265, 42280, 0),
     (0x0266, 0x0266, 42308, 0), (0x0268, 0x0268, -209, 0),
     (0x0269, 0x0269, -211, 0), (0x026A, 0x026A, 42308, 0),
     (0x026B, 0x026B, 10743, 0), (0x026C, 0x026C, 42305, 0),
     (0x026F, 0x026F, -211, 0), (0x0271, 0x0271, 10749, 0),
     (0x0272, 0x0272, -213, 0), (0x0275, 0x0275, -214, 0),
     (0x027D, 0x027D, 10727, 0), (0x0280, 0x0280, -218, 0),
     (0x0282, 0x0282, 42307, 0), (0x0283, 0x0283, -218, 0),
     (0x0287, 0x0287, 42282, 0), (0x0288, 0x0288, -218, 0),
     (0x0289, 0x0289, -69, 0), (0x028A, 0x028B, -217, 0),
     (0x028C, 0x028C, -71, 0), (0x0292, 0x0292, -219, 0),
     (0x029D, 0x029D, 42261, 0), (0x029E, 0x029E, 42258, 0),
     (0x0345, 0x0345, 84, 0), (0x0370, 0x0373, 1114112, 1114112),
     (0x0376, 0x0377, 1114112, 1114112), (0x037B, 0x037D, 130, 0),
     (0x037F, 0x037F, 0, 116), (0x0386, 0x0386, 0, 38),
     (0x0388, 0x038A, 0, 37), (0x038C, 0x038C, 0, 64),
     (0x038E, 0x038F, 0, 63), (0x0391, 0x03A1, 0, 32),
     (0x03A3, 0x03AB, 0, 32), (0x03AC, 0x03AC, -38, 0),
     (0x03AD, 0x03AF, -37, 0), (0x03B1, 0x03C1, -32, 0),
     (0x03C2, 0x03C2, -31, 0), (0x03C3, 0x03CB, -32, 0),
     (0x03CC, 0x03CC, -64, 0), (0x03CD, 0x03CE, -63, 0),
     (0x03CF, 0x03CF, 0, 8), (0x03D0, 0x03D0, -62, 0),
     (0x03D1, 0x03D1, -57, 0), (0x03D5, 0x03D5, -47, 0),
     (0x03D6, 0x03D6, -54, 0), (0x03D7, 0x03D7, -8, 0),
     (0x03D8, 0x03EF, 1114112, 1114112), (0x03F0, 0x03F0, -86, 0),
     (0x03F1, 0x03F1, -80, 0), (0x03F2, 0x03F2, 7, 0),
     (0x03F3, 0x03F3, -116, 0), (0x03F4, 0x03F4, 0, -60),
     (0x03F5, 0x03F5, -96, 0), (0x03F7, 0x03F8, 1114112, 1114112),
     (0x03F9, 0x03F9, 0, -7), (0x03FA, 0x03FB, 1114112, 1114112),
     (0x03FD, 0x03FF, 0, -130), (0x0400, 0x040F, 0, 80),
     (0x0410, 0x042F, 0, 32), (0x0430, 0x044F, -32, 0),
     (0x0450, 0x045F, -80, 0), (0x0460, 0x0481, 1114112, 1114112),
     (0x048A, 0x04BF, 1114112, 1114112), (0x04C0, 0x04C0, 0, 15),
     (0x04C1, 0x04CE, 1114112, 1114112), (0x04CF, 0x04CF, -15, 0),
     (0x04D0, 0x052F, 1114112, 1114112), (0x0531, 0x0556, 0, 48),
     (0x0561, 0x0586, -48, 0), (0x10A0, 0x10C5, 0, 7264),
     (0x10C7, 0x10C7, 0, 7264), (0x10CD, 0x10CD, 0, 7264),
     (0x10D0, 0x10FA, 3008, 0), (0x10FD, 0x10FF, 3008, 0),
     (0x13A0, 0x13EF, 0, 38864), (0x13F0, 0x13F5, 0, 8),
     (0x13F8, 0x13FD, -8, 0), (0x1C80, 0x1C80, -6254, 0),
     (0x1C81, 0x1C81, -6253, 0), (0x1C82, 0x1C82, -6244, 0),
     (0x1C83, 0x1C84, -6242, 0), (0x1C85, 0x1C85, -6243, 0),
     (0x1C86, 0x1C86, -6236, 0), (0x1C87, 0x1C87, -6181, 0),
     (0x1C88, 0x1C88, 35266, 0), (0x1C90, 0x1CBA, 0, -3008),
     (0x1CBD, 0x1CBF, 0, -3008), (0x1D79, 0x1D79, 35332, 0),
     (0x1D7D, 0x1D7D, 3814, 0), (0x1D8E, 0x1D8E, 35384, 0),
     (0x1E00, 0x1E95, 1114112, 1114112), (0x1E9B, 0x1E9B, -59, 0),
     (0x1E9E, 0x1E9E, 0, -7615), (0x1EA0, 0x1EFF, 1114112, 1114112),
     (0x1F00, 0x1F07, 8, 0), (0x1F08, 0x1F0F, 0, -8),
     (0x1F10, 0x1F15, 8, 0), (0x1F18, 0x1F1D, 0, -8),
     (0x1F20, 0x1F27, 8, 0), (0x1F28, 0x1F2F, 0, -8),
     (0x1F30, 0x1F37, 8, 0), (0x1F38, 0x1F3F, 0, -8),
     (0x1F40, 0x1F45, 8, 0), (0x1F48, 0x1F4D, 0, -8),
     (0x1F51, 0x1F51, 8, 0), (0x1F53, 0x1F53, 8, 0),
     (0x1F55, 0x1F55, 8, 0), (0x1F57, 0x1F57, 8, 0),
     (0x1F59, 0x1F59, 0, -8), (0x1F5B, 0x1F5B, 0, -8),
     (0x1F5D, 0x1F5D, 0, -8), (0x1F5F, 0x1F5F, 0, -8),
     (0x1F60, 0x1F67, 8, 0), (0x1F68, 0x1F6F, 0, -8),
     (0x1F70, 0x1F71, 74, 0), (0x1F72, 0x1F75, 86, 0),
     (0x1F76, 0x1F77, 100, 0), (0x1F78, 0x1F79, 128, 0),
     (0x1F7A, 0x1F7B, 112, 0), (0x1F7C, 0x1F7D, 126, 0),
     (0x1F80, 0x1F87, 8, 0), (0x1F88, 0x1F8F, 0, -8),
     (0x1F90, 0x1F97, 8, 0), (0x1F98, 0x1F9F, 0, -8),
     (0x1FA0, 0x1FA7, 8, 0), (0x1FA8, 0x1FAF, 0, -8),
     (0x1FB0, 0x1FB1, 8, 0), (0x1FB3, 0x1FB3, 9, 0),
     (0x1FB8, 0x1FB9, 0, -8), (0x1FBA, 0x1FBB, 0, -74),
     (0x1FBC, 0x1FBC, 0, -9), (0x1FBE, 0x1FBE, -7205, 0),
     (0x1FC3, 0x1FC3, 9, 0), (0x1FC8, 0x1FCB, 0, -86),
     (0x1FCC, 0x1FCC, 0, -9), (0x1FD0, 0x1FD1, 8, 0),
     (0x1FD8, 0x1FD9, 0, -8), (0x1FDA, 0x1FDB, 0, -100),
     (0x1FE0, 0x1FE1, 8, 0), (0x1FE5, 0x1FE5, 7, 0),
     (0x1FE8, 0x1FE9, 0, -8), (0x1FEA, 0x1FEB, 0, -112),
     (0x1FEC, 0x1FEC, 0, -7), (0x1FF3, 0x1FF3, 9, 0),
     (0x1FF8, 0x1FF9, 0, -128), (0x1FFA, 0x1FFB, 0, -126),
     (0x1FFC, 0x1FFC, 0, -9), (0x2126, 0x2126, 0, -7517),
     (0x212A, 0x212A, 0, -8383), (0x212B, 0x212B, 0, -8262),
     (0x2132, 0x2132, 0, 28), (0x214E, 0x214E, -28, 0),
     (0x2160, 0x216F, 0, 16), (0x2170, 0x217F, -16, 0),
     (0x2183, 0x2184, 1114112, 1114112), (0x24B6, 0x24CF, 0, 26),
     (0x24D0, 0x24E9, -26, 0), (0x2C00, 0x2C2F, 0, 48),
     (0x2C30, 0x2C5F, -48, 0), (0x2C60, 0x2C61, 1114112, 1114112),
     (0x2C62, 0x2C62, 0, -10743), (0x2C63, 0x2C63, 0, -3814),
     (0x2C64, 0x2C64, 0, -10727), (0x2C65, 0x2C65, -10795, 0),
     (0x2C66, 0x2C66, -10792, 0), (0x2C67, 0x2C6C, 1114112, 1114112),
     (0x2C6D, 0x2C6D, 0, -10780), (0x2C6E, 0x2C6E, 0, -10749),
     (0x2C6F, 0x2C6F, 0, -10783), (0x2C70, 0x2C70, 0, -10782),
     (0x2C72, 0x2C73, 1114112, 1114112), (0x2C75, 0x2C76, 1114112, 1114112),
     (0x2C7E, 0x2C7F, 0, -10815), (0x2C80, 0x2CE3, 1114112, 1114112),
     (0x2CEB, 0x2CEE, 1114112, 1114112), (0x2CF2, 0x2CF3, 1114112, 1114112),
     (0x2D00, 0x2D25, -7264, 0), (0x2D27, 0x2D27, -7264, 0),
     (0x2D2D, 0x2D2D, -7264, 0), (0xA640, 0xA66D, 1114112, 1114112),
     (0xA680, 0xA69B, 1114112, 1114112), (0xA722, 0xA72F, 1114112, 1114112),
     (0xA732, 0xA76F, 1114112, 1114112), (0xA779, 0xA77C, 1114112, 1114112),
     (0xA77D, 0xA77D, 0, -35332), (0xA77E, 0xA787, 1114112, 1114112),
     (0xA78B, 0xA78C, 1114112, 1114112), (0xA78D, 0xA78D, 0, -42280),
     (0xA790, 0xA793, 1114112, 1114112), (0xA794, 0xA794, 48, 0),
     (0xA796, 0xA7A9, 1114112, 1114112), (0xA7AA, 0xA7AA, 0, -42308),
     (0xA7AB, 0xA7AB, 0, -42319), (0xA7AC, 0xA7AC, 0, -42315),
     (0xA7AD, 0xA7AD, 0, -42305), (0xA7AE, 0xA7AE, 0, -42308),
     (0xA7B0, 0xA7B0, 0, -42258), (0xA7B1, 0xA7B1, 0, -42282),
     (0xA7B2, 0xA7B2, 0, -42261), (0xA7B3, 0xA7B3, 0, 928),
     (0xA7B4, 0xA7C3, 1114112, 1114112), (0xA7C4, 0xA7C4, 0, -48),
     (0xA7C5, 0xA7C5, 0, -42307), (0xA7C6, 0xA7C6, 0, -35384),
     (0xA7C7, 0xA7CA, 1114112, 1114112), (0xA7D0, 0xA7D1, 1114112, 1114112),
     (0xA7D6, 0xA7D9, 1114112, 1114112), (0xA7F5, 0xA7F6, 1114112, 1114112),
     (0xAB53, 0xAB53, -928, 0), (0xAB70, 0xABBF, -38864, 0),
     (0xFF21, 0xFF3A, 0, 32), (0xFF41, 0xFF5A, -32, 0),
     (0x10400, 0x10427, 0, 40), (0x10428, 0x1044F, -40, 0),
     (0x104B0, 0x104D3, 0, 40), (0x104D8, 0x104FB, -40, 0),
     (0x10570, 0x1057A, 0, 39), (0x1057C, 0x1058A, 0, 39),
     (0x1058C, 0x10592, 0, 39), (0x10594, 0x10595, 0, 39),
     (0x10597, 0x105A1, -39, 0), (0x105A3, 0x105B1, -39, 0),
     (0x105B3, 0x105B9, -39, 0), (0x105BB, 0x105BC, -39, 0),
     (0x10C80, 0x10CB2, 0, 64), (0x10CC0, 0x10CF2, -64, 0),
     (0x118A0, 0x118BF, 0, 32), (0x118C0, 0x118DF, -32, 0),
     (0x16E40, 0x16E5F, 0, 32), (0x16E60, 0x16E7F, -32, 0),
     (0x1E900, 0x1E921, 0, 34), (0x1E922, 0x1E943, -34, 0)]"

definition MaxRune :: int where "MaxRune = 0x10FFFF"

text \<open>\<open>c\<close> is 0 for upper and 1 for lower case. In an alternating range upper case is at even
  offsets: \<open>(r - Lo) &^ 1 | (c & 1)\<close>.\<close>

definition caseDelta :: "nat \<Rightarrow> caseRange \<Rightarrow> rune \<Rightarrow> rune" where
  "caseDelta c cr r =
     (case cr of (lo, hi, up, low) \<Rightarrow>
        let delta = (if c = 0 then up else low) in
        if delta > MaxRune then lo + (2 * ((r - lo) div 2) + c mod 2)
        else nat (int r + delta))"

definition inRange :: "caseRange \<Rightarrow> rune \<Rightarrow> bool" where
  "inRange cr r = (case cr of (lo, hi, _, _) \<Rightarrow> lo \<le> r \<and> r \<le> hi)"

function searchCase :: "caseRange list \<Rightarrow> nat \<Rightarrow> rune \<Rightarrow> nat \<Rightarrow> nat \<Rightarrow> rune" where
  "searchCase tab c r lo hi =
     (if lo < hi then
        let m = (lo + hi) div 2; cr = tab ! m in
        if inRange cr r then caseDelta c cr r
        else if r < fst cr then searchCase tab c r lo m
        else searchCase tab c r (m + 1) hi
      else r)"
  by pat_completeness auto
termination
  by (relation "measure (\<lambda>(tab, c, r, lo, hi). hi - lo)") auto

declare searchCase.simps [simp del]

definition caseTo :: "nat \<Rightarrow> rune \<Rightarrow> rune" where
  "caseTo c r = searchCase CaseRanges c r 0 (length CaseRanges)"

definition LowerRune :: "rune \<Rightarrow> rune" where
  "LowerRune r = (if r \<le> 127 then (if 65 \<le> r \<and> r \<le> 90 then r + 32 else r) else caseTo 1 r)"

definition UpperRune :: "rune \<Rightarrow> rune" where
  "UpperRune r = (if r \<le> 127 then (if 97 \<le> r \<and> r \<le> 122 then r - 32 else r) else caseTo 0 r)"

text \<open>\<open>strings.Map\<close>: an invalid byte is read as the error rune and written as its encoding.\<close>

definition mapRunes :: "(rune \<Rightarrow> rune) \<Rightarrow> string \<Rightarrow> string" where
  "mapRunes f s = concat (map (\<lambda>(r, _). encodeRune (f r)) (runesOf s))"

definition ToLower :: "string \<Rightarrow> string" where "ToLower s = mapRunes LowerRune s"
definition ToUpper :: "string \<Rightarrow> string" where "ToUpper s = mapRunes UpperRune s"

subsection \<open>Bisection finds what a linear search finds\<close>

definition wfTable :: "caseRange list \<Rightarrow> bool" where
  "wfTable tab \<longleftrightarrow>
     (\<forall>cr \<in> set tab. fst cr \<le> fst (snd cr)) \<and>
     (\<forall>i j. i < j \<and> j < length tab \<longrightarrow> fst (snd (tab ! i)) < fst (tab ! j))"

definition linearCase :: "caseRange list \<Rightarrow> nat \<Rightarrow> rune \<Rightarrow> rune" where
  "linearCase tab c r =
     (case List.find (\<lambda>cr. inRange cr r) tab of Some cr \<Rightarrow> caseDelta c cr r | None \<Rightarrow> r)"

text \<open>Adjacent rows in order are enough for the whole table.\<close>

fun ascending :: "caseRange list \<Rightarrow> bool" where
  "ascending (a # b # t) = (fst a \<le> fst (snd a) \<and> fst (snd a) < fst b \<and> ascending (b # t))"
| "ascending [a] = (fst a \<le> fst (snd a))"
| "ascending [] = True"

lemma ascending_bounds:
  "ascending (a # t) \<Longrightarrow> fst a \<le> fst (snd a) \<and> (\<forall>x \<in> set t. fst (snd a) < fst x \<and> fst x \<le> fst (snd x))"
proof (induction t arbitrary: a)
  case (Cons b t)
  then have "fst (snd a) < fst b" "ascending (b # t)" "fst a \<le> fst (snd a)" by auto
  with Cons.IH [of b] show ?case by fastforce
qed simp

lemma ascending_tl: "ascending (a # t) \<Longrightarrow> ascending t"
  by (cases t) auto

lemma ascending_sorted:
  "ascending tab \<Longrightarrow> i < j \<Longrightarrow> j < length tab \<Longrightarrow> fst (snd (tab ! i)) < fst (tab ! j)"
proof (induction tab arbitrary: i j)
  case (Cons a t)
  show ?case
  proof (cases i)
    case 0
    with Cons.prems ascending_bounds [OF Cons.prems(1)] show ?thesis
      by (cases j) auto
  next
    case (Suc i')
    with Cons ascending_tl [OF Cons.prems(1)] show ?thesis by (cases j) auto
  qed
qed simp

lemma ascending_wf: "ascending tab \<Longrightarrow> wfTable tab"
  unfolding wfTable_def
proof (intro conjI allI impI ballI)
  fix cr assume "ascending tab" "cr \<in> set tab"
  then show "fst cr \<le> fst (snd cr)"
    by (cases tab) (auto dest: ascending_bounds)
qed (auto intro: ascending_sorted)

lemma inRange_iff: "inRange cr r \<longleftrightarrow> fst cr \<le> r \<and> r \<le> fst (snd cr)"
  by (simp add: inRange_def split: prod.split)

lemma inRange_unique_aux:
  assumes "wfTable tab" "j < length tab" "inRange (tab ! i) r" "inRange (tab ! j) r"
  shows "\<not> i < j"
proof
  assume "i < j"
  with assms(1,2) have "fst (snd (tab ! i)) < fst (tab ! j)" by (simp add: wfTable_def)
  with assms(3,4) show False by (simp add: inRange_iff)
qed

lemma inRange_unique:
  assumes "wfTable tab" "i < length tab" "j < length tab" "inRange (tab ! i) r" "inRange (tab ! j) r"
  shows "i = j"
  using inRange_unique_aux [OF assms(1,3,4,5)] inRange_unique_aux [OF assms(1,2,5,4)] by linarith

lemma linearCase_hit:
  assumes "wfTable tab" "i < length tab" "inRange (tab ! i) r"
  shows "linearCase tab c r = caseDelta c (tab ! i) r"
proof -
  have "\<not> inRange (tab ! j) r" if "j < i" for j
    using that inRange_unique [OF assms(1), of j i r] assms(2,3) by force
  with assms(2,3) have "List.find (\<lambda>cr. inRange cr r) tab = Some (tab ! i)"
    by (auto simp: find_Some_iff)
  then show ?thesis by (simp add: linearCase_def)
qed

lemma linearCase_miss:
  assumes "\<forall>i < length tab. \<not> inRange (tab ! i) r"
  shows "linearCase tab c r = r"
proof -
  have "List.find (\<lambda>cr. inRange cr r) tab = None"
    using assms by (auto simp: find_None_iff in_set_conv_nth)
  then show ?thesis by (simp add: linearCase_def)
qed

lemma inRange_below:
  assumes "wfTable tab" "i < length tab" "inRange (tab ! i) r" "lo \<le> m" "m < hi" "m < length tab"
    "r < fst (tab ! m)"
  shows "i < m"
proof (rule ccontr)
  assume "\<not> i < m"
  then consider "i = m" | "m < i" by linarith
  then show False
  proof cases
    case 2
    have "fst (snd (tab ! m)) < fst (tab ! i)" "fst (tab ! m) \<le> fst (snd (tab ! m))"
      using assms 2 by (auto simp: wfTable_def)
    with assms(3,7) show False by (simp add: inRange_iff)
  qed (use assms(3,7) in \<open>simp add: inRange_iff\<close>)
qed

lemma inRange_above:
  assumes "wfTable tab" "i < length tab" "inRange (tab ! i) r" "lo \<le> m" "m < hi" "m < length tab"
    "\<not> r < fst (tab ! m)" "\<not> inRange (tab ! m) r"
  shows "m < i"
proof (rule ccontr)
  assume "\<not> m < i"
  then consider "i = m" | "i < m" by linarith
  then show False
  proof cases
    case 2
    have "fst (snd (tab ! i)) < fst (tab ! m)" using assms 2 by (auto simp: wfTable_def)
    with assms(3,7) show False by (simp add: inRange_iff)
  qed (use assms(3,8) in auto)
qed

lemma searchCase_linear:
  "wfTable tab \<Longrightarrow> hi \<le> length tab \<Longrightarrow>
    \<forall>i < length tab. inRange (tab ! i) r \<longrightarrow> lo \<le> i \<and> i < hi \<Longrightarrow>
    searchCase tab c r lo hi = linearCase tab c r"
proof (induction tab c r lo hi rule: searchCase.induct)
  case (1 tab c r lo hi)
  note wf = "1.prems"(1)
  show ?case
  proof (cases "lo < hi")
    case False
    with "1.prems"(3) have "\<forall>i < length tab. \<not> inRange (tab ! i) r" by fastforce
    with False show ?thesis by (simp add: searchCase.simps linearCase_miss)
  next
    case True
    define m where "m = (lo + hi) div 2"
    have m: "lo \<le> m" "m < hi" "m < length tab" using True "1.prems"(2) by (auto simp: m_def)
    show ?thesis
    proof (cases "inRange (tab ! m) r")
      case hit: True
      then show ?thesis
        using True linearCase_hit [OF wf m(3) hit] by (simp add: searchCase.simps Let_def m_def)
    next
      case miss: False
      show ?thesis
      proof (cases "r < fst (tab ! m)")
        case below: True
        have "i < m" if "i < length tab" "inRange (tab ! i) r" for i
          using wf that m below by (rule inRange_below)
        then have "searchCase tab c r lo m = linearCase tab c r"
          using "1.IH"(1) [OF True m_def refl _ below wf] "1.prems"(3) m miss by auto
        with True miss below show ?thesis
          by (subst searchCase.simps) (simp add: Let_def m_def)
      next
        case above: False
        have "m < i" if "i < length tab" "inRange (tab ! i) r" for i
          using wf that m above miss by (rule inRange_above)
        then have "searchCase tab c r (m + 1) hi = linearCase tab c r"
          using "1.IH"(2) [OF True m_def refl _ above wf] "1.prems" miss by fastforce
        with True miss above show ?thesis
          by (subst searchCase.simps) (simp add: Let_def m_def)
      qed
    qed
  qed
qed

lemma CaseRanges_wf: "wfTable CaseRanges"
  by (rule ascending_wf) (simp add: CaseRanges_def)

text \<open>C34. The bisection over the case table finds what a search of every row finds, for every code
  point and both cases: the rows are in order and disjoint, so at most one row holds a code point,
  and code points outside all rows map to themselves.\<close>

theorem caseTo_linear: "caseTo c r = linearCase CaseRanges c r"
  unfolding caseTo_def by (rule searchCase_linear [OF CaseRanges_wf]) auto

end
