(* ===== verification/Capability.thy ===== *)
theory Capability
  imports GoPath NetAddr TextCase
begin

text \<open>
  The grant language and its decisions, \<open>internal/capability\<close>: the coarse classes, the scoped
  grants (\<open>network:fetch=\<close>, \<open>process:exec=\<close>, \<open>process:env=\<close>, \<open>filesystem:read=\<close>,
  \<open>filesystem:write=\<close>), \<open>ParseGrant\<close>, \<open>Grants.Has\<close>, the exec, fetch and path decisions and
  \<open>Attenuate\<close>. The host is a parameter (\<open>osenv\<close>): the working directory, the result of
  \<open>filepath.EvalSymlinks\<close> and whether \<open>os.Lstat\<close> succeeds.
\<close>

type_synonym Capability = string
type_synonym Grants = "Capability list"

definition None_cap :: Capability where "None_cap = []"
definition Network :: Capability where "Network = ''network''"
definition Filesystem :: Capability where "Filesystem = ''filesystem''"
definition Process :: Capability where "Process = ''process''"
definition Environment :: Capability where "Environment = ''environment''"
definition Database :: Capability where "Database = ''database''"

lemmas cap_defs = None_cap_def Network_def Filesystem_def Process_def Environment_def Database_def

definition AllCaps :: "Capability list" where
  "AllCaps = [Network, Filesystem, Process, Environment, Database]"

definition ForConstruct :: "string \<Rightarrow> Capability" where
  "ForConstruct name =
     (if name \<in> {''db_connect'', ''sql_query'', ''store_open'', ''store_put'', ''store_get'',
                 ''store_delete'', ''store_keys''} then Database
      else if name \<in> {''fetch'', ''http_request'', ''http_server_start'', ''http_route'',
                 ''http_server_serve'', ''port_available'', ''llm_generate'', ''achieve'',
                 ''confidence'', ''neural_circuit'', ''ephemeral_circuit''} then Network
      else if name \<in> {''read_file'', ''write_file'', ''mkdir''} then Filesystem
      else if name \<in> {''exec'', ''spawn'', ''spawn_agent''} then Process
      else if name = ''env'' then Environment
      else None_cap)"

text \<open>\<open>StoreRequirements\<close>: \<open>None\<close> is the pair \<open>(nil, false)\<close>.\<close>

definition StoreRequirements :: "string \<Rightarrow> Capability list option" where
  "StoreRequirements uri =
     (if hasPrefix uri ''memory://'' \<and> length uri > length ''memory://'' then Some [Database]
      else if hasPrefix uri ''file://'' \<and> length uri > length ''file://'' then Some [Database, Filesystem]
      else None)"

subsection \<open>Exec grants\<close>

datatype grant_error =
    CodeLoadingEnv string
  | UnknownCapability string
  | FetchSpecError string
  | ExecSpecError string
  | ExecProgramError string

definition ExecGrantPrefix :: string where "ExecGrantPrefix = ''process:exec=''"

definition parseExecSpec :: "string \<Rightarrow> grant_error + (string \<times> string list)" where
  "parseExecSpec spec =
     (case fields spec of
        [] \<Rightarrow> Inl (ExecSpecError ''process:exec grant needs a program path'')
      | program # pats \<Rightarrow>
          if \<not> isAbs program \<or> Clean program \<noteq> program
          then Inl (ExecProgramError program)
          else if \<exists>i < length pats. pats ! i = ''**'' \<and> i \<noteq> length pats - 1
          then Inl (ExecSpecError ''process:exec pattern ** must be the last token'')
          else Inr (program, pats))"

text \<open>The Go triple \<open>(capability, ok, err)\<close>: \<open>None\<close> when the prefix does not apply.\<close>

definition parseExecGrant :: "string \<Rightarrow> (grant_error + Capability) option" where
  "parseExecGrant raw =
     (if \<not> hasPrefix raw ExecGrantPrefix then None
      else Some (rbind (parseExecSpec (trimPrefix raw ExecGrantPrefix)) (\<lambda>(program, pats).
        Inr (ExecGrantPrefix @ join '' '' (program # pats)))))"

definition slotMatches :: "string \<Rightarrow> string \<Rightarrow> bool" where
  "slotMatches p arg =
     (if p = ''*'' then arg \<noteq> [] \<and> \<not> hasPrefix arg ''-''
      else if hasPrefix p [CHR 0x5C] then arg = drop 1 p
      else p = arg)"

fun argvMatches :: "string list \<Rightarrow> string list \<Rightarrow> bool" where
  "argvMatches [] args = (args = [])"
| "argvMatches (p # pats) args =
     (if p = ''**'' then True
      else case args of [] \<Rightarrow> False | a # rest \<Rightarrow> slotMatches p a \<and> argvMatches pats rest)"

subsection \<open>Environment grants\<close>

definition EnvGrantPrefix :: string where "EnvGrantPrefix = ''process:env=''"

definition CodeLoadingEnvNames :: "string list" where
  "CodeLoadingEnvNames =
    [''BASH_ENV'', ''ENV'', ''SHELLOPTS'', ''BASHOPTS'', ''PS4'', ''PROMPT_COMMAND'', ''IFS'', ''CDPATH'',
     ''GLOBIGNORE'', ''ZDOTDIR'',
     ''PATH'', ''HOME'', ''XDG_CONFIG_HOME'', ''XDG_CONFIG_DIRS'', ''XDG_DATA_HOME'', ''XDG_DATA_DIRS'',
     ''PYTHONPATH'', ''PYTHONHOME'', ''PYTHONSTARTUP'', ''PYTHONUSERBASE'', ''PYTHONINSPECT'',
     ''PYTHONWARNINGS'', ''PYTHONBREAKPOINT'', ''PYTHONEXECUTABLE'',
     ''NODE_OPTIONS'', ''NODE_PATH'', ''NODE_EXTRA_CA_CERTS'', ''NODE_TLS_REJECT_UNAUTHORIZED'',
     ''NODE_REPL_EXTERNAL_MODULE'',
     ''PERL5LIB'', ''PERLLIB'', ''PERL5OPT'', ''PERL5DB'', ''RUBYOPT'', ''RUBYLIB'',
     ''GOFLAGS'', ''GODEBUG'', ''GOROOT'', ''GOPATH'', ''GOTOOLCHAIN'', ''GOENV'', ''JAVA_TOOL_OPTIONS'',
     ''_JAVA_OPTIONS'', ''JDK_JAVA_OPTIONS'', ''CLASSPATH'',
     ''GCONV_PATH'', ''LOCPATH'', ''NLSPATH'', ''HOSTALIASES'', ''RESOLV_HOST_CONF'',
     ''SSL_CERT_FILE'', ''SSL_CERT_DIR'', ''CURL_CA_BUNDLE'', ''REQUESTS_CA_BUNDLE'',
     ''PAGER'', ''EDITOR'', ''VISUAL'', ''LESSOPEN'', ''LESSCLOSE'', ''BROWSER'', ''SHELL'',
     ''SSH_ASKPASS'', ''SUDO_ASKPASS'',
     ''TMPDIR'', ''TMP'', ''TEMP'', ''RES_OPTIONS'', ''LOCALDOMAIN'', ''TERMINFO'', ''TERMINFO_DIRS'', ''MANPATH'',
     ''GOPROXY'', ''GOPRIVATE'', ''GONOPROXY'', ''GONOSUMDB'', ''GONOSUMCHECK'', ''GOSUMDB'', ''GOINSECURE'',
     ''GOAUTH'', ''GOCACHE'', ''GOMODCACHE'', ''GOBIN'', ''GOEXPERIMENT'', ''GOWORK'', ''GOVCS'',
     ''RUSTFLAGS'', ''RUSTDOCFLAGS'', ''RUSTC'', ''RUSTC_WRAPPER'', ''RUSTC_WORKSPACE_WRAPPER'',
     ''CC'', ''CXX'', ''CFLAGS'', ''CXXFLAGS'', ''CPPFLAGS'', ''LDFLAGS'', ''MAKEFLAGS'',
     ''COMSPEC'', ''PATHEXT'', ''WGETRC'']"

definition CodeLoadingEnvPrefixes :: "string list" where
  "CodeLoadingEnvPrefixes =
    [''LD_'', ''DYLD_'', ''GIT_'', ''BASH_FUNC_'', ''LUA_'',
     ''OPENSSL_'', ''GLIBC_'', ''MALLOC_'', ''SSL_'', ''CURL_'',
     ''PYTHON'', ''PIP_'', ''NODE_'', ''NPM_CONFIG_'', ''YARN_'', ''PERL'', ''RUBY'', ''GEM_'', ''BUNDLE_'',
     ''PHP'', ''ERL_'',
     ''JAVA_'', ''JDK_'', ''CARGO_'', ''RUSTUP_'', ''DOTNET_'', ''COMPLUS_'', ''CORECLR_'']"

definition CodeLoadingEnvSuffixes :: "string list" where
  "CodeLoadingEnvSuffixes = [''_PROXY'']"

definition DynamicLoaderEnv :: "string \<Rightarrow> bool" where
  "DynamicLoaderEnv name =
     (let u = ToUpper name in
      u \<in> set CodeLoadingEnvNames
      \<or> (\<exists>p \<in> set CodeLoadingEnvPrefixes. hasPrefix u p)
      \<or> (\<exists>s \<in> set CodeLoadingEnvSuffixes. hasSuffix u s))"

fun envNameChars :: "nat \<Rightarrow> string \<Rightarrow> bool" where
  "envNameChars i [] = True"
| "envNameChars i (c # s) =
     ((c = CHR ''_'' \<or> isAsciiLetter (byte c) \<or> (i > 0 \<and> isAsciiDigit (byte c))) \<and> envNameChars (Suc i) s)"

definition validEnvName :: "string \<Rightarrow> bool" where
  "validEnvName name = (if name = [] \<or> DynamicLoaderEnv name then False else envNameChars 0 name)"

text \<open>The loop of \<open>ExecEnv\<close>: \<open>seen\<close> holds the names already handled.\<close>

fun execEnvLoop :: "Grants \<Rightarrow> (string \<Rightarrow> string option) \<Rightarrow> string list \<Rightarrow> string list" where
  "execEnvLoop [] env seen = []"
| "execEnvLoop (g # gs) env seen =
     (case cutPrefix g EnvGrantPrefix of
        None \<Rightarrow> execEnvLoop gs env seen
      | Some name \<Rightarrow>
          if \<not> validEnvName name \<or> name \<in> set seen then execEnvLoop gs env seen
          else (case env name of None \<Rightarrow> [] | Some v \<Rightarrow> [name @ ''='' @ v])
               @ execEnvLoop gs env (name # seen))"

definition ExecEnv :: "Grants \<Rightarrow> (string \<Rightarrow> string option) \<Rightarrow> string list" where
  "ExecEnv g env = execEnvLoop g env []"

subsection \<open>Fetch grants\<close>

definition FetchGrantPrefix :: string where "FetchGrantPrefix = ''network:fetch=''"

record fetchTarget =
  t_host :: string
  t_port :: string
  t_ip :: bool

definition targetString :: "fetchTarget \<Rightarrow> string" where
  "targetString t =
     (let h = (if contains (t_host t) '':'' then ''['' @ t_host t @ '']'' else t_host t) in
      if t_port t = [] then h else h @ '':'' @ t_port t)"

definition looksNumeric :: "string \<Rightarrow> bool" where
  "looksNumeric h =
     (if h = [] then False
      else let last = (case lastIndexByte h (CHR ''.'') of Some i \<Rightarrow> drop (Suc i) h | None \<Rightarrow> h) in
        if last = [] then True else isAsciiDigit (byte (hd last)))"

definition validHostname :: "string \<Rightarrow> bool" where
  "validHostname h =
     (if length h = 0 \<or> length h > 253 \<or> hasSuffix h ''.'' \<or> hasPrefix h ''.'' then False
      else \<forall>label \<in> set (splitOn ''.'' h).
        \<not> (label = [] \<or> length label > 63 \<or> hd label = CHR ''-'' \<or> last label = CHR ''-'')
        \<and> (\<forall>r \<in> set label. r = CHR ''-'' \<or> (97 \<le> byte r \<and> byte r \<le> 122) \<or> isAsciiDigit (byte r)))"

definition canonicalIP :: "Addr \<Rightarrow> string" where
  "canonicalIP a = addrString (if is4In6 a then Unmap a else a)"

text \<open>\<open>normalizeHost\<close>: the host and whether it is an IP literal.\<close>

definition normalizeHost :: "string \<Rightarrow> string + (string \<times> bool)" where
  "normalizeHost h =
     (if hasPrefix h ''['' then
        (if \<not> hasSuffix h '']'' then Inl ''bad IPv6 literal''
         else case ParseAddr (take (length h - 2) (drop 1 h)) of
           None \<Rightarrow> Inl ''bad IPv6 literal''
         | Some addr \<Rightarrow> if \<not> is6 addr \<or> zone addr \<noteq> [] then Inl ''bad IPv6 literal''
                        else Inr (canonicalIP addr, True))
      else case ParseAddr h of
        Some addr \<Rightarrow>
          if \<not> is4 addr then Inl ''IPv6 literals must be bracketed'' else Inr (canonicalIP addr, True)
      | None \<Rightarrow>
          (let h' = ToLower h in
           if hasSuffix h' ''.'' then Inl ''invalid host name: trailing dot''
           else if looksNumeric h' then Inl ''ambiguous numeric host''
           else if \<not> validHostname h' then Inl ''invalid host name''
           else Inr (h', False)))"

definition validPort :: "string \<Rightarrow> bool" where
  "validPort p = (case parseInt p of None \<Rightarrow> False | Some n \<Rightarrow> n \<ge> 1 \<and> n \<le> 65535 \<and> itoa n = p)"

definition splitHostPort :: "string \<Rightarrow> string + (string \<times> string)" where
  "splitHostPort s =
     (if hasPrefix s ''['' then
        (case indexOf s '']'' of
           None \<Rightarrow> Inl ''bad IPv6 literal''
         | Some e \<Rightarrow>
             (let h = take (Suc e) s; rest = drop (Suc e) s in
              if rest = [] then Inr (h, [])
              else if \<not> hasPrefix rest '':'' then Inl ''bad port''
              else Inr (h, drop 1 rest)))
      else case lastIndexByte s (CHR '':'') of
        Some i \<Rightarrow> Inr (take i s, drop (Suc i) s)
      | None \<Rightarrow> Inr (s, []))"

definition parseFetchSpec :: "string \<Rightarrow> grant_error + fetchTarget" where
  "parseFetchSpec spec =
     (if spec = [] \<or> containsAny spec (''/@?#*% '' @ [CHR 0x09, CHR 0x5C])
      then Inl (FetchSpecError ''network:fetch grant must be host[:port] with no scheme, path, wildcard or userinfo'')
      else case splitHostPort spec of
        Inl err \<Rightarrow> Inl (FetchSpecError (''network:fetch grant: '' @ err))
      | Inr (h, p) \<Rightarrow>
          if p \<noteq> [] \<and> \<not> validPort p then Inl (FetchSpecError ''network:fetch grant: invalid port'')
          else if contains spec '':'' \<and> \<not> hasPrefix spec ''['' \<and> p = []
          then Inl (FetchSpecError ''network:fetch grant: empty port'')
          else case normalizeHost h of
            Inl err \<Rightarrow> Inl (FetchSpecError (''network:fetch grant: '' @ err))
          | Inr (ho, isip) \<Rightarrow> Inr \<lparr>t_host = ho, t_port = p, t_ip = isip\<rparr>)"

definition parseFetchGrant :: "string \<Rightarrow> (grant_error + Capability) option" where
  "parseFetchGrant raw =
     (case cutPrefix raw FetchGrantPrefix of
        None \<Rightarrow> None
      | Some spec \<Rightarrow> Some (rbind (parseFetchSpec spec) (\<lambda>t. Inr (FetchGrantPrefix @ targetString t))))"

definition HasFetch :: "Grants \<Rightarrow> bool" where
  "HasFetch g = (\<exists>grant \<in> set g. case parseFetchGrant grant of Some (Inr _) \<Rightarrow> True | _ \<Rightarrow> False)"

text \<open>A parsed URL, as far as the decisions read it (\<open>*url.URL\<close>; \<open>None\<close> is nil).\<close>

record URL =
  u_Scheme :: string
  u_Host :: string
  u_User :: bool

record FetchDenied =
  fd_Reason :: string
  fd_Required :: string

definition denyURL :: "string \<Rightarrow> FetchDenied" where
  "denyURL reason = \<lparr>fd_Reason = ''network: '' @ reason, fd_Required = FetchGrantPrefix @ ''<invalid-url>''\<rparr>"

definition urlTarget :: "URL option \<Rightarrow> FetchDenied + fetchTarget" where
  "urlTarget u0 =
     (case u0 of
        None \<Rightarrow> Inl (denyURL ''fetch URL is invalid'')
      | Some u \<Rightarrow>
         (let scheme = ToLower (u_Scheme u) in
          if scheme \<noteq> ''http'' \<and> scheme \<noteq> ''https'' then Inl (denyURL ''fetch URL scheme must be http or https'')
          else if u_Host u = [] then Inl (denyURL ''fetch URL has no host'')
          else case splitHostPort (u_Host u) of
            Inl _ \<Rightarrow> Inl (denyURL ''fetch URL host is invalid'')
          | Inr (h, p) \<Rightarrow>
              if h = [] then Inl (denyURL ''fetch URL host is invalid'')
              else if p = [] \<and> hasSuffix (u_Host u) '':'' then Inl (denyURL ''fetch URL port is invalid'')
              else if p \<noteq> [] \<and> \<not> validPort p then Inl (denyURL ''fetch URL port is invalid'')
              else
                (let p' = (if p = [] then (if scheme = ''https'' then ''443'' else ''80'') else p) in
                 case normalizeHost h of
                   Inl err \<Rightarrow> Inl (denyURL (''fetch URL host is invalid ('' @ err @ '')''))
                 | Inr (ho, isip) \<Rightarrow> Inr \<lparr>t_host = ho, t_port = p', t_ip = isip\<rparr>)))"

definition defaultPort :: "string \<Rightarrow> string" where
  "defaultPort scheme = (if ToLower scheme = ''https'' then ''443'' else ''80'')"

text \<open>The loop of \<open>AuthorizeFetch\<close> over the grants; a grant that does not parse is skipped, and the
  zero target of a failed second parse matches no host.\<close>

fun fetchMatch :: "Grants \<Rightarrow> fetchTarget \<Rightarrow> string \<Rightarrow> Capability option" where
  "fetchMatch [] t scheme = None"
| "fetchMatch (grant # gs) t scheme =
     (case parseFetchGrant grant of
        Some (Inr parsed) \<Rightarrow>
          (let gt = (case parseFetchSpec (trimPrefix parsed FetchGrantPrefix) of
                       Inr x \<Rightarrow> x | Inl _ \<Rightarrow> \<lparr>t_host = [], t_port = [], t_ip = False\<rparr>) in
           if t_host gt \<noteq> t_host t then fetchMatch gs t scheme
           else if t_port gt = t_port t \<or> (t_port gt = [] \<and> t_port t = defaultPort scheme) then Some parsed
           else fetchMatch gs t scheme)
      | _ \<Rightarrow> fetchMatch gs t scheme)"

definition AuthorizeFetch :: "Grants \<Rightarrow> URL option \<Rightarrow> FetchDenied + Capability" where
  "AuthorizeFetch g u =
     rbind (urlTarget u) (\<lambda>t.
       case fetchMatch g t (case u of Some v \<Rightarrow> u_Scheme v | None \<Rightarrow> []) of
         Some parsed \<Rightarrow> Inr parsed
       | None \<Rightarrow> Inl \<lparr>fd_Reason = ''network: fetch host is not in the allow-list'',
                      fd_Required = FetchGrantPrefix @ targetString t\<rparr>)"

end
