(* ===== verification/Opcodes.thy ===== *)
theory Opcodes
  imports Capability
begin

text \<open>
  The instruction set, \<open>internal/bytecode/opcode.go\<close>: the opcodes in the order of the \<open>iota\<close>
  block, the registry (name, operand kinds, operand stack effect, capability) and the lookup of an
  opcode by its serialized name. An opcode is a number (\<open>uint16\<close>, compared only for equality), and
  a number that the registry lacks names no instruction. The descriptions of the registry are
  documentation and are left out.
\<close>

type_synonym Opcode = nat

text \<open>The constants of the \<open>iota\<close> block; \<open>OpUnknown\<close> is 0.\<close>

abbreviation OpUnknown :: Opcode where "OpUnknown \<equiv> 0"
abbreviation OpLoadConst :: Opcode where "OpLoadConst \<equiv> 1"
abbreviation OpLoadVar :: Opcode where "OpLoadVar \<equiv> 2"
abbreviation OpStoreVar :: Opcode where "OpStoreVar \<equiv> 3"
abbreviation OpSetVar :: Opcode where "OpSetVar \<equiv> 4"
abbreviation OpTryLet :: Opcode where "OpTryLet \<equiv> 5"
abbreviation OpDbConnect :: Opcode where "OpDbConnect \<equiv> 6"
abbreviation OpSqlQuery :: Opcode where "OpSqlQuery \<equiv> 7"
abbreviation OpFetch :: Opcode where "OpFetch \<equiv> 8"
abbreviation OpReadFile :: Opcode where "OpReadFile \<equiv> 9"
abbreviation OpWriteFile :: Opcode where "OpWriteFile \<equiv> 10"
abbreviation OpMkdir :: Opcode where "OpMkdir \<equiv> 11"
abbreviation OpExec :: Opcode where "OpExec \<equiv> 12"
abbreviation OpParseJson :: Opcode where "OpParseJson \<equiv> 13"
abbreviation OpSpawn :: Opcode where "OpSpawn \<equiv> 14"
abbreviation OpRes :: Opcode where "OpRes \<equiv> 15"
abbreviation OpResJson :: Opcode where "OpResJson \<equiv> 16"
abbreviation OpHttpServerStart :: Opcode where "OpHttpServerStart \<equiv> 17"
abbreviation OpHttpRoute :: Opcode where "OpHttpRoute \<equiv> 18"
abbreviation OpHttpServerServe :: Opcode where "OpHttpServerServe \<equiv> 19"
abbreviation OpHttpReqMethod :: Opcode where "OpHttpReqMethod \<equiv> 20"
abbreviation OpHttpResHeader :: Opcode where "OpHttpResHeader \<equiv> 21"
abbreviation OpConfidence :: Opcode where "OpConfidence \<equiv> 22"
abbreviation OpLlmGenerate :: Opcode where "OpLlmGenerate \<equiv> 23"
abbreviation OpJumpIfFalse :: Opcode where "OpJumpIfFalse \<equiv> 24"
abbreviation OpJump :: Opcode where "OpJump \<equiv> 25"
abbreviation OpForInit :: Opcode where "OpForInit \<equiv> 26"
abbreviation OpForNext :: Opcode where "OpForNext \<equiv> 27"
abbreviation OpReturn :: Opcode where "OpReturn \<equiv> 28"
abbreviation OpPrint :: Opcode where "OpPrint \<equiv> 29"
abbreviation OpCall :: Opcode where "OpCall \<equiv> 30"
abbreviation OpBinop :: Opcode where "OpBinop \<equiv> 31"
abbreviation OpConvert :: Opcode where "OpConvert \<equiv> 32"
abbreviation OpStrSplit :: Opcode where "OpStrSplit \<equiv> 33"
abbreviation OpStrJoin :: Opcode where "OpStrJoin \<equiv> 34"
abbreviation OpRegexMatch :: Opcode where "OpRegexMatch \<equiv> 35"
abbreviation OpMakeList :: Opcode where "OpMakeList \<equiv> 36"
abbreviation OpMakeDict :: Opcode where "OpMakeDict \<equiv> 37"
abbreviation OpAppend :: Opcode where "OpAppend \<equiv> 38"
abbreviation OpMapSet :: Opcode where "OpMapSet \<equiv> 39"
abbreviation OpMapDelete :: Opcode where "OpMapDelete \<equiv> 40"
abbreviation OpMapGet :: Opcode where "OpMapGet \<equiv> 41"
abbreviation OpListGet :: Opcode where "OpListGet \<equiv> 42"
abbreviation OpCliArgs :: Opcode where "OpCliArgs \<equiv> 43"
abbreviation OpCliArgsGet :: Opcode where "OpCliArgsGet \<equiv> 44"
abbreviation OpSleep :: Opcode where "OpSleep \<equiv> 45"
abbreviation OpEnv :: Opcode where "OpEnv \<equiv> 46"
abbreviation OpSpawnAgent :: Opcode where "OpSpawnAgent \<equiv> 47"
abbreviation OpTask :: Opcode where "OpTask \<equiv> 48"
abbreviation OpAchieve :: Opcode where "OpAchieve \<equiv> 49"
abbreviation OpNeuralCircuit :: Opcode where "OpNeuralCircuit \<equiv> 50"
abbreviation OpEphemeralCircuit :: Opcode where "OpEphemeralCircuit \<equiv> 51"
abbreviation OpStoreOpen :: Opcode where "OpStoreOpen \<equiv> 52"
abbreviation OpStorePut :: Opcode where "OpStorePut \<equiv> 53"
abbreviation OpStoreGet :: Opcode where "OpStoreGet \<equiv> 54"
abbreviation OpStoreDelete :: Opcode where "OpStoreDelete \<equiv> 55"
abbreviation OpReadLine :: Opcode where "OpReadLine \<equiv> 56"
abbreviation OpStderr :: Opcode where "OpStderr \<equiv> 57"
abbreviation OpExit :: Opcode where "OpExit \<equiv> 58"
abbreviation OpListLen :: Opcode where "OpListLen \<equiv> 59"
abbreviation OpIsNil :: Opcode where "OpIsNil \<equiv> 60"
abbreviation OpTimeNow :: Opcode where "OpTimeNow \<equiv> 61"
abbreviation OpEncodeJson :: Opcode where "OpEncodeJson \<equiv> 62"
abbreviation OpStoreKeys :: Opcode where "OpStoreKeys \<equiv> 63"
abbreviation OpMapKeys :: Opcode where "OpMapKeys \<equiv> 64"
abbreviation OpHttpReqQuery :: Opcode where "OpHttpReqQuery \<equiv> 65"
abbreviation OpHttpReqHeader :: Opcode where "OpHttpReqHeader \<equiv> 66"
abbreviation OpHttpReqPath :: Opcode where "OpHttpReqPath \<equiv> 67"
abbreviation OpHTMLEscape :: Opcode where "OpHTMLEscape \<equiv> 68"
abbreviation OpAttrEscape :: Opcode where "OpAttrEscape \<equiv> 69"
abbreviation OpHttpRequest :: Opcode where "OpHttpRequest \<equiv> 70"
abbreviation OpReadStdin :: Opcode where "OpReadStdin \<equiv> 71"
abbreviation OpSha256Hex :: Opcode where "OpSha256Hex \<equiv> 72"
abbreviation OpRandHex :: Opcode where "OpRandHex \<equiv> 73"
abbreviation OpSecureEqual :: Opcode where "OpSecureEqual \<equiv> 74"
abbreviation OpHttpReqID :: Opcode where "OpHttpReqID \<equiv> 75"
abbreviation OpHttpReqBody :: Opcode where "OpHttpReqBody \<equiv> 76"
abbreviation OpHttpReqURLPath :: Opcode where "OpHttpReqURLPath \<equiv> 77"
abbreviation OpUTF8Valid :: Opcode where "OpUTF8Valid \<equiv> 78"
abbreviation OpGranted :: Opcode where "OpGranted \<equiv> 79"
abbreviation OpPortAvailable :: Opcode where "OpPortAvailable \<equiv> 80"

datatype OperandType = OperandString | OperandInt | OperandValue

record OpcodeSpec =
  op_Name :: string
  op_Operands :: "OperandType list"
  op_Pops :: int
  op_Pushes :: int
  op_Capability :: Capability

definition spec :: "string \<Rightarrow> OperandType list \<Rightarrow> int \<Rightarrow> int \<Rightarrow> Capability \<Rightarrow> OpcodeSpec" where
  "spec n os pops pushes c =
     \<lparr>op_Name = n, op_Operands = os, op_Pops = pops, op_Pushes = pushes, op_Capability = c\<rparr>"

definition RegistryTable :: "(Opcode \<times> OpcodeSpec) list" where
  "RegistryTable =
    [(OpLoadConst, spec ''LOAD_CONST'' [OperandValue] 0 1 None_cap),
     (OpLoadVar, spec ''LOAD_VAR'' [OperandString] 0 1 None_cap),
     (OpStoreVar, spec ''STORE_VAR'' [OperandString] 1 0 None_cap),
     (OpSetVar, spec ''SET_VAR'' [OperandString] 1 0 None_cap),
     (OpTryLet, spec ''TRY_LET'' [OperandString, OperandString, OperandInt] 0 0 None_cap),
     (OpDbConnect, spec ''DB_CONNECT'' [OperandString, OperandString, OperandString] 0 0 Database),
     (OpSqlQuery, spec ''SQL_QUERY'' [OperandString, OperandString] 0 1 Database),
     (OpFetch, spec ''FETCH'' [] 2 1 Network),
     (OpReadFile, spec ''READ_FILE'' [] 1 1 Filesystem),
     (OpWriteFile, spec ''WRITE_FILE'' [] 2 0 Filesystem),
     (OpMkdir, spec ''MKDIR'' [] 1 0 Filesystem),
     (OpExec, spec ''EXEC'' [OperandInt] (-1) 1 Process),
     (OpParseJson, spec ''PARSE_JSON'' [OperandString] 0 1 None_cap),
     (OpSpawn, spec ''SPAWN'' [OperandInt] 0 0 Process),
     (OpRes, spec ''RES'' [] 2 0 None_cap),
     (OpResJson, spec ''RES_JSON'' [] 2 0 None_cap),
     (OpHttpServerStart, spec ''HTTP_SERVER_START'' [OperandString] 0 0 Network),
     (OpHttpRoute, spec ''HTTP_ROUTE'' [OperandString, OperandString, OperandInt] 0 0 Network),
     (OpHttpServerServe, spec ''HTTP_SERVER_SERVE'' [] 0 0 Network),
     (OpHttpReqMethod, spec ''HTTP_REQ_METHOD'' [] 0 1 None_cap),
     (OpHttpResHeader, spec ''HTTP_RES_HEADER'' [] 2 0 None_cap),
     (OpConfidence, spec ''CONFIDENCE'' [] 1 1 Network),
     (OpLlmGenerate, spec ''LLM_GENERATE'' [OperandString] 1 1 Network),
     (OpJumpIfFalse, spec ''JUMP_IF_FALSE'' [OperandInt] 1 0 None_cap),
     (OpJump, spec ''JUMP'' [OperandInt] 0 0 None_cap),
     (OpForInit, spec ''FOR_INIT'' [] 1 1 None_cap),
     (OpForNext, spec ''FOR_NEXT'' [OperandString, OperandInt] 0 0 None_cap),
     (OpReturn, spec ''RETURN'' [] 1 0 None_cap),
     (OpPrint, spec ''PRINT'' [OperandInt] (-1) 0 None_cap),
     (OpCall, spec ''CALL'' [OperandString, OperandInt] (-1) 1 None_cap),
     (OpBinop, spec ''BINOP'' [OperandString] 2 1 None_cap),
     (OpConvert, spec ''CONVERT'' [OperandString] 1 1 None_cap),
     (OpStrSplit, spec ''STR_SPLIT'' [] 2 1 None_cap),
     (OpStrJoin, spec ''STR_JOIN'' [] 2 1 None_cap),
     (OpRegexMatch, spec ''REGEX_MATCH'' [] 2 1 None_cap),
     (OpMakeList, spec ''MAKE_LIST'' [OperandInt] (-1) 1 None_cap),
     (OpMakeDict, spec ''MAKE_DICT'' [OperandInt] (-1) 1 None_cap),
     (OpAppend, spec ''APPEND'' [OperandString] 1 0 None_cap),
     (OpMapSet, spec ''MAP_SET'' [OperandString] 2 0 None_cap),
     (OpMapDelete, spec ''MAP_DELETE'' [OperandString] 1 0 None_cap),
     (OpMapGet, spec ''MAP_GET'' [OperandString] 1 1 None_cap),
     (OpListGet, spec ''LIST_GET'' [OperandString] 1 1 None_cap),
     (OpCliArgs, spec ''CLI_ARGS'' [] 0 1 None_cap),
     (OpCliArgsGet, spec ''CLI_ARGS_GET'' [] 1 1 None_cap),
     (OpSleep, spec ''SLEEP'' [] 1 0 None_cap),
     (OpEnv, spec ''ENV'' [] 1 1 Environment),
     (OpSpawnAgent, spec ''SPAWN_AGENT'' [OperandString, OperandInt] 1 0 Process),
     (OpTask, spec ''TASK'' [OperandString] 0 1 None_cap),
     (OpAchieve, spec ''ACHIEVE'' [] 2 1 Network),
     (OpNeuralCircuit, spec ''NEURAL_CIRCUIT'' [OperandInt] (-1) 1 Network),
     (OpEphemeralCircuit, spec ''EPHEMERAL_CIRCUIT'' [OperandInt] (-1) 1 Network),
     (OpStoreOpen, spec ''STORE_OPEN'' [OperandString, OperandString] 1 0 Database),
     (OpStorePut, spec ''STORE_PUT'' [OperandString] 2 0 Database),
     (OpStoreGet, spec ''STORE_GET'' [OperandString] 1 1 Database),
     (OpStoreDelete, spec ''STORE_DELETE'' [OperandString] 1 0 Database),
     (OpStoreKeys, spec ''STORE_KEYS'' [OperandString] 0 1 Database),
     (OpMapKeys, spec ''MAP_KEYS'' [] 1 1 None_cap),
     (OpHttpReqQuery, spec ''HTTP_REQ_QUERY'' [] 2 1 None_cap),
     (OpHttpReqHeader, spec ''HTTP_REQ_HEADER'' [] 2 1 None_cap),
     (OpHttpReqPath, spec ''HTTP_REQ_PATH'' [] 2 1 None_cap),
     (OpHTMLEscape, spec ''HTML_ESCAPE'' [] 1 1 None_cap),
     (OpAttrEscape, spec ''ATTR_ESCAPE'' [] 1 1 None_cap),
     (OpHttpRequest, spec ''HTTP_REQUEST'' [OperandInt] (-1) 1 Network),
     (OpReadLine, spec ''READ_LINE'' [] 0 1 None_cap),
     (OpReadStdin, spec ''READ_STDIN'' [] 0 1 None_cap),
     (OpSha256Hex, spec ''SHA256_HEX'' [] 1 1 None_cap),
     (OpRandHex, spec ''RAND_HEX'' [] 1 1 None_cap),
     (OpSecureEqual, spec ''SECURE_EQUAL'' [] 2 1 None_cap),
     (OpHttpReqID, spec ''HTTP_REQ_ID'' [] 1 1 None_cap),
     (OpHttpReqBody, spec ''HTTP_REQ_BODY'' [] 1 1 None_cap),
     (OpHttpReqURLPath, spec ''HTTP_REQ_URL_PATH'' [] 1 1 None_cap),
     (OpUTF8Valid, spec ''UTF8_VALID'' [] 1 1 None_cap),
     (OpGranted, spec ''GRANTED'' [] 1 1 None_cap),
     (OpPortAvailable, spec ''PORT_AVAILABLE'' [] 1 1 Network),
     (OpStderr, spec ''STDERR'' [] 1 0 None_cap),
     (OpExit, spec ''EXIT'' [] 1 0 None_cap),
     (OpListLen, spec ''LIST_LEN'' [] 1 1 None_cap),
     (OpIsNil, spec ''IS_NIL'' [] 1 1 None_cap),
     (OpTimeNow, spec ''TIME_NOW'' [] 0 1 None_cap),
     (OpEncodeJson, spec ''ENCODE_JSON'' [] 1 1 None_cap)]"

definition Registry :: "Opcode \<Rightarrow> OpcodeSpec option" where
  "Registry op = map_of RegistryTable op"

text \<open>\<open>Registry[op]\<close> in Go yields the zero value for a missing key.\<close>

definition RegistrySpec :: "Opcode \<Rightarrow> OpcodeSpec" where
  "RegistrySpec op = (case Registry op of Some s \<Rightarrow> s | None \<Rightarrow> spec [] [] 0 0 None_cap)"

definition NameToOpcode :: "string \<Rightarrow> Opcode option" where
  "NameToOpcode name = map_option fst (List.find (\<lambda>(code, s). op_Name s = name) RegistryTable)"

lemma spec_sel [simp]:
  "op_Name (spec n os p q c) = n" "op_Operands (spec n os p q c) = os"
  "op_Pops (spec n os p q c) = p" "op_Pushes (spec n os p q c) = q"
  "op_Capability (spec n os p q c) = c"
  by (simp_all add: spec_def)

lemma RegistryTable_keys_distinct: "distinct (map fst RegistryTable)"
  by (simp add: RegistryTable_def)

lemma RegistryTable_names_distinct: "distinct (map (op_Name \<circ> snd) RegistryTable)"
  by (simp add: RegistryTable_def)

lemma Registry_member: "Registry op = Some s \<longleftrightarrow> (op, s) \<in> set RegistryTable"
  unfolding Registry_def by (rule map_of_eq_Some_iff [OF RegistryTable_keys_distinct])

text \<open>Names and opcodes determine each other: serialized programs keep their meaning when the
  numbers of the opcodes change.\<close>

lemma find_by_name:
  "distinct (map (f \<circ> snd) xs) \<Longrightarrow> (k, v) \<in> set xs \<Longrightarrow>
   List.find (\<lambda>(c, s). f s = f v) xs = Some (k, v)"
  by (induction xs) (auto simp: rev_image_eqI)

lemma NameToOpcode_Registry: "Registry op = Some s \<Longrightarrow> NameToOpcode (op_Name s) = Some op"
  using find_by_name [OF RegistryTable_names_distinct, of op s]
  by (simp add: Registry_member NameToOpcode_def)

lemma Registry_NameToOpcode:
  "NameToOpcode n = Some op \<Longrightarrow> \<exists>s. Registry op = Some s \<and> op_Name s = n"
  by (auto simp: NameToOpcode_def Registry_member find_Some_iff)
    (metis (mono_tags) nth_mem prod.collapse)

lemma Registry_Unknown: "Registry OpUnknown = None"
  by (simp add: Registry_def RegistryTable_def)

text \<open>C33. Names and opcodes determine each other: looking a name up gives an opcode exactly when the
  registry has that opcode under that name, so a program serialised by names is read back with the
  same opcodes after the numbering has changed. The zero opcode has no row.\<close>

theorem opcode_names_inverse:
  "(NameToOpcode n = Some op \<longleftrightarrow> (\<exists>s. Registry op = Some s \<and> op_Name s = n)) \<and> Registry OpUnknown = None"
  using NameToOpcode_Registry Registry_NameToOpcode Registry_Unknown by blast

end
