(* ===== verification/Float64.thy ===== *)
theory Float64
  imports GoText
begin

text \<open>
  Go's \<open>float64\<close>: NaN, the infinities, the negative zero and the finite numbers, each finite
  number being the rational it denotes (\<open>F_fin 0\<close> is the positive zero). Every operation computes
  the exact result and rounds it to nearest, ties to even (\<open>roundF64\<close>). The text forms of
  \<open>strconv.FormatFloat(f, 'g', -1, 64)\<close> and of \<open>strconv.ParseFloat\<close> are here too.
\<close>

datatype f64 = F_nan | F_inf bool | F_negzero | F_fin rat

definition pow2 :: "int \<Rightarrow> rat" where
  "pow2 e = (if e \<ge> 0 then 2 ^ nat e else 1 / 2 ^ nat (- e))"

definition pow10 :: "int \<Rightarrow> rat" where
  "pow10 e = (if e \<ge> 0 then 10 ^ nat e else 1 / 10 ^ nat (- e))"

fun intLog2 :: "int \<Rightarrow> int" where
  "intLog2 n = (if n < 2 then 0 else 1 + intLog2 (n div 2))"

declare intLog2.simps [simp del]

text \<open>The largest \<open>e\<close> with \<open>2\<^sup>e \<le> q\<close>, for a positive rational.\<close>

definition ilog2 :: "rat \<Rightarrow> int" where
  "ilog2 q =
     (let (a, b) = quotient_of q;
          e = intLog2 a - intLog2 b
      in if pow2 e \<le> q then e else e - 1)"

definition roundHalfEven :: "rat \<Rightarrow> int" where
  "roundHalfEven q =
     (let n = floor q; r = q - of_int n in
      if r < 1 / 2 then n else if r > 1 / 2 then n + 1 else if even n then n else n + 1)"

text \<open>\<open>neg\<close> is the sign of the result when it is zero.\<close>

definition zeroF :: "bool \<Rightarrow> f64" where
  "zeroF neg = (if neg then F_negzero else F_fin 0)"

definition roundF64 :: "bool \<Rightarrow> rat \<Rightarrow> f64" where
  "roundF64 neg q =
     (if q = 0 then zeroF neg
      else let e = max (- 1074) (ilog2 \<bar>q\<bar> - 52);
               v = of_int (roundHalfEven (\<bar>q\<bar> / pow2 e)) * pow2 e
        in if v \<ge> 2 ^ 1024 then F_inf (q < 0)
           else if v = 0 then zeroF (q < 0)
           else F_fin (if q < 0 then - v else v))"

definition f64_of_int :: "int \<Rightarrow> f64" where
  "f64_of_int i = roundF64 False (of_int i)"

definition isNaN :: "f64 \<Rightarrow> bool" where "isNaN f \<longleftrightarrow> f = F_nan"
definition isInf :: "f64 \<Rightarrow> bool" where "isInf f \<longleftrightarrow> (case f of F_inf _ \<Rightarrow> True | _ \<Rightarrow> False)"

definition fval :: "f64 \<Rightarrow> rat" where
  "fval f = (case f of F_fin q \<Rightarrow> q | _ \<Rightarrow> 0)"

definition fneg :: "f64 \<Rightarrow> bool" where
  "fneg f = (case f of F_inf s \<Rightarrow> s | F_negzero \<Rightarrow> True | F_fin q \<Rightarrow> q < 0 | F_nan \<Rightarrow> False)"

definition fminus :: "f64 \<Rightarrow> f64" where
  "fminus f = (case f of F_nan \<Rightarrow> F_nan | F_inf s \<Rightarrow> F_inf (\<not> s) | F_negzero \<Rightarrow> F_fin 0
     | F_fin q \<Rightarrow> if q = 0 then F_negzero else F_fin (- q))"

definition fadd :: "f64 \<Rightarrow> f64 \<Rightarrow> f64" where
  "fadd a b =
     (case (a, b) of
        (F_nan, _) \<Rightarrow> F_nan | (_, F_nan) \<Rightarrow> F_nan
      | (F_inf s, F_inf t) \<Rightarrow> if s = t then F_inf s else F_nan
      | (F_inf s, _) \<Rightarrow> F_inf s | (_, F_inf t) \<Rightarrow> F_inf t
      | _ \<Rightarrow> roundF64 (a = F_negzero \<and> b = F_negzero) (fval a + fval b))"

definition fsub :: "f64 \<Rightarrow> f64 \<Rightarrow> f64" where
  "fsub a b = fadd a (fminus b)"

definition fmul :: "f64 \<Rightarrow> f64 \<Rightarrow> f64" where
  "fmul a b =
     (let s = (fneg a \<noteq> fneg b) in
      case (a, b) of
        (F_nan, _) \<Rightarrow> F_nan | (_, F_nan) \<Rightarrow> F_nan
      | (F_inf _, F_inf _) \<Rightarrow> F_inf s
      | (F_inf _, _) \<Rightarrow> if fval b = 0 then F_nan else F_inf s
      | (_, F_inf _) \<Rightarrow> if fval a = 0 then F_nan else F_inf s
      | _ \<Rightarrow> roundF64 s (fval a * fval b))"

definition fdiv :: "f64 \<Rightarrow> f64 \<Rightarrow> f64" where
  "fdiv a b =
     (let s = (fneg a \<noteq> fneg b) in
      case (a, b) of
        (F_nan, _) \<Rightarrow> F_nan | (_, F_nan) \<Rightarrow> F_nan
      | (F_inf _, F_inf _) \<Rightarrow> F_nan
      | (F_inf _, _) \<Rightarrow> F_inf s
      | (_, F_inf _) \<Rightarrow> zeroF s
      | _ \<Rightarrow> if fval b = 0 then (if fval a = 0 then F_nan else F_inf s)
             else roundF64 s (fval a / fval b))"

text \<open>Comparisons: with NaN they are false.\<close>

definition flt :: "f64 \<Rightarrow> f64 \<Rightarrow> bool" where
  "flt a b =
     (case (a, b) of
        (F_nan, _) \<Rightarrow> False | (_, F_nan) \<Rightarrow> False
      | (F_inf s, F_inf t) \<Rightarrow> s \<and> \<not> t
      | (F_inf s, _) \<Rightarrow> s | (_, F_inf t) \<Rightarrow> \<not> t
      | _ \<Rightarrow> fval a < fval b)"

definition feq :: "f64 \<Rightarrow> f64 \<Rightarrow> bool" where
  "feq a b =
     (case (a, b) of
        (F_nan, _) \<Rightarrow> False | (_, F_nan) \<Rightarrow> False
      | (F_inf s, F_inf t) \<Rightarrow> s = t
      | (F_inf _, _) \<Rightarrow> False | (_, F_inf _) \<Rightarrow> False
      | _ \<Rightarrow> fval a = fval b)"

definition fle :: "f64 \<Rightarrow> f64 \<Rightarrow> bool" where
  "fle a b \<longleftrightarrow> flt a b \<or> feq a b"

definition truncRat :: "rat \<Rightarrow> int" where
  "truncRat q = (if q < 0 then \<lceil>q\<rceil> else \<lfloor>q\<rfloor>)"

definition ftrunc :: "f64 \<Rightarrow> f64" where
  "ftrunc f = (case f of F_fin q \<Rightarrow>
      (if q < 0 \<and> truncRat q = 0 then F_negzero else F_fin (of_int (truncRat q))) | _ \<Rightarrow> f)"

definition ffloor :: "f64 \<Rightarrow> f64" where
  "ffloor f = (case f of F_fin q \<Rightarrow> F_fin (of_int \<lfloor>q\<rfloor>) | _ \<Rightarrow> f)"

text \<open>The conversion \<open>int64(f)\<close> truncates. Go leaves an out-of-range value to the machine; on
  amd64 it is the smallest integer.\<close>

definition f64_to_int :: "f64 \<Rightarrow> int" where
  "f64_to_int f =
     (case f of
        F_negzero \<Rightarrow> 0
      | F_fin q \<Rightarrow> if inInt64 (truncRat q) then truncRat q else - (2 ^ 63)
      | _ \<Rightarrow> - (2 ^ 63))"

subsection \<open>Text\<close>

definition decExp :: "rat \<Rightarrow> int" where
  "decExp q =
     (let e0 = ilog2 q * 30103 div 100000 in
      case List.find (\<lambda>e. pow10 e \<le> q \<and> q < pow10 (e + 1)) [e0 - 1, e0, e0 + 1, e0 + 2] of
        Some e \<Rightarrow> e + 1 | None \<Rightarrow> e0 + 1)"

definition stripZeros :: "string \<Rightarrow> string" where
  "stripZeros s = rev (dropWhile (\<lambda>c. c = CHR ''0'') (rev s))"

text \<open>The shortest digits that round back to \<open>q > 0\<close>, and the decimal exponent of \<open>0.ddd\<close>.\<close>

fun shortestFrom :: "nat \<Rightarrow> nat \<Rightarrow> rat \<Rightarrow> int \<Rightarrow> string \<times> int" where
  "shortestFrom fuel n q k =
     (let x = q * pow10 (int n - k); lo = \<lfloor>x\<rfloor>;
          back = (\<lambda>c. roundF64 False (of_int c * pow10 (k - int n)) = F_fin q);
          near = (if x - of_int lo < 1 / 2 \<or> (x - of_int lo = 1 / 2 \<and> even lo) then [lo, lo + 1] else [lo + 1, lo]);
          result = (\<lambda>c. let ds = natDigits (nat c) in (stripZeros ds, k + int (length ds) - int n))
      in case List.find back near of
           Some c \<Rightarrow> result c
         | None \<Rightarrow> (case fuel of 0 \<Rightarrow> result (hd near) | Suc f \<Rightarrow> shortestFrom f (Suc n) q k))"

declare shortestFrom.simps [simp del]

definition shortest :: "rat \<Rightarrow> string \<times> int" where
  "shortest q = shortestFrom 16 1 q (decExp q)"

definition fmtE :: "string \<Rightarrow> int \<Rightarrow> string" where
  "fmtE ds dp =
     (let e = dp - 1; a = natDigits (nat \<bar>e\<bar>) in
      take 1 ds @ (if length ds > 1 then ''.'' @ drop 1 ds else [])
      @ ''e'' @ (if e < 0 then ''-'' else ''+'') @ (if length a < 2 then ''0'' @ a else a))"

definition fmtF :: "string \<Rightarrow> int \<Rightarrow> string" where
  "fmtF ds dp =
     (let whole = (if dp > 0 then take (nat dp) ds @ replicate (nat dp - length ds) (CHR ''0'') else ''0'');
          frac = (if dp > 0 then drop (nat dp) ds else replicate (nat (- dp)) (CHR ''0'') @ ds)
      in whole @ (if frac = [] then [] else ''.'' @ frac))"

definition formatG :: "f64 \<Rightarrow> string" where
  "formatG f =
     (case f of
        F_nan \<Rightarrow> ''NaN''
      | F_inf s \<Rightarrow> if s then ''-Inf'' else ''+Inf''
      | F_negzero \<Rightarrow> ''-0''
      | F_fin q \<Rightarrow>
          if q = 0 then ''0''
          else let (ds, dp) = shortest \<bar>q\<bar> in
            (if q < 0 then ''-'' else []) @ (if dp - 1 < -4 \<or> dp - 1 \<ge> 6 then fmtE ds dp else fmtF ds dp))"

text \<open>\<open>[+-]\<close>mantissa\<open>[.\<close>digits\<open>][e[+-]\<close>digits\<open>]\<close>, hexadecimal after \<open>0x\<close> with a binary exponent
  that must be there. Underscores may separate digits.\<close>

definition isDigitByte :: "char \<Rightarrow> bool" where
  "isDigitByte c = isAsciiDigit (byte c)"

definition hexByte :: "char \<Rightarrow> nat option" where
  "hexByte c =
     (let b = byte c in
      if 48 \<le> b \<and> b \<le> 57 then Some (b - 48)
      else if 97 \<le> b \<and> b \<le> 102 then Some (b - 87)
      else if 65 \<le> b \<and> b \<le> 70 then Some (b - 55) else None)"

definition mantissaByte :: "bool \<Rightarrow> char \<Rightarrow> bool" where
  "mantissaByte hex c = (if hex then hexByte c \<noteq> None else isDigitByte c)"

text \<open>\<open>underscoreOK\<close> after the sign and prefix; \<open>i\<close> is the class of the previous byte: a digit, an
  underscore or neither.\<close>

datatype prevByte = PrevDigit | PrevUnderscore | PrevOther

fun underscoreOK :: "bool \<Rightarrow> prevByte \<Rightarrow> string \<Rightarrow> bool" where
  "underscoreOK hex i [] = (i \<noteq> PrevUnderscore)"
| "underscoreOK hex i (c # s) =
     (if isDigitByte c \<or> mantissaByte hex c then underscoreOK hex PrevDigit s
      else if c = CHR ''_'' then (if i \<noteq> PrevDigit then False else underscoreOK hex PrevUnderscore s)
      else if i = PrevUnderscore then False
      else underscoreOK hex PrevOther s)"

definition spanMantissa :: "bool \<Rightarrow> string \<Rightarrow> string \<times> string" where
  "spanMantissa hex s =
     (let ok = (\<lambda>c. mantissaByte hex c \<or> c = CHR ''_'') in
      (filter (mantissaByte hex) (takeWhile ok s), dropWhile ok s))"

text \<open>The exponent and whether the text was an exponent; an exponent starts with a digit.\<close>

definition parseExponent :: "bool \<Rightarrow> string \<Rightarrow> int option" where
  "parseExponent hex s =
     (case s of
        [] \<Rightarrow> if hex then None else Some 0
      | c # t \<Rightarrow>
          if lowerByte c \<noteq> (if hex then CHR ''p'' else CHR ''e'') then None
          else let (neg, ds) = (case t of [] \<Rightarrow> (False, [])
                 | d # u \<Rightarrow> if d = CHR ''-'' then (True, u) else if d = CHR ''+'' then (False, u) else (False, t))
            in if ds = [] \<or> \<not> isDigitByte (hd ds) \<or> \<not> list_all (\<lambda>d. isDigitByte d \<or> d = CHR ''_'') ds then None
               else let n = int (digitsValue (filter isDigitByte ds)) in Some (if neg then - n else n))"

definition parseSpecial :: "string \<Rightarrow> bool \<Rightarrow> bool \<Rightarrow> f64 option" where
  "parseSpecial t sgnd neg =
     (let l = map lowerByte t in
      if l = ''inf'' \<or> l = ''infinity'' then Some (F_inf neg)
      else if \<not> sgnd \<and> l = ''nan'' then Some F_nan else None)"

definition mantissaValue :: "bool \<Rightarrow> string \<Rightarrow> nat" where
  "mantissaValue hex ds =
     (if hex then foldl (\<lambda>n c. n * 16 + (case hexByte c of Some d \<Rightarrow> d | None \<Rightarrow> 0)) 0 ds else digitsValue ds)"

definition clamp :: "int \<Rightarrow> int \<Rightarrow> int \<Rightarrow> int" where
  "clamp lo hi x = max lo (min hi x)"

text \<open>\<open>None\<close> is a syntax error; the flag is false for a value out of range, which is returned with it. Beyond the clamped exponents every value
  rounds to zero or overflows, so clamping changes no result.\<close>

definition parseFloatValue :: "string \<Rightarrow> (bool \<times> f64) option" where
  "parseFloatValue s =
     (let (sgnd, neg, t) = (case s of [] \<Rightarrow> (False, False, [])
            | c # u \<Rightarrow> if c = CHR ''-'' then (True, True, u) else if c = CHR ''+'' then (True, False, u) else (False, False, s));
          hex = (2 < length t \<and> t ! 0 = CHR ''0'' \<and> lowerByte (t ! 1) = CHR ''x'');
          body = (if hex then drop 2 t else t);
          (w, r) = spanMantissa hex body;
          (fr, r') = (case r of c # u \<Rightarrow> if c = CHR ''.'' then spanMantissa hex u else ([], r) | [] \<Rightarrow> ([], []))
      in case parseSpecial t sgnd neg of
           Some f \<Rightarrow> Some (True, f)
         | None \<Rightarrow>
            if w = [] \<and> fr = [] then None
            else if CHR ''_'' \<in> set t \<and> \<not> underscoreOK hex (if hex then PrevDigit else PrevOther) body then None
            else case parseExponent hex r' of
              None \<Rightarrow> None
            | Some e \<Rightarrow>
               (let m = (if neg then -1 else 1) * of_nat (mantissaValue hex (w @ fr)); n = int (length (w @ fr));
                    v = roundF64 neg
                      (if hex then m * pow2 (clamp (- 2000 - 4 * n) 2000 (e - 4 * int (length fr)))
                       else m * pow10 (clamp (- 400 - n) 400 (e - int (length fr))))
                in Some (\<not> isInf v, v)))"

definition parseFloat :: "string \<Rightarrow> f64 option" where
  "parseFloat s = (case parseFloatValue s of Some (True, v) \<Rightarrow> Some v | _ \<Rightarrow> None)"

subsection \<open>Facts\<close>

lemma pow2_pos [simp]: "0 < pow2 e"
  by (simp add: pow2_def)

lemma pow2_add: "pow2 (a + b) = pow2 a * pow2 b"
proof -
  have p: "pow2 e = 2 powi e" for e
    by (simp add: pow2_def power_int_def field_simps)
  show ?thesis unfolding p by (rule power_int_add) simp
qed

lemma flt_F_fin [simp]: "flt (F_fin p) (F_fin q) \<longleftrightarrow> p < q"
  by (simp add: flt_def fval_def)

lemma feq_F_fin [simp]: "feq (F_fin p) (F_fin q) \<longleftrightarrow> p = q"
  by (simp add: feq_def fval_def)

end
