(* ===== verification/JsonText.thy ===== *)
theory JsonText
  imports Float64
begin

text \<open>
  The VM's own JSON reader and writer, \<open>internal/vm/json_text.go\<close>. A JSON value is a tree here;
  the machine converts between trees and its values. The reader keeps the unread input where the
  source keeps an index, and carries the first out-of-range number (\<open>pending\<close>). The mutually
  recursive methods take fuel; \<open>decodeJSONText\<close> supplies twice the length of the input plus two,
  and running out of it is a separate error.
\<close>

datatype json =
    JNull
  | JBool bool
  | JInt "64 word"
  | JFloat f64
  | JStr string
  | JArr "json list"
  | JObj "(string \<times> json) list"

datatype json_error = JErr string | JFuel

subsection \<open>Writing\<close>

definition jsonHex :: "nat \<Rightarrow> char" where
  "jsonHex n = ''0123456789abcdef'' ! n"

definition escapeAscii :: "char \<Rightarrow> string" where
  "escapeAscii c =
     (let b = byte c in
      if b \<ge> 0x20 \<and> b \<noteq> 0x22 \<and> b \<noteq> 0x5C \<and> b \<noteq> 0x3C \<and> b \<noteq> 0x3E \<and> b \<noteq> 0x26 then [c]
      else if b = 0x22 \<or> b = 0x5C then [CHR 0x5C, c]
      else if b = 8 then [CHR 0x5C, CHR ''b'']
      else if b = 12 then [CHR 0x5C, CHR ''f'']
      else if b = 10 then [CHR 0x5C, CHR ''n'']
      else if b = 13 then [CHR 0x5C, CHR ''r'']
      else if b = 9 then [CHR 0x5C, CHR ''t'']
      else [CHR 0x5C, CHR ''u'', CHR ''0'', CHR ''0'', jsonHex (b div 16), jsonHex (b mod 16)])"

lemma decodeRune_progress: "decodeRune (c # t) = (r, n) \<Longrightarrow> length t < n + length t"
  using decodeRune_Cons_pos [of "c # t"] by simp

function jsonChars :: "string \<Rightarrow> string" where
  "jsonChars s =
     (case s of
        [] \<Rightarrow> []
      | c # t \<Rightarrow>
          if byte c < 0x80 then escapeAscii c @ jsonChars t
          else let (r, n) = decodeRune s in
            if r = runeError \<and> n = 1 then CHR 0x5C # ''ufffd'' @ jsonChars t
            else if r = 0x2028 \<or> r = 0x2029
            then CHR 0x5C # ''u202'' @ [jsonHex (r mod 16)] @ jsonChars (drop n s)
            else take n s @ jsonChars (drop n s))"
  by pat_completeness auto
termination
  by (relation "measure length") (auto dest: decodeRune_progress [OF sym])

declare jsonChars.simps [simp del]

definition appendJSONString :: "string \<Rightarrow> string" where
  "appendJSONString s = CHR 0x22 # jsonChars s @ [CHR 0x22]"

text \<open>The layout of a finite float: \<open>'f'\<close> or \<open>'e'\<close> by magnitude, and \<open>e-07\<close> written \<open>e-7\<close>.\<close>

definition shortExp :: "string \<Rightarrow> string" where
  "shortExp b =
     (let n = length b in
      if n \<ge> 4 \<and> b ! (n - 4) = CHR ''e'' \<and> b ! (n - 3) = CHR ''-'' \<and> b ! (n - 2) = CHR ''0''
      then take (n - 2) b @ [b ! (n - 1)] else b)"

definition appendJSONFloat :: "f64 \<Rightarrow> json_error + string" where
  "appendJSONFloat f =
     (if isInf f \<or> isNaN f then Inl (JErr (''json: unsupported value: '' @ formatG f))
      else Inr (case f of
          F_fin q \<Rightarrow>
            if q = 0 then ''0''
            else let (ds, dp) = shortest \<bar>q\<bar>; sg = (if q < 0 then ''-'' else []) in
              if \<bar>q\<bar> < 1 / 10 ^ 6 \<or> \<bar>q\<bar> \<ge> 10 ^ 21 then shortExp (sg @ fmtE ds dp) else sg @ fmtF ds dp
        | _ \<Rightarrow> ''-0''))"

definition boolText :: "bool \<Rightarrow> string" where
  "boolText b = (if b then ''true'' else ''false'')"

text \<open>Object keys are written in sorted order, so the entries are sorted by key first.\<close>

fun appendJSON :: "json \<Rightarrow> json_error + string" where
  "appendJSON JNull = Inr ''null''"
| "appendJSON (JBool b) = Inr (boolText b)"
| "appendJSON (JInt i) = Inr (itoa (sint i))"
| "appendJSON (JFloat f) = appendJSONFloat f"
| "appendJSON (JStr s) = Inr (appendJSONString s)"
| "appendJSON (JArr xs) =
     rbind (traverse appendJSON xs) (\<lambda>ts. Inr (''['' @ join '','' ts @ '']''))"
| "appendJSON (JObj m) =
     rbind (traverse (\<lambda>(k, v). rbind (appendJSON v) (\<lambda>t. Inr (appendJSONString k @ '':'' @ t))) (sort_key fst m))
       (\<lambda>ts. Inr (''{'' @ join '','' ts @ ''}''))"

definition encodeJSONText :: "json \<Rightarrow> json_error + string" where
  "encodeJSONText v = appendJSON v"

subsection \<open>Reading\<close>

definition hexText :: "nat \<Rightarrow> nat \<Rightarrow> string" where
  "hexText w n = map (\<lambda>k. jsonHex (n div 16 ^ k mod 16)) (rev [0..<w])"

text \<open>The body of \<open>strconv.Quote(string(rune(c)))\<close> for a single byte.\<close>

definition quotedByte :: "char \<Rightarrow> string" where
  "quotedByte c =
     (let b = byte c in
      if b = 0x5C then [CHR 0x5C, CHR 0x5C]
      else if 0x20 \<le> b \<and> b < 0x7F then [c]
      else if b = 7 then CHR 0x5C # ''a'' else if b = 8 then CHR 0x5C # ''b''
      else if b = 12 then CHR 0x5C # ''f'' else if b = 10 then CHR 0x5C # ''n''
      else if b = 13 then CHR 0x5C # ''r'' else if b = 9 then CHR 0x5C # ''t''
      else if b = 11 then CHR 0x5C # ''v''
      else if b < 0x20 \<or> b = 0x7F then CHR 0x5C # ''x'' @ hexText 2 b
      else if 0xA1 \<le> b \<and> b \<noteq> 0xAD then encodeRune b
      else CHR 0x5C # ''u'' @ hexText 4 b)"

definition quoteChar :: "char \<Rightarrow> string" where
  "quoteChar c =
     (if byte c = 0x27 then [CHR 0x27, CHR 0x5C, CHR 0x27, CHR 0x27]
      else if byte c = 0x22 then [CHR 0x27, CHR 0x22, CHR 0x27]
      else CHR 0x27 # quotedByte c @ [CHR 0x27])"

definition syntaxError :: "char \<Rightarrow> string \<Rightarrow> json_error" where
  "syntaxError c ctx = JErr (''invalid character '' @ quoteChar c @ '' '' @ ctx)"

definition jsonSpace :: "char \<Rightarrow> bool" where
  "jsonSpace c \<longleftrightarrow> byte c \<in> {32, 9, 10, 13}"

definition skipSpace :: "string \<Rightarrow> string" where
  "skipSpace s = dropWhile jsonSpace s"

definition need :: "string \<Rightarrow> json_error + char" where
  "need s = (case s of [] \<Rightarrow> Inl (JErr ''unexpected EOF'') | c # _ \<Rightarrow> Inr c)"

fun literal :: "string \<Rightarrow> string \<Rightarrow> string \<Rightarrow> json_error + string" where
  "literal word [] s = Inr s"
| "literal word (w # ws) s =
     rbind (need s) (\<lambda>c.
       if c \<noteq> w then Inl (syntaxError c (''in literal '' @ word @ '' (expecting '' @ quoteChar w @ '')''))
       else literal word ws (drop 1 s))"

fun hex4 :: "nat \<Rightarrow> rune \<Rightarrow> string \<Rightarrow> json_error + (rune \<times> string)" where
  "hex4 0 r s = Inr (r, s)"
| "hex4 (Suc k) r s =
     rbind (need s) (\<lambda>c.
       let b = byte c in
       if 48 \<le> b \<and> b \<le> 57 then hex4 k (r * 16 + (b - 48)) (drop 1 s)
       else if 97 \<le> b \<and> b \<le> 102 then hex4 k (r * 16 + (b - 97 + 10)) (drop 1 s)
       else if 65 \<le> b \<and> b \<le> 70 then hex4 k (r * 16 + (b - 65 + 10)) (drop 1 s)
       else Inl (syntaxError c (''in '' @ [CHR 0x5C] @ ''u hexadecimal character escape'')))"

text \<open>\<open>unescape\<close>: the input starts after the backslash; the result is the appended output.\<close>

definition unescapeU :: "string \<Rightarrow> string \<Rightarrow> json_error + (string \<times> string)" where
  "unescapeU out s =
     rbind (hex4 4 0 s) (\<lambda>(r, t).
       if 0xD800 \<le> r \<and> r \<le> 0xDBFF then
         (if 6 \<le> length t \<and> t ! 0 = CHR 0x5C \<and> t ! 1 = CHR ''u'' then
            rbind (hex4 4 0 (drop 2 t)) (\<lambda>(lo, u).
              if 0xDC00 \<le> lo \<and> lo \<le> 0xDFFF
              then Inr (out @ encodeRune (0x10000 + (r - 0xD800) * 1024 + (lo - 0xDC00)), u)
              else Inr (out @ encodeRune runeError, t))
          else Inr (out @ encodeRune runeError, t))
       else if 0xDC00 \<le> r \<and> r \<le> 0xDFFF then Inr (out @ encodeRune runeError, t)
       else Inr (out @ encodeRune r, t))"

definition unescape :: "string \<Rightarrow> string \<Rightarrow> json_error + (string \<times> string)" where
  "unescape out s =
     rbind (need s) (\<lambda>c.
       let t = drop 1 s; b = byte c in
       if b = 0x22 \<or> b = 0x5C \<or> b = 0x2F then Inr (out @ [c], t)
       else if c = CHR ''b'' then Inr (out @ [chr 8], t)
       else if c = CHR ''f'' then Inr (out @ [chr 12], t)
       else if c = CHR ''n'' then Inr (out @ [chr 10], t)
       else if c = CHR ''r'' then Inr (out @ [chr 13], t)
       else if c = CHR ''t'' then Inr (out @ [chr 9], t)
       else if c = CHR ''u'' then unescapeU out t
       else Inl (syntaxError c ''in string escape code''))"

lemma need_Inr [result_simps]: "need s = Inr c \<longleftrightarrow> (\<exists>t. s = c # t)"
  by (auto simp: need_def split: list.split)

lemma need_Cons [simp]: "need (c # s) = Inr c"
  by (simp add: need_def)

lemma hex4_length: "hex4 k r s = Inr (r', t) \<Longrightarrow> length t + k = length s"
  by (induction k r s rule: hex4.induct) (auto simp: result_simps Let_def split: if_splits)

lemma unescape_length: "unescape out s = Inr (out', t) \<Longrightarrow> length t < length s"
  by (auto simp: unescape_def unescapeU_def result_simps Let_def split: if_splits prod.splits
      dest!: hex4_length)

text \<open>The loop of \<open>str\<close>, after the opening quote.\<close>

function strLoop :: "string \<Rightarrow> string \<Rightarrow> json_error + (string \<times> string)" where
  "strLoop out s =
     (case s of
        [] \<Rightarrow> Inl (JErr ''unexpected EOF'')
      | c # t \<Rightarrow>
          if c = CHR 0x22 then Inr (out, t)
          else if c = CHR 0x5C then rbind (unescape out t) (\<lambda>(out', u). strLoop out' u)
          else if byte c < 0x20 then Inl (syntaxError c ''in string literal'')
          else if byte c < 0x80 then strLoop (out @ [c]) t
          else let (r, n) = decodeRune s in strLoop (out @ encodeRune r) (drop n s))"
  by pat_completeness auto
termination
  by (relation "measure (\<lambda>(out, s). length s)") (auto dest: decodeRune_progress [OF sym] unescape_length)

declare strLoop.simps [simp del]

definition str :: "string \<Rightarrow> json_error + (string \<times> string)" where
  "str s = strLoop [] (drop 1 s)"

text \<open>The scan of \<open>number\<close>: the text of the number, whether it is whole, and the rest.\<close>

definition isD :: "char \<Rightarrow> bool" where
  "isD c \<longleftrightarrow> isAsciiDigit (byte c)"

definition numberSign :: "string \<Rightarrow> string" where
  "numberSign s = (case s of c # t \<Rightarrow> if c = CHR ''-'' then t else s | [] \<Rightarrow> [])"

definition numberWhole :: "string \<Rightarrow> json_error + string" where
  "numberWhole s =
     rbind (need s) (\<lambda>c.
       if c = CHR ''0'' then Inr (drop 1 s)
       else if isD c then Inr (dropWhile isD s)
       else Inl (syntaxError c ''in numeric literal''))"

definition numberFrac :: "string \<Rightarrow> json_error + (bool \<times> string)" where
  "numberFrac s =
     (if s \<noteq> [] \<and> hd s = CHR ''.'' then
        rbind (need (drop 1 s)) (\<lambda>c.
          if \<not> isD c then Inl (syntaxError c ''after decimal point in numeric literal'')
          else Inr (True, dropWhile isD (drop 1 s)))
      else Inr (False, s))"

definition numberExp :: "string \<Rightarrow> json_error + (bool \<times> string)" where
  "numberExp s =
     (if s \<noteq> [] \<and> (hd s = CHR ''e'' \<or> hd s = CHR ''E'') then
        rbind (need (drop 1 s)) (\<lambda>c.
          let t = (if c = CHR ''+'' \<or> c = CHR ''-'' then drop 2 s else drop 1 s) in
          rbind (need t) (\<lambda>d.
            if \<not> isD d then Inl (syntaxError d ''in exponent of numeric literal'')
            else Inr (True, dropWhile isD t)))
      else Inr (False, s))"

definition rangeError :: "string \<Rightarrow> string" where
  "rangeError txt = ''strconv.ParseFloat: parsing '' @ [CHR 0x22] @ txt @ [CHR 0x22] @ '': value out of range''"

definition number :: "string \<Rightarrow> string option \<Rightarrow> json_error + (json \<times> string \<times> string option)" where
  "number s pending =
     rbind (numberWhole (numberSign s)) (\<lambda>s1.
     rbind (numberFrac s1) (\<lambda>(frac, s2).
     rbind (numberExp s2) (\<lambda>(ex, s3).
       let txt = take (length s - length s3) s in
       case (if \<not> frac \<and> \<not> ex then parseInt txt else None) of
         Some n \<Rightarrow> Inr (JInt (word_of_int n), s3, pending)
       | None \<Rightarrow>
           (case parseFloat txt of
              Some f \<Rightarrow> Inr (JFloat f, s3, pending)
            | None \<Rightarrow> Inr (JFloat (F_fin 0), s3, (case pending of None \<Rightarrow> Some (rangeError txt) | Some p \<Rightarrow> Some p))))))"

text \<open>\<open>value\<close>, the loop of \<open>object\<close> and the loop of \<open>array\<close> call each other: \<open>jread\<close> ties the
  knot with fuel, and each method is a definition over the reader it calls.\<close>

datatype jwork = WValue | WMembers "json strmap" | WElements "json list"

type_synonym jresult = "json_error + (json \<times> string \<times> string option)"
type_synonym jreader = "jwork \<Rightarrow> string \<Rightarrow> string option \<Rightarrow> jresult"

definition jsonObject :: "jreader \<Rightarrow> string \<Rightarrow> string option \<Rightarrow> jresult" where
  "jsonObject rd s p =
     (let t = skipSpace (drop 1 s) in
      rbind (need t) (\<lambda>d. if d = CHR ''}'' then Inr (JObj [], drop 1 t, p) else rd (WMembers []) t p))"

definition jsonArray :: "jreader \<Rightarrow> string \<Rightarrow> string option \<Rightarrow> jresult" where
  "jsonArray rd s p =
     (let t = skipSpace (drop 1 s) in
      rbind (need t) (\<lambda>d. if d = CHR '']'' then Inr (JArr [], drop 1 t, p) else rd (WElements []) t p))"

definition jsonValue :: "jreader \<Rightarrow> string \<Rightarrow> string option \<Rightarrow> jresult" where
  "jsonValue rd s0 p =
     (let s = skipSpace s0 in
      rbind (need s) (\<lambda>c.
        if c = CHR ''{'' then jsonObject rd s p
        else if c = CHR ''['' then jsonArray rd s p
        else if c = CHR 0x22 then rbind (str s) (\<lambda>(x, t). Inr (JStr x, t, p))
        else if c = CHR ''-'' \<or> isD c then number s p
        else if c = CHR ''t'' then rbind (literal ''true'' ''true'' s) (\<lambda>t. Inr (JBool True, t, p))
        else if c = CHR ''f'' then rbind (literal ''false'' ''false'' s) (\<lambda>t. Inr (JBool False, t, p))
        else if c = CHR ''n'' then rbind (literal ''null'' ''null'' s) (\<lambda>t. Inr (JNull, t, p))
        else Inl (syntaxError c ''looking for beginning of value'')))"

definition jsonMembers :: "jreader \<Rightarrow> json strmap \<Rightarrow> string \<Rightarrow> string option \<Rightarrow> jresult" where
  "jsonMembers rd out s0 p =
     (let s = skipSpace s0 in
      rbind (need s) (\<lambda>c.
        if c \<noteq> CHR 0x22 then Inl (syntaxError c ''looking for beginning of object key string'')
        else rbind (str s) (\<lambda>(k, t0).
          let t = skipSpace t0 in
          rbind (need t) (\<lambda>d.
            if d \<noteq> CHR '':'' then Inl (syntaxError d ''after object key'')
            else rbind (rd WValue (drop 1 t) p) (\<lambda>(v, u0, p').
              let out' = put k v out; u = skipSpace u0 in
              rbind (need u) (\<lambda>e.
                if e = CHR '','' then rd (WMembers out') (drop 1 u) p'
                else if e = CHR ''}'' then Inr (JObj out', drop 1 u, p')
                else Inl (syntaxError e ''after object key:value pair'')))))))"

definition jsonElements :: "jreader \<Rightarrow> json list \<Rightarrow> string \<Rightarrow> string option \<Rightarrow> jresult" where
  "jsonElements rd out s p =
     rbind (rd WValue s p) (\<lambda>(v, u0, p').
       let u = skipSpace u0 in
       rbind (need u) (\<lambda>e.
         if e = CHR '','' then rd (WElements (out @ [v])) (drop 1 u) p'
         else if e = CHR '']'' then Inr (JArr (out @ [v]), drop 1 u, p')
         else Inl (syntaxError e ''after array element'')))"

primrec jread :: "nat \<Rightarrow> jreader" where
  "jread 0 w s p = Inl JFuel"
| "jread (Suc n) w s p =
     (case w of
        WValue \<Rightarrow> jsonValue (jread n) s p
      | WMembers out \<Rightarrow> jsonMembers (jread n) out s p
      | WElements out \<Rightarrow> jsonElements (jread n) out s p)"

definition secondValueError :: "char \<Rightarrow> string" where
  "secondValueError kind =
     (if kind = CHR ''{'' \<or> kind = CHR ''n'' then ''multiple JSON values''
      else ''json: cannot unmarshal '' @
        (if kind = CHR ''['' then ''array'' else if kind = CHR 0x22 then ''string''
         else if kind = CHR ''t'' \<or> kind = CHR ''f'' then ''bool'' else ''number'')
        @ '' into Go value of type struct {}'')"

definition decodeJSONText :: "string \<Rightarrow> json_error + json" where
  "decodeJSONText data =
     (let s = skipSpace data; fuel = 2 * length data + 2 in
      if s = [] then Inl (JErr ''EOF'')
      else rbind (jread fuel WValue s None) (\<lambda>(v, t0, p).
        let t = skipSpace t0 in
        if t \<noteq> [] then
          rbind (jread fuel WValue t p) (\<lambda>_. Inl (JErr (secondValueError (hd t))))
        else case p of Some e \<Rightarrow> Inl (JErr e) | None \<Rightarrow> Inr v))"

end
