(* ===== verification/Values.thy ===== *)
theory Values
  imports Opcodes JsonText TextCase
begin

text \<open>
  The values of the virtual machine and the operations on them that need no machine state
  (\<open>internal/vm/vm.go\<close>, \<open>error.go\<close>). A list is a value; a dict is an address into a heap, because
  programs share and mutate dicts. A \<open>tree\<close> is a value with its dicts read out of the heap: what
  printing, JSON and the stores work on. An operation that fails returns the error it raises.
\<close>

subsection \<open>Errors\<close>

record vm_error =
  e_Code :: string
  e_Function :: string
  e_Instruction :: int
  e_Opcode :: string
  e_NodeID :: string
  e_Message :: string
  e_ExecExitCode :: int
  e_ExecOutput :: string

definition NewRuntimeError :: "string \<Rightarrow> string \<Rightarrow> int \<Rightarrow> Opcode \<Rightarrow> string \<Rightarrow> vm_error" where
  "NewRuntimeError code fn ip op msg =
     \<lparr>e_Code = code, e_Function = fn, e_Instruction = ip,
      e_Opcode = (case Registry op of Some s \<Rightarrow> op_Name s | None \<Rightarrow> []), e_NodeID = [], e_Message = msg,
      e_ExecExitCode = 0, e_ExecOutput = []\<rparr>"

text \<open>\<open>json.Marshal\<close> of the error: the fields in order, the opcode and the node left out when empty.\<close>

definition jsonField :: "string \<Rightarrow> string \<Rightarrow> string" where
  "jsonField k v = appendJSONString k @ '':'' @ v"

definition errorFields :: "vm_error \<Rightarrow> string list" where
  "errorFields e =
     [jsonField ''phase'' (appendJSONString ''runtime''), jsonField ''code'' (appendJSONString (e_Code e)),
      jsonField ''function'' (appendJSONString (e_Function e)), jsonField ''instruction'' (itoa (e_Instruction e))]
     @ (if e_Opcode e = [] then [] else [jsonField ''opcode'' (appendJSONString (e_Opcode e))])
     @ (if e_NodeID e = [] then [] else [jsonField ''node_id'' (appendJSONString (e_NodeID e))])
     @ [jsonField ''message'' (appendJSONString (e_Message e))]"

definition Error :: "vm_error \<Rightarrow> string" where
  "Error e = ''{'' @ join '','' (errorFields e) @ ''}''"

definition CatchString :: "vm_error \<Rightarrow> string" where
  "CatchString e =
     (if e_ExecExitCode e = 0 then Error e
      else ''{'' @ join '','' (errorFields e @
        [jsonField ''exit_code'' (itoa (e_ExecExitCode e)), jsonField ''output'' (appendJSONString (e_ExecOutput e))]) @ ''}'')"

subsection \<open>Values\<close>

datatype val =
    VNil
  | VBool bool
  | VInt "64 word"
  | VGoInt "64 word"
  | VFloat f64
  | VStr string
  | VBytes string
  | VList "val list"
  | VDict nat
  | VStore nat

type_synonym dict = "val strmap"
type_synonym heap = "dict list"

text \<open>\<open>%T\<close>.\<close>

definition typeName :: "val \<Rightarrow> string" where
  "typeName v =
     (case v of
        VNil \<Rightarrow> ''<nil>'' | VBool _ \<Rightarrow> ''bool'' | VInt _ \<Rightarrow> ''int64'' | VGoInt _ \<Rightarrow> ''int''
      | VFloat _ \<Rightarrow> ''float64'' | VStr _ \<Rightarrow> ''string'' | VBytes _ \<Rightarrow> ''[]uint8''
      | VList _ \<Rightarrow> ''[]interface {}'' | VDict _ \<Rightarrow> ''map[string]interface {}''
      | VStore _ \<Rightarrow> ''*vm.bcMemoryStore'')"

subsection \<open>Integers\<close>

definition intVal :: "int \<Rightarrow> val" where
  "intVal i = VInt (word_of_int i)"

definition asInt64 :: "val \<Rightarrow> (64 word) option" where
  "asInt64 v = (case v of VInt i \<Rightarrow> Some i | VGoInt i \<Rightarrow> Some i | _ \<Rightarrow> None)"

definition toFloat64 :: "val \<Rightarrow> f64 option" where
  "toFloat64 v =
     (case v of VInt i \<Rightarrow> Some (f64_of_int (sint i)) | VFloat f \<Rightarrow> Some f
      | VGoInt i \<Rightarrow> Some (f64_of_int (sint i)) | _ \<Rightarrow> None)"

definition MaxInt64 :: "64 word" where "MaxInt64 = 0x7FFFFFFFFFFFFFFF"
definition MinInt64 :: "64 word" where "MinInt64 = 0x8000000000000000"

definition addOverflows :: "64 word \<Rightarrow> 64 word \<Rightarrow> bool" where
  "addOverflows a b \<longleftrightarrow> (sint b > 0 \<and> sint a > sint (MaxInt64 - b)) \<or> (sint b < 0 \<and> sint a < sint (MinInt64 - b))"

definition subOverflows :: "64 word \<Rightarrow> 64 word \<Rightarrow> bool" where
  "subOverflows a b \<longleftrightarrow> (sint b > 0 \<and> sint a < sint (MinInt64 + b)) \<or> (sint b < 0 \<and> sint a > sint (MaxInt64 + b))"

definition mulOverflowsInt64 :: "64 word \<Rightarrow> 64 word \<Rightarrow> bool" where
  "mulOverflowsInt64 a b =
     (if a = 0 \<or> b = 0 then False
      else if (a = -1 \<and> b = MinInt64) \<or> (b = -1 \<and> a = MinInt64) then True
      else let c = a * b in word_of_int (sint c sdiv sint b) \<noteq> a)"

definition runtimeError :: "string \<Rightarrow> string \<Rightarrow> vm_error" where
  "runtimeError code msg = NewRuntimeError code ''main'' 0 OpUnknown msg"

definition bcCheckedAddInt64 :: "64 word \<Rightarrow> 64 word \<Rightarrow> vm_error + 64 word" where
  "bcCheckedAddInt64 a b = (if addOverflows a b then Inl (runtimeError ''RUNTIME_ERROR'' ''integer overflow'') else Inr (a + b))"

definition bcCheckedSubInt64 :: "64 word \<Rightarrow> 64 word \<Rightarrow> vm_error + 64 word" where
  "bcCheckedSubInt64 a b = (if subOverflows a b then Inl (runtimeError ''RUNTIME_ERROR'' ''integer overflow'') else Inr (a - b))"

definition bcCheckedMulInt64 :: "64 word \<Rightarrow> 64 word \<Rightarrow> vm_error + 64 word" where
  "bcCheckedMulInt64 a b = (if mulOverflowsInt64 a b then Inl (runtimeError ''RUNTIME_ERROR'' ''integer overflow'') else Inr (a * b))"

subsection \<open>Comparison\<close>

definition two63 :: f64 where "two63 = F_fin (2 ^ 63)"
definition minus63 :: f64 where "minus63 = F_fin (- (2 ^ 63))"

definition floatIsWholeInt64 :: "f64 \<Rightarrow> bool" where
  "floatIsWholeInt64 f =
     (if isNaN f \<or> isInf f \<or> flt f minus63 \<or> fle two63 f then False else feq (ftrunc f) f)"

definition cmpIntNonWholeFloat :: "64 word \<Rightarrow> f64 \<Rightarrow> int" where
  "cmpIntNonWholeFloat i f =
     (if fle two63 f then - 1
      else if flt f minus63 then 1
      else if sint i \<le> f64_to_int (ffloor f) then - 1
      else 1)"

definition cmpInt :: "int \<Rightarrow> int \<Rightarrow> int" where
  "cmpInt a b = (if a < b then - 1 else if a > b then 1 else 0)"

text \<open>\<open>None\<close> is the result \<open>(0, false)\<close>: an operand is no number.\<close>

definition compareNumeric :: "val \<Rightarrow> val \<Rightarrow> int option" where
  "compareNumeric a b =
     (case (asInt64 a, asInt64 b) of
        (Some ai, Some bi) \<Rightarrow> Some (cmpInt (sint ai) (sint bi))
      | (ai0, bi0) \<Rightarrow>
         (case (toFloat64 a, toFloat64 b) of
            (Some af, Some bf) \<Rightarrow>
              (case (ai0, bi0) of
                 (Some ai, None) \<Rightarrow>
                   if \<not> isNaN bf \<and> \<not> floatIsWholeInt64 bf then Some (cmpIntNonWholeFloat ai bf)
                   else if floatIsWholeInt64 bf then Some (cmpInt (sint ai) (f64_to_int bf))
                   else Some (if flt af bf then - 1 else if flt bf af then 1 else 0)
               | (None, Some bi) \<Rightarrow>
                   if \<not> isNaN af \<and> \<not> floatIsWholeInt64 af then Some (- cmpIntNonWholeFloat bi af)
                   else if floatIsWholeInt64 af then Some (cmpInt (f64_to_int af) (sint bi))
                   else Some (if flt af bf then - 1 else if flt bf af then 1 else 0)
               | _ \<Rightarrow> Some (if flt af bf then - 1 else if flt bf af then 1 else 0))
          | _ \<Rightarrow> None))"

definition relationalHasNaN :: "val \<Rightarrow> val \<Rightarrow> bool" where
  "relationalHasNaN a b =
     (case (toFloat64 a, toFloat64 b) of (Some x, Some y) \<Rightarrow> isNaN x \<or> isNaN y | _ \<Rightarrow> False)"

definition compareStrings :: "val \<Rightarrow> val \<Rightarrow> int option" where
  "compareStrings a b =
     (case (a, b) of
        (VStr x, VStr y) \<Rightarrow> Some (if x < y then - 1 else if y < x then 1 else 0)
      | _ \<Rightarrow> None)"

definition intEqualsFloat :: "64 word \<Rightarrow> f64 \<Rightarrow> bool" where
  "intEqualsFloat i f =
     (if \<not> feq f (ftrunc f) \<or> flt f minus63 \<or> fle two63 f then False else f64_to_int f = sint i)"

definition numericEqual :: "val \<Rightarrow> val \<Rightarrow> bool option" where
  "numericEqual a b =
     (case (asInt64 a, asInt64 b) of
        (Some ai, Some bi) \<Rightarrow> Some (ai = bi)
      | (ai0, bi0) \<Rightarrow>
         (case (a, b) of
            (VFloat af, VFloat bf) \<Rightarrow> Some (feq af bf)
          | (_, VFloat bf) \<Rightarrow> (case ai0 of Some ai \<Rightarrow> Some (intEqualsFloat ai bf) | None \<Rightarrow> None)
          | (VFloat af, _) \<Rightarrow> (case bi0 of Some bi \<Rightarrow> Some (intEqualsFloat bi af) | None \<Rightarrow> None)
          | _ \<Rightarrow> None))"

definition isCollection :: "val \<Rightarrow> bool" where
  "isCollection v = (case v of VList _ \<Rightarrow> True | VBytes _ \<Rightarrow> True | VDict _ \<Rightarrow> True | _ \<Rightarrow> False)"

definition BcValuesEqual :: "val \<Rightarrow> val \<Rightarrow> bool" where
  "BcValuesEqual a b =
     (if isCollection a \<or> isCollection b then False
      else case numericEqual a b of Some eq \<Rightarrow> eq | None \<Rightarrow> a = b)"

subsection \<open>Operators\<close>

definition BcToBool :: "val \<Rightarrow> vm_error + bool" where
  "BcToBool v =
     (case v of VBool b \<Rightarrow> Inr b | _ \<Rightarrow> Inl (runtimeError ''TYPE_ERROR'' (''expected boolean, got '' @ typeName v)))"

definition requiresNumeric :: "string \<Rightarrow> val \<Rightarrow> val \<Rightarrow> string" where
  "requiresNumeric op a b = op @ '' requires numeric operands, got '' @ typeName a @ '' and '' @ typeName b"

definition floatArithmetic :: "string \<Rightarrow> f64 \<Rightarrow> f64 \<Rightarrow> f64 \<times> bool" where
  "floatArithmetic op a b =
     (let res = (if op = ''+'' then fadd a b else if op = ''-'' then fsub a b
                 else if op = ''*'' then fmul a b else F_fin 0)
      in (res, \<not> isNaN res \<and> \<not> isInf res))"

definition floatOverflowMessage :: "string \<Rightarrow> f64 \<Rightarrow> f64 \<Rightarrow> string" where
  "floatOverflowMessage op a b =
     ''floating-point overflow: '' @ formatG a @ '' '' @ op @ '' '' @ formatG b @ '' is not finite''"

definition bcNumericArithmetic :: "string \<Rightarrow> val \<Rightarrow> val \<Rightarrow> vm_error + val" where
  "bcNumericArithmetic op a b =
     (case (asInt64 a, asInt64 b) of
        (Some ai, Some bi) \<Rightarrow>
          rbind (if op = ''+'' then bcCheckedAddInt64 ai bi
                 else if op = ''-'' then bcCheckedSubInt64 ai bi
                 else bcCheckedMulInt64 ai bi) (\<lambda>c. Inr (VInt c))
      | _ \<Rightarrow>
         (case (toFloat64 a, toFloat64 b) of
            (Some af, Some bf) \<Rightarrow>
              (let (res, finite) = floatArithmetic op af bf in
               if \<not> finite then Inl (runtimeError ''RUNTIME_ERROR'' (floatOverflowMessage op af bf))
               else Inr (VFloat res))
          | _ \<Rightarrow> Inl (runtimeError ''TYPE_ERROR'' (requiresNumeric op a b))))"

definition bcNumericDiv :: "val \<Rightarrow> val \<Rightarrow> vm_error + val" where
  "bcNumericDiv a b =
     (case (toFloat64 a, toFloat64 b) of
        (Some af, Some bf) \<Rightarrow>
          if feq bf (F_fin 0) then Inl (runtimeError ''RUNTIME_ERROR'' ''division by zero'')
          else let res = fdiv af bf in
            if isNaN res \<or> isInf res
            then Inl (runtimeError ''RUNTIME_ERROR'' ''division produced an invalid floating-point result'')
            else Inr (VFloat res)
      | _ \<Rightarrow> Inl (runtimeError ''TYPE_ERROR'' (requiresNumeric ''/'' a b)))"

definition orderHolds :: "string \<Rightarrow> int \<Rightarrow> bool" where
  "orderHolds op c =
     (if op = ''<'' then c < 0 else if op = ''>'' then c > 0 else if op = ''<='' then c \<le> 0 else c \<ge> 0)"

definition bcNumericRelational :: "string \<Rightarrow> val \<Rightarrow> val \<Rightarrow> vm_error + val" where
  "bcNumericRelational op a b =
     (if relationalHasNaN a b then Inr (VBool False)
      else case compareNumeric a b of
        Some c \<Rightarrow> Inr (VBool (orderHolds op c))
      | None \<Rightarrow>
         (case compareStrings a b of
            Some c \<Rightarrow> Inr (VBool (orderHolds op c))
          | None \<Rightarrow> Inl (runtimeError ''TYPE_ERROR'' (requiresNumeric op a b))))"

definition bcNumericBinop :: "string \<Rightarrow> val \<Rightarrow> val \<Rightarrow> vm_error + val" where
  "bcNumericBinop op a b =
     (if op \<in> {''+'', ''-'', ''*''} then bcNumericArithmetic op a b
      else if op = ''/'' then bcNumericDiv a b
      else if op \<in> {''<'', ''>'', ''<='', ''>=''} then bcNumericRelational op a b
      else Inl (runtimeError ''VM_INTERNAL'' (''unknown binop: '' @ op)))"

definition BcBinop :: "string \<Rightarrow> val \<Rightarrow> val \<Rightarrow> vm_error + val" where
  "BcBinop op a b =
     (if op = ''and'' then rbind (BcToBool a) (\<lambda>x. if x then rbind (BcToBool b) (\<lambda>y. Inr (VBool y)) else Inr (VBool False))
      else if op = ''or'' then rbind (BcToBool a) (\<lambda>x. if x then Inr (VBool True) else rbind (BcToBool b) (\<lambda>y. Inr (VBool y)))
      else if op = ''=='' then Inr (VBool (BcValuesEqual a b))
      else if op = ''!='' then Inr (VBool (\<not> BcValuesEqual a b))
      else if op = ''+'' then
        (case (a, b) of (VStr x, VStr y) \<Rightarrow> Inr (VStr (x @ y)) | _ \<Rightarrow> bcNumericBinop op a b)
      else bcNumericBinop op a b)"

subsection \<open>Trees\<close>

datatype tree =
    TNil
  | TBool bool
  | TInt "64 word"
  | TGoInt "64 word"
  | TFloat f64
  | TStr string
  | TBytes string
  | TList "tree list"
  | TDict "(string \<times> tree) list"
  | TStore nat

text \<open>The value read out of the heap. The recursion of the source has no bound: it does not return
  on a dict that contains itself. Fuel is the number of dicts a path may pass through; without a
  cycle no path passes through more dicts than the heap has.\<close>

fun freeze :: "heap \<Rightarrow> nat \<Rightarrow> val \<Rightarrow> unit + tree" where
  "freeze h n VNil = Inr TNil"
| "freeze h n (VBool b) = Inr (TBool b)"
| "freeze h n (VInt i) = Inr (TInt i)"
| "freeze h n (VGoInt i) = Inr (TGoInt i)"
| "freeze h n (VFloat f) = Inr (TFloat f)"
| "freeze h n (VStr s) = Inr (TStr s)"
| "freeze h n (VBytes s) = Inr (TBytes s)"
| "freeze h n (VStore a) = Inr (TStore a)"
| "freeze h n (VList xs) = rbind (traverse (freeze h n) xs) (\<lambda>ts. Inr (TList ts))"
| "freeze h 0 (VDict a) = Inl ()"
| "freeze h (Suc n) (VDict a) =
     rbind (traverse (\<lambda>(k, v). rbind (freeze h n v) (\<lambda>t. Inr (k, t))) (if a < length h then h ! a else []))
       (\<lambda>kts. Inr (TDict kts))"

definition treeOf :: "heap \<Rightarrow> val \<Rightarrow> tree option" where
  "treeOf h v = (case freeze h (length h) v of Inl _ \<Rightarrow> None | Inr t \<Rightarrow> Some t)"

text \<open>\<open>byteValues\<close>: a byte read as a list element is a \<open>float64\<close>.\<close>

definition byteFloat :: "char \<Rightarrow> f64" where
  "byteFloat c = F_fin (of_nat (byte c))"

text \<open>Fresh dicts for a tree, as the deep copies of the stores and the JSON reader make them.\<close>

fun thaw :: "heap \<Rightarrow> tree \<Rightarrow> heap \<times> val"
  and thawList :: "heap \<Rightarrow> tree list \<Rightarrow> heap \<times> val list"
  and thawEntries :: "heap \<Rightarrow> (string \<times> tree) list \<Rightarrow> heap \<times> dict" where
  "thaw h TNil = (h, VNil)"
| "thaw h (TBool b) = (h, VBool b)"
| "thaw h (TInt i) = (h, VInt i)"
| "thaw h (TGoInt i) = (h, VGoInt i)"
| "thaw h (TFloat f) = (h, VFloat f)"
| "thaw h (TStr s) = (h, VStr s)"
| "thaw h (TBytes s) = (h, VBytes s)"
| "thaw h (TStore a) = (h, VStore a)"
| "thaw h (TList ts) = (case thawList h ts of (h', vs) \<Rightarrow> (h', VList vs))"
| "thaw h (TDict kts) = (case thawEntries h kts of (h', kvs) \<Rightarrow> (h' @ [kvs], VDict (length h')))"
| "thawList h [] = (h, [])"
| "thawList h (t # ts) = (case thaw h t of (h1, v) \<Rightarrow> case thawList h1 ts of (h2, vs) \<Rightarrow> (h2, v # vs))"
| "thawEntries h [] = (h, [])"
| "thawEntries h ((k, t) # kts) =
     (case thaw h t of (h1, v) \<Rightarrow> case thawEntries h1 kts of (h2, kvs) \<Rightarrow> (h2, (k, v) # kvs))"

text \<open>\<open>fmt.Sprint\<close>; a store handle prints its address and is refused before.\<close>

fun hasStore :: "tree \<Rightarrow> bool" where
  "hasStore (TStore a) = True"
| "hasStore (TList ts) = (\<exists>t \<in> set ts. hasStore t)"
| "hasStore (TDict kts) = (\<exists>(k, t) \<in> set kts. hasStore t)"
| "hasStore t = False"

fun sprint :: "tree \<Rightarrow> string" where
  "sprint TNil = ''<nil>''"
| "sprint (TBool b) = boolText b"
| "sprint (TInt i) = itoa (sint i)"
| "sprint (TGoInt i) = itoa (sint i)"
| "sprint (TFloat f) = formatG f"
| "sprint (TStr s) = s"
| "sprint (TBytes s) = ''['' @ join '' '' (map (\<lambda>c. natDigits (byte c)) s) @ '']''"
| "sprint (TList ts) = ''['' @ join '' '' (map sprint ts) @ '']''"
| "sprint (TDict kts) =
     ''map['' @ join '' '' (map (\<lambda>(k, t). k @ '':'' @ t) (sort_key fst (map (\<lambda>(k, t). (k, sprint t)) kts))) @ '']''"
| "sprint (TStore a) = []"

definition TextOf :: "tree \<Rightarrow> string" where
  "TextOf t = (if t = TNil then [] else sprint t)"

text \<open>\<open>normalizeForJSON\<close> and the dispatch of \<open>appendJSON\<close> on Go types.\<close>

fun toJson :: "tree \<Rightarrow> json" where
  "toJson TNil = JNull"
| "toJson (TBool b) = JBool b"
| "toJson (TInt i) = JInt i"
| "toJson (TGoInt i) = JInt i"
| "toJson (TFloat f) = JFloat f"
| "toJson (TStr s) = JStr s"
| "toJson (TBytes s) = JArr (map (\<lambda>c. JFloat (byteFloat c)) s)"
| "toJson (TList ts) = JArr (map toJson ts)"
| "toJson (TDict kts) = JObj (map (\<lambda>(k, t). (k, toJson t)) kts)"
| "toJson (TStore a) = JObj []"

fun fromJson :: "json \<Rightarrow> tree" where
  "fromJson JNull = TNil"
| "fromJson (JBool b) = TBool b"
| "fromJson (JInt i) = TInt i"
| "fromJson (JFloat f) = TFloat f"
| "fromJson (JStr s) = TStr s"
| "fromJson (JArr xs) = TList (map fromJson xs)"
| "fromJson (JObj m) = TDict (map (\<lambda>(k, v). (k, fromJson v)) m)"

text \<open>\<open>cloneStoreValue\<close> on a tree: stored bytes are their number list.\<close>

fun cloneTree :: "tree \<Rightarrow> tree" where
  "cloneTree (TBytes s) = TList (map (\<lambda>c. TFloat (byteFloat c)) s)"
| "cloneTree (TList ts) = TList (map cloneTree ts)"
| "cloneTree (TDict kts) = TDict (map (\<lambda>(k, t). (k, cloneTree t)) kts)"
| "cloneTree t = t"

subsection \<open>Collections and conversions\<close>

definition collectionLen :: "val \<Rightarrow> nat option" where
  "collectionLen v =
     (case v of VList xs \<Rightarrow> Some (length xs) | VStr s \<Rightarrow> Some (length s) | VBytes s \<Rightarrow> Some (length s) | _ \<Rightarrow> None)"

definition bytesToAnySlice :: "string \<Rightarrow> val list" where
  "bytesToAnySlice s = map (\<lambda>c. VFloat (byteFloat c)) s"

definition listElement :: "val \<Rightarrow> nat \<Rightarrow> val" where
  "listElement v i =
     (case v of VBytes s \<Rightarrow> VFloat (byteFloat (s ! i)) | VList xs \<Rightarrow> xs ! i | _ \<Rightarrow> VNil)"

text \<open>\<open>byte(f)\<close> of a number: on amd64 the low byte of its conversion to an integer.\<close>

definition byteOfFloat :: "f64 \<Rightarrow> char" where
  "byteOfFloat f = chr (nat (f64_to_int f mod 256))"

fun bytesFromNumberList :: "val list \<Rightarrow> int \<Rightarrow> Opcode \<Rightarrow> string \<Rightarrow> vm_error + string" where
  "bytesFromNumberList [] ip op opName = Inr []"
| "bytesFromNumberList (v # vs) ip op opName =
     (case toFloat64 v of
        None \<Rightarrow> Inl (NewRuntimeError ''TYPE_ERROR'' ''main'' ip op
                 (opName @ '' byte list element expected number, got '' @ typeName v))
      | Some f \<Rightarrow> rbind (bytesFromNumberList vs ip op opName) (\<lambda>bs. Inr (byteOfFloat f # bs)))"

text \<open>\<open>ToInt\<close>: \<open>None\<close> is the error.\<close>

definition ToInt :: "val \<Rightarrow> int option" where
  "ToInt v =
     (case v of VInt i \<Rightarrow> Some (sint i) | VFloat f \<Rightarrow> Some (f64_to_int f) | VGoInt i \<Rightarrow> Some (sint i)
      | VStr s \<Rightarrow> parseInt s | _ \<Rightarrow> None)"

definition parseFiniteFloat :: "string \<Rightarrow> f64 option" where
  "parseFiniteFloat txt =
     (case parseFloat (trimSpace txt) of
        None \<Rightarrow> None | Some f \<Rightarrow> if isNaN f \<or> isInf f then None else Some f)"

text \<open>\<open>strconv.Quote\<close>.\<close>

definition quoteRune :: "unicode \<Rightarrow> rune \<Rightarrow> bytes \<Rightarrow> string" where
  "quoteRune u r bs =
     (if r = runeError \<and> length bs = 1 then CHR 0x5C # ''x'' @ hexText 2 (byte (hd bs))
      else if r = 0x22 \<or> r = 0x5C then CHR 0x5C # bs
      else if r < 0x80 then quotedByte (hd bs)
      else if uni_print u r then bs
      else if r < 0x10000 then CHR 0x5C # ''u'' @ hexText 4 r
      else CHR 0x5C # ''U'' @ hexText 8 r)"

definition quote :: "unicode \<Rightarrow> string \<Rightarrow> string" where
  "quote u s = [CHR 0x22] @ concat (map (\<lambda>(r, bs). quoteRune u r bs) (runesOf s)) @ [CHR 0x22]"

definition conversionError :: "string \<Rightarrow> string \<Rightarrow> vm_error" where
  "conversionError what target =
     NewRuntimeError ''CONVERSION_ERROR'' ''main'' 0 OpConvert (''cannot convert '' @ what @ '' to '' @ target)"

definition convertToInt :: "unicode \<Rightarrow> val \<Rightarrow> vm_error + val" where
  "convertToInt u a =
     (case a of
        VFloat f \<Rightarrow>
          if isNaN f \<or> isInf f \<or> flt f minus63 \<or> fle two63 f then Inl (conversionError (formatG f) ''int'')
          else Inr (intVal (f64_to_int f))
      | VStr s \<Rightarrow> (case parseInt (trimSpace s) of
           None \<Rightarrow> Inl (conversionError (quote u s) ''int'') | Some i \<Rightarrow> Inr (intVal i))
      | VInt i \<Rightarrow> Inr (VInt i)
      | _ \<Rightarrow> Inl (conversionError (typeName a) ''int''))"

definition convertToFloat :: "unicode \<Rightarrow> val \<Rightarrow> vm_error + val" where
  "convertToFloat u a =
     (case a of
        VStr s \<Rightarrow> (case parseFiniteFloat s of
           None \<Rightarrow> Inl (conversionError (quote u s) ''float'') | Some f \<Rightarrow> Inr (VFloat f))
      | VFloat f \<Rightarrow> if isNaN f \<or> isInf f then Inl (conversionError (formatG f) ''float'') else Inr (VFloat f)
      | VInt i \<Rightarrow> Inr (VFloat (f64_of_int (sint i)))
      | _ \<Rightarrow> Inl (conversionError (typeName a) ''float''))"

definition bytesToString :: "val \<Rightarrow> vm_error + val" where
  "bytesToString a =
     (case a of
        VBytes s \<Rightarrow> Inr (VStr s)
      | VList xs \<Rightarrow> rbind (bytesFromNumberList xs 0 OpConvert ''bytes_to_string'') (\<lambda>s. Inr (VStr s))
      | _ \<Rightarrow> Inl (NewRuntimeError ''TYPE_ERROR'' ''main'' 0 OpConvert
               (''bytes_to_string expected []any, got '' @ typeName a)))"

text \<open>\<open>t\<close> is the value read out of the heap, for the targets that print it.\<close>

definition BcConvert :: "unicode \<Rightarrow> string \<Rightarrow> val \<Rightarrow> tree \<Rightarrow> vm_error + val" where
  "BcConvert u target a t =
     (if target = ''to_int'' then convertToInt u a
      else if target = ''to_float'' then convertToFloat u a
      else if target = ''to_string'' then Inr (VStr (TextOf t))
      else if target = ''bytes_to_string'' then bytesToString a
      else if target = ''to_lower'' then Inr (VStr (ToLower (sprint t)))
      else if target = ''to_upper'' then Inr (VStr (ToUpper (sprint t)))
      else if target = ''str_trim'' then Inr (VStr (trimSpace (sprint t)))
      else Inr a)"

text \<open>\<open>html.EscapeString\<close>, by \<open>htmlescape.Escape\<close>.\<close>

definition escapeByte :: "char \<Rightarrow> string" where
  "escapeByte c =
     (if c = CHR ''&'' then ''&amp;'' else if c = CHR 0x27 then ''&#39;'' else if c = CHR ''<'' then ''&lt;''
      else if c = CHR ''>'' then ''&gt;'' else if c = CHR 0x22 then ''&#34;'' else [c])"

definition Escape :: "string \<Rightarrow> string" where
  "Escape s = concat (map escapeByte s)"

end
