(* ===== verification/ValueLaws.thy ===== *)
theory ValueLaws
  imports Values
begin

text \<open>
  What the numeric operators promise: integer arithmetic is exact or an error, and comparison and
  equality follow the exact values of their operands, with no rounding of an integer through
  \<open>float64\<close>. The exact value of a number is an extended rational (\<open>xrat\<close>), a linear order.
\<close>

subsection \<open>Checked integers\<close>

lemma sint_word_of_int64: "inInt64 k \<Longrightarrow> sint (word_of_int k :: 64 word) = k"
  by (simp add: inInt64_def signed_take_bit_int_eq_self sint_sbintrunc')

lemma sint_range64: "inInt64 (sint (a :: 64 word))"
  using sint_ge [of a] sint_lt [of a] by (simp add: inInt64_def)

lemma MaxInt64_minus: "sint b > 0 \<Longrightarrow> sint (MaxInt64 - b) = 2 ^ 63 - 1 - sint b"
proof -
  assume b: "sint b > 0"
  have "MaxInt64 - b = word_of_int (2 ^ 63 - 1 - sint b)"
    by (simp add: MaxInt64_def of_int_sint)
  then show ?thesis using sint_word_of_int64 [of "2 ^ 63 - 1 - sint b"] b sint_range64 [of b]
    by (simp add: inInt64_def)
qed

lemma MinInt64_minus: "sint b < 0 \<Longrightarrow> sint (MinInt64 - b) = - (2 ^ 63) - sint b"
proof -
  assume b: "sint b < 0"
  have "MinInt64 - b = word_of_int (- (2 ^ 63) - sint b)"
    by (simp add: MinInt64_def of_int_sint)
  then show ?thesis using sint_word_of_int64 [of "- (2 ^ 63) - sint b"] b sint_range64 [of b]
    by (simp add: inInt64_def)
qed

lemma MinInt64_plus: "sint b > 0 \<Longrightarrow> sint (MinInt64 + b) = - (2 ^ 63) + sint b"
proof -
  assume b: "sint b > 0"
  have "MinInt64 + b = word_of_int (- (2 ^ 63) + sint b)"
    by (simp add: MinInt64_def of_int_sint)
  moreover have "inInt64 (- (2 ^ 63) + sint b)" using b sint_range64 [of b] by (simp add: inInt64_def)
  ultimately show ?thesis by (simp only: sint_word_of_int64)
qed

lemma MaxInt64_plus: "sint b < 0 \<Longrightarrow> sint (MaxInt64 + b) = 2 ^ 63 - 1 + sint b"
proof -
  assume b: "sint b < 0"
  have "MaxInt64 + b = word_of_int (2 ^ 63 - 1 + sint b)"
    by (simp add: MaxInt64_def of_int_sint)
  then show ?thesis using sint_word_of_int64 [of "2 ^ 63 - 1 + sint b"] b sint_range64 [of b]
    by (simp add: inInt64_def)
qed

lemma addOverflows_iff: "addOverflows a b \<longleftrightarrow> \<not> inInt64 (sint a + sint b)"
  using sint_range64 [of a] sint_range64 [of b]
  by (cases "sint b > 0"; cases "sint b < 0")
    (auto simp: addOverflows_def MaxInt64_minus MinInt64_minus inInt64_def)

lemma subOverflows_iff: "subOverflows a b \<longleftrightarrow> \<not> inInt64 (sint a - sint b)"
  using sint_range64 [of a] sint_range64 [of b]
  by (cases "sint b > 0"; cases "sint b < 0")
    (auto simp: subOverflows_def MaxInt64_plus MinInt64_plus inInt64_def)

lemma word_of_int_sint_op:
  "(a :: 64 word) + b = word_of_int (sint a + sint b)" "a - b = word_of_int (sint a - sint b)"
  "a * b = word_of_int (sint a * sint b)"
  by (simp_all add: of_int_sint)

lemma sint_eq_iff64: "(a :: 64 word) = b \<longleftrightarrow> sint a = sint b"
  by (auto dest: signed_word_eqI)

lemma sint_MinInt64: "sint MinInt64 = - (2 ^ 63)"
  by (simp add: MinInt64_def)

lemma sdiv_mult_cancel: "(y :: int) \<noteq> 0 \<Longrightarrow> (x * y) sdiv y = x"
proof -
  assume y: "y \<noteq> 0"
  have "(x * y) sdiv y = (sgn x * \<bar>x\<bar>) * (sgn y * sgn y)"
    using y by (simp add: signed_divide_int_def abs_mult sgn_mult mult_ac)
  also have "sgn y * sgn y = 1" using y by (simp add: sgn_if)
  finally show ?thesis by (simp add: mult.commute [of "sgn x"] abs_mult_sgn)
qed

text \<open>A product that wraps does not divide back: the remainder would be a multiple of \<open>2 ^ 64\<close>
  smaller than the divisor.\<close>

lemma wrapped_remainder:
  fixes c q x y :: int
  assumes "c = q * y + c smod y" "y \<noteq> 0" "\<bar>y\<bar> \<le> 2 ^ 63" "c mod 2 ^ 64 = (q * y) mod 2 ^ 64"
  shows "c = q * y"
proof -
  have "(2 ^ 64 :: int) dvd c - q * y" using assms(4) by (simp add: mod_eq_dvd_iff)
  moreover have "c - q * y = c smod y" using assms(1) by linarith
  ultimately have d: "2 ^ 64 dvd c smod y" by simp
  have "\<bar>c smod y\<bar> < \<bar>y\<bar>" using smod_int_range [OF assms(2), of c] by auto
  with assms(3) have "\<bar>c smod y\<bar> < 2 ^ 64" by simp
  with d have "c smod y = 0" using dvd_imp_le_int [of "c smod y" "2 ^ 64"] by auto
  with assms(1) show ?thesis by simp
qed

lemma mul_div_back:
  assumes "b \<noteq> 0" "\<not> (b = -1 \<and> a = MinInt64)"
  shows "word_of_int (sint (a * b) sdiv sint b) = a \<longleftrightarrow> inInt64 (sint a * sint b)"
proof
  assume r: "inInt64 (sint a * sint b)"
  have "sint b \<noteq> 0" using assms(1) by (simp add: sint_eq_iff64)
  then show "word_of_int (sint (a * b) sdiv sint b) = a"
    by (simp add: word_of_int_sint_op(3) sint_word_of_int64 [OF r] sdiv_mult_cancel of_int_sint del: of_int_mult)
next
  assume bk: "word_of_int (sint (a * b) sdiv sint b) = a"
  define c where "c = sint (a * b)"
  define q where "q = c sdiv sint b"
  have b0: "sint b \<noteq> 0" using assms(1) by (simp add: sint_eq_iff64)
  have cr: "inInt64 c" unfolding c_def by (rule sint_range64)
  have qc: "\<bar>q\<bar> \<le> \<bar>c\<bar>" using sdiv_int_range [of c "sint b"] by (auto simp: q_def)
  have qa: "word_of_int q = a" using bk by (simp add: q_def c_def)
  have "inInt64 q"
  proof (rule ccontr)
    assume "\<not> inInt64 q"
    with qc cr have q: "q = 2 ^ 63" "c = - (2 ^ 63)" by (auto simp: inInt64_def abs_if split: if_splits)
    then have "c sdiv sint b = - c" by (simp add: q_def)
    moreover have "c \<noteq> 0" using q(2) by simp
    ultimately have "sint b = -1" using int_sdiv_negated_is_minus1 by blast
    then have "b = -1" by (simp add: sint_eq_iff64)
    moreover have "a = MinInt64" using qa q(1) by (simp add: MinInt64_def)
    ultimately show False using assms(2) by simp
  qed
  with qa have q: "q = sint a" using sint_word_of_int64 by metis
  have "(word_of_int c :: 64 word) = word_of_int (q * sint b)"
    by (simp add: c_def q of_int_sint)
  then have "c mod 2 ^ 64 = (q * sint b) mod 2 ^ 64"
    by (simp add: word_of_int_eq_iff take_bit_eq_mod del: of_int_mult)
  moreover have "c = q * sint b + c smod sint b" unfolding q_def by (simp add: sdiv_mult_smod_eq)
  ultimately have "c = q * sint b"
    using b0 sint_range64 [of b] by (intro wrapped_remainder) (auto simp: inInt64_def)
  with q cr show "inInt64 (sint a * sint b)" by simp
qed

lemma mulOverflowsInt64_iff: "mulOverflowsInt64 a b \<longleftrightarrow> \<not> inInt64 (sint a * sint b)"
proof (cases "b \<noteq> 0 \<and> a \<noteq> 0 \<and> \<not> (b = -1 \<and> a = MinInt64) \<and> \<not> (a = -1 \<and> b = MinInt64)")
  case True
  with mul_div_back [of b a] show ?thesis by (auto simp: mulOverflowsInt64_def Let_def)
next
  case False
  then consider "a = 0 \<or> b = 0" | "b = -1 \<and> a = MinInt64 \<or> a = -1 \<and> b = MinInt64" by blast
  then show ?thesis
  proof cases
    case 1
    then show ?thesis by (auto simp: mulOverflowsInt64_def inInt64_def)
  next
    case 2
    then show ?thesis by (auto simp: mulOverflowsInt64_def inInt64_def MinInt64_def)
  qed
qed

definition intOp :: "string \<Rightarrow> int \<Rightarrow> int \<Rightarrow> int" where
  "intOp op x y = (if op = ''+'' then x + y else if op = ''-'' then x - y else x * y)"

text \<open>C13. Integer \<open>+\<close>, \<open>-\<close> and \<open>*\<close> of the machine are exact or fail: on any two integer operands the
  result is the mathematical one whenever that fits 64 bits, and the error "integer overflow"
  exactly when it does not. A product with one negative operand is not mistaken for an overflow,
  and \<open>-1\<close> times the smallest integer is one.\<close>

theorem BcBinop_int_exact:
  assumes "op \<in> {''+'', ''-'', ''*''}" "asInt64 a = Some x" "asInt64 b = Some y"
  shows "BcBinop op a b =
    (let r = intOp op (sint x) (sint y) in
     if inInt64 r then Inr (intVal r) else Inl (runtimeError ''RUNTIME_ERROR'' ''integer overflow''))"
proof -
  have "bcNumericArithmetic op a b =
    (let r = intOp op (sint x) (sint y) in
     if inInt64 r then Inr (intVal r) else Inl (runtimeError ''RUNTIME_ERROR'' ''integer overflow''))"
    using assms
    by (auto simp: bcNumericArithmetic_def bcCheckedAddInt64_def bcCheckedSubInt64_def bcCheckedMulInt64_def
        addOverflows_iff subOverflows_iff mulOverflowsInt64_iff intOp_def intVal_def Let_def word_of_int_sint_op
        simp del: of_int_add of_int_diff of_int_mult)
  moreover have "BcBinop op a b = bcNumericArithmetic op a b"
    using assms by (auto simp: BcBinop_def bcNumericBinop_def asInt64_def split: val.splits)
  ultimately show ?thesis by simp
qed

lemma BcBinop_int_exact_witness:
  "BcBinop ''*'' (VInt 3) (VInt (-2)) = Inr (intVal (-6)) \<and>
   BcBinop ''*'' (VInt (-1)) (VInt MinInt64) = Inl (runtimeError ''RUNTIME_ERROR'' ''integer overflow'')"
  using BcBinop_int_exact [of "''*''" "VInt 3" 3 "VInt (-2)" "-2"]
    BcBinop_int_exact [of "''*''" "VInt (-1)" "-1" "VInt MinInt64" MinInt64]
  by (simp add: asInt64_def intOp_def inInt64_def sint_MinInt64)

subsection \<open>Exact comparison\<close>

declare of_int_sint [simp del]

datatype xrat = MinusInf | Fin rat | PlusInf

instantiation xrat :: linorder
begin

definition less_eq_xrat :: "xrat \<Rightarrow> xrat \<Rightarrow> bool" where
  "less_eq_xrat x y =
     (case (x, y) of (MinusInf, _) \<Rightarrow> True | (_, PlusInf) \<Rightarrow> True | (Fin p, Fin q) \<Rightarrow> p \<le> q | _ \<Rightarrow> False)"

definition less_xrat :: "xrat \<Rightarrow> xrat \<Rightarrow> bool" where
  "less_xrat x y \<longleftrightarrow> x \<le> y \<and> \<not> y \<le> x"

instance
  by standard (auto simp: less_eq_xrat_def less_xrat_def split: xrat.splits)

end

definition fexact :: "f64 \<Rightarrow> xrat option" where
  "fexact f = (case f of F_nan \<Rightarrow> None | F_inf neg \<Rightarrow> Some (if neg then MinusInf else PlusInf)
     | F_negzero \<Rightarrow> Some (Fin 0) | F_fin q \<Rightarrow> Some (Fin q))"

definition exact :: "val \<Rightarrow> xrat option" where
  "exact v = (case asInt64 v of Some i \<Rightarrow> Some (Fin (of_int (sint i)))
     | None \<Rightarrow> (case v of VFloat f \<Rightarrow> fexact f | _ \<Rightarrow> None))"

lemma xrat_less [simp]:
  "MinusInf < Fin q" "Fin q < PlusInf" "MinusInf < PlusInf" "Fin p < Fin q \<longleftrightarrow> p < q"
  "\<not> x < MinusInf" "\<not> PlusInf < x"
  by (auto simp: less_xrat_def less_eq_xrat_def split: xrat.splits)

lemma flt_exact: "fexact f = Some x \<Longrightarrow> fexact g = Some y \<Longrightarrow> flt f g \<longleftrightarrow> x < y"
  by (cases f; cases g) (auto simp: fexact_def flt_def fval_def split: if_splits)

lemma feq_exact: "fexact f = Some x \<Longrightarrow> fexact g = Some y \<Longrightarrow> feq f g \<longleftrightarrow> x = y"
  by (cases f; cases g) (auto simp: fexact_def feq_def fval_def split: if_splits)

definition sgnCmp :: "'a::linorder \<Rightarrow> 'a \<Rightarrow> int" where
  "sgnCmp x y = (if x < y then - 1 else if y < x then 1 else 0)"

lemma fexact_two63 [simp]: "fexact two63 = Some (Fin (2 ^ 63))" "fexact minus63 = Some (Fin (- (2 ^ 63)))"
  by (simp_all add: fexact_def two63_def minus63_def)

lemma truncRat_of_int [simp]: "truncRat (of_int k) = k"
  by (simp add: truncRat_def)

lemma feq_ftrunc_iff: "feq (ftrunc (F_fin q)) (F_fin q) \<longleftrightarrow> q \<in> \<int>"
proof
  assume f: "feq (ftrunc (F_fin q)) (F_fin q)"
  show "q \<in> \<int>"
  proof (cases "q < 0 \<and> truncRat q = 0")
    case True
    with f show ?thesis by (auto simp: ftrunc_def feq_def fval_def)
  next
    case False
    with f have "of_int (truncRat q) = q" by (auto simp: ftrunc_def)
    then show ?thesis by (metis Ints_of_int)
  qed
next
  assume "q \<in> \<int>"
  then obtain k where "q = of_int k" by (auto elim: Ints_cases)
  then show "feq (ftrunc (F_fin q)) (F_fin q)" by (auto simp: ftrunc_def)
qed

lemma whole_fin: "floatIsWholeInt64 (F_fin q) \<longleftrightarrow> q \<in> \<int> \<and> - (2 ^ 63) \<le> q \<and> q < 2 ^ 63"
  by (auto simp: floatIsWholeInt64_def feq_ftrunc_iff isNaN_def isInf_def two63_def minus63_def fle_def
      simp del: feq_F_fin) (auto simp: feq_def fval_def)

lemma of_int_in_range: "- (2 ^ 63) \<le> (of_int k :: rat) \<Longrightarrow> (of_int k :: rat) < 2 ^ 63 \<Longrightarrow> inInt64 k"
proof -
  assume "- (2 ^ 63) \<le> (of_int k :: rat)" "(of_int k :: rat) < 2 ^ 63"
  then have "(of_int (- (2 ^ 63)) :: rat) \<le> of_int k" "(of_int k :: rat) < of_int (2 ^ 63)" by simp_all
  then show ?thesis by (simp only: of_int_le_iff of_int_less_iff inInt64_def)
qed

lemma whole_exact: "floatIsWholeInt64 f \<Longrightarrow> fexact f = Some (Fin (of_int (f64_to_int f)))"
proof (cases f)
  case (F_fin q)
  assume "floatIsWholeInt64 f"
  with F_fin obtain k where k: "q = of_int k" "- (2 ^ 63) \<le> q" "q < 2 ^ 63"
    by (auto simp: whole_fin elim: Ints_cases)
  with F_fin of_int_in_range [of k] show ?thesis by (simp add: fexact_def f64_to_int_def)
qed (auto simp: fexact_def f64_to_int_def floatIsWholeInt64_def isNaN_def isInf_def)

lemma whole_negzero [simp]: "floatIsWholeInt64 F_negzero"
  by (simp add: floatIsWholeInt64_def isNaN_def isInf_def flt_def fle_def feq_def ftrunc_def two63_def
      minus63_def fval_def)

lemma sint_rat_range: "- (2 ^ 63) \<le> (of_int (sint (i :: 64 word)) :: rat)" "(of_int (sint i) :: rat) < 2 ^ 63"
proof -
  have "(of_int (- (2 ^ 63)) :: rat) \<le> of_int (sint i)" "(of_int (sint i) :: rat) < of_int (2 ^ 63)"
    using sint_range64 [of i] by (simp_all only: of_int_le_iff of_int_less_iff inInt64_def)
  then show "- (2 ^ 63) \<le> (of_int (sint i) :: rat)" "(of_int (sint i) :: rat) < 2 ^ 63" by simp_all
qed

lemma cmpNonWhole_exact:
  assumes "\<not> floatIsWholeInt64 f" "fexact f = Some y"
  shows "cmpIntNonWholeFloat i f = sgnCmp (Fin (of_int (sint i))) y"
proof (cases f)
  case F_nan
  with assms(2) show ?thesis by (simp add: fexact_def)
next
  case (F_inf s)
  with assms(2) show ?thesis
    by (cases s) (auto simp: fexact_def cmpIntNonWholeFloat_def fle_def flt_def feq_def sgnCmp_def two63_def minus63_def)
next
  case F_negzero
  with assms(1) show ?thesis by simp
next
  case (F_fin q)
  with assms(2) have y: "y = Fin q" by (simp add: fexact_def)
  note r = sint_rat_range [of i]
  consider "2 ^ 63 \<le> q" | "q < - (2 ^ 63)" | "- (2 ^ 63) \<le> q" "q < 2 ^ 63" "q \<notin> \<int>"
    using assms(1) whole_fin [of q] unfolding F_fin by (metis linorder_not_le)
  then show ?thesis
  proof cases
    case 1
    then have "of_int (sint i) < q" using r by linarith
    with 1 F_fin y show ?thesis
      by (auto simp: cmpIntNonWholeFloat_def fle_def two63_def sgnCmp_def)
  next
    case 2
    then have "q < of_int (sint i)" using r by linarith
    with 2 F_fin y show ?thesis
      by (auto simp: cmpIntNonWholeFloat_def fle_def two63_def minus63_def sgnCmp_def)
  next
    case 3
    have fl: "f64_to_int (ffloor f) = \<lfloor>q\<rfloor>"
    proof -
      have "- (2 ^ 63) \<le> (of_int \<lfloor>q\<rfloor> :: rat)" using 3(1) by (metis le_floor_iff of_int_le_iff of_int_minus of_int_numeral of_int_power)
      moreover have "(of_int \<lfloor>q\<rfloor> :: rat) < 2 ^ 63" using 3(2) of_int_floor_le [of q] by linarith
      ultimately show ?thesis using F_fin of_int_in_range by (simp add: ffloor_def f64_to_int_def)
    qed
    have ne: "of_int (sint i) \<noteq> q" using 3(3) by (metis Ints_of_int)
    have "sint i \<le> \<lfloor>q\<rfloor> \<longleftrightarrow> of_int (sint i) < q" using ne by (auto simp: le_floor_iff)
    with 3 F_fin y fl ne show ?thesis
      by (auto simp: cmpIntNonWholeFloat_def fle_def two63_def minus63_def sgnCmp_def)
  qed
qed

lemma sgnCmp_flip: "- sgnCmp x y = sgnCmp y x"
  by (auto simp: sgnCmp_def)

lemma cmpInt_sgnCmp: "cmpInt i j = sgnCmp (Fin (of_int i)) (Fin (of_int j))"
  by (simp add: cmpInt_def sgnCmp_def)

lemma exact_cases:
  assumes "exact v = Some x"
  obtains (Int) i where "asInt64 v = Some i" "x = Fin (of_int (sint i))" "toFloat64 v = Some (f64_of_int (sint i))"
  | (Float) f where "v = VFloat f" "asInt64 v = None" "toFloat64 v = Some f" "fexact f = Some x" "\<not> isNaN f"
  using assms by (cases v) (auto simp: exact_def asInt64_def toFloat64_def fexact_def isNaN_def split: f64.splits)

lemma compareNumeric_exact:
  assumes "exact a = Some x" "exact b = Some y"
  shows "compareNumeric a b = Some (sgnCmp x y)"
  using assms(1)
proof (cases rule: exact_cases)
  case (Int i)
  from assms(2) show ?thesis
  proof (cases rule: exact_cases)
    case (Int j)
    with \<open>asInt64 a = Some i\<close> \<open>x = _\<close> show ?thesis by (simp add: compareNumeric_def cmpInt_sgnCmp)
  next
    case (Float g)
    show ?thesis
    proof (cases "floatIsWholeInt64 g")
      case True
      with whole_exact [OF True] Int Float show ?thesis by (simp add: compareNumeric_def cmpInt_sgnCmp)
    next
      case False
      with cmpNonWhole_exact [OF False] Int Float show ?thesis by (simp add: compareNumeric_def)
    qed
  qed
next
  case (Float f)
  from assms(2) show ?thesis
  proof (cases rule: exact_cases)
    case (Int j)
    show ?thesis
    proof (cases "floatIsWholeInt64 f")
      case True
      with whole_exact [OF True] Int Float show ?thesis by (simp add: compareNumeric_def cmpInt_sgnCmp)
    next
      case False
      with cmpNonWhole_exact [OF False, of x j] Int Float show ?thesis
        by (simp add: compareNumeric_def sgnCmp_flip)
    qed
  next
    case Float': (Float g)
    with Float show ?thesis
      using flt_exact [of f x g y] flt_exact [of g y f x] by (simp add: compareNumeric_def sgnCmp_def)
  qed
qed

lemma intEqualsFloat_exact:
  "fexact f = Some y \<Longrightarrow> intEqualsFloat i f \<longleftrightarrow> Fin (of_int (sint i)) = y"
proof (cases f)
  case (F_inf s)
  assume "fexact f = Some y"
  with F_inf show ?thesis
    by (cases s) (auto simp: fexact_def intEqualsFloat_def feq_def ftrunc_def flt_def fle_def two63_def minus63_def)
next
  case F_negzero
  assume "fexact f = Some y"
  with F_negzero show ?thesis
    by (auto simp: fexact_def intEqualsFloat_def feq_def ftrunc_def flt_def fle_def two63_def minus63_def fval_def f64_to_int_def)
next
  case (F_fin q)
  assume y: "fexact f = Some y"
  have sym: "feq (F_fin q) (ftrunc (F_fin q)) = feq (ftrunc (F_fin q)) (F_fin q)"
    by (auto simp: feq_def split: f64.splits)
  show ?thesis
  proof (cases "floatIsWholeInt64 f")
    case True
    with F_fin have "intEqualsFloat i f \<longleftrightarrow> f64_to_int f = sint i"
      by (auto simp: intEqualsFloat_def floatIsWholeInt64_def sym split: if_splits)
    with whole_exact [OF True] y show ?thesis by auto
  next
    case False
    with F_fin have "\<not> intEqualsFloat i f"
      by (auto simp: intEqualsFloat_def floatIsWholeInt64_def sym isNaN_def isInf_def)
    moreover have "of_int (sint i) \<noteq> q"
      using False F_fin sint_rat_range [of i] by (auto simp: whole_fin)
    ultimately show ?thesis using y F_fin by (auto simp: fexact_def)
  qed
qed (simp add: fexact_def)

lemma numericEqual_exact:
  assumes "exact a = Some x" "exact b = Some y"
  shows "numericEqual a b = Some (x = y)"
  using assms(1)
proof (cases rule: exact_cases)
  case (Int i)
  from assms(2) show ?thesis
  proof (cases rule: exact_cases)
    case (Int j)
    with \<open>asInt64 a = Some i\<close> \<open>x = _\<close> show ?thesis by (simp add: numericEqual_def sint_eq_iff64)
  next
    case (Float g)
    with Int intEqualsFloat_exact [of g y i] show ?thesis
      by (cases a) (auto simp: numericEqual_def asInt64_def)
  qed
next
  case (Float f)
  from assms(2) show ?thesis
  proof (cases rule: exact_cases)
    case (Int j)
    with Float intEqualsFloat_exact [of f x j] show ?thesis
      by (cases b) (auto simp: numericEqual_def asInt64_def)
  next
    case Float': (Float g)
    with Float show ?thesis using feq_exact [of f x g y] by (simp add: numericEqual_def)
  qed
qed

text \<open>The comparison operators over any linear order.\<close>

definition orderOp :: "string \<Rightarrow> 'a::linorder \<Rightarrow> 'a \<Rightarrow> bool" where
  "orderOp op x y =
     (if op = ''<'' then x < y else if op = ''>'' then y < x else if op = ''<='' then x \<le> y
      else if op = ''>='' then y \<le> x else if op = ''=='' then x = y else x \<noteq> y)"

lemma f64_of_int_not_NaN: "\<not> isNaN (f64_of_int i)"
  by (simp add: f64_of_int_def roundF64_def zeroF_def isNaN_def Let_def)

text \<open>C23. The comparisons and equality of the machine order any two numbers, of whichever mix of
  integer, \<open>int\<close> and float, by their exact values: no integer is rounded to a float, so \<open>2^53 + 1\<close>
  differs from the float \<open>2^53\<close>, the largest integer is below the float \<open>2^63\<close>, and a fraction lies
  strictly between its neighbours. NaN is the one number excluded.\<close>

theorem BcBinop_order_exact:
  assumes "op \<in> {''<'', ''>'', ''<='', ''>='', ''=='', ''!=''}" "exact a = Some x" "exact b = Some y"
  shows "BcBinop op a b = Inr (VBool (orderOp op x y))"
proof -
  have nan: "\<not> relationalHasNaN a b"
    by (rule exact_cases [OF assms(2)]; rule exact_cases [OF assms(3)])
      (simp_all add: relationalHasNaN_def f64_of_int_not_NaN)
  have coll: "\<not> isCollection a \<and> \<not> isCollection b"
    using assms(2,3) by (auto simp: exact_def asInt64_def isCollection_def split: val.splits)
  have rel: "bcNumericRelational r a b = Inr (VBool (orderHolds r (sgnCmp x y)))" for r
    by (simp add: bcNumericRelational_def nan compareNumeric_exact [OF assms(2,3)])
  have eq: "BcValuesEqual a b \<longleftrightarrow> x = y"
    by (simp add: BcValuesEqual_def coll numericEqual_exact [OF assms(2,3)])
  from assms(1) show ?thesis
    by (auto simp: BcBinop_def bcNumericBinop_def rel eq orderOp_def orderHolds_def sgnCmp_def)
qed

lemma BcBinop_order_exact_witness:
  "BcBinop ''=='' (VInt (2 ^ 53 + 1)) (VFloat (F_fin (2 ^ 53))) = Inr (VBool False) \<and>
   BcBinop ''<'' (VInt MaxInt64) (VFloat two63) = Inr (VBool True)"
  using BcBinop_order_exact [of "''==''" "VInt (2 ^ 53 + 1)" "Fin (2 ^ 53 + 1)" "VFloat (F_fin (2 ^ 53))" "Fin (2 ^ 53)"]
    BcBinop_order_exact [of "''<''" "VInt MaxInt64" "Fin (2 ^ 63 - 1)" "VFloat two63" "Fin (2 ^ 63)"]
  by (simp add: exact_def asInt64_def fexact_def orderOp_def MaxInt64_def two63_def)

end
