(* ===== verification/Grants.thy ===== *)
theory Grants
  imports Capability
begin

text \<open>
  Decisions over a whole grant list: \<open>grants.go\<close> (\<open>ParseGrant\<close>, \<open>Has\<close>, the path scopes),
  \<open>AuthorizeExec\<close> and \<open>Attenuate\<close> of \<open>process.go\<close>, and the connection and redirect checks of
  \<open>network.go\<close> and \<open>destinations.go\<close>.
\<close>

datatype fserr = NotExist | OtherErr

record osenv =
  cwd :: string
  EvalSymlinks :: "string \<Rightarrow> fserr + string"
  LstatOk :: "string \<Rightarrow> bool"

definition ReadPrefix :: string where "ReadPrefix = ''filesystem:read=''"
definition WritePrefix :: string where "WritePrefix = ''filesystem:write=''"

text \<open>\<open>mode\<close> selects the prefix \<open>"filesystem:" + mode + "="\<close>.\<close>

definition fsPrefix :: "bool \<Rightarrow> string" where
  "fsPrefix write = (if write then WritePrefix else ReadPrefix)"

definition parseFsGrant :: "osenv \<Rightarrow> string \<Rightarrow> string \<Rightarrow> Capability option" where
  "parseFsGrant os prefix raw =
     (if hasPrefix raw prefix \<and> length raw > length prefix
      then Some (prefix @ Clean (absPath (cwd os) (trimPrefix raw prefix))) else None)"

definition ParseGrant :: "osenv \<Rightarrow> string \<Rightarrow> grant_error + Capability" where
  "ParseGrant os raw =
     (if raw \<in> set AllCaps then Inr raw
      else case cutPrefix raw EnvGrantPrefix of
        Some name \<Rightarrow>
          if DynamicLoaderEnv name then Inl (CodeLoadingEnv raw)
          else if \<not> validEnvName name then Inl (UnknownCapability raw)
          else Inr raw
      | None \<Rightarrow>
        (case parseFetchGrant raw of
           Some r \<Rightarrow> r
         | None \<Rightarrow>
           (case parseExecGrant raw of
              Some r \<Rightarrow> r
            | None \<Rightarrow>
              (case parseFsGrant os ReadPrefix raw of
                 Some c \<Rightarrow> Inr c
               | None \<Rightarrow>
                 (case parseFsGrant os WritePrefix raw of
                    Some c \<Rightarrow> Inr c
                  | None \<Rightarrow> Inl (UnknownCapability raw))))))"

definition Has :: "osenv \<Rightarrow> Grants \<Rightarrow> Capability \<Rightarrow> bool" where
  "Has os g c =
     (\<exists>grant \<in> set g.
        case ParseGrant os grant of
          Inl _ \<Rightarrow> False
        | Inr parsed \<Rightarrow>
            parsed = c \<or> (c = Filesystem \<and> hasPrefix parsed ''filesystem:'')
            \<or> (c = Process \<and> hasPrefix parsed ExecGrantPrefix))"

definition HasUnrestrictedFilesystem :: "Grants \<Rightarrow> bool" where
  "HasUnrestrictedFilesystem g = (\<exists>grant \<in> set g. grant = Filesystem)"

definition HasCoarse :: "Grants \<Rightarrow> Capability \<Rightarrow> bool" where
  "HasCoarse g c = (\<exists>grant \<in> set g. grant = c)"

definition contained :: "string \<Rightarrow> string \<Rightarrow> bool" where
  "contained rt target =
     (case Rel rt target of
        None \<Rightarrow> False
      | Some rel \<Rightarrow> rel \<noteq> ''..'' \<and> \<not> hasPrefix rel ''../'' \<and> \<not> isAbs rel)"

text \<open>\<open>resolveAncestor\<close> climbs to the nearest ancestor that exists. The parent of an absolute path
  other than the root is shorter than it, so the guard on the length is the test
  \<open>parent == path\<close> of the source.\<close>

function resolveAncestor :: "osenv \<Rightarrow> string \<Rightarrow> fserr + string" where
  "resolveAncestor os path =
     (case EvalSymlinks os path of
        Inr r \<Rightarrow> Inr r
      | Inl OtherErr \<Rightarrow> Inl OtherErr
      | Inl NotExist \<Rightarrow>
          if LstatOk os path then Inl NotExist
          else if length path \<le> length (dirName path) then Inl NotExist
          else rbind (resolveAncestor os (dirName path)) (\<lambda>r. Inr (joinPath r (baseName path))))"
  by pat_completeness auto
termination
  by (relation "measure (\<lambda>(os, path). length path)") auto

declare resolveAncestor.simps [simp del]

fun matchRootIn :: "osenv \<Rightarrow> string \<Rightarrow> string \<Rightarrow> string \<Rightarrow> Grants \<Rightarrow> string option" where
  "matchRootIn os prefix target resolvedTarget [] = None"
| "matchRootIn os prefix target resolvedTarget (raw # gs) =
     (if \<not> hasPrefix raw prefix then matchRootIn os prefix target resolvedTarget gs
      else let rt = trimPrefix raw prefix in
        if rt = [] \<or> \<not> isAbs rt \<or> \<not> contained (Clean rt) target
        then matchRootIn os prefix target resolvedTarget gs
        else case resolveAncestor os (Clean rt) of
          Inr resolvedRoot \<Rightarrow>
            if contained resolvedRoot resolvedTarget then Some (Clean rt)
            else matchRootIn os prefix target resolvedTarget gs
        | Inl _ \<Rightarrow> matchRootIn os prefix target resolvedTarget gs)"

definition matchRoot :: "osenv \<Rightarrow> Grants \<Rightarrow> string \<Rightarrow> bool \<Rightarrow> string option" where
  "matchRoot os g path write =
     (let target = Clean (absPath (cwd os) path) in
      case resolveAncestor os target of
        Inl _ \<Rightarrow> None
      | Inr resolvedTarget \<Rightarrow> matchRootIn os (fsPrefix write) target resolvedTarget g)"

definition allows :: "osenv \<Rightarrow> Grants \<Rightarrow> string \<Rightarrow> bool \<Rightarrow> bool" where
  "allows os g path write =
     (if HasUnrestrictedFilesystem g then True else matchRoot os g path write \<noteq> None)"

definition AllowsRead :: "osenv \<Rightarrow> Grants \<Rightarrow> string \<Rightarrow> bool" where
  "AllowsRead os g path = allows os g path False"

definition AllowsWrite :: "osenv \<Rightarrow> Grants \<Rightarrow> string \<Rightarrow> bool" where
  "AllowsWrite os g path = allows os g path True"

subsection \<open>Exec decisions\<close>

fun execMatch :: "Grants \<Rightarrow> string \<Rightarrow> string list \<Rightarrow> Capability option" where
  "execMatch [] program args = None"
| "execMatch (grant # gs) program args =
     (case parseExecGrant grant of
        Some (Inr parsed) \<Rightarrow>
          (case parseExecSpec (trimPrefix parsed ExecGrantPrefix) of
             Inr (gp, pats) \<Rightarrow>
               if gp = program \<and> argvMatches pats args then Some parsed else execMatch gs program args
           | Inl _ \<Rightarrow> if program = [] \<and> argvMatches [] args then Some parsed else execMatch gs program args)
      | _ \<Rightarrow> execMatch gs program args)"

definition AuthorizeExec :: "osenv \<Rightarrow> Grants \<Rightarrow> string \<Rightarrow> string list \<Rightarrow> string + (string \<times> Capability)" where
  "AuthorizeExec os g program args =
     (if \<not> isAbs program then Inl ''process: exec program is not an absolute path (no PATH lookup)''
      else if Clean program \<noteq> program then Inl ''process: exec program is not a clean path''
      else case EvalSymlinks os program of
        Inl _ \<Rightarrow> Inl ''process: exec program cannot be resolved''
      | Inr resolved \<Rightarrow>
          if resolved \<noteq> program
          then Inl ''process: exec program is or traverses a symlink; grant and call its canonical path''
          else case execMatch g program args of
            Some parsed \<Rightarrow> Inr (program, parsed)
          | None \<Rightarrow> Inl ''process: exec argv is not in the allow-list'')"

subsection \<open>Attenuation\<close>

definition InheritFilesystem :: string where "InheritFilesystem = ''inherit:filesystem''"

definition coversFs :: "Grants \<Rightarrow> string \<Rightarrow> string \<Rightarrow> bool" where
  "coversFs g prefix raw =
     (if HasCoarse g Filesystem then True
      else \<exists>pg \<in> set g. hasPrefix pg prefix \<and> contained (trimPrefix pg prefix) (trimPrefix raw prefix))"

definition covers :: "osenv \<Rightarrow> Grants \<Rightarrow> Capability \<Rightarrow> bool" where
  "covers os g c =
     (if hasPrefix c ReadPrefix then coversFs g ReadPrefix c
      else if hasPrefix c WritePrefix then coversFs g WritePrefix c
      else \<exists>pg \<in> set g. ParseGrant os pg = Inr c)"

definition inheritedFs :: "Grants \<Rightarrow> Grants" where
  "inheritedFs parent = filter (\<lambda>pg. pg = Filesystem \<or> hasPrefix pg ReadPrefix \<or> hasPrefix pg WritePrefix) parent"

definition attenuateOne :: "osenv \<Rightarrow> Grants \<Rightarrow> string \<Rightarrow> string + Grants" where
  "attenuateOne os parent raw =
     (if raw = InheritFilesystem then Inr (inheritedFs parent)
      else case ParseGrant os raw of
        Inl _ \<Rightarrow> Inl ''child grant is invalid''
      | Inr g \<Rightarrow> if \<not> covers os parent g then Inl ''child requested a grant the parent does not hold''
                 else Inr [g])"

definition Attenuate :: "osenv \<Rightarrow> Grants \<Rightarrow> string list \<Rightarrow> string + Grants" where
  "Attenuate os parent requested =
     rbind (traverse (attenuateOne os parent) requested) (\<lambda>gs. Inr (concat gs))"

subsection \<open>Connections and redirects\<close>

text \<open>\<open>checkDial\<close> on a parsed address; \<open>None\<close> is an address that does not parse.\<close>

definition checkDial :: "string \<Rightarrow> bool \<Rightarrow> Addr option \<Rightarrow> FetchDenied + unit" where
  "checkDial h literal address =
     (case address of
        None \<Rightarrow> Inl \<lparr>fd_Reason = ''network: fetch dial address is invalid'', fd_Required = FetchGrantPrefix @ h\<rparr>
      | Some ap \<Rightarrow>
         (let a = Unmap ap;
              deny = Inl \<lparr>fd_Reason = ''network: granted host resolved to a forbidden destination'',
                          fd_Required = FetchGrantPrefix @ canonicalIP a\<rparr> in
          if isMulticast a then deny
          else if literal then Inr ()
          else if equalFold h ''localhost'' then (if \<not> isLoopback a then deny else Inr ())
          else if ForbiddenDestination a then deny
          else Inr ()))"

definition MaxFetchRedirects :: nat where "MaxFetchRedirects = 10"

definition optOutHost :: "URL \<Rightarrow> string \<times> bool" where
  "optOutHost u =
     (case urlTarget (Some u) of Inl _ \<Rightarrow> ([], False) | Inr t \<Rightarrow> (t_host t, t_ip t \<or> t_host t = ''localhost''))"

definition redirectToOptOut :: "URL \<Rightarrow> URL \<Rightarrow> bool" where
  "redirectToOptOut first nxt =
     (let (h, opt) = optOutHost nxt in
      if \<not> opt then False
      else case urlTarget (Some first) of Inl _ \<Rightarrow> True | Inr start \<Rightarrow> t_host start \<noteq> h)"

definition sameFetchOrigin :: "URL \<Rightarrow> URL \<Rightarrow> bool" where
  "sameFetchOrigin a b =
     (case (urlTarget (Some a), urlTarget (Some b)) of
        (Inr ta, Inr tb) \<Rightarrow> equalFold (u_Scheme a) (u_Scheme b)
           \<and> t_host ta = t_host tb \<and> t_port ta = t_port tb
      | _ \<Rightarrow> False)"

definition RedirectSafeHeaders :: "string list" where
  "RedirectSafeHeaders =
     [''Accept'', ''Accept-Encoding'', ''Accept-Language'', ''Content-Type'', ''Content-Length'',
      ''Content-Encoding'', ''User-Agent'']"

definition StripCrossOriginHeaders :: "string list strmap \<Rightarrow> string list strmap" where
  "StripCrossOriginHeaders h =
     filter (\<lambda>(name, _). \<exists>safe \<in> set RedirectSafeHeaders. equalFold name safe) h"

datatype redirect_error = TooManyRedirects | RedirectDenied FetchDenied

text \<open>\<open>CheckRedirect\<close> of \<open>FetchClient\<close>: \<open>via\<close> holds the URLs already requested, oldest first and
  not empty. The result is the request's headers after stripping and the matched grant.\<close>

fun originChanged :: "URL list \<Rightarrow> bool" where
  "originChanged (a # b # us) = (\<not> sameFetchOrigin a b \<or> originChanged (b # us))"
| "originChanged us = False"

definition CheckRedirect ::
    "Grants \<Rightarrow> URL \<Rightarrow> string list strmap \<Rightarrow> URL list \<Rightarrow> redirect_error + (string list strmap \<times> Capability)" where
  "CheckRedirect g req headers via =
     (if length via > MaxFetchRedirects then Inl TooManyRedirects
      else let previous = last via in
        if u_Scheme previous = ''https'' \<and> u_Scheme req = ''http''
        then Inl (RedirectDenied \<lparr>fd_Reason = ''network: HTTPS redirect downgrade refused'', fd_Required = []\<rparr>)
        else if u_User req
        then Inl (RedirectDenied \<lparr>fd_Reason = ''network: redirect target with userinfo refused'',
                                  fd_Required = FetchGrantPrefix @ ''<invalid-url>''\<rparr>)
        else if redirectToOptOut (hd via) req
        then Inl (RedirectDenied \<lparr>fd_Reason = ''network: redirect to an IP-literal or localhost destination refused'',
               fd_Required = (case urlTarget (Some req) of Inr t \<Rightarrow> FetchGrantPrefix @ targetString t
                              | Inl _ \<Rightarrow> FetchGrantPrefix @ ''<invalid-url>'')\<rparr>)
        else
          let changed = (\<not> sameFetchOrigin previous req \<or> originChanged via);
              headers' = (if changed then StripCrossOriginHeaders headers else headers) in
          case AuthorizeFetch g (Some req) of
            Inl d \<Rightarrow> Inl (RedirectDenied d)
          | Inr grant \<Rightarrow> Inr (headers', grant))"

definition FetchPrivateOptOut :: "Capability \<Rightarrow> string" where
  "FetchPrivateOptOut grant =
     (if \<not> hasPrefix grant FetchGrantPrefix then []
      else case parseFetchSpec (trimPrefix grant FetchGrantPrefix) of
        Inr t \<Rightarrow> if t_ip t \<or> t_host t = ''localhost'' then ''explicit IP-literal or localhost grant'' else []
      | Inl _ \<Rightarrow> [])"

end
