(* ===== verification/Bytecode.thy ===== *)
theory Bytecode
  imports Values Grants
begin

text \<open>
  Bytecode programs: instructions, functions and programs (\<open>internal/bytecode/bytecode.go\<close>), the
  artifact envelope and its validation (\<open>artifact.go\<close>), and the inventory of required capabilities
  (\<open>required_capabilities.go\<close>). The payload codec (\<open>encoding/gob\<close>) and SHA-256 are parameters.
\<close>

record BCInstruction =
  i_OpString :: string
  i_Op :: Opcode
  i_Str :: string
  i_Str2 :: string
  i_Str3 :: string
  i_Int :: int
  i_Int2 :: int
  i_Int3 :: int
  i_Value :: val

text \<open>An instruction with its opcode, the opcode's name and no operands.\<close>

definition instr :: "Opcode \<Rightarrow> BCInstruction" where
  "instr op = \<lparr>i_OpString = (case Registry op of Some s \<Rightarrow> op_Name s | None \<Rightarrow> []), i_Op = op, i_Str = [],
     i_Str2 = [], i_Str3 = [], i_Int = 0, i_Int2 = 0, i_Int3 = 0, i_Value = VNil\<rparr>"

record BCFunction =
  fn_Params :: "string list"
  fn_Instructions :: "BCInstruction list"
  fn_LazySynthesize :: bool
  fn_Docstring :: string
  fn_Name :: string

text \<open>A function table entry is a pointer: \<open>None\<close> is nil.\<close>

record BCProgram =
  p_modelAdapter :: bool
  p_Version :: int
  p_Functions :: "BCFunction option strmap"
  p_Main :: "BCInstruction list"

definition lookupFunction :: "BCProgram \<Rightarrow> string \<Rightarrow> BCFunction option option" where
  "lookupFunction prog name = lookup (p_Functions prog) name"

subsection \<open>Validation\<close>

definition instructionError :: "nat \<Rightarrow> string \<Rightarrow> string" where
  "instructionError i msg = ''instruction '' @ natDigits i @ '': '' @ msg"

definition resolvedOp :: "nat \<Rightarrow> BCInstruction \<Rightarrow> string + Opcode" where
  "resolvedOp i inst =
     (if i_Op inst = OpUnknown then
        (case NameToOpcode (i_OpString inst) of
           None \<Rightarrow> Inl (instructionError i ''unknown opcode'')
         | Some op \<Rightarrow> Inr op)
      else if Registry (i_Op inst) = None then Inl (instructionError i ''unknown opcode'')
      else Inr (i_Op inst))"

fun validSegments :: "nat \<Rightarrow> int list \<Rightarrow> int \<Rightarrow> string + unit" where
  "validSegments i [] remaining = Inr ()"
| "validSegments i (l # ls) remaining =
     (if l < 0 \<or> l > remaining then Inl (instructionError i ''TRY_LET length out of range'')
      else validSegments i ls (remaining - l))"

definition validJump :: "nat \<Rightarrow> nat \<Rightarrow> Opcode \<Rightarrow> BCInstruction \<Rightarrow> string + unit" where
  "validJump n i op inst =
     ensure (\<not> (op \<in> {OpJump, OpJumpIfFalse, OpForNext} \<and> (i_Int inst < - int i \<or> i_Int inst > int n - int i)))
       (instructionError i ''jump offset puts target out of bounds'')"

definition validBody :: "nat \<Rightarrow> nat \<Rightarrow> Opcode \<Rightarrow> BCInstruction \<Rightarrow> string + unit" where
  "validBody n i op inst =
     (let remaining = int n - int i - 1 in
      if op \<in> {OpSpawnAgent, OpSpawn, OpHttpRoute}
      then ensure (\<not> (i_Int inst < 0 \<or> i_Int inst > remaining)) (instructionError i ''body length out of range'')
      else if op = OpTryLet then validSegments i [i_Int inst, i_Int2 inst, i_Int3 inst] remaining
      else Inr ())"

definition validConst :: "nat \<Rightarrow> Opcode \<Rightarrow> BCInstruction \<Rightarrow> string + unit" where
  "validConst i op inst =
     (case i_Value inst of
        VFloat f \<Rightarrow> ensure (\<not> (op = OpLoadConst \<and> (isNaN f \<or> isInf f))) (instructionError i ''LOAD_CONST is not a finite number'')
      | _ \<Rightarrow> Inr ())"

definition validCall :: "BCProgram \<Rightarrow> nat \<Rightarrow> Opcode \<Rightarrow> BCInstruction \<Rightarrow> string + unit" where
  "validCall prog i op inst =
     ensure (\<not> (op = OpCall \<and> lookupFunction prog (i_Str inst) = None)) (instructionError i ''references missing function'')"

text \<open>The body of the loop of \<open>validateInstructions\<close>.\<close>

definition validateInstruction :: "BCProgram \<Rightarrow> nat \<Rightarrow> nat \<Rightarrow> BCInstruction \<Rightarrow> string + unit" where
  "validateInstruction prog n i inst =
     rbind (resolvedOp i inst) (\<lambda>op.
     rbind (validJump n i op inst) (\<lambda>_.
     rbind (validBody n i op inst) (\<lambda>_.
     rbind (validConst i op inst) (\<lambda>_. validCall prog i op inst))))"

definition validateInstructions :: "BCInstruction list \<Rightarrow> BCProgram \<Rightarrow> string + unit" where
  "validateInstructions insts prog =
     first_error (\<lambda>(i, inst). validateInstruction prog (length insts) i inst) (zip [0..<length insts] insts)"

definition validateFunction :: "BCProgram \<Rightarrow> string \<times> BCFunction option \<Rightarrow> string + unit" where
  "validateFunction prog entry =
     (case snd entry of
        None \<Rightarrow> Inl (''function is nil: '' @ fst entry)
      | Some fn \<Rightarrow> validateInstructions (fn_Instructions fn) prog)"

definition ValidateProgram :: "BCProgram option \<Rightarrow> string + unit" where
  "ValidateProgram p =
     (case p of
        None \<Rightarrow> Inl ''nil program''
      | Some prog \<Rightarrow>
          rbind (validateInstructions (p_Main prog) prog) (\<lambda>_. first_error (validateFunction prog) (p_Functions prog)))"

subsection \<open>Opcode names of a decoded program\<close>

definition resolveInstruction :: "BCInstruction \<Rightarrow> string + BCInstruction" where
  "resolveInstruction inst =
     (if i_OpString inst = [] then Inr inst
      else case NameToOpcode (i_OpString inst) of
        None \<Rightarrow> Inl ''unknown opcode''
      | Some op \<Rightarrow> Inr (inst\<lparr>i_Op := op\<rparr>))"

definition resolveFunction :: "string \<times> BCFunction option \<Rightarrow> string + (string \<times> BCFunction option)" where
  "resolveFunction entry =
     (case snd entry of
        None \<Rightarrow> Inr entry
      | Some fn \<Rightarrow> rbind (traverse resolveInstruction (fn_Instructions fn)) (\<lambda>is.
          Inr (fst entry, Some (fn\<lparr>fn_Instructions := is\<rparr>))))"

definition resolveArtifactOpcodeNames :: "BCProgram \<Rightarrow> string + BCProgram" where
  "resolveArtifactOpcodeNames prog =
     rbind (traverse resolveInstruction (p_Main prog)) (\<lambda>m.
     rbind (traverse resolveFunction (p_Functions prog)) (\<lambda>fs.
     Inr (prog\<lparr>p_Main := m, p_Functions := fs\<rparr>)))"

subsection \<open>The artifact envelope\<close>

record artifactPayload =
  a_Version :: int
  a_Functions :: "BCFunction option list"
  a_Names :: "string list"
  a_Main :: "BCInstruction list"

definition newArtifactPayload :: "BCProgram \<Rightarrow> artifactPayload" where
  "newArtifactPayload prog =
     (let names = sorted_keys (p_Functions prog) in
      \<lparr>a_Version = p_Version prog,
       a_Functions = map (\<lambda>n. case lookupFunction prog n of Some f \<Rightarrow> f | None \<Rightarrow> None) names,
       a_Names = names, a_Main = p_Main prog\<rparr>)"

fun insertFunctions :: "(string \<times> BCFunction option) list \<Rightarrow> BCFunction option strmap \<Rightarrow> string + BCFunction option strmap" where
  "insertFunctions [] m = Inr m"
| "insertFunctions ((n, f) # nfs) m =
     (if lookup m n \<noteq> None then Inl ''duplicate function'' else insertFunctions nfs (put n f m))"

definition payloadProgram :: "artifactPayload \<Rightarrow> string + BCProgram" where
  "payloadProgram p =
     (if length (a_Names p) \<noteq> length (a_Functions p) then Inl ''function table has names without functions''
      else rbind (insertFunctions (zip (a_Names p) (a_Functions p)) []) (\<lambda>m.
        Inr \<lparr>p_modelAdapter = False, p_Version = a_Version p, p_Functions = m, p_Main = a_Main p\<rparr>))"

definition ArtifactMagic :: string where "ArtifactMagic = ''HFBC''"
definition ArtifactVersion :: nat where "ArtifactVersion = 2"
definition artifactVersionMapPayload :: nat where "artifactVersionMapPayload = 1"
definition MaxArtifactPayloadSize :: nat where "MaxArtifactPayloadSize = 10485760"

text \<open>\<open>binary.LittleEndian\<close> for 32 bits.\<close>

definition le32 :: "nat \<Rightarrow> string" where
  "le32 n = map (\<lambda>k. chr (n div 256 ^ k mod 256)) [0, 1, 2, 3]"

definition un32 :: "string \<Rightarrow> nat" where
  "un32 s = foldr (\<lambda>c n. byte c + 256 * n) s 0"

text \<open>The codec and the hash: \<open>gobMap\<close> decodes the payload of version 1, which is a whole program.\<close>

record codec =
  gobEncode :: "artifactPayload \<Rightarrow> string option"
  gobDecode :: "string \<Rightarrow> artifactPayload option"
  gobMap :: "string \<Rightarrow> BCProgram option"
  sha256 :: "string \<Rightarrow> string"

definition WriteArtifact :: "codec \<Rightarrow> BCProgram \<Rightarrow> string option" where
  "WriteArtifact k prog =
     (case gobEncode k (newArtifactPayload prog) of
        None \<Rightarrow> None
      | Some payload \<Rightarrow>
          Some (ArtifactMagic @ le32 ArtifactVersion @ le32 (length payload mod 2 ^ 32) @ sha256 k payload @ payload))"

datatype artifact_error =
    ErrInvalidMagic | ErrUnsupportedVer nat | ErrCorrupt | ErrTruncated | ErrOversized
  | ErrInvalidProgram string | ErrEncode

definition WriteValidatedArtifact :: "codec \<Rightarrow> BCProgram \<Rightarrow> artifact_error + string" where
  "WriteValidatedArtifact k prog =
     (case ValidateProgram (Some prog) of
        Inl e \<Rightarrow> Inl (ErrInvalidProgram e)
      | Inr _ \<Rightarrow> (case WriteArtifact k prog of None \<Rightarrow> Inl ErrEncode | Some s \<Rightarrow> Inr s))"

text \<open>\<open>io.ReadFull\<close> of \<open>n\<close> bytes.\<close>

definition readFull :: "nat \<Rightarrow> string \<Rightarrow> artifact_error + (string \<times> string)" where
  "readFull n s = (if length s < n then Inl ErrTruncated else Inr (take n s, drop n s))"

definition decodePayload :: "codec \<Rightarrow> nat \<Rightarrow> string \<Rightarrow> artifact_error + BCProgram" where
  "decodePayload k version payload =
     (if version = artifactVersionMapPayload then
        (case gobMap k payload of None \<Rightarrow> Inl ErrCorrupt | Some prog \<Rightarrow> Inr prog)
      else case gobDecode k payload of
        None \<Rightarrow> Inl ErrCorrupt
      | Some wire \<Rightarrow> (case payloadProgram wire of Inl _ \<Rightarrow> Inl ErrCorrupt | Inr prog \<Rightarrow> Inr prog))"

definition ReadArtifact :: "codec \<Rightarrow> string \<Rightarrow> artifact_error + BCProgram" where
  "ReadArtifact k r =
     rbind (readFull 4 r) (\<lambda>(magic, r1).
     rbind (ensure (magic = ArtifactMagic) ErrInvalidMagic) (\<lambda>_.
     rbind (readFull 4 r1) (\<lambda>(v, r2).
     rbind (ensure (un32 v = ArtifactVersion \<or> un32 v = artifactVersionMapPayload) (ErrUnsupportedVer (un32 v))) (\<lambda>_.
     rbind (readFull 4 r2) (\<lambda>(l, r3).
     rbind (ensure (un32 l \<le> MaxArtifactPayloadSize) ErrOversized) (\<lambda>_.
     rbind (readFull 32 r3) (\<lambda>(expected, r4).
     rbind (readFull (un32 l) r4) (\<lambda>(payload, r5).
     rbind (ensure (sha256 k payload = expected) ErrCorrupt) (\<lambda>_.
     rbind (ensure (r5 = []) ErrCorrupt) (\<lambda>_.
     rbind (decodePayload k (un32 v) payload) (\<lambda>prog.
     case resolveArtifactOpcodeNames prog of
       Inl e \<Rightarrow> Inl (ErrInvalidProgram e)
     | Inr prog' \<Rightarrow> (case ValidateProgram (Some prog') of Inl e \<Rightarrow> Inl (ErrInvalidProgram e) | Inr _ \<Rightarrow> Inr prog'))))))))))))"

subsection \<open>Required capabilities\<close>

text \<open>\<open>url.Parse\<close> is a parameter; \<open>None\<close> is its error.\<close>

definition FetchGrantForURL :: "(string \<Rightarrow> URL option) \<Rightarrow> string \<Rightarrow> Capability option" where
  "FetchGrantForURL parseURL raw =
     (case parseURL raw of
        None \<Rightarrow> None
      | Some u \<Rightarrow> (case urlTarget (Some u) of Inl _ \<Rightarrow> None | Inr t \<Rightarrow> Some (FetchGrantPrefix @ targetString t)))"

definition DynamicFetchRequirement :: Capability where
  "DynamicFetchRequirement = FetchGrantPrefix @ ''<dynamic>''"

record Site =
  s_Function :: string
  s_Index :: nat
  s_Opcode :: string
  s_Capability :: Capability
  s_Reason :: string

definition constantURL :: "(string \<Rightarrow> URL option) \<Rightarrow> BCInstruction list \<Rightarrow> nat \<Rightarrow> BCInstruction \<Rightarrow> Capability option" where
  "constantURL parseURL insts i inst =
     (let back = (if i_Op inst = OpHttpRequest \<and> i_Int inst = 1 then 3 else 2) in
      if i < back then None
      else let urlAt = i - back in
        if i_Op (insts ! urlAt) = OpLoadConst \<and> i_Op (insts ! (urlAt + 1)) = OpLoadConst
        then (case i_Value (insts ! urlAt) of VStr raw \<Rightarrow> FetchGrantForURL parseURL raw | _ \<Rightarrow> None)
        else None)"

text \<open>The map \<open>requirements\<close> of one instruction.\<close>

definition requirementsAt :: "(string \<Rightarrow> URL option) \<Rightarrow> BCProgram \<Rightarrow> BCInstruction list \<Rightarrow> nat \<Rightarrow> BCInstruction \<Rightarrow> string strmap" where
  "requirementsAt parseURL prog insts i inst =
     (let op = i_Op inst; c = op_Capability (RegistrySpec op);
          r0 = (if c \<noteq> None_cap then [(c, ''opcode registry'')] else []);
          r1 = (if op = OpFetch \<or> op = OpHttpRequest then
                  (case constantURL parseURL insts i inst of
                     Some grant \<Rightarrow> put grant ''outbound fetch to a constant URL'' (remove_key c r0)
                   | None \<Rightarrow> put DynamicFetchRequirement ''outbound fetch to a computed URL; grant network:fetch=host[:port] for each host it may reach'' (remove_key c r0))
                else r0);
          r2 = (if op = OpStoreOpen then
                  (case StoreRequirements (i_Str2 inst) of
                     Some req \<Rightarrow> foldl (\<lambda>m q. put q ''store URI'' m) r1 req
                   | None \<Rightarrow> put Filesystem ''unknown store URI; conservatively assumes filesystem'' r1)
                else r1)
      in if op = OpCall then
           (case lookupFunction prog (i_Str inst) of
              Some (Some fn) \<Rightarrow>
                if fn_LazySynthesize fn
                then foldl (\<lambda>m q. put q ''lazy or unknown call; synthesized body may require any capability'' m) r2 AllCaps
                else r2
            | _ \<Rightarrow> foldl (\<lambda>m q. put q ''lazy or unknown call; synthesized body may require any capability'' m) r2 AllCaps)
         else r2)"

definition scanSites :: "(string \<Rightarrow> URL option) \<Rightarrow> BCProgram \<Rightarrow> string \<Rightarrow> BCInstruction list \<Rightarrow> Site list" where
  "scanSites parseURL prog name insts =
     concat (map (\<lambda>(i, inst).
       let req = requirementsAt parseURL prog insts i inst in
       map (\<lambda>c. \<lparr>s_Function = name, s_Index = i, s_Opcode = op_Name (RegistrySpec (i_Op inst)), s_Capability = c,
                 s_Reason = (case lookup req c of Some r \<Rightarrow> r | None \<Rightarrow> [])\<rparr>) (sorted_keys req))
       (zip [0..<length insts] insts))"

definition programSites :: "(string \<Rightarrow> URL option) \<Rightarrow> BCProgram \<Rightarrow> Site list" where
  "programSites parseURL prog =
     scanSites parseURL prog ''main'' (p_Main prog) @
     concat (map (\<lambda>name. case lookupFunction prog name of
         Some (Some fn) \<Rightarrow> scanSites parseURL prog name (fn_Instructions fn) | _ \<Rightarrow> [])
       (sorted_keys (p_Functions prog)))"

text \<open>\<open>RequiredCapabilities\<close>: the sorted capabilities and the sites.\<close>

definition RequiredCapabilities :: "(string \<Rightarrow> URL option) \<Rightarrow> BCProgram option \<Rightarrow> Capability list \<times> Site list" where
  "RequiredCapabilities parseURL p =
     (case p of
        None \<Rightarrow> ([], [])
      | Some prog \<Rightarrow>
         (let sites = programSites parseURL prog in (sort (remdups (map s_Capability sites)), sites)))"

end
