(* ===== verification/MachineState.thy ===== *)
theory MachineState
  imports Bytecode
begin

text \<open>
  The state of the virtual machine (\<open>BCVM\<close> in \<open>internal/vm/vm.go\<close>) and its primitive operations:
  the operand stack (top first), the chain of environment frames (innermost first), the heap of
  dicts, the stores, the counters of the limits, and the effects performed so far (newest first).
  A computation ends with a value or a panic, and keeps the state in both cases, because a panic
  that \<open>try_let\<close> recovers leaves every effect behind. The host is a parameter: what it answers may
  depend on all earlier effects.
\<close>

datatype effect =
    EReadFile string
  | EWriteFile string string
  | EMkdir string
  | EExec string "string list" "string list"
  | EFetch string string "string option"
  | EGetenv string
  | EReadLine
  | EReadStdin
  | ETime
  | ERand nat
  | ESleep int
  | EPort int
  | EOut string
  | EErr string
  | ETimeNano
  | EModel string string string
  | ESpawn "Capability list" "BCInstruction list" dict

text \<open>An effect with the grants of the machine that performed it.\<close>

record event =
  ev_caps :: Grants
  ev_effect :: effect

datatype response =
    ROk string
  | RInt int
  | RErr string
  | RDenied string
  | RNotExist string
  | RExit nat string string
  | RHttp int string
  | RBodyErr string string
  | RHopDenied string string

type_synonym records = "(string \<times> tree) list strmap"

record host =
  h_os :: "event list \<Rightarrow> osenv"
  h_do :: "event list \<Rightarrow> effect \<Rightarrow> response"
  h_expired :: "event list \<Rightarrow> int \<Rightarrow> bool"
  h_sleepOver :: "event list \<Rightarrow> int \<Rightarrow> bool"
  h_getenv :: "event list \<Rightarrow> string \<Rightarrow> string option"
  h_url :: "string \<Rightarrow> URL option"
  h_badRequest :: "string \<Rightarrow> string \<Rightarrow> string option"
  h_regex :: "string \<Rightarrow> string \<Rightarrow> string + bool"
  h_sha256 :: "string \<Rightarrow> string"
  h_storeDecode :: "string \<Rightarrow> string + records"
  h_storeEncode :: "records \<Rightarrow> string + string"
  h_unicode :: unicode

record VMLimits =
  MaxInstructions :: int
  MaxMemoryBytes :: int
  MaxCallDepth :: int
  MaxFetchBodyBytes :: int
  MaxExecOutputBytes :: int
  MaxStartupInstructions :: int
  HTTPListenHost :: string

definition DefaultLimits :: VMLimits where
  "DefaultLimits = \<lparr>MaxInstructions = 100000, MaxMemoryBytes = 67108864, MaxCallDepth = 1000,
     MaxFetchBodyBytes = 10 * 1024 * 1024, MaxExecOutputBytes = 10 * 1024 * 1024,
     MaxStartupInstructions = 0, HTTPListenHost = []\<rparr>"

text \<open>What stays fixed while a machine runs.\<close>

record ctx =
  c_prog :: BCProgram
  c_args :: "string list"
  c_startup :: bool
  c_spawnDepth :: int
  c_limits :: VMLimits
  c_caps :: Grants
  c_host :: host

record bcMemoryStore =
  st_records :: records
  st_file :: string

record vmstate =
  m_stack :: "val list"
  m_env :: "dict list"
  m_heap :: heap
  m_stores :: "bcMemoryStore list"
  m_registry :: "nat strmap"
  m_ip :: int
  m_executed :: int
  m_callDepth :: int
  m_memoryBytes :: int
  m_events :: "event list"

text \<open>\<open>PGo\<close> is a run-time panic of Go itself, which a recover sees; \<open>PCrash\<close> is the exhaustion of the
  goroutine stack, which nothing recovers. \<open>PUnmodelled\<close> marks an instruction outside the model.\<close>

datatype panic =
    PErr vm_error
  | PReturn val
  | PExit int
  | PGo string
  | PCrash
  | PFuel
  | PUnmodelled Opcode

type_synonym 'a M = "vmstate \<Rightarrow> (panic + 'a) \<times> vmstate"

definition returnM :: "'a \<Rightarrow> 'a M" where
  "returnM a s = (Inr a, s)"

definition panicM :: "panic \<Rightarrow> 'a M" where
  "panicM p s = (Inl p, s)"

definition bindM :: "'a M \<Rightarrow> ('a \<Rightarrow> 'b M) \<Rightarrow> 'b M" where
  "bindM m f s = (case m s of (Inl p, s') \<Rightarrow> (Inl p, s') | (Inr a, s') \<Rightarrow> f a s')"

definition getM :: "(vmstate \<Rightarrow> 'a) \<Rightarrow> 'a M" where
  "getM f s = (Inr (f s), s)"

definition modifyM :: "(vmstate \<Rightarrow> vmstate) \<Rightarrow> unit M" where
  "modifyM f s = (Inr (), f s)"

abbreviation thenM :: "'a M \<Rightarrow> 'b M \<Rightarrow> 'b M" where
  "thenM m n \<equiv> bindM m (\<lambda>_. n)"

fun traverseM :: "('a \<Rightarrow> 'b M) \<Rightarrow> 'a list \<Rightarrow> 'b list M" where
  "traverseM f [] = returnM []"
| "traverseM f (x # xs) = bindM (f x) (\<lambda>y. bindM (traverseM f xs) (\<lambda>ys. returnM (y # ys)))"

definition raise :: "string \<Rightarrow> int \<Rightarrow> Opcode \<Rightarrow> string \<Rightarrow> 'a M" where
  "raise code ip op msg = panicM (PErr (NewRuntimeError code ''main'' ip op msg))"

text \<open>An error raised at \<open>vm.ip\<close>, which a nested run leaves at its last instruction.\<close>

definition raiseHere :: "string \<Rightarrow> Opcode \<Rightarrow> string \<Rightarrow> 'a M" where
  "raiseHere code op msg = bindM (getM m_ip) (\<lambda>ip. raise code ip op msg)"

definition liftM :: "vm_error + 'a \<Rightarrow> 'a M" where
  "liftM r = (case r of Inl e \<Rightarrow> panicM (PErr e) | Inr a \<Rightarrow> returnM a)"

definition opName :: "Opcode \<Rightarrow> string" where
  "opName op = op_Name (RegistrySpec op)"

text \<open>A host that answers outside the protocol of an effect is outside the model.\<close>

definition offProtocol :: "Opcode \<Rightarrow> 'a M" where
  "offProtocol op = panicM (PUnmodelled op)"

text \<open>Arithmetic of Go's 64-bit \<open>int\<close>, and \<open>make([]any, n)\<close>, which panics on a length that is
  negative or whose bytes exceed the address space.\<close>

definition goInt :: "int \<Rightarrow> int" where
  "goInt i = sint (word_of_int i :: 64 word)"

definition makeSlice :: "int \<Rightarrow> unit M" where
  "makeSlice n =
     (if n < 0 \<or> n > 2 ^ 44 then panicM (PGo ''runtime error: makeslice: len out of range'') else returnM ())"

subsection \<open>Stack\<close>

definition push :: "val \<Rightarrow> unit M" where
  "push v = modifyM (\<lambda>s. s\<lparr>m_stack := v # m_stack s\<rparr>)"

definition pop :: "Opcode \<Rightarrow> val M" where
  "pop op = bindM (getM m_stack) (\<lambda>st.
     case st of
       [] \<Rightarrow> raiseHere ''STACK_UNDERFLOW'' op (''stack underflow at '' @ opName op)
     | v # rest \<Rightarrow> thenM (modifyM (\<lambda>s. s\<lparr>m_stack := rest\<rparr>)) (returnM v))"

text \<open>\<open>n\<close> operands in the order they were pushed.\<close>

fun popN :: "nat \<Rightarrow> Opcode \<Rightarrow> val list M" where
  "popN 0 op = returnM []"
| "popN (Suc n) op = bindM (pop op) (\<lambda>v. bindM (popN n op) (\<lambda>vs. returnM (vs @ [v])))"

definition truncated :: "nat \<Rightarrow> 'a list \<Rightarrow> 'a list" where
  "truncated height st = (if length st > height then drop (length st - height) st else st)"

definition truncateStack :: "nat \<Rightarrow> unit M" where
  "truncateStack height = modifyM (\<lambda>s. s\<lparr>m_stack := truncated height (m_stack s)\<rparr>)"

definition popCheckedString :: "Opcode \<Rightarrow> int \<Rightarrow> string \<Rightarrow> string M" where
  "popCheckedString op ip msgPrefix = bindM (pop op) (\<lambda>v.
     case v of VStr s \<Rightarrow> returnM s | _ \<Rightarrow> raise ''TYPE_ERROR'' ip op (msgPrefix @ '', got '' @ typeName v))"

subsection \<open>Environments\<close>

fun envGet :: "dict list \<Rightarrow> string \<Rightarrow> val option" where
  "envGet [] name = None"
| "envGet (f # fs) name = (case lookup f name of Some v \<Rightarrow> Some v | None \<Rightarrow> envGet fs name)"

text \<open>\<open>None\<close> when no frame binds the name.\<close>

fun envSet :: "dict list \<Rightarrow> string \<Rightarrow> val \<Rightarrow> dict list option" where
  "envSet [] name v = None"
| "envSet (f # fs) name v =
     (if lookup f name \<noteq> None then Some (put name v f # fs)
      else map_option ((#) f) (envSet fs name v))"

definition bindVar :: "string \<Rightarrow> val \<Rightarrow> dict list \<Rightarrow> dict list" where
  "bindVar name v env = (case env of [] \<Rightarrow> [] | f # fs \<Rightarrow> put name v f # fs)"

definition storeVar :: "string \<Rightarrow> val \<Rightarrow> unit M" where
  "storeVar name v = modifyM (\<lambda>s. s\<lparr>m_env := bindVar name v (m_env s)\<rparr>)"

definition getVar :: "string \<Rightarrow> val option M" where
  "getVar name = getM (\<lambda>s. envGet (m_env s) name)"

definition setVar :: "string \<Rightarrow> val \<Rightarrow> bool M" where
  "setVar name v = bindM (getM (\<lambda>s. envSet (m_env s) name v)) (\<lambda>r.
     case r of None \<Rightarrow> returnM False
     | Some env' \<Rightarrow> thenM (modifyM (\<lambda>s. s\<lparr>m_env := env'\<rparr>)) (returnM True))"

definition needVar :: "int \<Rightarrow> Opcode \<Rightarrow> string \<Rightarrow> val M" where
  "needVar ip op name = bindM (getVar name) (\<lambda>r.
     case r of Some v \<Rightarrow> returnM v | None \<Rightarrow> raise ''UNDEFINED_VAR'' ip op (''undefined variable: '' @ name))"

text \<open>All visible variables, inner bindings first: what a spawned body captures.\<close>

definition flattenEnv :: "dict list \<Rightarrow> dict" where
  "flattenEnv env = foldl (\<lambda>m f. foldl (\<lambda>m' (k, v). if lookup m' k = None then put k v m' else m') m f) [] env"

subsection \<open>Heap\<close>

definition treeM :: "val \<Rightarrow> tree M" where
  "treeM v = bindM (getM (\<lambda>s. treeOf (m_heap s) v)) (\<lambda>r.
     case r of None \<Rightarrow> panicM PCrash | Some t \<Rightarrow> returnM t)"

text \<open>A tree that is printed; the text of a store handle is an address.\<close>

definition printable :: "Opcode \<Rightarrow> val \<Rightarrow> tree M" where
  "printable op v = bindM (treeM v) (\<lambda>t. if hasStore t then panicM (PUnmodelled op) else returnM t)"

definition sprintM :: "Opcode \<Rightarrow> val \<Rightarrow> string M" where
  "sprintM op v = bindM (printable op v) (\<lambda>t. returnM (sprint t))"

definition textM :: "Opcode \<Rightarrow> val \<Rightarrow> string M" where
  "textM op v = bindM (printable op v) (\<lambda>t. returnM (TextOf t))"

definition newDict :: "dict \<Rightarrow> val M" where
  "newDict d = bindM (getM (\<lambda>s. length (m_heap s))) (\<lambda>a.
     thenM (modifyM (\<lambda>s. s\<lparr>m_heap := m_heap s @ [d]\<rparr>)) (returnM (VDict a)))"

definition dictAt :: "nat \<Rightarrow> dict M" where
  "dictAt a = getM (\<lambda>s. if a < length (m_heap s) then m_heap s ! a else [])"

definition setDict :: "nat \<Rightarrow> dict \<Rightarrow> unit M" where
  "setDict a d = modifyM (\<lambda>s. s\<lparr>m_heap := (m_heap s)[a := d]\<rparr>)"

definition thawM :: "tree \<Rightarrow> val M" where
  "thawM t = bindM (getM (\<lambda>s. thaw (m_heap s) t)) (\<lambda>(h, v).
     thenM (modifyM (\<lambda>s. s\<lparr>m_heap := h\<rparr>)) (returnM v))"

subsection \<open>Limits\<close>

definition memoryLimit :: "ctx \<Rightarrow> int \<Rightarrow> Opcode \<Rightarrow> 'a M" where
  "memoryLimit c ip op = raise ''LIMIT_EXCEEDED'' ip op
     (''memory limit exceeded (max '' @ itoa (MaxMemoryBytes (c_limits c)) @ '' bytes)'')"

definition chargeAlloc :: "ctx \<Rightarrow> int \<Rightarrow> int \<Rightarrow> Opcode \<Rightarrow> unit M" where
  "chargeAlloc c n ip op =
     (if n \<le> 0 then returnM ()
      else bindM (getM m_memoryBytes) (\<lambda>used.
        let max = MaxMemoryBytes (c_limits c) in
        if max \<le> 0 \<or> used > max - n then memoryLimit c ip op
        else modifyM (\<lambda>s. s\<lparr>m_memoryBytes := used + n\<rparr>)))"

definition chargeSlots :: "ctx \<Rightarrow> int \<Rightarrow> int \<Rightarrow> int \<Rightarrow> Opcode \<Rightarrow> unit M" where
  "chargeSlots c n width ip op =
     (if n > 0 \<and> n > (2 ^ 63 - 1) div width then memoryLimit c ip op else chargeAlloc c (n * width) ip op)"

definition chargeBytes :: "ctx \<Rightarrow> int \<Rightarrow> int \<Rightarrow> Opcode \<Rightarrow> unit M" where
  "chargeBytes c n ip op = chargeAlloc c n ip op"

definition chargeText :: "ctx \<Rightarrow> val \<Rightarrow> int \<Rightarrow> Opcode \<Rightarrow> unit M" where
  "chargeText c v ip op = (case v of VStr s \<Rightarrow> chargeAlloc c (int (length s)) ip op | _ \<Rightarrow> returnM ())"

definition listItems :: "ctx \<Rightarrow> val \<Rightarrow> int \<Rightarrow> Opcode \<Rightarrow> val list option M" where
  "listItems c v ip op =
     (case v of
        VList xs \<Rightarrow> returnM (Some xs)
      | VBytes b \<Rightarrow> thenM (chargeSlots c (int (length b)) 8 ip op) (returnM (Some (bytesToAnySlice b)))
      | _ \<Rightarrow> returnM None)"

definition instructionLimit :: "ctx \<Rightarrow> int" where
  "instructionLimit c =
     (let l = MaxInstructions (c_limits c); st = MaxStartupInstructions (c_limits c) in
      if c_startup c \<and> st > l \<and> l > 0 then st else l)"

definition programServesHTTP :: "BCProgram \<Rightarrow> bool" where
  "programServesHTTP prog = (\<exists>inst \<in> set (p_Main prog). i_Op inst = OpHttpServerStart)"

definition deadlineCode :: "ctx \<Rightarrow> string" where
  "deadlineCode c = (if p_modelAdapter (c_prog c) then ''HFIR_DEADLINE_EXCEEDED'' else ''LIMIT_EXCEEDED'')"

definition checkDeadline :: "ctx \<Rightarrow> int \<Rightarrow> Opcode \<Rightarrow> unit M" where
  "checkDeadline c ip op = bindM (getM (\<lambda>s. h_expired (c_host c) (m_events s) (m_executed s))) (\<lambda>expired.
     if expired then raise (deadlineCode c) ip op ''wall-clock deadline exceeded'' else returnM ())"

subsection \<open>Effects and authority\<close>

definition perform :: "ctx \<Rightarrow> effect \<Rightarrow> response M" where
  "perform c e = bindM (getM (\<lambda>s. h_do (c_host c) (m_events s) e)) (\<lambda>r.
     thenM (modifyM (\<lambda>s. s\<lparr>m_events := \<lparr>ev_caps = c_caps c, ev_effect = e\<rparr> # m_events s\<rparr>)) (returnM r))"

definition osM :: "ctx \<Rightarrow> osenv M" where
  "osM c = getM (\<lambda>s. h_os (c_host c) (m_events s))"

definition denied :: "Opcode \<Rightarrow> string \<Rightarrow> 'a M" where
  "denied op msg = raiseHere ''CAPABILITY_DENIED'' op (''capability denied: '' @ msg)"

definition requireCapability :: "ctx \<Rightarrow> Capability \<Rightarrow> Opcode \<Rightarrow> unit M" where
  "requireCapability c cap op =
     (if op = OpFetch \<or> op = OpHttpRequest then returnM ()
      else if cap = Process \<and> (op = OpSpawn \<or> op = OpSpawnAgent) \<and> \<not> HasCoarse (c_caps c) Process
      then denied op cap
      else bindM (osM c) (\<lambda>os.
        if \<exists>allowed \<in> set (c_caps c). Has os [allowed] cap then returnM () else denied op cap))"

definition filesystemIOPath :: "osenv \<Rightarrow> string \<Rightarrow> Grants \<Rightarrow> string" where
  "filesystemIOPath os path g = (if Filesystem \<in> set g then path else absPath (cwd os) path)"

definition requireFilesystem :: "ctx \<Rightarrow> string \<Rightarrow> bool \<Rightarrow> Opcode \<Rightarrow> string M" where
  "requireFilesystem c path write op = bindM (osM c) (\<lambda>os.
     if \<not> (if write then AllowsWrite os (c_caps c) path else AllowsRead os (c_caps c) path)
     then denied op Filesystem
     else returnM (filesystemIOPath os path (c_caps c)))"

definition requireExec :: "ctx \<Rightarrow> string \<Rightarrow> string list \<Rightarrow> Opcode \<Rightarrow> string M" where
  "requireExec c program args op = bindM (osM c) (\<lambda>os.
     case AuthorizeExec os (c_caps c) program args of
       Inl e \<Rightarrow> denied op e
     | Inr (path, grant) \<Rightarrow> returnM path)"

definition failFetch :: "FetchDenied \<Rightarrow> Opcode \<Rightarrow> 'a M" where
  "failFetch d op = denied op (fd_Reason d @ '' (requires '' @ fd_Required d @ '')'')"

definition requireFetch :: "ctx \<Rightarrow> string \<Rightarrow> Opcode \<Rightarrow> unit M" where
  "requireFetch c rawURL op =
     (case AuthorizeFetch (c_caps c) (h_url (c_host c) rawURL) of
        Inl d \<Rightarrow> failFetch d op
      | Inr grant \<Rightarrow> returnM ())"

definition isStr :: "val \<Rightarrow> bool" where
  "isStr v = (case v of VStr _ \<Rightarrow> True | _ \<Rightarrow> False)"

definition preauthorizeFetch :: "ctx \<Rightarrow> BCInstruction \<Rightarrow> unit M" where
  "preauthorizeFetch c inst = bindM (getM m_stack) (\<lambda>st.
     let urlIdx = (if i_Op inst = OpHttpRequest \<and> i_Int inst = 1 then 2 else 1) in
     if urlIdx < length st \<and> list_all isStr (take (Suc urlIdx) st)
     then requireFetch c (case st ! urlIdx of VStr u \<Rightarrow> u | _ \<Rightarrow> []) (i_Op inst)
     else if \<not> HasFetch (c_caps c)
     then failFetch \<lparr>fd_Reason = ''network: no network:fetch= grant'', fd_Required = FetchGrantPrefix @ ''<host>''\<rparr> (i_Op inst)
     else returnM ())"

definition attenuateChild :: "ctx \<Rightarrow> string \<Rightarrow> Opcode \<Rightarrow> int \<Rightarrow> string \<Rightarrow> Grants M" where
  "attenuateChild c lst op ip what = bindM (osM c) (\<lambda>os.
     case Attenuate os (c_caps c) (if lst = [] then [] else splitOn [CHR 0x0A] lst) of
       Inl e \<Rightarrow> raise ''CAPABILITY_DENIED'' ip op (''capability denied: '' @ what @ '': '' @ e)
     | Inr child \<Rightarrow> returnM child)"

definition capabilityGranted :: "osenv \<Rightarrow> Grants \<Rightarrow> string \<Rightarrow> bool" where
  "capabilityGranted os caps name =
     (if hasPrefix name ReadPrefix then
        (let path = trimPrefix name ReadPrefix in path \<noteq> [] \<and> AllowsRead os caps path)
      else if hasPrefix name WritePrefix then
        (let path = trimPrefix name WritePrefix in path \<noteq> [] \<and> AllowsWrite os caps path)
      else \<exists>c \<in> set caps. c = name \<or> (name \<noteq> ''network'' \<and> hasPrefix c (name @ '':'')))"

end
