(* ===== verification/MachineData.thy ===== *)
theory MachineData
  imports MachineState
begin

text \<open>
  The instructions of the virtual machine that read and write only its own state: constants and
  variables, output and exit, operators and conversions, lists, dicts and JSON. A handler is a
  branch of the switch in \<open>run\<close> (\<open>internal/vm/vm.go\<close>): it gets the fixed context, the index of the
  instruction and the instruction. The evidence that \<open>run\<close> collects on the side (trace, map
  ledger, receipts) is not part of the state.
\<close>

type_synonym handler = "ctx \<Rightarrow> int \<Rightarrow> BCInstruction \<Rightarrow> unit M"

abbreviation typeError :: "int \<Rightarrow> Opcode \<Rightarrow> string \<Rightarrow> 'a M" where
  "typeError ip op msg \<equiv> raise ''TYPE_ERROR'' ip op msg"

subsection \<open>Variables\<close>

definition opLoadConst :: handler where
  "opLoadConst c ip inst = push (i_Value inst)"

definition opLoadVar :: handler where
  "opLoadVar c ip inst = bindM (needVar ip (i_Op inst) (i_Str inst)) push"

definition opStoreVar :: handler where
  "opStoreVar c ip inst = bindM (pop (i_Op inst)) (storeVar (i_Str inst))"

definition opSetVar :: handler where
  "opSetVar c ip inst = bindM (pop (i_Op inst)) (\<lambda>v. bindM (setVar (i_Str inst) v) (\<lambda>ok.
     if ok then returnM ()
     else raise ''UNDEFINED_VAR'' ip (i_Op inst) (''undefined variable: '' @ i_Str inst)))"

subsection \<open>Return, exit and output\<close>

definition opReturn :: handler where
  "opReturn c ip inst = bindM (pop (i_Op inst)) (\<lambda>v. panicM (PReturn v))"

definition exitCode :: "val \<Rightarrow> int" where
  "exitCode v = (case v of VInt i \<Rightarrow> sint i | VFloat f \<Rightarrow> f64_to_int f | VGoInt i \<Rightarrow> sint i | _ \<Rightarrow> 0)"

definition opExit :: handler where
  "opExit c ip inst = bindM (pop (i_Op inst)) (\<lambda>v. panicM (PExit (exitCode v)))"

definition emit :: "ctx \<Rightarrow> effect \<Rightarrow> unit M" where
  "emit c e = bindM (perform c e) (\<lambda>_. returnM ())"

definition opPrint :: handler where
  "opPrint c ip inst = bindM (popN (nat (i_Int inst)) (i_Op inst)) (\<lambda>vals.
     bindM (traverseM (textM (i_Op inst)) vals) (\<lambda>out.
       emit c (EOut (join '' '' out @ [CHR 0x0A]))))"

definition opStderr :: handler where
  "opStderr c ip inst = bindM (pop (i_Op inst)) (\<lambda>v. bindM (textM (i_Op inst) v) (\<lambda>t. emit c (EErr t)))"

subsection \<open>Strings\<close>

definition opUTF8Valid :: handler where
  "opUTF8Valid c ip inst = bindM (pop (i_Op inst)) (\<lambda>v.
     case v of
       VStr s \<Rightarrow> push (VBool (validUTF8 s))
     | _ \<Rightarrow> typeError ip (i_Op inst) ''utf8_valid expected string'')"

definition opGranted :: handler where
  "opGranted c ip inst = bindM (pop (i_Op inst)) (\<lambda>v.
     case v of
       VStr s \<Rightarrow> bindM (osM c) (\<lambda>os. push (VBool (capabilityGranted os (c_caps c) s)))
     | _ \<Rightarrow> typeError ip (i_Op inst) ''granted expected a capability name string'')"

definition opSha256Hex :: handler where
  "opSha256Hex c ip inst = bindM (pop (i_Op inst)) (\<lambda>v.
     case v of
       VStr s \<Rightarrow> thenM (chargeAlloc c 64 ip (i_Op inst)) (push (VStr (h_sha256 (c_host c) s)))
     | _ \<Rightarrow> typeError ip (i_Op inst) ''sha256_hex expected string'')"

text \<open>Both operands are popped before their types are checked.\<close>

definition opSecureEqual :: handler where
  "opSecureEqual c ip inst = bindM (pop (i_Op inst)) (\<lambda>b. bindM (pop (i_Op inst)) (\<lambda>a.
     case (a, b) of
       (VStr x, VStr y) \<Rightarrow> push (VBool (x = y))
     | _ \<Rightarrow> typeError ip (i_Op inst) ''secure_equal expected strings''))"

definition opBinop :: handler where
  "opBinop c ip inst = bindM (pop (i_Op inst)) (\<lambda>b. bindM (pop (i_Op inst)) (\<lambda>a.
     bindM (liftM (BcBinop (i_Str inst) a b)) (\<lambda>r.
       thenM (chargeText c r ip (i_Op inst)) (push r))))"

definition printsOperand :: "string \<Rightarrow> bool" where
  "printsOperand target \<longleftrightarrow> target \<in> {''to_string'', ''to_lower'', ''to_upper'', ''str_trim''}"

definition opConvert :: handler where
  "opConvert c ip inst = bindM (pop (i_Op inst)) (\<lambda>a.
     bindM (if printsOperand (i_Str inst) then printable (i_Op inst) a else returnM TNil) (\<lambda>t.
     bindM (liftM (BcConvert (h_unicode (c_host c)) (i_Str inst) a t)) (\<lambda>r.
       thenM (chargeText c r ip (i_Op inst)) (push r))))"

fun chargeEach :: "ctx \<Rightarrow> string list \<Rightarrow> int \<Rightarrow> Opcode \<Rightarrow> unit M" where
  "chargeEach c [] ip op = returnM ()"
| "chargeEach c (s # ss) ip op = thenM (chargeAlloc c (int (length s)) ip op) (chargeEach c ss ip op)"

definition opStrSplit :: handler where
  "opStrSplit c ip inst = bindM (pop (i_Op inst)) (\<lambda>sepVal. bindM (pop (i_Op inst)) (\<lambda>sVal.
     case (sVal, sepVal) of
       (VStr s, VStr sep) \<Rightarrow>
         (let parts = splitString s sep in
          thenM (chargeSlots c (int (length parts)) 8 ip (i_Op inst))
            (thenM (chargeEach c parts ip (i_Op inst)) (push (VList (map VStr parts)))))
     | _ \<Rightarrow> typeError ip (i_Op inst)
              (''str_split expected string, got '' @ typeName sVal @ '' and '' @ typeName sepVal)))"

definition opStrJoin :: handler where
  "opStrJoin c ip inst = bindM (pop (i_Op inst)) (\<lambda>sepVal. bindM (pop (i_Op inst)) (\<lambda>listVal.
     bindM (listItems c listVal ip (i_Op inst)) (\<lambda>items.
     case (items, sepVal) of
       (Some list, VStr sep) \<Rightarrow>
         bindM (traverseM (textM (i_Op inst)) list) (\<lambda>strs.
           let joined = join sep strs in
           thenM (chargeAlloc c (int (length joined)) ip (i_Op inst)) (push (VStr joined)))
     | _ \<Rightarrow> typeError ip (i_Op inst)
              (''str_join expected list and string, got '' @ typeName listVal @ '' and '' @ typeName sepVal))))"

definition opRegexMatch :: handler where
  "opRegexMatch c ip inst = bindM (pop (i_Op inst)) (\<lambda>sVal. bindM (pop (i_Op inst)) (\<lambda>patternVal.
     case (sVal, patternVal) of
       (VStr s, VStr pattern) \<Rightarrow>
         (case h_regex (c_host c) pattern s of
            Inl err \<Rightarrow> raise ''INVALID_REGEX'' ip (i_Op inst) (''invalid regex: '' @ err)
          | Inr matched \<Rightarrow> push (VBool matched))
     | _ \<Rightarrow> typeError ip (i_Op inst)
              (''regex_match expected string pattern and string, got '' @ typeName patternVal @ '' and '' @ typeName sVal)))"

definition escapeName :: "Opcode \<Rightarrow> string" where
  "escapeName op = (if op = OpAttrEscape then ''attr_escape'' else ''html_escape'')"

definition opEscape :: handler where
  "opEscape c ip inst = bindM (pop (i_Op inst)) (\<lambda>v.
     case v of
       VStr s \<Rightarrow> thenM (chargeAlloc c (int (length (Escape s))) ip (i_Op inst)) (push (VStr (Escape s)))
     | _ \<Rightarrow> typeError ip (i_Op inst) (escapeName (i_Op inst) @ '' expected string, got '' @ typeName v))"

subsection \<open>Lists\<close>

text \<open>The loop of \<open>MAKE_LIST\<close>: pops the items last to first and charges each string.\<close>

fun popItems :: "nat \<Rightarrow> ctx \<Rightarrow> int \<Rightarrow> Opcode \<Rightarrow> val list M" where
  "popItems 0 c ip op = returnM []"
| "popItems (Suc n) c ip op = bindM (pop op) (\<lambda>v.
     thenM (chargeText c v ip op) (bindM (popItems n c ip op) (\<lambda>vs. returnM (vs @ [v]))))"

definition opMakeList :: handler where
  "opMakeList c ip inst =
     thenM (chargeSlots c (i_Int inst) 8 ip (i_Op inst))
       (thenM (makeSlice (i_Int inst))
         (bindM (popItems (nat (i_Int inst)) c ip (i_Op inst)) (\<lambda>items. push (VList items))))"

text \<open>The items of a list value as \<open>append\<close> copies them, without a charge for bytes.\<close>

definition copyItems :: "val \<Rightarrow> val list" where
  "copyItems v = (case v of VList xs \<Rightarrow> xs | VBytes b \<Rightarrow> bytesToAnySlice b | _ \<Rightarrow> [])"

definition isList :: "val \<Rightarrow> bool" where
  "isList v = (case v of VList _ \<Rightarrow> True | VBytes _ \<Rightarrow> True | _ \<Rightarrow> False)"

definition opAppend :: handler where
  "opAppend c ip inst = bindM (pop (i_Op inst)) (\<lambda>item.
     bindM (needVar ip (i_Op inst) (i_Str inst)) (\<lambda>current.
     if \<not> isList current then typeError ip (i_Op inst) (''append expected list, got '' @ typeName current)
     else
       thenM (chargeSlots c (int (length (copyItems current)) + 1) 8 ip (i_Op inst))
        (thenM (chargeText c item ip (i_Op inst))
          (bindM (setVar (i_Str inst) (VList (copyItems current @ [item]))) (\<lambda>_. returnM ())))))"

text \<open>\<open>strconv.Atoi\<close> of the trimmed text of a value.\<close>

definition atoiOf :: "Opcode \<Rightarrow> val \<Rightarrow> int option M" where
  "atoiOf op v = bindM (sprintM op v) (\<lambda>t. returnM (parseInt (trimSpace t)))"

definition opListGet :: handler where
  "opListGet c ip inst = bindM (pop (i_Op inst)) (\<lambda>idxAny. bindM (atoiOf (i_Op inst) idxAny) (\<lambda>r.
     case r of
       None \<Rightarrow> typeError ip (i_Op inst) (''list_get index must be a number, got '' @ typeName idxAny)
     | Some idx \<Rightarrow> bindM (needVar ip (i_Op inst) (i_Str inst)) (\<lambda>current.
         if \<not> isList current then typeError ip (i_Op inst) (''list_get expected list, got '' @ typeName current)
         else if idx < 0 \<or> idx \<ge> int (length (copyItems current)) then push (VStr [])
         else push (listElement current (nat idx)))))"

definition opListLen :: handler where
  "opListLen c ip inst = bindM (pop (i_Op inst)) (\<lambda>v.
     case collectionLen v of
       Some n \<Rightarrow> push (intVal (int n))
     | None \<Rightarrow> typeError ip (i_Op inst) (''list_len expected list, string, or bytes, got '' @ typeName v))"

subsection \<open>Dicts\<close>

fun pairsDict :: "Opcode \<Rightarrow> val list \<Rightarrow> dict \<Rightarrow> dict M" where
  "pairsDict op (k # v # rest) d = bindM (sprintM op k) (\<lambda>key. pairsDict op rest (put key v d))"
| "pairsDict op rest d = returnM d"

definition opMakeDict :: handler where
  "opMakeDict c ip inst =
     thenM (makeSlice (goInt (i_Int inst * 2)))
       (bindM (popN (nat (goInt (i_Int inst * 2))) (i_Op inst)) (\<lambda>pairs.
        bindM (pairsDict (i_Op inst) pairs []) (\<lambda>d.
        thenM (chargeSlots c (int (length d)) 16 ip (i_Op inst))
          (thenM (chargeEach c (map fst d) ip (i_Op inst))
            (bindM (newDict d) push)))))"

definition wantDict :: "int \<Rightarrow> Opcode \<Rightarrow> string \<Rightarrow> val \<Rightarrow> nat M" where
  "wantDict ip op what v =
     (case v of VDict a \<Rightarrow> returnM a | _ \<Rightarrow> typeError ip op (what @ '' expected dict, got '' @ typeName v))"

definition opMapSet :: handler where
  "opMapSet c ip inst = bindM (pop (i_Op inst)) (\<lambda>v. bindM (pop (i_Op inst)) (\<lambda>keyAny.
     bindM (sprintM (i_Op inst) keyAny) (\<lambda>key.
     bindM (needVar ip (i_Op inst) (i_Str inst)) (\<lambda>current.
     bindM (wantDict ip (i_Op inst) ''map_set'' current) (\<lambda>a.
     bindM (dictAt a) (\<lambda>d.
       thenM (if lookup d key = None
              then thenM (chargeAlloc c 16 ip (i_Op inst)) (chargeAlloc c (int (length key)) ip (i_Op inst))
              else returnM ())
         (setDict a (put key v d))))))))"

definition opMapDelete :: handler where
  "opMapDelete c ip inst = bindM (pop (i_Op inst)) (\<lambda>keyAny.
     bindM (sprintM (i_Op inst) keyAny) (\<lambda>key.
     bindM (needVar ip (i_Op inst) (i_Str inst)) (\<lambda>current.
     bindM (wantDict ip (i_Op inst) ''map_delete'' current) (\<lambda>a.
     bindM (dictAt a) (\<lambda>d. setDict a (remove_key key d))))))"

definition opMapGet :: handler where
  "opMapGet c ip inst = bindM (pop (i_Op inst)) (\<lambda>keyAny.
     bindM (sprintM (i_Op inst) keyAny) (\<lambda>key.
     bindM (if i_Str inst \<noteq> [] then needVar ip (i_Op inst) (i_Str inst) else pop (i_Op inst)) (\<lambda>current.
     bindM (wantDict ip (i_Op inst) ''map_get'' current) (\<lambda>a.
     bindM (dictAt a) (\<lambda>d. push (case lookup d key of Some v \<Rightarrow> v | None \<Rightarrow> VNil))))))"

definition sortedMapKeys :: "dict \<Rightarrow> val list" where
  "sortedMapKeys d = map VStr (sorted_keys d)"

definition opMapKeys :: handler where
  "opMapKeys c ip inst = bindM (pop (i_Op inst)) (\<lambda>v.
     bindM (wantDict ip (i_Op inst) ''map_keys'' v) (\<lambda>a.
     bindM (dictAt a) (\<lambda>d.
       thenM (chargeSlots c (int (length (sortedMapKeys d))) 8 ip (i_Op inst)) (push (VList (sortedMapKeys d))))))"

definition opIsNil :: handler where
  "opIsNil c ip inst = bindM (pop (i_Op inst)) (\<lambda>v. push (VBool (v = VNil)))"

subsection \<open>JSON\<close>

definition jsonMessage :: "Opcode \<Rightarrow> json_error \<Rightarrow> (string \<Rightarrow> 'a M) \<Rightarrow> 'a M" where
  "jsonMessage op e f = (case e of JErr m \<Rightarrow> f m | JFuel \<Rightarrow> panicM (PUnmodelled op))"

definition opEncodeJson :: handler where
  "opEncodeJson c ip inst = bindM (pop (i_Op inst)) (\<lambda>v. bindM (treeM v) (\<lambda>t.
     case encodeJSONText (toJson t) of
       Inl e \<Rightarrow> jsonMessage (i_Op inst) e (raise ''ENCODE_JSON_ERROR'' ip (i_Op inst))
     | Inr b \<Rightarrow> thenM (chargeAlloc c (int (length b)) ip (i_Op inst)) (push (VStr b))))"

text \<open>The text \<open>parse_json\<close> reads; a value of another type leaves it empty. The request body is read
  through the variable \<open>req\<close>, which holds a request only inside a route handler.\<close>

definition jsonSource :: "int \<Rightarrow> BCInstruction \<Rightarrow> string M" where
  "jsonSource ip inst =
     (if i_Str inst = ''req.body'' then
        bindM (getVar ''req'') (\<lambda>r.
          case r of
            None \<Rightarrow> raise ''RUNTIME_ERROR'' ip (i_Op inst) ''undefined req''
          | Some v \<Rightarrow> typeError ip (i_Op inst) (''parse_json expected *http.Request, got '' @ typeName v))
      else
        bindM (getVar (i_Str inst)) (\<lambda>r.
          case r of
            None \<Rightarrow> raise ''RUNTIME_ERROR'' ip (i_Op inst) (''undefined var: '' @ i_Str inst)
          | Some (VStr s) \<Rightarrow> returnM s
          | Some (VBytes b) \<Rightarrow> returnM b
          | Some (VList xs) \<Rightarrow> liftM (bytesFromNumberList xs ip (i_Op inst) ''parse_json'')
          | Some _ \<Rightarrow> returnM []))"

definition opParseJson :: handler where
  "opParseJson c ip inst = bindM (jsonSource ip inst) (\<lambda>text.
     case decodeJSONText text of
       Inl e \<Rightarrow> jsonMessage (i_Op inst) e (\<lambda>m. raise ''RUNTIME_ERROR'' ip (i_Op inst) (''parse_json failed: '' @ m))
     | Inr v \<Rightarrow> bindM (thawM (fromJson v)) push)"

subsection \<open>Program arguments\<close>

definition opCliArgs :: handler where
  "opCliArgs c ip inst = push (VList (map VStr (c_args c)))"

definition opCliArgsGet :: handler where
  "opCliArgsGet c ip inst = bindM (pop (i_Op inst)) (\<lambda>idxAny. bindM (atoiOf (i_Op inst) idxAny) (\<lambda>r.
     case r of
       None \<Rightarrow> typeError ip (i_Op inst) (''cli_args index must be a number, got '' @ typeName idxAny)
     | Some idx \<Rightarrow>
         push (VStr (if 0 \<le> idx \<and> idx < int (length (c_args c)) then c_args c ! nat idx else []))))"

definition opTask :: handler where
  "opTask c ip inst = push (VStr (i_Str inst))"

end
