(* ===== verification/MachineIO.thy ===== *)
theory MachineIO
  imports MachineData
begin

text \<open>
  The instructions of the virtual machine that act on the host: standard input, time, sleep,
  random numbers, environment variables, files, processes, requests, models, and the stores, of
  which some live in files. Every action is an effect recorded with the grants of the machine that
  performs it; the host's answer is data. The atomic replacement of a store file
  (\<open>writeAtomicScoped\<close>) is one write effect.
\<close>

subsection \<open>Standard input, time, randomness\<close>

definition opReadLine :: handler where
  "opReadLine c ip inst = bindM (perform c EReadLine) (\<lambda>r.
     case r of
       ROk line \<Rightarrow> push (VStr (trimSuffix (trimSuffix line [CHR 0x0A]) [CHR 0x0D]))
     | RErr e \<Rightarrow> raiseHere ''IO_ERROR'' (i_Op inst) (''Failed to read line: '' @ e)
     | _ \<Rightarrow> offProtocol (i_Op inst))"

definition opReadStdin :: handler where
  "opReadStdin c ip inst = bindM (perform c EReadStdin) (\<lambda>r.
     case r of
       ROk text \<Rightarrow> thenM (chargeAlloc c (int (length text)) ip (i_Op inst)) (push (VStr text))
     | RErr e \<Rightarrow> raiseHere ''IO_ERROR'' (i_Op inst) (''Failed to read stdin: '' @ e)
     | _ \<Rightarrow> offProtocol (i_Op inst))"

definition opTimeNow :: handler where
  "opTimeNow c ip inst = bindM (perform c ETime) (\<lambda>r.
     case r of RInt t \<Rightarrow> push (intVal t) | _ \<Rightarrow> offProtocol (i_Op inst))"

text \<open>The deadline is compared with the sleep before the timer starts; a sleep that the deadline
  interrupts ends in the deadline error.\<close>

definition opSleep :: handler where
  "opSleep c ip inst = bindM (pop (i_Op inst)) (\<lambda>msAny.
     case ToInt msAny of
       None \<Rightarrow> typeError ip (i_Op inst) (''sleep requires number, got '' @ typeName msAny)
     | Some ms \<Rightarrow> bindM (getM (\<lambda>s. h_sleepOver (c_host c) (m_events s) ms)) (\<lambda>over.
         if ms > 0 \<and> over
         then raise (deadlineCode c) ip (i_Op inst) ''wall-clock deadline exceeded: sleep exceeds remaining budget''
         else bindM (perform c (ESleep ms)) (\<lambda>r.
           case r of ROk _ \<Rightarrow> returnM () | _ \<Rightarrow> checkDeadline c ip (i_Op inst))))"

definition randCount :: "val \<Rightarrow> string + int" where
  "randCount v =
     (case (case v of VInt i \<Rightarrow> Some (sint i) | VGoInt i \<Rightarrow> Some (sint i) | VFloat f \<Rightarrow> Some (f64_to_int f) | _ \<Rightarrow> None) of
        None \<Rightarrow> Inl (''n must be an integer, got '' @ typeName v)
      | Some n \<Rightarrow> if n < 1 \<or> n > 64 then Inl (''n must be 1..64, got '' @ itoa n) else Inr n)"

definition hexOf :: "string \<Rightarrow> string" where
  "hexOf s = concat (map (\<lambda>ch. hexText 2 (byte ch)) s)"

definition opRandHex :: handler where
  "opRandHex c ip inst = bindM (pop (i_Op inst)) (\<lambda>nAny.
     case randCount nAny of
       Inl e \<Rightarrow> raise ''RUNTIME_ERROR'' ip (i_Op inst) (''rand_hex: '' @ e)
     | Inr n \<Rightarrow> bindM (perform c (ERand (nat n))) (\<lambda>r.
         case r of
           ROk buf \<Rightarrow> thenM (chargeAlloc c (int (length (hexOf buf))) ip (i_Op inst)) (push (VStr (hexOf buf)))
         | RErr e \<Rightarrow> raise ''RUNTIME_ERROR'' ip (i_Op inst) (''rand_hex: '' @ e)
         | _ \<Rightarrow> offProtocol (i_Op inst)))"

definition opEnv :: handler where
  "opEnv c ip inst = bindM (popCheckedString (i_Op inst) ip ''env expected string name'') (\<lambda>name.
     bindM (getM (\<lambda>s. h_getenv (c_host c) (m_events s) name)) (\<lambda>v.
       thenM (emit c (EGetenv name)) (push (VStr (case v of Some t \<Rightarrow> t | None \<Rightarrow> [])))))"

definition opPortAvailable :: handler where
  "opPortAvailable c ip inst = bindM (pop (i_Op inst)) (\<lambda>portVal. bindM (atoiOf (i_Op inst) portVal) (\<lambda>r.
     case r of
       Some n \<Rightarrow>
         if n < 1 \<or> n > 65535
         then raise ''RUNTIME_ERROR'' ip (i_Op inst) ''port_available: port must be an integer 1..65535''
         else bindM (perform c (EPort n)) (\<lambda>a. push (VBool (case a of ROk _ \<Rightarrow> True | _ \<Rightarrow> False)))
     | None \<Rightarrow> raise ''RUNTIME_ERROR'' ip (i_Op inst) ''port_available: port must be an integer 1..65535''))"

subsection \<open>Files\<close>

definition ioError :: "int \<Rightarrow> Opcode \<Rightarrow> string \<Rightarrow> 'a M" where
  "ioError ip op msg = raise ''IO_ERROR'' ip op msg"

text \<open>\<open>failScopedFilesystem\<close>: the refusal of the scoped file system is a denied capability.\<close>

definition failScopedFilesystem :: "Opcode \<Rightarrow> 'a M" where
  "failScopedFilesystem op = denied op Filesystem"

definition opReadFile :: handler where
  "opReadFile c ip inst = bindM (popCheckedString (i_Op inst) ip ''read_file expected string'') (\<lambda>p.
     bindM (requireFilesystem c p False (i_Op inst)) (\<lambda>path.
     bindM (perform c (EReadFile path)) (\<lambda>r.
       case r of
         ROk b \<Rightarrow> thenM (chargeBytes c (int (length b)) ip (i_Op inst)) (push (VBytes b))
       | RDenied e \<Rightarrow> failScopedFilesystem (i_Op inst)
       | RErr e \<Rightarrow> ioError ip (i_Op inst) (''read_file failed: '' @ e)
       | RNotExist e \<Rightarrow> ioError ip (i_Op inst) (''read_file failed: '' @ e)
       | _ \<Rightarrow> offProtocol (i_Op inst))))"

definition fileData :: "int \<Rightarrow> BCInstruction \<Rightarrow> val \<Rightarrow> string M" where
  "fileData ip inst v =
     (case v of
        VStr s \<Rightarrow> returnM s
      | VBytes b \<Rightarrow> returnM b
      | VList xs \<Rightarrow> liftM (bytesFromNumberList xs ip (i_Op inst) ''write_file'')
      | _ \<Rightarrow> typeError ip (i_Op inst) (''write_file expected string or byte list data, got '' @ typeName v))"

text \<open>The end of an instruction that only writes.\<close>

definition written :: "int \<Rightarrow> Opcode \<Rightarrow> string \<Rightarrow> response \<Rightarrow> unit M" where
  "written ip op what r =
     (case r of
        ROk _ \<Rightarrow> returnM ()
      | RDenied e \<Rightarrow> failScopedFilesystem op
      | RErr e \<Rightarrow> ioError ip op (what @ '' failed: '' @ e)
      | _ \<Rightarrow> offProtocol op)"

definition opWriteFile :: handler where
  "opWriteFile c ip inst = bindM (pop (i_Op inst)) (\<lambda>dataAny.
     bindM (popCheckedString (i_Op inst) ip ''write_file expected string path'') (\<lambda>p.
     bindM (requireFilesystem c p True (i_Op inst)) (\<lambda>path.
     bindM (fileData ip inst dataAny) (\<lambda>text.
     bindM (perform c (EWriteFile path text)) (written ip (i_Op inst) ''write_file'')))))"

definition opMkdir :: handler where
  "opMkdir c ip inst = bindM (popCheckedString (i_Op inst) ip ''mkdir expected string'') (\<lambda>p.
     bindM (requireFilesystem c p True (i_Op inst)) (\<lambda>path.
     bindM (perform c (EMkdir path)) (written ip (i_Op inst) ''mkdir'')))"

subsection \<open>Processes\<close>

text \<open>\<open>execArgv\<close>: one list argument is the whole argument vector.\<close>

definition execArgs :: "val list \<Rightarrow> val list" where
  "execArgs raw = (case raw of [v] \<Rightarrow> if isList v then copyItems v else raw | _ \<Rightarrow> raw)"

definition execArgv :: "Opcode \<Rightarrow> val list \<Rightarrow> string list M" where
  "execArgv op raw = traverseM (sprintM op) (execArgs raw)"

definition outputLimit :: "int \<Rightarrow> Opcode \<Rightarrow> string \<Rightarrow> int \<Rightarrow> 'a M" where
  "outputLimit ip op what bound =
     raise ''LIMIT_EXCEEDED'' ip op (what @ '' exceeds maximum limit of '' @ itoa bound @ '' bytes'')"

text \<open>A child that exits with a positive code: the error carries the code and the output.\<close>

definition exitError :: "ctx \<Rightarrow> int \<Rightarrow> Opcode \<Rightarrow> nat \<Rightarrow> string \<Rightarrow> string \<Rightarrow> 'a M" where
  "exitError c ip op code e out =
     (let err = NewRuntimeError ''IO_ERROR'' ''main'' ip op (''exec failed: '' @ e) in
      if code = 0 then panicM (PErr err)
      else thenM (chargeBytes c (int (length out)) ip op)
             (panicM (PErr (err\<lparr>e_ExecExitCode := int code, e_ExecOutput := out\<rparr>))))"

definition outputOf :: "response \<Rightarrow> string" where
  "outputOf r = (case r of ROk out \<Rightarrow> out | RExit _ _ out \<Rightarrow> out | _ \<Rightarrow> [])"

text \<open>What follows the child's end; the deadline is checked first.\<close>

definition execResult :: "ctx \<Rightarrow> int \<Rightarrow> Opcode \<Rightarrow> int \<Rightarrow> response \<Rightarrow> unit M" where
  "execResult c ip op bound r =
     thenM (checkDeadline c ip op)
       (if int (length (outputOf r)) > bound then outputLimit ip op ''exec output'' bound
        else case r of
          ROk out \<Rightarrow> thenM (chargeBytes c (int (length out)) ip op) (push (VBytes out))
        | RExit code e out \<Rightarrow> exitError c ip op code e out
        | RErr e \<Rightarrow> exitError c ip op 0 e []
        | _ \<Rightarrow> offProtocol op)"

definition opExec :: handler where
  "opExec c ip inst =
     thenM (makeSlice (i_Int inst))
      (bindM (popN (nat (i_Int inst)) (i_Op inst)) (\<lambda>raw.
       bindM (execArgv (i_Op inst) raw) (\<lambda>args.
       bindM (pop (i_Op inst)) (\<lambda>cmd.
       bindM (sprintM (i_Op inst) cmd) (\<lambda>cmdStr.
       bindM (requireExec c cmdStr args (i_Op inst)) (\<lambda>path.
         let bound = MaxExecOutputBytes (c_limits c) in
         if bound \<le> 0 then outputLimit ip (i_Op inst) ''exec output'' bound
         else bindM (getM (\<lambda>s. ExecEnv (c_caps c) (h_getenv (c_host c) (m_events s)))) (\<lambda>env.
           bindM (perform c (EExec path args env)) (execResult c ip (i_Op inst) bound))))))))"

subsection \<open>Requests\<close>

text \<open>The texts in which the errors of \<open>FETCH\<close> and \<open>HTTP_REQUEST\<close> differ.\<close>

record wording =
  w_op :: string
  w_creation :: string

definition fetchWording :: wording where
  "fetchWording = \<lparr>w_op = ''fetch'', w_creation = ''fetch request creation failed: ''\<rparr>"

definition requestWording :: wording where
  "requestWording = \<lparr>w_op = ''http_request'', w_creation = ''http_request creation failed: ''\<rparr>"

definition requestError :: "ctx \<Rightarrow> int \<Rightarrow> Opcode \<Rightarrow> string \<Rightarrow> 'a M" where
  "requestError c ip op msg = thenM (checkDeadline c ip op) (ioError ip op msg)"

text \<open>The body is read up to one byte more than the limit, so a body longer than the limit is
  refused before a read error behind it is seen.\<close>

definition bodyWithin :: "ctx \<Rightarrow> int \<Rightarrow> Opcode \<Rightarrow> wording \<Rightarrow> int \<Rightarrow> string \<Rightarrow> unit M" where
  "bodyWithin c ip op w bound b =
     thenM (checkDeadline c ip op)
       (if int (length b) > bound then outputLimit ip op (w_op w @ '' body'') bound else returnM ())"

definition fetchResult :: "ctx \<Rightarrow> int \<Rightarrow> Opcode \<Rightarrow> wording \<Rightarrow> int \<Rightarrow> response \<Rightarrow> (int \<times> string) M" where
  "fetchResult c ip op w bound r =
     (case r of
        RHopDenied reason required \<Rightarrow> failFetch \<lparr>fd_Reason = reason, fd_Required = required\<rparr> op
      | RErr e \<Rightarrow> requestError c ip op (w_op w @ '' failed: '' @ e)
      | RBodyErr b e \<Rightarrow>
          thenM (bodyWithin c ip op w bound b) (requestError c ip op (w_op w @ '' body read failed: '' @ e))
      | RHttp status b \<Rightarrow>
          thenM (bodyWithin c ip op w bound b)
            (thenM (chargeBytes c (int (length b)) ip op) (returnM (status, b)))
      | _ \<Rightarrow> offProtocol op)"

definition exchange :: "ctx \<Rightarrow> int \<Rightarrow> Opcode \<Rightarrow> wording \<Rightarrow> string \<Rightarrow> string \<Rightarrow> string option \<Rightarrow> (int \<times> string) M" where
  "exchange c ip op w method url body =
     (let bound = MaxFetchBodyBytes (c_limits c) in
      if bound \<le> 0 then outputLimit ip op (w_op w @ '' body'') bound
      else thenM (requireFetch c url op)
        (case h_badRequest (c_host c) method url of
           Some e \<Rightarrow> requestError c ip op (w_creation w @ e)
         | None \<Rightarrow> bindM (perform c (EFetch method url body)) (fetchResult c ip op w bound)))"

definition opFetch :: handler where
  "opFetch c ip inst =
     bindM (popCheckedString (i_Op inst) ip ''fetch expected string method'') (\<lambda>method.
     bindM (popCheckedString (i_Op inst) ip ''fetch expected string url'') (\<lambda>url.
     bindM (exchange c ip (i_Op inst) fetchWording method url None) (\<lambda>(status, b). push (VBytes b))))"

definition opHttpRequest :: handler where
  "opHttpRequest c ip inst =
     bindM (if i_Int inst = 1
            then bindM (popCheckedString (i_Op inst) ip ''http_request expected string body'') (\<lambda>b. returnM (Some b))
            else returnM None) (\<lambda>body.
     bindM (popCheckedString (i_Op inst) ip ''http_request expected string method'') (\<lambda>method.
     bindM (popCheckedString (i_Op inst) ip ''http_request expected string url'') (\<lambda>url.
     bindM (exchange c ip (i_Op inst) requestWording method url body) (\<lambda>(status, b).
       bindM (newDict [(''status'', VGoInt (word_of_int status)), (''body'', VBytes b)]) push))))"

subsection \<open>Models\<close>

text \<open>\<open>json.Marshal\<close> of the request maps, whose keys come out sorted.\<close>

definition generateBody :: "string \<Rightarrow> string \<Rightarrow> string" where
  "generateBody model prompt =
     ''{'' @ jsonField ''model'' (appendJSONString model) @ '','' @ jsonField ''prompt'' (appendJSONString prompt)
     @ '','' @ jsonField ''stream'' ''false'' @ ''}''"

definition generateURL :: string where "generateURL = ''http://localhost:11434/api/generate''"
definition createURL :: string where "createURL = ''http://localhost:11434/api/create''"
definition deleteURL :: string where "deleteURL = ''http://localhost:11434/api/delete''"

text \<open>\<open>postModel\<close>: the deadline is checked whatever the answer.\<close>

definition postModel :: "ctx \<Rightarrow> int \<Rightarrow> Opcode \<Rightarrow> string \<Rightarrow> string \<Rightarrow> response M" where
  "postModel c ip op url body =
     bindM (perform c (EModel ''POST'' url body)) (\<lambda>r. thenM (checkDeadline c ip op) (returnM r))"

text \<open>The text of a model's response: \<open>ROk\<close> carries the decoded \<open>response\<close> field.\<close>

definition generate :: "ctx \<Rightarrow> int \<Rightarrow> Opcode \<Rightarrow> string \<Rightarrow> string \<Rightarrow> string \<Rightarrow> string M" where
  "generate c ip op what model prompt =
     bindM (postModel c ip op generateURL (generateBody model prompt)) (\<lambda>r.
       case r of
         ROk t \<Rightarrow> returnM t
       | RErr e \<Rightarrow> requestError c ip op (what @ '' request failed: '' @ e)
       | RBodyErr b e \<Rightarrow> requestError c ip op (what @ '' response decode failed: '' @ e)
       | _ \<Rightarrow> offProtocol op)"

definition pushModelText :: "ctx \<Rightarrow> int \<Rightarrow> Opcode \<Rightarrow> string \<Rightarrow> unit M" where
  "pushModelText c ip op t = thenM (chargeAlloc c (int (length t)) ip op) (push (VStr t))"

definition circuitInputs :: "BCInstruction \<Rightarrow> (tree list \<times> string) M" where
  "circuitInputs inst =
     thenM (makeSlice (i_Int inst))
      (bindM (popN (nat (i_Int inst)) (i_Op inst)) (\<lambda>inputs.
       bindM (pop (i_Op inst)) (\<lambda>v.
       bindM (sprintM (i_Op inst) v) (\<lambda>instruction.
       bindM (traverseM (printable (i_Op inst)) inputs) (\<lambda>ts. returnM (ts, instruction))))))"

definition opNeuralCircuit :: handler where
  "opNeuralCircuit c ip inst = bindM (circuitInputs inst) (\<lambda>(ts, instruction).
     let prompt = ''Instruction: '' @ instruction @
       (if ts \<noteq> [] then CHR 0x0A # ''Inputs: '' @ sprint (TList ts) else []) in
     bindM (generate c ip (i_Op inst) ''neural_circuit'' ''llama3'' prompt) (pushModelText c ip (i_Op inst)))"

definition createBody :: "string \<Rightarrow> string \<Rightarrow> string" where
  "createBody model instruction =
     ''{'' @ jsonField ''modelfile'' (appendJSONString (''FROM llama3'' @ [CHR 0x0A] @
        ''SYSTEM You are a highly specialized reasoning circuit. Your task is: '' @ instruction))
     @ '','' @ jsonField ''name'' (appendJSONString model) @ '','' @ jsonField ''stream'' ''false'' @ ''}''"

text \<open>The model is created, deleted, and then asked.\<close>

definition opEphemeralCircuit :: handler where
  "opEphemeralCircuit c ip inst = bindM (circuitInputs inst) (\<lambda>(ts, instruction).
     bindM (perform c ETimeNano) (\<lambda>now.
     let prompt = (if ts \<noteq> [] then ''Inputs: '' @ sprint (TList ts) else []);
         model = ''ephemeral-'' @ (case now of RInt t \<Rightarrow> itoa t | _ \<Rightarrow> []) in
     bindM (postModel c ip (i_Op inst) createURL (createBody model instruction)) (\<lambda>created.
     case created of
       RErr e \<Rightarrow> requestError c ip (i_Op inst) (''ephemeral_circuit model create failed: '' @ e)
     | _ \<Rightarrow>
        thenM (emit c (EModel ''DELETE'' deleteURL (''{'' @ jsonField ''name'' (appendJSONString model) @ ''}'')))
         (bindM (generate c ip (i_Op inst) ''ephemeral_circuit'' model prompt) (pushModelText c ip (i_Op inst))))))"

definition opAchieve :: handler where
  "opAchieve c ip inst = bindM (pop (i_Op inst)) (\<lambda>constraintAny. bindM (pop (i_Op inst)) (\<lambda>targetAny.
     bindM (sprintM (i_Op inst) constraintAny) (\<lambda>constraint. bindM (sprintM (i_Op inst) targetAny) (\<lambda>target.
     bindM (generate c ip (i_Op inst) ''achieve'' ''llama3''
        (''Achieve the following target: '' @ target @ '' with constraint: '' @ constraint @
         ''. Return ONLY the result, no explanations.'')) (pushModelText c ip (i_Op inst))))))"

text \<open>\<open>ParseFloat\<close> with its error dropped: zero for text that is no number, an infinity for one out
  of range.\<close>

definition confidenceValue :: "string \<Rightarrow> f64" where
  "confidenceValue t = (case parseFloatValue (trimSpace t) of None \<Rightarrow> F_fin 0 | Some (ok, v) \<Rightarrow> v)"

definition quote64 :: "unicode \<Rightarrow> string \<Rightarrow> string" where
  "quote64 u s = quote u (concat (map snd (take 64 (runesOf s))))"

definition opConfidence :: handler where
  "opConfidence c ip inst = bindM (pop (i_Op inst)) (\<lambda>v. bindM (sprintM (i_Op inst) v) (\<lambda>statement.
     bindM (generate c ip (i_Op inst) ''confidence'' ''llama3''
        (''Evaluate the probability of this statement being true. Return ONLY a float between 0.0 and 1.0. Statement: ''
         @ statement)) (\<lambda>t.
     let f = confidenceValue t in
     if isNaN f \<or> isInf f
     then raise ''CONVERSION_ERROR'' ip (i_Op inst)
       (''confidence response '' @ quote64 (h_unicode (c_host c)) (trimSpace t) @ '' is not a finite number'')
     else push (VFloat f))))"

definition opLlmGenerate :: handler where
  "opLlmGenerate c ip inst = bindM (pop (i_Op inst)) (\<lambda>v.
     case v of
       VStr prompt \<Rightarrow>
         bindM (generate c ip (i_Op inst) ''llm_generate'' (i_Str inst) prompt) (pushModelText c ip (i_Op inst))
     | _ \<Rightarrow> typeError ip (i_Op inst) (''llm_generate expected string prompt, got '' @ typeName v))"

end
