(* ===== verification/MachineStores.thy ===== *)
theory MachineStores
  imports MachineIO
begin

text \<open>
  The record stores of the virtual machine: \<open>memory://\<close> stores live in the registry of the run,
  \<open>file://\<close> stores also in a file, read when opened and replaced on every write. A record is kept as
  a tree, because every record is copied on its way in and out. JSON of the store file
  (\<open>encoding/json\<close>) is a parameter of the host.
\<close>

definition filePrefix :: string where "filePrefix = ''file://''"

definition invalidStoreURI :: string where
  "invalidStoreURI = ''store URI must use memory:// or file:// with a non-empty name''"

fun requireAll :: "ctx \<Rightarrow> Capability list \<Rightarrow> Opcode \<Rightarrow> unit M" where
  "requireAll c [] op = returnM ()"
| "requireAll c (cap # caps) op = thenM (requireCapability c cap op) (requireAll c caps op)"

definition requireStoreCapabilities :: "ctx \<Rightarrow> string \<Rightarrow> Opcode \<Rightarrow> unit M" where
  "requireStoreCapabilities c uri op =
     (case StoreRequirements uri of
        None \<Rightarrow> raiseHere ''INVALID_STORE_URI'' op invalidStoreURI
      | Some required \<Rightarrow> requireAll c required op)"

subsection \<open>Opening\<close>

text \<open>The registry of stores: a new store gets the next number.\<close>

definition register :: "string \<Rightarrow> bcMemoryStore \<Rightarrow> nat M" where
  "register uri st = bindM (getM (\<lambda>s. length (m_stores s))) (\<lambda>n.
     thenM (modifyM (\<lambda>s. s\<lparr>m_stores := m_stores s @ [st], m_registry := put uri n (m_registry s)\<rparr>)) (returnM n))"

definition storeError :: "Opcode \<Rightarrow> string \<Rightarrow> 'a M" where
  "storeError op e =
     raiseHere (if contains e ''decode persisted store'' then ''STORE_INVALID_PERSISTED_JSON''
                else ''STORE_PERSISTENCE_READ_FAILED'') op e"

definition persistedError :: "ctx \<Rightarrow> string \<Rightarrow> string \<Rightarrow> string \<Rightarrow> string" where
  "persistedError c what file e = what @ '' persisted store '' @ quote (h_unicode (c_host c)) file @ '': '' @ e"

text \<open>The records of an existing store file; a file of white space is an empty store.\<close>

definition storeRecords :: "ctx \<Rightarrow> Opcode \<Rightarrow> string \<Rightarrow> string \<Rightarrow> records M" where
  "storeRecords c op file text =
     (if trimSpace text = [] then returnM []
      else case h_storeDecode (c_host c) text of
        Inl e \<Rightarrow> storeError op (persistedError c ''decode'' file e)
      | Inr r \<Rightarrow> returnM r)"

definition loadStore :: "ctx \<Rightarrow> Opcode \<Rightarrow> string \<Rightarrow> bcMemoryStore M" where
  "loadStore c op uri =
     (if hasPrefix uri filePrefix then
        (let file = trimPrefix uri filePrefix in
         bindM (perform c (EReadFile file)) (\<lambda>r.
           case r of
             RNotExist e \<Rightarrow> returnM \<lparr>st_records = [], st_file = file\<rparr>
           | ROk text \<Rightarrow> bindM (storeRecords c op file text) (\<lambda>recs. returnM \<lparr>st_records = recs, st_file = file\<rparr>)
           | RErr e \<Rightarrow> storeError op (persistedError c ''read'' file e)
           | RDenied e \<Rightarrow> storeError op (persistedError c ''read'' file e)
           | _ \<Rightarrow> offProtocol op))
      else returnM \<lparr>st_records = [], st_file = []\<rparr>)"

definition openStore :: "ctx \<Rightarrow> Opcode \<Rightarrow> string \<Rightarrow> nat M" where
  "openStore c op uri = bindM (getM (\<lambda>s. lookup (m_registry s) uri)) (\<lambda>known.
     case known of
       Some n \<Rightarrow> returnM n
     | None \<Rightarrow> bindM (loadStore c op uri) (register uri))"

definition opStoreOpen :: handler where
  "opStoreOpen c ip inst =
     bindM (popCheckedString (i_Op inst) ip ''store_open expected string URI'') (\<lambda>uri0.
     thenM (requireStoreCapabilities c uri0 (i_Op inst))
      (bindM (if hasPrefix uri0 filePrefix
              then bindM (requireFilesystem c (trimPrefix uri0 filePrefix) False (i_Op inst)) (\<lambda>path.
                     returnM (filePrefix @ path))
              else returnM uri0) (\<lambda>uri.
       bindM (openStore c (i_Op inst) uri) (\<lambda>n. storeVar (i_Str inst) (VStore n)))))"

subsection \<open>Reading and writing records\<close>

definition noStore :: bcMemoryStore where
  "noStore = \<lparr>st_records = [], st_file = []\<rparr>"

definition storeAt :: "nat \<Rightarrow> bcMemoryStore M" where
  "storeAt n = getM (\<lambda>s. if n < length (m_stores s) then m_stores s ! n else noStore)"

definition storeWrites :: "Opcode \<Rightarrow> bool" where
  "storeWrites op \<longleftrightarrow> op = OpStorePut \<or> op = OpStoreDelete"

text \<open>The store a variable names, with the authority for its file; the result is its number.\<close>

definition storeHandle :: "ctx \<Rightarrow> string \<Rightarrow> Opcode \<Rightarrow> nat M" where
  "storeHandle c name op = bindM (getVar name) (\<lambda>r.
     case r of
       None \<Rightarrow> raiseHere ''UNDEFINED_STORE'' op (''undefined store handle: '' @ name)
     | Some (VStore n) \<Rightarrow> bindM (storeAt n) (\<lambda>st.
         if st_file st = [] then returnM n
         else thenM (requireFilesystem c (st_file st) False op)
           (thenM (if storeWrites op then thenM (requireFilesystem c (st_file st) True op) (returnM ())
                   else returnM ())
             (returnM n)))
     | Some _ \<Rightarrow> raiseHere ''INVALID_STORE_HANDLE'' op (name @ '' is not a store handle''))"

definition authorizedStore :: "ctx \<Rightarrow> string \<Rightarrow> Opcode \<Rightarrow> nat M" where
  "authorizedStore c name op = bindM (storeHandle c name op) (\<lambda>n. bindM (storeAt n) (\<lambda>st.
     thenM (if st_file st \<noteq> [] then requireCapability c Filesystem op else returnM ()) (returnM n)))"

definition persistError :: "ctx \<Rightarrow> Opcode \<Rightarrow> string \<Rightarrow> string \<Rightarrow> string \<Rightarrow> 'a M" where
  "persistError c op what file e =
     raiseHere ''STORE_PERSISTENCE_WRITE_FAILED'' op (persistedError c what file e)"

definition syncToFile :: "ctx \<Rightarrow> Opcode \<Rightarrow> string \<Rightarrow> records \<Rightarrow> unit M" where
  "syncToFile c op file recs =
     (if file = [] then returnM ()
      else case h_storeEncode (c_host c) recs of
        Inl e \<Rightarrow> persistError c op ''encode'' file e
      | Inr text \<Rightarrow> bindM (perform c (EWriteFile file text)) (\<lambda>r.
          case r of
            ROk _ \<Rightarrow> returnM ()
          | RDenied e \<Rightarrow> failScopedFilesystem op
          | RErr e \<Rightarrow> persistError c op ''write'' file e
          | _ \<Rightarrow> offProtocol op))"

text \<open>The records change only after the file was written.\<close>

definition persistStore :: "ctx \<Rightarrow> Opcode \<Rightarrow> nat \<Rightarrow> records \<Rightarrow> unit M" where
  "persistStore c op n recs = bindM (storeAt n) (\<lambda>st.
     thenM (syncToFile c op (st_file st) recs)
       (modifyM (\<lambda>s. s\<lparr>m_stores := (m_stores s)[n := st\<lparr>st_records := recs\<rparr>]\<rparr>)))"

definition cloneRecord :: "(string \<times> tree) list \<Rightarrow> (string \<times> tree) list" where
  "cloneRecord r = map (\<lambda>(k, t). (k, cloneTree t)) r"

definition cloneStoreRecords :: "records \<Rightarrow> records" where
  "cloneStoreRecords rs = map (\<lambda>(k, r). (k, cloneRecord r)) rs"

definition opStorePut :: handler where
  "opStorePut c ip inst = bindM (pop (i_Op inst)) (\<lambda>recordAny. bindM (pop (i_Op inst)) (\<lambda>keyAny.
     bindM (sprintM (i_Op inst) keyAny) (\<lambda>key.
     case recordAny of
       VDict a \<Rightarrow>
         bindM (authorizedStore c (i_Str inst) (i_Op inst)) (\<lambda>n.
         bindM (storeAt n) (\<lambda>st.
         bindM (treeM (VDict a)) (\<lambda>t.
           persistStore c (i_Op inst) n
             (put key (case t of TDict kts \<Rightarrow> cloneRecord kts | _ \<Rightarrow> []) (cloneStoreRecords (st_records st))))))
     | _ \<Rightarrow> raiseHere ''INVALID_STORE_RECORD'' (i_Op inst)
              (''store_put record must be a dict, got '' @ typeName recordAny))))"

definition opStoreGet :: handler where
  "opStoreGet c ip inst = bindM (pop (i_Op inst)) (\<lambda>keyAny.
     bindM (sprintM (i_Op inst) keyAny) (\<lambda>key.
     bindM (authorizedStore c (i_Str inst) (i_Op inst)) (\<lambda>n.
     bindM (storeAt n) (\<lambda>st.
       case lookup (st_records st) key of
         None \<Rightarrow> push VNil
       | Some r \<Rightarrow> bindM (thawM (TDict (cloneRecord r))) push))))"

definition opStoreKeys :: handler where
  "opStoreKeys c ip inst = bindM (authorizedStore c (i_Str inst) (i_Op inst)) (\<lambda>n.
     bindM (storeAt n) (\<lambda>st. push (VList (map VStr (sorted_keys (st_records st))))))"

definition opStoreDelete :: handler where
  "opStoreDelete c ip inst = bindM (pop (i_Op inst)) (\<lambda>keyAny.
     bindM (sprintM (i_Op inst) keyAny) (\<lambda>key.
     bindM (authorizedStore c (i_Str inst) (i_Op inst)) (\<lambda>n.
     bindM (storeAt n) (\<lambda>st.
       persistStore c (i_Op inst) n (remove_key key (cloneStoreRecords (st_records st)))))))"

end
