(* ===== verification/Machine.thy ===== *)
theory Machine
  imports MachineStores
begin

text \<open>
  The main loop of the virtual machine, \<open>run\<close> in \<open>internal/vm/vm.go\<close>: the gate in front of every
  instruction, the instructions that choose the next one or run other code, and a whole program run.
  \<open>run\<close> takes fuel, one unit for an instruction and for a nested run; \<open>MachineLaws\<close> shows that the
  instruction limit plus one is always enough. The instructions of databases and of the HTTP server
  are not modelled and end in \<open>PUnmodelled\<close>.
\<close>

subsection \<open>The data instructions\<close>

definition dataTable :: "(Opcode \<times> handler) list" where
  "dataTable =
    [(OpLoadConst, opLoadConst), (OpLoadVar, opLoadVar), (OpStoreVar, opStoreVar), (OpSetVar, opSetVar),
     (OpReturn, opReturn), (OpPrint, opPrint), (OpStderr, opStderr), (OpExit, opExit),
     (OpBinop, opBinop), (OpConvert, opConvert), (OpStrSplit, opStrSplit), (OpStrJoin, opStrJoin),
     (OpRegexMatch, opRegexMatch), (OpHTMLEscape, opEscape), (OpAttrEscape, opEscape),
     (OpUTF8Valid, opUTF8Valid), (OpGranted, opGranted), (OpSha256Hex, opSha256Hex), (OpSecureEqual, opSecureEqual),
     (OpMakeList, opMakeList), (OpAppend, opAppend), (OpListGet, opListGet), (OpListLen, opListLen),
     (OpMakeDict, opMakeDict), (OpMapSet, opMapSet), (OpMapDelete, opMapDelete), (OpMapGet, opMapGet),
     (OpMapKeys, opMapKeys), (OpIsNil, opIsNil), (OpEncodeJson, opEncodeJson), (OpParseJson, opParseJson),
     (OpCliArgs, opCliArgs), (OpCliArgsGet, opCliArgsGet), (OpTask, opTask),
     (OpReadLine, opReadLine), (OpReadStdin, opReadStdin), (OpTimeNow, opTimeNow), (OpSleep, opSleep),
     (OpRandHex, opRandHex), (OpEnv, opEnv), (OpPortAvailable, opPortAvailable),
     (OpReadFile, opReadFile), (OpWriteFile, opWriteFile), (OpMkdir, opMkdir), (OpExec, opExec),
     (OpFetch, opFetch), (OpHttpRequest, opHttpRequest),
     (OpNeuralCircuit, opNeuralCircuit), (OpEphemeralCircuit, opEphemeralCircuit), (OpAchieve, opAchieve),
     (OpConfidence, opConfidence), (OpLlmGenerate, opLlmGenerate),
     (OpStoreOpen, opStoreOpen), (OpStorePut, opStorePut), (OpStoreGet, opStoreGet), (OpStoreKeys, opStoreKeys),
     (OpStoreDelete, opStoreDelete)]"

definition unmodelledOps :: "Opcode list" where
  "unmodelledOps =
    [OpDbConnect, OpSqlQuery, OpRes, OpResJson, OpHttpServerStart, OpHttpRoute, OpHttpServerServe, OpHttpReqMethod,
     OpHttpResHeader, OpHttpReqQuery, OpHttpReqHeader, OpHttpReqPath, OpHttpReqID, OpHttpReqBody, OpHttpReqURLPath]"

definition runData :: "ctx \<Rightarrow> int \<Rightarrow> BCInstruction \<Rightarrow> unit M" where
  "runData c ip inst =
     (case map_of dataTable (i_Op inst) of
        Some h \<Rightarrow> h c ip inst
      | None \<Rightarrow>
          if i_Op inst \<in> set unmodelledOps then panicM (PUnmodelled (i_Op inst))
          else raise ''VM_INTERNAL'' ip (i_Op inst) (''unknown opcode: '' @ opName (i_Op inst)))"

subsection \<open>Jumps and loops\<close>

text \<open>A control instruction yields the next index and the stack heights of the active loops,
  innermost first; it runs nested code through \<open>nested\<close>, a run from index 0 without loops.\<close>

type_synonym runner = "ctx \<Rightarrow> BCInstruction list \<Rightarrow> unit M"
type_synonym control = "runner \<Rightarrow> ctx \<Rightarrow> BCInstruction list \<Rightarrow> int \<Rightarrow> nat list \<Rightarrow> BCInstruction \<Rightarrow> (int \<times> nat list) M"

definition opJump :: control where
  "opJump nested c insts ip lb inst = returnM (goInt (ip + i_Int inst), lb)"

definition opJumpIfFalse :: control where
  "opJumpIfFalse nested c insts ip lb inst = bindM (pop (i_Op inst)) (\<lambda>v. bindM (liftM (BcToBool v)) (\<lambda>b.
     returnM (if b then ip + 1 else goInt (ip + i_Int inst), lb)))"

definition stackHeight :: "nat M" where
  "stackHeight = getM (\<lambda>s. length (m_stack s))"

definition opForInit :: control where
  "opForInit nested c insts ip lb inst = bindM (pop (i_Op inst)) (\<lambda>list.
     if \<not> isList list then typeError ip (i_Op inst) (''for requires a list, got '' @ typeName list)
     else bindM stackHeight (\<lambda>h.
       thenM (push list) (thenM (push (VFloat (F_fin 0))) (returnM (ip + 1, h # lb)))))"

text \<open>The index of a loop is kept on the stack as a float.\<close>

definition loopIndex :: "int \<Rightarrow> Opcode \<Rightarrow> val \<Rightarrow> int M" where
  "loopIndex ip op v =
     (case ToInt v of
        None \<Rightarrow> typeError ip op (''for index must be a number, got '' @ typeName v)
      | Some idx \<Rightarrow>
         (case v of
            VFloat f \<Rightarrow>
              if feq (f64_of_int (f64_to_int f)) f then returnM idx
              else raise ''RUNTIME_ERROR'' ip op (''for index must be an integer, got '' @ formatG f)
          | _ \<Rightarrow> returnM idx))"

definition trimLoop :: "nat list \<Rightarrow> unit M" where
  "trimLoop lb = (case lb of [] \<Rightarrow> returnM () | b # _ \<Rightarrow> truncateStack (b + 2))"

definition opForNext :: control where
  "opForNext nested c insts ip lb inst =
     thenM (trimLoop lb)
      (bindM (pop (i_Op inst)) (\<lambda>idxAny.
       bindM (pop (i_Op inst)) (\<lambda>itemsAny.
       if \<not> isList itemsAny then typeError ip (i_Op inst) (''for requires a list, got '' @ typeName itemsAny)
       else bindM (loopIndex ip (i_Op inst) idxAny) (\<lambda>idx.
         let n = int (length (copyItems itemsAny)) in
         if idx < 0 \<or> idx > n
         then raise ''RUNTIME_ERROR'' ip (i_Op inst)
                (''for index '' @ itoa idx @ '' out of range [0,'' @ itoa n @ '')'')
         else if idx = n then returnM (goInt (ip + i_Int inst), drop 1 lb)
         else thenM (storeVar (i_Str inst) (listElement itemsAny (nat idx)))
               (thenM (push itemsAny)
                 (thenM (push (VFloat (f64_of_int (idx + 1)))) (returnM (ip + 1, lb))))))))"

subsection \<open>Recovered runs\<close>

text \<open>A deferred function that recovers the panics of \<open>m\<close>.\<close>

definition recoverM :: "'a M \<Rightarrow> (panic \<Rightarrow> 'a M) \<Rightarrow> 'a M" where
  "recoverM m f s = (case m s of (Inl p, s') \<Rightarrow> f p s' | (Inr a, s') \<Rightarrow> (Inr a, s'))"

text \<open>A deferred function that runs on every way out.\<close>

definition finallyM :: "'a M \<Rightarrow> (vmstate \<Rightarrow> vmstate) \<Rightarrow> 'a M" where
  "finallyM m f s = (case m s of (r, s') \<Rightarrow> (r, f s'))"

text \<open>What \<open>try_let\<close> catches, as the text it binds; the other panics go on.\<close>

definition caughtText :: "panic \<Rightarrow> string option" where
  "caughtText p =
     (case p of
        PErr e \<Rightarrow> if e_Code e = ''HFIR_DEADLINE_EXCEEDED'' then None else Some (CatchString e)
      | PGo m \<Rightarrow> Some m
      | _ \<Rightarrow> None)"

text \<open>The run of the tried expression: the text of a caught error.\<close>

definition tryRun :: "unit M \<Rightarrow> string option M" where
  "tryRun m = recoverM (thenM m (returnM None)) (\<lambda>p.
     case caughtText p of None \<Rightarrow> panicM p | Some t \<Rightarrow> returnM (Some t))"

fun tryLengths :: "string list \<Rightarrow> int list \<Rightarrow> int \<Rightarrow> int \<Rightarrow> Opcode \<Rightarrow> unit M" where
  "tryLengths (n # ns) (l # ls) remaining ip op =
     (if l < 0 \<or> l > remaining
      then raise ''RUNTIME_ERROR'' ip op
             (''try_let '' @ n @ '' length '' @ itoa l @ '' out of range [0,'' @ itoa remaining @ '']'')
      else tryLengths ns ls (remaining - l) ip op)"
| "tryLengths ns ls remaining ip op = returnM ()"

text \<open>\<open>insts[ip+1+from : ip+1+from+n]\<close>.\<close>

definition segment :: "BCInstruction list \<Rightarrow> int \<Rightarrow> int \<Rightarrow> int \<Rightarrow> BCInstruction list" where
  "segment insts ip from n = take (nat n) (drop (nat (ip + 1 + from)) insts)"

definition opTryLet :: control where
  "opTryLet nested c insts ip lb inst =
     (let v = i_Int inst; ca = i_Int2 inst; su = i_Int3 inst;
          finish = returnM (ip + 1 + v + ca + su, lb) in
      thenM (tryLengths [''value'', ''catch'', ''success''] [v, ca, su] (int (length insts) - ip - 1) ip (i_Op inst))
       (bindM stackHeight (\<lambda>height.
        bindM (tryRun (nested c (segment insts ip 0 v))) (\<lambda>r.
        case r of
          Some text \<Rightarrow>
            thenM (truncateStack height)
             (thenM (storeVar (i_Str2 inst) (VStr text))
               (thenM (nested c (segment insts ip v ca)) finish))
        | None \<Rightarrow>
            bindM (pop (i_Op inst)) (\<lambda>x.
            thenM (storeVar (i_Str inst) x)
             (thenM (truncateStack height)
               (thenM (nested c (segment insts ip (v + ca) su)) finish)))))))"

subsection \<open>Calls\<close>

definition nilDereference :: panic where
  "nilDereference = PGo ''runtime error: invalid memory address or nil pointer dereference''"

definition arityError :: "int \<Rightarrow> BCInstruction \<Rightarrow> nat \<Rightarrow> 'a M" where
  "arityError ip inst n =
     raise ''RUNTIME_ERROR'' ip (i_Op inst)
       (i_Str inst @ '' expects '' @ natDigits n @ '' argument(s), got '' @ itoa (i_Int inst))"

text \<open>The function a call names. The body of a lazily synthesized function is asked of a model and
  compiled in the middle of the run; that is outside the model.\<close>

definition callee :: "ctx \<Rightarrow> int \<Rightarrow> BCInstruction \<Rightarrow> BCFunction M" where
  "callee c ip inst =
     (case lookupFunction (c_prog c) (i_Str inst) of
        None \<Rightarrow> raise ''RUNTIME_ERROR'' ip (i_Op inst) (''undefined function: '' @ i_Str inst)
      | Some None \<Rightarrow> panicM nilDereference
      | Some (Some fn) \<Rightarrow>
          if fn_LazySynthesize fn
          then thenM (requireCapability c Network (i_Op inst)) (panicM (PUnmodelled (i_Op inst)))
          else if i_Int inst \<noteq> int (length (fn_Params fn)) then arityError ip inst (length (fn_Params fn))
          else returnM fn)"

definition callFrame :: "string list \<Rightarrow> val list \<Rightarrow> dict" where
  "callFrame ps vs = foldl (\<lambda>d (p, v). put p v d) [] (zip ps vs)"

definition enterCall :: "ctx \<Rightarrow> int \<Rightarrow> Opcode \<Rightarrow> dict \<Rightarrow> unit M" where
  "enterCall c ip op frame = bindM (getM m_callDepth) (\<lambda>d.
     let limit = MaxCallDepth (c_limits c) in
     if limit \<le> 0 \<or> d \<ge> limit
     then raise ''LIMIT_EXCEEDED'' ip op (''call depth limit exceeded (max '' @ itoa limit @ '')'')
     else modifyM (\<lambda>s. s\<lparr>m_callDepth := d + 1, m_env := frame # m_env s\<rparr>))"

definition leaveCall :: "vmstate \<Rightarrow> vmstate" where
  "leaveCall s = s\<lparr>m_callDepth := m_callDepth s - 1, m_env := drop 1 (m_env s)\<rparr>"

text \<open>The value of a body: what it returns, or nil when it runs to its end.\<close>

definition returned :: "unit M \<Rightarrow> val M" where
  "returned m = recoverM (thenM m (returnM VNil)) (\<lambda>p. case p of PReturn v \<Rightarrow> returnM v | _ \<Rightarrow> panicM p)"

definition opCall :: control where
  "opCall nested c insts ip lb inst =
     bindM (callee c ip inst) (\<lambda>fn.
     bindM (popN (length (fn_Params fn)) (i_Op inst)) (\<lambda>args.
     thenM (enterCall c ip (i_Op inst) (callFrame (fn_Params fn) args))
      (bindM stackHeight (\<lambda>height.
       bindM (finallyM (returned (nested c (fn_Instructions fn))) leaveCall) (\<lambda>result.
       thenM (truncateStack height) (thenM (push result) (returnM (ip + 1, lb))))))))"

subsection \<open>Agents\<close>

definition bodyLength :: "BCInstruction list \<Rightarrow> int \<Rightarrow> BCInstruction \<Rightarrow> string \<Rightarrow> int M" where
  "bodyLength insts ip inst what =
     (let remaining = int (length insts) - ip - 1 in
      if i_Int inst < 0 \<or> i_Int inst > remaining
      then raise ''RUNTIME_ERROR'' ip (i_Op inst)
             (what @ '' body length '' @ itoa (i_Int inst) @ '' out of range [0,'' @ itoa remaining @ '']'')
      else returnM (i_Int inst))"

text \<open>\<open>spawn\<close> hands its body to a goroutine with the attenuated grants; what the goroutine does is
  concurrent with the rest and not part of this run.\<close>

definition opSpawn :: control where
  "opSpawn nested c insts ip lb inst =
     bindM (bodyLength insts ip inst ''spawn'') (\<lambda>n.
     bindM (attenuateChild c (i_Str inst) (i_Op inst) ip ''spawn'') (\<lambda>caps.
     bindM (getM (\<lambda>s. flattenEnv (m_env s))) (\<lambda>captured.
     thenM (emit c (ESpawn caps (segment insts ip 0 n) captured)) (returnM (ip + 1 + n, lb)))))"

text \<open>Each captured value is copied deeply on its own.\<close>

fun cloneEach :: "dict \<Rightarrow> dict M" where
  "cloneEach [] = returnM []"
| "cloneEach ((k, v) # kvs) = bindM (treeM v) (\<lambda>t. bindM (thawM (cloneTree t)) (\<lambda>v'.
     bindM (cloneEach kvs) (\<lambda>rest. returnM ((k, v') # rest))))"

text \<open>A child machine with its own stack, variables and call depth; heap, stores, counters and
  effects are shared.\<close>

definition inChild :: "dict \<Rightarrow> 'a M \<Rightarrow> 'a M" where
  "inChild captured m s =
     (case m (s\<lparr>m_stack := [], m_env := [captured], m_ip := 0\<rparr>) of
        (r, s') \<Rightarrow> (r, s'\<lparr>m_stack := m_stack s, m_env := m_env s, m_callDepth := m_callDepth s, m_ip := m_ip s\<rparr>))"

text \<open>How a failed child is reported; the other panics go on.\<close>

definition agentFailure :: "panic \<Rightarrow> string option" where
  "agentFailure p =
     (case p of
        PReturn v \<Rightarrow> Some ''RETURN: return from spawn agent body''
      | PExit n \<Rightarrow> Some (''EXIT: exit '' @ itoa n @ '' from spawn agent body'')
      | PErr e \<Rightarrow> if e_Code e = ''LIMIT_EXCEEDED'' then None else Some (e_Code e @ '': '' @ e_Message e)
      | PGo m \<Rightarrow> Some (''VM_INTERNAL: '' @ m)
      | _ \<Rightarrow> None)"

definition agentLine :: "ctx \<Rightarrow> string \<Rightarrow> string \<Rightarrow> string \<Rightarrow> string \<Rightarrow> string" where
  "agentLine c verb name what task =
     ''[Swarm VM] '' @ verb @ quote (h_unicode (c_host c)) name @ what @ quote (h_unicode (c_host c)) task"

text \<open>The child's run: whether it failed.\<close>

definition runAgent :: "runner \<Rightarrow> ctx \<Rightarrow> ctx \<Rightarrow> string \<Rightarrow> string \<Rightarrow> BCInstruction list \<Rightarrow> bool M" where
  "runAgent nested c child name task body =
     (if body = [] then returnM False
      else bindM (bindM (getM (\<lambda>s. flattenEnv (m_env s))) cloneEach) (\<lambda>captured.
        recoverM (thenM (inChild captured (nested child body)) (returnM False)) (\<lambda>p.
          case agentFailure p of
            None \<Rightarrow> panicM p
          | Some t \<Rightarrow>
              thenM (emit c (EErr (agentLine c ''Agent '' name '' failed task: '' task @ '': '' @ t @ [CHR 0x0A])))
                (returnM True))))"

definition spawnDepthCheck :: "ctx \<Rightarrow> int \<Rightarrow> Opcode \<Rightarrow> unit M" where
  "spawnDepthCheck c ip op =
     (if c_spawnDepth c \<ge> MaxCallDepth (c_limits c)
      then raise ''LIMIT_EXCEEDED'' ip op ''spawn nesting depth limit exceeded'' else returnM ())"

definition opSpawnAgent :: control where
  "opSpawnAgent nested c insts ip lb inst =
     bindM (popCheckedString (i_Op inst) ip ''spawn_agent expected string task'') (\<lambda>task.
     bindM (attenuateChild c (i_Str2 inst) (i_Op inst) ip ''spawn_agent'') (\<lambda>caps.
     thenM (spawnDepthCheck c ip (i_Op inst))
      (bindM (bodyLength insts ip inst ''spawn_agent'') (\<lambda>n.
       thenM (emit c (EOut (agentLine c ''Spawning agent '' (i_Str inst) '' for task: '' task @ [CHR 0x0A])))
        (bindM (runAgent nested c (c\<lparr>c_caps := caps, c_spawnDepth := c_spawnDepth c + 1\<rparr>) (i_Str inst) task
                 (segment insts ip 0 n)) (\<lambda>failed.
         thenM (if failed then returnM ()
                else emit c (EOut (agentLine c ''Agent '' (i_Str inst) '' completed task: '' task @ [CHR 0x0A])))
           (returnM (ip + 1 + n, lb))))))))"

subsection \<open>The loop\<close>

definition controlTable :: "(Opcode \<times> control) list" where
  "controlTable =
    [(OpJump, opJump), (OpJumpIfFalse, opJumpIfFalse), (OpForInit, opForInit), (OpForNext, opForNext),
     (OpCall, opCall), (OpTryLet, opTryLet), (OpSpawn, opSpawn), (OpSpawnAgent, opSpawnAgent)]"

definition tick :: "ctx \<Rightarrow> Opcode \<Rightarrow> unit M" where
  "tick c op = bindM (getM m_executed) (\<lambda>n.
     if instructionLimit c \<le> 0 \<or> n \<ge> instructionLimit c
     then raiseHere ''LIMIT_EXCEEDED'' op ''instruction limit exceeded''
     else modifyM (\<lambda>s. s\<lparr>m_executed := n + 1\<rparr>))"

text \<open>What every instruction passes before its handler runs.\<close>

definition gate :: "ctx \<Rightarrow> int \<Rightarrow> BCInstruction \<Rightarrow> unit M" where
  "gate c ip inst =
     thenM (modifyM (\<lambda>s. s\<lparr>m_ip := ip\<rparr>))
      (thenM (checkDeadline c ip (i_Op inst))
        (thenM (tick c (i_Op inst))
          (thenM (if op_Capability (RegistrySpec (i_Op inst)) \<noteq> None_cap
                  then requireCapability c (op_Capability (RegistrySpec (i_Op inst))) (i_Op inst) else returnM ())
            (if i_Op inst = OpFetch \<or> i_Op inst = OpHttpRequest then preauthorizeFetch c inst else returnM ()))))"

definition dispatch :: "runner \<Rightarrow> ctx \<Rightarrow> BCInstruction list \<Rightarrow> int \<Rightarrow> nat list \<Rightarrow> BCInstruction \<Rightarrow> (int \<times> nat list) M" where
  "dispatch nested c insts ip lb inst =
     (case map_of controlTable (i_Op inst) of
        Some h \<Rightarrow> h nested c insts ip lb inst
      | None \<Rightarrow> thenM (runData c ip inst) (returnM (ip + 1, lb)))"

definition step :: "runner \<Rightarrow> ctx \<Rightarrow> BCInstruction list \<Rightarrow> int \<Rightarrow> nat list \<Rightarrow> BCInstruction \<Rightarrow> (int \<times> nat list) M" where
  "step nested c insts ip lb inst = thenM (gate c ip inst) (dispatch nested c insts ip lb inst)"

definition indexPanic :: "int \<Rightarrow> panic" where
  "indexPanic ip = PGo (''runtime error: index out of range ['' @ itoa ip @ '']'')"

primrec run :: "nat \<Rightarrow> ctx \<Rightarrow> BCInstruction list \<Rightarrow> int \<Rightarrow> nat list \<Rightarrow> unit M" where
  "run 0 c insts ip lb = panicM PFuel"
| "run (Suc n) c insts ip lb =
     (if ip \<ge> int (length insts) then returnM ()
      else if ip < 0 then thenM (modifyM (\<lambda>s. s\<lparr>m_ip := ip\<rparr>)) (panicM (indexPanic ip))
      else bindM (step (\<lambda>c' is. run n c' is 0 []) c insts ip lb (insts ! nat ip)) (\<lambda>(ip', lb').
        run n c insts ip' lb'))"

subsection \<open>Running a program\<close>

text \<open>Durations are in nanoseconds.\<close>

record ExecutionPolicy =
  Limits :: VMLimits
  Deadline :: int
  AdapterDeadline :: int

definition DefaultAdapterDeadline :: int where "DefaultAdapterDeadline = 1000000000"
definition MaxAdapterDeadline :: int where "MaxAdapterDeadline = 30 * 1000000000"

definition DefaultExecutionPolicy :: ExecutionPolicy where
  "DefaultExecutionPolicy = \<lparr>Limits = DefaultLimits, Deadline = 0, AdapterDeadline = 0\<rparr>"

definition effectiveExecutionPolicy :: "BCProgram \<Rightarrow> ExecutionPolicy \<Rightarrow> ExecutionPolicy" where
  "effectiveExecutionPolicy prog p =
     (if \<not> p_modelAdapter prog then p
      else let budget = (if AdapterDeadline p > 0 then min (AdapterDeadline p) MaxAdapterDeadline
                         else DefaultAdapterDeadline)
           in if Deadline p \<le> 0 \<or> Deadline p > budget then p\<lparr>Deadline := budget\<rparr> else p)"

text \<open>Without a deadline the context never expires.\<close>

definition deadlineHost :: "int \<Rightarrow> host \<Rightarrow> host" where
  "deadlineHost d h = (if d > 0 then h else h\<lparr>h_expired := (\<lambda>_ _. False), h_sleepOver := (\<lambda>_ _. False)\<rparr>)"

definition initialState :: vmstate where
  "initialState = \<lparr>m_stack = [], m_env = [[]], m_heap = [], m_stores = [], m_registry = [], m_ip = 0,
     m_executed = 0, m_callDepth = 0, m_memoryBytes = 0, m_events = []\<rparr>"

definition programCtx :: "BCProgram \<Rightarrow> string list \<Rightarrow> ExecutionPolicy \<Rightarrow> Grants \<Rightarrow> host \<Rightarrow> ctx" where
  "programCtx prog args policy caps h =
     (let p = effectiveExecutionPolicy prog policy in
      \<lparr>c_prog = prog, c_args = args, c_startup = programServesHTTP prog, c_spawnDepth = 0, c_limits = Limits p,
       c_caps = caps, c_host = deadlineHost (Deadline p) h\<rparr>)"

record RuntimeFailure =
  rf_Code :: string
  rf_Instruction :: int
  rf_Opcode :: string
  rf_NodeID :: string
  rf_Message :: string

datatype outcome =
    Exited int
  | Failed RuntimeFailure
  | Crashed
  | OutsideModel

text \<open>The deferred function of \<open>runBytecodeEvidence\<close>.\<close>

definition evidence :: "(panic + unit) \<times> vmstate \<Rightarrow> outcome" where
  "evidence r =
     (case fst r of
        Inr _ \<Rightarrow> Exited 0
      | Inl (PExit n) \<Rightarrow> Exited n
      | Inl (PReturn v) \<Rightarrow> Exited (case v of VInt i \<Rightarrow> sint i | _ \<Rightarrow> 0)
      | Inl (PErr e) \<Rightarrow> Failed \<lparr>rf_Code = e_Code e, rf_Instruction = e_Instruction e, rf_Opcode = e_Opcode e,
                           rf_NodeID = e_NodeID e, rf_Message = e_Message e\<rparr>
      | Inl (PGo m) \<Rightarrow> Failed \<lparr>rf_Code = ''VM_INTERNAL'', rf_Instruction = m_ip (snd r), rf_Opcode = [],
                          rf_NodeID = [], rf_Message = m\<rparr>
      | Inl PCrash \<Rightarrow> Crashed
      | Inl PFuel \<Rightarrow> OutsideModel
      | Inl (PUnmodelled op) \<Rightarrow> OutsideModel)"

text \<open>The fuel is the instruction limit and one for the return.\<close>

definition programFuel :: "ctx \<Rightarrow> nat" where
  "programFuel c = Suc (nat (instructionLimit c))"

definition runBytecode :: "BCProgram \<Rightarrow> string list \<Rightarrow> ExecutionPolicy \<Rightarrow> Grants \<Rightarrow> host \<Rightarrow> outcome \<times> vmstate" where
  "runBytecode prog args policy caps h =
     (let c = programCtx prog args policy caps h; r = run (programFuel c) c (p_Main prog) 0 [] initialState
      in (evidence r, snd r))"

end
