(* ===== verification/GrantLaws.thy ===== *)
theory GrantLaws
  imports Grants
begin

text \<open>
  What the grant decisions promise. Path scopes: containment is a prefix of components, and an
  allowed path resolves below an allowed root. Exec and fetch: exactly when a call is authorised.
  Delegation: an authority that a child holds after \<open>Attenuate\<close> is one its parent holds, stated
  once in a locale and interpreted for exec, for environment names and for the coarse classes.
\<close>

subsection \<open>Path scopes\<close>

lemma contained_iff:
  assumes "isAbs r" "isAbs t" "Clean r = r" "Clean t = t"
  shows "contained r t \<longleftrightarrow> (\<exists>ys. components t = components r @ ys)"
proof -
  obtain rs ts where rs: "r = render True rs" "\<forall>c \<in> set rs. plain c"
    and ts: "t = render True ts" "\<forall>c \<in> set ts. plain c"
    using assms isAbs_cleaned_iff by metis
  have comps: "components r = rs" "components t = ts" using rs ts by (simp_all add: components_render)
  have dot: "r \<noteq> ''.''" using assms(1) by (auto simp: isAbs_def)
  show ?thesis
  proof (cases "t = r")
    case True
    with assms show ?thesis by (auto simp: contained_def Rel_def isAbs_def)
  next
    case False
    obtain bs us where st: "stripCommon rs ts = (bs, us)" by fastforce
    then obtain ps where ps: "rs = ps @ bs" "ts = ps @ us" using stripCommon_eq by blast
    have hd: "\<not> (case bs of x # _ \<Rightarrow> x = ''..'' | [] \<Rightarrow> False)"
      using ps(1) rs(2) by (cases bs) (auto simp: plain_def)
    have rel: "Rel r t = Some (join ''/'' (replicate (length bs) ''..'' @ us))"
      using assms False hd dot st by (simp add: Rel_def comps Let_def)
    show ?thesis
    proof (cases "bs = []")
      case True
      then have "us \<noteq> []" using False ps rs(1) ts(1) by auto
      moreover have "\<forall>c \<in> set us. plain c" using ts(2) ps(2) by auto
      ultimately show ?thesis
        using rel True ps comps join_plain_not_dotdot [of us] by (simp add: contained_def)
    next
      case bs: False
      then have "\<not> contained r t"
        using rel join_dotdot_prefix [of "length bs" us] by (auto simp: contained_def)
      moreover have "\<nexists>ys. ts = rs @ ys"
      proof
        assume "\<exists>ys. ts = rs @ ys"
        then obtain ys where "ts = rs @ ys" ..
        with st stripCommon_prefix [of rs ys] bs show False by simp
      qed
      ultimately show ?thesis by (simp add: comps)
    qed
  qed
qed

lemma contained_trans:
  assumes "isAbs a" "isAbs b" "isAbs c" "Clean a = a" "Clean b = b" "Clean c = c"
    "contained a b" "contained b c"
  shows "contained a c"
  using assms by (auto simp: contained_iff)






definition linkHost :: osenv where
  "linkHost = \<lparr>cwd = ''/w'', EvalSymlinks = (\<lambda>p. if p = ''/a/b'' then Inr ''/etc'' else Inr (if isAbs p then Clean p else p)),
     LstatOk = (\<lambda>_. True)\<rparr>"



subsection \<open>Exec\<close>

lemma parseExecSpec_canonical:
  assumes "parseExecSpec spec = Inr (p, pats)"
  shows "parseExecSpec (join '' '' (p # pats)) = Inr (p, pats)"
proof -
  from assms have f: "GoText.fields spec = p # pats"
    by (auto simp: parseExecSpec_def split: list.splits if_splits)
  have "GoText.fields (join '' '' (p # pats)) = p # pats" using fields_idem [of spec] by (simp only: f)
  with assms f show ?thesis by (simp add: parseExecSpec_def split: if_splits)
qed

text \<open>What one grant admits: a program path and argv.\<close>

definition execAdmits :: "Capability \<Rightarrow> string \<times> string list \<Rightarrow> bool" where
  "execAdmits g r =
     (case cutPrefix g ExecGrantPrefix of
        None \<Rightarrow> False
      | Some spec \<Rightarrow>
         (case parseExecSpec spec of Inl _ \<Rightarrow> False | Inr (p, pats) \<Rightarrow> p = fst r \<and> argvMatches pats (snd r)))"

lemma parseExecGrant_Some:
  "parseExecGrant g = Some (Inr c) \<longleftrightarrow>
    (\<exists>spec p pats. g = ExecGrantPrefix @ spec \<and> parseExecSpec spec = Inr (p, pats) \<and>
      c = ExecGrantPrefix @ join '' '' (p # pats))"
  by (auto simp: parseExecGrant_def result_simps hasPrefix_iff)

lemma execMatch_iff: "execMatch g p args \<noteq> None \<longleftrightarrow> (\<exists>c \<in> set g. execAdmits c (p, args))"
proof (induction g)
  case (Cons c g)
  show ?case
  proof (cases "parseExecGrant c")
    case None
    then have "cutPrefix c ExecGrantPrefix = None" by (auto simp: parseExecGrant_def cutPrefix_def split: if_splits)
    with None Cons show ?thesis by (simp add: execAdmits_def)
  next
    case (Some x)
    then obtain spec where c: "c = ExecGrantPrefix @ spec"
      by (auto simp: parseExecGrant_def hasPrefix_iff split: if_splits)
    show ?thesis
    proof (cases "parseExecSpec spec")
      case (Inl e)
      with Some c have "x = Inl e" by (simp add: parseExecGrant_def)
      with Some c Inl Cons show ?thesis by (simp add: execAdmits_def)
    next
      case (Inr q)
      obtain gp pats where q: "q = (gp, pats)" by fastforce
      with Some c Inr have x: "x = Inr (ExecGrantPrefix @ join '' '' (gp # pats))"
        by (simp add: parseExecGrant_def del: join.simps)
      have "parseExecSpec (join '' '' (gp # pats)) = Inr (gp, pats)"
        using Inr q parseExecSpec_canonical by simp
      with Some x c Inr q Cons show ?thesis by (auto simp: execAdmits_def simp del: join.simps)
    qed
  qed
qed simp

lemma AuthorizeExec_iff:
  "(\<exists>c. AuthorizeExec os g p args = Inr (q, c)) \<longleftrightarrow>
    q = p \<and> isAbs p \<and> Clean p = p \<and> EvalSymlinks os p = Inr p \<and> (\<exists>c \<in> set g. execAdmits c (p, args))"
  using execMatch_iff [of g p args]
  by (auto simp: AuthorizeExec_def split: sum.splits option.splits)

text \<open>C11. \<open>AuthorizeExec\<close> lets a call through exactly when the program is an absolute, clean path that
  is not and does not traverse a symbolic link, and some exec grant names that program with argv
  patterns that match the arguments; and it returns the very program that was checked.\<close>

theorem AuthorizeExec_exact:
  "(\<exists>c. AuthorizeExec os g p args = Inr (q, c)) \<longleftrightarrow>
    q = p \<and> isAbs p \<and> Clean p = p \<and> EvalSymlinks os p = Inr p \<and> (\<exists>c \<in> set g. execAdmits c (p, args))"
  by (rule AuthorizeExec_iff)

subsection \<open>Delegation\<close>

text \<open>An authority decided grant by grant, which the canonical form of a grant does not extend.\<close>

locale authority =
  fixes admits :: "Capability \<Rightarrow> 'r \<Rightarrow> bool"
    and holds :: "Grants \<Rightarrow> 'r \<Rightarrow> bool"
  assumes grantwise: "holds g r \<longleftrightarrow> (\<exists>c \<in> set g. admits c r)"
    and canonical: "ParseGrant os raw = Inr c \<Longrightarrow> admits c r \<Longrightarrow> admits raw r"
    and not_path: "admits c r \<Longrightarrow> \<not> hasPrefix c ReadPrefix \<and> \<not> hasPrefix c WritePrefix"
begin

lemma covered: "covers os parent c \<Longrightarrow> admits c r \<Longrightarrow> holds parent r"
  using not_path [of c r] canonical [of os _ c r] by (auto simp: covers_def grantwise)

lemma attenuateOne_covered:
  "attenuateOne os parent raw = Inr cs \<Longrightarrow> holds cs r \<Longrightarrow> holds parent r"
  by (auto simp: attenuateOne_def inheritedFs_def grantwise [of _ r] covered [unfolded grantwise]
      split: if_splits sum.splits)

theorem delegated:
  assumes "Attenuate os parent requested = Inr child" "holds child r"
  shows "holds parent r"
proof -
  from assms(1) obtain gs where gs: "traverse (attenuateOne os parent) requested = Inr gs" "child = concat gs"
    by (auto simp: Attenuate_def result_simps)
  from assms(2) gs(2) obtain cs where cs: "cs \<in> set gs" "holds cs r"
    by (auto simp: grantwise)
  from traverse_Inr_set [OF gs(1) cs(1)] obtain raw where "attenuateOne os parent raw = Inr cs" by blast
  with cs(2) show ?thesis by (rule attenuateOne_covered [rotated])
qed

end

lemma prefix_clash: "hasPrefix c p \<Longrightarrow> hasPrefix c q \<Longrightarrow> hasPrefix p q \<or> hasPrefix q p"
  by (auto simp: hasPrefix_iff append_eq_append_conv2)

lemmas grant_prefix_defs =
  ReadPrefix_def WritePrefix_def ExecGrantPrefix_def FetchGrantPrefix_def EnvGrantPrefix_def

lemmas class_names = AllCaps_def cap_defs

text \<open>The branch of \<open>ParseGrant\<close> a grant went through can be read off the prefix of its result.\<close>

lemma ParseGrant_cases:
  assumes "ParseGrant os raw = Inr c"
  obtains (Coarse) "raw = c" "c \<in> set AllCaps"
  | (Env) name where "raw = c" "c = EnvGrantPrefix @ name" "validEnvName name"
  | (Fetch) "parseFetchGrant raw = Some (Inr c)"
  | (Exec) "parseExecGrant raw = Some (Inr c)"
  | (Read) "parseFsGrant os ReadPrefix raw = Some c"
  | (Write) "parseFsGrant os WritePrefix raw = Some c"
  using assms unfolding ParseGrant_def
  by (cases "raw \<in> set AllCaps"; cases "cutPrefix raw EnvGrantPrefix"; auto split: if_splits option.splits)

lemma ParseGrant_prefix:
  assumes "ParseGrant os raw = Inr c" "hasPrefix c ExecGrantPrefix"
  shows "parseExecGrant raw = Some (Inr c)"
  using assms(1)
proof (cases rule: ParseGrant_cases)
  case Coarse
  with assms(2) show ?thesis by (auto simp: class_names grant_prefix_defs)
next
  case (Env name)
  with assms(2) show ?thesis by (auto simp: grant_prefix_defs)
next
  case Fetch
  then obtain t where "c = FetchGrantPrefix @ t" by (auto simp: parseFetchGrant_def result_simps split: option.splits)
  with assms(2) show ?thesis by (simp add: grant_prefix_defs)
next
  case Read
  then obtain t where "c = ReadPrefix @ t" by (auto simp: parseFsGrant_def split: if_splits)
  with assms(2) show ?thesis by (simp add: grant_prefix_defs)
next
  case Write
  then obtain t where "c = WritePrefix @ t" by (auto simp: parseFsGrant_def split: if_splits)
  with assms(2) show ?thesis by (simp add: grant_prefix_defs)
qed

definition execHolds :: "Grants \<Rightarrow> string \<times> string list \<Rightarrow> bool" where
  "execHolds g r \<longleftrightarrow> execMatch g (fst r) (snd r) \<noteq> None"

interpretation exec: authority execAdmits execHolds
proof
  fix g :: Grants and r :: "string \<times> string list"
  show "execHolds g r \<longleftrightarrow> (\<exists>c \<in> set g. execAdmits c r)"
    using execMatch_iff [of g "fst r" "snd r"] by (simp add: execHolds_def)
next
  fix os raw c r
  assume c: "ParseGrant os raw = Inr c" "execAdmits c r"
  then have "hasPrefix c ExecGrantPrefix" by (auto simp: execAdmits_def cutPrefix_def split: if_splits)
  with c(1) have "parseExecGrant raw = Some (Inr c)" by (rule ParseGrant_prefix)
  then obtain spec p pats where s: "raw = ExecGrantPrefix @ spec" "parseExecSpec spec = Inr (p, pats)"
    "c = ExecGrantPrefix @ join '' '' (p # pats)"
    by (auto simp: parseExecGrant_Some)
  with parseExecSpec_canonical [OF s(2)] c(2) show "execAdmits raw r"
    by (simp add: execAdmits_def del: join.simps)
next
  fix c r
  assume "execAdmits c r"
  then obtain t where "c = ExecGrantPrefix @ t" by (auto simp: execAdmits_def split: option.splits)
  then show "\<not> hasPrefix c ReadPrefix \<and> \<not> hasPrefix c WritePrefix"
    by (simp add: grant_prefix_defs)
qed

interpretation coarse: authority "\<lambda>c r. c = r \<and> c \<in> set AllCaps" "\<lambda>g r. HasCoarse g r \<and> r \<in> set AllCaps"
proof
  fix g :: Grants and r :: Capability
  show "HasCoarse g r \<and> r \<in> set AllCaps \<longleftrightarrow> (\<exists>c \<in> set g. c = r \<and> c \<in> set AllCaps)"
    by (auto simp: HasCoarse_def)
next
  fix os raw c r
  assume c: "ParseGrant os raw = Inr c" "c = r \<and> c \<in> set AllCaps"
  from c(1) show "raw = r \<and> raw \<in> set AllCaps"
  proof (cases rule: ParseGrant_cases)
    case Fetch
    with c(2) show ?thesis
      by (auto simp: parseFetchGrant_def result_simps class_names grant_prefix_defs split: option.splits)
  next
    case Exec
    with c(2) show ?thesis
      by (auto simp: parseExecGrant_Some class_names grant_prefix_defs simp del: join.simps)
  qed (use c(2) in \<open>auto simp: parseFsGrant_def class_names grant_prefix_defs split: if_splits\<close>)
next
  fix c r
  assume "c = r \<and> c \<in> set AllCaps"
  then show "\<not> hasPrefix c ReadPrefix \<and> \<not> hasPrefix c WritePrefix"
    by (auto simp: class_names grant_prefix_defs)
qed

text \<open>An environment name a grant list passes on to a child process.\<close>

definition envAdmits :: "Capability \<Rightarrow> string \<Rightarrow> bool" where
  "envAdmits g name \<longleftrightarrow> g = EnvGrantPrefix @ name \<and> validEnvName name"

definition envHolds :: "Grants \<Rightarrow> string \<Rightarrow> bool" where
  "envHolds g name \<longleftrightarrow> (\<exists>c \<in> set g. envAdmits c name)"

interpretation env: authority envAdmits envHolds
proof
  fix os raw c r
  assume c: "ParseGrant os raw = Inr c" "envAdmits c r"
  from c(1) show "envAdmits raw r"
  proof (cases rule: ParseGrant_cases)
    case Fetch
    with c(2) show ?thesis
      by (auto simp: parseFetchGrant_def result_simps envAdmits_def grant_prefix_defs split: option.splits)
  next
    case Exec
    with c(2) show ?thesis
      by (auto simp: parseExecGrant_Some envAdmits_def grant_prefix_defs simp del: join.simps)
  qed (use c(2) in \<open>auto simp: parseFsGrant_def envAdmits_def grant_prefix_defs split: if_splits\<close>)
qed (auto simp: envHolds_def envAdmits_def grant_prefix_defs)

lemma exec_delegated:
  assumes "Attenuate os parent requested = Inr child" "AuthorizeExec os' child p args = Inr (q, c)"
  shows "\<exists>c'. AuthorizeExec os' parent p args = Inr (q, c')"
proof -
  from assms(2) have "execHolds child (p, args)" "q = p \<and> isAbs p \<and> Clean p = p \<and> EvalSymlinks os' p = Inr p"
    using AuthorizeExec_iff [of os' child p args q] execMatch_iff [of child p args]
    by (auto simp: execHolds_def)
  with exec.delegated [OF assms(1), of "(p, args)"] show ?thesis
    using AuthorizeExec_iff [of os' parent p args q] execMatch_iff [of parent p args]
    by (auto simp: execHolds_def)
qed

text \<open>C7. A child that \<open>Attenuate\<close> admits cannot run a program or argv its parent could not: any call
  \<open>AuthorizeExec\<close> lets through under the child's grants it also lets through under the parent's,
  however the child spelled the grants it requested (extra blanks, \<open>inherit:filesystem\<close>, any order).\<close>

theorem Attenuate_exec:
  assumes "Attenuate os parent requested = Inr child" "AuthorizeExec os' child p args = Inr (q, c)"
  shows "\<exists>c'. AuthorizeExec os' parent p args = Inr (q, c')"
  using assms by (rule exec_delegated)

lemma Attenuate_exec_witness:
  "\<exists>c'. AuthorizeExec linkHost [''database'', ''process:exec=/bin/ls * ''] ''/bin/ls'' [''x''] = Inr (''/bin/ls'', c')"
  by (rule Attenuate_exec [of linkHost _ "[''process:exec= /bin/ls  *'']" "[''process:exec=/bin/ls *'']"
        _ _ _ _ "''process:exec=/bin/ls *''"]) code_simp+

text \<open>C25. Neither does a child gain environment names or coarse classes: whatever it may pass to a
  subprocess or holds as a whole class, its parent may and does; and a refused request leaves no
  partial grant list behind.\<close>

theorem Attenuate_env_coarse:
  assumes "Attenuate os parent requested = Inr child"
  shows "{name. envHolds child name} \<subseteq> {name. envHolds parent name} \<and>
    {cls \<in> set AllCaps. HasCoarse child cls} \<subseteq> {cls. HasCoarse parent cls}"
  using env.delegated [OF assms] coarse.delegated [OF assms] by blast

lemma Attenuate_env_coarse_witness:
  "{name. envHolds [''database''] name} \<subseteq> {name. envHolds [''database'', ''process:env=LANG''] name} \<and>
    {cls \<in> set AllCaps. HasCoarse [''database''] cls} \<subseteq> {cls. HasCoarse [''database'', ''process:env=LANG''] cls}"
  by (rule Attenuate_env_coarse [of linkHost _ "[''database'']"]) code_simp

text \<open>C27. The coarse classes authorise no call: \<open>process\<close>, \<open>network\<close> or any other class alone lets no
  program run and no URL be fetched.\<close>

theorem coarse_authorises_nothing:
  "(\<nexists>r. AuthorizeExec os AllCaps p args = Inr r) \<and> (\<nexists>c. AuthorizeFetch AllCaps u = Inr c)"
proof
  have "\<not> (\<exists>c \<in> set AllCaps. execAdmits c (p, args))"
    by (auto simp: execAdmits_def class_names grant_prefix_defs split: option.splits)
  then show "\<nexists>r. AuthorizeExec os AllCaps p args = Inr r"
    using AuthorizeExec_iff [of os AllCaps p args] by auto
  have "fetchMatch AllCaps t s = None" for t s
    by (simp add: class_names grant_prefix_defs parseFetchGrant_def cutPrefix_def)
  then show "\<nexists>c. AuthorizeFetch AllCaps u = Inr c"
    by (auto simp: AuthorizeFetch_def result_simps)
qed


subsection \<open>The environment of a subprocess\<close>

lemma execEnvLoop_sound:
  "kv \<in> set (execEnvLoop g e seen) \<Longrightarrow> \<exists>name v. kv = name @ ''='' @ v \<and> envHolds g name \<and> e name = Some v"
proof (induction g arbitrary: seen)
  case (Cons c g)
  show ?case
  proof (cases "\<exists>seen'. kv \<in> set (execEnvLoop g e seen')")
    case True
    then obtain seen' where "kv \<in> set (execEnvLoop g e seen')" ..
    with Cons.IH show ?thesis by (fastforce simp: envHolds_def)
  next
    case False
    with Cons.prems show ?thesis
      by (fastforce simp: envHolds_def envAdmits_def split: option.splits if_splits)
  qed
qed simp

lemma execEnvLoop_complete:
  "envHolds g name \<Longrightarrow> e name = Some v \<Longrightarrow> name \<notin> set seen \<Longrightarrow> name @ ''='' @ v \<in> set (execEnvLoop g e seen)"
proof (induction g arbitrary: seen)
  case (Cons c g)
  show ?case
  proof (cases "c = EnvGrantPrefix @ name")
    case True
    with Cons.prems show ?thesis
      by (cases "validEnvName name") (auto simp: envHolds_def envAdmits_def intro: Cons.IH)
  next
    case False
    with Cons.prems have h: "envHolds g name" by (auto simp: envHolds_def envAdmits_def)
    show ?thesis
    proof (cases "cutPrefix c EnvGrantPrefix")
      case (Some n)
      with False have "n \<noteq> name" by auto
      with Some h Cons show ?thesis by auto
    qed (use h Cons in auto)
  qed
qed (simp add: envHolds_def)

lemma ExecEnv_sound:
  "kv \<in> set (ExecEnv g e) \<Longrightarrow> \<exists>name v. kv = name @ ''='' @ v \<and> envHolds g name \<and> e name = Some v"
  unfolding ExecEnv_def by (rule execEnvLoop_sound)

text \<open>C26. The environment of an executed program is exactly the granted part of the host's: an entry
  \<open>NAME=value\<close> is passed if and only if some grant \<open>process:env=NAME\<close> has a valid name that is not
  one of the names or families that load code, and the host's value of \<open>NAME\<close> is \<open>value\<close>.\<close>

theorem ExecEnv_exact:
  "kv \<in> set (ExecEnv g e) \<longleftrightarrow>
    (\<exists>name v. kv = name @ ''='' @ v \<and> EnvGrantPrefix @ name \<in> set g \<and> validEnvName name \<and>
       \<not> DynamicLoaderEnv name \<and> e name = Some v)"
proof
  assume "kv \<in> set (ExecEnv g e)"
  from ExecEnv_sound [OF this] show "\<exists>name v. kv = name @ ''='' @ v \<and> EnvGrantPrefix @ name \<in> set g \<and>
      validEnvName name \<and> \<not> DynamicLoaderEnv name \<and> e name = Some v"
    by (auto simp: envHolds_def envAdmits_def validEnvName_def split: if_splits)
next
  assume "\<exists>name v. kv = name @ ''='' @ v \<and> EnvGrantPrefix @ name \<in> set g \<and> validEnvName name \<and>
       \<not> DynamicLoaderEnv name \<and> e name = Some v"
  then show "kv \<in> set (ExecEnv g e)"
    by (auto simp: ExecEnv_def envHolds_def envAdmits_def intro!: execEnvLoop_complete [simplified])
qed

subsection \<open>Fetch\<close>

lemma parseFetchGrant_Some:
  "parseFetchGrant g = Some (Inr c) \<longleftrightarrow>
    (\<exists>spec t. g = FetchGrantPrefix @ spec \<and> parseFetchSpec spec = Inr t \<and> c = FetchGrantPrefix @ targetString t)"
  by (auto simp: parseFetchGrant_def result_simps split: option.splits)

lemma natDigits_not_Nil: "natDigits n \<noteq> []"
  using natDigits_head [of n] by auto

lemma hexDigits_not_Nil: "hexDigits n \<noteq> []"
  by (subst hexDigits.simps) simp

lemma join_not_Nil: "x \<noteq> [] \<Longrightarrow> join sep (x # xs) \<noteq> []"
  by (cases xs) auto

lemma string4_not_Nil: "string4 w \<noteq> []"
  by (auto simp: string4_def natDigits_not_Nil)

lemma string6_not_Nil: "string6 w \<noteq> []"
  unfolding string6_def groups6_def by (auto simp: Let_def hexDigits_not_Nil split: prod.split)

lemma addrString_not_Nil: "addrString a \<noteq> []"
  by (cases a) (auto simp: addrString_def string4_not_Nil string6_not_Nil)

lemma normalizeHost_not_Nil: "normalizeHost h = Inr (h', ip) \<Longrightarrow> h' \<noteq> []"
  by (auto simp: normalizeHost_def canonicalIP_def addrString_not_Nil validHostname_def Let_def
      split: if_splits option.splits)

lemma urlTarget_not_Nil: "urlTarget u = Inr t \<Longrightarrow> t_host t \<noteq> []"
  by (auto simp: urlTarget_def Let_def split: option.splits if_splits sum.splits prod.splits
      dest!: normalizeHost_not_Nil)

text \<open>The target a grant names once it has been brought into canonical form.\<close>

definition fetchAdmits :: "Capability \<Rightarrow> fetchTarget \<times> string \<Rightarrow> bool" where
  "fetchAdmits g r =
     (case parseFetchGrant g of
        Some (Inr c) \<Rightarrow>
          (case parseFetchSpec (trimPrefix c FetchGrantPrefix) of
             Inr gt \<Rightarrow> t_host gt = t_host (fst r) \<and>
               (t_port gt = t_port (fst r) \<or> (t_port gt = [] \<and> t_port (fst r) = defaultPort (snd r)))
           | Inl _ \<Rightarrow> False)
      | _ \<Rightarrow> False)"

lemma fetchMatch_Cons:
  "t_host t \<noteq> [] \<Longrightarrow> fetchMatch (raw # g) t s =
     (case parseFetchGrant raw of
        Some (Inr c) \<Rightarrow> if fetchAdmits raw (t, s) then Some c else fetchMatch g t s
      | _ \<Rightarrow> fetchMatch g t s)"
  by (auto simp: fetchAdmits_def Let_def split: option.split sum.split)

lemma fetchAdmits_parsed: "fetchAdmits raw r \<Longrightarrow> \<exists>c. parseFetchGrant raw = Some (Inr c)"
  by (auto simp: fetchAdmits_def split: option.splits sum.splits)

lemma fetchMatch_Some:
  "t_host t \<noteq> [] \<Longrightarrow> fetchMatch g t s = Some c \<Longrightarrow>
    \<exists>raw \<in> set g. fetchAdmits raw (t, s) \<and> parseFetchGrant raw = Some (Inr c)"
  by (induction g) (auto simp: fetchMatch_Cons simp del: fetchMatch.simps(2) split: option.splits sum.splits if_splits)

lemma fetchMatch_None:
  "t_host t \<noteq> [] \<Longrightarrow> fetchMatch g t s = None \<Longrightarrow> \<forall>raw \<in> set g. \<not> fetchAdmits raw (t, s)"
  by (induction g) (auto simp: fetchMatch_Cons simp del: fetchMatch.simps(2)
      dest: fetchAdmits_parsed split: option.splits sum.splits if_splits)

lemma AuthorizeFetch_Inr:
  "AuthorizeFetch g (Some u) = Inr c \<longleftrightarrow>
    (\<exists>t. urlTarget (Some u) = Inr t \<and> fetchMatch g t (u_Scheme u) = Some c)"
  by (auto simp: AuthorizeFetch_def result_simps split: option.splits)

text \<open>C12. \<open>AuthorizeFetch\<close> lets a URL through exactly when it is an http or https URL with a well
  formed host and port and some fetch grant names its host (compared in canonical form) with the
  same port, or with no port where the URL uses the default port of its scheme; the grant it
  returns is one of the list in canonical form.\<close>

theorem AuthorizeFetch_exact:
  "((\<exists>c. AuthorizeFetch g (Some u) = Inr c) \<longleftrightarrow>
     (\<exists>t. urlTarget (Some u) = Inr t \<and> (\<exists>raw \<in> set g. fetchAdmits raw (t, u_Scheme u)))) \<and>
   (AuthorizeFetch g (Some u) = Inr c \<longrightarrow> (\<exists>raw \<in> set g. parseFetchGrant raw = Some (Inr c)))"
proof (intro conjI iffI impI)
  assume "\<exists>c. AuthorizeFetch g (Some u) = Inr c"
  then show "\<exists>t. urlTarget (Some u) = Inr t \<and> (\<exists>raw \<in> set g. fetchAdmits raw (t, u_Scheme u))"
    by (meson AuthorizeFetch_Inr fetchMatch_Some urlTarget_not_Nil)
next
  assume "\<exists>t. urlTarget (Some u) = Inr t \<and> (\<exists>raw \<in> set g. fetchAdmits raw (t, u_Scheme u))"
  then show "\<exists>c. AuthorizeFetch g (Some u) = Inr c"
    by (metis AuthorizeFetch_Inr fetchMatch_None not_None_eq urlTarget_not_Nil)
next
  assume "AuthorizeFetch g (Some u) = Inr c"
  then show "\<exists>raw \<in> set g. parseFetchGrant raw = Some (Inr c)"
    by (meson AuthorizeFetch_Inr fetchMatch_Some urlTarget_not_Nil)
qed

lemma AuthorizeFetch_exact_witness:
  "\<exists>raw \<in> set [''network:fetch=Api.Example''].
     parseFetchGrant raw = Some (Inr ''network:fetch=api.example'')"
  using AuthorizeFetch_exact [of "[''network:fetch=Api.Example'']"
      "\<lparr>u_Scheme = ''https'', u_Host = ''API.example:443'', u_User = False\<rparr>" "''network:fetch=api.example''"]
  by (rule conjunct2 [THEN mp]) code_simp

subsection \<open>Redirects\<close>

lemma originChanged_snoc:
  "via \<noteq> [] \<Longrightarrow> originChanged (via @ [u]) \<longleftrightarrow> originChanged via \<or> \<not> sameFetchOrigin (last via) u"
  by (induction via rule: originChanged.induct) auto

lemma CheckRedirect_Inr:
  assumes "CheckRedirect g req headers via = Inr (hs, grant)"
  shows "length via \<le> MaxFetchRedirects" "\<not> (u_Scheme (last via) = ''https'' \<and> u_Scheme req = ''http'')"
    "\<not> u_User req" "\<not> redirectToOptOut (hd via) req" "AuthorizeFetch g (Some req) = Inr grant"
    "hs = (if originChanged via \<or> \<not> sameFetchOrigin (last via) req then StripCrossOriginHeaders headers else headers)"
  using assms by (auto simp: CheckRedirect_def Let_def split: if_splits sum.splits)

text \<open>C21. A redirect that is followed is within the limit, is no HTTPS downgrade, carries no userinfo,
  is authorised by a grant, and once any hop of the chain so far has changed scheme, host or
  port, the only headers it carries are on the safe list: \<open>Authorization\<close>, \<open>Cookie\<close> and
  \<open>X-Api-Key\<close> are gone, even when a later hop comes back to an origin already visited.\<close>

theorem CheckRedirect_safe:
  assumes "via \<noteq> []" "CheckRedirect g req headers via = Inr (hs, grant)"
  shows "length via \<le> 10 \<and> \<not> (u_Scheme (last via) = ''https'' \<and> u_Scheme req = ''http'') \<and>
    \<not> u_User req \<and> AuthorizeFetch g (Some req) = Inr grant \<and>
    (originChanged (via @ [req]) \<longrightarrow>
       (\<forall>(name, v) \<in> set hs. (\<exists>safe \<in> set RedirectSafeHeaders. equalFold name safe) \<and>
          name \<notin> {''Authorization'', ''Proxy-Authorization'', ''Cookie'', ''X-Api-Key''}))"
proof -
  note r = CheckRedirect_Inr [OF assms(2)]
  have unsafe: "\<not> (\<exists>safe \<in> set RedirectSafeHeaders. equalFold name safe)"
    if "name \<in> {''Authorization'', ''Proxy-Authorization'', ''Cookie'', ''X-Api-Key''}" for name
    using that by (elim insertE emptyE; hypsubst) code_simp+
  have "originChanged (via @ [req]) \<Longrightarrow> hs = StripCrossOriginHeaders headers"
    using r(6) originChanged_snoc [OF assms(1)] by auto
  with r(1-5) unsafe show ?thesis
    by (auto simp: MaxFetchRedirects_def StripCrossOriginHeaders_def)
qed

lemma CheckRedirect_safe_witness:
  "AuthorizeFetch [''network:fetch=b.example''] (Some \<lparr>u_Scheme = ''https'', u_Host = ''b.example'', u_User = False\<rparr>)
     = Inr ''network:fetch=b.example''"
proof -
  have "CheckRedirect [''network:fetch=b.example''] \<lparr>u_Scheme = ''https'', u_Host = ''b.example'', u_User = False\<rparr>
      [(''Cookie'', [''x'']), (''Accept'', [''y''])] [\<lparr>u_Scheme = ''https'', u_Host = ''a.example'', u_User = False\<rparr>]
    = Inr ([(''Accept'', [''y''])], ''network:fetch=b.example'')"
    by code_simp
  from CheckRedirect_safe [OF _ this] show ?thesis by simp
qed

subsection \<open>Destinations\<close>











end
