(* ===== verification/Kept.thy ===== *)
theory Kept
  imports Machine GrantLaws
begin

text \<open>
  What a run of the machine keeps. A computation keeps a relation between the states before and
  after it when it relates them on every way out, errors included. The locale \<open>machine\<close> states what
  a relation has to allow (local changes of stack, variables and heap, charges and instructions
  within their limits, effects that are authorised, entering and leaving calls and children), and
  shows once that then every instruction and every run keeps it.
\<close>

definition kept :: "(vmstate \<Rightarrow> bool) \<Rightarrow> (vmstate \<Rightarrow> vmstate \<Rightarrow> bool) \<Rightarrow> (panic \<Rightarrow> bool) \<Rightarrow> 'a M \<Rightarrow> bool" where
  "kept J R E m \<longleftrightarrow> (\<forall>s. J s \<longrightarrow> R s (snd (m s)) \<and> (\<forall>p. fst (m s) = Inl p \<longrightarrow> E p))"

text \<open>The same from one state.\<close>

definition keptFrom :: "vmstate \<Rightarrow> (vmstate \<Rightarrow> vmstate \<Rightarrow> bool) \<Rightarrow> (panic \<Rightarrow> bool) \<Rightarrow> 'a M \<Rightarrow> bool" where
  "keptFrom s R E m \<longleftrightarrow> R s (snd (m s)) \<and> (\<forall>p. fst (m s) = Inl p \<longrightarrow> E p)"

lemma kept_iff: "kept J R E m \<longleftrightarrow> (\<forall>s. J s \<longrightarrow> keptFrom s R E m)"
  by (simp add: kept_def keptFrom_def)

text \<open>A check changes nothing; \<open>A\<close> holds of its value.\<close>

definition check :: "'a M \<Rightarrow> (vmstate \<Rightarrow> 'a \<Rightarrow> bool) \<Rightarrow> (panic \<Rightarrow> bool) \<Rightarrow> bool" where
  "check m A E \<longleftrightarrow> (\<forall>s. snd (m s) = s \<and> (\<forall>a. fst (m s) = Inr a \<longrightarrow> A s a) \<and> (\<forall>p. fst (m s) = Inl p \<longrightarrow> E p))"

lemmas monad_defs = returnM_def panicM_def bindM_def getM_def modifyM_def

lemma bindM_split:
  "P (bindM m f s) \<longleftrightarrow>
    (\<forall>p t. m s = (Inl p, t) \<longrightarrow> P (Inl p, t)) \<and> (\<forall>a t. m s = (Inr a, t) \<longrightarrow> P (f a t))"
  by (auto simp: bindM_def split: prod.splits sum.splits)

subsection \<open>Checks\<close>

lemma check_return: "(\<And>s. A s a) \<Longrightarrow> check (returnM a) A E"
  by (simp add: check_def returnM_def)

lemma check_panic: "E p \<Longrightarrow> check (panicM p) A E"
  by (simp add: check_def panicM_def)

lemma check_get: "(\<And>s. A s (f s)) \<Longrightarrow> check (getM f) A E"
  by (simp add: check_def getM_def)

lemma check_bind:
  assumes "check m A E" "\<And>s a. A s a \<Longrightarrow> snd (f a s) = s \<and> (\<forall>b. fst (f a s) = Inr b \<longrightarrow> B s b) \<and> (\<forall>p. fst (f a s) = Inl p \<longrightarrow> E p)"
  shows "check (bindM m f) B E"
  using assms unfolding check_def
  by (auto simp: bindM_def split: prod.splits sum.splits) (metis fst_conv snd_conv)+

text \<open>With the weaker premise that \<open>f a\<close> is a check for every \<open>a\<close>.\<close>

lemma check_bind_all:
  assumes "check m (\<lambda>s a. True) E" "\<And>a. check (f a) B E"
  shows "check (bindM m f) B E"
  by (rule check_bind [OF assms(1)]) (use assms(2) in \<open>simp add: check_def\<close>)

lemma check_weaken: "check m A E \<Longrightarrow> (\<And>s a. A s a \<Longrightarrow> B s a) \<Longrightarrow> check m B E"
  by (simp add: check_def)

subsection \<open>Authority\<close>

text \<open>A path the grants allow, as the program wrote it or made absolute.\<close>

definition reaches :: "osenv \<Rightarrow> Grants \<Rightarrow> bool \<Rightarrow> string \<Rightarrow> bool" where
  "reaches os caps write p \<longleftrightarrow> (\<exists>q. allows os caps q write \<and> (p = q \<or> p = absPath (cwd os) q))"

text \<open>What the grants must say before an effect happens, in the world the earlier effects left.\<close>

definition authorised :: "host \<Rightarrow> Grants \<Rightarrow> event list \<Rightarrow> effect \<Rightarrow> bool" where
  "authorised h caps past e =
     (case e of
        EReadFile p \<Rightarrow> reaches (h_os h past) caps False p
      | EWriteFile p text \<Rightarrow> reaches (h_os h past) caps True p
      | EMkdir p \<Rightarrow> reaches (h_os h past) caps True p
      | EExec p args env \<Rightarrow>
          (\<exists>g. AuthorizeExec (h_os h past) caps p args = Inr (p, g)) \<and> env = ExecEnv caps (h_getenv h past)
      | EFetch m url body \<Rightarrow> (\<exists>g. AuthorizeFetch caps (h_url h url) = Inr g)
      | EGetenv n \<Rightarrow> HasCoarse caps Environment
      | EPort n \<Rightarrow> HasCoarse caps Network
      | EModel m url body \<Rightarrow> HasCoarse caps Network
      | ESpawn child body env \<Rightarrow>
          HasCoarse caps Process \<and> (\<exists>req. Attenuate (h_os h past) caps req = Inr child)
      | _ \<Rightarrow> True)"

text \<open>What the gate in front of an instruction established.\<close>

definition cleared :: "ctx \<Rightarrow> Opcode \<Rightarrow> bool" where
  "cleared c op \<longleftrightarrow>
     (op_Capability (RegistrySpec op) \<in> {Network, Environment} \<and> op \<noteq> OpFetch \<and> op \<noteq> OpHttpRequest
        \<longrightarrow> HasCoarse (c_caps c) (op_Capability (RegistrySpec op)))
     \<and> (op \<in> {OpSpawn, OpSpawnAgent} \<longrightarrow> HasCoarse (c_caps c) Process)"

subsection \<open>The interface\<close>

abbreviation enterFrame :: "dict \<Rightarrow> vmstate \<Rightarrow> vmstate" where
  "enterFrame f s \<equiv> s\<lparr>m_callDepth := m_callDepth s + 1, m_env := f # m_env s\<rparr>"

abbreviation childState :: "dict \<Rightarrow> vmstate \<Rightarrow> vmstate" where
  "childState d s \<equiv> s\<lparr>m_stack := [], m_env := [d], m_ip := 0\<rparr>"

abbreviation parentState :: "vmstate \<Rightarrow> vmstate \<Rightarrow> vmstate" where
  "parentState s t \<equiv> t\<lparr>m_stack := m_stack s, m_env := m_env s, m_callDepth := m_callDepth s, m_ip := m_ip s\<rparr>"

abbreviation recorded :: "ctx \<Rightarrow> effect \<Rightarrow> vmstate \<Rightarrow> vmstate" where
  "recorded c e s \<equiv> s\<lparr>m_events := \<lparr>ev_caps = c_caps c, ev_effect = e\<rparr> # m_events s\<rparr>"

locale machine =
  fixes J :: "vmstate \<Rightarrow> bool"
    and R :: "vmstate \<Rightarrow> vmstate \<Rightarrow> bool"
    and E :: "panic \<Rightarrow> bool"
    and ok :: "ctx \<Rightarrow> bool"
  assumes R_refl: "R s s"
    and R_trans: "R s t \<Longrightarrow> R t u \<Longrightarrow> R s u"
    and J_kept: "J s \<Longrightarrow> R s t \<Longrightarrow> J t"
    and E_panic: "p \<noteq> PFuel \<Longrightarrow> E p"
    and R_local: "length e = length (m_env s) \<Longrightarrow>
      R s (s\<lparr>m_stack := st, m_env := e, m_heap := h, m_stores := sts, m_registry := g, m_ip := i\<rparr>)"
    and R_charge: "ok c \<Longrightarrow> 0 < n \<Longrightarrow> m_memoryBytes s \<le> MaxMemoryBytes (c_limits c) - n \<Longrightarrow>
      R s (s\<lparr>m_memoryBytes := m_memoryBytes s + n\<rparr>)"
    and R_act: "ok c \<Longrightarrow> authorised (c_host c) (c_caps c) (m_events s) act \<Longrightarrow> R s (recorded c act s)"
    and J_call: "J s \<Longrightarrow> J (enterFrame f s)"
    and R_call: "ok c \<Longrightarrow> m_callDepth s < MaxCallDepth (c_limits c) \<Longrightarrow> R (enterFrame f s) t \<Longrightarrow> R s (leaveCall t)"
    and J_child: "J s \<Longrightarrow> J (childState d s)"
    and R_child: "R (childState d s) t \<Longrightarrow> R s (parentState s t)"
    and ok_child: "ok c \<Longrightarrow> Attenuate os (c_caps c) req = Inr caps \<Longrightarrow>
      ok (c\<lparr>c_caps := caps, c_spawnDepth := c_spawnDepth c + 1\<rparr>)"
begin

subsubsection \<open>Composition\<close>

lemma from_bind:
  assumes "J s" "keptFrom s R E m" "\<And>a t. J t \<Longrightarrow> keptFrom t R E (f a)"
  shows "keptFrom s R E (bindM m f)"
proof (cases "m s")
  case (Pair r t)
  with assms(1, 2) have "R s t" "J t" by (auto simp: keptFrom_def intro: J_kept)
  with assms(2, 3) Pair show ?thesis
    by (cases r) (auto simp: keptFrom_def bindM_def intro: R_trans)
qed

lemma kept_bind [keep]:
  "kept J R E m \<Longrightarrow> (\<And>a. kept J R E (f a)) \<Longrightarrow> kept J R E (bindM m f)"
  unfolding kept_iff by (blast intro: from_bind)

lemma from_bind_check:
  "check m A E \<Longrightarrow> (\<And>a. A s a \<Longrightarrow> keptFrom s R E (f a)) \<Longrightarrow> keptFrom s R E (bindM m f)"
  by (cases "m s") (force simp: check_def keptFrom_def bindM_def R_refl split: sum.splits)

lemma kept_from: "(\<And>s. J s \<Longrightarrow> keptFrom s R E m) \<Longrightarrow> kept J R E m"
  by (simp add: kept_iff)

lemma from_kept: "J s \<Longrightarrow> kept J R E m \<Longrightarrow> keptFrom s R E m"
  by (simp add: kept_iff)

lemma kept_bind_check:
  "check m A E \<Longrightarrow> (\<And>a s. J s \<Longrightarrow> A s a \<Longrightarrow> keptFrom s R E (f a)) \<Longrightarrow> kept J R E (bindM m f)"
  by (rule kept_from) (blast intro: from_bind_check)

lemma kept_check: "check m A E \<Longrightarrow> kept J R E m"
  by (simp add: check_def kept_def R_refl)

lemma kept_return [keep]: "kept J R E (returnM a)"
  by (simp add: kept_def returnM_def R_refl)

lemma kept_panic [keep]: "p \<noteq> PFuel \<Longrightarrow> kept J R E (panicM p)"
  by (simp add: kept_def panicM_def R_refl E_panic)

lemma kept_get [keep]: "kept J R E (getM f)"
  by (simp add: kept_def getM_def R_refl)

lemma kept_raise [keep]: "kept J R E (raise code ip op msg)"
  unfolding raise_def by (rule kept_panic) simp

lemma kept_lift [keep]: "kept J R E (liftM r)"
  by (auto simp: liftM_def intro!: keep split: sum.splits)

lemma kept_raiseHere [keep]: "kept J R E (raiseHere code op msg)"
  unfolding raiseHere_def by (intro keep)

lemma kept_offProtocol [keep]: "kept J R E (offProtocol op)"
  unfolding offProtocol_def by (rule kept_panic) simp

lemma kept_traverse [keep]: "(\<And>x. kept J R E (f x)) \<Longrightarrow> kept J R E (traverseM f xs)"
  by (induction xs) (auto intro!: keep)

lemma kept_makeSlice [keep]: "kept J R E (makeSlice n)"
  by (auto simp: makeSlice_def intro!: keep)

lemma kept_recover:
  assumes "\<And>s. J s \<Longrightarrow> R s (snd (m s))" "\<And>p t. J t \<Longrightarrow> (\<exists>s. J s \<and> fst (m s) = Inl p) \<Longrightarrow> keptFrom t R E (f p)"
  shows "kept J R E (recoverM m f)"
proof (rule kept_from)
  fix s assume s: "J s"
  obtain r t where m: "m s = (r, t)" by (cases "m s")
  with assms(1) [OF s] s have t: "R s t" "J t" by (auto intro: J_kept)
  show "keptFrom s R E (recoverM m f)"
  proof (cases r)
    case (Inl p)
    with m s have "\<exists>s. J s \<and> fst (m s) = Inl p" by auto
    from assms(2) [OF t(2) this] m Inl t(1) show ?thesis
      by (auto simp: keptFrom_def recoverM_def intro: R_trans)
  qed (use m t in \<open>simp add: keptFrom_def recoverM_def\<close>)
qed

subsubsection \<open>Local changes\<close>

lemma kept_modify: "(\<And>s. R s (f s)) \<Longrightarrow> kept J R E (modifyM f)"
  by (simp add: kept_def modifyM_def)

lemma R_stack: "R s (s\<lparr>m_stack := st\<rparr>)"
  using R_local [where e = "m_env s" and s = s and st = st and h = "m_heap s" and sts = "m_stores s" and g = "m_registry s" and i = "m_ip s"] by simp

lemma R_env: "length e = length (m_env s) \<Longrightarrow> R s (s\<lparr>m_env := e\<rparr>)"
  using R_local [where e = e and s = s and st = "m_stack s" and h = "m_heap s" and sts = "m_stores s" and g = "m_registry s" and i = "m_ip s"] by simp

lemma R_heap: "R s (s\<lparr>m_heap := h\<rparr>)"
  using R_local [where e = "m_env s" and s = s and st = "m_stack s" and h = h and sts = "m_stores s" and g = "m_registry s" and i = "m_ip s"] by simp

lemma R_stores: "R s (s\<lparr>m_stores := sts\<rparr>)"
  using R_local [where e = "m_env s" and s = s and st = "m_stack s" and h = "m_heap s" and sts = sts and g = "m_registry s" and i = "m_ip s"] by simp

lemma R_registry: "R s (s\<lparr>m_stores := sts, m_registry := g\<rparr>)"
  using R_local [where e = "m_env s" and s = s and st = "m_stack s" and h = "m_heap s" and sts = sts and g = g and i = "m_ip s"] by simp

lemma R_ip: "R s (s\<lparr>m_ip := i\<rparr>)"
  using R_local [where e = "m_env s" and s = s and st = "m_stack s" and h = "m_heap s" and sts = "m_stores s" and g = "m_registry s" and i = i] by simp

lemmas R_updates = R_stack R_env R_heap R_stores R_registry R_ip

lemma kept_push [keep]: "kept J R E (push v)"
  unfolding push_def by (rule kept_modify) (rule R_stack)

lemma kept_pop [keep]: "kept J R E (pop op)"
  by (auto simp: pop_def intro!: keep kept_modify R_stack split: list.splits)

lemma kept_popN [keep]: "kept J R E (popN n op)"
  by (induction n) (auto intro!: keep)

lemma kept_truncate [keep]: "kept J R E (truncateStack h)"
  unfolding truncateStack_def by (rule kept_modify) (rule R_stack)

lemma kept_popChecked [keep]: "kept J R E (popCheckedString op ip msg)"
  by (auto simp: popCheckedString_def intro!: keep split: val.splits)

lemma kept_storeVar [keep]: "kept J R E (storeVar x v)"
  by (auto simp: storeVar_def bindVar_def intro!: kept_modify R_env split: list.splits)

end

lemma envSet_length: "envSet fs x v = Some fs' \<Longrightarrow> length fs' = length fs"
  by (induction fs arbitrary: fs') (auto split: if_splits)

context machine
begin

lemma kept_setVar [keep]: "kept J R E (setVar x v)"
  by (rule kept_from)
    (auto simp: setVar_def keptFrom_def monad_defs R_refl E_panic envSet_length intro!: R_env split: option.splits)

lemma kept_getVar [keep]: "kept J R E (getVar x)"
  unfolding getVar_def by (rule keep)

lemma kept_needVar [keep]: "kept J R E (needVar ip op x)"
  by (auto simp: needVar_def intro!: keep split: option.splits)

lemma kept_treeM [keep]: "kept J R E (treeM v)"
  by (auto simp: treeM_def intro!: keep split: option.splits)

lemma kept_printable [keep]: "kept J R E (printable op v)"
  by (auto simp: printable_def intro!: keep)

lemma kept_sprint [keep]: "kept J R E (sprintM op v)"
  unfolding sprintM_def by (intro keep)

lemma kept_text [keep]: "kept J R E (textM op v)"
  unfolding textM_def by (intro keep)

lemma kept_newDict [keep]: "kept J R E (newDict d)"
  unfolding newDict_def by (intro keep kept_modify R_heap)

lemma kept_dictAt [keep]: "kept J R E (dictAt a)"
  unfolding dictAt_def by (rule keep)

lemma kept_setDict [keep]: "kept J R E (setDict a d)"
  unfolding setDict_def by (intro kept_modify R_heap)

lemma kept_thaw [keep]: "kept J R E (thawM t)"
  by (auto simp: thawM_def intro!: keep kept_modify R_heap split: prod.splits)

lemma kept_atoi [keep]: "kept J R E (atoiOf op v)"
  unfolding atoiOf_def by (intro keep)

lemma kept_osM [keep]: "kept J R E (osM c)"
  unfolding osM_def by (rule keep)

lemma kept_denied [keep]: "kept J R E (denied op msg)"
  unfolding denied_def by (rule keep)

lemma kept_failFetch [keep]: "kept J R E (failFetch d op)"
  unfolding failFetch_def by (rule keep)

lemma kept_requireCapability [keep]: "kept J R E (requireCapability c cap op)"
  by (auto simp: requireCapability_def intro!: keep)

lemma kept_requireFilesystem [keep]: "kept J R E (requireFilesystem c p w op)"
  by (auto simp: requireFilesystem_def intro!: keep)

lemma kept_requireFetch [keep]: "kept J R E (requireFetch c url op)"
  by (auto simp: requireFetch_def intro!: keep split: sum.splits)

lemma kept_checkDeadline [keep]: "kept J R E (checkDeadline c ip op)"
  by (auto simp: checkDeadline_def intro!: keep)

lemma kept_wantDict [keep]: "kept J R E (wantDict ip op what v)"
  by (auto simp: wantDict_def intro!: keep split: val.splits)

lemma kept_ioError [keep]: "kept J R E (ioError ip op msg)"
  unfolding ioError_def by (rule keep)

lemma kept_requestError [keep]: "kept J R E (requestError c ip op msg)"
  unfolding requestError_def by (intro keep)

lemma kept_outputLimit [keep]: "kept J R E (outputLimit ip op what n)"
  unfolding outputLimit_def by (rule keep)

subsubsection \<open>Charges\<close>

lemma kept_chargeAlloc [keep]:
  assumes "ok c"
  shows "kept J R E (chargeAlloc c n ip op)"
proof (rule kept_from)
  fix s assume "J s"
  show "keptFrom s R E (chargeAlloc c n ip op)"
    using R_charge [OF assms, of n s]
    by (auto simp: chargeAlloc_def memoryLimit_def raise_def keptFrom_def monad_defs Let_def R_refl E_panic)
qed

lemma kept_chargeSlots [keep]: "ok c \<Longrightarrow> kept J R E (chargeSlots c n w ip op)"
  by (auto simp: chargeSlots_def memoryLimit_def intro!: keep)

lemma kept_chargeBytes [keep]: "ok c \<Longrightarrow> kept J R E (chargeBytes c n ip op)"
  unfolding chargeBytes_def by (rule keep)

lemma kept_chargeText [keep]: "ok c \<Longrightarrow> kept J R E (chargeText c v ip op)"
  by (auto simp: chargeText_def intro!: keep split: val.splits)

lemma kept_chargeEach [keep]: "ok c \<Longrightarrow> kept J R E (chargeEach c ss ip op)"
  by (induction ss) (auto intro!: keep)

lemma kept_listItems [keep]: "ok c \<Longrightarrow> kept J R E (listItems c v ip op)"
  by (auto simp: listItems_def intro!: keep split: val.splits)

lemma kept_popItems [keep]: "ok c \<Longrightarrow> kept J R E (popItems n c ip op)"
  by (induction n) (auto intro!: keep)

lemma kept_pairsDict [keep]: "kept J R E (pairsDict op kvs d)"
  by (induction op kvs d rule: pairsDict.induct) (auto intro!: keep)

subsubsection \<open>Effects\<close>

lemma from_perform:
  assumes "J s" "ok c" "authorised (c_host c) (c_caps c) (m_events s) e" "\<And>r. kept J R E (f r)"
  shows "keptFrom s R E (bindM (perform c e) f)"
proof (rule from_bind [OF assms(1)])
  show "keptFrom s R E (perform c e)"
    using R_act [OF assms(2, 3)] by (simp add: perform_def keptFrom_def monad_defs)
qed (use assms(4) in \<open>simp add: kept_iff\<close>)

text \<open>Effects that need no state to be authorised.\<close>

lemma kept_perform: "ok c \<Longrightarrow> (\<And>past. authorised (c_host c) (c_caps c) past e) \<Longrightarrow> kept J R E (perform c e)"
  by (rule kept_from) (simp add: perform_def keptFrom_def monad_defs R_act)

lemma kept_emit: "ok c \<Longrightarrow> (\<And>past. authorised (c_host c) (c_caps c) past e) \<Longrightarrow> kept J R E (emit c e)"
  unfolding emit_def by (intro keep kept_perform)

lemma kept_free [keep]:
  "ok c \<Longrightarrow> kept J R E (emit c (EOut t))" "ok c \<Longrightarrow> kept J R E (emit c (EErr t))"
  "ok c \<Longrightarrow> kept J R E (perform c EReadLine)" "ok c \<Longrightarrow> kept J R E (perform c EReadStdin)"
  "ok c \<Longrightarrow> kept J R E (perform c ETime)" "ok c \<Longrightarrow> kept J R E (perform c ETimeNano)"
  "ok c \<Longrightarrow> kept J R E (perform c (ERand n))" "ok c \<Longrightarrow> kept J R E (perform c (ESleep i))"
  by (simp_all add: kept_perform kept_emit authorised_def)

lemma kept_jsonMessage [keep]: "(\<And>m. kept J R E (f m)) \<Longrightarrow> kept J R E (jsonMessage op e f)"
  by (auto simp: jsonMessage_def intro!: keep split: json_error.splits)

lemma kept_jsonSource [keep]: "kept J R E (jsonSource ip inst)"
  by (auto simp: jsonSource_def intro!: keep split: option.splits val.splits)

subsection \<open>Data instructions\<close>

lemma kept_data1 [keep]:
  "ok c \<Longrightarrow> kept J R E (opLoadConst c ip inst)" "ok c \<Longrightarrow> kept J R E (opLoadVar c ip inst)"
  "ok c \<Longrightarrow> kept J R E (opStoreVar c ip inst)" "ok c \<Longrightarrow> kept J R E (opSetVar c ip inst)"
  "ok c \<Longrightarrow> kept J R E (opReturn c ip inst)" "ok c \<Longrightarrow> kept J R E (opExit c ip inst)"
  "ok c \<Longrightarrow> kept J R E (opPrint c ip inst)" "ok c \<Longrightarrow> kept J R E (opStderr c ip inst)"
  by (auto simp: opLoadConst_def opLoadVar_def opStoreVar_def opSetVar_def opReturn_def opExit_def opPrint_def
      opStderr_def intro!: keep)

lemma kept_data2 [keep]:
  "ok c \<Longrightarrow> kept J R E (opUTF8Valid c ip inst)" "ok c \<Longrightarrow> kept J R E (opGranted c ip inst)"
  "ok c \<Longrightarrow> kept J R E (opSha256Hex c ip inst)" "ok c \<Longrightarrow> kept J R E (opSecureEqual c ip inst)"
  "ok c \<Longrightarrow> kept J R E (opBinop c ip inst)" "ok c \<Longrightarrow> kept J R E (opConvert c ip inst)"
  "ok c \<Longrightarrow> kept J R E (opStrSplit c ip inst)" "ok c \<Longrightarrow> kept J R E (opStrJoin c ip inst)"
  "ok c \<Longrightarrow> kept J R E (opRegexMatch c ip inst)" "ok c \<Longrightarrow> kept J R E (opEscape c ip inst)"
  by (auto simp: opUTF8Valid_def opGranted_def opSha256Hex_def opSecureEqual_def opBinop_def opConvert_def
      opStrSplit_def opStrJoin_def opRegexMatch_def opEscape_def Let_def
      intro!: keep split: val.splits option.splits sum.splits)

lemma kept_data3 [keep]:
  "ok c \<Longrightarrow> kept J R E (opMakeList c ip inst)" "ok c \<Longrightarrow> kept J R E (opAppend c ip inst)"
  "ok c \<Longrightarrow> kept J R E (opListGet c ip inst)" "ok c \<Longrightarrow> kept J R E (opListLen c ip inst)"
  "ok c \<Longrightarrow> kept J R E (opMakeDict c ip inst)" "ok c \<Longrightarrow> kept J R E (opMapSet c ip inst)"
  "ok c \<Longrightarrow> kept J R E (opMapDelete c ip inst)" "ok c \<Longrightarrow> kept J R E (opMapGet c ip inst)"
  "ok c \<Longrightarrow> kept J R E (opMapKeys c ip inst)" "ok c \<Longrightarrow> kept J R E (opIsNil c ip inst)"
  by (auto simp: opMakeList_def opAppend_def opListGet_def opListLen_def opMakeDict_def opMapSet_def opMapDelete_def
      opMapGet_def opMapKeys_def opIsNil_def intro!: keep split: option.splits)

lemma kept_data4 [keep]:
  "ok c \<Longrightarrow> kept J R E (opEncodeJson c ip inst)" "ok c \<Longrightarrow> kept J R E (opParseJson c ip inst)"
  "ok c \<Longrightarrow> kept J R E (opCliArgs c ip inst)" "ok c \<Longrightarrow> kept J R E (opCliArgsGet c ip inst)"
  "ok c \<Longrightarrow> kept J R E (opTask c ip inst)"
  by (auto simp: opEncodeJson_def opParseJson_def opCliArgs_def opCliArgsGet_def opTask_def
      intro!: keep split: option.splits sum.splits)

end

end
