(* ===== verification/KeptIO.thy ===== *)
theory KeptIO
  imports Kept
begin

text \<open>
  The instructions that act on the host keep every relation of \<open>machine\<close>, because each effect is
  performed in the state in which its check passed; then the instructions that run nested code, and
  the loop itself.
\<close>

subsection \<open>The checks\<close>

abbreviation harmless :: "panic \<Rightarrow> bool" where
  "harmless p \<equiv> p \<noteq> PFuel"

lemma check_simps:
  "check m A P \<longleftrightarrow> (\<forall>s. snd (m s) = s \<and> (case fst (m s) of Inr a \<Rightarrow> A s a | Inl p \<Rightarrow> P p))"
proof -
  have "((\<forall>a. r = Inr a \<longrightarrow> X a) \<and> (\<forall>p. r = Inl p \<longrightarrow> Y p)) = (case r of Inr a \<Rightarrow> X a | Inl p \<Rightarrow> Y p)"
    for r :: "panic + 'a" and X Y by (cases r) auto
  then show ?thesis by (simp add: check_def)
qed

lemmas check_defs = check_simps monad_defs raise_def raiseHere_def denied_def osM_def

lemma allows_mode: "(if w then AllowsWrite os g p else AllowsRead os g p) = allows os g p w"
  by (simp add: AllowsRead_def AllowsWrite_def)

lemma check_requireFilesystem:
  "check (requireFilesystem c p w op)
     (\<lambda>s path. path = filesystemIOPath (h_os (c_host c) (m_events s)) p (c_caps c)
       \<and> allows (h_os (c_host c) (m_events s)) (c_caps c) p w
       \<and> reaches (h_os (c_host c) (m_events s)) (c_caps c) w path) harmless"
  unfolding requireFilesystem_def allows_mode
  by (auto simp: check_defs reaches_def filesystemIOPath_def)

lemma check_requireFetch:
  "check (requireFetch c url op) (\<lambda>s u. \<exists>g. AuthorizeFetch (c_caps c) (h_url (c_host c) url) = Inr g) harmless"
  by (auto simp: requireFetch_def failFetch_def check_defs split: sum.splits)

lemma AuthorizeExec_self: "AuthorizeExec os g p args = Inr (q, c) \<Longrightarrow> q = p"
  by (auto simp: AuthorizeExec_def split: if_splits sum.splits option.splits)

lemma check_requireExec:
  "check (requireExec c p args op)
     (\<lambda>s path. \<exists>g. AuthorizeExec (h_os (c_host c) (m_events s)) (c_caps c) path args = Inr (path, g)) harmless"
  by (auto simp: requireExec_def check_defs split: sum.splits dest: AuthorizeExec_self)

lemma check_attenuateChild:
  "check (attenuateChild c lst op ip what)
     (\<lambda>s child. \<exists>req. Attenuate (h_os (c_host c) (m_events s)) (c_caps c) req = Inr child) harmless"
  by (auto simp: attenuateChild_def check_defs split: sum.splits)

lemma check_fileData: "check (fileData ip inst v) (\<lambda>s t. True) harmless"
  by (auto simp: fileData_def check_defs liftM_def split: val.splits sum.splits)

lemma check_getEq: "check (getM f) (\<lambda>s a. a = f s) P"
  by (rule check_get) simp

lemma check_bodyLength: "check (bodyLength insts ip inst what) (\<lambda>s n. True) harmless"
  by (auto simp: bodyLength_def check_defs Let_def)

lemma check_treeM: "check (treeM v) (\<lambda>s t. True) harmless"
  by (auto simp: treeM_def check_defs split: option.splits)

text \<open>The gate in front of an instruction clears it.\<close>

lemma coarse_only:
  assumes "cap \<in> {Network, Environment}" "Has os g cap"
  shows "HasCoarse g cap"
proof -
  from assms have nf: "cap \<noteq> Filesystem" "cap \<noteq> Process" by (auto simp: cap_defs)
  from assms(2) obtain raw where r: "raw \<in> set g"
    "case ParseGrant os raw of Inl _ \<Rightarrow> False
      | Inr parsed \<Rightarrow> parsed = cap \<or> (cap = Filesystem \<and> hasPrefix parsed ''filesystem:'')
          \<or> (cap = Process \<and> hasPrefix parsed ExecGrantPrefix)"
    unfolding Has_def by blast
  with nf have raw: "raw \<in> set g" "ParseGrant os raw = Inr cap" by (auto split: sum.splits)
  from coarse.canonical [OF raw(2), of cap] assms(1) have "raw = cap"
    by (auto simp: class_names)
  with raw(1) show ?thesis by (auto simp: HasCoarse_def)
qed

lemma requireCapability_coarse:
  assumes "fst (requireCapability c cap op s) = Inr u" "cap \<in> {Network, Environment}" "op \<noteq> OpFetch" "op \<noteq> OpHttpRequest"
  shows "HasCoarse (c_caps c) cap"
proof -
  from assms(2) have np: "cap \<noteq> Process" by (auto simp: cap_defs)
  with assms(1, 3, 4) obtain al where al: "al \<in> set (c_caps c)" "Has (h_os (c_host c) (m_events s)) [al] cap"
    by (auto simp: requireCapability_def osM_def monad_defs denied_def raiseHere_def raise_def split: if_splits)
  from coarse_only [OF assms(2) al(2)] al(1) show ?thesis by (auto simp: HasCoarse_def)
qed

lemma requireCapability_spawn:
  "fst (requireCapability c Process op s) = Inr u \<Longrightarrow> op = OpSpawn \<or> op = OpSpawnAgent \<Longrightarrow> HasCoarse (c_caps c) Process"
  by (auto simp: requireCapability_def monad_defs denied_def raiseHere_def raise_def split: if_splits)

lemma bindM_Inr: "fst (bindM m f s) = Inr b \<longleftrightarrow> (\<exists>a t. m s = (Inr a, t) \<and> fst (f a t) = Inr b)"
  by (auto simp: bindM_def split: prod.splits sum.splits)

lemma Registry_gates:
  "op_Capability (RegistrySpec OpSpawn) = Process" "op_Capability (RegistrySpec OpSpawnAgent) = Process"
  "op_Capability (RegistrySpec OpEnv) = Environment" "op_Capability (RegistrySpec OpPortAvailable) = Network"
  "op_Capability (RegistrySpec OpNeuralCircuit) = Network" "op_Capability (RegistrySpec OpEphemeralCircuit) = Network"
  "op_Capability (RegistrySpec OpAchieve) = Network" "op_Capability (RegistrySpec OpConfidence) = Network"
  "op_Capability (RegistrySpec OpLlmGenerate) = Network"
  by (simp_all add: RegistrySpec_def Registry_def RegistryTable_def)

lemma gate_clears: "fst (gate c ip inst s) = Inr u \<Longrightarrow> cleared c (i_Op inst)"
proof -
  let ?cap = "op_Capability (RegistrySpec (i_Op inst))"
  assume "fst (gate c ip inst s) = Inr u"
  then obtain t where t: "?cap \<noteq> None_cap \<Longrightarrow> \<exists>u t'. requireCapability c ?cap (i_Op inst) t = (Inr u, t')"
    unfolding gate_def bindM_Inr by (auto split: if_splits)
  show ?thesis
    unfolding cleared_def
  proof (intro conjI impI)
    assume a: "?cap \<in> {Network, Environment} \<and> i_Op inst \<noteq> OpFetch \<and> i_Op inst \<noteq> OpHttpRequest"
    then have "?cap \<noteq> None_cap" by (auto simp: cap_defs)
    from t [OF this] obtain u where "fst (requireCapability c ?cap (i_Op inst) t) = Inr u" by auto
    from requireCapability_coarse [OF this] a show "HasCoarse (c_caps c) ?cap" by blast
  next
    assume "i_Op inst \<in> {OpSpawn, OpSpawnAgent}"
    then have cap: "?cap = Process" "i_Op inst = OpSpawn \<or> i_Op inst = OpSpawnAgent" by (auto simp: Registry_gates)
    then have "?cap \<noteq> None_cap" by (simp add: cap_defs)
    from t [OF this] cap obtain u where "fst (requireCapability c Process (i_Op inst) t) = Inr u" by auto
    from requireCapability_spawn [OF this cap(2)] show "HasCoarse (c_caps c) Process" .
  qed
qed

subsection \<open>Instructions on the host\<close>

lemmas check_read = check_weaken [OF check_requireFilesystem]

context machine
begin

lemma checkE: "check m A harmless \<Longrightarrow> check m A E"
  unfolding check_def using E_panic by blast

lemma kept_preauthorize [keep]: "kept J R E (preauthorizeFetch c inst)"
  by (auto simp: preauthorizeFetch_def Let_def intro!: keep)

lemma kept_requireExec [keep]: "kept J R E (requireExec c p args op)"
  by (rule kept_check [OF checkE [OF check_requireExec]])

lemma kept_attenuateChild [keep]: "kept J R E (attenuateChild c lst op ip what)"
  by (rule kept_check [OF checkE [OF check_attenuateChild]])

lemma kept_bodyLength [keep]: "kept J R E (bodyLength insts ip inst what)"
  by (rule kept_check [OF checkE [OF check_bodyLength]])

lemma kept_fileData [keep]: "kept J R E (fileData ip inst v)"
  by (rule kept_check [OF checkE [OF check_fileData]])

lemma kept_written [keep]: "kept J R E (written ip op what r)"
  by (auto simp: written_def failScopedFilesystem_def intro!: keep split: response.splits)

text \<open>A path that was checked is the path of the effect.\<close>

lemma kept_checked_path:
  assumes "\<And>s path. J s \<Longrightarrow> reaches (h_os (c_host c) (m_events s)) (c_caps c) w path \<Longrightarrow> keptFrom s R E (f path)"
  shows "kept J R E (bindM (requireFilesystem c p w op) f)"
  by (rule kept_bind_check [OF checkE [OF check_requireFilesystem]]) (use assms in blast)

lemma kept_opReadFile [keep]: "ok c \<Longrightarrow> kept J R E (opReadFile c ip inst)"
  unfolding opReadFile_def
  by (rule kept_bind [OF kept_popChecked kept_checked_path], rule from_perform)
    (auto simp: authorised_def failScopedFilesystem_def intro!: keep split: response.splits)

lemma kept_opMkdir [keep]: "ok c \<Longrightarrow> kept J R E (opMkdir c ip inst)"
  unfolding opMkdir_def
  by (rule kept_bind [OF kept_popChecked kept_checked_path], rule from_perform)
    (auto simp: authorised_def intro!: keep)

lemma kept_opWriteFile [keep]:
  assumes c: "ok c" shows "kept J R E (opWriteFile c ip inst)"
  unfolding opWriteFile_def
proof (rule kept_bind [OF kept_pop], rule kept_bind [OF kept_popChecked], rule kept_checked_path)
  fix v p s path
  assume s: "J s" and path: "reaches (h_os (c_host c) (m_events s)) (c_caps c) True path"
  show "keptFrom s R E (bindM (fileData ip inst v) (\<lambda>text. bindM (perform c (EWriteFile path text)) (written ip (i_Op inst) ''write_file'')))"
    by (rule from_bind_check [OF checkE [OF check_fileData]], rule from_perform)
      (use c s path in \<open>auto simp: authorised_def intro!: keep\<close>)
qed

lemma kept_exitError [keep]: "ok c \<Longrightarrow> kept J R E (exitError c ip op n e out)"
  by (auto simp: exitError_def Let_def intro!: keep)

lemma kept_execResult [keep]: "ok c \<Longrightarrow> kept J R E (execResult c ip op n r)"
  by (auto simp: execResult_def intro!: keep split: response.splits)

lemma kept_execArgv [keep]: "kept J R E (execArgv op raw)"
  unfolding execArgv_def by (intro keep)

lemma kept_exec_authorised:
  assumes c: "ok c"
  shows "kept J R E (bindM (requireExec c cmd args op) (\<lambda>path.
    let bound = MaxExecOutputBytes (c_limits c) in
    if bound \<le> 0 then outputLimit ip op ''exec output'' bound
    else bindM (getM (\<lambda>s. ExecEnv (c_caps c) (h_getenv (c_host c) (m_events s)))) (\<lambda>env.
      bindM (perform c (EExec path args env)) (execResult c ip op bound))))"
proof (rule kept_bind_check [OF checkE [OF check_requireExec]])
  fix path s
  assume s: "J s"
    and path: "\<exists>g. AuthorizeExec (h_os (c_host c) (m_events s)) (c_caps c) path args = Inr (path, g)"
  have "keptFrom s R E (bindM (getM (\<lambda>s. ExecEnv (c_caps c) (h_getenv (c_host c) (m_events s)))) (\<lambda>env.
      bindM (perform c (EExec path args env)) (execResult c ip op n)))" for n
    by (rule from_bind_check [OF check_getEq], rule from_perform)
      (use c s path in \<open>auto simp: authorised_def intro!: keep\<close>)
  then show "keptFrom s R E (let bound = MaxExecOutputBytes (c_limits c) in
    if bound \<le> 0 then outputLimit ip op ''exec output'' bound
    else bindM (getM (\<lambda>s. ExecEnv (c_caps c) (h_getenv (c_host c) (m_events s)))) (\<lambda>env.
      bindM (perform c (EExec path args env)) (execResult c ip op bound)))"
    using s by (auto simp: Let_def intro: from_kept keep)
qed

lemma kept_opExec [keep]: "ok c \<Longrightarrow> kept J R E (opExec c ip inst)"
  unfolding opExec_def by (intro keep kept_exec_authorised)

lemma kept_bodyWithin [keep]: "kept J R E (bodyWithin c ip op w n b)"
  by (auto simp: bodyWithin_def intro!: keep)

lemma kept_fetchResult [keep]: "ok c \<Longrightarrow> kept J R E (fetchResult c ip op w n r)"
  by (auto simp: fetchResult_def intro!: keep split: response.splits)

lemma kept_exchange [keep]:
  assumes c: "ok c"
  shows "kept J R E (exchange c ip op w method url body)"
proof -
  have "kept J R E (thenM (requireFetch c url op)
     (case h_badRequest (c_host c) method url of
        Some e \<Rightarrow> requestError c ip op (w_creation w @ e)
      | None \<Rightarrow> bindM (perform c (EFetch method url body)) (fetchResult c ip op w n)))" for n
  proof (cases "h_badRequest (c_host c) method url")
    case None
    show ?thesis unfolding None option.case
      by (rule kept_bind_check [OF checkE [OF check_requireFetch]], rule from_perform)
        (use c in \<open>auto simp: authorised_def intro!: keep\<close>)
  qed (auto intro!: keep)
  then show ?thesis by (auto simp: exchange_def Let_def intro!: keep)
qed

lemma kept_fetches [keep]:
  "ok c \<Longrightarrow> kept J R E (opFetch c ip inst)" "ok c \<Longrightarrow> kept J R E (opHttpRequest c ip inst)"
  by (auto simp: opFetch_def opHttpRequest_def intro!: keep split: prod.splits)

lemma kept_input [keep]:
  "ok c \<Longrightarrow> kept J R E (opReadLine c ip inst)" "ok c \<Longrightarrow> kept J R E (opReadStdin c ip inst)"
  "ok c \<Longrightarrow> kept J R E (opTimeNow c ip inst)" "ok c \<Longrightarrow> kept J R E (opSleep c ip inst)"
  "ok c \<Longrightarrow> kept J R E (opRandHex c ip inst)"
  by (auto simp: opReadLine_def opReadStdin_def opTimeNow_def opSleep_def opRandHex_def
      intro!: keep split: response.splits option.splits sum.splits)

subsubsection \<open>Instructions behind a coarse class\<close>

lemma kept_opEnv [keep]:
  assumes "ok c" "i_Op inst = OpEnv" "cleared c (i_Op inst)"
  shows "kept J R E (opEnv c ip inst)"
  using assms by (auto simp: opEnv_def cleared_def Registry_gates authorised_def intro!: keep kept_emit)

lemma kept_opPortAvailable [keep]:
  assumes "ok c" "i_Op inst = OpPortAvailable" "cleared c (i_Op inst)"
  shows "kept J R E (opPortAvailable c ip inst)"
  using assms
  by (auto simp: opPortAvailable_def cleared_def Registry_gates authorised_def intro!: keep kept_perform split: option.splits)

lemma kept_postModel [keep]:
  "ok c \<Longrightarrow> HasCoarse (c_caps c) Network \<Longrightarrow> kept J R E (postModel c ip op url body)"
  unfolding postModel_def by (intro keep kept_perform) (simp_all add: authorised_def)

lemma kept_generate [keep]:
  "ok c \<Longrightarrow> HasCoarse (c_caps c) Network \<Longrightarrow> kept J R E (generate c ip op what model prompt)"
  by (auto simp: generate_def intro!: keep split: response.splits)

lemma kept_pushModelText [keep]: "ok c \<Longrightarrow> kept J R E (pushModelText c ip op t)"
  unfolding pushModelText_def by (intro keep)

lemma kept_circuitInputs [keep]: "kept J R E (circuitInputs inst)"
  unfolding circuitInputs_def by (intro keep)

lemma kept_models:
  assumes "ok c" "HasCoarse (c_caps c) Network"
  shows "kept J R E (opNeuralCircuit c ip inst)" "kept J R E (opEphemeralCircuit c ip inst)"
    "kept J R E (opAchieve c ip inst)" "kept J R E (opConfidence c ip inst)" "kept J R E (opLlmGenerate c ip inst)"
  using assms
  by (auto simp: opNeuralCircuit_def opEphemeralCircuit_def opAchieve_def opConfidence_def opLlmGenerate_def Let_def
      authorised_def intro!: keep kept_emit split: prod.splits response.splits val.splits)

subsubsection \<open>Stores\<close>

lemma kept_requireAll [keep]: "kept J R E (requireAll c caps op)"
  by (induction caps) (auto intro!: keep)

lemma kept_requireStore [keep]: "kept J R E (requireStoreCapabilities c uri op)"
  by (auto simp: requireStoreCapabilities_def intro!: keep split: option.splits)

lemma kept_storeError [keep]: "kept J R E (storeError op e)"
  unfolding storeError_def by (rule keep)

lemma kept_register [keep]: "kept J R E (register uri st)"
  unfolding register_def by (intro keep kept_modify R_registry)

lemma kept_storeRecords [keep]: "kept J R E (storeRecords c op file text)"
  by (auto simp: storeRecords_def intro!: keep split: sum.splits)

lemma kept_storeAt [keep]: "kept J R E (storeAt n)"
  unfolding storeAt_def by (rule keep)

lemma from_loadStore:
  assumes "ok c" "J s" "hasPrefix uri filePrefix \<Longrightarrow> reaches (h_os (c_host c) (m_events s)) (c_caps c) False (trimPrefix uri filePrefix)"
  shows "keptFrom s R E (loadStore c op uri)"
proof (cases "hasPrefix uri filePrefix")
  case True
  then show ?thesis
    by (simp add: loadStore_def Let_def, intro from_perform)
      (use assms in \<open>auto simp: authorised_def intro!: keep split: response.splits\<close>)
qed (use assms(2) in \<open>auto simp: loadStore_def intro!: from_kept keep\<close>)

lemma from_openStore:
  assumes "ok c" "J s" "hasPrefix uri filePrefix \<Longrightarrow> reaches (h_os (c_host c) (m_events s)) (c_caps c) False (trimPrefix uri filePrefix)"
  shows "keptFrom s R E (openStore c op uri)"
  unfolding openStore_def
proof (rule from_bind_check [OF check_getEq])
  fix known assume "known = lookup (m_registry s) uri"
  show "keptFrom s R E (case known of Some n \<Rightarrow> returnM n | None \<Rightarrow> bindM (loadStore c op uri) (register uri))"
  proof (cases known)
    case None
    show ?thesis unfolding None option.case
      by (rule from_bind [OF assms(2) from_loadStore [OF assms]]) (auto intro: from_kept keep)
  qed (use assms(2) in \<open>auto intro: from_kept keep\<close>)
qed

lemma kept_opStoreOpen [keep]:
  assumes c: "ok c"
  shows "kept J R E (opStoreOpen c ip inst)"
proof -
  have open_file: "kept J R E (bindM (bindM (requireFilesystem c p False op) (\<lambda>path. returnM (filePrefix @ path)))
      (\<lambda>uri. bindM (openStore c op uri) (\<lambda>n. storeVar x (VStore n))))" for p op x
  proof (rule kept_bind_check [where A = "\<lambda>s uri. hasPrefix uri filePrefix \<and>
        reaches (h_os (c_host c) (m_events s)) (c_caps c) False (trimPrefix uri filePrefix)"])
    show "check (bindM (requireFilesystem c p False op) (\<lambda>path. returnM (filePrefix @ path)))
        (\<lambda>s uri. hasPrefix uri filePrefix \<and>
          reaches (h_os (c_host c) (m_events s)) (c_caps c) False (trimPrefix uri filePrefix)) E"
      by (rule check_bind [OF checkE [OF check_requireFilesystem]]) (auto simp: returnM_def hasPrefix_iff trimPrefix_def)
  next
    fix uri s
    assume "J s" "hasPrefix uri filePrefix \<and>
        reaches (h_os (c_host c) (m_events s)) (c_caps c) False (trimPrefix uri filePrefix)"
    then show "keptFrom s R E (bindM (openStore c op uri) (\<lambda>n. storeVar x (VStore n)))"
      by (intro from_bind [OF \<open>J s\<close>] from_openStore c) (auto intro: from_kept keep)
  qed
  have open_memory: "kept J R E (bindM (openStore c op uri) (\<lambda>n. storeVar x (VStore n)))"
    if "\<not> hasPrefix uri filePrefix" for op uri x
    by (rule kept_bind, rule kept_from, rule from_openStore) (use c that in \<open>auto intro: keep\<close>)
  have memory: "bindM (returnM a) f = f a" for a and f :: "string \<Rightarrow> unit M"
    by (simp add: fun_eq_iff bindM_def returnM_def)
  show ?thesis
    unfolding opStoreOpen_def
    by (intro kept_bind [OF kept_popChecked] kept_bind [OF kept_requireStore])
      (auto simp: memory intro: open_file open_memory)
qed

end

definition storeIn :: "vmstate \<Rightarrow> nat \<Rightarrow> bcMemoryStore" where
  "storeIn s n = (if n < length (m_stores s) then m_stores s ! n else noStore)"

definition mayWrite :: "ctx \<Rightarrow> vmstate \<Rightarrow> nat \<Rightarrow> bool" where
  "mayWrite c s n \<longleftrightarrow>
     (st_file (storeIn s n) \<noteq> [] \<longrightarrow> reaches (h_os (c_host c) (m_events s)) (c_caps c) True (st_file (storeIn s n)))"

lemma storeAt_eq: "storeAt n s = (Inr (storeIn s n), s)"
  by (simp add: storeAt_def storeIn_def getM_def)

lemma requireFilesystem_eq:
  "requireFilesystem c p w op s =
    (if allows (h_os (c_host c) (m_events s)) (c_caps c) p w
     then (Inr (filesystemIOPath (h_os (c_host c) (m_events s)) p (c_caps c)), s)
     else (Inl (PErr (NewRuntimeError ''CAPABILITY_DENIED'' ''main'' (m_ip s) op (''capability denied: '' @ Filesystem))), s))"
  unfolding requireFilesystem_def allows_mode
  by (simp add: osM_def denied_def raiseHere_def raise_def monad_defs)

lemma requireCapability_state: "snd (requireCapability c cap op s) = s \<and> (\<forall>p. fst (requireCapability c cap op s) = Inl p \<longrightarrow> harmless p)"
  by (auto simp: requireCapability_def osM_def denied_def raiseHere_def raise_def monad_defs)

lemma check_storeHandle:
  "check (storeHandle c x op) (\<lambda>s n. storeWrites op \<longrightarrow> mayWrite c s n) harmless"
  by (auto simp: check_def storeHandle_def getVar_def monad_defs raiseHere_def raise_def storeAt_eq requireFilesystem_eq
      mayWrite_def reaches_def split: option.splits val.splits if_splits)

lemma check_authorizedStore:
  "check (authorizedStore c x op) (\<lambda>s n. storeWrites op \<longrightarrow> mayWrite c s n) harmless"
  unfolding authorizedStore_def
proof (rule check_bind [OF check_storeHandle])
  fix s n assume w: "storeWrites op \<longrightarrow> mayWrite c s n"
  obtain r where r: "requireCapability c Filesystem op s = (r, s)" "\<And>p. r = Inl p \<Longrightarrow> harmless p"
    using requireCapability_state [of c Filesystem op s] by (metis prod.collapse)
  show "snd (bindM (storeAt n) (\<lambda>st. thenM (if st_file st \<noteq> [] then requireCapability c Filesystem op else returnM ()) (returnM n)) s) = s \<and>
    (\<forall>b. fst (bindM (storeAt n) (\<lambda>st. thenM (if st_file st \<noteq> [] then requireCapability c Filesystem op else returnM ()) (returnM n)) s) = Inr b
      \<longrightarrow> storeWrites op \<longrightarrow> mayWrite c s b) \<and>
    (\<forall>p. fst (bindM (storeAt n) (\<lambda>st. thenM (if st_file st \<noteq> [] then requireCapability c Filesystem op else returnM ()) (returnM n)) s) = Inl p
      \<longrightarrow> harmless p)"
    using w r by (auto simp: storeAt_eq monad_defs split: sum.splits)
qed

context machine
begin

lemma kept_authorizedStore [keep]: "kept J R E (authorizedStore c x op)"
  by (rule kept_check [OF checkE [OF check_authorizedStore]])

lemma kept_persistError [keep]: "kept J R E (persistError c op what file e)"
  unfolding persistError_def by (rule keep)

lemma from_persistStore:
  assumes "ok c" "J s" "mayWrite c s n"
  shows "keptFrom s R E (persistStore c op n recs)"
proof -
  have sync: "keptFrom s R E (syncToFile c op (st_file (storeIn s n)) recs)"
  proof (cases "st_file (storeIn s n) = [] \<or> (\<exists>e. h_storeEncode (c_host c) recs = Inl e)")
    case True
    then show ?thesis
      by (auto simp: syncToFile_def intro!: from_kept [OF assms(2)] keep)
  next
    case False
    then obtain js where "h_storeEncode (c_host c) recs = Inr js" by (cases "h_storeEncode (c_host c) recs") auto
    with False show ?thesis
      by (simp add: syncToFile_def, intro from_perform [OF assms(2, 1)])
        (use assms(3) in \<open>auto simp: authorised_def mayWrite_def failScopedFilesystem_def intro!: keep split: response.splits\<close>)
  qed
  show ?thesis
    unfolding persistStore_def
    by (rule from_bind_check [where A = "\<lambda>s st. st = storeIn s n"])
      (auto simp: check_def storeAt_eq intro!: from_bind [OF assms(2) sync] from_kept kept_modify R_stores)
qed

lemma kept_write_store:
  assumes "ok c" "storeWrites op"
  shows "kept J R E (bindM (authorizedStore c x op) (\<lambda>n. bindM (storeAt n) (\<lambda>st. persistStore c op n (f st))))"
proof (rule kept_bind_check [OF checkE [OF check_authorizedStore]])
  fix n s assume "J s" "storeWrites op \<longrightarrow> mayWrite c s n"
  with assms have "keptFrom s R E (persistStore c op n recs)" for recs by (auto intro: from_persistStore)
  then show "keptFrom s R E (bindM (storeAt n) (\<lambda>st. persistStore c op n (f st)))"
    by (rule from_bind_check [where A = "\<lambda>s st. True", rotated]) (simp_all add: check_def storeAt_eq)
qed

lemma kept_put_store:
  assumes "ok c" "storeWrites op"
  shows "kept J R E (bindM (authorizedStore c x op) (\<lambda>n. bindM (storeAt n) (\<lambda>st. bindM (treeM v) (\<lambda>t. persistStore c op n (f st t)))))"
proof (rule kept_bind_check [OF checkE [OF check_authorizedStore]])
  fix n s assume "J s" "storeWrites op \<longrightarrow> mayWrite c s n"
  with assms have p: "keptFrom s R E (persistStore c op n recs)" for recs by (auto intro: from_persistStore)
  have "keptFrom s R E (bindM (treeM v) (\<lambda>t. persistStore c op n (f st t)))" for st
    by (rule from_bind_check [OF checkE [OF check_treeM] p])
  then show "keptFrom s R E (bindM (storeAt n) (\<lambda>st. bindM (treeM v) (\<lambda>t. persistStore c op n (f st t))))"
    by (rule from_bind_check [where A = "\<lambda>s st. True", rotated]) (simp_all add: check_def storeAt_eq)
qed

lemma kept_opStorePut [keep]: "ok c \<Longrightarrow> i_Op inst = OpStorePut \<Longrightarrow> kept J R E (opStorePut c ip inst)"
  by (unfold opStorePut_def, intro kept_bind [OF kept_pop] kept_bind [OF kept_sprint])
    (auto simp: storeWrites_def intro: kept_put_store kept_raiseHere split: val.splits)

lemma kept_opStoreDelete [keep]: "ok c \<Longrightarrow> i_Op inst = OpStoreDelete \<Longrightarrow> kept J R E (opStoreDelete c ip inst)"
  unfolding opStoreDelete_def
  by (intro kept_bind [OF kept_pop] kept_bind [OF kept_sprint] kept_write_store) (simp_all add: storeWrites_def)

lemma kept_opStoreGet [keep]: "kept J R E (opStoreGet c ip inst)"
  by (auto simp: opStoreGet_def intro!: keep split: option.splits)

lemma kept_opStoreKeys [keep]: "kept J R E (opStoreKeys c ip inst)"
  unfolding opStoreKeys_def by (intro keep)

subsection \<open>Control instructions\<close>

lemma kept_jumps [keep]:
  "kept J R E (opJump nested c insts ip lb inst)" "kept J R E (opJumpIfFalse nested c insts ip lb inst)"
  by (auto simp: opJump_def opJumpIfFalse_def intro!: keep)

lemma kept_stackHeight [keep]: "kept J R E stackHeight"
  unfolding stackHeight_def by (rule keep)

lemma kept_trimLoop [keep]: "kept J R E (trimLoop lb)"
  by (auto simp: trimLoop_def intro!: keep split: list.splits)

lemma kept_loopIndex [keep]: "kept J R E (loopIndex ip op v)"
  by (auto simp: loopIndex_def intro!: keep split: option.splits val.splits)

lemma kept_loops [keep]:
  "kept J R E (opForInit nested c insts ip lb inst)" "kept J R E (opForNext nested c insts ip lb inst)"
  by (auto simp: opForInit_def opForNext_def Let_def intro!: keep)

lemma kept_tryLengths [keep]: "kept J R E (tryLengths ns ls r ip op)"
  by (induction ns ls r ip op rule: tryLengths.induct) (auto intro!: keep)

lemma kept_recoverM:
  assumes "kept J R E m" "\<And>p t. J t \<Longrightarrow> E p \<Longrightarrow> keptFrom t R E (f p)"
  shows "kept J R E (recoverM m f)"
  by (rule kept_recover) (use assms in \<open>auto simp: kept_def\<close>)

lemma from_panic: "E p \<Longrightarrow> keptFrom s R E (panicM p)"
  by (simp add: keptFrom_def panicM_def R_refl)

lemma kept_tryRun [keep]: "kept J R E m \<Longrightarrow> kept J R E (tryRun m)"
  unfolding tryRun_def
  by (rule kept_recoverM) (auto intro: from_panic from_kept keep split: option.splits)

lemma kept_opTryLet [keep]:
  "(\<And>is. kept J R E (nested c is)) \<Longrightarrow> kept J R E (opTryLet nested c insts ip lb inst)"
  by (auto simp: opTryLet_def Let_def intro!: keep split: option.splits)

lemma kept_callee [keep]: "kept J R E (callee c ip inst)"
  by (auto simp: callee_def nilDereference_def arityError_def intro!: keep split: option.splits)

lemma kept_returned [keep]: "kept J R E m \<Longrightarrow> kept J R E (returned m)"
  unfolding returned_def
  by (rule kept_recoverM) (auto intro: from_panic from_kept keep split: panic.splits)

text \<open>A call: the frame is left on every way out.\<close>

lemma kept_call:
  assumes c: "ok c" and m: "kept J R E m" and f: "\<And>h v. kept J R E (f h v)"
  shows "kept J R E (thenM (enterCall c ip op frame) (bindM stackHeight (\<lambda>h. bindM (finallyM m leaveCall) (f h))))"
proof (rule kept_from)
  fix s assume s: "J s"
  show "keptFrom s R E (thenM (enterCall c ip op frame) (bindM stackHeight (\<lambda>h. bindM (finallyM m leaveCall) (f h))))"
  proof (cases "MaxCallDepth (c_limits c) \<le> 0 \<or> m_callDepth s \<ge> MaxCallDepth (c_limits c)")
    case True
    then show ?thesis
      by (auto simp: enterCall_def raise_def monad_defs keptFrom_def R_refl E_panic Let_def)
  next
    case False
    obtain r t where t: "m (enterFrame frame s) = (r, t)" by fastforce
    have "J (enterFrame frame s)" by (rule J_call [OF s])
    with m t have "R (enterFrame frame s) t" "\<And>p. r = Inl p \<Longrightarrow> E p" by (auto simp: kept_def dest!: spec)
    with False have l: "R s (leaveCall t)" "\<And>p. r = Inl p \<Longrightarrow> E p" by (auto intro: R_call [OF c])
    then have "J (leaveCall t)" using s J_kept by blast
    with f [of "length (m_stack s)"] have "keptFrom (leaveCall t) R E (f (length (m_stack s)) v)" for v
      by (auto intro: from_kept)
    with False t l show ?thesis
      by (cases r) (auto simp: enterCall_def stackHeight_def finallyM_def monad_defs keptFrom_def Let_def intro: R_trans)
  qed
qed

lemma kept_opCall [keep]:
  "ok c \<Longrightarrow> (\<And>is. kept J R E (nested c is)) \<Longrightarrow> kept J R E (opCall nested c insts ip lb inst)"
  unfolding opCall_def by (intro kept_bind [OF kept_callee] kept_bind [OF kept_popN] kept_call) (auto intro!: keep)

lemma kept_opSpawn [keep]:
  assumes c: "ok c" and op: "i_Op inst = OpSpawn" "cleared c (i_Op inst)"
  shows "kept J R E (opSpawn nested c insts ip lb inst)"
  unfolding opSpawn_def
proof (rule kept_bind [OF kept_bodyLength], rule kept_bind_check [OF checkE [OF check_attenuateChild]],
    rule from_bind_check [OF check_getEq])
  fix n caps s captured
  assume "J s" "\<exists>req. Attenuate (h_os (c_host c) (m_events s)) (c_caps c) req = Inr caps"
  with c op show "keptFrom s R E (thenM (emit c (ESpawn caps (segment insts ip 0 n) captured)) (returnM (ip + 1 + n, lb)))"
    unfolding emit_def
    by (intro from_bind [OF \<open>J s\<close>] from_perform) (auto simp: cleared_def authorised_def intro: from_kept keep)
qed

lemma kept_cloneEach [keep]: "kept J R E (cloneEach kvs)"
  by (induction kvs rule: cloneEach.induct) (auto intro!: keep)

lemma kept_inChild [keep]:
  assumes "kept J R E m"
  shows "kept J R E (inChild d m)"
proof (rule kept_from)
  fix s assume "J s"
  obtain r t where t: "m (childState d s) = (r, t)" by fastforce
  with J_child [OF \<open>J s\<close>, of d] assms have "R (childState d s) t" "\<And>p. r = Inl p \<Longrightarrow> E p"
    by (auto simp: kept_def dest!: spec)
  with t show "keptFrom s R E (inChild d m)" by (auto simp: keptFrom_def inChild_def intro: R_child)
qed

lemma kept_runAgent [keep]:
  "ok c \<Longrightarrow> (\<And>is. kept J R E (nested child is)) \<Longrightarrow> kept J R E (runAgent nested c child name task body)"
  unfolding runAgent_def
  by (auto intro!: keep kept_recoverM intro: from_panic from_kept split: option.splits)

lemma kept_opSpawnAgent [keep]:
  assumes c: "ok c" and nested: "\<And>c' is. ok c' \<Longrightarrow> kept J R E (nested c' is)"
  shows "kept J R E (opSpawnAgent nested c insts ip lb inst)"
  unfolding opSpawnAgent_def
proof (rule kept_bind [OF kept_popChecked], rule kept_bind_check [OF checkE [OF check_attenuateChild]])
  fix task caps s
  assume "J s" "\<exists>req. Attenuate (h_os (c_host c) (m_events s)) (c_caps c) req = Inr caps"
  then have "ok (c\<lparr>c_caps := caps, c_spawnDepth := c_spawnDepth c + 1\<rparr>)" using ok_child [OF c] by blast
  then show "keptFrom s R E (thenM (spawnDepthCheck c ip (i_Op inst)) (bindM (bodyLength insts ip inst ''spawn_agent'') (\<lambda>n.
       thenM (emit c (EOut (agentLine c ''Spawning agent '' (i_Str inst) '' for task: '' task @ [CHR 0x0A])))
        (bindM (runAgent nested c (c\<lparr>c_caps := caps, c_spawnDepth := c_spawnDepth c + 1\<rparr>) (i_Str inst) task
                 (segment insts ip 0 n)) (\<lambda>failed.
         thenM (if failed then returnM ()
                else emit c (EOut (agentLine c ''Agent '' (i_Str inst) '' completed task: '' task @ [CHR 0x0A])))
           (returnM (ip + 1 + n, lb)))))))"
    by (intro from_kept [OF \<open>J s\<close>]) (auto simp: spawnDepthCheck_def intro!: keep c nested)
qed

end

end
