(* ===== verification/MachineLaws.thy ===== *)
theory MachineLaws
  imports KeptIO
begin

text \<open>
  What holds of every run of the virtual machine: it ends within its instruction limit, never
  exceeds the instruction and memory limits, leaves variables and call depth as it found them, and
  performs only effects that the grants of the machine that performs them authorise; for programs
  and arguments, that are also authorised by the grants of the root machine.
\<close>

subsection \<open>The loop\<close>

context machine
begin

lemma kept_control:
  assumes "map_of controlTable (i_Op inst) = Some h" "ok c" "cleared c (i_Op inst)"
    "\<And>c' is. ok c' \<Longrightarrow> kept J R E (nested c' is)"
  shows "kept J R E (h nested c insts ip lb inst)"
  using map_of_SomeD [OF assms(1)] assms(2-4)
  by (auto simp: controlTable_def intro!: kept_jumps kept_loops kept_opCall kept_opTryLet kept_opSpawn kept_opSpawnAgent)

lemma models_cleared:
  "cleared c (i_Op inst) \<Longrightarrow> i_Op inst \<in> {OpNeuralCircuit, OpEphemeralCircuit, OpAchieve, OpConfidence, OpLlmGenerate} \<Longrightarrow>
    HasCoarse (c_caps c) Network"
  by (auto simp: cleared_def Registry_gates)

lemma kept_data:
  assumes "map_of dataTable (i_Op inst) = Some h" "ok c" "cleared c (i_Op inst)"
  shows "kept J R E (h c ip inst)"
  using map_of_SomeD [OF assms(1)] assms(2, 3)
  by (auto simp: dataTable_def intro: keep kept_models models_cleared)

lemma kept_runData: "ok c \<Longrightarrow> cleared c (i_Op inst) \<Longrightarrow> kept J R E (runData c ip inst)"
  by (auto simp: runData_def intro!: kept_data keep split: option.splits)

lemma kept_dispatch:
  assumes "ok c" "cleared c (i_Op inst)" "\<And>c' is. ok c' \<Longrightarrow> kept J R E (nested c' is)"
  shows "kept J R E (dispatch nested c insts ip lb inst)"
  unfolding dispatch_def
  using assms by (auto intro!: kept_control kept_bind [OF kept_runData] kept_return split: option.splits)

end

text \<open>A relation that the instruction counter keeps, too, is kept by whole runs.\<close>

locale machine_run = machine +
  assumes R_tick: "ok c \<Longrightarrow> m_executed s < instructionLimit c \<Longrightarrow> R s (s\<lparr>m_executed := m_executed s + 1\<rparr>)"
    and E_fuel: "E PFuel"
begin

lemma kept_tick: "ok c \<Longrightarrow> kept J R E (tick c op)"
  by (rule kept_from)
    (auto simp: tick_def keptFrom_def monad_defs raiseHere_def raise_def R_refl E_panic intro: R_tick)

lemma kept_gate: "ok c \<Longrightarrow> kept J R E (gate c ip inst)"
  by (auto simp: gate_def intro!: keep kept_tick kept_modify R_ip)

lemma kept_step:
  assumes "ok c" "\<And>c' is. ok c' \<Longrightarrow> kept J R E (nested c' is)"
  shows "kept J R E (step nested c insts ip lb inst)"
proof (rule kept_from)
  fix s assume s: "J s"
  from kept_gate [OF assms(1)] s have g: "keptFrom s R E (gate c ip inst)" by (auto intro: from_kept)
  show "keptFrom s R E (step nested c insts ip lb inst)"
  proof (cases "gate c ip inst s")
    case (Pair r t)
    with g s have "R s t" "J t" by (auto simp: keptFrom_def intro: J_kept)
    moreover have "cleared c (i_Op inst)" if "r = Inr u" for u using gate_clears [of c ip inst s u] Pair that by simp
    ultimately show ?thesis
      using g Pair kept_dispatch [OF assms(1) _ assms(2), where inst = inst and insts = insts and ip = ip and lb = lb]
      by (cases r) (auto simp: step_def keptFrom_def bindM_def kept_def intro: R_trans)
  qed
qed

theorem kept_run: "ok c \<Longrightarrow> kept J R E (run n c insts ip lb)"
proof (induction n arbitrary: c insts ip lb)
  case 0
  show ?case by (simp add: kept_def panicM_def R_refl E_fuel)
next
  case (Suc n)
  have "kept J R E (step (\<lambda>c' is. run n c' is 0 []) c insts ip lb inst)" for inst
    by (rule kept_step [OF Suc.prems Suc.IH])
  with Suc show ?case
    by (auto simp: indexPanic_def intro!: kept_bind kept_modify R_ip kept_panic kept_return split: prod.splits)
qed

end

subsection \<open>Termination\<close>

text \<open>Between two states of a run the counter of executed instructions only grows; everything but
  running out of fuel may end it.\<close>

interpretation counting: machine "\<lambda>s. k \<le> m_executed s" "\<lambda>s t. m_executed s \<le> m_executed t" "\<lambda>p. p \<noteq> PFuel"
  "\<lambda>c. instructionLimit c = L"
  by unfold_locales (auto simp: leaveCall_def instructionLimit_def)

lemma check_gates:
  "check (checkDeadline c ip op) (\<lambda>_ _. True) harmless"
  "check (if b then requireCapability c cap op else returnM ()) (\<lambda>_ _. True) harmless"
  "check (if b then preauthorizeFetch c inst else returnM ()) (\<lambda>_ _. True) harmless"
  by (auto simp: check_def checkDeadline_def preauthorizeFetch_def requireFetch_def failFetch_def Let_def
      requireCapability_def osM_def denied_def raiseHere_def raise_def monad_defs split: sum.splits)

lemma check_result: "check m A P \<Longrightarrow> m s = (r, t) \<Longrightarrow> t = s \<and> (\<forall>p. r = Inl p \<longrightarrow> P p)"
  by (auto simp: check_def dest!: spec [of _ s])

lemma gate_counts:
  assumes "gate c ip inst s = (r, t)"
  shows "r \<noteq> Inl PFuel \<and> m_executed s \<le> m_executed t \<and>
    ((\<exists>u. r = Inr u) \<longrightarrow> m_executed t = m_executed s + 1 \<and> m_executed s < instructionLimit c)"
proof -
  let ?s = "s\<lparr>m_ip := ip\<rparr>"
  let ?checks = "thenM (if op_Capability (RegistrySpec (i_Op inst)) \<noteq> None_cap
      then requireCapability c (op_Capability (RegistrySpec (i_Op inst))) (i_Op inst) else returnM ())
    (if i_Op inst = OpFetch \<or> i_Op inst = OpHttpRequest then preauthorizeFetch c inst else returnM ())"
  have checks: "check ?checks (\<lambda>_ _. True) harmless"
    by (rule check_bind_all [OF check_gates(2, 3)])
  obtain r1 t1 where d: "checkDeadline c ip (i_Op inst) ?s = (r1, t1)" by fastforce
  from check_result [OF check_gates(1) d] have t1: "t1 = ?s" "\<And>p. r1 = Inl p \<Longrightarrow> harmless p" by auto
  obtain r2 t2 where k: "tick c (i_Op inst) ?s = (r2, t2)" by fastforce
  then have t2: "m_executed s \<le> m_executed t2" "\<And>p. r2 = Inl p \<Longrightarrow> harmless p"
    "\<And>u. r2 = Inr u \<Longrightarrow> m_executed t2 = m_executed s + 1 \<and> m_executed s < instructionLimit c"
    by (auto simp: tick_def monad_defs raiseHere_def raise_def split: if_splits)
  obtain r3 t3 where c: "?checks t2 = (r3, t3)" by fastforce
  from check_result [OF checks c] have t3: "t3 = t2" "\<And>p. r3 = Inl p \<Longrightarrow> harmless p" by auto
  have g: "gate c ip inst s =
    (case r1 of Inl p \<Rightarrow> (Inl p, t1) | Inr _ \<Rightarrow> (case r2 of Inl p \<Rightarrow> (Inl p, t2) | Inr _ \<Rightarrow> (r3, t3)))"
    unfolding gate_def bindM_def [of "modifyM _"] modifyM_def prod.case sum.case
      bindM_def [of "checkDeadline _ _ _"] d
    using k c t1(1) by (cases r1) (auto simp: bindM_def [of "tick _ _"] split: sum.splits)
  show ?thesis
    using assms t1 t2 t3 unfolding g by (cases r1; cases r2) auto
qed

text \<open>Every instruction uses one unit of the budget before anything nested runs.\<close>

lemma run_enough_fuel:
  assumes "instructionLimit c = L" "nat (L - m_executed s) < n"
  shows "fst (run n c insts ip lb s) \<noteq> Inl PFuel \<and> m_executed s \<le> m_executed (snd (run n c insts ip lb s))"
  using assms
proof (induction n arbitrary: c insts ip lb s)
  case (Suc n)
  let ?nested = "\<lambda>c' is. run n c' is 0 []"
  show ?case
  proof (cases "0 \<le> ip \<and> ip < int (length insts)")
    case False
    then show ?thesis by (auto simp: monad_defs indexPanic_def)
  next
    case True
    let ?i = "insts ! nat ip"
    obtain r t where g: "gate c ip ?i s = (r, t)" by fastforce
    show ?thesis
    proof (cases r)
      case (Inl p)
      with True g gate_counts [OF g] show ?thesis by (auto simp: step_def bindM_def)
    next
      case (Inr u)
      with gate_counts [OF g] Suc.prems(1) have t: "m_executed t = m_executed s + 1" "m_executed s < L" by auto
      with Suc.prems(2) have n: "nat (L - k) < n" if "m_executed t \<le> k" for k using that by linarith
      have nested: "kept (\<lambda>s. m_executed t \<le> m_executed s) (\<lambda>s t. m_executed s \<le> m_executed t) (\<lambda>p. p \<noteq> PFuel) (run n c' is j lb')"
        if "instructionLimit c' = L" for c' "is" j lb'
        unfolding kept_def using Suc.IH [OF that n] by blast
      have "cleared c (i_Op ?i)" using gate_clears [of c ip ?i s u] g Inr by simp
      from counting.kept_dispatch [OF Suc.prems(1) this nested]
      have d: "kept (\<lambda>s. m_executed t \<le> m_executed s) (\<lambda>s t. m_executed s \<le> m_executed t) (\<lambda>p. p \<noteq> PFuel)
          (dispatch ?nested c insts ip lb ?i)" .
      have "kept (\<lambda>s. m_executed t \<le> m_executed s) (\<lambda>s t. m_executed s \<le> m_executed t) (\<lambda>p. p \<noteq> PFuel)
          (bindM (dispatch ?nested c insts ip lb ?i) (\<lambda>(ip', lb'). run n c insts ip' lb'))"
        by (rule counting.kept_bind [OF d]) (auto intro: nested [OF Suc.prems(1)])
      with True g Inr t show ?thesis
        by (auto simp: step_def bindM_def kept_def dest!: spec [of _ t])
    qed
  qed
qed simp

subsection \<open>Limits and frames\<close>

definition inBounds :: "int \<Rightarrow> int \<Rightarrow> vmstate \<Rightarrow> vmstate \<Rightarrow> bool" where
  "inBounds L M s t \<longleftrightarrow>
     m_executed s \<le> m_executed t \<and> m_executed t \<le> max L (m_executed s)
     \<and> m_memoryBytes s \<le> m_memoryBytes t \<and> m_memoryBytes t \<le> max M (m_memoryBytes s)
     \<and> length (m_env t) = length (m_env s) \<and> m_callDepth t = m_callDepth s"

interpretation bounded: machine_run "\<lambda>_. True" "inBounds L M" "\<lambda>_. True"
  "\<lambda>c. instructionLimit c = L \<and> MaxMemoryBytes (c_limits c) = M"
  by unfold_locales (auto simp: inBounds_def leaveCall_def instructionLimit_def)

text \<open>C3. A program run ends, and within its limits: whatever the program (endless loops and
  recursion included), the arguments, the grants and the answers of the host, the fuel that
  \<open>runBytecode\<close> supplies, one unit more than the instruction limit, is enough, so the result is never
  the out-of-fuel panic of the model but what the program does; on every way out at most the
  permitted number of instructions was executed and of bytes was charged.\<close>

theorem runBytecode_terminates:
  "fst (run (programFuel c) c (p_Main prog) 0 [] initialState) \<noteq> Inl PFuel \<and>
   m_executed (snd (run (programFuel c) c (p_Main prog) 0 [] initialState)) \<le> max 0 (instructionLimit c) \<and>
   m_memoryBytes (snd (run (programFuel c) c (p_Main prog) 0 [] initialState)) \<le> max 0 (MaxMemoryBytes (c_limits c))"
proof (intro conjI)
  show "fst (run (programFuel c) c (p_Main prog) 0 [] initialState) \<noteq> Inl PFuel"
    by (rule run_enough_fuel [THEN conjunct1, OF refl]) (simp add: programFuel_def initialState_def)
  have "inBounds (instructionLimit c) (MaxMemoryBytes (c_limits c)) initialState
      (snd (run (programFuel c) c (p_Main prog) 0 [] initialState))"
    using bounded.kept_run [of c] by (auto simp: kept_def)
  then show "m_executed (snd (run (programFuel c) c (p_Main prog) 0 [] initialState)) \<le> max 0 (instructionLimit c)"
    "m_memoryBytes (snd (run (programFuel c) c (p_Main prog) 0 [] initialState)) \<le> max 0 (MaxMemoryBytes (c_limits c))"
    by (auto simp: inBounds_def initialState_def)
qed

text \<open>C24. Variables and call depth are as before on every way out of a piece of code, errors and
  exits included: no frame of a call, of a caught error or of an agent is left behind.\<close>

theorem run_frames:
  "length (m_env (snd (run n c insts ip lb s))) = length (m_env s) \<and>
   m_callDepth (snd (run n c insts ip lb s)) = m_callDepth s"
  using bounded.kept_run [of c "instructionLimit c" "MaxMemoryBytes (c_limits c)" n insts ip lb]
  by (auto simp: kept_def inBounds_def)

subsection \<open>Authority\<close>

text \<open>Grants that come from \<open>g\<close> by a chain of attenuations.\<close>

inductive descends :: "Grants \<Rightarrow> Grants \<Rightarrow> bool" where
  self: "descends g g"
| child: "descends g parent \<Longrightarrow> Attenuate os parent req = Inr caps \<Longrightarrow> descends g caps"

text \<open>Each effect, newest first, is authorised by the grants it was performed with.\<close>

fun lawful :: "host \<Rightarrow> Grants \<Rightarrow> event list \<Rightarrow> bool" where
  "lawful h g [] = True"
| "lawful h g (ev # past) =
     (descends g (ev_caps ev) \<and> authorised h (ev_caps ev) past (ev_effect ev) \<and> lawful h g past)"

interpretation lawfulness: machine_run "\<lambda>_. True" "\<lambda>s t. lawful h g (m_events s) \<longrightarrow> lawful h g (m_events t)"
  "\<lambda>_. True" "\<lambda>c. c_host c = h \<and> descends g (c_caps c)"
  by unfold_locales (auto simp: leaveCall_def intro: descends.child)

lemma run_lawful:
  "lawful (c_host c) (c_caps c) (m_events s) \<Longrightarrow> lawful (c_host c) (c_caps c) (m_events (snd (run n c insts ip lb s)))"
  using lawfulness.kept_run [of c "c_host c" "c_caps c" n insts ip lb] by (simp add: kept_def descends.self)

lemma lawful_at: "lawful h g (later @ ev # past) \<Longrightarrow> descends g (ev_caps ev) \<and> authorised h (ev_caps ev) past (ev_effect ev)"
  by (induction later) auto

lemma descends_exec:
  "descends g caps \<Longrightarrow> AuthorizeExec os caps p args = Inr (p, x) \<Longrightarrow> \<exists>y. AuthorizeExec os g p args = Inr (p, y)"
proof (induction arbitrary: x rule: descends.induct)
  case (child g parent os' req caps)
  from exec_delegated [OF child.hyps(2) child.prems] child.IH show ?case by blast
qed blast

lemma descends_coarse: "descends g caps \<Longrightarrow> HasCoarse caps cls \<Longrightarrow> cls \<in> set AllCaps \<Longrightarrow> HasCoarse g cls"
  by (induction rule: descends.induct) (use coarse.delegated in blast)+

lemma descends_env: "descends g caps \<Longrightarrow> envHolds caps name \<Longrightarrow> envHolds g name"
  by (induction rule: descends.induct) (use env.delegated in blast)+

subsection \<open>A run\<close>

text \<open>A host without links on which every action succeeds, and a program whose agent runs a program.\<close>

definition quietHost :: host where
  "quietHost = \<lparr>h_os = (\<lambda>_. \<lparr>cwd = ''/'', EvalSymlinks = Inr, LstatOk = (\<lambda>_. True)\<rparr>), h_do = (\<lambda>_ _. ROk ''ok''),
     h_expired = (\<lambda>_ _. False), h_sleepOver = (\<lambda>_ _. False), h_getenv = (\<lambda>_ _. None), h_url = (\<lambda>_. None),
     h_badRequest = (\<lambda>_ _. None), h_regex = (\<lambda>_ _. Inr True), h_sha256 = (\<lambda>s. s),
     h_storeDecode = (\<lambda>_. Inr []), h_storeEncode = (\<lambda>_. Inr []),
     h_unicode = \<lparr>uni_letter = (\<lambda>_. False), uni_digit = (\<lambda>_. False), uni_print = (\<lambda>_. True)\<rparr>\<rparr>"

definition load :: "val \<Rightarrow> BCInstruction" where
  "load v = (instr OpLoadConst)\<lparr>i_Value := v\<rparr>"

definition agentProgram :: BCProgram where
  "agentProgram = \<lparr>p_modelAdapter = False, p_Version = 1, p_Functions = [], p_Main =
     [load (VStr ''list''),
      (instr OpSpawnAgent)\<lparr>i_Str := ''a'', i_Str2 := ''process:exec=/bin/ls *'', i_Int := 3\<rparr>,
      load (VStr ''/bin/ls''), load (VStr ''x''), (instr OpExec)\<lparr>i_Int := 1\<rparr>]\<rparr>"

definition agentCtx :: ctx where
  "agentCtx = programCtx agentProgram [] DefaultExecutionPolicy [''process'', ''process:exec=/bin/ls *''] quietHost"

definition agentEvents :: "event list" where
  "agentEvents = m_events (snd (run 9 agentCtx (p_Main agentProgram) 0 [] initialState))"

lemma agentEvents_exec:
  "length agentEvents = 3 \<and>
   agentEvents ! 1 = \<lparr>ev_caps = [''process:exec=/bin/ls *''], ev_effect = EExec ''/bin/ls'' [''x''] []\<rparr>"
  by code_simp

lemma agentEvents_split:
  "agentEvents = take 1 agentEvents @
    \<lparr>ev_caps = [''process:exec=/bin/ls *''], ev_effect = EExec ''/bin/ls'' [''x''] []\<rparr> # drop 2 agentEvents"
  using id_take_nth_drop [of 1 agentEvents] agentEvents_exec by (simp add: numeral_2_eq_2)

text \<open>C2. No ambient authority: every effect a run performs, at any depth of calls and agents, was
  authorised by the grants of the machine that performed it, in the world as it was at that moment;
  and these grants come from the grants of the run by a chain of attenuations.\<close>

theorem effects_authorised:
  assumes "lawful (c_host c) (c_caps c) (m_events s)"
    and "m_events (snd (run n c insts ip lb s)) = later @ ev # past"
  shows "descends (c_caps c) (ev_caps ev) \<and> authorised (c_host c) (ev_caps ev) past (ev_effect ev)"
  using run_lawful [OF assms(1), of n insts ip lb] assms(2) by (auto dest: lawful_at)

lemma effects_authorised_witness:
  "descends (c_caps agentCtx) [''process:exec=/bin/ls *''] \<and>
   authorised (c_host agentCtx) [''process:exec=/bin/ls *''] (drop 2 agentEvents) (EExec ''/bin/ls'' [''x''] [])"
  using effects_authorised [OF _ agentEvents_split [unfolded agentEvents_def]]
  by (simp add: agentEvents_def initialState_def)

text \<open>C6. Delegation never amplifies: a program an agent runs at any depth is one, with these very
  arguments, that the grants of the root machine let run.\<close>

theorem agents_cannot_amplify_exec:
  assumes "lawful (c_host c) (c_caps c) (m_events s)"
    and "m_events (snd (run n c insts ip lb s)) = later @ \<lparr>ev_caps = caps, ev_effect = EExec p args env\<rparr> # past"
  shows "\<exists>g. AuthorizeExec (h_os (c_host c) past) (c_caps c) p args = Inr (p, g)"
proof -
  from run_lawful [OF assms(1), of n insts ip lb] assms(2)
  have "descends (c_caps c) caps" "authorised (c_host c) caps past (EExec p args env)"
    by (auto dest: lawful_at)
  then show ?thesis by (auto simp: authorised_def intro: descends_exec)
qed

lemma agents_cannot_amplify_exec_witness:
  "\<exists>g. AuthorizeExec (h_os (c_host agentCtx) (drop 2 agentEvents)) (c_caps agentCtx) ''/bin/ls'' [''x''] = Inr (''/bin/ls'', g)"
  using agents_cannot_amplify_exec [OF _ agentEvents_split [unfolded agentEvents_def]]
  by (simp add: agentEvents_def initialState_def)

end
