(* ===== verification/Routes.thy ===== *)
theory Routes
  imports Values GoPath
begin

text \<open>
  The request surface of the HTTP server (\<open>internal/httpreq/httpreq.go\<close>): route patterns, their
  matching, the registration and dispatch of routes, and the reads a handler makes of its request.
  A handler is of any type. The inner \<open>http.ServeMux\<close> is a parameter where it decides: whether it
  accepts a pattern.
\<close>

text \<open>\<open>Error\<close>: code and message.\<close>

record req_error =
  re_Code :: string
  re_Message :: string

definition typeError :: "string \<Rightarrow> req_error" where
  "typeError msg = \<lparr>re_Code = ''TYPE_ERROR'', re_Message = msg\<rparr>"

definition runtimeError :: "string \<Rightarrow> req_error" where
  "runtimeError msg = \<lparr>re_Code = ''RUNTIME_ERROR'', re_Message = msg\<rparr>"

definition req_error_text :: "req_error \<Rightarrow> string" where
  "req_error_text e = re_Code e @ '': '' @ re_Message e"

subsection \<open>Patterns\<close>

record segment =
  sg_literal :: string
  sg_param :: string

record Pattern =
  pt_Raw :: string
  pt_Parametric :: bool
  pt_clean :: string
  pt_segments :: "segment list"

definition cleanRoutePath :: "string \<Rightarrow> string" where
  "cleanRoutePath p =
     (if p = [] then ''/''
      else let p' = (if hd p \<noteq> CHR ''/'' then CHR ''/'' # p else p);
               trailing = length p' > 1 \<and> hasSuffix p' ''/'';
               cleaned = Clean p'
           in if trailing \<and> cleaned \<noteq> ''/'' then cleaned @ ''/'' else cleaned)"

definition captureName :: "string \<Rightarrow> string option" where
  "captureName part =
     (if length part < 3 \<or> hd part \<noteq> CHR ''{'' \<or> last part \<noteq> CHR ''}'' then None
      else let name = butlast (tl part) in
        if containsAny name ''{}'' then None else Some name)"

text \<open>A name with a byte above 127 has a rune that is refused, so bytes are enough.\<close>

definition paramStart :: "char \<Rightarrow> bool" where
  "paramStart c \<longleftrightarrow> c = CHR ''_'' \<or> isAsciiLetter (byte c)"

definition validParamName :: "string \<Rightarrow> bool" where
  "validParamName name \<longleftrightarrow>
     (case name of [] \<Rightarrow> False
      | c # cs \<Rightarrow> paramStart c \<and> list_all (\<lambda>d. paramStart d \<or> isAsciiDigit (byte d)) cs)"

text \<open>The loop of \<open>ParseRoute\<close> over the parts, with the parameters seen so far.\<close>

fun routeSegments :: "unicode \<Rightarrow> string \<Rightarrow> string list \<Rightarrow> string list \<Rightarrow> req_error + segment list" where
  "routeSegments u path seen [] = Inr []"
| "routeSegments u path seen (part # parts) =
     (if \<not> contains part ''{'' \<and> \<not> contains part ''}'' then
        rbind (routeSegments u path seen parts) (\<lambda>segs. Inr (\<lparr>sg_literal = part, sg_param = []\<rparr> # segs))
      else case captureName part of
        None \<Rightarrow> Inl (typeError (''invalid route pattern '' @ quote u path @ '': '' @ quote u part @ '' must be a {name} segment''))
      | Some name \<Rightarrow>
          if \<not> validParamName name
          then Inl (typeError (''invalid route pattern '' @ quote u path @ '': '' @ quote u part @ '' must be a {name} segment''))
          else if name \<in> set seen
          then Inl (typeError (''invalid route pattern '' @ quote u path @ '': duplicate parameter '' @ quote u name))
          else rbind (routeSegments u path (name # seen) parts) (\<lambda>segs. Inr (\<lparr>sg_literal = [], sg_param = name\<rparr> # segs)))"

definition ParseRoute :: "unicode \<Rightarrow> string \<Rightarrow> req_error + Pattern" where
  "ParseRoute u path =
     (if path = [] then Inl (typeError ''route path must not be empty'')
      else let cleaned = cleanRoutePath path in
        rbind (routeSegments u path [] (splitOn ''/'' cleaned)) (\<lambda>segs.
          Inr \<lparr>pt_Raw = path, pt_Parametric = list_ex (\<lambda>s. sg_param s \<noteq> []) segs,
               pt_clean = cleaned, pt_segments = segs\<rparr>))"

text \<open>The loop of \<open>match\<close> over the segments and the parts, which are equally many.\<close>

fun matchSegments :: "segment list \<Rightarrow> string list \<Rightarrow> string strmap \<Rightarrow> string strmap option" where
  "matchSegments (seg # segs) (part # parts) params =
     (if sg_param seg \<noteq> [] then
        (if part = [] then None else matchSegments segs parts (put (sg_param seg) part params))
      else if part \<noteq> sg_literal seg then None
      else matchSegments segs parts params)"
| "matchSegments _ _ params = Some params"

definition matchPath :: "Pattern \<Rightarrow> string \<Rightarrow> string strmap option" where
  "matchPath p path =
     (if \<not> pt_Parametric p then None
      else let parts = splitOn ''/'' path in
        if length parts \<noteq> length (pt_segments p) then None
        else matchSegments (pt_segments p) parts [])"

definition Match :: "Pattern \<Rightarrow> string \<Rightarrow> string strmap option" where
  "Match p requestPath = matchPath p (cleanRoutePath requestPath)"

definition matchExact :: "Pattern \<Rightarrow> string \<Rightarrow> string strmap option" where
  "matchExact p requestPath = matchPath p requestPath"

definition skeleton :: "Pattern \<Rightarrow> string" where
  "skeleton p = join ''/'' (map (\<lambda>s. if sg_param s \<noteq> [] then ''{}'' else sg_literal s) (pt_segments p))"

subsection \<open>The server\<close>

record 'h Server =
  sv_mux :: "(string \<times> 'h) list"
  sv_literals :: "'h strmap"
  sv_patterns :: "(Pattern \<times> 'h) list"
  sv_skeletons :: "string list"
  sv_fallback :: "'h option"

definition NewServer :: "'h Server" where
  "NewServer = \<lparr>sv_mux = [], sv_literals = [], sv_patterns = [], sv_skeletons = [], sv_fallback = None\<rparr>"

text \<open>The mux panics on a pattern it cannot parse; that is the error of code \<open>panic\<close>.\<close>

definition muxPanic :: req_error where
  "muxPanic = \<lparr>re_Code = ''panic'', re_Message = ''http: invalid pattern''\<rparr>"

definition Handle :: "unicode \<Rightarrow> (string \<Rightarrow> bool) \<Rightarrow> 'h Server \<Rightarrow> string \<Rightarrow> 'h option \<Rightarrow> req_error + 'h Server" where
  "Handle u muxAccepts s routePath handler =
     (case handler of None \<Rightarrow> Inl (runtimeError ''route handler is missing'')
      | Some h \<Rightarrow>
        if routePath = ''*'' then
          (if sv_fallback s \<noteq> None then Inl (runtimeError (''duplicate fallback route '' @ quote u routePath))
           else Inr (s\<lparr>sv_fallback := Some h\<rparr>))
        else rbind (ParseRoute u routePath) (\<lambda>pattern.
          if \<not> pt_Parametric pattern then
            (if lookup (sv_literals s) (pt_clean pattern) \<noteq> None
             then Inl (runtimeError (''duplicate route '' @ quote u routePath))
             else if \<not> muxAccepts routePath then Inl muxPanic
             else Inr (s\<lparr>sv_literals := put (pt_clean pattern) h (sv_literals s), sv_mux := sv_mux s @ [(routePath, h)]\<rparr>))
          else if skeleton pattern \<in> set (sv_skeletons s)
          then Inl (runtimeError (''duplicate path pattern '' @ quote u routePath))
          else Inr (s\<lparr>sv_skeletons := skeleton pattern # sv_skeletons s,
                      sv_patterns := sv_patterns s @ [(pattern, h)]\<rparr>)))"

text \<open>\<open>url.PathUnescape\<close> and \<open>url.QueryUnescape\<close>, which differ in the plus sign.\<close>

definition hexValue :: "char \<Rightarrow> nat option" where
  "hexValue c =
     (let b = byte c in
      if 48 \<le> b \<and> b \<le> 57 then Some (b - 48)
      else if 97 \<le> b \<and> b \<le> 102 then Some (b - 87)
      else if 65 \<le> b \<and> b \<le> 70 then Some (b - 55) else None)"

fun unescapeURL :: "bool \<Rightarrow> string \<Rightarrow> string option" where
  "unescapeURL blanks [] = Some []"
| "unescapeURL blanks (c # s) =
     (if c = CHR ''%'' then
        (case s of a # b # t \<Rightarrow>
           (case (hexValue a, hexValue b) of
              (Some x, Some y) \<Rightarrow> map_option (\<lambda>r. chr (16 * x + y) # r) (unescapeURL blanks t)
            | _ \<Rightarrow> None)
         | _ \<Rightarrow> None)
      else if blanks \<and> c = CHR ''+'' then map_option (\<lambda>r. CHR '' '' # r) (unescapeURL blanks s)
      else map_option (\<lambda>r. c # r) (unescapeURL blanks s))"

definition PathUnescape :: "string \<Rightarrow> string option" where
  "PathUnescape s = unescapeURL False s"

fun unescapeParams :: "string strmap \<Rightarrow> string strmap option" where
  "unescapeParams [] = Some []"
| "unescapeParams ((k, v) # m) =
     (case PathUnescape v of None \<Rightarrow> None | Some d \<Rightarrow> map_option (\<lambda>r. (k, d) # r) (unescapeParams m))"

text \<open>What the server reads of a request; the header names are canonical, as \<open>net/http\<close> keeps them.\<close>

record Request =
  rq_Method :: string
  rq_Path :: string
  rq_EscapedPath :: string
  rq_RawQuery :: string
  rq_Header :: "(string \<times> string list) list"
  rq_params :: "string strmap option"
  rq_id :: "string option"

datatype 'h served = Handled 'h Request | ToMux

definition WithParams :: "Request \<Rightarrow> string strmap \<Rightarrow> Request" where
  "WithParams r params = r\<lparr>rq_params := Some params\<rparr>"

definition WithRequestID :: "Request \<Rightarrow> string \<Rightarrow> Request" where
  "WithRequestID r i = r\<lparr>rq_id := Some i\<rparr>"

definition patternMatch :: "bool \<Rightarrow> string \<Rightarrow> Pattern \<Rightarrow> string strmap option" where
  "patternMatch exact cleaned p =
     (if exact then Option.bind (matchExact p cleaned) unescapeParams else Match p cleaned)"

fun firstMatch :: "bool \<Rightarrow> string \<Rightarrow> (Pattern \<times> 'h) list \<Rightarrow> ('h \<times> string strmap) option" where
  "firstMatch exact cleaned [] = None"
| "firstMatch exact cleaned ((p, h) # regs) =
     (case patternMatch exact cleaned p of Some params \<Rightarrow> Some (h, params) | None \<Rightarrow> firstMatch exact cleaned regs)"

definition ServeHTTP :: "'h Server \<Rightarrow> Request \<Rightarrow> 'h served" where
  "ServeHTTP s r =
     (let exact = (sv_fallback s \<noteq> None);
          cleaned = (if exact then rq_EscapedPath r else cleanRoutePath (rq_Path r))
      in case lookup (sv_literals s) cleaned of
           Some h \<Rightarrow> Handled h r
         | None \<Rightarrow> (case firstMatch exact cleaned (sv_patterns s) of
             Some (h, params) \<Rightarrow> Handled h (WithParams r params)
           | None \<Rightarrow> (case sv_fallback s of Some h \<Rightarrow> Handled h r | None \<Rightarrow> ToMux)))"

subsection \<open>Reads\<close>

text \<open>The receiver is a request, or a value of another type, given by the name of its type.\<close>

definition readRequest :: "string \<Rightarrow> string + Request \<Rightarrow> req_error + Request" where
  "readRequest op recv =
     (case recv of Inr r \<Rightarrow> Inr r
      | Inl t \<Rightarrow> Inl (typeError (op @ '' expected *http.Request, got '' @ t)))"

definition readName :: "string \<Rightarrow> val \<Rightarrow> req_error + string" where
  "readName op raw =
     (case raw of
        VStr name \<Rightarrow> if name = [] then Inl (typeError (op @ '' expected non-empty string name'')) else Inr name
      | _ \<Rightarrow> Inl (typeError (op @ '' expected non-empty string name, got '' @ typeName raw)))"

text \<open>\<open>url.ParseQuery\<close> keeps the fields it can read, \<open>Get\<close> the first value of the key.\<close>

definition queryField :: "string \<Rightarrow> (string \<times> string) option" where
  "queryField f =
     (if f = [] \<or> contains f '';'' then None
      else let (k, v) = (case indexOf f ''='' of None \<Rightarrow> (f, []) | Some i \<Rightarrow> (take i f, drop (Suc i) f)) in
        case (unescapeURL True k, unescapeURL True v) of
          (Some k', Some v') \<Rightarrow> Some (k', v')
        | _ \<Rightarrow> None)"

definition queryGet :: "string \<Rightarrow> string \<Rightarrow> string" where
  "queryGet raw key =
     (case map_of (List.map_filter queryField (splitOn ''&'' raw)) key of None \<Rightarrow> [] | Some v \<Rightarrow> v)"

definition Query :: "string + Request \<Rightarrow> val \<Rightarrow> req_error + string" where
  "Query recv name =
     rbind (readRequest ''req_query'' recv) (\<lambda>req.
     rbind (readName ''req_query'' name) (\<lambda>key. Inr (queryGet (rq_RawQuery req) key)))"

text \<open>\<open>textproto.CanonicalMIMEHeaderKey\<close>: a name with a byte that no header name has is left as it is.\<close>

definition headerByte :: "char \<Rightarrow> bool" where
  "headerByte c \<longleftrightarrow> isAsciiLetter (byte c) \<or> isAsciiDigit (byte c) \<or> c \<in> set ''!#$%&*+-.^_`|~'' \<or> byte c = 0x27"

fun canonicalBytes :: "bool \<Rightarrow> string \<Rightarrow> string" where
  "canonicalBytes up [] = []"
| "canonicalBytes up (c # s) =
     (if up \<and> 97 \<le> byte c \<and> byte c \<le> 122 then chr (byte c - 32)
      else if \<not> up \<and> 65 \<le> byte c \<and> byte c \<le> 90 then chr (byte c + 32) else c)
     # canonicalBytes (c = CHR ''-'') s"

definition canonicalHeaderKey :: "string \<Rightarrow> string" where
  "canonicalHeaderKey k = (if list_all headerByte k then canonicalBytes True k else k)"

definition Header :: "string + Request \<Rightarrow> val \<Rightarrow> req_error + string" where
  "Header recv name =
     rbind (readRequest ''req_header'' recv) (\<lambda>req.
     rbind (readName ''req_header'' name) (\<lambda>key.
     Inr (case map_of (rq_Header req) (canonicalHeaderKey key) of Some (v # _) \<Rightarrow> v | _ \<Rightarrow> [])))"

definition Path :: "string + Request \<Rightarrow> val \<Rightarrow> req_error + string" where
  "Path recv name =
     rbind (readRequest ''req_path'' recv) (\<lambda>req.
     rbind (readName ''req_path'' name) (\<lambda>key.
     Inr (case rq_params req of None \<Rightarrow> []
          | Some params \<Rightarrow> (case lookup params key of None \<Rightarrow> [] | Some v \<Rightarrow> v))))"

definition RequestID :: "string + Request \<Rightarrow> req_error + string" where
  "RequestID recv =
     rbind (readRequest ''req_id'' recv) (\<lambda>req. Inr (case rq_id req of None \<Rightarrow> [] | Some i \<Rightarrow> i))"

end
