(* ===== verification/RouteLaws.thy ===== *)
theory RouteLaws
  imports Routes
begin

text \<open>
  What routing promises: a pattern matches exactly the paths that are made from it with a value for
  each parameter, the captures are those values, and a server built by registrations hands a
  request to the handler whose route its path is.
\<close>

text \<open>The parameters of a pattern in order, and the path made from it with values for them.\<close>

definition paramNames :: "Pattern \<Rightarrow> string list" where
  "paramNames p = filter (\<lambda>n. n \<noteq> []) (map sg_param (pt_segments p))"

definition instantiate :: "Pattern \<Rightarrow> (string \<Rightarrow> string) \<Rightarrow> string" where
  "instantiate p \<sigma> = join ''/'' (map (\<lambda>s. if sg_param s \<noteq> [] then \<sigma> (sg_param s) else sg_literal s) (pt_segments p))"

subsection \<open>Parsing\<close>

lemma captureName_nonempty: "captureName part = Some name \<Longrightarrow> name \<noteq> []"
  by (auto simp: captureName_def Let_def length_Suc_conv split: if_splits dest!: arg_cong [of _ _ length])

lemma validParamName_nonempty [simp]: "\<not> validParamName []"
  by (simp add: validParamName_def)

text \<open>What the loop makes of the parts: as many segments, literal texts among the parts, and fresh,
  distinct, valid names.\<close>

definition goodSegments :: "string list \<Rightarrow> string list \<Rightarrow> segment list \<Rightarrow> bool" where
  "goodSegments seen parts segs \<longleftrightarrow>
     length segs = length parts \<and> (\<forall>s \<in> set segs. sg_param s = [] \<longrightarrow> sg_literal s \<in> set parts) \<and>
     distinct (filter (\<lambda>n. n \<noteq> []) (map sg_param segs)) \<and>
     (\<forall>s \<in> set segs. sg_param s \<noteq> [] \<longrightarrow> sg_param s \<notin> set seen \<and> validParamName (sg_param s))"

lemma routeSegments_good: "routeSegments u path seen parts = Inr segs \<Longrightarrow> goodSegments seen parts segs"
proof (induction parts arbitrary: seen segs)
  case (Cons part parts)
  show ?case
  proof (cases "\<not> contains part ''{'' \<and> \<not> contains part ''}''")
    case True
    with Cons.prems obtain ss where "routeSegments u path seen parts = Inr ss"
      "segs = \<lparr>sg_literal = part, sg_param = []\<rparr> # ss"
      by (auto simp: result_simps)
    with Cons.IH [of seen ss] show ?thesis by (simp add: goodSegments_def)
  next
    case False
    with Cons.prems obtain name ss where n: "validParamName name" "name \<notin> set seen"
      "routeSegments u path (name # seen) parts = Inr ss" "segs = \<lparr>sg_literal = [], sg_param = name\<rparr> # ss"
      by (auto simp: result_simps split: option.splits if_splits)
    from n(1) have "name \<noteq> []" by auto
    with n Cons.IH [of "name # seen" ss] show ?thesis by (auto simp: goodSegments_def)
  qed
qed (simp add: goodSegments_def)

lemma ParseRoute_segments:
  "ParseRoute u raw = Inr p \<Longrightarrow>
   routeSegments u raw [] (splitOn ''/'' (pt_clean p)) = Inr (pt_segments p) \<and> pt_clean p = cleanRoutePath raw \<and>
   (pt_Parametric p \<longleftrightarrow> paramNames p \<noteq> [])"
  by (auto simp: ParseRoute_def Let_def result_simps paramNames_def list_ex_iff filter_empty_conv split: if_splits)

lemma ParseRoute_names:
  assumes "ParseRoute u raw = Inr p"
  shows "distinct (paramNames p)" and "\<forall>n \<in> set (paramNames p). validParamName n"
proof -
  note s = ParseRoute_segments [OF assms, THEN conjunct1]
  show "distinct (paramNames p)"
    using routeSegments_good [OF s] by (simp add: paramNames_def goodSegments_def)
  show "\<forall>n \<in> set (paramNames p). validParamName n"
    using routeSegments_good [OF s] by (auto simp: paramNames_def goodSegments_def)
qed

lemma ParseRoute_literals:
  assumes "ParseRoute u raw = Inr p" "s \<in> set (pt_segments p)" "sg_param s = []"
  shows "CHR ''/'' \<notin> set (sg_literal s)"
  using routeSegments_good [OF ParseRoute_segments [OF assms(1), THEN conjunct1]] assms(2,3)
  by (auto simp: goodSegments_def dest: splitOn_sep_free)

lemma ParseRoute_nonempty: "ParseRoute u raw = Inr p \<Longrightarrow> pt_segments p \<noteq> []"
  using routeSegments_good [OF ParseRoute_segments [THEN conjunct1]] by (fastforce simp: goodSegments_def)

subsection \<open>Matching\<close>

lemma put_new: "k \<notin> fst ` set m \<Longrightarrow> put k v m = m @ [(k, v)]"
  by (induction m) auto

lemma matchSegments_iff:
  assumes "length segs = length parts" "distinct (filter (\<lambda>n. n \<noteq> []) (map sg_param segs))"
    "set (filter (\<lambda>n. n \<noteq> []) (map sg_param segs)) \<inter> fst ` set acc = {}"
  shows "matchSegments segs parts acc = Some params \<longleftrightarrow>
    (\<exists>\<sigma>. (\<forall>n \<in> set (filter (\<lambda>n. n \<noteq> []) (map sg_param segs)). \<sigma> n \<noteq> []) \<and>
         parts = map (\<lambda>s. if sg_param s \<noteq> [] then \<sigma> (sg_param s) else sg_literal s) segs \<and>
         params = acc @ map (\<lambda>n. (n, \<sigma> n)) (filter (\<lambda>n. n \<noteq> []) (map sg_param segs)))"
  using assms
proof (induction segs parts arbitrary: acc rule: list_induct2)
  case (Cons seg segs part parts)
  show ?case
  proof (cases "sg_param seg = []")
    case True
    with Cons show ?thesis by auto
  next
    case False
    let ?ns = "filter (\<lambda>n. n \<noteq> []) (map sg_param segs)"
    from Cons.prems False have fresh: "sg_param seg \<notin> set ?ns" "sg_param seg \<notin> fst ` set acc" by auto
    note IH = Cons.IH [of "acc @ [(sg_param seg, part)]"]
    have m: "matchSegments (seg # segs) (part # parts) acc =
        (if part = [] then None else matchSegments segs parts (acc @ [(sg_param seg, part)]))"
      using False fresh by (simp add: put_new)
    show ?thesis
    proof
      assume "matchSegments (seg # segs) (part # parts) acc = Some params"
      with m IH Cons.prems False fresh obtain \<sigma> where s: "part \<noteq> []" "\<forall>n \<in> set ?ns. \<sigma> n \<noteq> []"
        "parts = map (\<lambda>s. if sg_param s \<noteq> [] then \<sigma> (sg_param s) else sg_literal s) segs"
        "params = (acc @ [(sg_param seg, part)]) @ map (\<lambda>n. (n, \<sigma> n)) ?ns"
        by (auto split: if_splits)
      let ?t = "\<sigma>(sg_param seg := part)"
      have same: "n \<in> set ?ns \<Longrightarrow> ?t n = \<sigma> n" for n using fresh(1) by (metis fun_upd_other)
      have "map (\<lambda>s. if sg_param s \<noteq> [] then ?t (sg_param s) else sg_literal s) segs = parts"
        using same unfolding s(3) by (intro map_cong) auto
      moreover have "map (\<lambda>n. (n, ?t n)) ?ns = map (\<lambda>n. (n, \<sigma> n)) ?ns"
        using same by (intro map_cong) auto
      ultimately show "\<exists>\<sigma>. (\<forall>n \<in> set (filter (\<lambda>n. n \<noteq> []) (map sg_param (seg # segs))). \<sigma> n \<noteq> []) \<and>
         part # parts = map (\<lambda>s. if sg_param s \<noteq> [] then \<sigma> (sg_param s) else sg_literal s) (seg # segs) \<and>
         params = acc @ map (\<lambda>n. (n, \<sigma> n)) (filter (\<lambda>n. n \<noteq> []) (map sg_param (seg # segs)))"
        using s False fresh by (intro exI [of _ ?t]) auto
    next
      assume "\<exists>\<sigma>. (\<forall>n \<in> set (filter (\<lambda>n. n \<noteq> []) (map sg_param (seg # segs))). \<sigma> n \<noteq> []) \<and>
         part # parts = map (\<lambda>s. if sg_param s \<noteq> [] then \<sigma> (sg_param s) else sg_literal s) (seg # segs) \<and>
         params = acc @ map (\<lambda>n. (n, \<sigma> n)) (filter (\<lambda>n. n \<noteq> []) (map sg_param (seg # segs)))"
      with m IH Cons.prems False fresh show "matchSegments (seg # segs) (part # parts) acc = Some params"
        by auto
    qed
  qed
qed auto

lemma matches_made:
  assumes "ParseRoute u raw = Inr p" "pt_Parametric p"
  shows "matchExact p path = Some params \<longleftrightarrow>
    (\<exists>\<sigma>. (\<forall>n \<in> set (paramNames p). \<sigma> n \<noteq> [] \<and> CHR ''/'' \<notin> set (\<sigma> n)) \<and>
         path = instantiate p \<sigma> \<and> params = map (\<lambda>n. (n, \<sigma> n)) (paramNames p))"
    (is "?l \<longleftrightarrow> ?r")
proof -
  let ?inst = "\<lambda>\<sigma>. map (\<lambda>s. if sg_param s \<noteq> [] then \<sigma> (sg_param s) else sg_literal s) (pt_segments p)"
  have m: "?l \<longleftrightarrow> (\<exists>\<sigma>. (\<forall>n \<in> set (paramNames p). \<sigma> n \<noteq> []) \<and> splitOn ''/'' path = ?inst \<sigma> \<and>
      params = map (\<lambda>n. (n, \<sigma> n)) (paramNames p))"
  proof (cases "length (splitOn ''/'' path) = length (pt_segments p)")
    case True
    have d: "distinct (filter (\<lambda>n. n \<noteq> []) (map sg_param (pt_segments p)))"
      using ParseRoute_names(1) [OF assms(1)] by (simp add: paramNames_def)
    show ?thesis
      using matchSegments_iff [OF True [symmetric] d, of "[]" params] assms(2) True
      by (simp add: matchExact_def matchPath_def Let_def paramNames_def)
  next
    case False
    then show ?thesis by (auto simp: matchExact_def matchPath_def Let_def assms(2) dest: arg_cong [of _ _ length])
  qed
  have split: "splitOn ''/'' path = ?inst \<sigma> \<longleftrightarrow> path = instantiate p \<sigma> \<and> (\<forall>n \<in> set (paramNames p). CHR ''/'' \<notin> set (\<sigma> n))" for \<sigma>
  proof
    assume a: "splitOn ''/'' path = ?inst \<sigma>"
    then have "path = instantiate p \<sigma>" unfolding instantiate_def by (metis join_splitOn)
    moreover have "CHR ''/'' \<notin> set (\<sigma> n)" if "n \<in> set (paramNames p)" for n
    proof -
      from that obtain s where "s \<in> set (pt_segments p)" "sg_param s = n" "n \<noteq> []" by (auto simp: paramNames_def)
      then have "\<sigma> n \<in> set (?inst \<sigma>)" by force
      then show ?thesis unfolding a [symmetric] by (rule splitOn_sep_free)
    qed
    ultimately show "path = instantiate p \<sigma> \<and> (\<forall>n \<in> set (paramNames p). CHR ''/'' \<notin> set (\<sigma> n))" by blast
  next
    assume a: "path = instantiate p \<sigma> \<and> (\<forall>n \<in> set (paramNames p). CHR ''/'' \<notin> set (\<sigma> n))"
    then have "\<forall>c \<in> set (?inst \<sigma>). CHR ''/'' \<notin> set c"
      using ParseRoute_literals [OF assms(1)] by (auto simp: paramNames_def)
    then show "splitOn ''/'' path = ?inst \<sigma>"
      using a ParseRoute_nonempty [OF assms(1)] by (simp add: instantiate_def splitOn_join)
  qed
  show ?thesis unfolding m split by blast
qed

text \<open>C14. A parsed pattern with parameters matches a path exactly when the path is the pattern with
  a non-empty, slash-free value in place of each parameter, and it captures those values under
  their names.\<close>

theorem matchExact_iff:
  assumes "ParseRoute u raw = Inr p" "pt_Parametric p"
  shows "matchExact p path = Some params \<longleftrightarrow>
    (\<exists>\<sigma>. (\<forall>n \<in> set (paramNames p). \<sigma> n \<noteq> [] \<and> CHR ''/'' \<notin> set (\<sigma> n)) \<and>
         path = instantiate p \<sigma> \<and> params = map (\<lambda>n. (n, \<sigma> n)) (paramNames p))"
  by (rule matches_made [OF assms])

lemma matchExact_iff_witness:
  "matchExact \<lparr>pt_Raw = ''/t/{id}'', pt_Parametric = True, pt_clean = ''/t/{id}'',
      pt_segments = [\<lparr>sg_literal = [], sg_param = []\<rparr>, \<lparr>sg_literal = ''t'', sg_param = []\<rparr>, \<lparr>sg_literal = [], sg_param = ''id''\<rparr>]\<rparr>
     ''/t/7'' = Some [(''id'', ''7'')]"
proof -
  let ?p = "\<lparr>pt_Raw = ''/t/{id}'', pt_Parametric = True, pt_clean = ''/t/{id}'',
      pt_segments = [\<lparr>sg_literal = [], sg_param = []\<rparr>, \<lparr>sg_literal = ''t'', sg_param = []\<rparr>, \<lparr>sg_literal = [], sg_param = ''id''\<rparr>]\<rparr>"
  have 1: "ParseRoute \<lparr>uni_letter = (\<lambda>_. False), uni_digit = (\<lambda>_. False), uni_print = (\<lambda>_. True)\<rparr> ''/t/{id}'' = Inr ?p" by code_simp
  have 2: "paramNames ?p = [''id'']" "''/t/7'' = instantiate ?p (\<lambda>_. ''7'')" by code_simp+
  show ?thesis
    by (rule matchExact_iff [OF 1, THEN iffD2]) (simp_all add: 2(1), intro exI [of _ "\<lambda>_. ''7''"], simp add: 2(2) [symmetric])
qed

subsection \<open>Servers built by registrations\<close>

inductive built :: "unicode \<Rightarrow> (string \<Rightarrow> bool) \<Rightarrow> 'h Server \<Rightarrow> bool" for u muxAccepts where
  built_new: "built u muxAccepts NewServer"
| built_handle: "built u muxAccepts s \<Longrightarrow> Handle u muxAccepts s path h = Inr s' \<Longrightarrow> built u muxAccepts s'"

inductive_cases Handle_step: "built u muxAccepts s"

text \<open>The ways a registration succeeds.\<close>

lemma Handle_Inr:
  assumes "Handle u muxAccepts s path h = Inr s'"
  obtains f where "h = Some f" "path = ''*''" "sv_fallback s = None" "s' = s\<lparr>sv_fallback := Some f\<rparr>"
  | f p where "h = Some f" "ParseRoute u path = Inr p" "\<not> pt_Parametric p" "lookup (sv_literals s) (pt_clean p) = None"
      "s' = s\<lparr>sv_literals := put (pt_clean p) f (sv_literals s), sv_mux := sv_mux s @ [(path, f)]\<rparr>"
  | f p where "h = Some f" "ParseRoute u path = Inr p" "pt_Parametric p" "skeleton p \<notin> set (sv_skeletons s)"
      "s' = s\<lparr>sv_skeletons := skeleton p # sv_skeletons s, sv_patterns := sv_patterns s @ [(p, f)]\<rparr>"
proof (cases "path = ''*''")
  case True
  with assms that(1) show thesis by (auto simp: Handle_def split: option.splits if_splits)
next
  case False
  with assms obtain f p where f: "h = Some f" "ParseRoute u path = Inr p"
    by (auto simp: Handle_def result_simps split: option.splits)
  show thesis
  proof (cases "pt_Parametric p")
    case True
    with f False assms that(3) show thesis by (auto simp: Handle_def split: if_splits)
  next
    case np: False
    with f False assms that(2) show thesis by (auto simp: Handle_def split: if_splits)
  qed
qed

definition wellRouted :: "unicode \<Rightarrow> 'h Server \<Rightarrow> bool" where
  "wellRouted u s \<longleftrightarrow>
     distinct (map (cleanRoutePath \<circ> fst) (sv_mux s)) \<and> map fst (sv_literals s) = map (cleanRoutePath \<circ> fst) (sv_mux s) \<and>
     distinct (map (skeleton \<circ> fst) (sv_patterns s)) \<and> set (sv_skeletons s) = set (map (skeleton \<circ> fst) (sv_patterns s)) \<and>
     (\<forall>p \<in> fst ` set (sv_patterns s). pt_Parametric p \<and> ParseRoute u (pt_Raw p) = Inr p)"

lemma ParseRoute_Raw: "ParseRoute u path = Inr p \<Longrightarrow> pt_Raw p = path"
  by (auto simp: ParseRoute_def Let_def result_simps split: if_splits)

lemma put_new_key: "lookup m k = None \<Longrightarrow> map fst (put k v m) = map fst m @ [k]"
  by (induction m) (auto split: if_splits)

lemma wellRouted_built: "built u muxAccepts s \<Longrightarrow> wellRouted u s"
proof (induction rule: built.induct)
  case built_new
  show ?case by (simp add: wellRouted_def NewServer_def)
next
  case (built_handle s path h s')
  from built_handle.hyps(2) show ?case
  proof (cases rule: Handle_Inr)
    case (1 f)
    have "wellRouted u (s\<lparr>sv_fallback := Some f\<rparr>) = wellRouted u s" by (simp add: wellRouted_def)
    with 1 built_handle.IH show ?thesis by simp
  next
    case (2 f p)
    from 2(4) have "pt_clean p \<notin> set (map fst (sv_literals s))" by (simp add: map_of_eq_None_iff)
    with 2 built_handle.IH ParseRoute_segments [OF 2(2)] show ?thesis
      by (simp add: wellRouted_def put_new_key)
  next
    case (3 f p)
    with built_handle.IH ParseRoute_Raw [OF 3(2)] show ?thesis by (auto simp: wellRouted_def)
  qed
qed

text \<open>C15. In every server built by registrations no two literal routes have the same cleaned path and
  no two patterns have the same skeleton, and every registered pattern has parameters and is the
  parse of its text.\<close>

theorem built_routes_distinct:
  assumes "built u muxAccepts s"
  shows "distinct (map fst (sv_literals s)) \<and> distinct (map (skeleton \<circ> fst) (sv_patterns s)) \<and>
    (\<forall>(p, h) \<in> set (sv_patterns s). pt_Parametric p \<and> ParseRoute u (pt_Raw p) = Inr p)"
  using wellRouted_built [OF assms] by (auto simp: wellRouted_def)

subsection \<open>Dispatch\<close>

lemma firstMatch_Some:
  "firstMatch exact c regs = Some (h, ps) \<Longrightarrow> \<exists>p. (p, h) \<in> set regs \<and> patternMatch exact c p = Some ps"
  by (induction regs) (auto split: option.splits)

lemma firstMatch_None: "firstMatch exact c regs = None \<longleftrightarrow> (\<forall>p \<in> fst ` set regs. patternMatch exact c p = None)"
  by (induction regs) (auto split: option.splits)

lemma unescapeParams_map:
  "unescapeParams (map (\<lambda>n. (n, \<sigma> n)) ns) = Some ds \<Longrightarrow>
   map fst ds = ns \<and> (\<forall>(n, d) \<in> set ds. PathUnescape (\<sigma> n) = Some d)"
  by (induction ns arbitrary: ds) (auto split: option.splits)

text \<open>C9. A server with a fallback routes paths exactly as sent. A handler other than the fallback
  gets a request only when the still encoded path is the registered literal path itself, or is the
  pattern with a non-empty, slash-free text for each parameter; then the captures are those texts,
  decoded.\<close>

theorem fallback_routes_as_sent:
  assumes "built u muxAccepts s" "sv_fallback s = Some fb" "ServeHTTP s r = Handled h r'"
  shows "lookup (sv_literals s) (rq_EscapedPath r) = Some h \<and> r' = r \<or>
    (\<exists>p \<sigma> ds. (p, h) \<in> set (sv_patterns s) \<and> (\<forall>n \<in> set (paramNames p). \<sigma> n \<noteq> [] \<and> CHR ''/'' \<notin> set (\<sigma> n)) \<and>
       rq_EscapedPath r = instantiate p \<sigma> \<and> r' = WithParams r ds \<and> map fst ds = paramNames p \<and>
       (\<forall>(n, d) \<in> set ds. PathUnescape (\<sigma> n) = Some d)) \<or>
    h = fb \<and> r' = r"
proof (cases "lookup (sv_literals s) (rq_EscapedPath r)")
  case None
  show ?thesis
  proof (cases "firstMatch True (rq_EscapedPath r) (sv_patterns s)")
    case none: None
    with None assms(2,3) show ?thesis by (simp add: ServeHTTP_def Let_def)
  next
    case (Some hp)
    obtain h' ds where hp: "hp = (h', ds)" by (cases hp)
    with Some None assms(2,3) have h: "h' = h" "r' = WithParams r ds" by (simp_all add: ServeHTTP_def Let_def)
    from Some hp h firstMatch_Some obtain p where p: "(p, h) \<in> set (sv_patterns s)"
      "patternMatch True (rq_EscapedPath r) p = Some ds" by metis
    then obtain ps where ps: "matchExact p (rq_EscapedPath r) = Some ps" "unescapeParams ps = Some ds"
      by (auto simp: patternMatch_def bind_eq_Some_conv)
    from wellRouted_built [OF assms(1)] p(1) have "ParseRoute u (pt_Raw p) = Inr p" "pt_Parametric p"
      by (force simp: wellRouted_def)+
    from matches_made [OF this] ps(1) obtain \<sigma> where s: "\<forall>n \<in> set (paramNames p). \<sigma> n \<noteq> [] \<and> CHR ''/'' \<notin> set (\<sigma> n)"
      "rq_EscapedPath r = instantiate p \<sigma>" "ps = map (\<lambda>n. (n, \<sigma> n)) (paramNames p)" by blast
    with unescapeParams_map ps(2) p(1) h(2) show ?thesis by blast
  qed
next
  case (Some h')
  with assms(2,3) show ?thesis by (simp add: ServeHTTP_def Let_def)
qed

definition exampleServer :: "nat Server" where
  "exampleServer = \<lparr>sv_mux = [(''/t/all'', 1)], sv_literals = [(''/t/all'', 1)],
     sv_patterns = [(\<lparr>pt_Raw = ''/t/{id}'', pt_Parametric = True, pt_clean = ''/t/{id}'',
        pt_segments = [\<lparr>sg_literal = [], sg_param = []\<rparr>, \<lparr>sg_literal = ''t'', sg_param = []\<rparr>, \<lparr>sg_literal = [], sg_param = ''id''\<rparr>]\<rparr>, 2)],
     sv_skeletons = [''/t/{}''], sv_fallback = Some 3\<rparr>"

definition asciiOnly :: unicode where
  "asciiOnly = \<lparr>uni_letter = (\<lambda>_. False), uni_digit = (\<lambda>_. False), uni_print = (\<lambda>_. True)\<rparr>"

definition getRequest :: "string \<Rightarrow> Request" where
  "getRequest p = \<lparr>rq_Method = ''GET'', rq_Path = p, rq_EscapedPath = p, rq_RawQuery = [], rq_Header = [], rq_params = None, rq_id = None\<rparr>"

lemma exampleServer_built: "built asciiOnly (\<lambda>_. True) exampleServer"
proof -
  let ?H = "Handle asciiOnly (\<lambda>_. True)"
  have "rbind (?H NewServer ''/t/all'' (Some 1)) (\<lambda>s. rbind (?H s ''/t/{id}'' (Some 2)) (\<lambda>s. ?H s ''*'' (Some 3))) = Inr exampleServer"
    by code_simp
  then obtain a b where "?H NewServer ''/t/all'' (Some 1) = Inr a" "?H a ''/t/{id}'' (Some 2) = Inr b"
    "?H b ''*'' (Some 3) = Inr exampleServer"
    unfolding rbind_eq_Inr by blast
  then show ?thesis by (blast intro: built.intros)
qed

lemma built_routes_distinct_witness:
  "map (skeleton \<circ> fst) (sv_patterns exampleServer) = [''/t/{}''] \<and> distinct (map (skeleton \<circ> fst) (sv_patterns exampleServer))"
  using built_routes_distinct [OF exampleServer_built] by (simp add: exampleServer_def skeleton_def)

lemma fallback_routes_as_sent_witness:
  "\<exists>p \<sigma>. (p, 2) \<in> set (sv_patterns exampleServer) \<and> ''/t/a%2Fb'' = instantiate p \<sigma>"
proof -
  have s: "ServeHTTP exampleServer (getRequest ''/t/a%2Fb'') = Handled 2 (WithParams (getRequest ''/t/a%2Fb'') [(''id'', ''a/b'')])" by code_simp
  have f: "sv_fallback exampleServer = Some 3" by (simp add: exampleServer_def)
  have l: "lookup (sv_literals exampleServer) ''/t/a%2Fb'' = None" by (simp add: exampleServer_def)
  have e: "rq_EscapedPath (getRequest ''/t/a%2Fb'') = ''/t/a%2Fb''" by (simp add: getRequest_def)
  from fallback_routes_as_sent [OF exampleServer_built f s] show ?thesis
    unfolding e l by (elim disjE exE conjE) (simp_all, blast)
qed

end
