(* ===== verification/Ast.thy ===== *)
theory Ast
  imports GoText
begin

text \<open>
  Syntax trees (\<open>internal/ast/ast.go\<close>) and the arity table (\<open>internal/construct/arity.go\<close>). A node has
  the type and value of its token, or the type \<open>List\<close> and children; the file name and the inferred
  type, which the passes modelled here never read, are left out. Reporting an error ends the
  compilation: it is an error value here.
\<close>

datatype Node = Node (n_Type: string) (n_Value: string) (n_Children: "Node list") (n_Line: int) (n_Column: int)

record ErrorOutput =
  eo_Reason :: string
  eo_Line :: int
  eo_Column :: int

text \<open>\<open>Reported\<close> is \<open>ReportError\<close>, \<open>GoPanic\<close> an index out of range in the compiler.\<close>

datatype compile_error = Reported ErrorOutput | GoPanic | NoFuel

definition ReportError :: "string \<Rightarrow> int \<Rightarrow> int \<Rightarrow> compile_error" where
  "ReportError reason l c = Reported \<lparr>eo_Reason = reason, eo_Line = l, eo_Column = c\<rparr>"

definition reportAt :: "string \<Rightarrow> Node \<Rightarrow> compile_error" where
  "reportAt reason n = ReportError reason (n_Line n) (n_Column n)"

text \<open>\<open>node.Children[i]\<close>.\<close>

definition childAt :: "Node \<Rightarrow> nat \<Rightarrow> compile_error + Node" where
  "childAt n i = (if i < length (n_Children n) then Inr (n_Children n ! i) else Inl GoPanic)"

definition isListNode :: "Node \<Rightarrow> bool" where
  "isListNode n \<longleftrightarrow> n_Type n = ''List''"

definition isSymbolNode :: "Node \<Rightarrow> bool" where
  "isSymbolNode n \<longleftrightarrow> n_Type n = ''SYMBOL''"

text \<open>A pass changes a node in place: its children or its value.\<close>

definition withChildren :: "Node \<Rightarrow> Node list \<Rightarrow> Node" where
  "withChildren n cs = Node (n_Type n) (n_Value n) cs (n_Line n) (n_Column n)"

definition withValue :: "Node \<Rightarrow> string \<Rightarrow> Node" where
  "withValue n v = Node (n_Type n) v (n_Children n) (n_Line n) (n_Column n)"

lemma withChildren_same [simp]: "withChildren n (n_Children n) = n"
  by (cases n) (simp add: withChildren_def)

lemma with_simps [simp]:
  "n_Type (withChildren n cs) = n_Type n" "n_Value (withChildren n cs) = n_Value n" "n_Children (withChildren n cs) = cs"
  "n_Line (withChildren n cs) = n_Line n" "n_Column (withChildren n cs) = n_Column n"
  "n_Type (withValue n v) = n_Type n" "n_Value (withValue n v) = v" "n_Children (withValue n v) = n_Children n"
  "n_Line (withValue n v) = n_Line n" "n_Column (withValue n v) = n_Column n"
  by (simp_all add: withChildren_def withValue_def)

text \<open>A list whose first child has this value.\<close>

definition headed :: "Node \<Rightarrow> string \<Rightarrow> bool" where
  "headed n h \<longleftrightarrow> isListNode n \<and> n_Children n \<noteq> [] \<and> n_Value (hd (n_Children n)) = h"

lemma child_smaller [termination_simp]: "x \<in> set (n_Children n) \<Longrightarrow> size x < size n"
  by (cases n) (auto simp: less_Suc_eq_le size_list_estimation')

lemma childAt_Inr: "childAt n i = Inr x \<longleftrightarrow> i < length (n_Children n) \<and> x = n_Children n ! i"
  by (auto simp: childAt_def)

lemma childAt_smaller [termination_simp]: "childAt n i = Inr x \<Longrightarrow> size x < size n"
  by (auto simp: childAt_Inr intro: child_smaller)

function Stringify :: "Node \<Rightarrow> string" where
  "Stringify n =
     (if isListNode n then ''('' @ join '' '' (map Stringify (n_Children n)) @ '')''
      else if n_Type n = ''STRING'' then [CHR 0x22] @ n_Value n @ [CHR 0x22]
      else n_Value n)"
  by pat_completeness auto
termination
  by (relation "measure size") (auto simp: child_smaller)

declare Stringify.simps [simp del]

definition ParamNames :: "Node \<Rightarrow> string list" where
  "ParamNames n =
     map (\<lambda>p. if isListNode p \<and> n_Children p \<noteq> [] then n_Value (hd (n_Children p)) else n_Value p) (n_Children n)"

subsection \<open>Arities\<close>

definition Variadic :: int where "Variadic = - 1"

text \<open>Name, least and greatest number of arguments.\<close>

definition arities :: "(string \<times> int \<times> int) list" where
  "arities =
    [
    (''export'', 1, Variadic), (''module'', 1, Variadic), (''!='', 2, 2), (''*'', 2, 2),
     (''+'', 2, 2), (''-'', 2, 2), (''/'', 2, 2), (''<'', 2, 2), (''<='', 2, 2), (''='', 2, 2),
     (''=='', 2, 2), (''>'', 2, 2), (''>='', 2, 2), (''and'', 2, Variadic), (''or'', 2, Variadic),
     (''achieve'', 2, 2), (''all'', 3, 3), (''any'', 3, 3), (''append'', 2, 2), (''assert'', 1, 1),
     (''attr_escape'', 1, 1), (''blank'', 1, 1), (''bytes_to_string'', 1, 1),
     (''call'', 1, Variadic), (''cli_app'', 0, Variadic), (''cli_args'', 0, 1),
     (''cond'', 1, Variadic), (''confidence'', 1, 1), (''count_by'', 3, 3), (''db_connect'', 3, 3),
     (''dec'', 1, 1), (''defun'', 3, Variadic), (''dict'', 0, Variadic), (''do'', 0, Variadic),
     (''encode_json'', 1, 1), (''ends_with'', 2, 2), (''env'', 1, 1),
     (''ephemeral_circuit'', 2, Variadic), (''exec'', 1, Variadic), (''exit'', 1, 1),
     (''fetch'', 2, 4), (''filter'', 3, 3), (''for'', 3, 3), (''html_escape'', 1, 1),
     (''http_body'', 1, 1), (''http_request'', 2, 3), (''http_res'', 1, 1),
     (''http_server'', 1, Variadic), (''http_status'', 1, 1), (''if'', 2, Variadic),
     (''inc'', 1, 1), (''index_of'', 2, 2), (''is_nil'', 1, 1), (''lazy_synthesize'', 3, 3),
     (''let'', 2, 2), (''lines'', 1, 1), (''list'', 0, Variadic), (''list_contains'', 2, 2),
     (''list_get'', 2, 2), (''list_len'', 1, 1), (''list_slice'', 2, 3), (''llm_generate'', 1, 2),
     (''map_delete'', 2, 2), (''map_get'', 2, 2), (''map_has'', 2, 2), (''map_keys'', 1, 1),
     (''map_list'', 3, 3), (''map_set'', 3, 3), (''max'', 1, 1), (''min'', 1, 1),
     (''mkdir'', 1, 1), (''neural_circuit'', 2, Variadic), (''not'', 1, 1), (''nz'', 2, 2),
     (''optimize_block'', 3, Variadic), (''optimize_signature'', 1, Variadic),
     (''parse_json'', 2, 2), (''print'', 0, Variadic), (''read_file'', 1, 1),
     (''read_line'', 0, 0), (''rand_hex'', 1, 1), (''read_stdin'', 0, 0), (''secure_equal'', 2, 2),
     (''sha256_hex'', 1, 1), (''read_text'', 1, 1), (''reduce'', 5, 5), (''regex_match'', 2, 2),
     (''req_header'', 2, 2), (''req_id'', 1, 1), (''req_body'', 1, 1), (''req_url_path'', 1, 1),
     (''utf8_valid'', 1, 1), (''granted'', 1, 1), (''port_available'', 1, 1),
     (''serialize_requests'', 0, 0), (''req_method'', 1, 1), (''req_path'', 2, 2),
     (''req_query'', 2, 2), (''res'', 3, 3), (''res_header'', 2, 2), (''res_json'', 2, 2),
     (''return'', 1, 1), (''reverse'', 1, 1), (''schema_bridge'', 2, 2), (''set'', 2, 2),
     (''sget'', 2, 2), (''sinc'', 2, 2), (''sleep'', 1, 1), (''sort'', 1, 1), (''spawn'', 1, 2),
     (''spawn_agent'', 2, 3), (''sput'', 3, 3), (''sql_query'', 2, Variadic),
     (''starts_with'', 2, 2), (''stderr'', 1, 1), (''store_delete'', 2, 2), (''store_get'', 2, 2),
     (''store_keys'', 1, 1), (''store_open'', 2, 2), (''store_put'', 3, 3), (''str'', 1, Variadic),
     (''str_contains'', 2, 2), (''str_join'', 2, 2), (''str_len'', 1, 1), (''str_replace'', 3, 3),
     (''str_slice'', 2, 3), (''str_split'', 2, 2), (''str_trim'', 1, 1), (''sum'', 1, 1),
     (''switch'', 1, Variadic), (''task'', 1, Variadic), (''time_now'', 0, 0),
     (''to_float'', 1, 1), (''to_int'', 1, 1), (''to_lower'', 1, 1), (''to_string'', 1, 1),
     (''to_upper'', 1, 1), (''try_let'', 2, Variadic), (''unix_now'', 0, 0),
     (''unless'', 1, Variadic), (''ver_ge'', 2, 2), (''ver_gt'', 2, 2),
     (''wasm_app'', 0, Variadic), (''web_app'', 0, Variadic), (''when'', 1, Variadic),
     (''while'', 2, 2), (''write_file'', 2, 2), (''%'', 2, 2), (''//'', 2, 2), (''break'', 0, 0),
     (''range'', 1, 2), (''max_by'', 3, 3), (''min_by'', 3, 3), (''sort_by'', 3, 3),
     (''pad_left'', 2, 3), (''pad_right'', 2, 3), (''str_repeat'', 2, 2), (''rtrim'', 1, 1),
     (''ltrim'', 1, 1), (''to_base'', 2, 2), (''rec'', 0, Variadic), (''get'', 2, Variadic),
     (''put'', 3, Variadic), (''read_json'', 1, 1), (''write_json'', 2, 2), (''pluck'', 2, 2),
     (''select'', 2, Variadic), (''grants'', 0, Variadic), (''group_by'', 3, 3),
     (''merge'', 1, Variadic)]"

definition arityExempt :: "string list" where
  "arityExempt =
    [
    ''assert_semantic'', ''fuzzy_cast'', ''go_import'', ''import'', ''match'', ''middleware'',
     ''schema'', ''semantic_match'', ''struct'', ''test'', ''trace'', ''include'', ''use'',
     ''patch'', ''with_context'', ''type_hint'', ''type_hints'', ''type_param'']"

definition LookupArity :: "string \<Rightarrow> (int \<times> int) option" where
  "LookupArity name = map_of arities name"

definition plural :: "int \<Rightarrow> string" where
  "plural n = (if n = 1 then ''arg'' else ''args'')"

definition arityWant :: "int \<Rightarrow> int \<Rightarrow> string" where
  "arityWant mn mx =
     (if mx = mn then itoa mn @ '' '' @ plural mn
      else if mx < 0 then ''at least '' @ itoa mn @ '' '' @ plural mn
      else itoa mn @ '' to '' @ itoa mx @ '' args'')"

definition arityMessage :: "string \<Rightarrow> int \<Rightarrow> int \<Rightarrow> int \<Rightarrow> string" where
  "arityMessage name got mn mx =
     ''ARITY_ERROR: '' @ name @ '' expects '' @ arityWant mn mx @ '', got '' @ itoa got @
     (if name = ''let'' \<and> got > 2
      then '': a let takes one body expression; wrap several body forms in (do ...)'' else [])"

definition arityOk :: "int \<Rightarrow> int \<Rightarrow> int \<Rightarrow> bool" where
  "arityOk got mn mx \<longleftrightarrow> \<not> (got < mn \<or> (mx \<ge> 0 \<and> got > mx))"

end
