(* ===== verification/Compile.thy ===== *)
theory Compile
  imports Ast Bytecode Routes
begin

text \<open>
  The bytecode compiler (\<open>compileNode\<close> and its helpers in \<open>internal/bytecode/bytecode.go\<close>). A piece
  of code is its instructions and the functions it defines, in the order the compiler meets them.
  Each group of constructs that stands together in the source is a definition over the recursive
  call \<open>rec\<close>; \<open>compileNode\<close> ties the knot. An index out of range is the error \<open>GoPanic\<close>.
\<close>

type_synonym code = "BCInstruction list \<times> (string \<times> BCFunction) list"
type_synonym compiler = "Node \<Rightarrow> compile_error + code"

record compile_env =
  ce_unicode :: unicode
  ce_os :: osenv

subsection \<open>Vocabulary\<close>

definition emit :: "BCInstruction list \<Rightarrow> code" where
  "emit is = (is, [])"

definition joinCode :: "code list \<Rightarrow> code" where
  "joinCode cs = (concat (map fst cs), concat (map snd cs))"

text \<open>\<open>node.Children[k:]\<close>.\<close>

definition childrenFrom :: "Node \<Rightarrow> nat \<Rightarrow> compile_error + Node list" where
  "childrenFrom n k = (if k \<le> length (n_Children n) then Inr (drop k (n_Children n)) else Inl GoPanic)"

definition childCount :: "Node \<Rightarrow> int" where
  "childCount n = int (length (n_Children n))"

definition compileChild :: "compiler \<Rightarrow> Node \<Rightarrow> nat \<Rightarrow> compile_error + code" where
  "compileChild rec n k = rbind (childAt n k) rec"

text \<open>The code of the nodes, then more instructions.\<close>

definition compileEach :: "compiler \<Rightarrow> Node list \<Rightarrow> BCInstruction list \<Rightarrow> compile_error + code" where
  "compileEach rec ns tail = rbind (traverse rec ns) (\<lambda>cs. Inr (joinCode (cs @ [emit tail])))"

text \<open>The code of the children with these indices, then more instructions.\<close>

definition compileThen :: "compiler \<Rightarrow> Node \<Rightarrow> nat list \<Rightarrow> BCInstruction list \<Rightarrow> compile_error + code" where
  "compileThen rec n ks tail = rbind (traverse (compileChild rec n) ks) (\<lambda>cs. Inr (joinCode (cs @ [emit tail])))"

text \<open>The code of the children from \<open>k\<close> on, then more instructions.\<close>

definition compileRest :: "compiler \<Rightarrow> Node \<Rightarrow> nat \<Rightarrow> BCInstruction list \<Rightarrow> compile_error + code" where
  "compileRest rec n k tail = rbind (childrenFrom n k) (\<lambda>ns. compileEach rec ns tail)"

definition childValue :: "Node \<Rightarrow> nat \<Rightarrow> compile_error + string" where
  "childValue n k = rbind (childAt n k) (\<lambda>c. Inr (n_Value c))"

text \<open>A guard of the source: \<open>ast.ReportError(reason, node.Line, node.Column)\<close> if the condition fails.\<close>

definition require :: "bool \<Rightarrow> string \<Rightarrow> Node \<Rightarrow> compile_error + unit" where
  "require b reason n = ensure b (reportAt reason n)"

definition loadConst :: "val \<Rightarrow> BCInstruction" where
  "loadConst v = (instr OpLoadConst)\<lparr>i_Value := v\<rparr>"

definition instrS :: "Opcode \<Rightarrow> string \<Rightarrow> BCInstruction" where
  "instrS op s = (instr op)\<lparr>i_Str := s\<rparr>"

definition instrI :: "Opcode \<Rightarrow> int \<Rightarrow> BCInstruction" where
  "instrI op i = (instr op)\<lparr>i_Int := i\<rparr>"

definition codeLen :: "code \<Rightarrow> int" where
  "codeLen c = int (length (fst c))"

subsection \<open>Grant lists and shared lowerings\<close>

definition grantErrorText :: "unicode \<Rightarrow> grant_error \<Rightarrow> string" where
  "grantErrorText u e =
     (case e of
        CodeLoadingEnv raw \<Rightarrow> ''process:env= refuses code-loading variables (including LD_*, DYLD_*, GIT_*, PATH, HOME): '' @ quote u raw
      | UnknownCapability raw \<Rightarrow> ''unknown capability: '' @ quote u raw
      | FetchSpecError msg \<Rightarrow> msg
      | ExecSpecError msg \<Rightarrow> msg
      | ExecProgramError program \<Rightarrow> ''process:exec program must be an absolute, clean path: '' @ quote u program)"

definition compileSpawnGrants :: "compile_env \<Rightarrow> Node \<Rightarrow> compile_error + string" where
  "compileSpawnGrants E node =
     rbind (require (headed node ''grants'') ''expected (grants \"cap\" ...)'' node) (\<lambda>_.
     rbind (childrenFrom node 1) (\<lambda>gs.
     rbind (traverse (\<lambda>g.
         rbind (require (n_Type g = ''STRING'') ''grants entries must be string literals'' g) (\<lambda>_.
         if n_Value g = InheritFilesystem then Inr InheritFilesystem
         else case ParseGrant (ce_os E) (n_Value g) of
           Inl e \<Rightarrow> Inl (reportAt (''grants: '' @ grantErrorText (ce_unicode E) e) g)
         | Inr parsed \<Rightarrow> Inr parsed)) gs) (\<lambda>out.
     Inr (join [CHR 0x0A] out))))"

definition FetchWithBody :: "BCInstruction list" where
  "FetchWithBody = [instrS OpConvert ''to_string'', instrI OpHttpRequest 1, loadConst (VStr ''body''), instr OpMapGet]"

definition ShortCircuit :: "string \<Rightarrow> BCInstruction list \<Rightarrow> BCInstruction list \<Rightarrow> BCInstruction list" where
  "ShortCircuit op left right =
     (if op = ''and'' then
        left @ [instrI OpJumpIfFalse (int (length right) + 4)] @ right @
        [loadConst (VBool True), instrS OpBinop ''and'', instrI OpJump 2, loadConst (VBool False)]
      else
        left @ [instrI OpJumpIfFalse 3, loadConst (VBool True), instrI OpJump (int (length right) + 3)] @
        right @ [loadConst (VBool False), instrS OpBinop ''or''])"

subsection \<open>Leaves\<close>

definition compileLeaf :: "Node \<Rightarrow> compile_error + code" where
  "compileLeaf node =
     (if n_Type node = ''INT'' then
        (case parseInt (n_Value node) of
           None \<Rightarrow> Inl (reportAt (''invalid integer literal: '' @ n_Value node) node)
         | Some i \<Rightarrow> Inr (emit [loadConst (intVal i)]))
      else if n_Type node = ''FLOAT'' then
        (case parseFloat (n_Value node) of
           None \<Rightarrow> Inl (reportAt (''invalid float literal: '' @ n_Value node) node)
         | Some f \<Rightarrow> Inr (emit [loadConst (VFloat f)]))
      else if n_Type node = ''STRING'' then Inr (emit [loadConst (VStr (n_Value node))])
      else if n_Type node = ''SYMBOL'' then
        (if n_Value node = ''true'' \<or> n_Value node = ''false''
         then Inr (emit [loadConst (VBool (n_Value node = ''true''))])
         else Inr (emit [instrS OpLoadVar (n_Value node)]))
      else Inr (emit []))"

definition arityBackstop :: "Node \<Rightarrow> Node \<Rightarrow> compile_error + unit" where
  "arityBackstop node headNode =
     (if n_Type headNode = ''SYMBOL'' then
        (case LookupArity (n_Value headNode) of
           None \<Rightarrow> Inr ()
         | Some (mn, mx) \<Rightarrow>
             require (arityOk (childCount node - 1) mn mx) (arityMessage (n_Value headNode) (childCount node - 1) mn mx) node)
      else Inr ())"

subsection \<open>Definitions and error handling\<close>

definition compileDefun :: "compiler \<Rightarrow> Node \<Rightarrow> compile_error + code" where
  "compileDefun rec node =
     rbind (childValue node 1) (\<lambda>funcName.
     rbind (childAt node 2) (\<lambda>params.
     rbind (if length (n_Children node) > 4 then rbind (childAt node 3) (\<lambda>c. Inr (if isSymbolNode c then 4 else 3)) else Inr 3) (\<lambda>bodyStart.
     rbind (compileRest rec node bodyStart []) (\<lambda>body.
     Inr ([], snd body @ [(funcName,
       \<lparr>fn_Params = ParamNames params, fn_Instructions = fst body, fn_LazySynthesize = False, fn_Docstring = [],
        fn_Name = funcName\<rparr>)])))))"

definition compileLazy :: "Node \<Rightarrow> compile_error + code" where
  "compileLazy node =
     rbind (childValue node 1) (\<lambda>funcName.
     rbind (childAt node 2) (\<lambda>params.
     rbind (childValue node 3) (\<lambda>doc.
     Inr ([], [(funcName,
       \<lparr>fn_Params = ParamNames params, fn_Instructions = [], fn_LazySynthesize = True, fn_Docstring = doc,
        fn_Name = funcName\<rparr>)]))))"

definition compileTryLet :: "compiler \<Rightarrow> Node \<Rightarrow> compile_error + code" where
  "compileTryLet rec node =
     rbind (childAt node 1) (\<lambda>binding.
     rbind (childValue binding 0) (\<lambda>varName.
     rbind (compileChild rec binding 1) (\<lambda>val.
     rbind (childAt node 2) (\<lambda>catchNode.
     rbind (childValue catchNode 1) (\<lambda>errVar.
     rbind (compileChild rec catchNode 2) (\<lambda>catch.
     rbind (compileChild rec node 3) (\<lambda>success.
     Inr (joinCode [emit [(instr OpTryLet)\<lparr>i_Str := varName, i_Str2 := errVar, i_Int := codeLen val,
                           i_Int2 := codeLen catch, i_Int3 := codeLen success\<rparr>], val, catch, success]))))))))"

definition compileTop :: "compiler \<Rightarrow> string \<Rightarrow> Node \<Rightarrow> (compile_error + code) option" where
  "compileTop rec head node =
     (if head \<in> {''cli_app'', ''wasm_app'', ''web_app''} then Some (compileRest rec node 1 [])
      else if head = ''defun'' then Some (compileDefun rec node)
      else if head = ''lazy_synthesize'' then Some (compileLazy node)
      else if head \<in> {''type_hint'', ''type_hints'', ''type_param''} then Some (Inr (emit []))
      else if head = ''try_let'' then Some (compileTryLet rec node)
      else None)"

subsection \<open>Databases and stores\<close>

definition compileDatabase :: "string \<Rightarrow> Node \<Rightarrow> (compile_error + code) option" where
  "compileDatabase head node =
     (if head = ''db_connect'' then Some (
        rbind (childValue node 1) (\<lambda>var. rbind (childValue node 2) (\<lambda>driver. rbind (childValue node 3) (\<lambda>dsn.
        Inr (emit [(instr OpDbConnect)\<lparr>i_Str := var, i_Str2 := driver, i_Str3 := dsn\<rparr>])))))
      else if head = ''sql_query'' then Some (
        rbind (childValue node 1) (\<lambda>db. rbind (childValue node 2) (\<lambda>query.
        Inr (emit [(instr OpSqlQuery)\<lparr>i_Str := db, i_Str2 := query\<rparr>]))))
      else None)"

definition compileStoreOpen :: "compiler \<Rightarrow> Node \<Rightarrow> compile_error + code" where
  "compileStoreOpen rec node =
     rbind (require (length (n_Children node) = 3) ''store_open expects (store_open handle uri)'' node) (\<lambda>_.
     rbind (childAt node 1) (\<lambda>handleNode.
     rbind (childAt node 2) (\<lambda>uriNode.
     rbind (require (isSymbolNode handleNode) ''store_open handle must be a symbol'' handleNode) (\<lambda>_.
     compileThen rec node [2]
       [(instrS OpStoreOpen (n_Value handleNode))\<lparr>i_Str2 := (if n_Type uriNode = ''STRING'' then n_Value uriNode else [])\<rparr>]))))"

text \<open>The other operations: the number of children, the usage text, the children compiled, the opcode.\<close>

definition compileStoreOp :: "compiler \<Rightarrow> Node \<Rightarrow> string \<Rightarrow> string \<Rightarrow> nat list \<Rightarrow> Opcode \<Rightarrow> compile_error + code" where
  "compileStoreOp rec node name args ks op =
     rbind (require (length (n_Children node) = length ks + 2) (name @ '' expects ('' @ name @ '' '' @ args @ '')'') node) (\<lambda>_.
     rbind (childAt node 1) (\<lambda>handleNode.
     rbind (require (isSymbolNode handleNode) (name @ '' handle must be a symbol'') handleNode) (\<lambda>_.
     compileThen rec node ks [instrS op (n_Value handleNode)])))"

definition compileStore :: "compiler \<Rightarrow> string \<Rightarrow> Node \<Rightarrow> (compile_error + code) option" where
  "compileStore rec head node =
     (if head = ''store_open'' then Some (compileStoreOpen rec node)
      else if head = ''store_put'' then Some (compileStoreOp rec node head ''handle key record'' [2, 3] OpStorePut)
      else if head = ''store_get'' then Some (compileStoreOp rec node head ''handle key'' [2] OpStoreGet)
      else if head = ''store_delete'' then Some (compileStoreOp rec node head ''handle key'' [2] OpStoreDelete)
      else if head = ''store_keys'' then Some (compileStoreOp rec node head ''handle'' [] OpStoreKeys)
      else None)"

subsection \<open>Requests, files, processes\<close>

definition compileRequest :: "compiler \<Rightarrow> string \<Rightarrow> Node \<Rightarrow> (compile_error + code) option" where
  "compileRequest rec head node =
     (if head = ''fetch'' then Some (
        rbind (require (length (n_Children node) \<noteq> 5) ''UNSUPPORTED_ON_TARGET: fetch headers are supported only on --target=js'' node) (\<lambda>_.
        if length (n_Children node) = 4 then compileThen rec node [1, 2, 3] FetchWithBody
        else compileThen rec node [1, 2] [instr OpFetch]))
      else if head = ''http_request'' then Some (
        rbind (require (length (n_Children node) = 3 \<or> length (n_Children node) = 4)
                 ''http_request expects (http_request url method [body])'' node) (\<lambda>_.
        if length (n_Children node) = 4 then compileThen rec node [1, 2, 3] [instrI OpHttpRequest 1]
        else compileThen rec node [1, 2] [instrI OpHttpRequest 0]))
      else None)"

definition compileFiles :: "compiler \<Rightarrow> string \<Rightarrow> Node \<Rightarrow> (compile_error + code) option" where
  "compileFiles rec head node =
     (if head = ''read_file'' then Some (compileThen rec node [1] [instr OpReadFile])
      else if head = ''write_file'' then Some (compileThen rec node [1, 2] [instr OpWriteFile])
      else if head = ''mkdir'' then Some (compileThen rec node [1] [instr OpMkdir])
      else if head = ''exec'' then Some (
        rbind (compileChild rec node 1) (\<lambda>cmd.
        rbind (compileRest rec node 2 [instrI OpExec (childCount node - 2)]) (\<lambda>args.
        Inr (joinCode [cmd, args]))))
      else if head = ''parse_json'' then Some (rbind (childValue node 2) (\<lambda>bodyVar. Inr (emit [instrS OpParseJson bodyVar])))
      else None)"

subsection \<open>Spawning\<close>

definition lastChild :: "Node \<Rightarrow> compile_error + Node" where
  "lastChild n = childAt n (length (n_Children n) - 1)"

definition compileSpawn :: "compile_env \<Rightarrow> compiler \<Rightarrow> Node \<Rightarrow> compile_error + code" where
  "compileSpawn E rec node =
     rbind (lastChild node) (\<lambda>lambdaNode.
     rbind (if length (n_Children node) = 3 then rbind (childAt node 1) (compileSpawnGrants E) else Inr []) (\<lambda>grants.
     rbind (compileChild rec lambdaNode 2) (\<lambda>body.
     Inr (joinCode [emit [(instrS OpSpawn grants)\<lparr>i_Int := codeLen body\<rparr>], body]))))"

definition compileSpawnAgent :: "compile_env \<Rightarrow> compiler \<Rightarrow> Node \<Rightarrow> compile_error + code" where
  "compileSpawnAgent E rec node =
     rbind (childValue node 1) (\<lambda>agentName.
     rbind (lastChild node) (\<lambda>taskNode.
     rbind (if length (n_Children node) = 4 then rbind (childAt node 2) (compileSpawnGrants E) else Inr []) (\<lambda>grants.
     let spawn = (\<lambda>body. (instrS OpSpawnAgent agentName)\<lparr>i_Str2 := grants, i_Int := codeLen body\<rparr>) in
     if isListNode taskNode \<and> length (n_Children taskNode) \<ge> 2 \<and> n_Value (hd (n_Children taskNode)) = ''task''
     then rbind (childValue taskNode 1) (\<lambda>task.
          rbind (compileRest rec taskNode 2 []) (\<lambda>body.
          Inr (joinCode [emit [instrS OpTask task, spawn body], body])))
     else rbind (rec taskNode) (\<lambda>task. Inr (joinCode [task, emit [spawn (emit [])]])))))"

definition compileAgents :: "compile_env \<Rightarrow> compiler \<Rightarrow> string \<Rightarrow> Node \<Rightarrow> (compile_error + code) option" where
  "compileAgents E rec head node =
     (if head = ''spawn'' then Some (compileSpawn E rec node)
      else if head = ''spawn_agent'' then Some (compileSpawnAgent E rec node)
      else if head = ''grants'' then
        Some (Inl (reportAt ''grants is only valid as the child grant list of spawn_agent, spawn or route'' node))
      else if head = ''task'' then Some (rbind (childValue node 1) (\<lambda>task. Inr (emit [instrS OpTask task])))
      else None)"

subsection \<open>The HTTP server\<close>

definition compileResponses :: "compiler \<Rightarrow> string \<Rightarrow> Node \<Rightarrow> (compile_error + code) option" where
  "compileResponses rec head node =
     (if head = ''res'' then Some (compileThen rec node [1, 2, 3] [instr OpRes])
      else if head = ''res_json'' then Some (compileThen rec node [1, 2] [instr OpResJson])
      else if head = ''res_header'' then Some (compileThen rec node [1, 2] [instr OpHttpResHeader])
      else if head = ''req_method'' then Some (Inr (emit [instr OpHttpReqMethod]))
      else if head \<in> {''req_query'', ''req_header'', ''req_path''} then Some (
        rbind (require (length (n_Children node) = 3) (head @ '' expects ('' @ head @ '' req name)'') node) (\<lambda>_.
        compileThen rec node [1, 2]
          [instr (if head = ''req_header'' then OpHttpReqHeader else if head = ''req_path'' then OpHttpReqPath else OpHttpReqQuery)]))
      else None)"

definition serializes :: "Node \<Rightarrow> bool" where
  "serializes child \<longleftrightarrow> headed child ''serialize_requests'' \<and> length (n_Children child) = 1"

text \<open>The loop that finds the default grants of the handlers.\<close>

fun serverGrantList :: "compile_env \<Rightarrow> Node list \<Rightarrow> string \<Rightarrow> compile_error + string" where
  "serverGrantList E [] acc = Inr acc"
| "serverGrantList E (child # rest) acc =
     (if headed child ''grants'' then
        rbind (require (acc = []) ''http_server accepts at most one (grants ...) form'' child) (\<lambda>_.
        rbind (compileSpawnGrants E child) (\<lambda>g. serverGrantList E rest (if g = [] then [CHR 0x0A] else g)))
      else serverGrantList E rest acc)"

definition compileRoute :: "compile_env \<Rightarrow> compiler \<Rightarrow> string \<Rightarrow> Node \<Rightarrow> compile_error + code" where
  "compileRoute E rec serverGrants child =
     rbind (childAt child 1) (\<lambda>pathNode.
     rbind (case ParseRoute (ce_unicode E) (n_Value pathNode) of
              Inl e \<Rightarrow> Inl (reportAt (req_error_text e) pathNode) | Inr _ \<Rightarrow> Inr ()) (\<lambda>_.
     rbind (lastChild child) (\<lambda>handler.
     rbind (if length (n_Children child) = 4 then rbind (childAt child 2) (compileSpawnGrants E)
            else Inr (trimSpace serverGrants)) (\<lambda>grants.
     rbind (childAt handler 1) (\<lambda>params.
     rbind (childValue params 0) (\<lambda>reqVar.
     rbind (compileChild rec handler 2) (\<lambda>body.
     Inr (joinCode [emit [(instrS OpHttpRoute (n_Value pathNode))\<lparr>i_Str2 := reqVar, i_Str3 := grants, i_Int := codeLen body\<rparr>],
                    body]))))))))"

definition compileServerForm :: "compile_env \<Rightarrow> compiler \<Rightarrow> string \<Rightarrow> Node \<Rightarrow> compile_error + code" where
  "compileServerForm E rec serverGrants child =
     (if headed child ''grants'' then Inr (emit [])
      else if serializes child then Inr (emit [])
      else if headed child ''route'' then compileRoute E rec serverGrants child
      else rec child)"

definition compileServer :: "compile_env \<Rightarrow> compiler \<Rightarrow> Node \<Rightarrow> compile_error + code" where
  "compileServer E rec node =
     rbind (childAt node 1) (\<lambda>portNode.
     rbind (childrenFrom node 2) (\<lambda>forms.
     let startFlags = (if list_ex serializes forms then 2 else 0) in
     rbind (if n_Type portNode = ''INT''
            then Inr (emit [(instrS OpHttpServerStart (n_Value portNode))\<lparr>i_Int := startFlags\<rparr>])
            else rbind (rec portNode) (\<lambda>p. Inr (joinCode [p, emit [instrI OpHttpServerStart (startFlags + 1)]]))) (\<lambda>start.
     rbind (serverGrantList E forms []) (\<lambda>serverGrants.
     rbind (compileEach (compileServerForm E rec serverGrants) forms [instr OpHttpServerServe]) (\<lambda>routes.
     Inr (joinCode [start, routes]))))))"

subsection \<open>Models\<close>

definition compileCircuit :: "compiler \<Rightarrow> string \<Rightarrow> Opcode \<Rightarrow> Node \<Rightarrow> compile_error + code" where
  "compileCircuit rec head op node =
     rbind (require (length (n_Children node) \<ge> 3) (head @ '' expects ('' @ head @ '' (args...) \"instruction\")'') node) (\<lambda>_.
     rbind (childAt node 1) (\<lambda>argsNode.
     rbind (compileChild rec node 2) (\<lambda>instruction.
     rbind (compileEach rec (n_Children argsNode) [instrI op (childCount argsNode)]) (\<lambda>args.
     Inr (joinCode [instruction, args])))))"

definition compileModels :: "compiler \<Rightarrow> string \<Rightarrow> Node \<Rightarrow> (compile_error + code) option" where
  "compileModels rec head node =
     (if head = ''confidence'' then Some (compileThen rec node [1] [instr OpConfidence])
      else if head = ''achieve'' then Some (
        rbind (require (length (n_Children node) = 3) ''achieve expects (achieve target constraint)'' node) (\<lambda>_.
        rbind (childAt node 1) (\<lambda>target. rbind (childAt node 2) (\<lambda>constraint.
        Inr (emit [loadConst (VStr (Stringify target)), loadConst (VStr (Stringify constraint)), instr OpAchieve])))))
      else if head = ''neural_circuit'' then Some (compileCircuit rec head OpNeuralCircuit node)
      else if head = ''ephemeral_circuit'' then Some (compileCircuit rec head OpEphemeralCircuit node)
      else if head = ''llm_generate'' then Some (
        rbind (compileChild rec node 1) (\<lambda>prompt.
        rbind (if length (n_Children node) \<ge> 3 then childValue node 2 else Inr ''llama3'') (\<lambda>model.
        Inr (joinCode [prompt, emit [instrS OpLlmGenerate model]]))))
      else if head = ''schema_bridge'' then Some (compileThen rec node [2] [])
      else if head = ''optimize_signature'' then Some (rbind (lastChild node) rec)
      else None)"

subsection \<open>Control flow\<close>

definition compileLet :: "compiler \<Rightarrow> Node \<Rightarrow> compile_error + code" where
  "compileLet rec node =
     rbind (childAt node 1) (\<lambda>binding.
     rbind (childValue binding 0) (\<lambda>varName.
     rbind (compileChild rec binding 1) (\<lambda>val.
     rbind (compileChild rec node 2) (\<lambda>body.
     Inr (joinCode [val, emit [instrS OpStoreVar varName], body])))))"

definition compileIf :: "compiler \<Rightarrow> Node \<Rightarrow> compile_error + code" where
  "compileIf rec node =
     rbind (compileChild rec node 1) (\<lambda>cond.
     rbind (compileChild rec node 2) (\<lambda>thn.
     rbind (if length (n_Children node) = 4 then compileChild rec node 3 else Inr (emit [])) (\<lambda>els.
     Inr (if fst els = []
          then joinCode [cond, emit [instrI OpJumpIfFalse (codeLen thn + 1)], thn, els]
          else joinCode [cond, emit [instrI OpJumpIfFalse (codeLen thn + 2)], thn,
                         emit [instrI OpJump (codeLen els + 1)], els]))))"

definition compileWhile :: "compiler \<Rightarrow> Node \<Rightarrow> compile_error + code" where
  "compileWhile rec node =
     rbind (compileChild rec node 1) (\<lambda>cond.
     rbind (compileChild rec node 2) (\<lambda>body.
     Inr (joinCode [cond, emit [instrI OpJumpIfFalse (codeLen body + 2)], body,
                    emit [instrI OpJump (- (codeLen cond + 1 + codeLen body))]])))"

definition compileFor :: "compiler \<Rightarrow> Node \<Rightarrow> compile_error + code" where
  "compileFor rec node =
     rbind (childValue node 1) (\<lambda>itemName.
     rbind (compileChild rec node 2) (\<lambda>list.
     rbind (compileChild rec node 3) (\<lambda>body.
     Inr (joinCode [list, emit [instr OpForInit, (instrS OpForNext itemName)\<lparr>i_Int := codeLen body + 2\<rparr>], body,
                    emit [instrI OpJump (- (codeLen body + 1))]]))))"

definition compileControl :: "compiler \<Rightarrow> string \<Rightarrow> Node \<Rightarrow> (compile_error + code) option" where
  "compileControl rec head node =
     (if head = ''let'' then Some (compileLet rec node)
      else if head = ''set'' then Some (rbind (childValue node 1) (\<lambda>var. compileThen rec node [2] [instrS OpSetVar var]))
      else if head = ''if'' then Some (compileIf rec node)
      else if head = ''while'' then Some (compileWhile rec node)
      else if head = ''for'' then Some (compileFor rec node)
      else if head = ''return'' then Some (
        if length (n_Children node) > 1 then compileThen rec node [1] [instr OpReturn]
        else Inr (emit [loadConst VNil, instr OpReturn]))
      else None)"

subsection \<open>Output, input, checks\<close>

definition compileOutput :: "compiler \<Rightarrow> string \<Rightarrow> Node \<Rightarrow> (compile_error + code) option" where
  "compileOutput rec head node =
     (if head = ''print'' then Some (compileRest rec node 1 [instrI OpPrint (childCount node - 1)])
      else if head = ''stderr'' then Some (compileThen rec node [1] [instr OpStderr])
      else if head = ''exit'' then Some (compileThen rec node [1] [instr OpExit])
      else if head = ''read_line'' then Some (Inr (emit [instr OpReadLine]))
      else if head = ''serialize_requests'' then Some (Inr (emit []))
      else if head \<in> {''req_body'', ''req_url_path'', ''utf8_valid'', ''granted'', ''port_available''} then Some (
        rbind (require (length (n_Children node) = 2) (head @ '' expects ('' @ head @ '' arg)'') node) (\<lambda>_.
        compileThen rec node [1]
          [instr (if head = ''req_url_path'' then OpHttpReqURLPath else if head = ''utf8_valid'' then OpUTF8Valid
                  else if head = ''granted'' then OpGranted else if head = ''port_available'' then OpPortAvailable
                  else OpHttpReqBody)]))
      else if head = ''req_id'' then Some (
        rbind (require (length (n_Children node) = 2) ''req_id expects (req_id req)'' node) (\<lambda>_.
        compileThen rec node [1] [instr OpHttpReqID]))
      else if head = ''sha256_hex'' then Some (compileThen rec node [1] [instr OpSha256Hex])
      else if head = ''rand_hex'' then Some (compileThen rec node [1] [instr OpRandHex])
      else if head = ''secure_equal'' then Some (compileThen rec node [1, 2] [instr OpSecureEqual])
      else if head = ''read_stdin'' then Some (Inr (emit [instr OpReadStdin]))
      else None)"

subsection \<open>Calls and operators\<close>

definition binops :: "string list" where
  "binops = [''+'', ''-'', ''*'', ''/'', ''<'', ''>'', ''<='', ''>='', ''=='', ''!='', ''='']"

definition compileCall :: "compiler \<Rightarrow> Node \<Rightarrow> compile_error + code" where
  "compileCall rec node =
     rbind (childValue node 1) (\<lambda>funcName.
     compileRest rec node 2 [(instrS OpCall funcName)\<lparr>i_Int := childCount node - 2\<rparr>])"

definition compileLogic :: "compiler \<Rightarrow> string \<Rightarrow> Node \<Rightarrow> compile_error + code" where
  "compileLogic rec head node =
     rbind (require (length (n_Children node) = 3)
       (''ARITY_ERROR: '' @ head @ '' with '' @ itoa (childCount node - 1) @ '' operands was not folded to binary form in this position'') node) (\<lambda>_.
     rbind (compileChild rec node 1) (\<lambda>left.
     rbind (compileChild rec node 2) (\<lambda>right.
     Inr (ShortCircuit head (fst left) (fst right), snd left @ snd right))))"

definition compileOperators :: "compiler \<Rightarrow> string \<Rightarrow> Node \<Rightarrow> (compile_error + code) option" where
  "compileOperators rec head node =
     (if head = ''call'' then Some (compileCall rec node)
      else if head = ''and'' \<or> head = ''or'' then Some (compileLogic rec head node)
      else if head \<in> set binops then
        Some (compileThen rec node [1, 2] [instrS OpBinop (if head = ''='' then ''=='' else head)])
      else if head = ''to_int'' then Some (compileThen rec node [1] [instrS OpConvert ''to_int''])
      else if head = ''time_now'' then Some (Inr (emit [instr OpTimeNow]))
      else if head \<in> {''to_float'', ''to_string'', ''bytes_to_string'', ''to_lower'', ''to_upper'', ''str_trim''}
      then Some (compileThen rec node [1] [instrS OpConvert head])
      else if head = ''encode_json'' then Some (compileThen rec node [1] [instr OpEncodeJson])
      else if head = ''html_escape'' \<or> head = ''attr_escape'' then Some (
        rbind (require (length (n_Children node) = 2) (head @ '' expects ('' @ head @ '' text)'') node) (\<lambda>_.
        compileThen rec node [1] [instr (if head = ''attr_escape'' then OpAttrEscape else OpHTMLEscape)]))
      else None)"

subsection \<open>Strings, lists and dicts\<close>

definition compileStrings :: "compiler \<Rightarrow> string \<Rightarrow> Node \<Rightarrow> (compile_error + code) option" where
  "compileStrings rec head node =
     (if head = ''str_split'' then Some (compileThen rec node [1, 2] [instr OpStrSplit])
      else if head = ''str_join'' then Some (compileThen rec node [1, 2] [instr OpStrJoin])
      else if head = ''regex_match'' then Some (compileThen rec node [1, 2] [instr OpRegexMatch])
      else if head = ''list_len'' then Some (compileThen rec node [1] [instr OpListLen])
      else if head = ''map_keys'' then Some (
        rbind (require (length (n_Children node) = 2) ''map_keys expects (map_keys dict)'' node) (\<lambda>_.
        compileThen rec node [1] [instr OpMapKeys]))
      else if head = ''is_nil'' then Some (compileThen rec node [1] [instr OpIsNil])
      else if head = ''list'' then Some (compileRest rec node 1 [instrI OpMakeList (childCount node - 1)])
      else None)"

definition compilePair :: "compiler \<Rightarrow> Node \<Rightarrow> compile_error + code" where
  "compilePair rec child = (if length (n_Children child) = 2 then compileThen rec child [0, 1] [] else Inr (emit []))"

definition compileDict :: "compiler \<Rightarrow> Node \<Rightarrow> compile_error + code" where
  "compileDict rec node =
     rbind (childrenFrom node 1) (\<lambda>pairs. compileEach (compilePair rec) pairs [instrI OpMakeDict (childCount node - 1)])"

definition compileMapGet :: "compiler \<Rightarrow> Node \<Rightarrow> compile_error + code" where
  "compileMapGet rec node =
     rbind (require (length (n_Children node) = 3) ''map_get expects (map_get dict key)'' node) (\<lambda>_.
     rbind (childAt node 1) (\<lambda>dictNode.
     if isSymbolNode dictNode then compileThen rec node [2] [instrS OpMapGet (n_Value dictNode)]
     else compileThen rec node [1, 2] [instr OpMapGet]))"

text \<open>An operation on a named variable: the other operands, then the opcode with the name.\<close>

definition compileNamed :: "compiler \<Rightarrow> Node \<Rightarrow> nat list \<Rightarrow> Opcode \<Rightarrow> compile_error + code" where
  "compileNamed rec node ks op =
     rbind (traverse (compileChild rec node) ks) (\<lambda>cs.
     rbind (childValue node 1) (\<lambda>name. Inr (joinCode (cs @ [emit [instrS op name]]))))"

definition compileDicts :: "compiler \<Rightarrow> string \<Rightarrow> Node \<Rightarrow> (compile_error + code) option" where
  "compileDicts rec head node =
     (if head = ''dict'' then Some (compileDict rec node)
      else if head = ''append'' then Some (compileNamed rec node [2] OpAppend)
      else if head = ''map_set'' then Some (compileNamed rec node [2, 3] OpMapSet)
      else if head = ''map_delete'' then Some (compileNamed rec node [2] OpMapDelete)
      else if head = ''map_get'' then Some (compileMapGet rec node)
      else if head = ''list_get'' then Some (compileNamed rec node [2] OpListGet)
      else if head = ''cli_args'' then Some (
        if length (n_Children node) = 2 then compileThen rec node [1] [instr OpCliArgsGet]
        else Inr (emit [instr OpCliArgs]))
      else if head = ''sleep'' then Some (compileThen rec node [1] [instr OpSleep])
      else if head = ''env'' then Some (compileThen rec node [1] [instr OpEnv])
      else if head = ''optimize_block'' then Some (
        rbind (require (length (n_Children node) \<ge> 4)
          ''optimize_block expects (optimize_block \"metric_name\" threshold_ms body...)'' node) (\<lambda>_.
        compileRest rec node 3 []))
      else if head = ''do'' then Some (compileRest rec node 1 [])
      else None)"

subsection \<open>The switch\<close>

fun firstSome :: "'a option list \<Rightarrow> 'a option" where
  "firstSome [] = None"
| "firstSome (x # xs) = (case x of Some a \<Rightarrow> Some a | None \<Rightarrow> firstSome xs)"

definition compileForm :: "compile_env \<Rightarrow> compiler \<Rightarrow> Node \<Rightarrow> Node \<Rightarrow> compile_error + code" where
  "compileForm E rec headNode node =
     (let head = n_Value headNode in
      case firstSome
        [compileTop rec head node, compileDatabase head node, compileStore rec head node, compileRequest rec head node,
         compileFiles rec head node, compileAgents E rec head node, compileResponses rec head node,
         (if head = ''http_server'' then Some (compileServer E rec node) else None), compileModels rec head node,
         compileControl rec head node, compileOutput rec head node, compileOperators rec head node,
         compileStrings rec head node, compileDicts rec head node] of
        Some r \<Rightarrow> r
      | None \<Rightarrow> Inl (reportAt (''bytecode compiler has no lowering for construct '' @ quote (ce_unicode E) head) headNode))"

subsection \<open>Tying the knot\<close>

text \<open>Every recursive call is on a smaller node: two compilers that agree below a node give it the same
  code.\<close>

definition agree :: "compiler \<Rightarrow> compiler \<Rightarrow> Node \<Rightarrow> bool" where
  "agree f g n \<longleftrightarrow> (\<forall>x. size x < size n \<longrightarrow> f x = g x)"

lemma agree_child: "agree f g n \<Longrightarrow> childAt n k = Inr c \<Longrightarrow> f c = g c \<and> agree f g c"
  by (auto simp: agree_def dest!: childAt_smaller)

lemma agree_member: "agree f g n \<Longrightarrow> c \<in> set (n_Children n) \<Longrightarrow> f c = g c \<and> agree f g c"
  by (auto simp: agree_def dest!: child_smaller)

lemma childrenFrom_member: "childrenFrom n k = Inr ns \<Longrightarrow> c \<in> set ns \<Longrightarrow> c \<in> set (n_Children n)"
  by (auto simp: childrenFrom_def split: if_splits dest: in_set_dropD)

lemma rbind_cong1: "m = m' \<Longrightarrow> rbind m f = rbind m' f"
  by simp

lemma rbind_cong2: "(\<And>a. m = Inr a \<Longrightarrow> f a = g a) \<Longrightarrow> rbind m f = rbind m g"
  by (cases m) auto

lemma compileChild_agree: "agree f g n \<Longrightarrow> compileChild f n k = compileChild g n k"
  by (auto simp: compileChild_def intro!: rbind_cong2 dest: agree_child)

lemma compileThen_agree: "agree f g n \<Longrightarrow> compileThen f n ks tail = compileThen g n ks tail"
  unfolding compileThen_def by (intro rbind_cong1 traverse_cong refl) (rule compileChild_agree)

lemma compileNamed_agree: "agree f g n \<Longrightarrow> compileNamed f n ks op = compileNamed g n ks op"
  unfolding compileNamed_def by (intro rbind_cong1 traverse_cong refl) (rule compileChild_agree)

lemma compileEach_agree: "(\<And>c. c \<in> set ns \<Longrightarrow> f c = g c) \<Longrightarrow> compileEach f ns tail = compileEach g ns tail"
  unfolding compileEach_def by (intro rbind_cong1 traverse_cong refl) auto

lemma compileRest_agree: "agree f g n \<Longrightarrow> compileRest f n k tail = compileRest g n k tail"
  unfolding compileRest_def
  by (intro rbind_cong2 compileEach_agree) (auto dest: agree_member childrenFrom_member)

lemmas agreements = compileChild_agree compileThen_agree compileNamed_agree compileRest_agree

lemma compileDefun_agree: "agree f g n \<Longrightarrow> compileDefun f n = compileDefun g n"
  unfolding compileDefun_def by (intro rbind_cong refl agreements)

lemma compileTryLet_agree: "agree f g n \<Longrightarrow> compileTryLet f n = compileTryLet g n"
  unfolding compileTryLet_def by (intro rbind_cong refl agreements) (auto dest: agree_child)

lemma compileStoreOpen_agree: "agree f g n \<Longrightarrow> compileStoreOpen f n = compileStoreOpen g n"
  unfolding compileStoreOpen_def by (intro rbind_cong refl agreements)

lemma compileStoreOp_agree: "agree f g n \<Longrightarrow> compileStoreOp f n a b ks op = compileStoreOp g n a b ks op"
  unfolding compileStoreOp_def by (intro rbind_cong refl agreements)

lemma compileSpawn_agree: "agree f g n \<Longrightarrow> compileSpawn E f n = compileSpawn E g n"
  unfolding compileSpawn_def lastChild_def by (intro rbind_cong refl agreements) (auto dest: agree_child)

lemma compileSpawnAgent_agree: "agree f g n \<Longrightarrow> compileSpawnAgent E f n = compileSpawnAgent E g n"
  unfolding compileSpawnAgent_def lastChild_def Let_def
  by (intro rbind_cong refl if_cong agreements) (auto dest: agree_child)

lemma compileRoute_agree: "agree f g n \<Longrightarrow> compileRoute E f sg n = compileRoute E g sg n"
  unfolding compileRoute_def lastChild_def by (intro rbind_cong refl agreements) (auto dest: agree_child)

lemma compileServerForm_agree:
  "agree f g n \<Longrightarrow> c \<in> set (n_Children n) \<Longrightarrow> compileServerForm E f sg c = compileServerForm E g sg c"
  unfolding compileServerForm_def by (intro if_cong refl compileRoute_agree) (auto dest: agree_member)

lemma compileServer_agree: "agree f g n \<Longrightarrow> compileServer E f n = compileServer E g n"
  unfolding compileServer_def Let_def
  by (intro rbind_cong refl if_cong compileEach_agree compileServerForm_agree)
    (auto dest: agree_child childrenFrom_member)

lemma compileCircuit_agree: "agree f g n \<Longrightarrow> compileCircuit f h op n = compileCircuit g h op n"
  unfolding compileCircuit_def
  by (intro rbind_cong refl compileEach_agree agreements) (auto dest: agree_child agree_member)

lemma lastChild_agree: "agree f g n \<Longrightarrow> rbind (lastChild n) f = rbind (lastChild n) g"
  unfolding lastChild_def by (intro rbind_cong refl) (auto dest: agree_child)

lemma compileLet_agree: "agree f g n \<Longrightarrow> compileLet f n = compileLet g n"
  unfolding compileLet_def by (intro rbind_cong refl agreements) (auto dest: agree_child)

lemma compileIf_agree: "agree f g n \<Longrightarrow> compileIf f n = compileIf g n"
  unfolding compileIf_def by (intro rbind_cong refl if_cong agreements)

lemma compileWhile_agree: "agree f g n \<Longrightarrow> compileWhile f n = compileWhile g n"
  unfolding compileWhile_def by (intro rbind_cong refl agreements)

lemma compileFor_agree: "agree f g n \<Longrightarrow> compileFor f n = compileFor g n"
  unfolding compileFor_def by (intro rbind_cong refl agreements)

lemma compileCall_agree: "agree f g n \<Longrightarrow> compileCall f n = compileCall g n"
  unfolding compileCall_def by (intro rbind_cong refl agreements)

lemma compileLogic_agree: "agree f g n \<Longrightarrow> compileLogic f h n = compileLogic g h n"
  unfolding compileLogic_def by (intro rbind_cong refl agreements)

lemma compilePair_agree: "agree f g n \<Longrightarrow> compilePair f n = compilePair g n"
  unfolding compilePair_def by (intro if_cong refl agreements)

lemma compileDict_agree: "agree f g n \<Longrightarrow> compileDict f n = compileDict g n"
  unfolding compileDict_def
  by (intro rbind_cong refl compileEach_agree compilePair_agree) (blast dest: childrenFrom_member agree_member)

lemma compileMapGet_agree: "agree f g n \<Longrightarrow> compileMapGet f n = compileMapGet g n"
  unfolding compileMapGet_def by (intro rbind_cong refl if_cong agreements)

lemmas form_agreements = agreements compileDefun_agree compileTryLet_agree compileStoreOpen_agree compileStoreOp_agree
  compileSpawn_agree compileSpawnAgent_agree compileServer_agree compileCircuit_agree lastChild_agree compileLet_agree
  compileIf_agree compileWhile_agree compileFor_agree compileCall_agree compileLogic_agree compileDict_agree
  compileMapGet_agree

lemmas switch_defs = compileTop_def compileStore_def compileRequest_def compileFiles_def compileAgents_def
  compileResponses_def compileModels_def compileControl_def compileOutput_def compileOperators_def compileStrings_def
  compileDicts_def

lemma compileForm_cong [fundef_cong]:
  assumes "n = n'" "c = c'" "\<And>x. size x < size n' \<Longrightarrow> f x = g x"
  shows "compileForm E f c n = compileForm E g c' n'"
proof -
  from assms(3) have "agree f g n'" by (simp add: agree_def)
  then show ?thesis
    unfolding assms(1,2)
    by (simp only: compileForm_def switch_defs form_agreements [of f g] cong del: if_weak_cong)
qed

function compileNode :: "compile_env \<Rightarrow> Node \<Rightarrow> compile_error + code" where
  "compileNode E node =
     (if isListNode node \<and> n_Children node \<noteq> [] then
        let headNode = hd (n_Children node) in
        rbind (arityBackstop node headNode) (\<lambda>_. compileForm E (compileNode E) headNode node)
      else compileLeaf node)"
  by pat_completeness auto
termination
  by (relation "measure (\<lambda>(E, n). size n)") auto

declare compileNode.simps [simp del]

text \<open>\<open>CompileToBytecode\<close> after its desugaring pass: a later definition of a function replaces an
  earlier one.\<close>

definition programOf :: "code \<Rightarrow> BCProgram" where
  "programOf c = \<lparr>p_modelAdapter = False, p_Version = 1,
     p_Functions = foldl (\<lambda>m (name, fn). put name (Some fn) m) [] (snd c), p_Main = fst c\<rparr>"

end
