(* ===== verification/CompileLaws.thy ===== *)
theory CompileLaws
  imports Compile
begin

text \<open>
  Compiled code is structured: jumps stay inside the block they are in, the bodies that an
  instruction carries are blocks of their own right behind it, and every instruction has a
  registered opcode under its own name. So the verifier of artifacts accepts it, up to calls of
  functions that nobody defined and number literals that are not finite.
\<close>

named_theorems yield \<open>a piece of the compiler yields good code\<close>

subsection \<open>Blocks\<close>

definition genuine :: "BCInstruction \<Rightarrow> bool" where
  "genuine i \<longleftrightarrow> Registry (i_Op i) \<noteq> None \<and> NameToOpcode (i_OpString i) = Some (i_Op i)"

definition jumpOps :: "Opcode list" where "jumpOps = [OpJump, OpJumpIfFalse, OpForNext]"
definition bodyOps :: "Opcode list" where "bodyOps = [OpSpawnAgent, OpSpawn, OpHttpRoute]"

definition plainOp :: "Opcode \<Rightarrow> bool" where
  "plainOp op \<longleftrightarrow> op \<notin> set jumpOps \<and> op \<notin> set bodyOps \<and> op \<noteq> OpTryLet"

text \<open>\<open>block lo hi is\<close>: the code is structured when there are \<open>lo\<close> instructions in front of it and
  \<open>hi\<close> behind it in its block.\<close>

inductive block :: "int \<Rightarrow> int \<Rightarrow> BCInstruction list \<Rightarrow> bool" where
  block_Nil: "block lo hi []"
| block_plain: "genuine i \<Longrightarrow> plainOp (i_Op i) \<Longrightarrow> block (lo + 1) hi rest \<Longrightarrow> block lo hi (i # rest)"
| block_jump: "genuine i \<Longrightarrow> i_Op i \<in> set jumpOps \<Longrightarrow> - lo \<le> i_Int i \<Longrightarrow> i_Int i \<le> 1 + int (length rest) + hi \<Longrightarrow>
    block (lo + 1) hi rest \<Longrightarrow> block lo hi (i # rest)"
| block_body: "genuine i \<Longrightarrow> i_Op i \<in> set bodyOps \<Longrightarrow> i_Int i = int (length b) \<Longrightarrow> block 0 0 b \<Longrightarrow>
    block (lo + 1 + int (length b)) hi rest \<Longrightarrow> block lo hi (i # b @ rest)"
| block_try: "genuine i \<Longrightarrow> i_Op i = OpTryLet \<Longrightarrow> i_Int i = int (length v) \<Longrightarrow> i_Int2 i = int (length c) \<Longrightarrow>
    i_Int3 i = int (length s) \<Longrightarrow> block 0 0 v \<Longrightarrow> block 0 0 c \<Longrightarrow> block 0 0 s \<Longrightarrow>
    block (lo + 1 + int (length v) + int (length c) + int (length s)) hi rest \<Longrightarrow> block lo hi (i # v @ c @ s @ rest)"

lemma block_mono: "block lo hi is \<Longrightarrow> lo \<le> lo' \<Longrightarrow> hi \<le> hi' \<Longrightarrow> block lo' hi' is"
proof (induction arbitrary: lo' hi' rule: block.induct)
  case (block_plain i lo hi rest)
  then show ?case by (intro block.block_plain) auto
next
  case (block_jump i lo rest hi)
  then show ?case by (intro block.block_jump) auto
next
  case (block_body i b lo hi rest)
  then show ?case by (intro block.block_body) auto
next
  case (block_try i v c s lo hi rest)
  then show ?case by (intro block.block_try) auto
qed (rule block_Nil)

lemma block_append:
  "block lo hi xs \<Longrightarrow> hi = hi' + int (length ys) \<Longrightarrow> block (lo + int (length xs)) hi' ys \<Longrightarrow> block lo hi' (xs @ ys)"
proof (induction rule: block.induct)
  case (block_plain i lo hi rest)
  then show ?case by (auto intro!: block.block_plain simp: algebra_simps)
next
  case (block_jump i lo rest hi)
  then show ?case by (auto intro!: block.block_jump simp: algebra_simps)
next
  case (block_body i b lo hi rest)
  then have "block (lo + 1 + int (length b)) hi' (rest @ ys)" by (simp add: algebra_simps)
  with block_body.hyps show ?case using block.block_body [of i b lo hi' "rest @ ys"] by simp
next
  case (block_try i v c s lo hi rest)
  then have "block (lo + 1 + int (length v) + int (length c) + int (length s)) hi' (rest @ ys)" by (simp add: algebra_simps)
  with block_try.hyps show ?case using block.block_try [of i v c s lo hi' "rest @ ys"] by simp
qed simp

text \<open>A closed block fits anywhere.\<close>

abbreviation sealed :: "BCInstruction list \<Rightarrow> bool" where
  "sealed is \<equiv> block 0 0 is"

lemma sealed_anywhere: "sealed is \<Longrightarrow> 0 \<le> lo \<Longrightarrow> 0 \<le> hi \<Longrightarrow> block lo hi is"
  by (rule block_mono)

lemma block_app:
  assumes "sealed xs" "block (lo + int (length xs)) hi ys" "0 \<le> lo" "0 \<le> hi"
  shows "block lo hi (xs @ ys)"
  by (rule block_append [OF sealed_anywhere refl]) (use assms in auto)

lemma sealed_append: "sealed xs \<Longrightarrow> sealed ys \<Longrightarrow> sealed (xs @ ys)"
  by (rule block_app) (auto intro: sealed_anywhere)

lemma sealed_concat: "\<forall>xs \<in> set xss. sealed xs \<Longrightarrow> sealed (concat xss)"
  by (induction xss) (auto intro: block_Nil sealed_append)

lemma sealed_plain: "\<forall>i \<in> set is. genuine i \<and> plainOp (i_Op i) \<Longrightarrow> block lo hi is"
  by (induction "is" arbitrary: lo) (auto intro: block.intros)

lemma block_genuine: "block lo hi is \<Longrightarrow> i \<in> set is \<Longrightarrow> genuine i"
  by (induction rule: block.induct) auto

subsection \<open>Good code\<close>

definition goodCode :: "code \<Rightarrow> bool" where
  "goodCode c \<longleftrightarrow> sealed (fst c) \<and> (\<forall>(n, f) \<in> set (snd c). sealed (fn_Instructions f))"

definition plainInst :: "BCInstruction \<Rightarrow> bool" where
  "plainInst i \<longleftrightarrow> genuine i \<and> plainOp (i_Op i)"

lemma instr_fields [simp]:
  "i_Op (instr op) = op" "i_Op (instrS op s) = op" "i_Op (instrI op k) = op" "i_Op (loadConst v) = OpLoadConst"
  "i_Int (instr op) = 0" "i_Int (instrI op k) = k" "i_Int (instrS op s) = 0" "i_Int (loadConst v) = 0"
  "i_OpString (instrS op s) = i_OpString (instr op)" "i_OpString (instrI op k) = i_OpString (instr op)"
  "i_OpString (loadConst v) = i_OpString (instr OpLoadConst)"
  by (simp_all add: instr_def instrS_def instrI_def loadConst_def)

lemma registered_iff: "Registry op \<noteq> None \<longleftrightarrow> 1 \<le> op \<and> op \<le> 80"
proof -
  have "set (map fst RegistryTable) = set [1..<81]" by code_simp
  then have "op \<in> fst ` set RegistryTable \<longleftrightarrow> 1 \<le> op \<and> op \<le> 80" by auto
  then show ?thesis by (simp add: Registry_def map_of_eq_None_iff)
qed

lemma genuine_instr [simp]: "1 \<le> op \<Longrightarrow> op \<le> 80 \<Longrightarrow> genuine (instr op)"
  using registered_iff [of op] by (auto simp: genuine_def instr_def intro: NameToOpcode_Registry)

lemma genuine_cong: "i_Op i = i_Op j \<Longrightarrow> i_OpString i = i_OpString j \<Longrightarrow> genuine i \<longleftrightarrow> genuine j"
  by (simp add: genuine_def)

lemma genuine_more [simp]:
  "genuine (instrS op s) = genuine (instr op)" "genuine (instrI op k) = genuine (instr op)"
  "genuine (loadConst v)" "genuine (i\<lparr>i_Str := a\<rparr>) = genuine i" "genuine (i\<lparr>i_Str2 := a\<rparr>) = genuine i"
  "genuine (i\<lparr>i_Str3 := a\<rparr>) = genuine i" "genuine (i\<lparr>i_Int := k\<rparr>) = genuine i" "genuine (i\<lparr>i_Int2 := k\<rparr>) = genuine i"
  "genuine (i\<lparr>i_Int3 := k\<rparr>) = genuine i" "genuine (i\<lparr>i_Value := v\<rparr>) = genuine i"
  using genuine_instr [of OpLoadConst] by (simp_all add: genuine_def instrS_def instrI_def loadConst_def)

lemmas op_kinds = plainOp_def jumpOps_def bodyOps_def

lemma goodCode_emit [simp]: "goodCode (emit is) = sealed is"
  by (simp add: goodCode_def emit_def)

lemma goodCode_join: "\<forall>c \<in> set cs. goodCode c \<Longrightarrow> goodCode (joinCode cs)"
  by (auto simp: goodCode_def joinCode_def intro!: sealed_concat)

text \<open>Instructions without jumps and bodies.\<close>

definition straight :: "BCInstruction list \<Rightarrow> bool" where
  "straight is \<longleftrightarrow> (\<forall>i \<in> set is. genuine i \<and> plainOp (i_Op i))"

lemma straight_simps [simp]:
  "straight []" "straight (i # is) \<longleftrightarrow> genuine i \<and> plainOp (i_Op i) \<and> straight is"
  by (auto simp: straight_def)

lemma straight_sealed: "straight is \<Longrightarrow> sealed is"
  unfolding straight_def by (rule sealed_plain)

subsection \<open>Every form gives good code\<close>

text \<open>The contract of a piece of the compiler, and how it composes.\<close>

definition yields :: "compile_error + code \<Rightarrow> bool" where
  "yields m \<longleftrightarrow> (\<forall>c. m = Inr c \<longrightarrow> goodCode c)"

definition yieldsIf :: "(compile_error + code) option \<Rightarrow> bool" where
  "yieldsIf x \<longleftrightarrow> (\<forall>m. x = Some m \<longrightarrow> yields m)"

lemma yields_Inl [yield]: "yields (Inl e)"
  by (simp add: yields_def)

lemma yields_Inr [yield]: "goodCode c \<Longrightarrow> yields (Inr c)"
  by (simp add: yields_def)

lemma yields_cond [yield]: "yields a \<Longrightarrow> yields b \<Longrightarrow> yields (if p then a else b)"
  by simp

lemma yieldsIf_if [yield]: "yieldsIf a \<Longrightarrow> yieldsIf b \<Longrightarrow> yieldsIf (if p then a else b)"
  by simp

lemma yieldsIf_Some [yield]: "yields m \<Longrightarrow> yieldsIf (Some m)"
  by (simp add: yieldsIf_def)

lemma yieldsIf_None [yield]: "yieldsIf None"
  by (simp add: yieldsIf_def)

lemma yields_after: "(\<And>a. yields (f a)) \<Longrightarrow> yields (rbind m f)"
  by (cases m) (auto simp: yields_def)

text \<open>Whatever is not code does not matter.\<close>

lemmas yields_steps [yield] =
  yields_after [where 'a = unit] yields_after [where 'a = string] yields_after [where 'a = Node]
  yields_after [where 'a = "Node list"] yields_after [where 'a = nat]

lemma yields_code: "yields m \<Longrightarrow> (\<And>c. goodCode c \<Longrightarrow> yields (f c)) \<Longrightarrow> yields (rbind m f)"
  by (cases m) (auto simp: yields_def)

text \<open>A compiler whose every result is good, and what is built over it.\<close>

definition goodCompiler :: "compiler \<Rightarrow> bool" where
  "goodCompiler rec \<longleftrightarrow> (\<forall>n. yields (rec n))"

lemma yields_rec: "goodCompiler rec \<Longrightarrow> yields (rec n)"
  by (simp add: goodCompiler_def)

lemma yields_child [yield]: "goodCompiler rec \<Longrightarrow> yields (compileChild rec n k)"
  unfolding compileChild_def by (intro yield) (rule yields_rec)

lemma good_traverse:
  assumes "traverse f xs = Inr cs" "\<And>x. yields (f x)" "straight tail"
  shows "goodCode (joinCode (cs @ [emit tail]))"
proof (rule goodCode_join, rule ballI)
  fix c assume "c \<in> set (cs @ [emit tail])"
  then consider "c \<in> set cs" | "c = emit tail" by auto
  then show "goodCode c"
  proof cases
    case 1
    with traverse_Inr_set [OF assms(1)] obtain x where "f x = Inr c" by blast
    with assms(2) [of x] show ?thesis unfolding yields_def by blast
  qed (simp add: assms(3) straight_sealed)
qed

lemma yields_traverse:
  assumes "\<And>x. yields (f x)" "\<And>cs. (\<And>tail. straight tail \<Longrightarrow> goodCode (joinCode (cs @ [emit tail]))) \<Longrightarrow> yields (g cs)"
  shows "yields (rbind (traverse f xs) g)"
proof (cases "traverse f xs")
  case (Inr cs)
  have "yields (g cs)" by (rule assms(2)) (rule good_traverse [OF Inr assms(1)])
  with Inr show ?thesis by simp
qed (simp add: yields_def)

lemma yields_each: "(\<And>x. yields (f x)) \<Longrightarrow> straight tail \<Longrightarrow> yields (compileEach f ns tail)"
  unfolding compileEach_def by (rule yields_traverse) (auto intro: yields_Inr)

lemma yields_eachRec [yield]: "goodCompiler rec \<Longrightarrow> straight tail \<Longrightarrow> yields (compileEach rec ns tail)"
  by (rule yields_each) (rule yields_rec)

lemma yields_then [yield]: "goodCompiler rec \<Longrightarrow> straight tail \<Longrightarrow> yields (compileThen rec n ks tail)"
  unfolding compileThen_def by (rule yields_traverse) (auto intro: yields_child yields_Inr)

lemma yields_rest [yield]: "goodCompiler rec \<Longrightarrow> straight tail \<Longrightarrow> yields (compileRest rec n k tail)"
  unfolding compileRest_def by (intro yield)

lemma yields_named [yield]:
  "goodCompiler rec \<Longrightarrow> (\<And>s. straight [instrS op s]) \<Longrightarrow> yields (compileNamed rec n ks op)"
  unfolding compileNamed_def by (rule yields_traverse) (auto intro: yields_child intro!: yields_steps yields_Inr)

lemmas yields_codes [yield] =
  yields_code [where m = "compileChild rec n k" for rec n k] yields_code [where m = "compileRest rec n k t" for rec n k t]
  yields_code [where m = "compileEach rec ns t" for rec ns t]

lemma yields_emit [yield]: "straight is \<Longrightarrow> yields (Inr (emit is))"
  by (simp add: yields_def straight_sealed)

lemma yields_defun [yield]: "goodCompiler rec \<Longrightarrow> yields (compileDefun rec n)"
  unfolding compileDefun_def
  by (intro yields_steps yields_codes yields_rest yields_Inr) (auto simp: goodCode_def block_Nil)

lemma yields_lazy [yield]: "yields (compileLazy n)"
  unfolding compileLazy_def by (intro yield) (simp add: goodCode_def block_Nil)

text \<open>A body behind the instruction that carries it.\<close>

lemma sealed_bodyI: "genuine i \<Longrightarrow> i_Op i \<in> set bodyOps \<Longrightarrow> i_Int i = int (length b) \<Longrightarrow> sealed b \<Longrightarrow> sealed (i # b)"
  using block_body [of i b 0 0 "[]"] by (simp add: block_Nil)

lemma sealed_tryI:
  "genuine i \<Longrightarrow> i_Op i = OpTryLet \<Longrightarrow> i_Int i = int (length v) \<Longrightarrow> i_Int2 i = int (length c) \<Longrightarrow>
   i_Int3 i = int (length s) \<Longrightarrow> sealed v \<Longrightarrow> sealed c \<Longrightarrow> sealed s \<Longrightarrow> sealed (i # v @ c @ s)"
  using block_try [of i v c s 0 0 "[]"] by (simp add: block_Nil)

lemma good_body:
  "straight pre \<Longrightarrow> genuine i \<Longrightarrow> i_Op i \<in> set bodyOps \<Longrightarrow> i_Int i = codeLen b \<Longrightarrow> goodCode b \<Longrightarrow>
   goodCode (joinCode [emit (pre @ [i]), b])"
  using sealed_append [OF straight_sealed sealed_bodyI [of i "fst b"], of pre]
  by (simp add: goodCode_def joinCode_def emit_def codeLen_def)

lemmas code_simps = goodCode_def joinCode_def emit_def codeLen_def

lemma yields_try [yield]: "goodCompiler rec \<Longrightarrow> yields (compileTryLet rec n)"
  unfolding compileTryLet_def by (intro yield) (auto simp: code_simps intro!: sealed_tryI)

lemma yields_top [yield]: "goodCompiler rec \<Longrightarrow> yieldsIf (compileTop rec h n)"
  unfolding compileTop_def by (intro yield) (simp_all add: block_Nil)

lemma yields_database [yield]: "yieldsIf (compileDatabase h n)"
  unfolding compileDatabase_def by (intro yield) (simp_all add: op_kinds)

lemma yields_store [yield]: "goodCompiler rec \<Longrightarrow> yieldsIf (compileStore rec h n)"
  unfolding compileStore_def compileStoreOpen_def compileStoreOp_def by (intro yield) (simp_all add: op_kinds)

lemma yields_request [yield]: "goodCompiler rec \<Longrightarrow> yieldsIf (compileRequest rec h n)"
  unfolding compileRequest_def FetchWithBody_def by (intro yield) (simp_all add: op_kinds)

lemma yields_files [yield]: "goodCompiler rec \<Longrightarrow> yieldsIf (compileFiles rec h n)"
  unfolding compileFiles_def by (intro yield) (auto simp: op_kinds intro!: goodCode_join)

lemma yields_spawn [yield]: "goodCompiler rec \<Longrightarrow> yields (compileSpawn E rec n)"
  unfolding compileSpawn_def
  by (intro yield) (auto simp: bodyOps_def intro!: good_body [where pre = "[]", simplified])

lemma yields_spawnAgent [yield]: "goodCompiler rec \<Longrightarrow> yields (compileSpawnAgent E rec n)"
  unfolding compileSpawnAgent_def Let_def
proof (intro yields_steps yields_cond)
  fix name task grants t
  assume rec: "goodCompiler rec"
  show "yields (rbind (compileRest rec task 2 []) (\<lambda>body. Inr (joinCode
      [emit [instrS OpTask t, (instrS OpSpawnAgent name)\<lparr>i_Str2 := grants, i_Int := codeLen body\<rparr>], body])))"
    by (intro yield rec; (rule good_body [where pre = "[instrS OpTask t]", simplified])?) (simp_all add: op_kinds)
  show "yields (rbind (rec task) (\<lambda>c. Inr (joinCode
      [c, emit [(instrS OpSpawnAgent name)\<lparr>i_Str2 := grants, i_Int := codeLen (emit [])\<rparr>]])))"
    by (rule yields_code [OF yields_rec [OF rec]])
      (auto simp: code_simps bodyOps_def block_Nil intro!: yields_Inr sealed_append sealed_bodyI)
qed

lemma yields_agents [yield]: "goodCompiler rec \<Longrightarrow> yieldsIf (compileAgents E rec h n)"
  unfolding compileAgents_def by (intro yield) (simp_all add: op_kinds)

lemma yields_responses [yield]: "goodCompiler rec \<Longrightarrow> yieldsIf (compileResponses rec h n)"
  unfolding compileResponses_def by (intro yield) (simp_all add: op_kinds)

lemma yields_route [yield]: "goodCompiler rec \<Longrightarrow> yields (compileRoute E rec sg n)"
  unfolding compileRoute_def
  by (intro yield) (auto simp: bodyOps_def intro!: good_body [where pre = "[]", simplified])

lemma yields_serverForm: "goodCompiler rec \<Longrightarrow> yields (compileServerForm E rec sg n)"
  unfolding compileServerForm_def by (intro yield) (simp_all add: yields_rec)

lemma yields_server [yield]: "goodCompiler rec \<Longrightarrow> yields (compileServer E rec n)"
  unfolding compileServer_def Let_def
proof (intro yields_steps)
  fix port forms
  assume rec: "goodCompiler rec"
  let ?fl = "if list_ex serializes forms then 2 else (0 :: int)"
  show "yields (rbind (if n_Type port = ''INT''
            then Inr (emit [(instrS OpHttpServerStart (n_Value port))\<lparr>i_Int := ?fl\<rparr>])
            else rbind (rec port) (\<lambda>p. Inr (joinCode [p, emit [instrI OpHttpServerStart (?fl + 1)]]))) (\<lambda>start.
     rbind (serverGrantList E forms []) (\<lambda>serverGrants.
     rbind (compileEach (compileServerForm E rec serverGrants) forms [instr OpHttpServerServe]) (\<lambda>routes.
     Inr (joinCode [start, routes])))))"
  proof (rule yields_code)
    show "yields (if n_Type port = ''INT''
            then Inr (emit [(instrS OpHttpServerStart (n_Value port))\<lparr>i_Int := ?fl\<rparr>])
            else rbind (rec port) (\<lambda>p. Inr (joinCode [p, emit [instrI OpHttpServerStart (?fl + 1)]])))"
      by (intro yields_cond yields_emit yields_code [OF yields_rec [OF rec]] yields_Inr)
        (auto simp: op_kinds intro!: goodCode_join straight_sealed)
    show "yields (rbind (serverGrantList E forms []) (\<lambda>sg.
       rbind (compileEach (compileServerForm E rec sg) forms [instr OpHttpServerServe]) (\<lambda>r. Inr (joinCode [c, r]))))"
      if "goodCode c" for c
      by (rule yields_after, rule yields_code [OF yields_each [OF yields_serverForm [OF rec]]])
        (use that in \<open>auto simp: op_kinds intro!: goodCode_join yields_Inr\<close>)
  qed
qed

lemma yields_circuit [yield]: "goodCompiler rec \<Longrightarrow> straight [instrI op k] \<Longrightarrow> yields (compileCircuit rec h op n)"
  unfolding compileCircuit_def by (intro yield) (auto simp: op_kinds intro!: goodCode_join)

lemma yields_models [yield]: "goodCompiler rec \<Longrightarrow> yieldsIf (compileModels rec h n)"
  unfolding compileModels_def
  by (intro yield) (auto simp: op_kinds yields_rec intro!: goodCode_join straight_sealed)

text \<open>Jumps: the blocks they connect are sealed.\<close>

lemma jump_over:
  "sealed b \<Longrightarrow> i_Op j \<in> set jumpOps \<Longrightarrow> genuine j \<Longrightarrow> 0 \<le> i_Int j \<Longrightarrow> i_Int j \<le> 1 + int (length b) + hi \<Longrightarrow> 0 \<le> hi \<Longrightarrow>
   0 \<le> lo \<Longrightarrow> block lo hi (j # b)"
  by (rule block_jump) (auto intro: sealed_anywhere)

lemma sealed_if: "sealed c \<Longrightarrow> sealed t \<Longrightarrow> sealed (c @ instrI OpJumpIfFalse (int (length t) + 1) # t)"
  by (rule sealed_append) (auto simp: op_kinds intro: jump_over)

lemma sealed_ifElse:
  assumes "sealed c" "sealed t" "sealed e"
  shows "sealed (c @ instrI OpJumpIfFalse (int (length t) + 2) # t @ instrI OpJump (int (length e) + 1) # e)"
proof -
  have "block (1 + int (length t)) 0 (instrI OpJump (int (length e) + 1) # e)"
    using assms(3) by (intro jump_over) (auto simp: op_kinds)
  then have "block 1 0 (t @ instrI OpJump (int (length e) + 1) # e)"
    using assms(2) by (intro block_app) auto
  then have "sealed (instrI OpJumpIfFalse (int (length t) + 2) # t @ instrI OpJump (int (length e) + 1) # e)"
    by (intro block_jump) (auto simp: op_kinds)
  with assms(1) show ?thesis by (rule sealed_append)
qed

lemma jump_back: "genuine j \<Longrightarrow> i_Op j \<in> set jumpOps \<Longrightarrow> - lo \<le> i_Int j \<Longrightarrow> i_Int j \<le> 1 \<Longrightarrow> block lo 0 [j]"
  by (rule block_jump) (auto intro: block_Nil)

lemma sealed_while:
  assumes "sealed c" "sealed b"
  shows "sealed (c @ instrI OpJumpIfFalse (int (length b) + 2) # b @ [instrI OpJump (- (int (length c) + 1 + int (length b)))])"
proof -
  let ?loop = "[instrI OpJump (- (int (length c) + 1 + int (length b)))]"
  have "block (int (length c) + 1 + int (length b)) 0 ?loop"
    by (rule jump_back) (auto simp: op_kinds)
  then have "block (int (length c) + 1) 0 (b @ ?loop)"
    using assms(2) by (intro block_app) auto
  then have "block (int (length c)) 0 (instrI OpJumpIfFalse (int (length b) + 2) # b @ ?loop)"
    by (intro block_jump) (auto simp: op_kinds)
  with assms(1) show ?thesis by (intro block_app) auto
qed

lemma sealed_for:
  assumes "sealed l" "sealed b"
  shows "sealed (l @ instr OpForInit # (instrS OpForNext x)\<lparr>i_Int := int (length b) + 2\<rparr> # b @ [instrI OpJump (- (int (length b) + 1))])"
proof -
  let ?loop = "[instrI OpJump (- (int (length b) + 1))]" and ?next = "(instrS OpForNext x)\<lparr>i_Int := int (length b) + 2\<rparr>"
  have "block (2 + int (length b)) 0 ?loop"
    by (rule jump_back) (auto simp: op_kinds)
  then have "block 2 0 (b @ ?loop)"
    using assms(2) by (intro block_app) auto
  then have "block 1 0 (?next # b @ ?loop)"
    by (intro block_jump) (auto simp: op_kinds)
  then have "sealed (instr OpForInit # ?next # b @ ?loop)"
    using block_plain [of "instr OpForInit" 0 0 "?next # b @ ?loop"] by (simp add: op_kinds)
  with assms(1) show ?thesis by (rule sealed_append)
qed

lemma sealed_and: "sealed l \<Longrightarrow> sealed r \<Longrightarrow> sealed (ShortCircuit ''and'' l r)"
proof -
  assume l: "sealed l" and r: "sealed r"
  let ?tail = "[loadConst (VBool True), instrS OpBinop ''and'', instrI OpJump 2, loadConst (VBool False)]"
  have "block (1 + int (length r)) 0 ?tail"
    by (intro block_plain block_jump block_Nil) (auto simp: op_kinds)
  then have "block 1 0 (r @ ?tail)"
    using r by (intro block_app) auto
  then have "sealed (instrI OpJumpIfFalse (int (length r) + 4) # r @ ?tail)"
    by (intro block_jump) (auto simp: op_kinds)
  with l show ?thesis by (simp add: ShortCircuit_def sealed_append)
qed

lemma sealed_or: "h \<noteq> ''and'' \<Longrightarrow> sealed l \<Longrightarrow> sealed r \<Longrightarrow> sealed (ShortCircuit h l r)"
proof -
  assume h: "h \<noteq> ''and''" and l: "sealed l" and r: "sealed r"
  let ?tail = "[loadConst (VBool False), instrS OpBinop ''or'']"
  have "sealed ?tail" by (rule straight_sealed) (simp add: op_kinds)
  with r have "block 3 0 (r @ ?tail)" by (intro block_app) (auto intro: sealed_anywhere)
  then have "sealed (instrI OpJumpIfFalse 3 # loadConst (VBool True) # instrI OpJump (int (length r) + 3) # r @ ?tail)"
    by (intro block_jump block_plain) (auto simp: op_kinds)
  with l h show ?thesis by (simp add: ShortCircuit_def sealed_append)
qed

lemma yields_let [yield]: "goodCompiler rec \<Longrightarrow> yields (compileLet rec n)"
  unfolding compileLet_def by (intro yield) (auto simp: op_kinds intro!: goodCode_join straight_sealed)

lemma yields_if [yield]: "goodCompiler rec \<Longrightarrow> yields (compileIf rec n)"
  unfolding compileIf_def
proof (intro yields_codes yields_child)
  fix c t
  assume rec: "goodCompiler rec" and c: "goodCode c" and t: "goodCode t"
  have "yields (if length (n_Children n) = 4 then compileChild rec n 3 else Inr (emit []))"
    by (intro yields_cond yields_child [OF rec] yields_emit) simp
  then show "yields (rbind (if length (n_Children n) = 4 then compileChild rec n 3 else Inr (emit [])) (\<lambda>els.
     Inr (if fst els = []
          then joinCode [c, emit [instrI OpJumpIfFalse (codeLen t + 1)], t, els]
          else joinCode [c, emit [instrI OpJumpIfFalse (codeLen t + 2)], t, emit [instrI OpJump (codeLen els + 1)], els])))"
    using c t by (auto intro!: yields_code yields_Inr simp: code_simps sealed_if sealed_ifElse)
qed simp_all

lemma yields_while [yield]: "goodCompiler rec \<Longrightarrow> yields (compileWhile rec n)"
  unfolding compileWhile_def by (intro yield) (auto simp: code_simps intro: sealed_while [simplified])

lemma yields_for [yield]: "goodCompiler rec \<Longrightarrow> yields (compileFor rec n)"
  unfolding compileFor_def by (intro yield) (auto simp: code_simps intro: sealed_for [simplified])

lemma yields_control [yield]: "goodCompiler rec \<Longrightarrow> yieldsIf (compileControl rec h n)"
  unfolding compileControl_def by (intro yield) (simp_all add: op_kinds)

lemma yields_output [yield]: "goodCompiler rec \<Longrightarrow> yieldsIf (compileOutput rec h n)"
  unfolding compileOutput_def by (intro yield) (simp_all add: op_kinds block_Nil)

lemma yields_call [yield]: "goodCompiler rec \<Longrightarrow> yields (compileCall rec n)"
  unfolding compileCall_def by (intro yield) (simp_all add: op_kinds)

lemma yields_logic [yield]: "goodCompiler rec \<Longrightarrow> yields (compileLogic rec h n)"
  unfolding compileLogic_def
  by (intro yield) (auto simp: goodCode_def intro: sealed_and sealed_or)

lemma yields_operators [yield]: "goodCompiler rec \<Longrightarrow> yieldsIf (compileOperators rec h n)"
  unfolding compileOperators_def by (intro yield) (simp_all add: op_kinds)

lemma yields_strings [yield]: "goodCompiler rec \<Longrightarrow> yieldsIf (compileStrings rec h n)"
  unfolding compileStrings_def by (intro yield) (simp_all add: op_kinds)

lemma yields_dict [yield]: "goodCompiler rec \<Longrightarrow> yields (compileDict rec n)"
  unfolding compileDict_def
proof (intro yields_steps yields_each)
  fix ps x assume "goodCompiler rec"
  then show "yields (compilePair rec x)"
    unfolding compilePair_def by (intro yields_cond yields_then yields_emit) simp_all
qed (simp add: op_kinds)

lemma yields_dicts [yield]: "goodCompiler rec \<Longrightarrow> yieldsIf (compileDicts rec h n)"
  unfolding compileDicts_def compileMapGet_def by (intro yield) (simp_all add: op_kinds)

subsection \<open>The whole compiler\<close>

lemma firstSome_all: "\<forall>x \<in> set xs. yieldsIf x \<Longrightarrow> firstSome xs = Some m \<Longrightarrow> yields m"
  by (induction xs) (auto simp: yieldsIf_def split: option.splits)

lemma yields_form: "goodCompiler rec \<Longrightarrow> yields (compileForm E rec headNode n)"
proof -
  assume rec: "goodCompiler rec"
  let ?h = "n_Value headNode"
  have "\<forall>x \<in> set [compileTop rec ?h n, compileDatabase ?h n, compileStore rec ?h n, compileRequest rec ?h n,
         compileFiles rec ?h n, compileAgents E rec ?h n, compileResponses rec ?h n,
         (if ?h = ''http_server'' then Some (compileServer E rec n) else None), compileModels rec ?h n,
         compileControl rec ?h n, compileOutput rec ?h n, compileOperators rec ?h n,
         compileStrings rec ?h n, compileDicts rec ?h n]. yieldsIf x"
    unfolding list.set ball_simps by (intro conjI yield rec TrueI)
  from firstSome_all [OF this] show ?thesis
    unfolding compileForm_def Let_def by (auto split: option.split intro: yields_Inl simp del: firstSome.simps)
qed

lemma yields_leaf: "yields (compileLeaf n)"
  unfolding compileLeaf_def
  by (intro yields_cond) (auto split: option.split simp: op_kinds intro!: yields_Inl yields_emit)

lemma compileNode_yields: "yields (compileNode E n)"
proof (induction "size n" arbitrary: n rule: less_induct)
  case less
  let ?rec = "\<lambda>x. if size x < size n then compileNode E x else Inl NoFuel"
  have "goodCompiler ?rec"
    using less by (auto simp: goodCompiler_def yields_Inl)
  then have "yields (compileForm E ?rec h n)" for h by (rule yields_form)
  moreover have "compileForm E (compileNode E) h n = compileForm E ?rec h n" for h
    by (rule compileForm_cong) simp_all
  ultimately show ?case
    by (subst compileNode.simps) (auto simp: Let_def intro!: yields_steps yields_leaf)
qed

subsection \<open>The verifier accepts it\<close>

definition fitsAt :: "int \<Rightarrow> int \<Rightarrow> BCInstruction list \<Rightarrow> nat \<Rightarrow> bool" where
  "fitsAt lo hi is i \<longleftrightarrow>
     (let ins = is ! i; rest = int (length is) - int i - 1 in
      (i_Op ins \<in> set jumpOps \<longrightarrow> - (lo + int i) \<le> i_Int ins \<and> i_Int ins \<le> rest + 1 + hi) \<and>
      (i_Op ins \<in> set bodyOps \<longrightarrow> 0 \<le> i_Int ins \<and> i_Int ins \<le> rest) \<and>
      (i_Op ins = OpTryLet \<longrightarrow> 0 \<le> i_Int ins \<and> 0 \<le> i_Int2 ins \<and> 0 \<le> i_Int3 ins \<and>
         i_Int ins + i_Int2 ins + i_Int3 ins \<le> rest))"

definition fits :: "int \<Rightarrow> int \<Rightarrow> BCInstruction list \<Rightarrow> bool" where
  "fits lo hi is \<longleftrightarrow> (\<forall>i < length is. fitsAt lo hi is i)"

lemma fits_Nil [simp]: "fits lo hi []"
  by (simp add: fits_def)

lemma fits_append:
  assumes "fits lo (hi + int (length ys)) xs" "fits (lo + int (length xs)) hi ys"
  shows "fits lo hi (xs @ ys)"
  unfolding fits_def
proof (intro allI impI)
  fix i assume i: "i < length (xs @ ys)"
  show "fitsAt lo hi (xs @ ys) i"
  proof (cases "i < length xs")
    case True
    with assms(1) have "fitsAt lo (hi + int (length ys)) xs i" by (simp add: fits_def)
    with True show ?thesis by (auto simp: fitsAt_def nth_append Let_def)
  next
    case False
    with i obtain j where "i = length xs + j" "j < length ys" by (metis add_diff_inverse_nat length_append nat_add_left_cancel_less)
    with assms(2) show ?thesis by (auto simp: fits_def fitsAt_def nth_append Let_def algebra_simps)
  qed
qed

lemma fitsAt_mono: "fitsAt lo hi is i \<Longrightarrow> lo \<le> lo' \<Longrightarrow> hi \<le> hi' \<Longrightarrow> fitsAt lo' hi' is i"
  unfolding fitsAt_def Let_def
  by (elim conjE, intro conjI) (rule impI, drule (1) mp, linarith)+

lemma fits_mono: "fits lo hi is \<Longrightarrow> lo \<le> lo' \<Longrightarrow> hi \<le> hi' \<Longrightarrow> fits lo' hi' is"
  unfolding fits_def by (blast intro: fitsAt_mono)

lemma fitsAt_Suc: "fitsAt lo hi (i # is) (Suc j) \<longleftrightarrow> fitsAt (lo + 1) hi is j"
proof -
  have "int (length (i # is)) - int (Suc j) - 1 = int (length is) - int j - 1" "lo + int (Suc j) = lo + 1 + int j"
    by simp_all
  then show ?thesis unfolding fitsAt_def Let_def nth_Cons_Suc by (simp only:)
qed

lemma fits_Cons: "fitsAt lo hi (i # is) 0 \<Longrightarrow> fits (lo + 1) hi is \<Longrightarrow> fits lo hi (i # is)"
  unfolding fits_def by (auto simp: fitsAt_Suc less_Suc_eq_0_disj)

lemma fits_block: "fits 0 0 b \<Longrightarrow> fits (lo + int (length b)) hi rest \<Longrightarrow> 0 \<le> lo \<Longrightarrow> 0 \<le> hi \<Longrightarrow> fits lo hi (b @ rest)"
  by (rule fits_append) (rule fits_mono, assumption, linarith+)

lemma block_fits: "block lo hi is \<Longrightarrow> 0 \<le> lo \<Longrightarrow> 0 \<le> hi \<Longrightarrow> fits lo hi is"
proof (induction rule: block.induct)
  case (block_plain i lo hi rest)
  then show ?case by (intro fits_Cons) (auto simp: fitsAt_def plainOp_def)
next
  case (block_jump i lo rest hi)
  then show ?case by (intro fits_Cons) (auto simp: fitsAt_def op_kinds)
next
  case (block_body i b lo hi rest)
  then have "fits (lo + 1) hi (b @ rest)" by (intro fits_block) simp_all
  with block_body show ?case by (intro fits_Cons) (auto simp: fitsAt_def op_kinds)
next
  case (block_try i v c s lo hi rest)
  then have "fits (lo + 1) hi (v @ c @ s @ rest)" by (intro fits_block) simp_all
  with block_try show ?case by (intro fits_Cons) (auto simp: fitsAt_def op_kinds)
qed simp

text \<open>The two complaints that remain possible.\<close>

definition openComplaint :: "string \<Rightarrow> bool" where
  "openComplaint e \<longleftrightarrow> (\<exists>i. e = instructionError i ''LOAD_CONST is not a finite number'' \<or> e = instructionError i ''references missing function'')"

lemma resolved_genuine: "genuine inst \<Longrightarrow> resolvedOp i inst = Inr (i_Op inst)"
  by (auto simp: genuine_def resolvedOp_def Registry_Unknown)

lemma validConst_complaint: "validConst i op inst = Inl e \<Longrightarrow> openComplaint e"
  unfolding validConst_def openComplaint_def by (auto split: val.splits simp: ensure_Inl)

lemma validCall_complaint: "validCall prog i op inst = Inl e \<Longrightarrow> openComplaint e"
  unfolding validCall_def openComplaint_def by (auto simp: ensure_Inl)

lemma validateInstruction_fits:
  assumes "genuine (is ! i)" "fitsAt 0 0 is i" "validateInstruction prog (length is) i (is ! i) = Inl e"
  shows "openComplaint e"
proof -
  let ?i = "is ! i"
  let ?rest = "int (length is) - int i - 1"
  from assms(2) have jump: "i_Op ?i \<in> set jumpOps \<Longrightarrow> - int i \<le> i_Int ?i \<and> i_Int ?i \<le> ?rest + 1"
    and body: "i_Op ?i \<in> set bodyOps \<Longrightarrow> 0 \<le> i_Int ?i \<and> i_Int ?i \<le> ?rest"
    and tryLet: "i_Op ?i = OpTryLet \<Longrightarrow> 0 \<le> i_Int ?i \<and> 0 \<le> i_Int2 ?i \<and> 0 \<le> i_Int3 ?i \<and>
      i_Int ?i + i_Int2 ?i + i_Int3 ?i \<le> ?rest"
    unfolding fitsAt_def Let_def by simp_all
  have "validJump (length is) i (i_Op ?i) ?i = Inr ()"
    using jump by (fastforce simp: validJump_def jumpOps_def)
  moreover have "validBody (length is) i (i_Op ?i) ?i = Inr ()"
  proof (cases "i_Op ?i = OpTryLet")
    case True
    with tryLet show ?thesis by (simp add: validBody_def)
  next
    case False
    have "{OpSpawnAgent, OpSpawn, OpHttpRoute} = set bodyOps" by (simp add: bodyOps_def)
    moreover have "\<not> (i_Int ?i < 0 \<or> i_Int ?i > ?rest)" if "i_Op ?i \<in> set bodyOps"
      using body [OF that] by linarith
    ultimately show ?thesis using False by (simp add: validBody_def Let_def)
  qed
  ultimately have "rbind (validConst i (i_Op ?i) ?i) (\<lambda>_. validCall prog i (i_Op ?i) ?i) = Inl e"
    using assms(3) resolved_genuine [OF assms(1), of i] by (simp add: validateInstruction_def)
  then show ?thesis
    unfolding rbind_eq_Inl by (blast intro: validConst_complaint validCall_complaint)
qed

lemma first_error_Inl: "first_error f xs = Inl e \<Longrightarrow> \<exists>x \<in> set xs. f x = Inl e"
  by (induction xs) (auto simp: result_simps)

lemma validateInstructions_sealed:
  assumes "sealed is" "validateInstructions is prog = Inl e"
  shows "openComplaint e"
proof -
  from assms(2) obtain i where i: "i < length is" "validateInstruction prog (length is) i (is ! i) = Inl e"
    by (auto simp: validateInstructions_def set_zip dest!: first_error_Inl)
  from block_fits [OF assms(1)] i(1) have "fitsAt 0 0 is i" by (simp add: fits_def)
  with validateInstruction_fits [OF _ _ i(2)] block_genuine [OF assms(1)] i(1) show ?thesis by auto
qed

lemma foldl_put_values:
  "(n, v) \<in> set (foldl (\<lambda>m (name, fn). put name (Some fn) m) m fs) \<Longrightarrow>
   (n, v) \<in> set m \<or> (\<exists>f. v = Some f \<and> (n, f) \<in> set fs)"
proof (induction fs arbitrary: m)
  case (Cons a fs)
  obtain name fn where a: "a = (name, fn)" by fastforce
  from Cons.prems a have "(n, v) \<in> set (foldl (\<lambda>m (name, fn). put name (Some fn) m) (put name (Some fn) m) fs)" by simp
  from Cons.IH [OF this] consider "(n, v) \<in> set (put name (Some fn) m)" | "\<exists>f. v = Some f \<and> (n, f) \<in> set fs" by blast
  then show ?case
  proof cases
    case 1
    then have "(n, v) \<in> set m \<or> (n = name \<and> v = Some fn)" by (induction m) (auto split: if_splits)
    with a show ?thesis by auto
  qed auto
qed simp

text \<open>C4. The verifier of artifacts accepts every compiled program: it never finds an unknown opcode,
  a jump out of bounds, a body length or a \<open>TRY_LET\<close> length out of range. What it can still report is
  a call of a function that nobody defined and a number literal that is not finite.\<close>

theorem compiled_program_validates:
  assumes "compileNode E ast = Inr c" "ValidateProgram (Some (programOf c)) = Inl e"
  shows "\<exists>i. e = instructionError i ''LOAD_CONST is not a finite number'' \<or> e = instructionError i ''references missing function''"
proof -
  from compileNode_yields [of E ast] assms(1) have g: "goodCode c" by (simp add: yields_def)
  let ?prog = "programOf c"
  from assms(2) consider "validateInstructions (fst c) ?prog = Inl e"
    | "first_error (validateFunction ?prog) (p_Functions ?prog) = Inl e"
    by (auto simp: ValidateProgram_def result_simps programOf_def)
  then have "openComplaint e"
  proof cases
    case 1
    with g validateInstructions_sealed show ?thesis by (auto simp: goodCode_def)
  next
    case 2
    from first_error_Inl [OF this] obtain n v where nv: "(n, v) \<in> set (p_Functions ?prog)" "validateFunction ?prog (n, v) = Inl e" by auto
    from foldl_put_values [of n v "[]" "snd c"] nv(1) obtain f where "v = Some f" "(n, f) \<in> set (snd c)"
      by (auto simp: programOf_def)
    with g nv(2) show ?thesis by (auto simp: goodCode_def validateFunction_def intro: validateInstructions_sealed)
  qed
  then show ?thesis by (simp add: openComplaint_def)
qed

text \<open>A program that calls a function it does not define.\<close>

definition symbolNode :: "string \<Rightarrow> Node" where
  "symbolNode s = Node ''SYMBOL'' s [] 1 1"

definition listNode :: "Node list \<Rightarrow> Node" where
  "listNode ns = Node ''List'' [] ns 1 1"

definition exampleEnv :: compile_env where
  "exampleEnv = \<lparr>ce_unicode = \<lparr>uni_letter = (\<lambda>_. False), uni_digit = (\<lambda>_. False), uni_print = (\<lambda>_. True)\<rparr>,
     ce_os = \<lparr>cwd = ''/'', EvalSymlinks = Inr, LstatOk = (\<lambda>_. True)\<rparr>\<rparr>"

lemma compiled_program_validates_witness:
  "\<exists>i. instructionError 0 ''references missing function'' = instructionError i ''LOAD_CONST is not a finite number'' \<or>
       instructionError 0 ''references missing function'' = instructionError i ''references missing function''"
proof (rule compiled_program_validates)
  let ?ast = "listNode [symbolNode ''cli_app'', listNode [symbolNode ''call'', symbolNode ''f'']]"
  let ?code = "([instrS OpCall ''f''], []) :: code"
  show "compileNode exampleEnv ?ast = Inr ?code" by code_simp
  show "ValidateProgram (Some (programOf ?code)) = Inl (instructionError 0 ''references missing function'')" by code_simp
qed

end
