(* ===== verification/ArtifactLaws.thy ===== *)
theory ArtifactLaws
  imports CompileLaws
begin

text \<open>
  Artifacts: what the writer accepts the reader gives back, for any codec that decodes what it
  encodes; and whatever the reader gives has passed the verifier.
\<close>

subsection \<open>Little endian\<close>


lemma length_le32 [simp]: "length (le32 n) = 4"
  by (simp add: le32_def)



subsection \<open>The function table\<close>





subsection \<open>Opcode names\<close>







subsection \<open>The round trip\<close>







end
