(* ===== verification/Interp.thy ===== *)
theory Interp
  imports Machine Ast Routes
begin

text \<open>
  The tree-walking interpreter (\<open>Interpreter\<close> in \<open>internal/vm/vm.go\<close>): it evaluates a desugared
  \<open>cli_app\<close> directly. The state is the chain of environments (innermost first), the heap of dicts and
  the effects so far; the functions are fixed before the first evaluation. An environment is never
  captured, so the chain is a stack: \<open>let\<close> and \<open>for\<close> push a frame, a call starts a chain of its own.
  The constructs are functions over the recursive call \<open>rec\<close>, listed in tables by their head;
  \<open>eval\<close> ties the knot with fuel, one unit for a level of nesting or an iteration of a \<open>while\<close>.
\<close>

subsection \<open>State and panics\<close>

text \<open>\<open>IErr\<close> is \<open>interpError\<close>, \<open>IReturn\<close> is \<open>returnSignal\<close>, \<open>IExit\<close> is \<open>VmExit\<close>, \<open>IGo\<close> a panic of Go
  itself, \<open>ICrash\<close> the exhaustion of its stack.\<close>

datatype ipanic =
    IErr ErrorOutput
  | IReturn val
  | IExit int
  | IGo string
  | ICrash
  | IFuel
  | IUnmodelled string

record istate =
  i_env :: "dict list"
  i_heap :: heap
  i_events :: "event list"

record InterpFunc =
  if_params :: "string list"
  if_body :: Node
  if_lazySynthesize :: bool

record icfg =
  ic_funcs :: "InterpFunc strmap"
  ic_args :: "string list"
  ic_caps :: Grants
  ic_host :: host

type_synonym 'a I = "istate \<Rightarrow> (ipanic + 'a) \<times> istate"

definition returnI :: "'a \<Rightarrow> 'a I" where
  "returnI a s = (Inr a, s)"

definition panicI :: "ipanic \<Rightarrow> 'a I" where
  "panicI p s = (Inl p, s)"

definition bindI :: "'a I \<Rightarrow> ('a \<Rightarrow> 'b I) \<Rightarrow> 'b I" where
  "bindI m f s = (case m s of (Inl p, s') \<Rightarrow> (Inl p, s') | (Inr a, s') \<Rightarrow> f a s')"

abbreviation thenI :: "'a I \<Rightarrow> 'b I \<Rightarrow> 'b I" where
  "thenI m n \<equiv> bindI m (\<lambda>_. n)"

definition getI :: "(istate \<Rightarrow> 'a) \<Rightarrow> 'a I" where
  "getI f s = (Inr (f s), s)"

definition modifyI :: "(istate \<Rightarrow> istate) \<Rightarrow> unit I" where
  "modifyI f s = (Inr (), f s)"

fun traverseI :: "('a \<Rightarrow> 'b I) \<Rightarrow> 'a list \<Rightarrow> 'b list I" where
  "traverseI f [] = returnI []"
| "traverseI f (x # xs) = bindI (f x) (\<lambda>y. bindI (traverseI f xs) (\<lambda>ys. returnI (y # ys)))"

definition InterpErr :: "string \<Rightarrow> Node \<Rightarrow> 'a I" where
  "InterpErr reason node = panicI (IErr \<lparr>eo_Reason = reason, eo_Line = n_Line node, eo_Column = n_Column node\<rparr>)"

definition requireI :: "bool \<Rightarrow> string \<Rightarrow> Node \<Rightarrow> unit I" where
  "requireI b reason node = (if b then returnI () else InterpErr reason node)"

text \<open>\<open>node.Children[k]\<close>.\<close>

definition childI :: "Node \<Rightarrow> nat \<Rightarrow> Node I" where
  "childI node k =
     (if k < length (n_Children node) then returnI (n_Children node ! k)
      else panicI (IGo ''runtime error: index out of range''))"

definition arity :: "Node \<Rightarrow> nat" where
  "arity node = length (n_Children node)"

subsection \<open>Environments\<close>

definition getVarI :: "string \<Rightarrow> val option I" where
  "getVarI name = getI (\<lambda>s. envGet (i_env s) name)"

definition setVarI :: "string \<Rightarrow> val \<Rightarrow> bool I" where
  "setVarI name v = bindI (getI (\<lambda>s. envSet (i_env s) name v)) (\<lambda>r.
     case r of None \<Rightarrow> returnI False
     | Some env' \<Rightarrow> thenI (modifyI (\<lambda>s. s\<lparr>i_env := env'\<rparr>)) (returnI True))"

definition needVarI :: "string \<Rightarrow> Node \<Rightarrow> val I" where
  "needVarI name node = bindI (getVarI name) (\<lambda>r.
     case r of Some v \<Rightarrow> returnI v | None \<Rightarrow> InterpErr (''undefined variable: '' @ name) node)"

text \<open>\<open>m\<close> in a child environment.\<close>

definition inFrame :: "dict \<Rightarrow> 'a I \<Rightarrow> 'a I" where
  "inFrame frame m s =
     (case m (s\<lparr>i_env := frame # i_env s\<rparr>) of (r, s') \<Rightarrow> (r, s'\<lparr>i_env := drop 1 (i_env s')\<rparr>))"

text \<open>\<open>m\<close> in the environment of a call; the caller's comes back on every way out.\<close>

definition inCall :: "dict \<Rightarrow> 'a I \<Rightarrow> 'a I" where
  "inCall frame m s = (case m (s\<lparr>i_env := [frame]\<rparr>) of (r, s') \<Rightarrow> (r, s'\<lparr>i_env := i_env s\<rparr>))"

definition catchReturn :: "val I \<Rightarrow> val I" where
  "catchReturn m s = (case m s of (Inl (IReturn v), s') \<Rightarrow> (Inr v, s') | r \<Rightarrow> r)"

subsection \<open>Heap, effects, authority\<close>

definition treeI :: "val \<Rightarrow> tree I" where
  "treeI v = bindI (getI (\<lambda>s. treeOf (i_heap s) v)) (\<lambda>r.
     case r of None \<Rightarrow> panicI ICrash | Some t \<Rightarrow> returnI t)"

definition sprintI :: "val \<Rightarrow> string I" where
  "sprintI v = bindI (treeI v) (\<lambda>t. returnI (sprint t))"

definition textI :: "val \<Rightarrow> string I" where
  "textI v = bindI (treeI v) (\<lambda>t. returnI (TextOf t))"

definition newDictI :: "dict \<Rightarrow> val I" where
  "newDictI d = bindI (getI (\<lambda>s. length (i_heap s))) (\<lambda>a.
     thenI (modifyI (\<lambda>s. s\<lparr>i_heap := i_heap s @ [d]\<rparr>)) (returnI (VDict a)))"

definition dictAtI :: "nat \<Rightarrow> dict I" where
  "dictAtI a = getI (\<lambda>s. if a < length (i_heap s) then i_heap s ! a else [])"

definition setDictI :: "nat \<Rightarrow> dict \<Rightarrow> unit I" where
  "setDictI a d = modifyI (\<lambda>s. s\<lparr>i_heap := (i_heap s)[a := d]\<rparr>)"

definition thawI :: "tree \<Rightarrow> val I" where
  "thawI t = bindI (getI (\<lambda>s. thaw (i_heap s) t)) (\<lambda>(h, v).
     thenI (modifyI (\<lambda>s. s\<lparr>i_heap := h\<rparr>)) (returnI v))"

definition performI :: "icfg \<Rightarrow> effect \<Rightarrow> response I" where
  "performI ic e = bindI (getI (\<lambda>s. h_do (ic_host ic) (i_events s) e)) (\<lambda>r.
     thenI (modifyI (\<lambda>s. s\<lparr>i_events := \<lparr>ev_caps = ic_caps ic, ev_effect = e\<rparr> # i_events s\<rparr>)) (returnI r))"

definition emitI :: "icfg \<Rightarrow> effect \<Rightarrow> unit I" where
  "emitI ic e = bindI (performI ic e) (\<lambda>_. returnI ())"

definition osI :: "icfg \<Rightarrow> osenv I" where
  "osI ic = getI (\<lambda>s. h_os (ic_host ic) (i_events s))"

text \<open>A host that answers outside the protocol of an effect is outside the model.\<close>

definition offProtocolI :: "string \<Rightarrow> 'a I" where
  "offProtocolI head = panicI (IUnmodelled head)"

definition requireCapabilityI :: "icfg \<Rightarrow> Capability \<Rightarrow> Node \<Rightarrow> unit I" where
  "requireCapabilityI ic cap node = bindI (osI ic) (\<lambda>os.
     if \<exists>allowed \<in> set (ic_caps ic). Has os [allowed] cap then returnI ()
     else InterpErr (''capability denied: '' @ cap) node)"

definition fetchDeniedI :: "FetchDenied \<Rightarrow> Node \<Rightarrow> 'a I" where
  "fetchDeniedI d node = InterpErr
     (''CAPABILITY_DENIED: capability denied: '' @ fd_Reason d @ '' (requires '' @ fd_Required d @ '')'') node"

definition requireFetchI :: "icfg \<Rightarrow> string \<Rightarrow> Node \<Rightarrow> unit I" where
  "requireFetchI ic rawURL node =
     (case AuthorizeFetch (ic_caps ic) (h_url (ic_host ic) rawURL) of
        Inl d \<Rightarrow> fetchDeniedI d node | Inr grant \<Rightarrow> returnI ())"

definition requireFilesystemI :: "icfg \<Rightarrow> string \<Rightarrow> bool \<Rightarrow> Node \<Rightarrow> string I" where
  "requireFilesystemI ic path write node = bindI (osI ic) (\<lambda>os.
     if \<not> (if write then AllowsWrite os (ic_caps ic) path else AllowsRead os (ic_caps ic) path)
     then InterpErr ''capability denied: filesystem'' node
     else returnI (filesystemIOPath os path (ic_caps ic)))"

subsection \<open>Operators\<close>

definition ToBoolI :: "val \<Rightarrow> Node \<Rightarrow> bool I" where
  "ToBoolI v node =
     (case v of VBool b \<Rightarrow> returnI b | _ \<Rightarrow> InterpErr (''expected boolean, got '' @ typeName v) node)"

definition checkedAddInt64 :: "64 word \<Rightarrow> 64 word \<Rightarrow> Node \<Rightarrow> val I" where
  "checkedAddInt64 a b node = (if addOverflows a b then InterpErr ''integer overflow'' node else returnI (VInt (a + b)))"

definition checkedSubInt64 :: "64 word \<Rightarrow> 64 word \<Rightarrow> Node \<Rightarrow> val I" where
  "checkedSubInt64 a b node = (if subOverflows a b then InterpErr ''integer overflow'' node else returnI (VInt (a - b)))"

definition checkedMulInt64 :: "64 word \<Rightarrow> 64 word \<Rightarrow> Node \<Rightarrow> val I" where
  "checkedMulInt64 a b node = (if mulOverflowsInt64 a b then InterpErr ''integer overflow'' node else returnI (VInt (a * b)))"

definition interpNumericArithmetic :: "string \<Rightarrow> val \<Rightarrow> val \<Rightarrow> Node \<Rightarrow> val I" where
  "interpNumericArithmetic op a b node =
     (case (asInt64 a, asInt64 b) of
        (Some ai, Some bi) \<Rightarrow>
          (if op = ''+'' then checkedAddInt64 ai bi node
           else if op = ''-'' then checkedSubInt64 ai bi node else checkedMulInt64 ai bi node)
      | _ \<Rightarrow>
         (case (toFloat64 a, toFloat64 b) of
            (Some af, Some bf) \<Rightarrow>
              (let (res, finite) = floatArithmetic op af bf in
               if \<not> finite then InterpErr (floatOverflowMessage op af bf) node else returnI (VFloat res))
          | _ \<Rightarrow> InterpErr (requiresNumeric op a b) node))"

definition interpNumericDiv :: "val \<Rightarrow> val \<Rightarrow> Node \<Rightarrow> val I" where
  "interpNumericDiv a b node =
     (case (toFloat64 a, toFloat64 b) of
        (Some af, Some bf) \<Rightarrow>
          if feq bf (F_fin 0) then InterpErr ''division by zero'' node
          else let res = fdiv af bf in
            if isNaN res \<or> isInf res then InterpErr ''division produced an invalid floating-point result'' node
            else returnI (VFloat res)
      | _ \<Rightarrow> InterpErr (requiresNumeric ''/'' a b) node)"

definition interpNumericRelational :: "string \<Rightarrow> val \<Rightarrow> val \<Rightarrow> Node \<Rightarrow> val I" where
  "interpNumericRelational op a b node =
     (if relationalHasNaN a b then returnI (VBool False)
      else case compareNumeric a b of
        Some c \<Rightarrow> returnI (VBool (orderHolds op c))
      | None \<Rightarrow>
         (case compareStrings a b of
            Some c \<Rightarrow> returnI (VBool (orderHolds op c))
          | None \<Rightarrow> InterpErr (requiresNumeric op a b) node))"

definition NumericBinop :: "string \<Rightarrow> val \<Rightarrow> val \<Rightarrow> Node \<Rightarrow> val I" where
  "NumericBinop op a b node =
     (if op \<in> {''+'', ''-'', ''*''} then interpNumericArithmetic op a b node
      else if op = ''/'' then interpNumericDiv a b node
      else if op \<in> {''<'', ''>'', ''<='', ''>=''} then interpNumericRelational op a b node
      else InterpErr (''unknown numeric operator: '' @ op) node)"

text \<open>\<open>a == b\<close> on two interface values of the same scalar type is equality of the values.\<close>

definition ValuesEqual :: "val \<Rightarrow> val \<Rightarrow> bool" where
  "ValuesEqual a b =
     (if isCollection a \<or> isCollection b then False
      else case numericEqual a b of Some eq \<Rightarrow> eq | None \<Rightarrow> a = b)"

definition applyBinop :: "string \<Rightarrow> val \<Rightarrow> val \<Rightarrow> Node \<Rightarrow> val I" where
  "applyBinop op a b node =
     (if op = ''=='' \<or> op = ''='' then returnI (VBool (ValuesEqual a b))
      else if op = ''!='' then returnI (VBool (\<not> ValuesEqual a b))
      else if op = ''+'' then
        (case (a, b) of (VStr x, VStr y) \<Rightarrow> returnI (VStr (x @ y)) | _ \<Rightarrow> NumericBinop op a b node)
      else NumericBinop op a b node)"

subsection \<open>Evaluators\<close>

text \<open>An evaluator of a construct: the configuration, the recursive call, the fuel of a loop, the node.\<close>

type_synonym evaluator = "icfg \<Rightarrow> (Node \<Rightarrow> val I) \<Rightarrow> nat \<Rightarrow> Node \<Rightarrow> val I"

definition evalChild :: "(Node \<Rightarrow> val I) \<Rightarrow> Node \<Rightarrow> nat \<Rightarrow> val I" where
  "evalChild rec node k = bindI (childI node k) rec"

text \<open>The condition of a construct, with its error at the condition.\<close>

definition evalCond :: "(Node \<Rightarrow> val I) \<Rightarrow> Node \<Rightarrow> nat \<Rightarrow> bool I" where
  "evalCond rec node k = bindI (childI node k) (\<lambda>c. bindI (rec c) (\<lambda>v. ToBoolI v c))"

definition sprintChild :: "(Node \<Rightarrow> val I) \<Rightarrow> Node \<Rightarrow> nat \<Rightarrow> string I" where
  "sprintChild rec node k = bindI (evalChild rec node k) sprintI"

text \<open>The value of the last of several nodes, nil without any.\<close>

fun evalSeq :: "(Node \<Rightarrow> val I) \<Rightarrow> Node list \<Rightarrow> val \<Rightarrow> val I" where
  "evalSeq rec [] result = returnI result"
| "evalSeq rec (n # ns) result = bindI (rec n) (evalSeq rec ns)"

definition BinOpKinds :: "string list" where
  "BinOpKinds = [''+'', ''-'', ''*'', ''/'', ''<'', ''>'', ''<='', ''>='', ''and'', ''or'', ''=='', ''!='', ''='']"

definition evalBinop :: "string \<Rightarrow> (Node \<Rightarrow> val I) \<Rightarrow> Node \<Rightarrow> val I" where
  "evalBinop op rec node =
     thenI (requireI (arity node = 3) (op @ '' expects 2 arguments'') node)
      (if op = ''and'' then
         bindI (evalCond rec node 1) (\<lambda>x.
           if \<not> x then returnI (VBool False) else bindI (evalCond rec node 2) (\<lambda>y. returnI (VBool y)))
       else if op = ''or'' then
         bindI (evalCond rec node 1) (\<lambda>x.
           if x then returnI (VBool True) else bindI (evalCond rec node 2) (\<lambda>y. returnI (VBool y)))
       else bindI (evalChild rec node 1) (\<lambda>a. bindI (evalChild rec node 2) (\<lambda>b. applyBinop op a b node)))"

subsection \<open>Control\<close>

definition evalIntent :: evaluator where
  "evalIntent ic rec n node = returnI VNil"

definition evalSchemaBridge :: evaluator where
  "evalSchemaBridge ic rec n node =
     thenI (requireI (arity node = 3) ''schema_bridge expects (schema_bridge StructName source)'' node)
       (evalChild rec node 2)"

definition evalOptimizeSignature :: evaluator where
  "evalOptimizeSignature ic rec n node =
     thenI (requireI (arity node \<ge> 6)
        ''optimize_signature expects a name, metric, one or more tests, one or more candidates, and a body'' node)
       (evalChild rec node (arity node - 1))"

definition evalOptimizeBlock :: evaluator where
  "evalOptimizeBlock ic rec n node =
     thenI (requireI (arity node \<ge> 4) ''optimize_block expects (optimize_block \"metric_name\" threshold_ms body...)'' node)
       (evalSeq rec (drop 3 (n_Children node)) VNil)"

definition evalDo :: evaluator where
  "evalDo ic rec n node = evalSeq rec (drop 1 (n_Children node)) VNil"

definition evalLet :: evaluator where
  "evalLet ic rec n node =
     thenI (requireI (arity node = 3)
        (''let expects (let (var val) body) '' @ map chr [0xE2, 0x80, 0x94] @ '' wrap multiple body statements in (do ...)'') node)
      (bindI (childI node 1) (\<lambda>binding.
       thenI (requireI (isListNode binding \<and> arity binding = 2) ''let binding expects (var val)'' binding)
        (bindI (childI binding 0) (\<lambda>var.
         bindI (evalChild rec binding 1) (\<lambda>v.
           inFrame [(n_Value var, v)] (evalChild rec node 2))))))"

definition evalSet :: evaluator where
  "evalSet ic rec n node =
     thenI (requireI (arity node = 3) ''set expects (set var val)'' node)
      (bindI (childI node 1) (\<lambda>var.
       bindI (evalChild rec node 2) (\<lambda>v.
       bindI (setVarI (n_Value var) v) (\<lambda>ok.
         if ok then returnI VNil else InterpErr (''undefined variable: '' @ n_Value var) var))))"

definition evalIf :: evaluator where
  "evalIf ic rec n node =
     thenI (requireI (arity node = 3 \<or> arity node = 4) ''if expects (if cond then [else])'' node)
      (bindI (evalCond rec node 1) (\<lambda>x.
         if x then evalChild rec node 2 else if arity node = 4 then evalChild rec node 3 else returnI VNil))"

primrec whileLoop :: "(Node \<Rightarrow> val I) \<Rightarrow> Node \<Rightarrow> nat \<Rightarrow> val I" where
  "whileLoop rec node 0 = panicI IFuel"
| "whileLoop rec node (Suc n) = bindI (evalCond rec node 1) (\<lambda>x.
     if x then bindI (evalChild rec node 2) (\<lambda>_. whileLoop rec node n) else returnI VNil)"

definition evalWhile :: evaluator where
  "evalWhile ic rec n node =
     thenI (requireI (arity node = 3) ''while expects (while cond body)'' node) (whileLoop rec node n)"

fun forLoop :: "(Node \<Rightarrow> val I) \<Rightarrow> Node \<Rightarrow> string \<Rightarrow> val list \<Rightarrow> val I" where
  "forLoop rec body item [] = returnI VNil"
| "forLoop rec body item (v # vs) = bindI (inFrame [(item, v)] (rec body)) (\<lambda>_. forLoop rec body item vs)"

definition evalFor :: evaluator where
  "evalFor ic rec n node =
     thenI (requireI (arity node = 4) ''for expects (for item list body)'' node)
      (bindI (childI node 1) (\<lambda>item. bindI (childI node 2) (\<lambda>list. bindI (childI node 3) (\<lambda>body.
       bindI (rec list) (\<lambda>v.
         case v of VList xs \<Rightarrow> forLoop rec body (n_Value item) xs
         | _ \<Rightarrow> InterpErr ''for requires a list value to iterate'' list)))))"

definition evalReturn :: evaluator where
  "evalReturn ic rec n node =
     thenI (requireI (arity node = 2) ''return expects (return val)'' node)
      (bindI (evalChild rec node 1) (\<lambda>v. panicI (IReturn v)))"

text \<open>The body of a lazily synthesized function is asked of a model, parsed and kept; that is outside
  the model.\<close>

definition evalCall :: evaluator where
  "evalCall ic rec n node =
     thenI (requireI (arity node \<ge> 2) ''call expects (call func args...)'' node)
      (bindI (childI node 1) (\<lambda>f.
       case lookup (ic_funcs ic) (n_Value f) of
         None \<Rightarrow> InterpErr (quote (h_unicode (ic_host ic)) (n_Value f) @
           '' is not a defined function (only user defun functions are callable under -run in Phase 1)'') f
       | Some fn \<Rightarrow>
           thenI (if if_lazySynthesize fn
                  then thenI (requireCapabilityI ic Network node) (panicI (IUnmodelled ''lazy_synthesize'')) else returnI ())
            (bindI (traverseI rec (drop 2 (n_Children node))) (\<lambda>vs.
             thenI (requireI (length vs = length (if_params fn))
                (n_Value f @ '' expects '' @ natDigits (length (if_params fn)) @ '' argument(s), got '' @ natDigits (length vs)) node)
              (inCall (callFrame (if_params fn) vs) (catchReturn (rec (if_body fn))))))))"

definition controlHeads :: "(string \<times> evaluator) list" where
  "controlHeads =
    [(''intent'', evalIntent), (''schema_bridge'', evalSchemaBridge), (''optimize_signature'', evalOptimizeSignature),
     (''let'', evalLet), (''set'', evalSet), (''if'', evalIf), (''while'', evalWhile), (''for'', evalFor),
     (''optimize_block'', evalOptimizeBlock), (''do'', evalDo), (''return'', evalReturn), (''call'', evalCall)]"

subsection \<open>Output and input\<close>

definition evalPrint :: evaluator where
  "evalPrint ic rec n node =
     bindI (traverseI rec (drop 1 (n_Children node))) (\<lambda>vs. bindI (traverseI textI vs) (\<lambda>out.
       thenI (emitI ic (EOut (join '' '' out @ [CHR 0x0A]))) (returnI VNil)))"

definition evalStderr :: evaluator where
  "evalStderr ic rec n node =
     bindI (evalChild rec node 1) (\<lambda>v. bindI (textI v) (\<lambda>t. thenI (emitI ic (EErr t)) (returnI VNil)))"

definition evalExit :: evaluator where
  "evalExit ic rec n node =
     bindI (childI node 1) (\<lambda>arg. bindI (rec arg) (\<lambda>v.
       case ToInt v of
         None \<Rightarrow> InterpErr (''exit expects a numeric code, got '' @ typeName v) arg
       | Some code \<Rightarrow> panicI (IExit code)))"

definition evalReadLine :: evaluator where
  "evalReadLine ic rec n node = bindI (performI ic EReadLine) (\<lambda>r.
     case r of
       ROk line \<Rightarrow> returnI (VStr (trimSuffix (trimSuffix line [CHR 0x0A]) [CHR 0x0D]))
     | RErr e \<Rightarrow> InterpErr (''Failed to read line: '' @ e) node
     | _ \<Rightarrow> offProtocolI ''read_line'')"

definition evalReadStdin :: evaluator where
  "evalReadStdin ic rec n node = bindI (performI ic EReadStdin) (\<lambda>r.
     case r of
       ROk text \<Rightarrow> returnI (VStr text)
     | RErr e \<Rightarrow> InterpErr (''Failed to read stdin: '' @ e) node
     | _ \<Rightarrow> offProtocolI ''read_stdin'')"

definition evalTimeNow :: evaluator where
  "evalTimeNow ic rec n node = bindI (performI ic ETime) (\<lambda>r.
     case r of RInt t \<Rightarrow> returnI (intVal t) | _ \<Rightarrow> offProtocolI ''time_now'')"

definition evalCliArgs :: evaluator where
  "evalCliArgs ic rec n node =
     (if arity node = 1 then returnI (VList (map VStr (ic_args ic)))
      else if arity node = 2 then
        bindI (evalChild rec node 1) (\<lambda>v.
          case ToInt v of
            None \<Rightarrow> InterpErr ''cli_args index must be a number'' node
          | Some i \<Rightarrow>
              returnI (VStr (if 0 \<le> i \<and> i < int (length (ic_args ic)) then ic_args ic ! nat i else [])))
      else InterpErr ''cli_args expects (cli_args) or (cli_args index)'' node)"

definition evalSleep :: evaluator where
  "evalSleep ic rec n node =
     thenI (requireI (arity node = 2) ''sleep expects (sleep ms)'' node)
      (bindI (evalChild rec node 1) (\<lambda>v.
         case ToInt v of
           None \<Rightarrow> InterpErr ''sleep expects a numeric argument'' node
         | Some ms \<Rightarrow> thenI (emitI ic (ESleep ms)) (returnI VNil)))"

definition evalEnv :: evaluator where
  "evalEnv ic rec n node =
     thenI (requireI (arity node = 2) ''env expects (env \"KEY\")'' node)
      (bindI (sprintChild rec node 1) (\<lambda>key.
       bindI (getI (\<lambda>s. h_getenv (ic_host ic) (i_events s) key)) (\<lambda>v.
         thenI (emitI ic (EGetenv key)) (returnI (VStr (case v of Some t \<Rightarrow> t | None \<Rightarrow> []))))))"

subsection \<open>Conversions and strings\<close>

text \<open>The errors of \<open>to_int\<close> and \<open>to_float\<close> are at the operand.\<close>

definition evalToNumber :: "(unicode \<Rightarrow> val \<Rightarrow> vm_error + val) \<Rightarrow> string \<Rightarrow> evaluator" where
  "evalToNumber convert head ic rec n node =
     thenI (requireI (arity node = 2) (head @ '' expects ('' @ head @ '' val)'') node)
      (bindI (childI node 1) (\<lambda>arg. bindI (rec arg) (\<lambda>v.
         case convert (h_unicode (ic_host ic)) v of
           Inl e \<Rightarrow> InterpErr (''CONVERSION_ERROR: '' @ e_Message e) arg
         | Inr r \<Rightarrow> returnI r)))"

definition evalToString :: evaluator where
  "evalToString ic rec n node =
     thenI (requireI (arity node = 2) ''to_string expects (to_string val)'' node)
      (bindI (evalChild rec node 1) (\<lambda>v. bindI (textI v) (\<lambda>t. returnI (VStr t))))"

definition evalBytesToString :: evaluator where
  "evalBytesToString ic rec n node =
     thenI (requireI (arity node = 2) ''bytes_to_string expects (bytes_to_string val)'' node)
      (bindI (evalChild rec node 1) (\<lambda>v.
         case v of VBytes b \<Rightarrow> returnI (VStr b) | _ \<Rightarrow> bindI (sprintI v) (\<lambda>t. returnI (VStr t))))"

definition evalText :: "(string \<Rightarrow> string) \<Rightarrow> string \<Rightarrow> evaluator" where
  "evalText f head ic rec n node =
     thenI (requireI (arity node = 2) (head @ '' expects ('' @ head @ '' text)'') node)
      (bindI (sprintChild rec node 1) (\<lambda>s. returnI (VStr (f s))))"

definition evalEscape :: "string \<Rightarrow> evaluator" where
  "evalEscape head ic rec n node =
     thenI (requireI (arity node = 2) (head @ '' expects ('' @ head @ '' text)'') node)
      (bindI (evalChild rec node 1) (\<lambda>v.
         case v of
           VStr s \<Rightarrow> returnI (VStr (Escape s))
         | _ \<Rightarrow> InterpErr (''TYPE_ERROR: '' @ head @ '' expected string, got '' @ typeName v) node))"

definition evalStrSplit :: evaluator where
  "evalStrSplit ic rec n node =
     thenI (requireI (arity node = 3) ''str_split expects (str_split s sep)'' node)
      (bindI (sprintChild rec node 1) (\<lambda>s. bindI (sprintChild rec node 2) (\<lambda>sep.
         returnI (VList (map VStr (splitString s sep))))))"

definition evalStrJoin :: evaluator where
  "evalStrJoin ic rec n node =
     thenI (requireI (arity node = 3) ''str_join expects (str_join list sep)'' node)
      (bindI (childI node 1) (\<lambda>list. bindI (rec list) (\<lambda>v. bindI (sprintChild rec node 2) (\<lambda>sep.
         case v of
           VList items \<Rightarrow> bindI (traverseI textI items) (\<lambda>strs. returnI (VStr (join sep strs)))
         | _ \<Rightarrow> InterpErr ''str_join expects a list'' list))))"

definition evalRegexMatch :: evaluator where
  "evalRegexMatch ic rec n node =
     thenI (requireI (arity node = 3) ''regex_match expects (regex_match pattern s)'' node)
      (bindI (sprintChild rec node 1) (\<lambda>pat. bindI (sprintChild rec node 2) (\<lambda>s.
         case h_regex (ic_host ic) pat s of
           Inl e \<Rightarrow> InterpErr (''invalid regex: '' @ e) node
         | Inr matched \<Rightarrow> returnI (VBool matched))))"

definition evalSha256 :: evaluator where
  "evalSha256 ic rec n node =
     thenI (requireI (arity node = 2) ''sha256_hex expects 1 argument(s)'' node)
      (bindI (evalChild rec node 1) (\<lambda>v.
         case v of VStr s \<Rightarrow> returnI (VStr (h_sha256 (ic_host ic) s)) | _ \<Rightarrow> InterpErr ''sha256_hex expected string'' node))"

definition evalRandHex :: evaluator where
  "evalRandHex ic rec n node =
     thenI (requireI (arity node = 2) ''rand_hex expects 1 argument(s)'' node)
      (bindI (evalChild rec node 1) (\<lambda>v.
         case randCount v of
           Inl e \<Rightarrow> InterpErr (''rand_hex: '' @ e) node
         | Inr k \<Rightarrow> bindI (performI ic (ERand (nat k))) (\<lambda>r.
             case r of
               ROk buf \<Rightarrow> returnI (VStr (hexOf buf))
             | RErr e \<Rightarrow> InterpErr (''rand_hex: '' @ e) node
             | _ \<Rightarrow> offProtocolI ''rand_hex'')))"

text \<open>The first operand is checked before the second is evaluated.\<close>

definition evalSecureEqual :: evaluator where
  "evalSecureEqual ic rec n node =
     thenI (requireI (arity node = 3) ''secure_equal expects 2 argument(s)'' node)
      (bindI (evalChild rec node 1) (\<lambda>a.
         case a of
           VStr x \<Rightarrow> bindI (evalChild rec node 2) (\<lambda>b.
             case b of VStr y \<Rightarrow> returnI (VBool (x = y)) | _ \<Rightarrow> InterpErr ''secure_equal expected strings'' node)
         | _ \<Rightarrow> InterpErr ''secure_equal expected string'' node))"

subsection \<open>Lists and dicts\<close>

definition evalListNode :: evaluator where
  "evalListNode ic rec n node = bindI (traverseI rec (drop 1 (n_Children node))) (\<lambda>vs. returnI (VList vs))"

text \<open>The map of the source is made before the pairs are evaluated, but nothing reaches it until it is
  returned.\<close>

fun dictPairs :: "(Node \<Rightarrow> val I) \<Rightarrow> Node list \<Rightarrow> dict \<Rightarrow> dict I" where
  "dictPairs rec [] d = returnI d"
| "dictPairs rec (kid # kids) d =
     thenI (requireI (isListNode kid \<and> arity kid = 2) ''dict expects (k v) pairs'' kid)
      (bindI (sprintChild rec kid 0) (\<lambda>k. bindI (evalChild rec kid 1) (\<lambda>v. dictPairs rec kids (put k v d))))"

definition evalDict :: evaluator where
  "evalDict ic rec n node = bindI (dictPairs rec (drop 1 (n_Children node)) []) newDictI"

definition typeErrorI :: "string \<Rightarrow> val \<Rightarrow> Node \<Rightarrow> 'a I" where
  "typeErrorI what v node = InterpErr (''TYPE_ERROR: '' @ what @ '', got '' @ typeName v) node"

text \<open>The symbol an operation names, and its value.\<close>

definition namedOperand :: "string \<Rightarrow> Node \<Rightarrow> (Node \<times> val) I" where
  "namedOperand reason node =
     bindI (childI node 1) (\<lambda>sym.
     thenI (requireI (isSymbolNode sym) reason sym)
      (bindI (needVarI (n_Value sym) sym) (\<lambda>v. returnI (sym, v))))"

definition wantDictI :: "string \<Rightarrow> val \<Rightarrow> Node \<Rightarrow> nat I" where
  "wantDictI what v node = (case v of VDict a \<Rightarrow> returnI a | _ \<Rightarrow> typeErrorI (what @ '' expected dict'') v node)"

definition wantListI :: "string \<Rightarrow> val \<Rightarrow> Node \<Rightarrow> val list I" where
  "wantListI what v node = (case v of VList xs \<Rightarrow> returnI xs | _ \<Rightarrow> typeErrorI (what @ '' expected list'') v node)"

definition evalAppend :: evaluator where
  "evalAppend ic rec n node =
     thenI (requireI (arity node = 3) ''append expects (append list item)'' node)
      (bindI (namedOperand ''append requires a symbol for list'' node) (\<lambda>(sym, current).
       bindI (wantListI ''append'' current sym) (\<lambda>items.
       bindI (evalChild rec node 2) (\<lambda>item.
       bindI (setVarI (n_Value sym) (VList (items @ [item]))) (\<lambda>ok.
         if ok then returnI VNil else InterpErr (''undefined variable: '' @ n_Value sym) sym)))))"

definition evalMapSet :: evaluator where
  "evalMapSet ic rec n node =
     thenI (requireI (arity node = 4) ''map_set expects (map_set dict key val)'' node)
      (bindI (namedOperand ''map_set requires a symbol for dict'' node) (\<lambda>(sym, current).
       bindI (wantDictI ''map_set'' current sym) (\<lambda>a.
       bindI (sprintChild rec node 2) (\<lambda>key.
       bindI (evalChild rec node 3) (\<lambda>v.
       bindI (dictAtI a) (\<lambda>d. thenI (setDictI a (put key v d)) (returnI VNil)))))))"

definition evalMapDelete :: evaluator where
  "evalMapDelete ic rec n node =
     thenI (requireI (arity node = 3) ''map_delete expects (map_delete dict key)'' node)
      (bindI (namedOperand ''map_delete requires a symbol for dict'' node) (\<lambda>(sym, current).
       bindI (wantDictI ''map_delete'' current sym) (\<lambda>a.
       bindI (sprintChild rec node 2) (\<lambda>key.
       bindI (dictAtI a) (\<lambda>d. thenI (setDictI a (remove_key key d)) (returnI VNil))))))"

definition evalMapGet :: evaluator where
  "evalMapGet ic rec n node =
     thenI (requireI (arity node = 3) ''map_get expects (map_get dict key)'' node)
      (bindI (childI node 1) (\<lambda>dictNode.
       bindI (if isSymbolNode dictNode then needVarI (n_Value dictNode) dictNode else rec dictNode) (\<lambda>current.
       bindI (wantDictI ''map_get'' current dictNode) (\<lambda>a.
       bindI (sprintChild rec node 2) (\<lambda>key.
       bindI (dictAtI a) (\<lambda>d. returnI (case lookup d key of Some v \<Rightarrow> v | None \<Rightarrow> VNil)))))))"

definition evalListGet :: evaluator where
  "evalListGet ic rec n node =
     thenI (requireI (arity node = 3) ''list_get expects (list_get list idx)'' node)
      (bindI (namedOperand ''list_get requires a symbol for list'' node) (\<lambda>(sym, current).
       bindI (wantListI ''list_get'' current sym) (\<lambda>items.
       bindI (childI node 2) (\<lambda>idxNode. bindI (rec idxNode) (\<lambda>idxVal. bindI (sprintI idxVal) (\<lambda>t.
         case parseInt (trimSpace t) of
           None \<Rightarrow> typeErrorI ''list_get index must be a number'' idxVal idxNode
         | Some i \<Rightarrow> returnI (if i < 0 \<or> i \<ge> int (length items) then VStr [] else items ! nat i)))))))"

definition evalListLen :: evaluator where
  "evalListLen ic rec n node =
     thenI (requireI (arity node = 2) ''list_len expects (list_len value)'' node)
      (bindI (childI node 1) (\<lambda>arg. bindI (rec arg) (\<lambda>v.
         case collectionLen v of
           Some k \<Rightarrow> returnI (intVal (int k))
         | None \<Rightarrow> typeErrorI ''list_len expected list, string, or bytes'' v arg)))"

definition evalMapKeys :: evaluator where
  "evalMapKeys ic rec n node =
     thenI (requireI (arity node = 2) ''map_keys expects (map_keys dict)'' node)
      (bindI (childI node 1) (\<lambda>arg. bindI (rec arg) (\<lambda>v.
       bindI (wantDictI ''map_keys'' v arg) (\<lambda>a. bindI (dictAtI a) (\<lambda>d. returnI (VList (sortedMapKeys d)))))))"

definition evalIsNil :: evaluator where
  "evalIsNil ic rec n node =
     thenI (requireI (arity node = 2) ''is_nil expects (is_nil val)'' node)
      (bindI (evalChild rec node 1) (\<lambda>v. returnI (VBool (v = VNil))))"

subsection \<open>JSON\<close>

definition jsonErrorI :: "string \<Rightarrow> json_error \<Rightarrow> string \<Rightarrow> Node \<Rightarrow> 'a I" where
  "jsonErrorI head e prefix node =
     (case e of JErr m \<Rightarrow> InterpErr (prefix @ m) node | JFuel \<Rightarrow> panicI (IUnmodelled head))"

definition evalEncodeJson :: evaluator where
  "evalEncodeJson ic rec n node =
     thenI (requireI (arity node = 2) ''encode_json expects (encode_json val)'' node)
      (bindI (evalChild rec node 1) (\<lambda>v. bindI (treeI v) (\<lambda>t.
         case encodeJSONText (toJson t) of
           Inl e \<Rightarrow> jsonErrorI ''encode_json'' e ''encode_json: '' node
         | Inr b \<Rightarrow> returnI (VStr b))))"

text \<open>The bytes of a list of integers from 0 to 255.\<close>

definition byteOfValue :: "val \<Rightarrow> char option" where
  "byteOfValue v = (case v of VInt i \<Rightarrow> if 0 \<le> sint i \<and> sint i \<le> 255 then Some (chr (nat (sint i))) else None | _ \<Rightarrow> None)"

definition jsonText :: "val \<Rightarrow> Node \<Rightarrow> string I" where
  "jsonText v node =
     (case v of
        VStr s \<Rightarrow> returnI s
      | VBytes b \<Rightarrow> returnI b
      | VList xs \<Rightarrow>
          (if list_all (\<lambda>x. byteOfValue x \<noteq> None) xs then returnI (List.map_filter byteOfValue xs)
           else InterpErr ''parse_json failed: byte list must hold ints 0..255'' node)
      | _ \<Rightarrow> InterpErr (''parse_json failed: expected text, got '' @ typeName v) node)"

definition evalParseJson :: evaluator where
  "evalParseJson ic rec n node =
     thenI (requireI (arity node = 3) ''parse_json expects (parse_json T text)'' node)
      (bindI (evalChild rec node 2) (\<lambda>v. bindI (jsonText v node) (\<lambda>text.
         case decodeJSONText text of
           Inl e \<Rightarrow> jsonErrorI ''parse_json'' e ''parse_json failed: '' node
         | Inr j \<Rightarrow> thawI (fromJson j))))"

text \<open>No value of the interpreter is a request, so these reads fail.\<close>

definition requestRead :: "(string + Request \<Rightarrow> val \<Rightarrow> req_error + string) \<Rightarrow> string \<Rightarrow> evaluator" where
  "requestRead read head ic rec n node =
     thenI (requireI (arity node = 3) (head @ '' expects ('' @ head @ '' req name)'') node)
      (bindI (evalChild rec node 1) (\<lambda>recv. bindI (evalChild rec node 2) (\<lambda>name.
         case read (Inl (typeName recv)) name of
           Inl e \<Rightarrow> InterpErr (req_error_text e) node | Inr s \<Rightarrow> returnI (VStr s))))"

definition evalReqId :: evaluator where
  "evalReqId ic rec n node =
     thenI (requireI (arity node = 2) ''req_id expects (req_id req)'' node)
      (bindI (evalChild rec node 1) (\<lambda>recv.
         case RequestID (Inl (typeName recv)) of
           Inl e \<Rightarrow> InterpErr (req_error_text e) node | Inr s \<Rightarrow> returnI (VStr s)))"

definition dataHeads :: "(string \<times> evaluator) list" where
  "dataHeads =
    [(''print'', evalPrint), (''stderr'', evalStderr), (''exit'', evalExit), (''read_line'', evalReadLine),
     (''req_id'', evalReqId), (''sha256_hex'', evalSha256), (''rand_hex'', evalRandHex), (''secure_equal'', evalSecureEqual),
     (''read_stdin'', evalReadStdin), (''list'', evalListNode), (''dict'', evalDict), (''append'', evalAppend),
     (''map_set'', evalMapSet), (''map_delete'', evalMapDelete), (''map_get'', evalMapGet), (''list_get'', evalListGet),
     (''time_now'', evalTimeNow), (''to_int'', evalToNumber convertToInt ''to_int''),
     (''to_float'', evalToNumber convertToFloat ''to_float''), (''to_string'', evalToString),
     (''bytes_to_string'', evalBytesToString), (''to_lower'', evalText ToLower ''to_lower''),
     (''to_upper'', evalText ToUpper ''to_upper''), (''str_trim'', evalText trimSpace ''str_trim''),
     (''list_len'', evalListLen), (''map_keys'', evalMapKeys), (''req_query'', requestRead Query ''req_query''),
     (''req_header'', requestRead Header ''req_header''), (''req_path'', requestRead Path ''req_path''),
     (''is_nil'', evalIsNil), (''encode_json'', evalEncodeJson), (''parse_json'', evalParseJson),
     (''html_escape'', evalEscape ''html_escape''), (''attr_escape'', evalEscape ''attr_escape''),
     (''str_split'', evalStrSplit), (''str_join'', evalStrJoin), (''regex_match'', evalRegexMatch),
     (''cli_args'', evalCliArgs), (''sleep'', evalSleep), (''env'', evalEnv)]"

subsection \<open>Files, processes, requests\<close>

definition ioErrorI :: "string \<Rightarrow> Node \<Rightarrow> 'a I" where
  "ioErrorI msg node = InterpErr (''IO_ERROR: '' @ msg) node"

definition evalExec :: evaluator where
  "evalExec ic rec n node =
     thenI (requireI (arity node \<ge> 2) ''exec expects (exec cmd args...)'' node)
      (bindI (sprintChild rec node 1) (\<lambda>cmd.
       bindI (traverseI rec (drop 2 (n_Children node))) (\<lambda>raw.
       bindI (traverseI sprintI (execArgs raw)) (\<lambda>args.
       bindI (osI ic) (\<lambda>os.
         case AuthorizeExec os (ic_caps ic) cmd args of
           Inl e \<Rightarrow> InterpErr (''CAPABILITY_DENIED: capability denied: '' @ e) node
         | Inr (path, grant) \<Rightarrow>
             bindI (getI (\<lambda>s. ExecEnv (ic_caps ic) (h_getenv (ic_host ic) (i_events s)))) (\<lambda>env.
             bindI (performI ic (EExec path args env)) (\<lambda>r.
               case r of
                 ROk out \<Rightarrow> returnI (VBytes out)
               | RExit code e out \<Rightarrow> ioErrorI (''exec failed: '' @ e) node
               | RErr e \<Rightarrow> ioErrorI (''exec failed: '' @ e) node
               | _ \<Rightarrow> offProtocolI ''exec'')))))))"

definition evalReadFile :: evaluator where
  "evalReadFile ic rec n node =
     thenI (requireI (arity node = 2) ''read_file expects (read_file path)'' node)
      (bindI (sprintChild rec node 1) (\<lambda>p.
       bindI (requireFilesystemI ic p False node) (\<lambda>path.
       bindI (performI ic (EReadFile path)) (\<lambda>r.
         case r of
           ROk b \<Rightarrow> returnI (VBytes b)
         | RDenied e \<Rightarrow> InterpErr ''capability denied: filesystem'' node
         | RErr e \<Rightarrow> ioErrorI (''read_file failed: '' @ e) node
         | RNotExist e \<Rightarrow> ioErrorI (''read_file failed: '' @ e) node
         | _ \<Rightarrow> offProtocolI ''read_file''))))"

definition writtenI :: "string \<Rightarrow> Node \<Rightarrow> response \<Rightarrow> val I" where
  "writtenI head node r =
     (case r of
        ROk _ \<Rightarrow> returnI VNil
      | RDenied e \<Rightarrow> InterpErr ''capability denied: filesystem'' node
      | RErr e \<Rightarrow> ioErrorI (head @ '' failed: '' @ e) node
      | _ \<Rightarrow> offProtocolI head)"

definition evalWriteFile :: evaluator where
  "evalWriteFile ic rec n node =
     thenI (requireI (arity node = 3) ''write_file expects (write_file path data)'' node)
      (bindI (sprintChild rec node 1) (\<lambda>p.
       bindI (evalChild rec node 2) (\<lambda>v.
       bindI (case v of
                VStr s \<Rightarrow> returnI s
              | VBytes b \<Rightarrow> returnI b
              | _ \<Rightarrow> typeErrorI ''write_file expected string data'' v node) (\<lambda>text.
       bindI (requireFilesystemI ic p True node) (\<lambda>path.
       bindI (performI ic (EWriteFile path text)) (writtenI ''write_file'' node))))))"

definition evalMkdir :: evaluator where
  "evalMkdir ic rec n node =
     thenI (requireI (arity node = 2) ''mkdir expects (mkdir path)'' node)
      (bindI (sprintChild rec node 1) (\<lambda>p.
       bindI (requireFilesystemI ic p True node) (\<lambda>path.
       bindI (performI ic (EMkdir path)) (writtenI ''mkdir'' node))))"

text \<open>The request of \<open>fetch\<close> and \<open>http_request\<close>: its operands, the checks, the status and the body.\<close>

definition exchangeI :: "icfg \<Rightarrow> (Node \<Rightarrow> val I) \<Rightarrow> wording \<Rightarrow> Node \<Rightarrow> (int \<times> string) I" where
  "exchangeI ic rec w node =
     thenI (requireI (arity node = 3 \<or> arity node = 4) (w_op w @ '' expects ('' @ w_op w @ '' url method [body])'') node)
      (bindI (sprintChild rec node 1) (\<lambda>url.
       bindI (sprintChild rec node 2) (\<lambda>method.
       bindI (if arity node = 4 then bindI (sprintChild rec node 3) (\<lambda>b. returnI (Some b)) else returnI None) (\<lambda>body.
       thenI (requireFetchI ic url node)
        (case h_badRequest (ic_host ic) method url of
           Some e \<Rightarrow> ioErrorI (w_creation w @ e) node
         | None \<Rightarrow> bindI (performI ic (EFetch method url body)) (\<lambda>r.
             case r of
               RHttp status b \<Rightarrow> returnI (status, b)
             | RHopDenied reason required \<Rightarrow> fetchDeniedI \<lparr>fd_Reason = reason, fd_Required = required\<rparr> node
             | RErr e \<Rightarrow> ioErrorI (w_op w @ '' failed: '' @ e) node
             | RBodyErr b e \<Rightarrow> ioErrorI (w_op w @ '' body read failed: '' @ e) node
             | _ \<Rightarrow> offProtocolI (w_op w)))))))"

definition evalFetch :: evaluator where
  "evalFetch ic rec n node =
     thenI (requireI (arity node \<noteq> 5) ''UNSUPPORTED_ON_TARGET: fetch headers are supported only by the JavaScript target'' node)
      (bindI (exchangeI ic rec fetchWording node) (\<lambda>(status, b). returnI (VBytes b)))"

definition evalHttpRequest :: evaluator where
  "evalHttpRequest ic rec n node =
     bindI (exchangeI ic rec requestWording node) (\<lambda>(status, b).
       newDictI [(''status'', VGoInt (word_of_int status)), (''body'', VBytes b)])"

subsection \<open>Models\<close>

text \<open>The answer of a model to a prompt.\<close>

definition generateI :: "icfg \<Rightarrow> string \<Rightarrow> string \<Rightarrow> string \<Rightarrow> Node \<Rightarrow> string I" where
  "generateI ic head model prompt node =
     bindI (performI ic (EModel ''POST'' generateURL (generateBody model prompt))) (\<lambda>r.
       case r of
         ROk t \<Rightarrow> returnI t
       | RErr e \<Rightarrow> InterpErr (head @ '': network request failed: '' @ e) node
       | RBodyErr b e \<Rightarrow> InterpErr (head @ '': response decode failed: '' @ e) node
       | _ \<Rightarrow> offProtocolI head)"

definition circuitInputsI :: "(Node \<Rightarrow> val I) \<Rightarrow> string \<Rightarrow> Node \<Rightarrow> (tree list \<times> string) I" where
  "circuitInputsI rec head node =
     thenI (requireI (arity node \<ge> 3) (head @ '' expects ('' @ head @ '' (args...) \"instruction\")'') node)
      (bindI (childI node 1) (\<lambda>args.
       bindI (sprintChild rec node 2) (\<lambda>instruction.
       bindI (traverseI rec (n_Children args)) (\<lambda>vs.
       bindI (traverseI treeI vs) (\<lambda>ts. returnI (ts, instruction))))))"

definition evalNeuralCircuit :: evaluator where
  "evalNeuralCircuit ic rec n node = bindI (circuitInputsI rec ''neural_circuit'' node) (\<lambda>(ts, instruction).
     let prompt = ''Instruction: '' @ instruction @
       (if ts \<noteq> [] then CHR 0x0A # ''Inputs: '' @ sprint (TList ts) else []) in
     bindI (generateI ic ''neural_circuit'' ''llama3'' prompt node) (\<lambda>t. returnI (VStr t)))"

text \<open>A deferred function that runs on every way out.\<close>

definition finallyI :: "'a I \<Rightarrow> unit I \<Rightarrow> 'a I" where
  "finallyI m f s = (case m s of (r, s') \<Rightarrow> (r, snd (f s')))"

text \<open>The model is created, asked, and deleted whatever came of the question.\<close>

definition evalEphemeralCircuit :: evaluator where
  "evalEphemeralCircuit ic rec n node = bindI (circuitInputsI rec ''ephemeral_circuit'' node) (\<lambda>(ts, instruction).
     bindI (performI ic ETimeNano) (\<lambda>now.
     let prompt = (if ts \<noteq> [] then ''Inputs: '' @ sprint (TList ts) else []);
         model = ''ephemeral-'' @ (case now of RInt t \<Rightarrow> itoa t | _ \<Rightarrow> []) in
     bindI (performI ic (EModel ''POST'' createURL (createBody model instruction))) (\<lambda>created.
     case created of
       RErr e \<Rightarrow> InterpErr (''ephemeral_circuit: model creation failed: '' @ e) node
     | _ \<Rightarrow>
        finallyI (bindI (generateI ic ''ephemeral_circuit'' model prompt node) (\<lambda>t. returnI (VStr t)))
          (emitI ic (EModel ''DELETE'' deleteURL (''{'' @ jsonField ''name'' (appendJSONString model) @ ''}''))))))"

definition evalAchieve :: evaluator where
  "evalAchieve ic rec n node =
     thenI (requireI (arity node = 3) ''achieve expects (achieve target constraint)'' node)
      (bindI (childI node 1) (\<lambda>target. bindI (childI node 2) (\<lambda>constraint.
       bindI (generateI ic ''achieve'' ''llama3''
          (''Achieve the following target: '' @ Stringify target @ '' with constraint: '' @ Stringify constraint @
           ''. Return ONLY the result, no explanations.'') node) (\<lambda>t. returnI (VStr t)))))"

definition evalConfidence :: evaluator where
  "evalConfidence ic rec n node =
     thenI (requireI (arity node = 2) ''confidence expects (confidence prompt)'' node)
      (bindI (sprintChild rec node 1) (\<lambda>statement.
       bindI (generateI ic ''confidence'' ''llama3''
         (''Evaluate the probability of this statement being true. Return ONLY a float between 0.0 and 1.0. Statement: ''
          @ statement) node) (\<lambda>t.
       let f = confidenceValue t in
       if isNaN f \<or> isInf f
       then InterpErr (''CONVERSION_ERROR: confidence response '' @ quote64 (h_unicode (ic_host ic)) (trimSpace t)
              @ '' is not a finite number'') node
       else returnI (VFloat f))))"

definition hostHeads :: "(string \<times> evaluator) list" where
  "hostHeads =
    [(''exec'', evalExec), (''read_file'', evalReadFile), (''write_file'', evalWriteFile), (''mkdir'', evalMkdir),
     (''fetch'', evalFetch), (''http_request'', evalHttpRequest), (''neural_circuit'', evalNeuralCircuit),
     (''ephemeral_circuit'', evalEphemeralCircuit), (''achieve'', evalAchieve), (''confidence'', evalConfidence)]"

subsection \<open>Evaluation\<close>

definition evalTable :: "(string \<times> evaluator) list" where
  "evalTable = controlHeads @ dataHeads @ hostHeads"

text \<open>The authority a construct needs before it is evaluated; requests are authorized by their URL.\<close>

definition headCapability :: "icfg \<Rightarrow> string \<Rightarrow> Node \<Rightarrow> unit I" where
  "headCapability ic head node =
     thenI (if ForConstruct head \<noteq> None_cap \<and> head \<noteq> ''fetch'' \<and> head \<noteq> ''http_request''
            then requireCapabilityI ic (ForConstruct head) node else returnI ())
       (if head = ''neural_circuit'' \<or> head = ''ephemeral_circuit'' then requireCapabilityI ic Network node else returnI ())"

definition evalList :: "icfg \<Rightarrow> (Node \<Rightarrow> val I) \<Rightarrow> nat \<Rightarrow> Node \<Rightarrow> val I" where
  "evalList ic rec n node =
     (case n_Children node of
        [] \<Rightarrow> InterpErr ''empty expression'' node
      | headNode # _ \<Rightarrow>
         (let head = n_Value headNode in
          if head \<in> set BinOpKinds then evalBinop head rec node
          else thenI (headCapability ic head node)
           (case map_of evalTable head of
              Some f \<Rightarrow> f ic rec n node
            | None \<Rightarrow> InterpErr (quote (h_unicode (ic_host ic)) head @
                '' is not supported under -run in Phase 1 (see docs/direct_execution_design.md)'') headNode)))"

definition evalSymbol :: "Node \<Rightarrow> val I" where
  "evalSymbol node =
     (if n_Value node = ''true'' then returnI (VBool True)
      else if n_Value node = ''false'' then returnI (VBool False)
      else needVarI (n_Value node) node)"

definition evalNode :: "icfg \<Rightarrow> (Node \<Rightarrow> val I) \<Rightarrow> nat \<Rightarrow> Node \<Rightarrow> val I" where
  "evalNode ic rec n node =
     (if n_Type node = ''STRING'' then returnI (VStr (n_Value node))
      else if n_Type node = ''INT'' then
        (case parseInt (n_Value node) of
           None \<Rightarrow> InterpErr (''invalid integer literal: '' @ n_Value node) node
         | Some i \<Rightarrow> returnI (intVal i))
      else if n_Type node = ''FLOAT'' then
        (case parseFloat (n_Value node) of
           None \<Rightarrow> InterpErr (''invalid float literal: '' @ n_Value node) node
         | Some f \<Rightarrow> returnI (VFloat f))
      else if isSymbolNode node then evalSymbol node
      else if isListNode node then evalList ic rec n node
      else InterpErr (''cannot evaluate node of type '' @ n_Type node) node)"

primrec eval :: "nat \<Rightarrow> icfg \<Rightarrow> Node \<Rightarrow> val I" where
  "eval 0 ic node = panicI IFuel"
| "eval (Suc n) ic node = evalNode ic (eval n ic) n node"

subsection \<open>Programs\<close>

definition IsDefun :: "Node \<Rightarrow> bool" where
  "IsDefun node \<longleftrightarrow> isListNode node \<and> n_Children node \<noteq> [] \<and> isSymbolNode (hd (n_Children node)) \<and>
     (n_Value (hd (n_Children node)) = ''defun'' \<or> n_Value (hd (n_Children node)) = ''lazy_synthesize'')"

definition registerDefun :: "Node \<Rightarrow> InterpFunc strmap \<Rightarrow> InterpFunc strmap I" where
  "registerDefun node funcs =
     (if arity node < 4
      then InterpErr ''defun/lazy_synthesize expects (defun name (args) body) or (lazy_synthesize name (args) docstring)'' node
      else let kid = (\<lambda>k. n_Children node ! k) in
        returnI (put (n_Value (kid 1))
          \<lparr>if_params = ParamNames (kid 2), if_body = last (n_Children node),
           if_lazySynthesize = (n_Value (kid 0) = ''lazy_synthesize'')\<rparr> funcs))"

fun registerDefuns :: "Node list \<Rightarrow> InterpFunc strmap \<Rightarrow> InterpFunc strmap I" where
  "registerDefuns [] funcs = returnI funcs"
| "registerDefuns (n # ns) funcs = bindI (if IsDefun n then registerDefun n funcs else returnI funcs) (registerDefuns ns)"

definition evalProgram :: "nat \<Rightarrow> Node \<Rightarrow> string list \<Rightarrow> Grants \<Rightarrow> host \<Rightarrow> val I" where
  "evalProgram n ast args caps h =
     thenI (requireI (isListNode ast \<and> n_Children ast \<noteq> [] \<and> isSymbolNode (hd (n_Children ast)))
        ''Expected cli_app as root symbol'' ast)
      (let rootSym = hd (n_Children ast) in
       thenI (requireI (n_Value rootSym = ''cli_app'')
          (''-run only supports cli_app in Phase 1 (see docs/direct_execution_design.md); got ''
           @ quote (h_unicode h) (n_Value rootSym)) rootSym)
        (bindI (registerDefuns (tl (n_Children ast)) []) (\<lambda>funcs.
         evalSeq (eval n \<lparr>ic_funcs = funcs, ic_args = args, ic_caps = caps, ic_host = h\<rparr>)
           (filter (\<lambda>c. \<not> IsDefun c) (tl (n_Children ast))) VNil)))"

text \<open>How a run ends; a panic of another kind goes on.\<close>

datatype iresult =
    IExited int
  | IPanicked string
  | ICrashed
  | IOutside

definition errorJson :: "ErrorOutput \<Rightarrow> string" where
  "errorJson e = ''{'' @ jsonField ''reason'' (appendJSONString (eo_Reason e)) @ '','' @
     jsonField ''line'' (itoa (eo_Line e)) @ '','' @ jsonField ''column'' (itoa (eo_Column e)) @ ''}''"

definition recovered :: "Grants \<Rightarrow> (ipanic + val) \<times> istate \<Rightarrow> iresult \<times> event list" where
  "recovered caps r =
     (let evs = i_events (snd r) in
      case fst r of
        Inr v \<Rightarrow> (IExited 0, evs)
      | Inl (IExit code) \<Rightarrow> (IExited code, evs)
      | Inl (IReturn v) \<Rightarrow> (IExited (case v of VInt i \<Rightarrow> sint i | _ \<Rightarrow> 0), evs)
      | Inl (IErr e) \<Rightarrow>
          (IExited 1, \<lparr>ev_caps = caps, ev_effect = EErr (errorJson e @ [CHR 0x0A])\<rparr> # evs)
      | Inl (IGo m) \<Rightarrow> (IPanicked m, evs)
      | Inl ICrash \<Rightarrow> (ICrashed, evs)
      | Inl IFuel \<Rightarrow> (IOutside, evs)
      | Inl (IUnmodelled h) \<Rightarrow> (IOutside, evs))"

text \<open>\<open>Interpret\<close> after its desugaring pass, with fuel.\<close>

definition Interpret :: "nat \<Rightarrow> Node \<Rightarrow> string list \<Rightarrow> Grants \<Rightarrow> host \<Rightarrow> iresult \<times> event list" where
  "Interpret n ast args caps h =
     recovered caps (evalProgram n ast args caps h \<lparr>i_env = [[]], i_heap = [], i_events = []\<rparr>)"

end
