(* ===== verification/Simulation.thy ===== *)
theory Simulation
  imports Interp CompileLaws MachineLaws ValueLaws
begin

text \<open>
  How runs of the virtual machine follow evaluations of the interpreter: code placed at an index of
  larger code, runs that lead from one configuration to another, the relation between the states of
  the two engines, and the rules that build a simulation from those of the parts.
\<close>

subsection \<open>Placed code\<close>

definition placed :: "BCInstruction list \<Rightarrow> int \<Rightarrow> BCInstruction list \<Rightarrow> bool" where
  "placed insts ip is \<longleftrightarrow> 0 \<le> ip \<and> (\<exists>pre post. insts = pre @ is @ post \<and> ip = int (length pre))"

lemma placed_append: "placed insts ip (xs @ ys) \<longleftrightarrow> placed insts ip xs \<and> placed insts (ip + int (length xs)) ys"
proof
  assume "placed insts ip (xs @ ys)"
  then obtain pre post where "insts = pre @ (xs @ ys) @ post" "ip = int (length pre)" by (auto simp: placed_def)
  then have "insts = pre @ xs @ (ys @ post)" "insts = (pre @ xs) @ ys @ post" "ip = int (length pre)"
    "ip + int (length xs) = int (length (pre @ xs))" by auto
  then show "placed insts ip xs \<and> placed insts (ip + int (length xs)) ys"
    unfolding placed_def by (metis of_nat_0_le_iff)
next
  assume "placed insts ip xs \<and> placed insts (ip + int (length xs)) ys"
  then obtain pre post pre' post' where *: "insts = pre @ xs @ post" "ip = int (length pre)"
    "insts = pre' @ ys @ post'" "ip + int (length xs) = int (length pre')" unfolding placed_def by blast
  then have "length pre' = length (pre @ xs)" by simp
  moreover from * have "(pre @ xs) @ post = pre' @ ys @ post'" by simp
  ultimately have "post = ys @ post'" by (metis append_eq_append_conv)
  with * show "placed insts ip (xs @ ys)" by (auto simp: placed_def)
qed

lemma placed_Cons: "placed insts ip (i # is) \<longleftrightarrow> placed insts ip [i] \<and> placed insts (ip + 1) is"
  using placed_append [of insts ip "[i]" "is"] by simp

lemmas placed_simps = placed_append placed_Cons [where ?is = "j # js" for j js] placed_Cons [where ?is = "xs @ ys" for xs ys]

lemma placed_at: "placed insts ip [i] \<Longrightarrow> 0 \<le> ip \<and> ip < int (length insts) \<and> insts ! nat ip = i"
  by (auto simp: placed_def nth_append)

lemma placed_end: "placed insts ip is \<Longrightarrow> 0 \<le> ip \<and> ip + int (length is) \<le> int (length insts)"
  by (auto simp: placed_def)

subsection \<open>Runs\<close>

text \<open>Both count the instructions executed: the fuel they take is no more than that, and one unit for
  the instruction that stops.\<close>

definition leads :: "ctx \<Rightarrow> BCInstruction list \<Rightarrow> int \<Rightarrow> nat list \<Rightarrow> vmstate \<Rightarrow> int \<Rightarrow> nat list \<Rightarrow> vmstate \<Rightarrow> bool" where
  "leads c insts ip lb s ip' lb' s' \<longleftrightarrow>
     (\<exists>k. m_executed s' = m_executed s + int k \<and> (\<forall>n. run (n + k) c insts ip lb s = run n c insts ip' lb' s'))"

definition stops :: "ctx \<Rightarrow> BCInstruction list \<Rightarrow> int \<Rightarrow> nat list \<Rightarrow> vmstate \<Rightarrow> panic \<Rightarrow> vmstate \<Rightarrow> bool" where
  "stops c insts ip lb s p s' \<longleftrightarrow>
     (\<exists>k. m_executed s + int k \<le> m_executed s' + 1 \<and> (\<forall>n. run (n + k) c insts ip lb s = (Inl p, s')))"

lemma leads_refl: "leads c insts ip lb s ip lb s"
  unfolding leads_def by (rule exI [of _ 0]) simp

lemma leads_trans:
  assumes "leads c insts ip lb s ip' lb' s'" "leads c insts ip' lb' s' ip'' lb'' s''"
  shows "leads c insts ip lb s ip'' lb'' s''"
proof -
  from assms obtain k l where k: "m_executed s' = m_executed s + int k" "\<And>n. run (n + k) c insts ip lb s = run n c insts ip' lb' s'"
    and l: "m_executed s'' = m_executed s' + int l" "\<And>n. run (n + l) c insts ip' lb' s' = run n c insts ip'' lb'' s''"
    unfolding leads_def by blast
  have "run (n + (l + k)) c insts ip lb s = run n c insts ip'' lb'' s''" for n
    using k(2) [of "n + l"] l(2) [of n] by (simp add: add.assoc)
  with k(1) l(1) show ?thesis unfolding leads_def by (intro exI [of _ "l + k"]) simp
qed

lemma leads_executed: "leads c insts ip lb s ip' lb' s' \<Longrightarrow> m_executed s \<le> m_executed s'"
  by (auto simp: leads_def)

lemma leads_stops:
  assumes "leads c insts ip lb s ip' lb' s'" "stops c insts ip' lb' s' p s''"
  shows "stops c insts ip lb s p s''"
proof -
  from assms obtain k l where k: "m_executed s' = m_executed s + int k" "\<And>n. run (n + k) c insts ip lb s = run n c insts ip' lb' s'"
    and l: "m_executed s' + int l \<le> m_executed s'' + 1" "\<And>n. run (n + l) c insts ip' lb' s' = (Inl p, s'')"
    unfolding leads_def stops_def by blast
  have "run (n + (l + k)) c insts ip lb s = (Inl p, s'')" for n
    using k(2) [of "n + l"] l(2) [of n] by (simp add: add.assoc)
  with k(1) l(1) show ?thesis unfolding stops_def by (intro exI [of _ "l + k"]) simp
qed

subsection \<open>The gate\<close>

text \<open>A budget is exhausted; the interpreter has none.\<close>

definition limitPanic :: "panic \<Rightarrow> bool" where
  "limitPanic p \<longleftrightarrow> (\<exists>e. p = PErr e \<and> (e_Code e = ''LIMIT_EXCEEDED'' \<or> e_Code e = ''HFIR_DEADLINE_EXCEEDED''))"

definition free :: "Opcode \<Rightarrow> bool" where
  "free op \<longleftrightarrow> op_Capability (RegistrySpec op) = None_cap \<and> op \<noteq> OpFetch \<and> op \<noteq> OpHttpRequest"

abbreviation gated :: "int \<Rightarrow> vmstate \<Rightarrow> vmstate" where
  "gated ip s \<equiv> s\<lparr>m_ip := ip, m_executed := m_executed s + 1\<rparr>"

lemma limitPanic_New [simp]:
  "limitPanic (PErr (NewRuntimeError code fn ip op msg)) \<longleftrightarrow> code = ''LIMIT_EXCEEDED'' \<or> code = ''HFIR_DEADLINE_EXCEEDED''"
  by (simp add: limitPanic_def NewRuntimeError_def)

lemma gate_free:
  assumes "free (i_Op inst)"
  shows "gate c ip inst s = (Inr (), gated ip s) \<or>
    (\<exists>p s'. gate c ip inst s = (Inl p, s') \<and> limitPanic p \<and> m_executed s' = m_executed s)"
  using assms
  by (auto simp: gate_def free_def checkDeadline_def deadlineCode_def tick_def monad_defs raise_def raiseHere_def)

lemma run_at:
  assumes "placed insts ip [inst]"
  shows "run (Suc n) c insts ip lb = bindM (step (\<lambda>c' is. run n c' is 0 []) c insts ip lb inst) (\<lambda>(ip', lb').
    run n c insts ip' lb')"
  using placed_at [OF assms] by auto

text \<open>One instruction, as it is dispatched in the gated state.\<close>

lemma step_cases:
  assumes "placed insts ip [inst]" "free (i_Op inst)"
    and d: "\<And>nested. dispatch nested c insts ip lb inst (gated ip s) = (r, s2)" and "m_executed s2 = m_executed s + 1"
  shows "(\<exists>p s'. limitPanic p \<and> stops c insts ip lb s p s') \<or>
    (\<forall>ip' lb'. r = Inr (ip', lb') \<longrightarrow> leads c insts ip lb s ip' lb' s2) \<and> (\<forall>p. r = Inl p \<longrightarrow> stops c insts ip lb s p s2)"
proof -
  have one: "run (n + 1) c insts ip lb s = (case step (\<lambda>c' is. run n c' is 0 []) c insts ip lb inst s of
      (Inl p, s') \<Rightarrow> (Inl p, s') | (Inr (ip', lb'), s') \<Rightarrow> run n c insts ip' lb' s')" for n
    using fun_cong [OF run_at [OF assms(1)], of n c lb s] by (auto simp: bindM_def split: prod.splits sum.splits)
  from gate_free [OF assms(2), of c ip s] show ?thesis
  proof
    assume g: "gate c ip inst s = (Inr (), gated ip s)"
    then have "step nested c insts ip lb inst s = (r, s2)" for nested
      by (simp add: step_def bindM_def d)
    with one have "run (n + 1) c insts ip lb s = (case r of Inl p \<Rightarrow> (Inl p, s2) | Inr (ip', lb') \<Rightarrow> run n c insts ip' lb' s2)" for n
      by simp
    then show ?thesis
      using assms(4) unfolding leads_def stops_def by (intro disjI2 conjI allI impI exI [of _ 1]) auto
  next
    assume "\<exists>p s'. gate c ip inst s = (Inl p, s') \<and> limitPanic p \<and> m_executed s' = m_executed s"
    then obtain p s' where g: "gate c ip inst s = (Inl p, s')" "limitPanic p" "m_executed s' = m_executed s" by blast
    then have "step nested c insts ip lb inst s = (Inl p, s')" for nested
      by (simp add: step_def bindM_def)
    with one g show ?thesis unfolding stops_def by (intro disjI1 exI [of _ p] exI [of _ s'] conjI exI [of _ 1]) auto
  qed
qed

subsection \<open>States\<close>

text \<open>Bytes and stores come from effects that the compared programs do not perform; the engines differ
  on them.\<close>

fun plain :: "val \<Rightarrow> bool" where
  "plain (VBytes b) = False"
| "plain (VStore a) = False"
| "plain (VList xs) = (\<forall>x \<in> set xs. plain x)"
| "plain v = True"

definition plainHeap :: "heap \<Rightarrow> bool" where
  "plainHeap h \<longleftrightarrow> (\<forall>d \<in> set h. \<forall>(k, v) \<in> set d. plain v)"

text \<open>Same heap and effects; the variables in scope have the same values. The machine may keep variables
  that are out of scope.\<close>

definition tracks :: "string set \<Rightarrow> istate \<Rightarrow> vmstate \<Rightarrow> bool" where
  "tracks X t s \<longleftrightarrow>
     i_heap t = m_heap s \<and> i_events t = m_events s \<and> m_env s \<noteq> [] \<and> 0 \<le> m_executed s \<and> plainHeap (m_heap s)
     \<and> (\<forall>x \<in> X. \<exists>v. envGet (i_env t) x = Some v \<and> envGet (m_env s) x = Some v \<and> plain v)"

text \<open>What the stack is after an expression: its value on top; after several: their values; a statement
  may leave what it likes on top.\<close>

definition pushes :: "val list \<Rightarrow> val \<Rightarrow> val list \<Rightarrow> bool" where
  "pushes st v st' \<longleftrightarrow> st' = v # st \<and> plain v"

definition pushesAll :: "val list \<Rightarrow> val list \<Rightarrow> val list \<Rightarrow> bool" where
  "pushesAll st vs st' \<longleftrightarrow> st' = rev vs @ st \<and> (\<forall>v \<in> set vs. plain v)"

definition keeps :: "val list \<Rightarrow> 'a \<Rightarrow> val list \<Rightarrow> bool" where
  "keeps st v st' \<longleftrightarrow> (\<exists>g. st' = g @ st)"

definition failing :: "panic \<Rightarrow> bool" where
  "failing p \<longleftrightarrow> p = PCrash \<or> (\<exists>e. p = PErr e)"

definition panicMatches :: "ipanic \<Rightarrow> panic \<Rightarrow> bool" where
  "panicMatches q p \<longleftrightarrow>
     (case q of IErr _ \<Rightarrow> failing p | ICrash \<Rightarrow> failing p | IReturn v \<Rightarrow> p = PReturn v | _ \<Rightarrow> False)"

text \<open>The run from \<open>s\<close> at \<open>ip\<close> ends with a limit; or it does what the evaluation with outcome \<open>out\<close> did,
  arriving at \<open>e\<close> in the loops \<open>le\<close> with a stack that \<open>L\<close> allows; when the evaluation ran out of fuel, the run goes on until at
  least \<open>w\<close> instructions are executed.\<close>

definition simTo :: "('a \<Rightarrow> val list \<Rightarrow> bool) \<Rightarrow> string set \<Rightarrow> int \<Rightarrow> ctx \<Rightarrow> BCInstruction list \<Rightarrow> int \<Rightarrow> nat list \<Rightarrow> vmstate \<Rightarrow>
    int \<Rightarrow> nat list \<Rightarrow> (ipanic + 'a) \<times> istate \<Rightarrow> bool" where
  "simTo L X w c insts ip lb s e le out \<longleftrightarrow>
     (\<exists>p s'. limitPanic p \<and> stops c insts ip lb s p s') \<or>
     (case fst out of
        Inr v \<Rightarrow> \<exists>s'. leads c insts ip lb s e le s' \<and> L v (m_stack s') \<and> tracks X (snd out) s'
      | Inl q \<Rightarrow>
          if q = IFuel then \<exists>ip' lb' s'. leads c insts ip lb s ip' lb' s' \<and> w \<le> m_executed s'
          else \<exists>p s'. stops c insts ip lb s p s' \<and> panicMatches q p \<and> i_events (snd out) = m_events s')"

abbreviation sim :: "('a \<Rightarrow> val list \<Rightarrow> bool) \<Rightarrow> string set \<Rightarrow> int \<Rightarrow> ctx \<Rightarrow> BCInstruction list \<Rightarrow> int \<Rightarrow> nat list \<Rightarrow> vmstate \<Rightarrow>
    int \<Rightarrow> (ipanic + 'a) \<times> istate \<Rightarrow> bool" where
  "sim L X w c insts ip lb s e out \<equiv> simTo L X w c insts ip lb s e lb out"

lemma sim_limit: "limitPanic p \<Longrightarrow> stops c insts ip lb s p s' \<Longrightarrow> simTo L X w c insts ip lb s e le out"
  by (auto simp: simTo_def)

lemma sim_done: "L v (m_stack s) \<Longrightarrow> tracks X t s \<Longrightarrow> sim L X w c insts ip lb s ip (Inr v, t)"
  by (auto simp: simTo_def intro: leads_refl)

lemma sim_idle: "w \<le> m_executed s \<Longrightarrow> simTo L X w c insts ip lb s e le (Inl IFuel, t)"
  unfolding simTo_def by simp (metis leads_refl)

lemma sim_fail:
  "stops c insts ip lb s p s' \<Longrightarrow> failing p \<Longrightarrow> q = ICrash \<or> (\<exists>e. q = IErr e) \<Longrightarrow> i_events t = m_events s' \<Longrightarrow>
    simTo L X w c insts ip lb s e le (Inl q, t)"
  unfolding simTo_def by (rule disjI2) (auto simp: panicMatches_def intro!: exI [of _ p] exI [of _ s'])

lemma sim_leads:
  assumes "leads c insts ip lb s ip1 lb1 s1" "simTo L X w c insts ip1 lb1 s1 e le out"
  shows "simTo L X w c insts ip lb s e le out"
  using assms by (cases "fst out") (auto simp: simTo_def intro: leads_stops leads_trans split: if_splits; blast intro: leads_stops leads_trans)+

lemma sim_mono: "simTo L X w c insts ip lb s e le out \<Longrightarrow> (\<And>v st. L v st \<Longrightarrow> L' v st) \<Longrightarrow> simTo L' X w c insts ip lb s e le out"
  by (auto simp: simTo_def split: sum.splits if_splits)

lemma sim_loosen: "sim (pushes st) X w c insts ip lb s e out \<Longrightarrow> sim (keeps st) X w c insts ip lb s e out"
  by (auto simp: simTo_def pushes_def keeps_def split: sum.splits if_splits)

lemma sim_bind:
  assumes "sim L X w c insts ip lb s m (f t)"
    and "\<And>v t1 s1. f t = (Inr v, t1) \<Longrightarrow> L v (m_stack s1) \<Longrightarrow> tracks X t1 s1 \<Longrightarrow>
      m_executed s \<le> m_executed s1 \<Longrightarrow> simTo L' X' w c insts m lb s1 e le (g v t1)"
  shows "simTo L' X' w c insts ip lb s e le (bindI f g t)"
proof (cases "f t")
  case (Pair r t1)
  show ?thesis
  proof (cases r)
    case (Inl q)
    with Pair assms(1) show ?thesis by (simp add: simTo_def bindI_def split: if_splits)
  next
    case (Inr v)
    from assms(1) consider p s' where "limitPanic p" "stops c insts ip lb s p s'"
      | s1 where "leads c insts ip lb s m lb s1" "L v (m_stack s1)" "tracks X t1 s1"
      using Pair Inr by (auto simp: simTo_def)
    then show ?thesis
    proof cases
      case 1
      then show ?thesis by (rule sim_limit)
    next
      case 2
      from assms(2) [OF Pair [unfolded Inr] 2(2, 3) leads_executed [OF 2(1)]]
      have "simTo L' X' w c insts m lb s1 e le (g v t1)" .
      with 2(1) show ?thesis using Pair Inr by (auto simp: bindI_def intro: sim_leads)
    qed
  qed
qed

text \<open>More code behind it, of which the interpreter knows nothing.\<close>

lemma sim_then:
  assumes "sim L X w c insts ip lb s m out"
    and "\<And>v t1 s1. out = (Inr v, t1) \<Longrightarrow> L v (m_stack s1) \<Longrightarrow> tracks X t1 s1 \<Longrightarrow> m_executed s \<le> m_executed s1 \<Longrightarrow>
      simTo L' Y w c insts m lb s1 e le (Inr v, t1)"
  shows "simTo L' Y w c insts ip lb s e le out"
proof -
  have "simTo L' Y w c insts ip lb s e le (bindI (\<lambda>_. out) returnI (snd out))"
    by (rule sim_bind [where f = "\<lambda>_. out" and m = m and L = L and X = X]) (use assms in \<open>auto simp: returnI_def\<close>)
  then show ?thesis by (cases out) (auto simp: bindI_def returnI_def split: sum.splits)
qed

subsection \<open>Instructions\<close>

text \<open>What a handler did agrees with an outcome of the interpreter.\<close>

definition agrees :: "('a \<Rightarrow> val list \<Rightarrow> bool) \<Rightarrow> string set \<Rightarrow> int \<Rightarrow> (panic + unit) \<times> vmstate \<Rightarrow> (ipanic + 'a) \<times> istate \<Rightarrow> bool" where
  "agrees L X k res out \<longleftrightarrow> m_executed (snd res) = k \<and>
     (case fst res of
        Inl p \<Rightarrow> limitPanic p \<or> (\<exists>q. fst out = Inl q \<and> q \<noteq> IFuel \<and> panicMatches q p \<and> i_events (snd out) = m_events (snd res))
      | Inr _ \<Rightarrow> \<exists>v. fst out = Inr v \<and> L v (m_stack (snd res)) \<and> tracks X (snd out) (snd res))"

definition handles :: "Opcode \<Rightarrow> handler \<Rightarrow> bool" where
  "handles op h \<longleftrightarrow> map_of controlTable op = None \<and> map_of dataTable op = Some h \<and> free op"

lemma sim_handler:
  assumes "handles (i_Op inst) h" "placed insts ip [inst]"
    and "agrees L X (m_executed s + 1) (h c ip inst (gated ip s)) out"
  shows "sim L X w c insts ip lb s (ip + 1) out"
proof -
  obtain r s2 where h: "h c ip inst (gated ip s) = (r, s2)" by fastforce
  let ?r = "case r of Inl p \<Rightarrow> Inl p | Inr _ \<Rightarrow> Inr (ip + 1, lb)"
  have d: "dispatch nested c insts ip lb inst (gated ip s) = (?r, s2)" for nested
    using assms(1) h by (auto simp: handles_def dispatch_def runData_def bindM_def returnM_def split: sum.splits)
  from assms(1, 3) h have free: "free (i_Op inst)" and s2: "m_executed s2 = m_executed s + 1"
    by (auto simp: handles_def agrees_def)
  from step_cases [OF assms(2) free d s2] show ?thesis
  proof
    assume "\<exists>p s'. limitPanic p \<and> stops c insts ip lb s p s'"
    then show ?thesis by (auto intro: sim_limit)
  next
    assume r: "(\<forall>ip' lb'. ?r = Inr (ip', lb') \<longrightarrow> leads c insts ip lb s ip' lb' s2) \<and> (\<forall>p. ?r = Inl p \<longrightarrow> stops c insts ip lb s p s2)"
    show ?thesis
    proof (cases r)
      case (Inl p)
      with r have "stops c insts ip lb s p s2" by simp
      with assms(3) h Inl show ?thesis by (auto simp: agrees_def simTo_def) blast
    next
      case (Inr u)
      with r have "leads c insts ip lb s (ip + 1) lb s2" by simp
      with assms(3) h Inr show ?thesis by (auto simp: agrees_def simTo_def)
    qed
  qed
qed

subsection \<open>Handlers\<close>

text \<open>Rules that follow a handler step by step along the computation of the interpreter.\<close>

lemma tracks_update [simp]:
  "tracks X t (s\<lparr>m_stack := st\<rparr>) \<longleftrightarrow> tracks X t s" "tracks X t (s\<lparr>m_memoryBytes := m\<rparr>) \<longleftrightarrow> tracks X t s"
  "tracks X t (s\<lparr>m_ip := ip\<rparr>) \<longleftrightarrow> tracks X t s"
  by (simp_all add: tracks_def)

lemma tracks_executed: "tracks X t s \<Longrightarrow> tracks X t (s\<lparr>m_ip := ip, m_executed := m_executed s + 1\<rparr>)"
  by (simp add: tracks_def)

lemma tracks_subset: "tracks X t s \<Longrightarrow> Y \<subseteq> X \<Longrightarrow> tracks Y t s"
  by (auto simp: tracks_def)

lemma tracks_var: "tracks X t s \<Longrightarrow> x \<in> X \<Longrightarrow> \<exists>v. envGet (i_env t) x = Some v \<and> envGet (m_env s) x = Some v \<and> plain v"
  by (auto simp: tracks_def)

lemma agrees_done:
  "tracks X t s \<Longrightarrow> L v (m_stack s) \<Longrightarrow> m_executed s = k \<Longrightarrow> agrees L X k (Inr (), s) (Inr v, t)"
  by (simp add: agrees_def)

lemma agrees_push:
  "tracks X t s \<Longrightarrow> m_stack s = st \<Longrightarrow> plain v \<Longrightarrow> m_executed s = k \<Longrightarrow> agrees (pushes st) X k (push v s) (returnI v t)"
  by (simp add: push_def modifyM_def returnI_def agrees_def pushes_def)

lemma agrees_fail:
  "failing p \<Longrightarrow> m_executed s = k \<Longrightarrow> q = ICrash \<or> (\<exists>e. q = IErr e) \<Longrightarrow> i_events t = m_events s \<Longrightarrow>
    agrees L X k (Inl p, s) (Inl q, t)"
  by (auto simp: agrees_def panicMatches_def)

lemma agrees_raise:
  "tracks X t s \<Longrightarrow> m_executed s = k \<Longrightarrow> agrees L X k (raise code ip op msg s) (InterpErr reason node t)"
  unfolding raise_def InterpErr_def panicM_def panicI_def
  by (rule agrees_fail) (auto simp: failing_def tracks_def)

lemma agrees_pop:
  "m_stack s = v # st' \<Longrightarrow> agrees L X k (f v (s\<lparr>m_stack := st'\<rparr>)) out \<Longrightarrow> agrees L X k (bindM (pop op) f s) out"
  by (simp add: pop_def bindM_def getM_def modifyM_def returnM_def)

lemma agrees_limit: "limitPanic p \<Longrightarrow> m_executed s = k \<Longrightarrow> agrees L X k (Inl p, s) out"
  by (simp add: agrees_def)

lemma agrees_chargeAlloc:
  assumes "\<And>m. agrees L X k (f () (s\<lparr>m_memoryBytes := m\<rparr>)) out" "m_executed s = k"
  shows "agrees L X k (bindM (chargeAlloc c n ip op) f s) out"
proof -
  have "s\<lparr>m_memoryBytes := m_memoryBytes s\<rparr> = s" by simp
  with assms(1) [of "m_memoryBytes s"] have "agrees L X k (f () s) out" by metis
  with assms show ?thesis
    by (auto simp: chargeAlloc_def bindM_def getM_def modifyM_def returnM_def memoryLimit_def raise_def panicM_def Let_def
        intro!: agrees_limit)
qed

lemma agrees_chargeSlots:
  assumes "\<And>m. agrees L X k (f () (s\<lparr>m_memoryBytes := m\<rparr>)) out" "m_executed s = k"
  shows "agrees L X k (bindM (chargeSlots c n w ip op) f s) out"
proof (cases "n > 0 \<and> n > (2 ^ 63 - 1) div w")
  case True
  with assms(2) show ?thesis
    by (auto simp: chargeSlots_def bindM_def memoryLimit_def raise_def panicM_def intro!: agrees_limit)
next
  case False
  then have "chargeSlots c n w ip op = chargeAlloc c (n * w) ip op" by (auto simp: chargeSlots_def)
  with agrees_chargeAlloc [where f = f, OF assms] show ?thesis by simp
qed

lemma agrees_chargeText:
  assumes "\<And>m. agrees L X k (f () (s\<lparr>m_memoryBytes := m\<rparr>)) out" "m_executed s = k"
  shows "agrees L X k (bindM (chargeText c v ip op) f s) out"
proof -
  have "s\<lparr>m_memoryBytes := m_memoryBytes s\<rparr> = s" by simp
  with assms(1) [of "m_memoryBytes s"] have "agrees L X k (f () s) out" by metis
  with agrees_chargeAlloc [where f = f, OF assms] show ?thesis
    by (cases v) (simp_all add: chargeText_def bindM_def returnM_def)
qed

lemma agrees_return: "agrees L X k (f a s) out \<Longrightarrow> agrees L X k (bindM (returnM a) f s) out"
  by (simp add: bindM_def returnM_def)

subsection \<open>Printing\<close>

fun plainTree :: "tree \<Rightarrow> bool" where
  "plainTree (TBytes s) = False"
| "plainTree (TStore a) = False"
| "plainTree (TList ts) = (\<forall>t \<in> set ts. plainTree t)"
| "plainTree (TDict kts) = (\<forall>(k, t) \<in> set kts. plainTree t)"
| "plainTree t = True"

lemma freeze_plain: "freeze h n v = Inr t \<Longrightarrow> plain v \<Longrightarrow> plainHeap h \<Longrightarrow> plainTree t"
proof (induction h n v arbitrary: t rule: freeze.induct)
  case (9 h n xs)
  then obtain ts where ts: "traverse (freeze h n) xs = Inr ts" "t = TList ts" by (auto simp: result_simps)
  have "plainTree x" if "x \<in> set ts" for x
    using traverse_Inr_set [OF ts(1) that] 9 by auto
  with ts(2) show ?case by simp
next
  case (11 h n a)
  let ?d = "if a < length h then h ! a else []"
  from 11(2) obtain kts where ts: "traverse (\<lambda>(k, v). rbind (freeze h n v) (\<lambda>t. Inr (k, t))) ?d = Inr kts" "t = TDict kts"
    by (auto simp: result_simps)
  have "plainTree x" if kx: "(k, x) \<in> set kts" for k x
  proof -
    from traverse_Inr_set [OF ts(1) kx] obtain k' v where v: "(k', v) \<in> set ?d" "freeze h n v = Inr x"
      by (auto simp: result_simps)
    from v(1) have "(k', v) \<in> set (h ! a)" "a < length h" by (auto split: if_splits)
    with 11(4) have "plain v" by (auto simp: plainHeap_def dest: nth_mem)
    with 11(1) [OF v(1) refl v(2)] 11(4) show ?thesis by blast
  qed
  with ts(2) show ?case by auto
qed auto

lemma plainTree_printable: "plainTree t \<Longrightarrow> \<not> hasStore t"
  by (induction t rule: hasStore.induct) auto

lemma agrees_printable:
  assumes "tracks X t s" "plain v" "m_executed s = k"
    and "\<And>tr. treeOf (m_heap s) v = Some tr \<Longrightarrow> agrees L Y k (f tr s) (g tr t)"
  shows "agrees L Y k (bindM (printable op v) f s) (bindI (treeI v) g t)"
proof -
  from assms(1) have heap: "i_heap t = m_heap s" "plainHeap (m_heap s)" "i_events t = m_events s" by (auto simp: tracks_def)
  show ?thesis
  proof (cases "treeOf (m_heap s) v")
    case None
    with heap assms(3) show ?thesis
      by (auto simp: printable_def treeM_def treeI_def bindM_def bindI_def getM_def getI_def panicM_def panicI_def failing_def
          intro!: agrees_fail)
  next
    case (Some tr)
    then have "\<not> hasStore tr"
      using freeze_plain [OF _ assms(2) heap(2)] by (auto simp: treeOf_def plainTree_printable split: sum.splits)
    with Some heap assms(4) show ?thesis
      by (simp add: printable_def treeM_def treeI_def bindM_def bindI_def getM_def getI_def returnM_def returnI_def)
  qed
qed

lemma bindM_assoc: "bindM (bindM m f) g = bindM m (\<lambda>a. bindM (f a) g)"
  by (auto simp: fun_eq_iff bindM_def split: prod.splits sum.splits)

lemma bindM_return [simp]: "bindM (returnM a) f = f a"
  by (simp add: fun_eq_iff bindM_def returnM_def)

lemma bindI_assoc: "bindI (bindI m f) g = bindI m (\<lambda>a. bindI (f a) g)"
  by (auto simp: fun_eq_iff bindI_def split: prod.splits sum.splits)

lemma bindI_return [simp]: "bindI (returnI a) f = f a"
  by (simp add: fun_eq_iff bindI_def returnI_def)

lemma agrees_sprint:
  assumes "tracks X t s" "plain v" "m_executed s = k" "\<And>text. agrees L Y k (f text s) (g text t)"
  shows "agrees L Y k (bindM (sprintM op v) f s) (bindI (sprintI v) g t)"
  unfolding sprintM_def sprintI_def bindM_assoc bindI_assoc
  by (rule agrees_printable [OF assms(1-3)]) (simp add: assms(4))

lemma agrees_text:
  assumes "tracks X t s" "plain v" "m_executed s = k" "\<And>text. agrees L Y k (f text s) (g text t)"
  shows "agrees L Y k (bindM (textM op v) f s) (bindI (textI v) g t)"
  unfolding textM_def textI_def bindM_assoc bindI_assoc
  by (rule agrees_printable [OF assms(1-3)]) (simp add: assms(4))

subsection \<open>Jumps\<close>

lemma goInt_small: "- (2 ^ 63) \<le> i \<Longrightarrow> i < 2 ^ 63 \<Longrightarrow> goInt i = i"
  unfolding goInt_def by (rule sint_word_of_int64) (simp add: inInt64_def)

lemma jump_free: "free OpJump" "free OpJumpIfFalse" "free OpForInit" "free OpForNext"
  by (simp_all add: free_def RegistrySpec_def Registry_def RegistryTable_def)

text \<open>An instruction that dispatches to a known configuration.\<close>

lemma sim_step:
  assumes "placed insts ip [inst]" "free (i_Op inst)"
    and "\<And>nested. dispatch nested c insts ip lb inst (gated ip s) = (Inr (ip1, lb1), s1)" "m_executed s1 = m_executed s + 1"
    and "leads c insts ip lb s ip1 lb1 s1 \<Longrightarrow> simTo L X w c insts ip lb s e le out"
  shows "simTo L X w c insts ip lb s e le out"
  using step_cases [OF assms(1-4)] assms(5) by (auto intro: sim_limit)

lemma sim_jump:
  assumes "placed insts ip [instrI OpJump d]" "goInt (ip + d) = ip1" "tracks X t s"
    and "\<And>s1. tracks X t s1 \<Longrightarrow> m_stack s1 = m_stack s \<Longrightarrow> m_executed s1 = m_executed s + 1 \<Longrightarrow> simTo L Y w c insts ip1 lb s1 e le out"
  shows "simTo L Y w c insts ip lb s e le out"
proof (rule sim_step [OF assms(1)])
  show "free (i_Op (instrI OpJump d))" by (simp add: instrI_def instr_def jump_free)
  show "dispatch nested c insts ip lb (instrI OpJump d) (gated ip s) = (Inr (ip1, lb), gated ip s)" for nested
    using assms(2) by (simp add: dispatch_def controlTable_def instrI_def instr_def opJump_def returnM_def)
  show "simTo L Y w c insts ip lb s e le out" if "leads c insts ip lb s ip1 lb (gated ip s)"
    by (rule sim_leads [OF that assms(4)]) (simp_all add: tracks_executed assms(3))
qed simp

lemma sim_branch:
  assumes "placed insts ip [instrI OpJumpIfFalse d]" "goInt (ip + d) = ip1" "tracks X t s" "m_stack s = v # st"
    and "\<And>b s1. v = VBool b \<Longrightarrow> tracks X t s1 \<Longrightarrow> m_stack s1 = st \<Longrightarrow> m_executed s1 = m_executed s + 1 \<Longrightarrow>
      simTo L Y w c insts (if b then ip + 1 else ip1) lb s1 e le (g b t)"
  shows "simTo L Y w c insts ip lb s e le (bindI (ToBoolI v node) g t)"
proof (cases "\<exists>b. v = VBool b")
  case True
  then obtain b where b: "v = VBool b" by blast
  let ?s = "(gated ip s)\<lparr>m_stack := st\<rparr>"
  have "simTo L Y w c insts ip lb s e le (g b t)"
  proof (rule sim_step [OF assms(1)])
    show "free (i_Op (instrI OpJumpIfFalse d))" by (simp add: instrI_def instr_def jump_free)
    show "dispatch nested c insts ip lb (instrI OpJumpIfFalse d) (gated ip s) = (Inr (if b then ip + 1 else ip1, lb), ?s)" for nested
      using assms(2, 4) b
      by (simp add: dispatch_def controlTable_def instrI_def instr_def opJumpIfFalse_def returnM_def bindM_def pop_def getM_def
          modifyM_def liftM_def BcToBool_def)
    show "simTo L Y w c insts ip lb s e le (g b t)" if "leads c insts ip lb s (if b then ip + 1 else ip1) lb ?s"
      by (rule sim_leads [OF that assms(5) [OF b]]) (simp_all add: tracks_executed assms(3))
  qed simp
  with b show ?thesis by (simp add: ToBoolI_def)
next
  case False
  then obtain e1 e2 where e: "BcToBool v = Inl e1" "ToBoolI v node = panicI (IErr e2)"
    by (cases v) (auto simp: BcToBool_def ToBoolI_def InterpErr_def)
  let ?s = "(gated ip s)\<lparr>m_stack := st\<rparr>"
  have "dispatch nested c insts ip lb (instrI OpJumpIfFalse d) (gated ip s) = (Inl (PErr e1), ?s)" for nested
    using assms(4) e
    by (simp add: dispatch_def controlTable_def instrI_def instr_def opJumpIfFalse_def bindM_def pop_def getM_def
        modifyM_def liftM_def panicM_def returnM_def)
  from step_cases [OF assms(1) _ this]
  have "(\<exists>p s'. limitPanic p \<and> stops c insts ip lb s p s') \<or> stops c insts ip lb s (PErr e1) ?s"
    by (auto simp: instrI_def instr_def jump_free)
  then show ?thesis
  proof
    assume "stops c insts ip lb s (PErr e1) ?s"
    from sim_fail [OF this, of "IErr e2" t] e assms(3) show ?thesis
      by (simp add: bindI_def panicI_def failing_def tracks_def)
  qed (auto intro: sim_limit)
qed

end
