(* ===== verification/SimForms.thy ===== *)
theory SimForms
  imports Simulation
begin

text \<open>
  The constructs compared: what the interpreter does for each, the shape of its compiled code, and that
  the handler of its instruction agrees with the interpreter.
\<close>

subsection \<open>Expressions\<close>

text \<open>A construct: a list whose first child has the value \<open>h\<close>.\<close>

definition form :: "Node \<Rightarrow> string \<Rightarrow> Node list \<Rightarrow> bool" where
  "form n h args \<longleftrightarrow> isListNode n \<and> (\<exists>hd. n_Children n = hd # args \<and> n_Value hd = h)"

definition boolName :: "Node \<Rightarrow> bool" where
  "boolName n \<longleftrightarrow> n_Value n = ''true'' \<or> n_Value n = ''false''"

definition unaries :: "string list" where
  "unaries = [''to_int'', ''to_float'', ''to_string'', ''to_lower'', ''to_upper'', ''str_trim'', ''is_nil'', ''list_len'',
     ''map_keys'', ''html_escape'', ''attr_escape'']"

text \<open>The expressions over the variables \<open>X\<close>.\<close>

inductive expr :: "string set \<Rightarrow> Node \<Rightarrow> bool" for X where
  literal: "n_Type n \<in> {''INT'', ''FLOAT'', ''STRING''} \<Longrightarrow> expr X n"
| truth: "isSymbolNode n \<Longrightarrow> boolName n \<Longrightarrow> expr X n"
| variable: "isSymbolNode n \<Longrightarrow> \<not> boolName n \<Longrightarrow> n_Value n \<in> X \<Longrightarrow> expr X n"
| binop: "form n h [a, b] \<Longrightarrow> h \<in> set binops \<Longrightarrow> expr X a \<Longrightarrow> expr X b \<Longrightarrow> expr X n"
| logic: "form n h [a, b] \<Longrightarrow> h = ''and'' \<or> h = ''or'' \<Longrightarrow> expr X a \<Longrightarrow> expr X b \<Longrightarrow> expr X n"
| unary: "form n h [a] \<Longrightarrow> h \<in> set unaries \<Longrightarrow> expr X a \<Longrightarrow> expr X n"
| choice: "form n ''if'' [a, b, d] \<Longrightarrow> expr X a \<Longrightarrow> expr X b \<Longrightarrow> expr X d \<Longrightarrow> expr X n"
| listing: "form n ''list'' args \<Longrightarrow> \<forall>a \<in> set args. expr X a \<Longrightarrow> expr X n"
| entry: "form n ''map_get'' [d, k] \<Longrightarrow> isSymbolNode d \<Longrightarrow> n_Value d \<in> X \<Longrightarrow> n_Value d \<noteq> [] \<Longrightarrow> expr X k \<Longrightarrow> expr X n"
| element: "form n ''list_get'' [l, k] \<Longrightarrow> isSymbolNode l \<Longrightarrow> n_Value l \<in> X \<Longrightarrow> expr X k \<Longrightarrow> expr X n"

subsection \<open>Evaluation of a construct\<close>

declare eval.simps [simp del]

lemma monadI_defs:
  "returnI = (\<lambda>a s. (Inr a, s))" "panicI = (\<lambda>p s. (Inl p, s))" "getI = (\<lambda>f s. (Inr (f s), s))"
  "modifyI = (\<lambda>f s. (Inr (), f s))"
  by (simp_all add: fun_eq_iff returnI_def panicI_def getI_def modifyI_def)

lemma requireI_True [simp]: "requireI True reason node = returnI ()"
  by (simp add: requireI_def)

lemma form_arity: "form n h args \<Longrightarrow> arity n = Suc (length args)"
  by (auto simp: form_def arity_def)

lemma form_child:
  "form n h (a # as) \<Longrightarrow> childI n (Suc 0) = returnI a"
  "form n h (a # b # as) \<Longrightarrow> childI n 2 = returnI b"
  "form n h (a # b # d # as) \<Longrightarrow> childI n 3 = returnI d"
  by (auto simp: form_def childI_def)

lemma form_eval:
  "form n h (a # as) \<Longrightarrow> evalChild rec n (Suc 0) = rec a"
  "form n h (a # b # as) \<Longrightarrow> evalChild rec n 2 = rec b"
  "form n h (a # b # d # as) \<Longrightarrow> evalChild rec n 3 = rec d"
  by (auto simp: evalChild_def form_child)

lemma form_cond: "form n h (a # as) \<Longrightarrow> evalCond rec n (Suc 0) = bindI (rec a) (\<lambda>v. ToBoolI v a)"
  "form n h (a # b # as) \<Longrightarrow> evalCond rec n 2 = bindI (rec b) (\<lambda>v. ToBoolI v b)"
  by (auto simp: evalCond_def form_child)

lemma form_sprint: "form n h (a # as) \<Longrightarrow> sprintChild rec n (Suc 0) = bindI (rec a) sprintI"
  "form n h (a # b # as) \<Longrightarrow> sprintChild rec n 2 = bindI (rec b) sprintI"
  by (auto simp: sprintChild_def form_eval)

lemma form_rest: "form n h args \<Longrightarrow> drop (Suc 0) (n_Children n) = args"
  by (auto simp: form_def)

lemmas form_simps = form_arity form_child form_eval form_cond form_sprint form_rest

lemma form_size: "form n h args \<Longrightarrow> a \<in> set args \<Longrightarrow> size a < size n"
  by (rule child_smaller) (auto simp: form_def)

lemma form_types [simp]: "form n h args \<Longrightarrow> isListNode n" "form n h args \<Longrightarrow> n_Type n = ''List''"
  by (auto simp: form_def isListNode_def)

lemma eval_form:
  assumes "form n h args"
  shows "eval (Suc k) ic n =
    (if h \<in> set BinOpKinds then evalBinop h (eval k ic) n
     else thenI (headCapability ic h n)
       (case map_of evalTable h of Some f \<Rightarrow> f ic (eval k ic) k n
        | None \<Rightarrow> InterpErr (quote (h_unicode (ic_host ic)) h @
            '' is not supported under -run in Phase 1 (see docs/direct_execution_design.md)'') (hd (n_Children n))))"
  using assms by (auto simp: form_def eval.simps evalNode_def evalList_def isListNode_def isSymbolNode_def Let_def split: option.splits)

text \<open>The constructs that need no authority.\<close>

definition plainHead :: "string \<Rightarrow> evaluator \<Rightarrow> bool" where
  "plainHead h f \<longleftrightarrow> h \<notin> set BinOpKinds \<and> ForConstruct h = None_cap \<and> h \<noteq> ''neural_circuit'' \<and> h \<noteq> ''ephemeral_circuit''
     \<and> map_of evalTable h = Some f"

lemma eval_plain: "form n h args \<Longrightarrow> plainHead h f \<Longrightarrow> eval (Suc k) ic n = f ic (eval k ic) k n"
  by (subst eval_form, assumption) (simp add: plainHead_def headCapability_def)

lemmas table_defs = plainHead_def BinOpKinds_def ForConstruct_def evalTable_def controlHeads_def dataHeads_def

lemma plainHeads:
  "plainHead ''let'' evalLet" "plainHead ''set'' evalSet" "plainHead ''if'' evalIf" "plainHead ''while'' evalWhile"
  "plainHead ''for'' evalFor" "plainHead ''do'' evalDo" "plainHead ''return'' evalReturn" "plainHead ''print'' evalPrint"
  "plainHead ''stderr'' evalStderr" "plainHead ''list'' evalListNode" "plainHead ''dict'' evalDict"
  "plainHead ''append'' evalAppend" "plainHead ''map_set'' evalMapSet" "plainHead ''map_delete'' evalMapDelete"
  "plainHead ''map_get'' evalMapGet" "plainHead ''list_get'' evalListGet"
  "plainHead ''to_int'' (evalToNumber convertToInt ''to_int'')"
  "plainHead ''to_float'' (evalToNumber convertToFloat ''to_float'')" "plainHead ''to_string'' evalToString"
  "plainHead ''to_lower'' (evalText ToLower ''to_lower'')" "plainHead ''to_upper'' (evalText ToUpper ''to_upper'')"
  "plainHead ''str_trim'' (evalText trimSpace ''str_trim'')" "plainHead ''list_len'' evalListLen"
  "plainHead ''map_keys'' evalMapKeys" "plainHead ''is_nil'' evalIsNil"
  "plainHead ''html_escape'' (evalEscape ''html_escape'')" "plainHead ''attr_escape'' (evalEscape ''attr_escape'')"
  by (simp_all add: table_defs)

subsection \<open>Calm evaluations\<close>

text \<open>An evaluation that changes nothing and returns a value or an error; unless \<open>b\<close>, it may run out of
  fuel.\<close>

named_theorems calm \<open>calm evaluations\<close>

definition calm :: "bool \<Rightarrow> 'a I \<Rightarrow> bool" where
  "calm b m \<longleftrightarrow> (\<forall>t. snd (m t) = t \<and> (\<forall>q. fst (m t) = Inl q \<longrightarrow> q = ICrash \<or> (\<exists>e. q = IErr e) \<or> (\<not> b \<and> q = IFuel)))"

lemma calm_no_fuel: "calm b (eval 0 ic n) \<longleftrightarrow> \<not> b"
  by (simp add: calm_def panicI_def eval.simps)

lemma calm_return [calm]: "calm b (returnI a)"
  by (simp add: calm_def returnI_def)

lemma calm_bind [calm]:
  assumes "calm b m" "\<And>a. calm b (f a)"
  shows "calm b (bindI m f)"
  unfolding calm_def
proof
  fix t
  from assms(1) show "snd (bindI m f t) = t \<and> (\<forall>q. fst (bindI m f t) = Inl q \<longrightarrow> q = ICrash \<or> (\<exists>e. q = IErr e) \<or> (\<not> b \<and> q = IFuel))"
    using assms(2) by (cases "m t") (auto simp: calm_def bindI_def split: sum.splits dest!: spec [of _ t])
qed

lemma calm_err [calm]: "calm b (InterpErr reason node)"
  by (simp add: calm_def InterpErr_def panicI_def)

lemma calm_require [calm]: "calm b (requireI e reason node)"
  by (simp add: requireI_def calm)

lemma calm_get [calm]: "calm b (getI f)"
  by (simp add: calm_def getI_def)

lemma calm_if [calm]: "calm b m \<Longrightarrow> calm b n \<Longrightarrow> calm b (if e then m else n)"
  by simp

lemma calm_traverse [calm]: "(\<And>x. x \<in> set xs \<Longrightarrow> calm b (f x)) \<Longrightarrow> calm b (traverseI f xs)"
  by (induction xs) (auto intro!: calm)

lemma calm_need [calm]: "calm b (needVarI x node)"
  unfolding needVarI_def getVarI_def by (intro calm) (simp add: calm split: option.split)

lemma calm_tree [calm]: "calm b (treeI v)"
  by (auto simp: treeI_def calm_def bindI_def getI_def panicI_def returnI_def split: option.split)

lemma calm_text [calm]: "calm b (sprintI v)" "calm b (textI v)" "calm b (dictAtI a)" "calm b (ToBoolI v node)"
  by (auto simp: sprintI_def textI_def dictAtI_def ToBoolI_def intro!: calm split: val.split)

lemma calm_want [calm]: "calm b (wantDictI what v node)" "calm b (wantListI what v node)" "calm b (typeErrorI what v node)"
  by (auto simp: wantDictI_def wantListI_def typeErrorI_def intro!: calm split: val.split)

lemma calm_numeric:
  "calm b (interpNumericArithmetic op x y node)" "calm b (interpNumericDiv x y node)" "calm b (interpNumericRelational op x y node)"
  by (auto simp: interpNumericArithmetic_def interpNumericDiv_def interpNumericRelational_def Let_def
      checkedAddInt64_def checkedSubInt64_def checkedMulInt64_def intro!: calm split: option.split prod.split)

lemma calm_binop [calm]: "calm b (applyBinop op x y node)"
  by (auto simp: applyBinop_def NumericBinop_def intro!: calm calm_numeric split: val.split)

lemma calm_sum: "(\<And>e. calm b (f e)) \<Longrightarrow> (\<And>a. calm b (g a)) \<Longrightarrow> calm b (case r of Inl e \<Rightarrow> f e | Inr a \<Rightarrow> g a)"
  by (cases r) auto

text \<open>What a construct of one operand does with its value.\<close>

definition numberOf :: "(unicode \<Rightarrow> val \<Rightarrow> vm_error + val) \<Rightarrow> icfg \<Rightarrow> Node \<Rightarrow> val \<Rightarrow> val I" where
  "numberOf convert ic a v =
     (case convert (h_unicode (ic_host ic)) v of
        Inl e \<Rightarrow> InterpErr (''CONVERSION_ERROR: '' @ e_Message e) a | Inr r \<Rightarrow> returnI r)"

definition changedText :: "(string \<Rightarrow> string) \<Rightarrow> val \<Rightarrow> val I" where
  "changedText f v = bindI (sprintI v) (\<lambda>s. returnI (VStr (f s)))"

definition lengthOf :: "Node \<Rightarrow> val \<Rightarrow> val I" where
  "lengthOf a v = (case collectionLen v of Some k \<Rightarrow> returnI (intVal (int k))
     | None \<Rightarrow> typeErrorI ''list_len expected list, string, or bytes'' v a)"

definition keysOf :: "Node \<Rightarrow> val \<Rightarrow> val I" where
  "keysOf a v = bindI (wantDictI ''map_keys'' v a) (\<lambda>d. bindI (dictAtI d) (\<lambda>d. returnI (VList (sortedMapKeys d))))"

definition escaped :: "string \<Rightarrow> Node \<Rightarrow> val \<Rightarrow> val I" where
  "escaped h n v = (case v of VStr s \<Rightarrow> returnI (VStr (Escape s))
     | _ \<Rightarrow> InterpErr (''TYPE_ERROR: '' @ h @ '' expected string, got '' @ typeName v) n)"

definition applyUnary :: "icfg \<Rightarrow> string \<Rightarrow> Node \<Rightarrow> Node \<Rightarrow> val \<Rightarrow> val I" where
  "applyUnary ic h n a v =
     (if h = ''to_int'' then numberOf convertToInt ic a v
      else if h = ''to_float'' then numberOf convertToFloat ic a v
      else if h = ''to_string'' then bindI (textI v) (\<lambda>t. returnI (VStr t))
      else if h = ''to_lower'' then changedText ToLower v
      else if h = ''to_upper'' then changedText ToUpper v
      else if h = ''str_trim'' then changedText trimSpace v
      else if h = ''is_nil'' then returnI (VBool (v = VNil))
      else if h = ''list_len'' then lengthOf a v
      else if h = ''map_keys'' then keysOf a v
      else escaped h n v)"

lemma calm_parts [calm]:
  "calm b (numberOf convert ic a v)" "calm b (changedText f v)" "calm b (lengthOf a v)" "calm b (keysOf a v)" "calm b (escaped h n v)"
  by (auto simp: numberOf_def changedText_def lengthOf_def keysOf_def escaped_def intro!: calm split: sum.split option.split val.split)

lemma calm_unary [calm]: "calm b (applyUnary ic h n a v)"
  unfolding applyUnary_def by (intro calm)

lemmas unary_defs = evalToNumber_def evalText_def evalToString_def evalIsNil_def evalListLen_def evalMapKeys_def
  evalEscape_def numberOf_def changedText_def lengthOf_def keysOf_def escaped_def applyUnary_def [abs_def]

lemma eval_unary:
  assumes "form n h [a]" "h \<in> set unaries"
  shows "eval (Suc k) ic n = bindI (eval k ic a) (applyUnary ic h n a)"
proof -
  have "h = ''to_int'' \<or> h = ''to_float'' \<or> h = ''to_string'' \<or> h = ''to_lower'' \<or> h = ''to_upper'' \<or> h = ''str_trim''
      \<or> h = ''is_nil'' \<or> h = ''list_len'' \<or> h = ''map_keys'' \<or> h = ''html_escape'' \<or> h = ''attr_escape''"
    using assms(2) by (simp add: unaries_def)
  then show ?thesis
    using assms(1)
    by (elim disjE) (simp_all add: eval_plain [OF _ plainHeads(17)] eval_plain [OF _ plainHeads(18)]
      eval_plain [OF _ plainHeads(19)] eval_plain [OF _ plainHeads(20)] eval_plain [OF _ plainHeads(21)]
      eval_plain [OF _ plainHeads(22)] eval_plain [OF _ plainHeads(23)] eval_plain [OF _ plainHeads(24)]
      eval_plain [OF _ plainHeads(25)] eval_plain [OF _ plainHeads(26)] eval_plain [OF _ plainHeads(27)]
      unary_defs form_simps bindI_assoc)
qed

text \<open>The other constructs.\<close>

lemma eval_binop:
  assumes "form n h [a, b]" "h \<in> set binops"
  shows "eval (Suc k) ic n = bindI (eval k ic a) (\<lambda>x. bindI (eval k ic b) (\<lambda>y. applyBinop h x y n))"
proof -
  have "h \<in> set BinOpKinds" "h \<noteq> ''and''" "h \<noteq> ''or''"
    using assms(2) by (auto simp: binops_def BinOpKinds_def)
  with assms(1) show ?thesis
    by (subst eval_form [OF assms(1)]) (simp add: evalBinop_def form_simps numeral_3_eq_3)
qed

lemma eval_logic:
  assumes "form n h [a, b]" "h = ''and'' \<or> h = ''or''"
  shows "eval (Suc k) ic n = bindI (eval k ic a) (\<lambda>v. bindI (ToBoolI v a) (\<lambda>x.
    if x = (h = ''or'') then returnI (VBool x)
    else bindI (eval k ic b) (\<lambda>v. bindI (ToBoolI v b) (\<lambda>y. returnI (VBool y)))))"
proof -
  have "h \<in> set BinOpKinds" using assms(2) by (auto simp: BinOpKinds_def)
  with assms show ?thesis
    by (subst eval_form [OF assms(1)])
      (elim disjE; simp add: evalBinop_def form_simps numeral_3_eq_3 bindI_assoc if_distrib cong: if_cong)
qed

lemma eval_choice:
  assumes "form n ''if'' [a, b, d]"
  shows "eval (Suc k) ic n = bindI (eval k ic a) (\<lambda>v. bindI (ToBoolI v a) (\<lambda>x. if x then eval k ic b else eval k ic d))"
  using assms by (simp add: eval_plain [OF _ plainHeads(3)] evalIf_def form_simps bindI_assoc cong: if_cong)

lemma eval_list:
  "form n ''list'' args \<Longrightarrow> eval (Suc k) ic n = bindI (traverseI (eval k ic) args) (\<lambda>vs. returnI (VList vs))"
  by (simp add: eval_plain [OF _ plainHeads(10)] evalListNode_def form_simps)

lemma eval_entry:
  "form n ''map_get'' [d, x] \<Longrightarrow> isSymbolNode d \<Longrightarrow> eval (Suc k) ic n =
    bindI (needVarI (n_Value d) d) (\<lambda>v. bindI (wantDictI ''map_get'' v d) (\<lambda>a. bindI (eval k ic x) (\<lambda>w. bindI (sprintI w) (\<lambda>key.
      bindI (dictAtI a) (\<lambda>m. returnI (case lookup m key of Some v \<Rightarrow> v | None \<Rightarrow> VNil))))))"
  by (simp add: eval_plain [OF _ plainHeads(15)] evalMapGet_def form_simps bindI_assoc)

lemma eval_element:
  "form n ''list_get'' [l, x] \<Longrightarrow> isSymbolNode l \<Longrightarrow> eval (Suc k) ic n =
    bindI (needVarI (n_Value l) l) (\<lambda>v. bindI (wantListI ''list_get'' v l) (\<lambda>items. bindI (eval k ic x) (\<lambda>w. bindI (sprintI w) (\<lambda>t.
      case parseInt (trimSpace t) of
        None \<Rightarrow> typeErrorI ''list_get index must be a number'' w x
      | Some i \<Rightarrow> returnI (if i < 0 \<or> i \<ge> int (length items) then VStr [] else items ! nat i)))))"
  by (simp add: eval_plain [OF _ plainHeads(16)] evalListGet_def namedOperand_def form_simps bindI_assoc)

lemma eval_leaf:
  "n_Type n = ''INT'' \<Longrightarrow> eval (Suc k) ic n = (case parseInt (n_Value n) of
     None \<Rightarrow> InterpErr (''invalid integer literal: '' @ n_Value n) n | Some i \<Rightarrow> returnI (intVal i))"
  "n_Type n = ''FLOAT'' \<Longrightarrow> eval (Suc k) ic n = (case parseFloat (n_Value n) of
     None \<Rightarrow> InterpErr (''invalid float literal: '' @ n_Value n) n | Some f \<Rightarrow> returnI (VFloat f))"
  "n_Type n = ''STRING'' \<Longrightarrow> eval (Suc k) ic n = returnI (VStr (n_Value n))"
  "isSymbolNode n \<Longrightarrow> eval (Suc k) ic n = evalSymbol n"
  by (auto simp: eval.simps evalNode_def isSymbolNode_def)

lemma calm_symbol [calm]: "calm b (evalSymbol n)"
  unfolding evalSymbol_def by (intro calm)

lemma calm_option [calm]: "calm b m \<Longrightarrow> (\<And>a. calm b (f a)) \<Longrightarrow> calm b (case r of None \<Rightarrow> m | Some a \<Rightarrow> f a)"
  by (cases r) auto

lemma calm_eval: "expr X n \<Longrightarrow> (e \<longrightarrow> size n \<le> k) \<Longrightarrow> calm e (eval k ic n)"
proof (induction arbitrary: k rule: expr.induct)
  case (literal n)
  then show ?case by (cases n; cases k) (auto simp: eval_leaf calm_no_fuel intro!: calm)
next
  case (truth n)
  then show ?case by (cases n; cases k) (auto simp: eval_leaf calm_no_fuel intro!: calm)
next
  case (variable n)
  then show ?case by (cases n; cases k) (auto simp: eval_leaf calm_no_fuel intro!: calm)
next
  case (binop n h a b)
  with form_size [OF binop(1)] show ?case by (cases k) (fastforce simp: eval_binop calm_no_fuel intro!: calm)+
next
  case (logic n h a b)
  with form_size [OF logic(1)] show ?case by (cases k) (fastforce simp: eval_logic calm_no_fuel intro!: calm)+
next
  case (unary n h a)
  with form_size [OF unary(1)] show ?case by (cases k) (fastforce simp: eval_unary calm_no_fuel intro!: calm)+
next
  case (choice n a b d)
  with form_size [OF choice(1)] show ?case by (cases k) (fastforce simp: eval_choice calm_no_fuel intro!: calm)+
next
  case (listing n args)
  have "0 < size n" by (cases n) auto
  with listing(3) have "e \<Longrightarrow> k \<noteq> 0" by auto
  with listing form_size [OF listing(1)] show ?case by (cases k) (fastforce simp: eval_list calm_no_fuel intro!: calm)+
next
  case (entry n d x)
  with form_size [OF entry(1)] show ?case by (cases k) (fastforce simp: eval_entry calm_no_fuel intro!: calm)+
next
  case (element n l x)
  with form_size [OF element(1)] show ?case by (cases k) (fastforce simp: eval_element calm_no_fuel intro!: calm)+
qed

subsection \<open>Compiled constructs\<close>

lemma compile_form:
  assumes "form n h args" "compileNode E n = Inr code"
  obtains hn where "n_Value hn = h" "compileForm E (compileNode E) hn n = Inr code"
  using assms by (auto simp: form_def compileNode.simps [of E n] Let_def result_simps)

lemmas group_defs = compileTop_def compileDatabase_def compileStore_def compileRequest_def compileFiles_def compileAgents_def
  compileResponses_def compileModels_def compileControl_def compileOutput_def compileOperators_def compileStrings_def
  compileDicts_def

lemma compileForm_heads:
  "n_Value hn = ''let'' \<Longrightarrow> compileForm E rec hn n = compileLet rec n"
  "n_Value hn = ''map_set'' \<Longrightarrow> compileForm E rec hn n = compileNamed rec n [2, 3] OpMapSet"
  "n_Value hn = ''map_delete'' \<Longrightarrow> compileForm E rec hn n = compileNamed rec n [2] OpMapDelete"
  "n_Value hn = ''append'' \<Longrightarrow> compileForm E rec hn n = compileNamed rec n [2] OpAppend"
  "n_Value hn = ''list_get'' \<Longrightarrow> compileForm E rec hn n = compileNamed rec n [2] OpListGet"
  "n_Value hn = ''map_get'' \<Longrightarrow> compileForm E rec hn n = compileMapGet rec n"
  "n_Value hn = ''dict'' \<Longrightarrow> compileForm E rec hn n = compileDict rec n"
  "n_Value hn = ''do'' \<Longrightarrow> compileForm E rec hn n = compileRest rec n 1 []"
  "n_Value hn = ''cli_app'' \<Longrightarrow> compileForm E rec hn n = compileRest rec n 1 []"
  "n_Value hn = ''list'' \<Longrightarrow> compileForm E rec hn n = compileRest rec n 1 [instrI OpMakeList (childCount n - 1)]"
  "n_Value hn = ''print'' \<Longrightarrow> compileForm E rec hn n = compileRest rec n 1 [instrI OpPrint (childCount n - 1)]"
  "n_Value hn = ''stderr'' \<Longrightarrow> compileForm E rec hn n = compileThen rec n [1] [instr OpStderr]"
  "n_Value hn = ''if'' \<Longrightarrow> compileForm E rec hn n = compileIf rec n"
  "n_Value hn = ''while'' \<Longrightarrow> compileForm E rec hn n = compileWhile rec n"
  "n_Value hn = ''for'' \<Longrightarrow> compileForm E rec hn n = compileFor rec n"
  "n_Value hn = ''set'' \<Longrightarrow> compileForm E rec hn n = rbind (childValue n 1) (\<lambda>var. compileThen rec n [2] [instrS OpSetVar var])"
  "n_Value hn = ''return'' \<Longrightarrow> compileForm E rec hn n = (if length (n_Children n) > 1 then compileThen rec n [1] [instr OpReturn]
        else Inr (Compile.emit [loadConst VNil, instr OpReturn]))"
  by (simp_all add: compileForm_def Let_def group_defs binops_def)

text \<open>The instruction of a construct of one operand.\<close>

definition unaryInstr :: "string \<Rightarrow> BCInstruction" where
  "unaryInstr h =
     (if h = ''is_nil'' then instr OpIsNil else if h = ''list_len'' then instr OpListLen
      else if h = ''map_keys'' then instr OpMapKeys else if h = ''html_escape'' then instr OpHTMLEscape
      else if h = ''attr_escape'' then instr OpAttrEscape else instrS OpConvert h)"

lemma compileForm_unary:
  "n_Value hn = h \<Longrightarrow> h \<in> set unaries \<Longrightarrow> length (n_Children n) = 2 \<Longrightarrow>
    compileForm E rec hn n = compileThen rec n [1] [unaryInstr h]"
  unfolding unaries_def set_simps insert_iff empty_iff simp_thms
  by (elim disjE) (simp_all add: compileForm_def Let_def group_defs binops_def unaryInstr_def require_def ensure_def)

lemma compileForm_binop:
  "n_Value hn = h \<Longrightarrow> h \<in> set binops \<Longrightarrow>
    compileForm E rec hn n = compileThen rec n [1, 2] [instrS OpBinop (if h = ''='' then ''=='' else h)]"
  unfolding binops_def set_simps insert_iff empty_iff simp_thms
  by (elim disjE) (simp_all add: compileForm_def Let_def group_defs binops_def)

lemma compileForm_logic:
  "n_Value hn = h \<Longrightarrow> h = ''and'' \<or> h = ''or'' \<Longrightarrow> compileForm E rec hn n = compileLogic rec h n"
  by (elim disjE) (simp_all add: compileForm_def Let_def group_defs)


lemma compileThen_one:
  "form n h (a # as) \<Longrightarrow> compileThen rec n [Suc 0] tail = Inr code \<Longrightarrow> \<exists>ca. rec a = Inr ca \<and> fst code = fst ca @ tail"
  by (auto simp: compileThen_def compileChild_def childAt_def form_def result_simps joinCode_def Compile.emit_def)

lemma compileThen_two:
  "form n h (a # b # as) \<Longrightarrow> compileThen rec n [Suc 0, 2] tail = Inr code \<Longrightarrow>
    \<exists>ca cb. rec a = Inr ca \<and> rec b = Inr cb \<and> fst code = fst ca @ fst cb @ tail"
  by (auto simp: compileThen_def compileChild_def childAt_def form_def result_simps joinCode_def Compile.emit_def)

lemma compileThen_second:
  "form n h (a # b # as) \<Longrightarrow> compileThen rec n [2] tail = Inr code \<Longrightarrow> \<exists>cb. rec b = Inr cb \<and> fst code = fst cb @ tail"
  by (auto simp: compileThen_def compileChild_def childAt_def form_def result_simps joinCode_def Compile.emit_def)

lemma compileNamed_one:
  "form n h (a # b # as) \<Longrightarrow> compileNamed rec n [2] op = Inr code \<Longrightarrow>
    \<exists>cb. rec b = Inr cb \<and> fst code = fst cb @ [instrS op (n_Value a)]"
  by (auto simp: compileNamed_def compileChild_def childValue_def childAt_def form_def result_simps joinCode_def Compile.emit_def)

lemma compileNamed_two:
  "form n h (a # b # d # as) \<Longrightarrow> compileNamed rec n [2, 3] op = Inr code \<Longrightarrow>
    \<exists>cb cd. rec b = Inr cb \<and> rec d = Inr cd \<and> fst code = fst cb @ fst cd @ [instrS op (n_Value a)]"
  by (auto simp: compileNamed_def compileChild_def childValue_def childAt_def form_def result_simps joinCode_def Compile.emit_def)

lemma compileLogic_two:
  assumes "form n h [a, b]" "compileLogic rec op n = Inr code"
  shows "\<exists>ca cb. rec a = Inr ca \<and> rec b = Inr cb \<and> fst code = ShortCircuit op (fst ca) (fst cb)"
proof -
  from assms(1) obtain hn where "n_Children n = [hn, a, b]" by (auto simp: form_def)
  then have "compileLogic rec op n =
      rbind (rec a) (\<lambda>l. rbind (rec b) (\<lambda>r. Inr (ShortCircuit op (fst l) (fst r), snd l @ snd r)))"
  proof -
    assume c: "n_Children n = [hn, a, b]"
    then have r: "require (length (n_Children n) = 3) reason n = Inr ()" for reason by (simp add: require_def ensure_def)
    from c have "childAt n 1 = Inr a" "childAt n 2 = Inr b" by (simp_all add: childAt_def)
    then show ?thesis unfolding compileLogic_def r rbind_Inr compileChild_def by (simp only: rbind_Inr)
  qed
  with assms(2) show ?thesis by (auto simp: result_simps)
qed

text \<open>The pieces of the code of several nodes.\<close>

lemma compileRest_all:
  "form n h args \<Longrightarrow> compileRest rec n (Suc 0) tail = Inr code \<Longrightarrow>
    \<exists>cs. traverse rec args = Inr cs \<and> fst code = concat (map fst cs) @ tail"
  by (auto simp: compileRest_def childrenFrom_def compileEach_def form_def result_simps joinCode_def Compile.emit_def)

subsection \<open>Handlers\<close>

lemma free_ops:
  "list_all free [OpLoadConst, OpLoadVar, OpStoreVar, OpSetVar, OpBinop, OpConvert, OpIsNil, OpListLen, OpMapKeys, OpHTMLEscape,
     OpAttrEscape, OpMakeList, OpMapGet, OpListGet, OpMakeDict, OpAppend, OpMapSet, OpMapDelete, OpPrint, OpStderr, OpReturn]"
  by code_simp

lemma handled:
  "handles OpLoadConst opLoadConst" "handles OpLoadVar opLoadVar" "handles OpStoreVar opStoreVar" "handles OpSetVar opSetVar"
  "handles OpBinop opBinop" "handles OpConvert opConvert" "handles OpIsNil opIsNil" "handles OpListLen opListLen"
  "handles OpMapKeys opMapKeys" "handles OpHTMLEscape opEscape" "handles OpAttrEscape opEscape"
  "handles OpMakeList opMakeList" "handles OpMapGet opMapGet" "handles OpListGet opListGet" "handles OpMakeDict opMakeDict"
  "handles OpAppend opAppend" "handles OpMapSet opMapSet" "handles OpMapDelete opMapDelete" "handles OpPrint opPrint"
  "handles OpStderr opStderr" "handles OpReturn opReturn"
  using free_ops by (simp_all add: handles_def controlTable_def dataTable_def)

lemma handled_one: "handles (Suc 0) opLoadConst"
  using handled(1) by simp

definition paired :: "ctx \<Rightarrow> icfg \<Rightarrow> bool" where
  "paired c ic \<longleftrightarrow> ic_host ic = c_host c \<and> ic_caps ic = c_caps c"

lemma agrees_liftM:
  assumes "\<And>e. r = Inl e \<Longrightarrow> agrees L X k (Inl (PErr e), s) out" "\<And>a. r = Inr a \<Longrightarrow> agrees L X k (f a s) out"
  shows "agrees L X k (bindM (liftM r) f s) out"
  using assms by (cases r) (simp_all add: liftM_def bindM_def panicM_def returnM_def)

lemma agrees_failed:
  "tracks X t s \<Longrightarrow> m_executed s = k \<Longrightarrow> agrees L X k (Inl (PErr e), s) (InterpErr reason node t)"
  unfolding InterpErr_def panicI_def by (rule agrees_fail) (auto simp: failing_def tracks_def)

text \<open>A computed value: an error on both sides, or the same value.\<close>

lemma agrees_computed:
  assumes "tracks X t s" "m_executed s = k" "m_stack s = st"
    and "\<And>e. r = Inl e \<Longrightarrow> \<exists>reason node. i = InterpErr reason node" "\<And>v. r = Inr v \<Longrightarrow> i = returnI v \<and> plain v"
  shows "agrees (pushes st) X k (bindM (liftM r) (\<lambda>r. thenM (chargeText c r ip op) (push r)) s) (i t)"
proof (rule agrees_liftM)
  fix e assume "r = Inl e"
  from assms(4) [OF this] show "agrees (pushes st) X k (Inl (PErr e), s) (i t)"
    using assms(1, 2) by (auto intro: agrees_failed)
next
  fix v assume "r = Inr v"
  with assms show "agrees (pushes st) X k (thenM (chargeText c v ip op) (push v) s) (i t)"
    by (auto intro!: agrees_chargeText agrees_push)
qed

lemma binop_same:
  assumes "h \<in> set binops"
  shows "BcBinop (if h = ''='' then ''=='' else h) a b = Inl e \<Longrightarrow> \<exists>reason node. applyBinop h a b n = InterpErr reason node"
    and "BcBinop (if h = ''='' then ''=='' else h) a b = Inr v \<Longrightarrow> applyBinop h a b n = returnI v \<and> plain v"
proof -
  have arith: "(bcNumericArithmetic h a b = Inl e \<longrightarrow> (\<exists>reason node. interpNumericArithmetic h a b n = InterpErr reason node)) \<and>
      (bcNumericArithmetic h a b = Inr v \<longrightarrow> interpNumericArithmetic h a b n = returnI v \<and> plain v)" for h e v
    by (auto simp: bcNumericArithmetic_def interpNumericArithmetic_def bcCheckedAddInt64_def bcCheckedSubInt64_def
        bcCheckedMulInt64_def checkedAddInt64_def checkedSubInt64_def checkedMulInt64_def Let_def split: option.splits prod.splits if_splits)
  have dv: "(bcNumericDiv a b = Inl e \<longrightarrow> (\<exists>reason node. interpNumericDiv a b n = InterpErr reason node)) \<and>
      (bcNumericDiv a b = Inr v \<longrightarrow> interpNumericDiv a b n = returnI v \<and> plain v)" for e v
    by (auto simp: bcNumericDiv_def interpNumericDiv_def Let_def split: option.splits if_splits)
  have rel: "(bcNumericRelational h a b = Inl e \<longrightarrow> (\<exists>reason node. interpNumericRelational h a b n = InterpErr reason node)) \<and>
      (bcNumericRelational h a b = Inr v \<longrightarrow> interpNumericRelational h a b n = returnI v \<and> plain v)" for h e v
    by (auto simp: bcNumericRelational_def interpNumericRelational_def split: option.splits if_splits)
  have num: "(bcNumericBinop h a b = Inl e \<longrightarrow> (\<exists>reason node. NumericBinop h a b n = InterpErr reason node)) \<and>
      (bcNumericBinop h a b = Inr v \<longrightarrow> NumericBinop h a b n = returnI v \<and> plain v)" for h e v
    unfolding bcNumericBinop_def NumericBinop_def
    using arith [of h e v] dv [of e v] rel [of h e v] by auto
  have eq: "BcValuesEqual a b = ValuesEqual a b" by (simp add: BcValuesEqual_def ValuesEqual_def)
  have h: "h \<noteq> ''and''" "h \<noteq> ''or''" using assms by (auto simp: binops_def)
  show "BcBinop (if h = ''='' then ''=='' else h) a b = Inl e \<Longrightarrow> \<exists>reason node. applyBinop h a b n = InterpErr reason node"
    "BcBinop (if h = ''='' then ''=='' else h) a b = Inr v \<Longrightarrow> applyBinop h a b n = returnI v \<and> plain v"
    using h num [of h] eq
    by (auto simp: BcBinop_def applyBinop_def split: if_splits val.splits)
qed

lemma operand_fields [simp]:
  "i_Op (instrS op x) = op" "i_Str (instrS op x) = x" "i_Op (instrI op k) = op" "i_Int (instrI op k) = k"
  "i_Op (instr op) = op" "i_Op (loadConst v) = OpLoadConst" "i_Value (loadConst v) = v" "i_Str (instrI op k) = []"
  "i_Str (instr op) = []"
  by (simp_all add: instrS_def instrI_def instr_def loadConst_def)

lemma agrees_binop:
  assumes "h \<in> set binops" "tracks X t s" "m_executed s = k" "m_stack s = y # x # st"
  shows "agrees (pushes st) X k (opBinop c ip (instrS OpBinop (if h = ''='' then ''=='' else h)) s) (applyBinop h x y n t)"
  unfolding opBinop_def
  by (rule agrees_pop [OF assms(4)], rule agrees_pop, simp, rule agrees_computed)
    (use assms binop_same [OF assms(1)] in \<open>simp_all del: tracks_update add: tracks_update\<close>)

lemma agrees_number:
  assumes "r = convert u v" "\<And>x. r = Inr x \<Longrightarrow> plain x" "tracks X t s" "m_executed s = k" "m_stack s = st"
    "u = h_unicode (ic_host ic)"
  shows "agrees (pushes st) X k (bindM (liftM r) (\<lambda>r. thenM (chargeText c r ip op) (push r)) s) (numberOf convert ic a v t)"
  using assms by (intro agrees_computed) (auto simp: numberOf_def split: sum.split)

lemma plain_numbers: "convertToInt u v = Inr x \<Longrightarrow> plain x" "convertToFloat u v = Inr x \<Longrightarrow> plain x"
  by (auto simp: convertToInt_def convertToFloat_def intVal_def split: val.splits if_splits option.splits)

lemma agrees_convert_number:
  assumes "paired c ic" "tracks X t s" "m_executed s = k" "m_stack s = v # st"
  shows "agrees (pushes st) X k (opConvert c ip (instrS OpConvert ''to_int'') s) (numberOf convertToInt ic a v t)"
    "agrees (pushes st) X k (opConvert c ip (instrS OpConvert ''to_float'') s) (numberOf convertToFloat ic a v t)"
proof -
  show "agrees (pushes st) X k (opConvert c ip (instrS OpConvert ''to_int'') s) (numberOf convertToInt ic a v t)"
    unfolding opConvert_def
    by (rule agrees_pop [OF assms(4)])
      (use assms in \<open>auto simp: printsOperand_def BcConvert_def paired_def intro!: agrees_number dest: plain_numbers\<close>)
  show "agrees (pushes st) X k (opConvert c ip (instrS OpConvert ''to_float'') s) (numberOf convertToFloat ic a v t)"
    unfolding opConvert_def
    by (rule agrees_pop [OF assms(4)])
      (use assms in \<open>auto simp: printsOperand_def BcConvert_def paired_def intro!: agrees_number dest: plain_numbers\<close>)
qed

text \<open>Targets that print their operand: \<open>f\<close> of its tree.\<close>

lemma agrees_convert_text:
  assumes "tracks X t s" "m_executed s = k" "m_stack s = v # st" "plain v" "printsOperand target"
    and "\<And>tr. BcConvert u target v tr = Inr (VStr (f tr))" "u = h_unicode (c_host c)"
  shows "agrees (pushes st) X k (opConvert c ip (instrS OpConvert target) s) (bindI (treeI v) (\<lambda>tr. returnI (VStr (f tr))) t)"
  unfolding opConvert_def
  using assms(5) by (intro agrees_pop [OF assms(3)])
    (simp, rule agrees_printable [OF _ assms(4)], use assms in \<open>auto simp: liftM_def intro!: agrees_chargeText agrees_push\<close>)

lemma agrees_converts:
  assumes "tracks X t s" "m_executed s = k" "m_stack s = v # st" "plain v"
  shows "agrees (pushes st) X k (opConvert c ip (instrS OpConvert ''to_string'') s) (bindI (textI v) (\<lambda>t. returnI (VStr t)) t)"
    "agrees (pushes st) X k (opConvert c ip (instrS OpConvert ''to_lower'') s) (changedText ToLower v t)"
    "agrees (pushes st) X k (opConvert c ip (instrS OpConvert ''to_upper'') s) (changedText ToUpper v t)"
    "agrees (pushes st) X k (opConvert c ip (instrS OpConvert ''str_trim'') s) (changedText trimSpace v t)"
  unfolding changedText_def textI_def sprintI_def bindI_assoc bindI_return
  by (rule agrees_convert_text [OF assms]; simp add: printsOperand_def BcConvert_def)+

lemma agrees_isNil:
  "tracks X t s \<Longrightarrow> m_executed s = k \<Longrightarrow> m_stack s = v # st \<Longrightarrow>
    agrees (pushes st) X k (opIsNil c ip inst s) (returnI (VBool (v = VNil)) t)"
  unfolding opIsNil_def by (rule agrees_pop, assumption) (auto intro!: agrees_push)

lemma agrees_listLen:
  "tracks X t s \<Longrightarrow> m_executed s = k \<Longrightarrow> m_stack s = v # st \<Longrightarrow> agrees (pushes st) X k (opListLen c ip inst s) (lengthOf a v t)"
  unfolding opListLen_def lengthOf_def
  by (rule agrees_pop, assumption) (auto simp: intVal_def typeErrorI_def intro!: agrees_push agrees_raise split: option.split)

lemma agrees_escape:
  "tracks X t s \<Longrightarrow> m_executed s = k \<Longrightarrow> m_stack s = v # st \<Longrightarrow> agrees (pushes st) X k (opEscape c ip inst s) (escaped h n v t)"
  unfolding opEscape_def escaped_def
  by (rule agrees_pop, assumption) (auto intro!: agrees_push agrees_raise agrees_chargeAlloc split: val.split)

lemma agrees_want:
  assumes "tracks X t s" "m_executed s = k" "\<And>d. v = VDict d \<Longrightarrow> agrees L Y k (f d s) (g d t)"
  shows "agrees L Y k (bindM (wantDict ip op what v) f s) (bindI (wantDictI what' v a) g t)"
  using assms
  by (cases v) (auto simp: wantDict_def wantDictI_def typeErrorI_def bindM_def raise_def panicM_def InterpErr_def panicI_def
      bindI_def returnM_def returnI_def tracks_def failing_def intro!: agrees_fail)

lemma agrees_dictAt:
  assumes "tracks X t s" "\<And>d. (\<forall>(k, v) \<in> set d. plain v) \<Longrightarrow> agrees L Y k (f d s) (g d t)"
  shows "agrees L Y k (bindM (dictAt a) f s) (bindI (dictAtI a) g t)"
proof -
  let ?d = "if a < length (m_heap s) then m_heap s ! a else []"
  have "\<forall>(k, v) \<in> set ?d. plain v" using assms(1) by (auto simp: tracks_def plainHeap_def dest: nth_mem)
  from assms(2) [OF this] assms(1) show ?thesis
    by (simp add: dictAt_def dictAtI_def bindM_def bindI_def getM_def getI_def tracks_def split: if_splits)
qed

lemma agrees_mapKeys:
  "tracks X t s \<Longrightarrow> m_executed s = k \<Longrightarrow> m_stack s = v # st \<Longrightarrow> agrees (pushes st) X k (opMapKeys c ip inst s) (keysOf a v t)"
  unfolding opMapKeys_def keysOf_def
  by (rule agrees_pop, assumption)
    (auto simp: sortedMapKeys_def intro!: agrees_want agrees_dictAt agrees_chargeSlots agrees_push)

lemma agrees_need:
  assumes "tracks X t s" "x \<in> X" "\<And>v. plain v \<Longrightarrow> envGet (i_env t) x = Some v \<Longrightarrow> agrees L Y k (f v s) (g v t)"
  shows "agrees L Y k (bindM (needVar ip op x) f s) (bindI (needVarI x n) g t)"
proof -
  from tracks_var [OF assms(1, 2)] obtain v where v: "envGet (i_env t) x = Some v" "envGet (m_env s) x = Some v" "plain v" by blast
  with assms(3) [OF v(3, 1)] show ?thesis
    by (simp add: needVar_def needVarI_def getVar_def getVarI_def bindM_def bindI_def getM_def getI_def returnM_def returnI_def)
qed

lemma agrees_loadVar:
  assumes "tracks X t s" "x \<in> X" "m_executed s = k" "m_stack s = st"
  shows "agrees (pushes st) X k (opLoadVar c ip (instrS OpLoadVar x) s) (needVarI x n t)"
proof -
  have "agrees (pushes st) X k (bindM (needVar ip OpLoadVar x) push s) (bindI (needVarI x n) returnI t)"
    by (rule agrees_need [OF assms(1, 2)]) (use assms in \<open>auto intro: agrees_push\<close>)
  moreover have "bindI m returnI = m" for m :: "val I"
    by (auto simp: fun_eq_iff bindI_def returnI_def split: prod.splits sum.splits)
  ultimately show ?thesis by (simp add: opLoadVar_def)
qed

text \<open>The items of a list, last first.\<close>

lemma agrees_popItems:
  assumes "\<And>m. agrees L X k (f vs (s\<lparr>m_stack := st, m_memoryBytes := m\<rparr>)) out"
    "m_stack s = rev vs @ st" "m_executed s = k"
  shows "agrees L X k (bindM (popItems (length vs) c ip op) f s) out"
  using assms
proof (induction vs arbitrary: f s rule: rev_induct)
  case Nil
  then have "s\<lparr>m_stack := st, m_memoryBytes := m_memoryBytes s\<rparr> = s" by simp
  with Nil(1) [of "m_memoryBytes s"] show ?case by simp
next
  case (snoc v vs)
  show ?case
    unfolding length_append_singleton popItems.simps bindM_assoc
    using snoc.prems
    by (intro agrees_pop [of s v "rev vs @ st"] agrees_chargeText snoc.IH) auto
qed

lemma agrees_makeList:
  assumes "tracks X t s" "m_executed s = k" "m_stack s = rev vs @ st" "\<forall>v \<in> set vs. plain v" "length vs < 2 ^ 44"
  shows "agrees (pushes st) X k (opMakeList c ip (instrI OpMakeList (int (length vs))) s) (returnI (VList vs) t)"
  unfolding opMakeList_def operand_fields
proof (rule agrees_chargeSlots)
  fix m
  have "int (length vs) \<le> 2 ^ 44" using assms(5) by (metis of_nat_less_iff less_imp_le of_nat_numeral of_nat_power)
  then have "makeSlice (int (length vs)) = returnM ()" by (simp add: makeSlice_def)
  with assms show "agrees (pushes st) X k
      (thenM (makeSlice (int (length vs)))
        (bindM (popItems (nat (int (length vs))) c ip OpMakeList) (\<lambda>items. push (VList items)))
        (s\<lparr>m_memoryBytes := m\<rparr>)) (returnI (VList vs) t)"
    by (auto intro!: agrees_popItems agrees_push)
qed (rule assms(2))

lemma agrees_mapGet:
  assumes "tracks X t s" "x \<in> X" "m_executed s = k" "m_stack s = w # st" "plain w" "x \<noteq> []"
    "envGet (i_env t) x = Some (VDict a)"
  shows "agrees (pushes st) X k (opMapGet c ip (instrS OpMapGet x) s)
    (bindI (sprintI w) (\<lambda>key. bindI (dictAtI a) (\<lambda>m. returnI (case lookup m key of Some v \<Rightarrow> v | None \<Rightarrow> VNil))) t)"
proof -
  from tracks_var [OF assms(1, 2)] assms(7) have "envGet (m_env s) x = Some (VDict a)" by auto
  then have need: "needVar ip OpMapGet x s' = (Inr (VDict a), s')" if "m_env s' = m_env s" for s'
    using that by (simp add: needVar_def getVar_def bindM_def getM_def returnM_def)
  show ?thesis
    unfolding opMapGet_def
  proof (rule agrees_pop [OF assms(4)], rule agrees_sprint)
    fix key
    have "agrees (pushes st) X k
        (bindM (dictAt a) (\<lambda>d. push (case lookup d key of Some v \<Rightarrow> v | None \<Rightarrow> VNil)) (s\<lparr>m_stack := st\<rparr>))
        (bindI (dictAtI a) (\<lambda>m. returnI (case lookup m key of Some v \<Rightarrow> v | None \<Rightarrow> VNil)) t)"
      by (rule agrees_dictAt [of X]) (use assms in \<open>auto intro!: agrees_push split: option.split dest!: map_of_SomeD\<close>)
    with need assms(6) show "agrees (pushes st) X k
        (bindM (if i_Str (instrS OpMapGet x) \<noteq> [] then needVar ip (i_Op (instrS OpMapGet x)) (i_Str (instrS OpMapGet x))
                else pop (i_Op (instrS OpMapGet x)))
          (\<lambda>current. bindM (wantDict ip (i_Op (instrS OpMapGet x)) ''map_get'' current)
            (\<lambda>a. bindM (dictAt a) (\<lambda>d. push (case lookup d key of Some v \<Rightarrow> v | None \<Rightarrow> VNil))))
          (s\<lparr>m_stack := st\<rparr>))
        (bindI (dictAtI a) (\<lambda>m. returnI (case lookup m key of Some v \<Rightarrow> v | None \<Rightarrow> VNil)) t)"
      by (simp add: bindM_def [of "needVar _ _ _"] wantDict_def)
  qed (use assms in auto)
qed

lemma agrees_err_sprint:
  assumes "tracks X t s" "plain v" "m_executed s = k" "\<And>text. agrees L Y k (f text s) (InterpErr reason n t)"
  shows "agrees L Y k (bindM (sprintM op v) f s) (InterpErr reason n t)"
proof -
  from assms(1) have heap: "i_heap t = m_heap s" "plainHeap (m_heap s)" "i_events t = m_events s" by (auto simp: tracks_def)
  show ?thesis
  proof (cases "treeOf (m_heap s) v")
    case None
    with heap assms(3) show ?thesis
      by (auto simp: sprintM_def printable_def treeM_def bindM_def getM_def panicM_def InterpErr_def panicI_def failing_def
          intro!: agrees_fail)
  next
    case (Some tr)
    then have "\<not> hasStore tr"
      using freeze_plain [OF _ assms(2) heap(2)] by (auto simp: treeOf_def plainTree_printable split: sum.splits)
    with Some assms(4) show ?thesis
      by (simp add: sprintM_def printable_def treeM_def bindM_def getM_def returnM_def)
  qed
qed

text \<open>The variable a handler reads holds the value the interpreter found.\<close>

lemma needVar_known:
  "tracks X t s \<Longrightarrow> x \<in> X \<Longrightarrow> envGet (i_env t) x = Some v \<Longrightarrow> m_env s' = m_env s \<Longrightarrow> needVar ip op x s' = (Inr v, s')"
  by (drule (1) tracks_var) (auto simp: needVar_def getVar_def bindM_def getM_def returnM_def)

lemma agrees_mapGet_bad:
  assumes "tracks X t s" "x \<in> X" "m_executed s = k" "m_stack s = w # st" "plain w" "x \<noteq> []"
    "envGet (i_env t) x = Some v" "\<And>a. v \<noteq> VDict a"
  shows "agrees L X k (opMapGet c ip (instrS OpMapGet x) s) (InterpErr reason n t)"
  unfolding opMapGet_def
proof (rule agrees_pop [OF assms(4)], rule agrees_err_sprint [of X])
  fix key
  show "agrees L X k
      (bindM (if i_Str (instrS OpMapGet x) \<noteq> [] then needVar ip (i_Op (instrS OpMapGet x)) (i_Str (instrS OpMapGet x))
              else pop (i_Op (instrS OpMapGet x)))
        (\<lambda>current. bindM (wantDict ip (i_Op (instrS OpMapGet x)) ''map_get'' current)
          (\<lambda>a. bindM (dictAt a) (\<lambda>d. push (case lookup d key of Some v \<Rightarrow> v | None \<Rightarrow> VNil))))
        (s\<lparr>m_stack := st\<rparr>)) (InterpErr reason n t)"
    using assms needVar_known [OF assms(1, 2, 7)]
    by (cases v) (auto simp: bindM_def wantDict_def raise_def panicM_def intro!: agrees_failed)
qed (use assms in auto)

lemma agrees_listGet:
  assumes "tracks X t s" "x \<in> X" "m_executed s = k" "m_stack s = w # st" "plain w" "envGet (i_env t) x = Some (VList items)"
  shows "agrees (pushes st) X k (opListGet c ip (instrS OpListGet x) s)
    (bindI (sprintI w) (\<lambda>text. case parseInt (trimSpace text) of
        None \<Rightarrow> typeErrorI ''list_get index must be a number'' w n
      | Some i \<Rightarrow> returnI (if i < 0 \<or> i \<ge> int (length items) then VStr [] else items ! nat i)) t)"
proof -
  from tracks_var [OF assms(1, 2)] assms(6) have items: "plain (VList items)" by auto
  show ?thesis
    unfolding opListGet_def atoiOf_def bindM_assoc bindM_return
    using assms needVar_known [OF assms(1, 2, 6)] items
    by (intro agrees_pop [OF assms(4)] agrees_sprint)
      (auto simp: bindM_def [of "needVar _ _ _"] isList_def copyItems_def listElement_def typeErrorI_def
        intro!: agrees_raise agrees_push split: option.split)
qed

lemma agrees_listGet_bad:
  assumes "tracks X t s" "x \<in> X" "m_executed s = k" "m_stack s = w # st" "plain w" "envGet (i_env t) x = Some v"
    "\<And>items. v \<noteq> VList items"
  shows "agrees L X k (opListGet c ip (instrS OpListGet x) s) (InterpErr reason n t)"
proof -
  from tracks_var [OF assms(1, 2)] assms(6) have "plain v" by auto
  then have "\<not> isList v" using assms(7) by (cases v) (auto simp: isList_def)
  then show ?thesis
    unfolding opListGet_def atoiOf_def bindM_assoc bindM_return
    using assms needVar_known [OF assms(1, 2, 6)]
    by (intro agrees_pop [OF assms(4)] agrees_err_sprint)
      (auto simp: bindM_def [of "needVar _ _ _"] intro!: agrees_raise split: option.split)
qed

end
