(* ===== verification/SimExpr.thy ===== *)
theory SimExpr
  imports SimForms
begin

text \<open>
  Expressions without effects: the interpreter leaves its state as it is and returns, and the compiled
  code leaves exactly the value on the stack.
\<close>

subsection \<open>Simulation\<close>

lemma sim_unary:
  assumes "placed insts ip [unaryInstr h]" "h \<in> set unaries" "paired c ic" "tracks X t s" "m_stack s = v # st" "plain v"
  shows "sim (pushes st) X w c insts ip lb s (ip + 1) (applyUnary ic h n a v t)"
proof -
  let ?s = "gated ip s"
  from assms(4) have t: "tracks X t ?s" by (rule tracks_executed)
  have st: "m_stack ?s = v # st" "m_executed ?s = m_executed s + 1" using assms(5) by simp_all
  have h: "h = ''to_int'' \<or> h = ''to_float'' \<or> h = ''to_string'' \<or> h = ''to_lower'' \<or> h = ''to_upper'' \<or> h = ''str_trim''
      \<or> h = ''is_nil'' \<or> h = ''list_len'' \<or> h = ''map_keys'' \<or> h = ''html_escape'' \<or> h = ''attr_escape''"
    using assms(2) by (simp add: unaries_def)
  have "\<exists>f. handles (i_Op (unaryInstr h)) f \<and>
      agrees (pushes st) X (m_executed s + 1) (f c ip (unaryInstr h) ?s) (applyUnary ic h n a v t)"
    using h
    by (elim disjE; hypsubst; simp add: unaryInstr_def applyUnary_def)
      (intro exI conjI, rule handled, rule agrees_convert_number [OF assms(3) t st(2, 1)] agrees_converts [OF t st(2, 1) assms(6)]
        agrees_isNil [OF t st(2, 1)] agrees_listLen [OF t st(2, 1)] agrees_mapKeys [OF t st(2, 1)] agrees_escape [OF t st(2, 1)])+
  then obtain f where "handles (i_Op (unaryInstr h)) f"
    "agrees (pushes st) X (m_executed s + 1) (f c ip (unaryInstr h) ?s) (applyUnary ic h n a v t)" by blast
  then show ?thesis by (rule sim_handler [OF _ assms(1)])
qed

text \<open>The code of a node, wherever it is placed, does what the evaluation with \<open>k\<close> units of fuel does.\<close>

definition simulates :: "(val list \<Rightarrow> val \<Rightarrow> val list \<Rightarrow> bool) \<Rightarrow> string set \<Rightarrow> compile_env \<Rightarrow> ctx \<Rightarrow> icfg \<Rightarrow>
    BCInstruction list \<Rightarrow> int \<Rightarrow> nat \<Rightarrow> Node \<Rightarrow> bool" where
  "simulates F X E c ic insts w k n \<longleftrightarrow>
     (\<forall>code ip lb s t. compileNode E n = Inr code \<longrightarrow> placed insts ip (fst code) \<longrightarrow> tracks X t s \<longrightarrow>
        w \<le> m_executed s + int k - int (size n) \<longrightarrow>
        sim (F (m_stack s)) X w c insts ip lb s (ip + int (length (fst code))) (eval k ic n t))"

lemma simulatesI:
  assumes "\<And>code ip lb s t. compileNode E n = Inr code \<Longrightarrow> placed insts ip (fst code) \<Longrightarrow> tracks X t s \<Longrightarrow>
      w \<le> m_executed s + int k - int (size n) \<Longrightarrow>
      sim (F (m_stack s)) X w c insts ip lb s (ip + int (length (fst code))) (eval k ic n t)"
  shows "simulates F X E c ic insts w k n"
  using assms by (auto simp: simulates_def)

lemma simulatesD:
  "simulates F X E c ic insts w k n \<Longrightarrow> compileNode E n = Inr code \<Longrightarrow> placed insts ip (fst code) \<Longrightarrow> tracks X t s \<Longrightarrow>
    w \<le> m_executed s + int k - int (size n) \<Longrightarrow> e = ip + int (length (fst code)) \<Longrightarrow>
    sim (F (m_stack s)) X w c insts ip lb s e (eval k ic n t)"
  by (auto simp: simulates_def)

lemma fuel_below: "w \<le> m + int (Suc k) - int (size n) \<Longrightarrow> size a < size n \<Longrightarrow> m \<le> m' \<Longrightarrow> w \<le> m' + int k - int (size a)"
  by linarith

text \<open>The code of a part of a construct, then the rest.\<close>

lemma sim_part:
  assumes "simulates F X E c ic insts w k a" "compileNode E a = Inr code" "placed insts ip (fst code)" "tracks X t s"
    "w \<le> m0 + int (Suc k) - int (size n)" "size a < size n" "m0 \<le> m_executed s"
    and "\<And>v t1 s1. eval k ic a t = (Inr v, t1) \<Longrightarrow> F (m_stack s) v (m_stack s1) \<Longrightarrow> tracks X t1 s1 \<Longrightarrow>
      m_executed s \<le> m_executed s1 \<Longrightarrow> simTo L Y w c insts (ip + int (length (fst code))) lb s1 e le (g v t1)"
  shows "simTo L Y w c insts ip lb s e le (bindI (eval k ic a) g t)"
proof (rule sim_bind [where f = "eval k ic a" and m = "ip + int (length (fst code))"])
  from fuel_below [OF assms(5-7)] show "sim (F (m_stack s)) X w c insts ip lb s (ip + int (length (fst code))) (eval k ic a t)"
    by (intro simulatesD [OF assms(1-4)]) auto
qed (rule assms(8))

lemma simulates_no_fuel: "simulates F X E c ic insts w 0 n"
  by (rule simulatesI) (auto simp: eval.simps panicI_def intro!: sim_idle)

lemma compile_leaf: "\<not> isListNode n \<Longrightarrow> compileNode E n = compileLeaf n"
  by (simp add: compileNode.simps [of E n])

lemma sim_const:
  assumes "placed insts ip [loadConst v]" "tracks X t s" "plain v"
  shows "sim (pushes (m_stack s)) X w c insts ip lb s (ip + 1) (returnI v t)"
  by (rule sim_handler [OF _ assms(1), of opLoadConst])
    (auto simp: handled_one opLoadConst_def intro!: agrees_push tracks_executed assms)

lemma simulates_literal:
  assumes "n_Type n \<in> {''INT'', ''FLOAT'', ''STRING''}"
  shows "simulates pushes X E c ic insts w (Suc k) n"
proof (rule simulatesI)
  fix code ip lb s t
  assume *: "compileNode E n = Inr code" "placed insts ip (fst code)" "tracks X t s"
  have "\<not> isListNode n" using assms by (auto simp: isListNode_def)
  then obtain v where "fst code = [loadConst v]" "eval (Suc k) ic n = returnI v" "plain v"
    using *(1) assms by (auto simp: compile_leaf compileLeaf_def eval_leaf Compile.emit_def intVal_def split: option.splits)
  with * show "sim (pushes (m_stack s)) X w c insts ip lb s (ip + int (length (fst code))) (eval (Suc k) ic n t)"
    by (simp add: sim_const)
qed

lemma simulates_truth:
  assumes "isSymbolNode n" "boolName n"
  shows "simulates pushes X E c ic insts w (Suc k) n"
proof (rule simulatesI)
  fix code ip lb s t
  assume *: "compileNode E n = Inr code" "placed insts ip (fst code)" "tracks X t s"
  have "\<not> isListNode n" using assms by (auto simp: isListNode_def isSymbolNode_def)
  then obtain b where "fst code = [loadConst (VBool b)]" "eval (Suc k) ic n = returnI (VBool b)"
    using *(1) assms
    by (auto simp: compile_leaf compileLeaf_def eval_leaf evalSymbol_def boolName_def isSymbolNode_def Compile.emit_def)
  with * show "sim (pushes (m_stack s)) X w c insts ip lb s (ip + int (length (fst code))) (eval (Suc k) ic n t)"
    by (simp add: sim_const)
qed

lemma simulates_variable:
  assumes "isSymbolNode n" "\<not> boolName n" "n_Value n \<in> X"
  shows "simulates pushes X E c ic insts w (Suc k) n"
proof (rule simulatesI)
  fix code ip lb s t
  assume *: "compileNode E n = Inr code" "placed insts ip (fst code)" "tracks X t s"
  have "\<not> isListNode n" using assms by (auto simp: isListNode_def isSymbolNode_def)
  then have code: "fst code = [instrS OpLoadVar (n_Value n)]" "eval (Suc k) ic n = needVarI (n_Value n) n"
    using *(1) assms
    by (auto simp: compile_leaf compileLeaf_def eval_leaf evalSymbol_def boolName_def isSymbolNode_def Compile.emit_def)
  have "sim (pushes (m_stack s)) X w c insts ip lb s (ip + 1) (needVarI (n_Value n) n t)"
    by (rule sim_handler [OF _ *(2) [unfolded code], of opLoadVar])
      (simp_all add: handled agrees_loadVar tracks_executed *(3) assms(3))
  with code show "sim (pushes (m_stack s)) X w c insts ip lb s (ip + int (length (fst code))) (eval (Suc k) ic n t)"
    by simp
qed

lemma simulates_binop:
  assumes "form n h [a, b]" "h \<in> set binops"
    "simulates pushes X E c ic insts w k a" "simulates pushes X E c ic insts w k b"
  shows "simulates pushes X E c ic insts w (Suc k) n"
proof (rule simulatesI)
  fix code ip lb s t
  assume *: "compileNode E n = Inr code" "placed insts ip (fst code)" "tracks X t s"
    "w \<le> m_executed s + int (Suc k) - int (size n)"
  let ?i = "instrS OpBinop (if h = ''='' then ''=='' else h)"
  from compile_form [OF assms(1) *(1)] obtain hn where "n_Value hn = h" "compileForm E (compileNode E) hn n = Inr code" by blast
  with compileForm_binop [OF _ assms(2)] have "compileThen (compileNode E) n [Suc 0, 2] [?i] = Inr code" by simp
  from compileThen_two [OF assms(1) this] obtain ca cb where
    code: "compileNode E a = Inr ca" "compileNode E b = Inr cb" "fst code = fst ca @ fst cb @ [?i]" by blast
  let ?ip1 = "ip + int (length (fst ca))" and ?ip2 = "ip + int (length (fst ca)) + int (length (fst cb))"
  from *(2) have p: "placed insts ip (fst ca)" "placed insts ?ip1 (fst cb)" "placed insts ?ip2 [?i]"
    by (simp_all add: code placed_append add.assoc)
  note size = form_size [OF assms(1)]
  have "sim (pushes (m_stack s)) X w c insts ip lb s (?ip2 + 1) (eval (Suc k) ic n t)"
    unfolding eval_binop [OF assms(1, 2)]
  proof (rule sim_part [OF assms(3) code(1) p(1) *(3, 4)])
    fix x t1 s1
    assume s1: "pushes (m_stack s) x (m_stack s1)" "tracks X t1 s1" "m_executed s \<le> m_executed s1"
    show "sim (pushes (m_stack s)) X w c insts ?ip1 lb s1 (?ip2 + 1) (bindI (eval k ic b) (\<lambda>y. applyBinop h x y n) t1)"
    proof (rule sim_part [OF assms(4) code(2) p(2) s1(2) *(4) _ s1(3)])
      fix y t2 s2
      assume s2: "pushes (m_stack s1) y (m_stack s2)" "tracks X t2 s2"
      show "sim (pushes (m_stack s)) X w c insts ?ip2 lb s2 (?ip2 + 1) (applyBinop h x y n t2)"
        by (rule sim_handler [OF _ p(3), of opBinop]; (rule agrees_binop [OF assms(2) tracks_executed [OF s2(2)]])?)
          (use s1 s2 in \<open>simp_all add: handled pushes_def\<close>)
    qed (simp add: size)
  qed (simp_all add: size)
  with code show "sim (pushes (m_stack s)) X w c insts ip lb s (ip + int (length (fst code))) (eval (Suc k) ic n t)"
    by (simp add: ac_simps)
qed

lemma simulates_unary:
  assumes "form n h [a]" "h \<in> set unaries" "paired c ic" "simulates pushes X E c ic insts w k a"
  shows "simulates pushes X E c ic insts w (Suc k) n"
proof (rule simulatesI)
  fix code ip lb s t
  assume *: "compileNode E n = Inr code" "placed insts ip (fst code)" "tracks X t s"
    "w \<le> m_executed s + int (Suc k) - int (size n)"
  from compile_form [OF assms(1) *(1)] obtain hn where "n_Value hn = h" "compileForm E (compileNode E) hn n = Inr code" by blast
  with compileForm_unary [OF _ assms(2), of hn n] form_arity [OF assms(1)]
  have "compileThen (compileNode E) n [Suc 0] [unaryInstr h] = Inr code" by (simp add: arity_def)
  from compileThen_one [OF assms(1) this] obtain ca where
    code: "compileNode E a = Inr ca" "fst code = fst ca @ [unaryInstr h]" by blast
  let ?ip1 = "ip + int (length (fst ca))"
  from *(2) have p: "placed insts ip (fst ca)" "placed insts ?ip1 [unaryInstr h]"
    by (simp_all add: code placed_append)
  have "sim (pushes (m_stack s)) X w c insts ip lb s (?ip1 + 1) (eval (Suc k) ic n t)"
    unfolding eval_unary [OF assms(1, 2)]
  proof (rule sim_part [OF assms(4) code(1) p(1) *(3, 4)])
    fix v t1 s1
    assume "pushes (m_stack s) v (m_stack s1)" "tracks X t1 s1"
    then show "sim (pushes (m_stack s)) X w c insts ?ip1 lb s1 (?ip1 + 1) (applyUnary ic h n a v t1)"
      by (intro sim_unary [OF p(2) assms(2, 3)]) (simp_all add: pushes_def)
  qed (simp_all add: form_size [OF assms(1)])
  with code show "sim (pushes (m_stack s)) X w c insts ip lb s (ip + int (length (fst code))) (eval (Suc k) ic n t)"
    by (simp add: ac_simps)
qed

text \<open>Several nodes, one after the other.\<close>

lemma traverseI_length: "traverseI f xs t = (Inr ys, t') \<Longrightarrow> length ys = length xs"
  by (induction xs arbitrary: ys t) (auto simp: returnI_def bindI_def split: prod.splits sum.splits)

lemma sim_all:
  assumes "\<forall>a \<in> set args. simulates pushes X E c ic insts w k a" "traverse (compileNode E) args = Inr cs"
    "placed insts ip (concat (map fst cs))" "tracks X t s" "m0 \<le> m_executed s"
    "\<forall>a \<in> set args. size a < size n" "w \<le> m0 + int (Suc k) - int (size n)"
  shows "sim (pushesAll (m_stack s)) X w c insts ip lb s (ip + int (length (concat (map fst cs)))) (traverseI (eval k ic) args t)"
  using assms
proof (induction args arbitrary: cs ip s t)
  case Nil
  then show ?case by (auto simp: returnI_def pushesAll_def intro!: sim_done)
next
  case (Cons a args)
  from Cons.prems(2) obtain ca cs' where c: "compileNode E a = Inr ca" "traverse (compileNode E) args = Inr cs'" "cs = ca # cs'"
    by (auto simp: result_simps)
  let ?ip1 = "ip + int (length (fst ca))"
  from Cons.prems(3) have p: "placed insts ip (fst ca)" "placed insts ?ip1 (concat (map fst cs'))"
    by (simp_all add: c(3) placed_append)
  let ?e = "?ip1 + int (length (concat (map fst cs')))"
  have "sim (pushesAll (m_stack s)) X w c insts ip lb s ?e (traverseI (eval k ic) (a # args) t)"
    unfolding traverseI.simps
  proof (rule sim_part [OF _ c(1) p(1) Cons.prems(4, 7)])
    fix v t1 s1
    assume s1: "pushes (m_stack s) v (m_stack s1)" "tracks X t1 s1" "m_executed s \<le> m_executed s1"
    show "sim (pushesAll (m_stack s)) X w c insts ?ip1 lb s1 ?e (bindI (traverseI (eval k ic) args) (\<lambda>vs. returnI (v # vs)) t1)"
    proof (rule sim_bind [where f = "traverseI (eval k ic) args" and m = ?e])
      show "sim (pushesAll (m_stack s1)) X w c insts ?ip1 lb s1 ?e (traverseI (eval k ic) args t1)"
        using Cons.prems s1 by (intro Cons.IH [OF _ c(2) p(2) s1(2)]) auto
    next
      fix vs t2 s2
      assume "pushesAll (m_stack s1) vs (m_stack s2)" "tracks X t2 s2"
      with s1 show "sim (pushesAll (m_stack s)) X w c insts ?e lb s2 ?e (returnI (v # vs) t2)"
        unfolding returnI_def by (intro sim_done) (auto simp: pushes_def pushesAll_def)
    qed
  qed (use Cons.prems in auto)
  with c(3) show ?case by (simp add: add.assoc)
qed

lemma arity_size: "arity n \<le> size n"
proof -
  have "length xs \<le> size_list f xs" for f :: "Node \<Rightarrow> nat" and xs by (induction xs) auto
  then show ?thesis by (cases n) (simp add: arity_def le_SucI)
qed

lemma simulates_list:
  assumes "form n ''list'' args" "size n < 2 ^ 44" "\<forall>a \<in> set args. simulates pushes X E c ic insts w k a"
  shows "simulates pushes X E c ic insts w (Suc k) n"
proof (rule simulatesI)
  fix code ip lb s t
  assume *: "compileNode E n = Inr code" "placed insts ip (fst code)" "tracks X t s"
    "w \<le> m_executed s + int (Suc k) - int (size n)"
  from compile_form [OF assms(1) *(1)] obtain hn where "n_Value hn = ''list''" "compileForm E (compileNode E) hn n = Inr code" by blast
  with compileForm_heads(10) form_arity [OF assms(1)]
  have "compileRest (compileNode E) n (Suc 0) [instrI OpMakeList (int (length args))] = Inr code"
    by (simp add: childCount_def arity_def)
  from compileRest_all [OF assms(1) this] obtain cs where
    code: "traverse (compileNode E) args = Inr cs" "fst code = concat (map fst cs) @ [instrI OpMakeList (int (length args))]" by blast
  let ?ip1 = "ip + int (length (concat (map fst cs)))"
  from *(2) have p: "placed insts ip (concat (map fst cs))" "placed insts ?ip1 [instrI OpMakeList (int (length args))]"
    by (simp_all add: code placed_append)
  have "length args < 2 ^ 44" using form_arity [OF assms(1)] arity_size [of n] assms(2) by simp
  have "sim (pushes (m_stack s)) X w c insts ip lb s (?ip1 + 1) (eval (Suc k) ic n t)"
    unfolding eval_list [OF assms(1)]
  proof (rule sim_bind [where f = "traverseI (eval k ic) args" and m = ?ip1])
    show "sim (pushesAll (m_stack s)) X w c insts ip lb s ?ip1 (traverseI (eval k ic) args t)"
      by (rule sim_all [OF assms(3) code(1) p(1) *(3) order_refl _ *(4)]) (simp add: form_size [OF assms(1)])
  next
    fix vs t1 s1
    assume s1: "traverseI (eval k ic) args t = (Inr vs, t1)" "pushesAll (m_stack s) vs (m_stack s1)" "tracks X t1 s1"
    have "length vs = length args" by (rule traverseI_length [OF s1(1)])
    with p(2) have p': "placed insts ?ip1 [instrI OpMakeList (int (length vs))]" by simp
    have "agrees (pushes (m_stack s)) X (m_executed s1 + 1)
        (opMakeList c ?ip1 (instrI OpMakeList (int (length vs))) (gated ?ip1 s1)) (returnI (VList vs) t1)"
      by (rule agrees_makeList [OF tracks_executed [OF s1(3)]])
        (use s1 \<open>length vs = _\<close> \<open>length args < _\<close> in \<open>simp_all add: pushesAll_def\<close>)
    then show "sim (pushes (m_stack s)) X w c insts ?ip1 lb s1 (?ip1 + 1) (returnI (VList vs) t1)"
      by (intro sim_handler [OF _ p', of opMakeList]) (simp_all add: handled)
  qed
  with code show "sim (pushes (m_stack s)) X w c insts ip lb s (ip + int (length (fst code))) (eval (Suc k) ic n t)"
    by (simp add: ac_simps)
qed

subsection \<open>Choices\<close>

lemma sim_push_const:
  assumes "placed insts ip [loadConst v]" "tracks X t s"
    and "\<And>s1. tracks X t s1 \<Longrightarrow> m_stack s1 = v # m_stack s \<Longrightarrow> m_executed s1 = m_executed s + 1 \<Longrightarrow>
      sim L Y w c insts (ip + 1) lb s1 e out"
  shows "sim L Y w c insts ip lb s e out"
proof (rule sim_step [OF assms(1)])
  let ?s = "(gated ip s)\<lparr>m_stack := v # m_stack s\<rparr>"
  show "free (i_Op (loadConst v))" using handled(1) by (simp add: handles_def)
  show "dispatch nested c insts ip lb (loadConst v) (gated ip s) = (Inr (ip + 1, lb), ?s)" for nested
    using handled(1)
    by (simp add: handles_def dispatch_def runData_def opLoadConst_def push_def modifyM_def bindM_def returnM_def)
  show "sim L Y w c insts ip lb s e out" if "leads c insts ip lb s (ip + 1) lb ?s"
    by (rule sim_leads [OF that assms(3)]) (simp_all add: tracks_executed assms(2))
qed simp

text \<open>The conversion of the right operand to a boolean.\<close>

lemma agrees_to_bool:
  assumes "(h, b0) \<in> {(''and'', True), (''or'', False)}" "tracks X t s" "m_executed s = k" "m_stack s = VBool b0 # v # st"
  shows "agrees (pushes st) X k (opBinop c ip (instrS OpBinop h) s) (bindI (ToBoolI v n) (\<lambda>y. returnI (VBool y)) t)"
  unfolding opBinop_def
proof (rule agrees_pop [OF assms(4)], rule agrees_pop)
  have r: "BcBinop h v (VBool b0) = rbind (BcToBool v) (\<lambda>y. Inr (VBool y))"
    using assms(1) by (cases v) (auto simp: BcBinop_def BcToBool_def)
  show "agrees (pushes st) X k
      (bindM (liftM (BcBinop (i_Str (instrS OpBinop h)) v (VBool b0)))
        (\<lambda>r. thenM (chargeText c r ip (i_Op (instrS OpBinop h))) (push r))
        (s\<lparr>m_stack := v # st, m_stack := st\<rparr>)) (bindI (ToBoolI v n) (\<lambda>y. returnI (VBool y)) t)"
  proof (rule agrees_computed)
    fix e assume "BcBinop (i_Str (instrS OpBinop h)) v (VBool b0) = Inl e"
    with r have "ToBoolI v n = InterpErr (''expected boolean, got '' @ typeName v) n"
      by (cases v) (auto simp: ToBoolI_def BcToBool_def)
    then show "\<exists>reason node. bindI (ToBoolI v n) (\<lambda>y. returnI (VBool y)) = InterpErr reason node"
      by (intro exI) (simp add: fun_eq_iff bindI_def InterpErr_def panicI_def)
  next
    fix x assume "BcBinop (i_Str (instrS OpBinop h)) v (VBool b0) = Inr x"
    with r show "bindI (ToBoolI v n) (\<lambda>y. returnI (VBool y)) = returnI x \<and> plain x"
      by (cases v) (auto simp: ToBoolI_def BcToBool_def)
  qed (use assms in simp_all)
qed simp

lemma sim_to_bool:
  assumes "placed insts ip [loadConst (VBool b0), instrS OpBinop h]" "(h, b0) \<in> {(''and'', True), (''or'', False)}"
    "tracks X t s" "m_stack s = v # st" "e = ip + 2"
  shows "sim (pushes st) X w c insts ip lb s e (bindI (ToBoolI v n) (\<lambda>y. returnI (VBool y)) t)"
proof -
  from assms(1) have p: "placed insts ip [loadConst (VBool b0)]" "placed insts (ip + 1) [instrS OpBinop h]"
    using placed_Cons [of insts ip "loadConst (VBool b0)" "[instrS OpBinop h]"] by simp_all
  show ?thesis
    unfolding assms(5)
  proof (rule sim_push_const [OF p(1) assms(3)])
    fix s1 assume s1: "tracks X t s1" "m_stack s1 = VBool b0 # m_stack s"
    have "agrees (pushes st) X (m_executed s1 + 1) (opBinop c (ip + 1) (instrS OpBinop h) (gated (ip + 1) s1))
        (bindI (ToBoolI v n) (\<lambda>y. returnI (VBool y)) t)"
      by (rule agrees_to_bool [OF assms(2) tracks_executed [OF s1(1)]]) (use s1 assms(4) in simp_all)
    from sim_handler [where h = opBinop, OF _ p(2) this] show "sim (pushes st) X w c insts (ip + 1) lb s1 (ip + 2) (bindI (ToBoolI v n) (\<lambda>y. returnI (VBool y)) t)"
      by (simp add: handled add.assoc)
  qed
qed

lemma simulates_and:
  assumes f: "form n ''and'' [a, b]" and bound: "int (length insts) < 2 ^ 44"
    and sub: "simulates pushes X E c ic insts w k a" "simulates pushes X E c ic insts w k b"
  shows "simulates pushes X E c ic insts w (Suc k) n"
proof (rule simulatesI)
  fix code ip lb s t
  assume *: "compileNode E n = Inr code" "placed insts ip (fst code)" "tracks X t s"
    "w \<le> m_executed s + int (Suc k) - int (size n)"
  from compile_form [OF f *(1)] obtain hn where "n_Value hn = ''and''" "compileForm E (compileNode E) hn n = Inr code" by blast
  then have "compileLogic (compileNode E) ''and'' n = Inr code" by (simp add: compileForm_logic)
  from compileLogic_two [OF f this] obtain ca cb where
    code: "compileNode E a = Inr ca" "compileNode E b = Inr cb" "fst code = ShortCircuit ''and'' (fst ca) (fst cb)" by blast
  let ?la = "int (length (fst ca))" and ?lb = "int (length (fst cb))"
  from *(2) have p: "placed insts ip (fst ca)" "placed insts (ip + ?la) [instrI OpJumpIfFalse (?lb + 4)]"
    "placed insts (ip + ?la + 1) (fst cb)" "placed insts (ip + ?la + 1 + ?lb) [loadConst (VBool True), instrS OpBinop ''and'']"
    "placed insts (ip + ?la + 1 + ?lb + 2) [instrI OpJump 2]" "placed insts (ip + ?la + ?lb + 4) [loadConst (VBool False)]"
    by (simp_all add: code ShortCircuit_def placed_simps ac_simps)
  let ?e = "ip + ?la + ?lb + 5"
  have range: "0 \<le> ip" "?e < 2 ^ 44" using placed_end [OF *(2)] bound by (simp_all add: code ShortCircuit_def)
  have go: "goInt (ip + ?la + (?lb + 4)) = ip + ?la + ?lb + 4" "goInt (ip + ?la + 1 + ?lb + 2 + 2) = ?e"
    using range by (simp_all add: goInt_small)
  note size = form_size [OF f]
  have "sim (pushes (m_stack s)) X w c insts ip lb s ?e (eval (Suc k) ic n t)"
    unfolding eval_logic [OF f disjI1 [OF refl]]
  proof (rule sim_part [OF sub(1) code(1) p(1) *(3, 4)])
    fix v t1 s1
    assume s1: "pushes (m_stack s) v (m_stack s1)" "tracks X t1 s1" "m_executed s \<le> m_executed s1"
    show "sim (pushes (m_stack s)) X w c insts (ip + ?la) lb s1 ?e (bindI (ToBoolI v a) (\<lambda>x.
        if x = (''and'' = ''or'') then returnI (VBool x)
        else bindI (eval k ic b) (\<lambda>v. bindI (ToBoolI v b) (\<lambda>y. returnI (VBool y)))) t1)"
    proof (rule sim_branch [OF p(2) go(1) s1(2)])
      show "m_stack s1 = v # m_stack s" using s1(1) by (simp add: pushes_def)
    next
      fix x s2
      assume s2: "tracks X t1 s2" "m_stack s2 = m_stack s" "m_executed s2 = m_executed s1 + 1"
      show "sim (pushes (m_stack s)) X w c insts (if x then ip + ?la + 1 else ip + ?la + ?lb + 4) lb s2 ?e
          ((if x = (''and'' = ''or'') then returnI (VBool x)
            else bindI (eval k ic b) (\<lambda>v. bindI (ToBoolI v b) (\<lambda>y. returnI (VBool y)))) t1)"
      proof (cases x)
        case False
        with sim_const [OF p(6) s2(1)] s2(2) show ?thesis by (simp add: add.assoc)
      next
        case True
        have tail: "sim (pushes (m_stack s)) X w c insts (ip + ?la + 1 + ?lb) lb s3 ?e (bindI (ToBoolI y b) (\<lambda>y. returnI (VBool y)) t3)"
          if s3: "m_stack s3 = y # m_stack s" "tracks X t3 s3" for y s3 t3
        proof (rule sim_then [OF sim_to_bool [OF p(4) _ s3(2, 1) refl]])
          fix v t1 s1
          assume s1: "pushes (m_stack s) v (m_stack s1)" "tracks X t1 s1"
          show "sim (pushes (m_stack s)) X w c insts (ip + ?la + 1 + ?lb + 2) lb s1 ?e (Inr v, t1)"
            by (rule sim_jump [OF p(5) go(2) s1(2)], rule sim_done) (use s1 in simp_all)
        qed simp
        have "sim (pushes (m_stack s)) X w c insts (ip + ?la + 1) lb s2 ?e
            (bindI (eval k ic b) (\<lambda>v. bindI (ToBoolI v b) (\<lambda>y. returnI (VBool y))) t1)"
        proof (rule sim_part [OF sub(2) code(2) p(3) s2(1) *(4)])
          fix y t3 s3
          assume s3: "pushes (m_stack s2) y (m_stack s3)" "tracks X t3 s3"
          show "sim (pushes (m_stack s)) X w c insts (ip + ?la + 1 + ?lb) lb s3 ?e (bindI (ToBoolI y b) (\<lambda>y. returnI (VBool y)) t3)"
            using s2(2) s3 by (intro tail) (simp_all add: pushes_def)
        qed (use size s1 s2 in auto)
        with True show ?thesis by simp
      qed
    qed
  qed (use size in auto)
  with code show "sim (pushes (m_stack s)) X w c insts ip lb s (ip + int (length (fst code))) (eval (Suc k) ic n t)"
    by (simp add: ShortCircuit_def ac_simps)
qed

lemma simulates_or:
  assumes f: "form n ''or'' [a, b]" and bound: "int (length insts) < 2 ^ 44"
    and sub: "simulates pushes X E c ic insts w k a" "simulates pushes X E c ic insts w k b"
  shows "simulates pushes X E c ic insts w (Suc k) n"
proof (rule simulatesI)
  fix code ip lb s t
  assume *: "compileNode E n = Inr code" "placed insts ip (fst code)" "tracks X t s"
    "w \<le> m_executed s + int (Suc k) - int (size n)"
  from compile_form [OF f *(1)] obtain hn where "n_Value hn = ''or''" "compileForm E (compileNode E) hn n = Inr code" by blast
  then have "compileLogic (compileNode E) ''or'' n = Inr code" by (simp add: compileForm_logic)
  from compileLogic_two [OF f this] obtain ca cb where
    code: "compileNode E a = Inr ca" "compileNode E b = Inr cb" "fst code = ShortCircuit ''or'' (fst ca) (fst cb)" by blast
  let ?la = "int (length (fst ca))" and ?lb = "int (length (fst cb))"
  from *(2) have p: "placed insts ip (fst ca)" "placed insts (ip + ?la) [instrI OpJumpIfFalse 3]"
    "placed insts (ip + ?la + 1) [loadConst (VBool True)]" "placed insts (ip + ?la + 1 + 1) [instrI OpJump (?lb + 3)]"
    "placed insts (ip + ?la + 3) (fst cb)" "placed insts (ip + ?la + 3 + ?lb) [loadConst (VBool False), instrS OpBinop ''or'']"
    by (simp_all add: code ShortCircuit_def placed_simps ac_simps)
  let ?e = "ip + ?la + ?lb + 5"
  have range: "0 \<le> ip" "?e < 2 ^ 44" using placed_end [OF *(2)] bound by (simp_all add: code ShortCircuit_def)
  have go: "goInt (ip + ?la + 3) = ip + ?la + 3" "goInt (ip + ?la + 1 + 1 + (?lb + 3)) = ?e"
    using range by (simp_all add: goInt_small)
  note size = form_size [OF f]
  have "sim (pushes (m_stack s)) X w c insts ip lb s ?e (eval (Suc k) ic n t)"
    unfolding eval_logic [OF f disjI2 [OF refl]]
  proof (rule sim_part [OF sub(1) code(1) p(1) *(3, 4)])
    fix v t1 s1
    assume s1: "pushes (m_stack s) v (m_stack s1)" "tracks X t1 s1" "m_executed s \<le> m_executed s1"
    show "sim (pushes (m_stack s)) X w c insts (ip + ?la) lb s1 ?e (bindI (ToBoolI v a) (\<lambda>x.
        if x = (''or'' = ''or'') then returnI (VBool x)
        else bindI (eval k ic b) (\<lambda>v. bindI (ToBoolI v b) (\<lambda>y. returnI (VBool y)))) t1)"
    proof (rule sim_branch [OF p(2) go(1) s1(2)])
      show "m_stack s1 = v # m_stack s" using s1(1) by (simp add: pushes_def)
    next
      fix x s2
      assume s2: "tracks X t1 s2" "m_stack s2 = m_stack s" "m_executed s2 = m_executed s1 + 1"
      show "sim (pushes (m_stack s)) X w c insts (if x then ip + ?la + 1 else ip + ?la + 3) lb s2 ?e
          ((if x = (''or'' = ''or'') then returnI (VBool x)
            else bindI (eval k ic b) (\<lambda>v. bindI (ToBoolI v b) (\<lambda>y. returnI (VBool y)))) t1)"
      proof (cases x)
        case True
        have "sim (pushes (m_stack s)) X w c insts (ip + ?la + 1) lb s2 ?e (returnI (VBool True) t1)"
          unfolding returnI_def
          by (rule sim_push_const [OF p(3) s2(1)], rule sim_jump [OF p(4) go(2)], assumption, rule sim_done)
            (simp_all add: pushes_def s2(2))
        with True show ?thesis by simp
      next
        case False
        have "sim (pushes (m_stack s)) X w c insts (ip + ?la + 3) lb s2 ?e
            (bindI (eval k ic b) (\<lambda>v. bindI (ToBoolI v b) (\<lambda>y. returnI (VBool y))) t1)"
        proof (rule sim_part [OF sub(2) code(2) p(5) s2(1) *(4)])
          fix y t3 s3
          assume "pushes (m_stack s2) y (m_stack s3)" "tracks X t3 s3"
          then show "sim (pushes (m_stack s)) X w c insts (ip + ?la + 3 + ?lb) lb s3 ?e (bindI (ToBoolI y b) (\<lambda>y. returnI (VBool y)) t3)"
            using s2(2) by (intro sim_to_bool [OF p(6)]) (simp_all add: pushes_def)
        qed (use size s1 s2 in auto)
        with False show ?thesis by simp
      qed
    qed
  qed (use size in auto)
  with code show "sim (pushes (m_stack s)) X w c insts ip lb s (ip + int (length (fst code))) (eval (Suc k) ic n t)"
    by (simp add: ShortCircuit_def ac_simps)
qed

lemma placed_Nil: "0 \<le> ip \<Longrightarrow> ip \<le> int (length insts) \<Longrightarrow> placed insts ip []"
  unfolding placed_def by (intro conjI exI [of _ "take (nat ip) insts"] exI [of _ "drop (nat ip) insts"]) simp_all

lemmas placed_tail = placed_Cons [where ?is = "fst x" for x]

lemma compileIf_three:
  assumes "form n ''if'' [a, b, d]" "compileNode E n = Inr code"
  shows "\<exists>ca cb cd. compileNode E a = Inr ca \<and> compileNode E b = Inr cb \<and> compileNode E d = Inr cd \<and>
    fst code = (if fst cd = [] then fst ca @ [instrI OpJumpIfFalse (int (length (fst cb)) + 1)] @ fst cb
      else fst ca @ [instrI OpJumpIfFalse (int (length (fst cb)) + 2)] @ fst cb @
           [instrI OpJump (int (length (fst cd)) + 1)] @ fst cd)"
proof -
  from compile_form [OF assms] obtain hn where "n_Value hn = ''if''" "compileForm E (compileNode E) hn n = Inr code" by blast
  with compileForm_heads(13) have "compileIf (compileNode E) n = Inr code" by simp
  with assms(1) show ?thesis
    by (auto simp: compileIf_def compileChild_def childAt_def form_def result_simps joinCode_def Compile.emit_def codeLen_def)
qed

text \<open>The two branches of a choice; \<open>F\<close> is what each leaves on the stack.\<close>

lemma simulates_choice:
  assumes f: "form n ''if'' [a, b, d]" and bound: "int (length insts) < 2 ^ 44" and sub: "simulates pushes X E c ic insts w k a"
    "simulates F X E c ic insts w k b" "simulates F X E c ic insts w k d"
  shows "simulates F X E c ic insts w (Suc k) n"
proof (rule simulatesI)
  fix code ip lb s t
  assume *: "compileNode E n = Inr code" "placed insts ip (fst code)" "tracks X t s"
    "w \<le> m_executed s + int (Suc k) - int (size n)"
  from compileIf_three [OF f *(1)] obtain ca cb cd where c: "compileNode E a = Inr ca" "compileNode E b = Inr cb"
    "compileNode E d = Inr cd" and code: "fst code = (if fst cd = []
      then fst ca @ [instrI OpJumpIfFalse (int (length (fst cb)) + 1)] @ fst cb
      else fst ca @ [instrI OpJumpIfFalse (int (length (fst cb)) + 2)] @ fst cb @
           [instrI OpJump (int (length (fst cd)) + 1)] @ fst cd)" by blast
  let ?la = "int (length (fst ca))" and ?lb = "int (length (fst cb))" and ?ld = "int (length (fst cd))"
  let ?jump = "if fst cd = [] then 1 else 2"
  let ?e = "ip + ?la + ?lb + ?ld + ?jump"
  have e: "ip + int (length (fst code)) = ?e" by (simp add: code)
  from *(2) have p: "placed insts ip (fst ca)" "placed insts (ip + ?la) [instrI OpJumpIfFalse (?lb + ?jump)]"
    "placed insts (ip + ?la + 1) (fst cb)"
    by (simp_all add: code placed_simps placed_tail ac_simps split: if_splits)
  from *(2) have pd: "placed insts (ip + ?la + 1 + ?lb) [instrI OpJump (?ld + 1)]" "placed insts (ip + ?la + ?lb + ?jump) (fst cd)"
    if "fst cd \<noteq> []" using that by (simp_all add: code placed_simps placed_tail ac_simps)
  have pd': "placed insts (ip + ?la + ?lb + ?jump) (fst cd)"
  proof (cases "fst cd = []")
    case True
    with placed_end [OF *(2)] show ?thesis unfolding e by (simp add: placed_Nil ac_simps)
  qed (rule pd)
  have range: "0 \<le> ip" "?e < 2 ^ 44" using placed_end [OF *(2)] bound e by simp_all
  have go: "goInt (ip + ?la + (?lb + ?jump)) = ip + ?la + ?lb + ?jump"
    using range by (simp add: goInt_small split: if_splits)
  have go2: "goInt (ip + ?la + 1 + ?lb + (?ld + 1)) = ?e" if "fst cd \<noteq> []"
    using range that by (simp add: goInt_small)
  note size = form_size [OF f]
  have "sim (F (m_stack s)) X w c insts ip lb s ?e (eval (Suc k) ic n t)"
    unfolding eval_choice [OF f]
  proof (rule sim_part [OF sub(1) c(1) p(1) *(3, 4)])
    fix v t1 s1
    assume s1: "pushes (m_stack s) v (m_stack s1)" "tracks X t1 s1" "m_executed s \<le> m_executed s1"
    show "sim (F (m_stack s)) X w c insts (ip + ?la) lb s1 ?e
        (bindI (ToBoolI v a) (\<lambda>x. if x then eval k ic b else eval k ic d) t1)"
    proof (rule sim_branch [OF p(2) go s1(2)])
      show "m_stack s1 = v # m_stack s" using s1(1) by (simp add: pushes_def)
    next
      fix x s2
      assume s2: "tracks X t1 s2" "m_stack s2 = m_stack s" "m_executed s2 = m_executed s1 + 1"
      with s1 have m: "m_executed s \<le> m_executed s2" by simp
      have sizes: "size b < size n" "size d < size n" by (simp_all add: size)
      have "sim (F (m_stack s)) X w c insts (ip + ?la + 1) lb s2 ?e (eval k ic b t1)"
      proof (rule sim_then [OF simulatesD [OF sub(2) c(2) p(3) s2(1) fuel_below [OF *(4) sizes(1) m] refl]])
        fix v' t' s'
        assume s': "F (m_stack s2) v' (m_stack s')" "tracks X t' s'"
        show "sim (F (m_stack s)) X w c insts (ip + ?la + 1 + ?lb) lb s' ?e (Inr v', t')"
        proof (cases "fst cd = []")
          case True
          with sim_done [where L = "F (m_stack s)" and w = w and c = c and insts = insts and lb = lb, OF _ s'(2)] s'(1) s2(2)
          show ?thesis by (simp add: ac_simps)
        next
          case False
          show ?thesis
            by (rule sim_jump [OF pd(1) [OF False] go2 [OF False] s'(2)], rule sim_done) (use s' s2(2) in simp_all)
        qed
      qed
      moreover have "sim (F (m_stack s)) X w c insts (ip + ?la + ?lb + ?jump) lb s2 ?e (eval k ic d t1)"
        using simulatesD [OF sub(3) c(3) pd' s2(1) fuel_below [OF *(4) sizes(2) m], of ?e] s2(2) by (simp add: ac_simps)
      ultimately show "sim (F (m_stack s)) X w c insts (if x then ip + ?la + 1 else ip + ?la + ?lb + ?jump) lb s2 ?e
          ((if x then eval k ic b else eval k ic d) t1)" by simp
    qed
  qed (use size in auto)
  then show "sim (F (m_stack s)) X w c insts ip lb s (ip + int (length (fst code))) (eval (Suc k) ic n t)"
    by (simp only: e)
qed

subsection \<open>Operations on a named collection\<close>

text \<open>The interpreter looks at the collection first, the machine after the operand: both fail when it is
  none.\<close>

lemma sim_calm_fail:
  assumes "simulates pushes X E c ic insts w0 k a" "calm True (eval k ic a)" "compileNode E a = Inr code" "placed insts ip (fst code)"
    "tracks X t s" "w0 \<le> m_executed s + int k - int (size a)" "q = ICrash \<or> (\<exists>e. q = IErr e)"
    and "\<And>v s1. tracks X t s1 \<Longrightarrow> m_stack s1 = v # m_stack s \<Longrightarrow> plain v \<Longrightarrow>
      simTo L Y w c insts (ip + int (length (fst code))) lb s1 e le (Inl q, t)"
  shows "simTo L Y w c insts ip lb s e le (Inl q, t)"
proof -
  from simulatesD [OF assms(1, 3-6) refl]
  have sim: "sim (pushes (m_stack s)) X w0 c insts ip lb s (ip + int (length (fst code))) (eval k ic a t)" .
  from assms(2) have still: "snd (eval k ic a t) = t" by (simp add: calm_def)
  from sim consider (limit) p s' where "limitPanic p" "stops c insts ip lb s p s'"
    | (fails) p s' where "stops c insts ip lb s p s'" "failing p" "i_events t = m_events s'"
    | (got) v s1 where "leads c insts ip lb s (ip + int (length (fst code))) lb s1" "pushes (m_stack s) v (m_stack s1)" "tracks X t s1"
    using assms(2) still
    by (cases "fst (eval k ic a t)") (auto simp: simTo_def calm_def panicMatches_def split: if_splits dest!: spec [of _ t])
  then show ?thesis
  proof cases
    case limit
    then show ?thesis by (rule sim_limit)
  next
    case fails
    then show ?thesis using assms(7) by (intro sim_fail)
  next
    case got
    then show ?thesis by (intro sim_leads [OF got(1) assms(8)]) (auto simp: pushes_def)
  qed
qed

lemma returnI_not_err [simp]: "returnI a \<noteq> InterpErr reason node" "InterpErr reason node \<noteq> returnI a"
  by (auto simp: fun_eq_iff returnI_def InterpErr_def panicI_def)

lemma bindI_err [simp]: "bindI (InterpErr reason node) f = InterpErr reason node"
  by (auto simp: fun_eq_iff bindI_def InterpErr_def panicI_def)

lemma err_at: "InterpErr reason node t = (Inl (IErr \<lparr>eo_Reason = reason, eo_Line = n_Line node, eo_Column = n_Column node\<rparr>), t)"
  by (simp add: InterpErr_def panicI_def)

lemma need_known: "envGet (i_env t) x = Some v \<Longrightarrow> bindI (needVarI x n) g t = g v t"
  by (simp add: needVarI_def getVarI_def bindI_def getI_def returnI_def)

lemma calm_unchanged: "expr X x \<Longrightarrow> eval k ic x t = (r, t') \<Longrightarrow> t' = t"
  using calm_eval [of X x False k ic] by (auto simp: calm_def dest!: spec [of _ t])

text \<open>An operation with the collection \<open>x\<close>, the operand \<open>a\<close> and the instruction \<open>inst\<close>; \<open>want\<close> checks
  the collection, \<open>rest\<close> is what follows the operand.\<close>

lemma simulates_named:
  assumes x: "x \<in> X" "expr X a" "size a < size n" and sub: "\<And>w k. simulates pushes X E c ic insts w k a"
    and ev: "eval (Suc k) ic n = bindI (needVarI x d) (\<lambda>v. bindI (want v) (\<lambda>y. bindI (eval k ic a) (rest y)))"
    and comp: "\<And>code. compileNode E n = Inr code \<Longrightarrow> \<exists>ca. compileNode E a = Inr ca \<and> fst code = fst ca @ [inst]"
    and h: "handles (i_Op inst) h" and want: "\<And>v. (\<exists>y. want v = returnI y) \<or> (\<exists>reason node. want v = InterpErr reason node)"
    and bad: "\<And>v reason node t s ip y st. want v = InterpErr reason node \<Longrightarrow> tracks X t s \<Longrightarrow> envGet (i_env t) x = Some v \<Longrightarrow>
      m_stack s = y # st \<Longrightarrow> plain y \<Longrightarrow> agrees (F st) X (m_executed s) (h c ip inst s) (InterpErr reason node t)"
    and good: "\<And>v z t s ip y st. want v = returnI z \<Longrightarrow> tracks X t s \<Longrightarrow> envGet (i_env t) x = Some v \<Longrightarrow>
      m_stack s = y # st \<Longrightarrow> plain y \<Longrightarrow> agrees (F st) X (m_executed s) (h c ip inst s) (rest z y t)"
  shows "simulates F X E c ic insts w (Suc k) n"
proof (rule simulatesI)
  fix code ip lb s t
  assume *: "compileNode E n = Inr code" "placed insts ip (fst code)" "tracks X t s"
    "w \<le> m_executed s + int (Suc k) - int (size n)"
  from comp [OF *(1)] obtain ca where code: "compileNode E a = Inr ca" "fst code = fst ca @ [inst]" by blast
  let ?ip1 = "ip + int (length (fst ca))"
  from *(2) have p: "placed insts ip (fst ca)" "placed insts ?ip1 [inst]" by (simp_all add: code placed_append)
  from tracks_var [OF *(3) x(1)] obtain v where v: "envGet (i_env t) x = Some v" "plain v" by blast
  have "sim (F (m_stack s)) X w c insts ip lb s (?ip1 + 1) (eval (Suc k) ic n t)"
    unfolding ev need_known [OF v(1)]
  proof (cases "\<exists>z. want v = returnI z")
    case True
    then obtain z where z: "want v = returnI z" by blast
    have "sim (F (m_stack s)) X w c insts ip lb s (?ip1 + 1) (bindI (eval k ic a) (rest z) t)"
    proof (rule sim_part [OF sub code(1) p(1) *(3, 4) x(3) order_refl])
      fix y t1 s1
      assume s1: "eval k ic a t = (Inr y, t1)" "pushes (m_stack s) y (m_stack s1)" "tracks X t1 s1"
      from calm_unchanged [OF x(2) s1(1)] v s1
      have "agrees (F (m_stack s)) X (m_executed (gated ?ip1 s1)) (h c ?ip1 inst (gated ?ip1 s1)) (rest z y t1)"
        by (intro good [OF z tracks_executed]) (simp_all add: pushes_def)
      then show "sim (F (m_stack s)) X w c insts ?ip1 lb s1 (?ip1 + 1) (rest z y t1)"
        by (intro sim_handler [OF h p(2)]) simp
    qed
    with z show "sim (F (m_stack s)) X w c insts ip lb s (?ip1 + 1) (bindI (want v) (\<lambda>y. bindI (eval k ic a) (rest y)) t)"
      by simp
  next
    case False
    with want [of v] obtain reason node where r: "want v = InterpErr reason node" by blast
    have "sim (F (m_stack s)) X w c insts ip lb s (?ip1 + 1) (InterpErr reason node t)"
      unfolding err_at
    proof (rule sim_calm_fail [OF sub [of "m_executed s" "size a"] calm_eval [OF x(2)] code(1) p(1) *(3)])
      fix y s1
      assume s1: "tracks X t s1" "m_stack s1 = y # m_stack s" "plain y"
      have "agrees (F (m_stack s)) X (m_executed (gated ?ip1 s1)) (h c ?ip1 inst (gated ?ip1 s1)) (InterpErr reason node t)"
        using s1 v by (intro bad [OF r tracks_executed]) simp_all
      then show "sim (F (m_stack s)) X w c insts ?ip1 lb s1 (?ip1 + 1)
          (Inl (IErr \<lparr>eo_Reason = reason, eo_Line = n_Line node, eo_Column = n_Column node\<rparr>), t)"
        unfolding err_at by (intro sim_handler [OF h p(2)]) simp
    qed auto
    with r show "sim (F (m_stack s)) X w c insts ip lb s (?ip1 + 1) (bindI (want v) (\<lambda>y. bindI (eval k ic a) (rest y)) t)"
      by simp
  qed
  with code show "sim (F (m_stack s)) X w c insts ip lb s (ip + int (length (fst code))) (eval (Suc k) ic n t)"
    by (simp add: ac_simps)
qed

lemma want_cases:
  "(\<exists>a. wantDictI what v n = returnI a) \<or> (\<exists>reason node. wantDictI what v n = InterpErr reason node)"
  "(\<exists>xs. wantListI what v n = returnI xs) \<or> (\<exists>reason node. wantListI what v n = InterpErr reason node)"
  by (cases v; auto simp: wantDictI_def wantListI_def typeErrorI_def)+

lemma returnI_inject [simp]: "returnI a = returnI b \<longleftrightarrow> a = b"
  by (auto simp: fun_eq_iff returnI_def)

lemma want_returns [simp]: "wantDictI what v n = returnI a \<longleftrightarrow> v = VDict a" "wantListI what v n = returnI xs \<longleftrightarrow> v = VList xs"
  by (cases v; simp add: wantDictI_def wantListI_def typeErrorI_def)+

lemma want_fails:
  "wantDictI what v n = InterpErr reason node \<Longrightarrow> v \<noteq> VDict a" "wantListI what v n = InterpErr reason node \<Longrightarrow> v \<noteq> VList xs"
  by (auto simp: wantDictI_def wantListI_def)

lemma simulates_entry:
  assumes f: "form n ''map_get'' [d, x]" "isSymbolNode d" "n_Value d \<in> X" "n_Value d \<noteq> []" "expr X x"
    and sub: "\<And>w k. simulates pushes X E c ic insts w k x"
  shows "simulates pushes X E c ic insts w (Suc k) n"
proof (rule simulates_named [OF f(3, 5) _ sub eval_entry [OF f(1, 2)] _ _ want_cases(1)])
  fix code assume "compileNode E n = Inr code"
  from compile_form [OF f(1) this] obtain hn where "n_Value hn = ''map_get''" "compileForm E (compileNode E) hn n = Inr code" by blast
  with compileForm_heads(6) have "compileMapGet (compileNode E) n = Inr code" by simp
  with f(1, 2) have "compileThen (compileNode E) n [2] [instrS OpMapGet (n_Value d)] = Inr code"
    by (auto simp: compileMapGet_def require_def ensure_def form_def childAt_def)
  from compileThen_second [OF f(1) this]
  show "\<exists>ca. compileNode E x = Inr ca \<and> fst code = fst ca @ [instrS OpMapGet (n_Value d)]" .
next
  show "handles (i_Op (instrS OpMapGet (n_Value d))) opMapGet" by (simp add: handled)
qed (use form_size [OF f(1)] f in \<open>auto intro: agrees_mapGet agrees_mapGet_bad dest: want_fails\<close>)

lemma simulates_element:
  assumes f: "form n ''list_get'' [l, x]" "isSymbolNode l" "n_Value l \<in> X" "expr X x"
    and sub: "\<And>w k. simulates pushes X E c ic insts w k x"
  shows "simulates pushes X E c ic insts w (Suc k) n"
proof (rule simulates_named [OF f(3, 4) _ sub eval_element [OF f(1, 2)] _ _ want_cases(2)])
  fix code assume "compileNode E n = Inr code"
  from compile_form [OF f(1) this] obtain hn where "n_Value hn = ''list_get''" "compileForm E (compileNode E) hn n = Inr code" by blast
  with compileForm_heads(5) have "compileNamed (compileNode E) n [2] OpListGet = Inr code" by simp
  from compileNamed_one [OF f(1) this]
  show "\<exists>ca. compileNode E x = Inr ca \<and> fst code = fst ca @ [instrS OpListGet (n_Value l)]" .
next
  show "handles (i_Op (instrS OpListGet (n_Value l))) opListGet" by (simp add: handled)
qed (use form_size [OF f(1)] f in \<open>auto intro: agrees_listGet agrees_listGet_bad dest: want_fails\<close>)

subsection \<open>All expressions\<close>

lemma form_small: "form n h args \<Longrightarrow> size n < m \<Longrightarrow> a \<in> set args \<Longrightarrow> size a < m"
  using form_size by fastforce

lemma simulates_expr:
  assumes "expr X n" "paired c ic" "int (length insts) < 2 ^ 44" "size n < 2 ^ 44"
  shows "simulates pushes X E c ic insts w k n"
  using assms(1, 4)
proof (induction arbitrary: w k rule: expr.induct)
  case (literal n)
  then show ?case by (cases k) (simp_all add: simulates_no_fuel simulates_literal)
next
  case (truth n)
  then show ?case by (cases k) (simp_all add: simulates_no_fuel simulates_truth)
next
  case (variable n)
  then show ?case by (cases k) (simp_all add: simulates_no_fuel simulates_variable)
next
  case (binop n h a b)
  have "simulates pushes X E c ic insts w k a" "simulates pushes X E c ic insts w k b" for w k
    by (intro binop.IH form_small [OF binop(1) binop.prems]; simp)+
  then show ?case by (cases k) (simp_all add: simulates_no_fuel simulates_binop [OF binop(1, 2)])
next
  case (logic n h a b)
  have sub: "simulates pushes X E c ic insts w k a" "simulates pushes X E c ic insts w k b" for w k
    by (intro logic.IH form_small [OF logic(1) logic.prems]; simp)+
  from logic(2) show ?case
    by (elim disjE; cases k)
      (use logic(1) sub assms(3) in \<open>auto intro: simulates_no_fuel simulates_and simulates_or\<close>)
next
  case (unary n h a)
  have "simulates pushes X E c ic insts w k a" for w k
    by (intro unary.IH form_small [OF unary(1) unary.prems]; simp)+
  then show ?case by (cases k) (simp_all add: simulates_no_fuel simulates_unary [OF unary(1, 2) assms(2)])
next
  case (choice n a b d)
  have "simulates pushes X E c ic insts w k a" "simulates pushes X E c ic insts w k b"
    "simulates pushes X E c ic insts w k d" for w k
    by (intro choice.IH form_small [OF choice(1) choice.prems]; simp)+
  then show ?case by (cases k) (simp_all add: simulates_no_fuel simulates_choice [OF choice(1) assms(3)])
next
  case (listing n args)
  have "\<forall>a \<in> set args. simulates pushes X E c ic insts w k a" for w k
    by (intro ballI; use listing.IH form_small [OF listing(1) listing.prems] in blast)
  with listing show ?case by (cases k) (simp_all add: simulates_no_fuel simulates_list [OF listing(1)])
next
  case (entry n d x)
  have "simulates pushes X E c ic insts w k x" for w k
    by (intro entry.IH form_small [OF entry(1) entry.prems]; simp)+
  then show ?case by (cases k) (simp_all add: simulates_no_fuel simulates_entry [OF entry(1-4) entry(5)])
next
  case (element n l x)
  have "simulates pushes X E c ic insts w k x" for w k
    by (intro element.IH form_small [OF element(1) element.prems]; simp)+
  then show ?case by (cases k) (simp_all add: simulates_no_fuel simulates_element [OF element(1-3) element(4)])
qed

end
