(* ===== verification/SimStmt.thy ===== *)
theory SimStmt
  imports SimExpr
begin

text \<open>
  Statements: variables, branches, loops, output and changes of collections. A statement may leave what
  it likes on the stack; a loop keeps its list and its index there.
\<close>

subsection \<open>Environments\<close>

text \<open>What an evaluation never changes: the frames and the names each one binds.\<close>

definition shape :: "dict list \<Rightarrow> string list list" where
  "shape env = map (map fst) env"

definition shaped :: "'a I \<Rightarrow> bool" where
  "shaped m \<longleftrightarrow> (\<forall>t. shape (i_env (snd (m t))) = shape (i_env t))"

named_theorems shapes \<open>evaluations that keep the shape of the environment\<close>

lemma shapedD: "shaped m \<Longrightarrow> m t = (r, t') \<Longrightarrow> shape (i_env t') = shape (i_env t)"
  by (metis shaped_def snd_conv)

lemma shaped_calm: "calm b m \<Longrightarrow> shaped m"
  by (simp add: calm_def shaped_def)

lemma shaped_basic [shapes]: "shaped (returnI a)" "shaped (panicI p)" "shaped (getI f)" "shaped (InterpErr reason node)"
  by (simp_all add: shaped_def returnI_def panicI_def getI_def InterpErr_def)

lemma shaped_bind [shapes]: "shaped m \<Longrightarrow> (\<And>a. shaped (f a)) \<Longrightarrow> shaped (bindI m f)"
  unfolding shaped_def bindI_def by (auto split: prod.splits sum.splits) (metis snd_conv)+

lemma shaped_if [shapes]: "shaped m \<Longrightarrow> shaped n \<Longrightarrow> shaped (if e then m else n)"
  by simp

lemma shaped_modify [shapes]: "(\<And>t. i_env (f t) = i_env t) \<Longrightarrow> shaped (modifyI f)"
  by (simp add: shaped_def modifyI_def)

lemma shaped_traverse [shapes]: "(\<And>x. x \<in> set xs \<Longrightarrow> shaped (f x)) \<Longrightarrow> shaped (traverseI f xs)"
  by (induction xs) (auto intro!: shapes)

lemma shaped_seq [shapes]: "(\<And>x. x \<in> set ns \<Longrightarrow> shaped (rec x)) \<Longrightarrow> shaped (evalSeq rec ns r)"
  by (induction ns arbitrary: r) (auto intro!: shapes)

lemma shape_put: "k \<in> fst ` set f \<Longrightarrow> map fst (put k v f) = map fst f"
  by (simp add: AList.update_keys)

lemma shape_set: "envSet env x v = Some env' \<Longrightarrow> shape env' = shape env"
  by (induction env arbitrary: env')
    (auto simp: shape_def map_of_eq_None_iff intro!: shape_put rev_image_eqI split: if_splits)

lemma shaped_set [shapes]: "shaped (setVarI x v)"
  by (auto simp: shaped_def setVarI_def bindI_def getI_def modifyI_def returnI_def shape_set split: option.splits)

lemma shaped_frame [shapes]: "shaped m \<Longrightarrow> shaped (inFrame f m)"
  unfolding shaped_def inFrame_def
  by (auto simp: shape_def split: prod.splits) (metis drop_map list.simps(9) drop0 drop_Suc_Cons snd_conv istate.select_convs(1) istate.surjective istate.update_convs(1))

lemma shaped_for [shapes]: "shaped (rec body) \<Longrightarrow> shaped (forLoop rec body item vs)"
  by (induction vs) (auto intro!: shapes)

lemma shaped_perform [shapes]: "shaped (performI ic e)"
  unfolding performI_def by (intro shapes) simp

lemma shaped_dict [shapes]: "shaped (newDictI d)" "shaped (setDictI a d)" "shaped (dictAtI a)"
  unfolding newDictI_def setDictI_def dictAtI_def by (intro shapes; simp)+

lemma shaped_text [shapes]: "shaped (sprintI v)" "shaped (textI v)" "shaped (ToBoolI v n)" "shaped (needVarI x n)"
  "shaped (wantDictI what v n)" "shaped (wantListI what v n)"
  by (rule shaped_calm [where b = True], rule calm)+

subsection \<open>Variables\<close>

lemma envGet_set: "envSet env x v = Some env' \<Longrightarrow> envGet env' y = (if y = x then Some v else envGet env y)"
  by (induction env arbitrary: env') (auto simp: lookup_put split: if_splits option.splits)

lemma envSet_known: "envGet env x = Some u \<Longrightarrow> \<exists>env'. envSet env x v = Some env'"
  by (induction env) (auto split: option.splits)

lemma envGet_bind: "env \<noteq> [] \<Longrightarrow> envGet (bindVar x v env) y = (if y = x then Some v else envGet env y)"
  by (cases env) (auto simp: bindVar_def lookup_put)

lemma envGet_shape: "shape (f # env) = [x] # sh \<Longrightarrow> y \<noteq> x \<Longrightarrow> envGet (f # env) y = envGet env y"
proof -
  assume "shape (f # env) = [x] # sh" "y \<noteq> x"
  then have "fst ` set f = {x}" by (auto simp: shape_def)
  with \<open>y \<noteq> x\<close> have "lookup f y = None" by (auto simp: map_of_eq_None_iff)
  then show ?thesis by simp
qed

lemma bindVar_Nil [simp]: "bindVar x v env = [] \<longleftrightarrow> env = []"
  by (simp add: bindVar_def split: list.split)

text \<open>A new variable comes into scope, and leaves it.\<close>

lemma tracks_enter:
  "tracks X t s \<Longrightarrow> plain v \<Longrightarrow>
    tracks (insert x X) (t\<lparr>i_env := [(x, v)] # i_env t\<rparr>) (s\<lparr>m_env := bindVar x v (m_env s)\<rparr>)"
  by (auto simp: tracks_def envGet_bind)

lemma tracks_leave:
  assumes "tracks (insert x X) t s" "shape (i_env t) = [x] # sh" "x \<notin> X"
  shows "tracks X (t\<lparr>i_env := drop 1 (i_env t)\<rparr>) s"
proof -
  from assms(2) obtain f env where env: "i_env t = f # env" by (cases "i_env t") (auto simp: shape_def)
  have "envGet env y = envGet (i_env t) y" if "y \<in> X" for y
  proof -
    from that assms(3) have "y \<noteq> x" by blast
    from envGet_shape [OF assms(2) [unfolded env] this] show ?thesis unfolding env by (rule sym)
  qed
  with assms(1) env show ?thesis by (auto simp: tracks_def)
qed

lemma sim_frame:
  assumes "simTo L (insert x X) w c insts ip lb s e le (m (t\<lparr>i_env := [(x, v)] # i_env t\<rparr>))" "shaped m" "x \<notin> X"
  shows "simTo L X w c insts ip lb s e le (inFrame [(x, v)] m t)"
proof -
  obtain r t' where m: "m (t\<lparr>i_env := [(x, v)] # i_env t\<rparr>) = (r, t')" by fastforce
  from shapedD [OF assms(2) m] have "shape (i_env t') = [x] # shape (i_env t)" by (simp add: shape_def)
  from tracks_leave [OF _ this assms(3)] assms(1) m show ?thesis
    unfolding simTo_def inFrame_def by (auto split: sum.splits if_splits)
qed

lemma sim_store:
  assumes "placed insts ip [instrS OpStoreVar x]" "tracks X t s" "m_stack s = v # st" "plain v"
    and "\<And>s1. tracks (insert x X) (t\<lparr>i_env := [(x, v)] # i_env t\<rparr>) s1 \<Longrightarrow> m_stack s1 = st \<Longrightarrow> m_executed s1 = m_executed s + 1 \<Longrightarrow>
      simTo L Y w c insts (ip + 1) lb s1 e le out"
  shows "simTo L Y w c insts ip lb s e le out"
proof (rule sim_step [OF assms(1)])
  let ?s = "(gated ip s)\<lparr>m_stack := st, m_env := bindVar x v (m_env s)\<rparr>"
  show "free (i_Op (instrS OpStoreVar x))" using handled(3) by (simp add: handles_def)
  show "dispatch nested c insts ip lb (instrS OpStoreVar x) (gated ip s) = (Inr (ip + 1, lb), ?s)" for nested
    using handled(3) assms(3)
    by (simp add: handles_def dispatch_def runData_def opStoreVar_def storeVar_def pop_def getM_def modifyM_def bindM_def returnM_def)
  have "tracks X t ((gated ip s)\<lparr>m_stack := st\<rparr>)" using tracks_executed [OF assms(2)] by simp
  from tracks_enter [OF this assms(4)] have t: "tracks (insert x X) (t\<lparr>i_env := [(x, v)] # i_env t\<rparr>) ?s" by simp
  show "simTo L Y w c insts ip lb s e le out" if "leads c insts ip lb s (ip + 1) lb ?s"
    by (rule sim_leads [OF that assms(5) [OF t]]) simp_all
qed simp

lemma agrees_setVar:
  assumes "tracks X t s" "x \<in> X" "plain v"
    and "\<And>t' s'. tracks X t' s' \<Longrightarrow> m_stack s' = m_stack s \<Longrightarrow> m_executed s' = m_executed s \<Longrightarrow>
      agrees L Y k (f True s') (g True t')"
  shows "agrees L Y k (bindM (setVar x v) f s) (bindI (setVarI x v) g t)"
proof -
  from tracks_var [OF assms(1, 2)] obtain u where u: "envGet (i_env t) x = Some u" "envGet (m_env s) x = Some u" by blast
  from envSet_known [OF u(1)] envSet_known [OF u(2)] obtain e1 e2 where
    e: "envSet (i_env t) x v = Some e1" "envSet (m_env s) x v = Some e2" by blast
  have "e2 \<noteq> []" using shape_set [OF e(2)] assms(1) by (auto simp: shape_def tracks_def)
  with assms(1, 3) have "tracks X (t\<lparr>i_env := e1\<rparr>) (s\<lparr>m_env := e2\<rparr>)"
    by (auto simp: tracks_def envGet_set [OF e(1)] envGet_set [OF e(2)])
  from assms(4) [OF this] e show ?thesis
    by (simp add: setVar_def setVarI_def bindM_def bindI_def getM_def getI_def modifyM_def modifyI_def returnM_def returnI_def)
qed

subsection \<open>Statements\<close>

text \<open>A value to be bound: an expression or a new dict.\<close>

definition bindable :: "string set \<Rightarrow> Node \<Rightarrow> bool" where
  "bindable X n \<longleftrightarrow> expr X n \<or> form n ''dict'' []"

text \<open>The binding of a \<open>let\<close>: the name and the value.\<close>

definition binding :: "Node \<Rightarrow> Node \<Rightarrow> Node \<Rightarrow> bool" where
  "binding b x e \<longleftrightarrow> isListNode b \<and> n_Children b = [x, e]"

text \<open>The statements over the variables \<open>X\<close>; a bound name is not bound already, as the scoping pass leaves it.\<close>

inductive stmt :: "string set \<Rightarrow> Node \<Rightarrow> bool" where
  value_of: "expr X n \<Longrightarrow> stmt X n"
| letting: "form n ''let'' [b, body] \<Longrightarrow> binding b x e \<Longrightarrow> n_Value x \<notin> X \<Longrightarrow> bindable X e \<Longrightarrow>
    stmt (insert (n_Value x) X) body \<Longrightarrow> stmt X n"
| setting: "form n ''set'' [x, e] \<Longrightarrow> n_Value x \<in> X \<Longrightarrow> bindable X e \<Longrightarrow> stmt X n"
| branch: "form n ''if'' [a, b, d] \<Longrightarrow> expr X a \<Longrightarrow> stmt X b \<Longrightarrow> stmt X d \<Longrightarrow> stmt X n"
| unless: "form n ''if'' [a, b] \<Longrightarrow> expr X a \<Longrightarrow> stmt X b \<Longrightarrow> stmt X n"
| loop: "form n ''while'' [a, b] \<Longrightarrow> expr X a \<Longrightarrow> stmt X b \<Longrightarrow> stmt X n"
| each: "form n ''for'' [x, l, b] \<Longrightarrow> n_Value x \<notin> X \<Longrightarrow> expr X l \<Longrightarrow> stmt (insert (n_Value x) X) b \<Longrightarrow> stmt X n"
| block: "form n ''do'' ns \<Longrightarrow> \<forall>a \<in> set ns. stmt X a \<Longrightarrow> stmt X n"
| printing: "form n ''print'' args \<Longrightarrow> \<forall>a \<in> set args. expr X a \<Longrightarrow> stmt X n"
| warning: "form n ''stderr'' [a] \<Longrightarrow> expr X a \<Longrightarrow> stmt X n"
| appending: "form n ''append'' [l, a] \<Longrightarrow> isSymbolNode l \<Longrightarrow> n_Value l \<in> X \<Longrightarrow> expr X a \<Longrightarrow> stmt X n"
| storing: "form n ''map_set'' [d, a, b] \<Longrightarrow> isSymbolNode d \<Longrightarrow> n_Value d \<in> X \<Longrightarrow> expr X a \<Longrightarrow> expr X b \<Longrightarrow> stmt X n"
| deleting: "form n ''map_delete'' [d, a] \<Longrightarrow> isSymbolNode d \<Longrightarrow> n_Value d \<in> X \<Longrightarrow> expr X a \<Longrightarrow> stmt X n"
| result: "form n ''return'' [a] \<Longrightarrow> expr X a \<Longrightarrow> stmt X n"

subsection \<open>Evaluation of a statement\<close>

lemma binding_eval: "binding b x e \<Longrightarrow> childI b 0 = returnI x \<and> evalChild rec b (Suc 0) = rec e \<and> isListNode b \<and> arity b = 2"
  by (simp add: binding_def childI_def evalChild_def arity_def)

lemma eval_let:
  "form n ''let'' [b, body] \<Longrightarrow> binding b x e \<Longrightarrow>
    eval (Suc k) ic n = bindI (eval k ic e) (\<lambda>v. inFrame [(n_Value x, v)] (eval k ic body))"
  by (simp add: eval_plain [OF _ plainHeads(1)] evalLet_def form_simps binding_eval)

lemma eval_set:
  "form n ''set'' [x, e] \<Longrightarrow> eval (Suc k) ic n =
    bindI (eval k ic e) (\<lambda>v. bindI (setVarI (n_Value x) v) (\<lambda>ok.
      if ok then returnI VNil else InterpErr (''undefined variable: '' @ n_Value x) x))"
  by (simp add: eval_plain [OF _ plainHeads(2)] evalSet_def form_simps)

lemma eval_when:
  "form n ''if'' [a, b] \<Longrightarrow> eval (Suc k) ic n =
    bindI (eval k ic a) (\<lambda>v. bindI (ToBoolI v a) (\<lambda>x. if x then eval k ic b else returnI VNil))"
  by (simp add: eval_plain [OF _ plainHeads(3)] evalIf_def form_simps bindI_assoc cong: if_cong)

lemma eval_while: "form n ''while'' [a, b] \<Longrightarrow> eval (Suc k) ic n = whileLoop (eval k ic) n k"
  by (simp add: eval_plain [OF _ plainHeads(4)] evalWhile_def form_simps)

lemma whileLoop_form:
  "form n ''while'' [a, b] \<Longrightarrow> whileLoop rec n (Suc j) = bindI (rec a) (\<lambda>v. bindI (ToBoolI v a) (\<lambda>x.
    if x then bindI (rec b) (\<lambda>_. whileLoop rec n j) else returnI VNil))"
  by (simp add: form_simps bindI_assoc cong: if_cong)

lemma eval_zero: "eval 0 ic n = panicI IFuel"
  by (simp add: eval.simps)

lemma eval_for:
  "form n ''for'' [x, l, b] \<Longrightarrow> eval (Suc k) ic n = bindI (eval k ic l) (\<lambda>v.
    case v of VList xs \<Rightarrow> forLoop (eval k ic) b (n_Value x) xs | _ \<Rightarrow> InterpErr ''for requires a list value to iterate'' l)"
  by (simp add: eval_plain [OF _ plainHeads(5)] evalFor_def form_simps)

lemma eval_do: "form n ''do'' ns \<Longrightarrow> eval (Suc k) ic n = evalSeq (eval k ic) ns VNil"
  by (simp add: eval_plain [OF _ plainHeads(6)] evalDo_def form_simps)

lemma eval_return: "form n ''return'' [a] \<Longrightarrow> eval (Suc k) ic n = bindI (eval k ic a) (\<lambda>v. panicI (IReturn v))"
  by (simp add: eval_plain [OF _ plainHeads(7)] evalReturn_def form_simps)

lemma eval_print:
  "form n ''print'' args \<Longrightarrow> eval (Suc k) ic n = bindI (traverseI (eval k ic) args) (\<lambda>vs. bindI (traverseI textI vs) (\<lambda>out.
    thenI (emitI ic (EOut (join '' '' out @ [CHR 0x0A]))) (returnI VNil)))"
  by (simp add: eval_plain [OF _ plainHeads(8)] evalPrint_def form_simps)

lemma eval_stderr:
  "form n ''stderr'' [a] \<Longrightarrow> eval (Suc k) ic n = bindI (eval k ic a) (\<lambda>v. bindI (textI v) (\<lambda>t.
    thenI (emitI ic (EErr t)) (returnI VNil)))"
  by (simp add: eval_plain [OF _ plainHeads(9)] evalStderr_def form_simps)

lemma eval_dict: "form n ''dict'' [] \<Longrightarrow> eval (Suc k) ic n = newDictI []"
  by (simp add: eval_plain [OF _ plainHeads(11)] evalDict_def form_simps)

lemma eval_append:
  "form n ''append'' [l, a] \<Longrightarrow> isSymbolNode l \<Longrightarrow> eval (Suc k) ic n =
    bindI (needVarI (n_Value l) l) (\<lambda>v. bindI (wantListI ''append'' v l) (\<lambda>items. bindI (eval k ic a) (\<lambda>item.
      bindI (setVarI (n_Value l) (VList (items @ [item]))) (\<lambda>ok.
        if ok then returnI VNil else InterpErr (''undefined variable: '' @ n_Value l) l))))"
  by (simp add: eval_plain [OF _ plainHeads(12)] evalAppend_def namedOperand_def form_simps bindI_assoc)

lemma eval_mapSet:
  "form n ''map_set'' [d, a, b] \<Longrightarrow> isSymbolNode d \<Longrightarrow> eval (Suc k) ic n =
    bindI (needVarI (n_Value d) d) (\<lambda>v. bindI (wantDictI ''map_set'' v d) (\<lambda>r. bindI (eval k ic a) (\<lambda>w. bindI (sprintI w) (\<lambda>key.
      bindI (eval k ic b) (\<lambda>u. bindI (dictAtI r) (\<lambda>m. thenI (setDictI r (put key u m)) (returnI VNil)))))))"
  by (simp add: eval_plain [OF _ plainHeads(13)] evalMapSet_def namedOperand_def form_simps bindI_assoc)

lemma eval_mapDelete:
  "form n ''map_delete'' [d, a] \<Longrightarrow> isSymbolNode d \<Longrightarrow> eval (Suc k) ic n =
    bindI (needVarI (n_Value d) d) (\<lambda>v. bindI (wantDictI ''map_delete'' v d) (\<lambda>r. bindI (eval k ic a) (\<lambda>w. bindI (sprintI w) (\<lambda>key.
      bindI (dictAtI r) (\<lambda>m. thenI (setDictI r (remove_key key m)) (returnI VNil))))))"
  by (simp add: eval_plain [OF _ plainHeads(14)] evalMapDelete_def namedOperand_def form_simps bindI_assoc)

lemma shaped_expr: "expr X n \<Longrightarrow> shaped (eval k ic n)"
  by (rule shaped_calm [OF calm_eval [of X n False]]) auto

lemma shaped_bindable: "bindable X n \<Longrightarrow> shaped (eval k ic n)"
  unfolding bindable_def by (cases k) (auto simp: eval_dict eval_zero intro: shaped_expr shapes)

lemma shaped_while:
  "form n ''while'' [a, b] \<Longrightarrow> shaped (rec a) \<Longrightarrow> shaped (rec b) \<Longrightarrow> shaped (whileLoop rec n j)"
  by (induction j) (auto simp: whileLoop_form shapes simp del: whileLoop.simps(2) intro!: shapes)

lemma shaped_stmt: "stmt X n \<Longrightarrow> shaped (eval k ic n)"
proof (induction arbitrary: k rule: stmt.induct)
  case (value_of X n)
  then show ?case by (rule shaped_expr)
next
  case (letting n b body x e X)
  with shaped_bindable [OF letting(4)] show ?case by (cases k) (auto simp: eval_let eval_zero intro!: shapes)
next
  case (setting n x e X)
  then show ?case by (cases k) (auto simp: eval_set eval_zero intro!: shapes shaped_bindable)
next
  case (branch n a b d X)
  with shaped_expr [OF branch(2)] show ?case by (cases k) (auto simp: eval_choice eval_zero intro!: shapes)
next
  case (unless n a b X)
  with shaped_expr [OF unless(2)] show ?case by (cases k) (auto simp: eval_when eval_zero intro!: shapes)
next
  case (loop n a b X)
  with shaped_expr [OF loop(2)] show ?case by (cases k) (auto simp: eval_while eval_zero intro!: shapes shaped_while)
next
  case (each n x l b X)
  with shaped_expr [OF each(3)] show ?case by (cases k) (auto simp: eval_for eval_zero intro!: shapes split: val.split)
next
  case (block n ns X)
  then show ?case by (cases k) (auto simp: eval_do eval_zero intro!: shapes)
next
  case (printing n args X)
  then show ?case by (cases k) (auto simp: eval_print eval_zero emitI_def intro!: shapes shaped_expr)
next
  case (warning n a X)
  then show ?case by (cases k) (auto simp: eval_stderr eval_zero emitI_def intro!: shapes shaped_expr)
next
  case (appending n l a X)
  then show ?case by (cases k) (auto simp: eval_append eval_zero intro!: shapes shaped_expr)
next
  case (storing n d a b X)
  then show ?case by (cases k) (auto simp: eval_mapSet eval_zero intro!: shapes shaped_expr)
next
  case (deleting n d a X)
  then show ?case by (cases k) (auto simp: eval_mapDelete eval_zero intro!: shapes shaped_expr)
next
  case (result n a X)
  then show ?case by (cases k) (auto simp: eval_return eval_zero intro!: shapes shaped_expr)
qed

subsection \<open>Handlers\<close>

lemma bind_known [simp]:
  "bindM (panicM p) f = panicM p" "bindM (raise code ip op msg) g = raise code ip op msg"
  "bindM (getM h) f' s = f' (h s) s" "bindM (modifyM h') f'' s = f'' () (h' s)"
  by (simp_all add: fun_eq_iff bindM_def panicM_def raise_def getM_def modifyM_def)

lemma wantDict_bad: "(\<And>a. v \<noteq> VDict a) \<Longrightarrow> wantDict ip op what v = raise ''TYPE_ERROR'' ip op (what @ '' expected dict, got '' @ typeName v)"
  by (cases v) (auto simp: wantDict_def)

lemma agrees_kept: "tracks X t s \<Longrightarrow> m_executed s = k \<Longrightarrow> m_stack s = st \<Longrightarrow> agrees (keeps st) X k (returnM () s) (returnI v t)"
  by (auto simp: returnM_def returnI_def keeps_def intro!: agrees_done exI [of _ "[]"])

lemma agrees_opSet:
  assumes "tracks X t s" "x \<in> X" "m_executed s = k" "m_stack s = v # st" "plain v"
  shows "agrees (keeps st) X k (opSetVar c ip (instrS OpSetVar x) s)
    (bindI (setVarI x v) (\<lambda>ok. if ok then returnI VNil else InterpErr reason n) t)"
  unfolding opSetVar_def
  by (rule agrees_pop [OF assms(4)], simp, rule agrees_setVar) (use assms in \<open>auto intro!: agrees_kept\<close>)

lemma agrees_emit:
  assumes "paired c ic" "tracks X t s" "m_executed s = k" "m_stack s = st"
  shows "agrees (keeps st) X k (MachineData.emit c e s) (thenI (emitI ic e) (returnI v) t)"
proof -
  let ?t = "t\<lparr>i_events := \<lparr>ev_caps = ic_caps ic, ev_effect = e\<rparr> # i_events t\<rparr>"
  let ?s = "s\<lparr>m_events := \<lparr>ev_caps = c_caps c, ev_effect = e\<rparr> # m_events s\<rparr>"
  have "tracks X ?t ?s" using assms(1, 2) by (simp add: tracks_def paired_def)
  from agrees_kept [OF this, of k st v] assms(3, 4) show ?thesis
    by (simp add: MachineData.emit_def perform_def emitI_def performI_def bindM_def bindI_def getM_def getI_def modifyM_def
        modifyI_def returnM_def returnI_def)
qed

lemma agrees_texts:
  assumes "tracks X t s" "\<forall>v \<in> set vs. plain v" "m_executed s = k" "\<And>out. agrees L Y k (f out s) (g out t)"
  shows "agrees L Y k (bindM (traverseM (textM op) vs) f s) (bindI (traverseI textI vs) g t)"
  using assms
proof (induction vs arbitrary: f g)
  case (Cons v vs)
  then show ?case
    by (auto simp: bindM_assoc bindI_assoc intro!: agrees_text [OF assms(1)] Cons.IH)
qed simp

lemma agrees_popN:
  assumes "m_stack s = rev vs @ st" "agrees L X k (f vs (s\<lparr>m_stack := st\<rparr>)) out"
  shows "agrees L X k (bindM (popN (length vs) op) f s) out"
  using assms
proof (induction vs arbitrary: f s rule: rev_induct)
  case Nil
  then have "s\<lparr>m_stack := st\<rparr> = s" by simp
  with Nil show ?case by simp
next
  case (snoc v vs)
  then show ?case
    unfolding length_append_singleton popN.simps bindM_assoc
    by (intro agrees_pop [of s v "rev vs @ st"] snoc.IH) auto
qed

lemma agrees_print:
  assumes "paired c ic" "tracks X t s" "m_executed s = k" "m_stack s = rev vs @ st" "\<forall>v \<in> set vs. plain v"
  shows "agrees (keeps st) X k (opPrint c ip (instrI OpPrint (int (length vs))) s)
    (bindI (traverseI textI vs) (\<lambda>out. thenI (emitI ic (EOut (join '' '' out @ [CHR 0x0A]))) (returnI VNil)) t)"
  unfolding opPrint_def operand_fields nat_int
  by (rule agrees_popN [OF assms(4)], rule agrees_texts [of X]) (use assms in \<open>auto intro!: agrees_emit\<close>)

lemma agrees_stderr:
  assumes "paired c ic" "tracks X t s" "m_executed s = k" "m_stack s = v # st" "plain v"
  shows "agrees (keeps st) X k (opStderr c ip (instr OpStderr) s)
    (bindI (textI v) (\<lambda>t. thenI (emitI ic (EErr t)) (returnI VNil)) t)"
  unfolding opStderr_def
  by (rule agrees_pop [OF assms(4)], rule agrees_text [of X]) (use assms in \<open>auto intro!: agrees_emit\<close>)

lemma agrees_opReturn:
  assumes "tracks X t s" "m_executed s = k" "m_stack s = v # st"
  shows "agrees L X k (opReturn c ip inst s) (panicI (IReturn v) t)"
  unfolding opReturn_def
  by (rule agrees_pop [OF assms(3)])
    (use assms in \<open>auto simp: agrees_def panicM_def panicI_def panicMatches_def tracks_def\<close>)

lemma plain_put: "\<forall>(k, v) \<in> set d. plain v \<Longrightarrow> plain u \<Longrightarrow> \<forall>(k, v) \<in> set (put key u d). plain v"
  by (induction d) auto

lemma plain_remove: "\<forall>(k, v) \<in> set d. plain v \<Longrightarrow> \<forall>(k, v) \<in> set (remove_key key d). plain v"
  by (auto simp: AList.delete_eq)

lemma plainHeap_update: "plainHeap h \<Longrightarrow> \<forall>(k, v) \<in> set d. plain v \<Longrightarrow> plainHeap (h[a := d])"
  unfolding plainHeap_def by (auto dest!: subsetD [OF set_update_subset_insert])

lemma agrees_setDict:
  assumes "tracks X t s" "m_executed s = k" "m_stack s = st" "\<forall>(k, v) \<in> set d. plain v"
  shows "agrees (keeps st) X k (setDict a d s) (thenI (setDictI a d) (returnI r) t)"
proof -
  have "tracks X (t\<lparr>i_heap := (i_heap t)[a := d]\<rparr>) (s\<lparr>m_heap := (m_heap s)[a := d]\<rparr>)"
    using assms(1, 4) by (simp add: tracks_def plainHeap_update)
  from agrees_kept [OF this, of k st r] assms(2, 3) show ?thesis
    by (simp add: setDict_def setDictI_def bindI_def modifyI_def modifyM_def returnM_def)
qed

lemma agrees_newDict:
  assumes "tracks X t s" "m_executed s = k" "m_stack s = st"
  shows "agrees (pushes st) X k (opMakeDict c ip (instrI OpMakeDict 0) s) (newDictI [] t)"
proof -
  have z: "goInt 0 = 0" by (simp add: goInt_small)
  have m: "makeSlice 0 = returnM ()" by (simp add: makeSlice_def)
  have a: "i_heap t = m_heap s" using assms(1) by (simp add: tracks_def)
  have h: "plainHeap (m_heap s @ [[]])" using assms(1) by (simp add: tracks_def plainHeap_def)
  have "tracks X (t\<lparr>i_heap := i_heap t @ [[]]\<rparr>) (s\<lparr>m_heap := m_heap s @ [[]]\<rparr>)"
    using assms(1) h by (simp add: tracks_def)
  from agrees_push [OF this, of st "VDict (length (m_heap s))" k] assms a show ?thesis
    by (simp add: opMakeDict_def z m chargeSlots_def chargeAlloc_def newDict_def newDictI_def bindM_assoc bindI_def
        getI_def modifyI_def returnI_def)
qed

lemma agrees_opAppend:
  assumes "tracks X t s" "x \<in> X" "m_executed s = k" "m_stack s = v # st" "plain v" "envGet (i_env t) x = Some (VList items)"
  shows "agrees (keeps st) X k (opAppend c ip (instrS OpAppend x) s)
    (bindI (setVarI x (VList (items @ [v]))) (\<lambda>ok. if ok then returnI VNil else InterpErr reason n) t)"
proof -
  from tracks_var [OF assms(1, 2)] assms(6) have items: "plain (VList items)" by auto
  have set: "agrees (keeps st) X k (bindM (setVar x (VList (items @ [v]))) (\<lambda>_. returnM ()) (s\<lparr>m_stack := st, m_memoryBytes := m\<rparr>))
      (bindI (setVarI x (VList (items @ [v]))) (\<lambda>ok. if ok then returnI VNil else InterpErr reason n) t)" for m
    by (rule agrees_setVar) (use assms items in \<open>auto intro!: agrees_kept\<close>)
  show ?thesis
    unfolding opAppend_def
    by (rule agrees_pop [OF assms(4)])
      (use assms needVar_known [OF assms(1, 2, 6)] set in
        \<open>auto simp: bindM_def [of "needVar _ _ _"] isList_def copyItems_def intro!: agrees_chargeSlots agrees_chargeText\<close>)
qed

lemma agrees_opAppend_bad:
  assumes "tracks X t s" "x \<in> X" "m_executed s = k" "m_stack s = w # st" "envGet (i_env t) x = Some v" "\<And>items. v \<noteq> VList items"
  shows "agrees L X k (opAppend c ip (instrS OpAppend x) s) (InterpErr reason n t)"
proof -
  from tracks_var [OF assms(1, 2)] assms(5) have "plain v" by auto
  then have "\<not> isList v" using assms(6) by (cases v) (auto simp: isList_def)
  then show ?thesis
    unfolding opAppend_def
    by (intro agrees_pop [OF assms(4)])
      (use assms needVar_known [OF assms(1, 2, 5)] in \<open>auto simp: bindM_def [of "needVar _ _ _"] intro!: agrees_raise\<close>)
qed

text \<open>The text of a key is the same in both engines, or both run out of stack.\<close>

lemma sprint_cases:
  assumes "tracks X t s" "plain w"
  shows "(\<exists>key. sprintI w t = (Inr key, t) \<and> (\<forall>op s'. m_heap s' = m_heap s \<longrightarrow> sprintM op w s' = (Inr key, s')))
    \<or> (sprintI w t = (Inl ICrash, t) \<and> (\<forall>op s'. m_heap s' = m_heap s \<longrightarrow> sprintM op w s' = (Inl PCrash, s')))"
proof -
  from assms(1) have heap: "i_heap t = m_heap s" "plainHeap (m_heap s)" by (auto simp: tracks_def)
  show ?thesis
  proof (cases "treeOf (m_heap s) w")
    case None
    with heap show ?thesis
      by (simp add: sprintI_def treeI_def sprintM_def printable_def treeM_def bindM_def bindI_def getM_def getI_def panicM_def panicI_def)
  next
    case (Some tr)
    then have "\<not> hasStore tr"
      using freeze_plain [OF _ assms(2) heap(2)] by (auto simp: treeOf_def plainTree_printable split: sum.splits)
    with Some heap show ?thesis
      by (simp add: sprintI_def treeI_def sprintM_def printable_def treeM_def bindM_def bindI_def getM_def getI_def returnM_def returnI_def)
  qed
qed

lemma agrees_dict_change:
  assumes "tracks X t s" "m_executed s = k" "m_stack s = st"
    and "\<And>d. \<forall>(k, v) \<in> set d. plain v \<Longrightarrow> \<forall>(k, v) \<in> set (h d). plain v"
  shows "agrees (keeps st) X k (bindM (dictAt a) (\<lambda>d. setDict a (h d)) s)
    (bindI (dictAtI a) (\<lambda>m. thenI (setDictI a (h m)) (returnI VNil)) t)"
  by (rule agrees_dictAt [OF assms(1)], rule agrees_setDict [OF assms(1-3)], rule assms(4))

lemma agrees_opMapDelete:
  assumes "tracks X t s" "x \<in> X" "m_executed s = k" "m_stack s = w # st" "plain w" "envGet (i_env t) x = Some (VDict a)"
  shows "agrees (keeps st) X k (opMapDelete c ip (instrS OpMapDelete x) s)
    (bindI (sprintI w) (\<lambda>key. bindI (dictAtI a) (\<lambda>m. thenI (setDictI a (remove_key key m)) (returnI VNil))) t)"
  unfolding opMapDelete_def
proof (rule agrees_pop [OF assms(4)], rule agrees_sprint [of X])
  fix key
  have "agrees (keeps st) X k (bindM (dictAt a) (\<lambda>d. setDict a (remove_key key d)) (s\<lparr>m_stack := st\<rparr>))
      (bindI (dictAtI a) (\<lambda>m. thenI (setDictI a (remove_key key m)) (returnI VNil)) t)"
    by (rule agrees_dict_change) (use assms plain_remove in simp_all)
  then show "agrees (keeps st) X k
      (bindM (needVar ip (i_Op (instrS OpMapDelete x)) (i_Str (instrS OpMapDelete x)))
        (\<lambda>current. bindM (wantDict ip (i_Op (instrS OpMapDelete x)) ''map_delete'' current)
          (\<lambda>a. bindM (dictAt a) (\<lambda>d. setDict a (remove_key key d)))) (s\<lparr>m_stack := st\<rparr>))
      (bindI (dictAtI a) (\<lambda>m. thenI (setDictI a (remove_key key m)) (returnI VNil)) t)"
    by (simp add: bindM_def [of "needVar _ _ _"] needVar_known [OF assms(1, 2, 6)] wantDict_def)
qed (use assms in auto)

lemma agrees_opMapDelete_bad:
  assumes "tracks X t s" "x \<in> X" "m_executed s = k" "m_stack s = w # st" "plain w" "envGet (i_env t) x = Some v"
    "\<And>a. v \<noteq> VDict a"
  shows "agrees L X k (opMapDelete c ip (instrS OpMapDelete x) s) (InterpErr reason n t)"
  unfolding opMapDelete_def
  by (rule agrees_pop [OF assms(4)], rule agrees_err_sprint [of X])
    (use assms needVar_known [OF assms(1, 2, 6)] in
      \<open>simp_all add: bindM_def [of "needVar _ _ _"] wantDict_bad agrees_raise\<close>)

lemma agrees_opMapSet:
  assumes "tracks X t s" "x \<in> X" "m_executed s = k" "m_stack s = u # w # st" "plain u" "envGet (i_env t) x = Some (VDict a)"
    and key: "\<And>op s'. m_heap s' = m_heap s \<Longrightarrow> sprintM op w s' = (Inr key, s')"
  shows "agrees (keeps st) X k (opMapSet c ip (instrS OpMapSet x) s)
    (bindI (dictAtI a) (\<lambda>m. thenI (setDictI a (put key u m)) (returnI VNil)) t)"
  unfolding opMapSet_def
proof (rule agrees_pop [OF assms(4)], rule agrees_pop)
  let ?s = "s\<lparr>m_stack := w # st, m_stack := st\<rparr>"
  have "agrees (keeps st) X k (bindM (dictAt a) (\<lambda>d. thenM (if lookup d key = None
      then thenM (chargeAlloc c 16 ip OpMapSet) (chargeAlloc c (int (length key)) ip OpMapSet) else returnM ())
      (setDict a (put key u d))) ?s) (bindI (dictAtI a) (\<lambda>m. thenI (setDictI a (put key u m)) (returnI VNil)) t)"
  proof (rule agrees_dictAt [of X])
    fix d :: dict assume "\<forall>(k, v) \<in> set d. plain v"
    with plain_put assms(5) have p: "\<forall>(k, v) \<in> set (put key u d). plain v" by blast
    have "agrees (keeps st) X k (setDict a (put key u d) (?s\<lparr>m_memoryBytes := m\<rparr>)) (thenI (setDictI a (put key u d)) (returnI VNil) t)" for m
      by (rule agrees_setDict [OF _ _ _ p]) (use assms in auto)
    from this this [of "m_memoryBytes s"] show "agrees (keeps st) X k (thenM (if lookup d key = None
      then thenM (chargeAlloc c 16 ip OpMapSet) (chargeAlloc c (int (length key)) ip OpMapSet) else returnM ())
      (setDict a (put key u d)) ?s) (thenI (setDictI a (put key u d)) (returnI VNil) t)"
      using assms(3) by (auto simp: bindM_assoc intro!: agrees_chargeAlloc)
  qed (use assms in simp)
  then show "agrees (keeps st) X k
      (bindM (sprintM (i_Op (instrS OpMapSet x)) w) (\<lambda>key. bindM (needVar ip (i_Op (instrS OpMapSet x)) (i_Str (instrS OpMapSet x)))
        (\<lambda>current. bindM (wantDict ip (i_Op (instrS OpMapSet x)) ''map_set'' current)
          (\<lambda>a. bindM (dictAt a) (\<lambda>d. thenM (if lookup d key = None
              then thenM (chargeAlloc c 16 ip (i_Op (instrS OpMapSet x))) (chargeAlloc c (int (length key)) ip (i_Op (instrS OpMapSet x)))
              else returnM ()) (setDict a (put key u d)))))) ?s)
      (bindI (dictAtI a) (\<lambda>m. thenI (setDictI a (put key u m)) (returnI VNil)) t)"
    by (simp add: bindM_def [of "needVar _ _ _"] bindM_def [of "sprintM _ _"] key needVar_known [OF assms(1, 2, 6)] wantDict_def
        cong: if_cong)
qed simp

lemma agrees_opMapSet_bad:
  assumes "tracks X t s" "x \<in> X" "m_executed s = k" "m_stack s = u # w # st" "plain w" "envGet (i_env t) x = Some v"
    and "(\<forall>a. v \<noteq> VDict a) \<or> sprintI w t = (Inl ICrash, t)" "q = ICrash \<or> (\<exists>e. q = IErr e)"
  shows "agrees L X k (opMapSet c ip (instrS OpMapSet x) s) (Inl q, t)"
  unfolding opMapSet_def
proof (rule agrees_pop [OF assms(4)], rule agrees_pop)
  have ev: "i_events t = m_events s" using assms(1) by (simp add: tracks_def)
  show "agrees L X k
      (bindM (sprintM (i_Op (instrS OpMapSet x)) w) (\<lambda>key. bindM (needVar ip (i_Op (instrS OpMapSet x)) (i_Str (instrS OpMapSet x)))
        (\<lambda>current. bindM (wantDict ip (i_Op (instrS OpMapSet x)) ''map_set'' current)
          (\<lambda>a. bindM (dictAt a) (\<lambda>d. thenM (if lookup d key = None
              then thenM (chargeAlloc c 16 ip (i_Op (instrS OpMapSet x))) (chargeAlloc c (int (length key)) ip (i_Op (instrS OpMapSet x)))
              else returnM ()) (setDict a (put key u d))))))
        (s\<lparr>m_stack := w # st, m_stack := st\<rparr>)) (Inl q, t)"
    using sprint_cases [OF assms(1, 5)]
  proof
    assume "\<exists>key. sprintI w t = (Inr key, t) \<and> (\<forall>op s'. m_heap s' = m_heap s \<longrightarrow> sprintM op w s' = (Inr key, s'))"
    with assms(7) obtain key where key: "\<And>op s'. m_heap s' = m_heap s \<Longrightarrow> sprintM op w s' = (Inr key, s')"
      and "\<forall>a. v \<noteq> VDict a" by auto
    then show ?thesis
      using assms(3, 8) ev
      by (simp add: bindM_def [of "needVar _ _ _"] bindM_def [of "sprintM _ _"] needVar_known [OF assms(1, 2, 6)] wantDict_bad)
        (auto simp: raise_def panicM_def failing_def intro!: agrees_fail)
  next
    assume "sprintI w t = (Inl ICrash, t) \<and> (\<forall>op s'. m_heap s' = m_heap s \<longrightarrow> sprintM op w s' = (Inl PCrash, s'))"
    then show ?thesis
      using assms(3, 8) ev by (auto simp: bindM_def [of "sprintM _ _"] failing_def intro!: agrees_fail)
  qed
qed simp

end
