(* ===== verification/SimRun.thy ===== *)
theory SimRun
  imports SimStmt
begin

text \<open>
  The compiled code of a statement does what the interpreter does, by the form of the statement; a whole
  program.
\<close>

subsection \<open>Simple statements\<close>

lemma simulates_loosen: "simulates pushes X E c ic insts w k n \<Longrightarrow> simulates keeps X E c ic insts w k n"
  by (auto simp: simulates_def intro: sim_loosen)

lemma keeps_refl [simp]: "keeps st v st"
  by (simp add: keeps_def)

lemma keeps_trans: "keeps st v st1 \<Longrightarrow> keeps st1 v' st2 \<Longrightarrow> keeps st v'' st2"
  by (auto simp: keeps_def)

text \<open>A statement that follows junk.\<close>

lemma sim_deeper: "simTo (keeps st1) X w c insts ip lb s e le out \<Longrightarrow> keeps st v st1 \<Longrightarrow> simTo (keeps st) X w c insts ip lb s e le out"
  by (erule sim_mono) (erule (1) keeps_trans [rotated])

lemma simulates_dict:
  assumes f: "form n ''dict'' []"
  shows "simulates pushes X E c ic insts w (Suc k) n"
proof (rule simulatesI)
  fix code ip lb s t
  assume *: "compileNode E n = Inr code" "placed insts ip (fst code)" "tracks X t s"
  from compile_form [OF f *(1)] obtain hn where "n_Value hn = ''dict''" "compileForm E (compileNode E) hn n = Inr code" by blast
  with compileForm_heads(7) f have code: "fst code = [instrI OpMakeDict 0]"
    by (auto simp: compileDict_def childrenFrom_def compileEach_def form_def result_simps joinCode_def Compile.emit_def childCount_def)
  have "sim (pushes (m_stack s)) X w c insts ip lb s (ip + 1) (newDictI [] t)"
    by (rule sim_handler [OF _ *(2) [unfolded code], of opMakeDict])
      (simp_all add: handled agrees_newDict tracks_executed *(3))
  with code show "sim (pushes (m_stack s)) X w c insts ip lb s (ip + int (length (fst code))) (eval (Suc k) ic n t)"
    by (simp add: eval_dict [OF f])
qed

lemma simulates_bindable:
  assumes "bindable X n" "paired c ic" "int (length insts) < 2 ^ 44" "size n < 2 ^ 44"
  shows "simulates pushes X E c ic insts w k n"
  using assms unfolding bindable_def
  by (cases k) (auto intro: simulates_no_fuel simulates_dict simulates_expr)

lemma compileLet_parts:
  assumes "form n ''let'' [b, body]" "binding b x e" "compileNode E n = Inr code"
  shows "\<exists>ce cb. compileNode E e = Inr ce \<and> compileNode E body = Inr cb \<and>
    fst code = fst ce @ [instrS OpStoreVar (n_Value x)] @ fst cb"
proof -
  from compile_form [OF assms(1, 3)] obtain hn where "n_Value hn = ''let''" "compileForm E (compileNode E) hn n = Inr code" by blast
  with compileForm_heads(1) have "compileLet (compileNode E) n = Inr code" by simp
  with assms(1, 2) show ?thesis
    by (auto simp: compileLet_def compileChild_def childValue_def childAt_def form_def binding_def result_simps joinCode_def Compile.emit_def)
qed

lemma binding_size: "form n h (b # as) \<Longrightarrow> binding b x e \<Longrightarrow> size e < size n"
  using form_size [of n h "b # as" b] child_smaller [of e b] by (auto simp: binding_def)

lemma simulates_let:
  assumes f: "form n ''let'' [b, body]" "binding b x e" "n_Value x \<notin> X"
    and sub: "simulates pushes X E c ic insts w k e" "simulates keeps (insert (n_Value x) X) E c ic insts w k body"
    and shape: "shaped (eval k ic body)"
  shows "simulates keeps X E c ic insts w (Suc k) n"
proof (rule simulatesI)
  fix code ip lb s t
  assume *: "compileNode E n = Inr code" "placed insts ip (fst code)" "tracks X t s"
    "w \<le> m_executed s + int (Suc k) - int (size n)"
  from compileLet_parts [OF f(1, 2) *(1)] obtain ce cb where code: "compileNode E e = Inr ce" "compileNode E body = Inr cb"
    "fst code = fst ce @ [instrS OpStoreVar (n_Value x)] @ fst cb" by blast
  let ?ip1 = "ip + int (length (fst ce))"
  from *(2) have p: "placed insts ip (fst ce)" "placed insts ?ip1 [instrS OpStoreVar (n_Value x)]" "placed insts (?ip1 + 1) (fst cb)"
    by (simp_all add: code placed_append placed_Cons [of _ _ _ "fst cb"])
  have size: "size e < size n" "size body < size n" using binding_size [OF f(1, 2)] form_size [OF f(1)] by auto
  let ?e = "?ip1 + 1 + int (length (fst cb))"
  have "sim (keeps (m_stack s)) X w c insts ip lb s ?e (eval (Suc k) ic n t)"
    unfolding eval_let [OF f(1, 2)]
  proof (rule sim_part [OF sub(1) code(1) p(1) *(3, 4) size(1) order_refl])
    fix v t1 s1
    assume s1: "pushes (m_stack s) v (m_stack s1)" "tracks X t1 s1" "m_executed s \<le> m_executed s1"
    show "sim (keeps (m_stack s)) X w c insts ?ip1 lb s1 ?e (inFrame [(n_Value x, v)] (eval k ic body) t1)"
    proof (rule sim_frame [OF _ shape f(3)], rule sim_store [OF p(2) s1(2)])
      fix s2
      assume s2: "tracks (insert (n_Value x) X) (t1\<lparr>i_env := [(n_Value x, v)] # i_env t1\<rparr>) s2" "m_stack s2 = m_stack s"
        "m_executed s2 = m_executed s1 + 1"
      with s1(3) have "m_executed s \<le> m_executed s2" by simp
      from simulatesD [OF sub(2) code(2) p(3) s2(1) fuel_below [OF *(4) size(2) this] refl, of lb] s2(2)
      show "sim (keeps (m_stack s)) (insert (n_Value x) X) w c insts (?ip1 + 1) lb s2 ?e
          (eval k ic body (t1\<lparr>i_env := [(n_Value x, v)] # i_env t1\<rparr>))" by simp
    qed (use s1 in \<open>simp_all add: pushes_def\<close>)
  qed
  with code show "sim (keeps (m_stack s)) X w c insts ip lb s (ip + int (length (fst code))) (eval (Suc k) ic n t)"
    by (simp add: ac_simps)
qed

text \<open>A construct of one operand and an instruction.\<close>

lemma simulates_after:
  assumes sub: "simulates pushes X E c ic insts w k a" and size: "size a < size n"
    and ev: "eval (Suc k) ic n = bindI (eval k ic a) rest"
    and comp: "\<And>code. compileNode E n = Inr code \<Longrightarrow> \<exists>ca. compileNode E a = Inr ca \<and> fst code = fst ca @ [inst]"
    and h: "handles (i_Op inst) h"
    and good: "\<And>v t s ip st. tracks X t s \<Longrightarrow> m_stack s = v # st \<Longrightarrow> plain v \<Longrightarrow>
      agrees (F st) X (m_executed s) (h c ip inst s) (rest v t)"
  shows "simulates F X E c ic insts w (Suc k) n"
proof (rule simulatesI)
  fix code ip lb s t
  assume *: "compileNode E n = Inr code" "placed insts ip (fst code)" "tracks X t s"
    "w \<le> m_executed s + int (Suc k) - int (size n)"
  from comp [OF *(1)] obtain ca where code: "compileNode E a = Inr ca" "fst code = fst ca @ [inst]" by blast
  let ?ip1 = "ip + int (length (fst ca))"
  from *(2) have p: "placed insts ip (fst ca)" "placed insts ?ip1 [inst]" by (simp_all add: code placed_append)
  have "sim (F (m_stack s)) X w c insts ip lb s (?ip1 + 1) (eval (Suc k) ic n t)"
    unfolding ev
  proof (rule sim_part [OF sub code(1) p(1) *(3, 4) size order_refl])
    fix v t1 s1
    assume s1: "pushes (m_stack s) v (m_stack s1)" "tracks X t1 s1"
    have "agrees (F (m_stack s)) X (m_executed (gated ?ip1 s1)) (h c ?ip1 inst (gated ?ip1 s1)) (rest v t1)"
      by (rule good [OF tracks_executed [OF s1(2)]]) (use s1(1) in \<open>simp_all add: pushes_def\<close>)
    then show "sim (F (m_stack s)) X w c insts ?ip1 lb s1 (?ip1 + 1) (rest v t1)"
      by (intro sim_handler [OF h p(2)]) simp
  qed
  with code show "sim (F (m_stack s)) X w c insts ip lb s (ip + int (length (fst code))) (eval (Suc k) ic n t)"
    by (simp add: ac_simps)
qed

lemma simulates_set:
  assumes f: "form n ''set'' [x, e]" "n_Value x \<in> X" and sub: "simulates pushes X E c ic insts w k e"
  shows "simulates keeps X E c ic insts w (Suc k) n"
proof (rule simulates_after [OF sub _ eval_set [OF f(1)]])
  fix code assume "compileNode E n = Inr code"
  from compile_form [OF f(1) this] obtain hn where "n_Value hn = ''set''" "compileForm E (compileNode E) hn n = Inr code" by blast
  with compileForm_heads(16) f(1) have "compileThen (compileNode E) n [2] [instrS OpSetVar (n_Value x)] = Inr code"
    by (auto simp: childValue_def childAt_def form_def)
  from compileThen_second [OF f(1) this]
  show "\<exists>ca. compileNode E e = Inr ca \<and> fst code = fst ca @ [instrS OpSetVar (n_Value x)]" .
next
  show "handles (i_Op (instrS OpSetVar (n_Value x))) opSetVar" by (simp add: handled)
qed (use form_size [OF f(1)] f(2) in \<open>auto intro: agrees_opSet\<close>)

lemma simulates_stderr:
  assumes f: "form n ''stderr'' [a]" and "paired c ic" and sub: "simulates pushes X E c ic insts w k a"
  shows "simulates keeps X E c ic insts w (Suc k) n"
proof (rule simulates_after [OF sub _ eval_stderr [OF f(1)]])
  fix code assume "compileNode E n = Inr code"
  from compile_form [OF f(1) this] obtain hn where "n_Value hn = ''stderr''" "compileForm E (compileNode E) hn n = Inr code" by blast
  with compileForm_heads(12) have "compileThen (compileNode E) n [Suc 0] [instr OpStderr] = Inr code" by simp
  from compileThen_one [OF f(1) this] show "\<exists>ca. compileNode E a = Inr ca \<and> fst code = fst ca @ [instr OpStderr]" .
next
  show "handles (i_Op (instr OpStderr)) opStderr" by (simp add: handled)
qed (use form_size [OF f(1)] assms(2) in \<open>auto intro: agrees_stderr\<close>)

lemma simulates_return:
  assumes f: "form n ''return'' [a]" and sub: "simulates pushes X E c ic insts w k a"
  shows "simulates keeps X E c ic insts w (Suc k) n"
proof (rule simulates_after [OF sub _ eval_return [OF f(1)]])
  fix code assume "compileNode E n = Inr code"
  from compile_form [OF f(1) this] obtain hn where "n_Value hn = ''return''" "compileForm E (compileNode E) hn n = Inr code" by blast
  with compileForm_heads(17) f(1) have "compileThen (compileNode E) n [Suc 0] [instr OpReturn] = Inr code"
    by (auto simp: form_def)
  from compileThen_one [OF f(1) this] show "\<exists>ca. compileNode E a = Inr ca \<and> fst code = fst ca @ [instr OpReturn]" .
next
  show "handles (i_Op (instr OpReturn)) opReturn" by (simp add: handled)
qed (use form_size [OF f(1)] in \<open>auto intro: agrees_opReturn\<close>)

lemma simulates_append:
  assumes f: "form n ''append'' [l, a]" "isSymbolNode l" "n_Value l \<in> X" "expr X a"
    and sub: "\<And>w k. simulates pushes X E c ic insts w k a"
  shows "simulates keeps X E c ic insts w (Suc k) n"
proof (rule simulates_named [OF f(3, 4) _ sub eval_append [OF f(1, 2)] _ _ want_cases(2)])
  fix code assume "compileNode E n = Inr code"
  from compile_form [OF f(1) this] obtain hn where "n_Value hn = ''append''" "compileForm E (compileNode E) hn n = Inr code" by blast
  with compileForm_heads(4) have "compileNamed (compileNode E) n [2] OpAppend = Inr code" by simp
  from compileNamed_one [OF f(1) this] show "\<exists>ca. compileNode E a = Inr ca \<and> fst code = fst ca @ [instrS OpAppend (n_Value l)]" .
next
  show "handles (i_Op (instrS OpAppend (n_Value l))) opAppend" by (simp add: handled)
qed (use form_size [OF f(1)] f in \<open>auto intro: agrees_opAppend agrees_opAppend_bad dest: want_fails\<close>)

lemma simulates_mapDelete:
  assumes f: "form n ''map_delete'' [d, a]" "isSymbolNode d" "n_Value d \<in> X" "expr X a"
    and sub: "\<And>w k. simulates pushes X E c ic insts w k a"
  shows "simulates keeps X E c ic insts w (Suc k) n"
proof (rule simulates_named [OF f(3, 4) _ sub eval_mapDelete [OF f(1, 2)] _ _ want_cases(1)])
  fix code assume "compileNode E n = Inr code"
  from compile_form [OF f(1) this] obtain hn where "n_Value hn = ''map_delete''" "compileForm E (compileNode E) hn n = Inr code" by blast
  with compileForm_heads(3) have "compileNamed (compileNode E) n [2] OpMapDelete = Inr code" by simp
  from compileNamed_one [OF f(1) this] show "\<exists>ca. compileNode E a = Inr ca \<and> fst code = fst ca @ [instrS OpMapDelete (n_Value d)]" .
next
  show "handles (i_Op (instrS OpMapDelete (n_Value d))) opMapDelete" by (simp add: handled)
qed (use form_size [OF f(1)] f in \<open>auto intro: agrees_opMapDelete agrees_opMapDelete_bad dest: want_fails\<close>)

lemma simulates_print:
  assumes f: "form n ''print'' args" and "paired c ic" and sub: "\<forall>a \<in> set args. simulates pushes X E c ic insts w k a"
  shows "simulates keeps X E c ic insts w (Suc k) n"
proof (rule simulatesI)
  fix code ip lb s t
  assume *: "compileNode E n = Inr code" "placed insts ip (fst code)" "tracks X t s"
    "w \<le> m_executed s + int (Suc k) - int (size n)"
  let ?i = "instrI OpPrint (int (length args))"
  let ?rest = "\<lambda>vs. bindI (traverseI textI vs) (\<lambda>out. thenI (emitI ic (EOut (join '' '' out @ [CHR 0x0A]))) (returnI VNil))"
  from compile_form [OF f *(1)] obtain hn where "n_Value hn = ''print''" "compileForm E (compileNode E) hn n = Inr code" by blast
  with compileForm_heads(11) form_arity [OF f]
  have "compileRest (compileNode E) n (Suc 0) [?i] = Inr code" by (simp add: childCount_def arity_def)
  from compileRest_all [OF f this] obtain cs where
    code: "traverse (compileNode E) args = Inr cs" "fst code = concat (map fst cs) @ [?i]" by blast
  let ?ip1 = "ip + int (length (concat (map fst cs)))"
  from *(2) have p: "placed insts ip (concat (map fst cs))" "placed insts ?ip1 [?i]" by (simp_all add: code placed_append)
  have "sim (keeps (m_stack s)) X w c insts ip lb s (?ip1 + 1) (eval (Suc k) ic n t)"
    unfolding eval_print [OF f]
  proof (rule sim_bind [where f = "traverseI (eval k ic) args" and m = ?ip1])
    show "sim (pushesAll (m_stack s)) X w c insts ip lb s ?ip1 (traverseI (eval k ic) args t)"
      by (rule sim_all [OF sub code(1) p(1) *(3) order_refl _ *(4)]) (simp add: form_size [OF f])
  next
    fix vs t1 s1
    assume s1: "traverseI (eval k ic) args t = (Inr vs, t1)" "pushesAll (m_stack s) vs (m_stack s1)" "tracks X t1 s1"
    have "agrees (keeps (m_stack s)) X (m_executed s1 + 1) (opPrint c ?ip1 (instrI OpPrint (int (length vs))) (gated ?ip1 s1)) (?rest vs t1)"
      by (rule agrees_print [OF assms(2) tracks_executed [OF s1(3)]]) (use s1(2) in \<open>simp_all add: pushesAll_def\<close>)
    with traverseI_length [OF s1(1)] show "sim (keeps (m_stack s)) X w c insts ?ip1 lb s1 (?ip1 + 1) (?rest vs t1)"
      by (intro sim_handler [OF _ p(2), of opPrint]) (simp_all add: handled)
  qed
  with code show "sim (keeps (m_stack s)) X w c insts ip lb s (ip + int (length (fst code))) (eval (Suc k) ic n t)"
    by (simp add: ac_simps)
qed

text \<open>The two operands of \<open>map_set\<close>; the collection and the text of the key may be wrong, which the
  machine notices after both.\<close>

lemma simulates_mapSet:
  assumes f: "form n ''map_set'' [d, a, b]" "isSymbolNode d" "n_Value d \<in> X" "expr X a" "expr X b"
    and sub: "\<And>w k. simulates pushes X E c ic insts w k a" "\<And>w k. simulates pushes X E c ic insts w k b"
  shows "simulates keeps X E c ic insts w (Suc k) n"
proof (rule simulatesI)
  fix code ip lb s t
  assume *: "compileNode E n = Inr code" "placed insts ip (fst code)" "tracks X t s"
    "w \<le> m_executed s + int (Suc k) - int (size n)"
  let ?i = "instrS OpMapSet (n_Value d)"
  from compile_form [OF f(1) *(1)] obtain hn where "n_Value hn = ''map_set''" "compileForm E (compileNode E) hn n = Inr code" by blast
  with compileForm_heads(2) have "compileNamed (compileNode E) n [2, 3] OpMapSet = Inr code" by simp
  from compileNamed_two [OF f(1) this] obtain ca cb where code: "compileNode E a = Inr ca" "compileNode E b = Inr cb"
    "fst code = fst ca @ fst cb @ [?i]" by blast
  let ?ip1 = "ip + int (length (fst ca))" and ?ip2 = "ip + int (length (fst ca)) + int (length (fst cb))"
  from *(2) have p: "placed insts ip (fst ca)" "placed insts ?ip1 (fst cb)" "placed insts ?ip2 [?i]"
    by (simp_all add: code placed_append add.assoc)
  have size: "size a < size n" "size b < size n" using form_size [OF f(1)] by auto
  from tracks_var [OF *(3) f(3)] obtain v where v: "envGet (i_env t) (n_Value d) = Some v" "plain v" by blast
  have last: "sim (keeps (m_stack s)) X w c insts ?ip2 lb s2 (?ip2 + 1) (Inl q, t)"
    if "tracks X t s2" "m_stack s2 = u # y # m_stack s" "plain y" "(\<forall>r. v \<noteq> VDict r) \<or> sprintI y t = (Inl ICrash, t)"
      "q = ICrash \<or> (\<exists>e. q = IErr e)" for s2 u y q
    by (rule sim_handler [OF _ p(3), of opMapSet], simp add: handled,
        rule agrees_opMapSet_bad [OF tracks_executed [OF that(1)] f(3) _ _ that(3) v(1) that(4, 5)])
      (simp_all add: that(2))
  have value_fails: "sim (keeps (m_stack s)) X w c insts ?ip1 lb s1 (?ip2 + 1) (Inl q, t)"
    if "tracks X t s1" "m_stack s1 = y # m_stack s" "plain y" "(\<forall>r. v \<noteq> VDict r) \<or> sprintI y t = (Inl ICrash, t)"
      "q = ICrash \<or> (\<exists>e. q = IErr e)" for s1 y q
    by (rule sim_calm_fail [OF sub(2) [of "m_executed s1" "size b"] calm_eval [OF f(5)] code(2) p(2) that(1) _ that(5)])
      (auto intro!: last [OF _ _ that(3-5)] simp: that(2))
  have "sim (keeps (m_stack s)) X w c insts ip lb s (?ip2 + 1) (eval (Suc k) ic n t)"
    unfolding eval_mapSet [OF f(1, 2)] need_known [OF v(1)]
  proof (cases "\<exists>r. v = VDict r")
    case False
    with want_cases(1) obtain reason node where r: "wantDictI ''map_set'' v d = InterpErr reason node"
      by (metis want_returns(1))
    have "sim (keeps (m_stack s)) X w c insts ip lb s (?ip2 + 1) (InterpErr reason node t)"
      unfolding err_at
      by (rule sim_calm_fail [OF sub(1) [of "m_executed s" "size a"] calm_eval [OF f(4)] code(1) p(1) *(3)])
        (use False in \<open>auto intro!: value_fails\<close>)
    with r show "sim (keeps (m_stack s)) X w c insts ip lb s (?ip2 + 1) (bindI (wantDictI ''map_set'' v d) (\<lambda>r. bindI (eval k ic a) (\<lambda>w.
        bindI (sprintI w) (\<lambda>key. bindI (eval k ic b) (\<lambda>u. bindI (dictAtI r) (\<lambda>m. thenI (setDictI r (put key u m)) (returnI VNil)))))) t)"
      by simp
  next
    case True
    then obtain r where r: "v = VDict r" by blast
    have "sim (keeps (m_stack s)) X w c insts ip lb s (?ip2 + 1) (bindI (eval k ic a) (\<lambda>w. bindI (sprintI w) (\<lambda>key.
        bindI (eval k ic b) (\<lambda>u. bindI (dictAtI r) (\<lambda>m. thenI (setDictI r (put key u m)) (returnI VNil))))) t)"
    proof (rule sim_part [OF sub(1) code(1) p(1) *(3, 4) size(1) order_refl])
      fix y t1 s1
      assume s1: "eval k ic a t = (Inr y, t1)" "pushes (m_stack s) y (m_stack s1)" "tracks X t1 s1" "m_executed s \<le> m_executed s1"
      have t1: "t1 = t" by (rule calm_unchanged [OF f(4) s1(1)])
      have y: "m_stack s1 = y # m_stack s" "plain y" using s1(2) by (simp_all add: pushes_def)
      show "sim (keeps (m_stack s)) X w c insts ?ip1 lb s1 (?ip2 + 1) (bindI (sprintI y) (\<lambda>key.
          bindI (eval k ic b) (\<lambda>u. bindI (dictAtI r) (\<lambda>m. thenI (setDictI r (put key u m)) (returnI VNil)))) t1)"
        using sprint_cases [OF s1(3) y(2)]
      proof
        assume "sprintI y t1 = (Inl ICrash, t1) \<and> (\<forall>op s'. m_heap s' = m_heap s1 \<longrightarrow> sprintM op y s' = (Inl PCrash, s'))"
        with value_fails [of s1 y ICrash] s1(3) y t1 show ?thesis by (simp add: bindI_def)
      next
        assume "\<exists>key. sprintI y t1 = (Inr key, t1) \<and> (\<forall>op s'. m_heap s' = m_heap s1 \<longrightarrow> sprintM op y s' = (Inr key, s'))"
        then obtain key where key: "sprintI y t1 = (Inr key, t1)" by blast
        have "sim (keeps (m_stack s)) X w c insts ?ip1 lb s1 (?ip2 + 1)
            (bindI (eval k ic b) (\<lambda>u. bindI (dictAtI r) (\<lambda>m. thenI (setDictI r (put key u m)) (returnI VNil))) t1)"
        proof (rule sim_part [OF sub(2) code(2) p(2) s1(3) *(4) size(2) s1(4)])
          fix u t2 s2
          assume s2: "eval k ic b t1 = (Inr u, t2)" "pushes (m_stack s1) u (m_stack s2)" "tracks X t2 s2"
          have t2: "t2 = t1" by (rule calm_unchanged [OF f(5) s2(1)])
          from sprint_cases [OF s2(3) y(2)] key t2
          have print: "sprintM op y s' = (Inr key, s')" if "m_heap s' = m_heap s2" for op s' using that by auto
          have "agrees (keeps (m_stack s)) X (m_executed s2 + 1) (opMapSet c ?ip2 ?i (gated ?ip2 s2))
              (bindI (dictAtI r) (\<lambda>m. thenI (setDictI r (put key u m)) (returnI VNil)) t2)"
            by (rule agrees_opMapSet [OF tracks_executed [OF s2(3)] f(3)])
              (use s2(2) y(1) v(1) r t1 t2 print in \<open>simp_all add: pushes_def\<close>)
          then show "sim (keeps (m_stack s)) X w c insts ?ip2 lb s2 (?ip2 + 1)
              (bindI (dictAtI r) (\<lambda>m. thenI (setDictI r (put key u m)) (returnI VNil)) t2)"
            by (intro sim_handler [OF _ p(3), of opMapSet]) (simp_all add: handled)
        qed
        with key show ?thesis by (simp add: bindI_def)
      qed
    qed
    with r show "sim (keeps (m_stack s)) X w c insts ip lb s (?ip2 + 1) (bindI (wantDictI ''map_set'' v d) (\<lambda>r. bindI (eval k ic a) (\<lambda>w.
        bindI (sprintI w) (\<lambda>key. bindI (eval k ic b) (\<lambda>u. bindI (dictAtI r) (\<lambda>m. thenI (setDictI r (put key u m)) (returnI VNil)))))) t)"
      by (simp add: wantDictI_def)
  qed
  with code show "sim (keeps (m_stack s)) X w c insts ip lb s (ip + int (length (fst code))) (eval (Suc k) ic n t)"
    by (simp add: ac_simps)
qed

subsection \<open>Sequences and branches\<close>

lemma sim_seq:
  assumes "\<forall>a \<in> set ns. simulates keeps X E c ic insts w k a" "traverse (compileNode E) ns = Inr cs"
    "placed insts ip (concat (map fst cs))" "tracks X t s" "m0 \<le> m_executed s"
    "\<forall>a \<in> set ns. size a < size n" "w \<le> m0 + int (Suc k) - int (size n)"
  shows "sim (keeps (m_stack s)) X w c insts ip lb s (ip + int (length (concat (map fst cs)))) (evalSeq (eval k ic) ns r t)"
  using assms
proof (induction ns arbitrary: cs ip s t r)
  case Nil
  then show ?case by (auto simp: returnI_def intro!: sim_done)
next
  case (Cons a ns)
  from Cons.prems(2) obtain ca cs' where c: "compileNode E a = Inr ca" "traverse (compileNode E) ns = Inr cs'" "cs = ca # cs'"
    by (auto simp: result_simps)
  let ?ip1 = "ip + int (length (fst ca))"
  let ?e = "?ip1 + int (length (concat (map fst cs')))"
  from Cons.prems(3) have p: "placed insts ip (fst ca)" "placed insts ?ip1 (concat (map fst cs'))"
    by (simp_all add: c(3) placed_append)
  have "sim (keeps (m_stack s)) X w c insts ip lb s ?e (evalSeq (eval k ic) (a # ns) r t)"
    unfolding evalSeq.simps
  proof (rule sim_part [OF _ c(1) p(1) Cons.prems(4, 7)])
    fix v :: val and t1 s1
    assume s1: "keeps (m_stack s) v (m_stack s1)" "tracks X t1 s1" "m_executed s \<le> m_executed s1"
    show "sim (keeps (m_stack s)) X w c insts ?ip1 lb s1 ?e (evalSeq (eval k ic) ns v t1)"
      using Cons.prems s1 by (intro sim_deeper [OF Cons.IH [OF _ c(2) p(2) s1(2)] s1(1)]) auto
  qed (use Cons.prems in auto)
  with c(3) show ?case by (simp add: add.assoc)
qed

lemma simulates_block:
  assumes f: "form n ''do'' ns" and sub: "\<forall>a \<in> set ns. simulates keeps X E c ic insts w k a"
  shows "simulates keeps X E c ic insts w (Suc k) n"
proof (rule simulatesI)
  fix code ip lb s t
  assume *: "compileNode E n = Inr code" "placed insts ip (fst code)" "tracks X t s"
    "w \<le> m_executed s + int (Suc k) - int (size n)"
  from compile_form [OF f *(1)] obtain hn where "n_Value hn = ''do''" "compileForm E (compileNode E) hn n = Inr code" by blast
  with compileForm_heads(8) have "compileRest (compileNode E) n (Suc 0) [] = Inr code" by simp
  from compileRest_all [OF f this] obtain cs where code: "traverse (compileNode E) ns = Inr cs" "fst code = concat (map fst cs)" by auto
  show "sim (keeps (m_stack s)) X w c insts ip lb s (ip + int (length (fst code))) (eval (Suc k) ic n t)"
    using *(2) unfolding eval_do [OF f] code(2)
    by (intro sim_seq [OF sub code(1) _ *(3) order_refl _ *(4)]) (simp_all add: form_size [OF f])
qed

lemma compileIf_two:
  assumes "form n ''if'' [a, b]" "compileNode E n = Inr code"
  shows "\<exists>ca cb. compileNode E a = Inr ca \<and> compileNode E b = Inr cb \<and>
    fst code = fst ca @ [instrI OpJumpIfFalse (int (length (fst cb)) + 1)] @ fst cb"
proof -
  from compile_form [OF assms] obtain hn where "n_Value hn = ''if''" "compileForm E (compileNode E) hn n = Inr code" by blast
  with compileForm_heads(13) have "compileIf (compileNode E) n = Inr code" by simp
  with assms(1) show ?thesis
    by (auto simp: compileIf_def compileChild_def childAt_def form_def result_simps joinCode_def Compile.emit_def codeLen_def)
qed

lemma simulates_unless:
  assumes f: "form n ''if'' [a, b]" and bound: "int (length insts) < 2 ^ 44"
    and sub: "simulates pushes X E c ic insts w k a" "simulates keeps X E c ic insts w k b"
  shows "simulates keeps X E c ic insts w (Suc k) n"
proof (rule simulatesI)
  fix code ip lb s t
  assume *: "compileNode E n = Inr code" "placed insts ip (fst code)" "tracks X t s"
    "w \<le> m_executed s + int (Suc k) - int (size n)"
  from compileIf_two [OF f *(1)] obtain ca cb where c: "compileNode E a = Inr ca" "compileNode E b = Inr cb"
    and code: "fst code = fst ca @ [instrI OpJumpIfFalse (int (length (fst cb)) + 1)] @ fst cb" by blast
  let ?la = "int (length (fst ca))" and ?lb = "int (length (fst cb))"
  let ?e = "ip + ?la + ?lb + 1"
  from *(2) have p: "placed insts ip (fst ca)" "placed insts (ip + ?la) [instrI OpJumpIfFalse (?lb + 1)]"
    "placed insts (ip + ?la + 1) (fst cb)"
    by (simp_all add: code placed_simps placed_tail ac_simps)
  have range: "0 \<le> ip" "?e < 2 ^ 44" using placed_end [OF *(2)] bound by (simp_all add: code)
  have go: "goInt (ip + ?la + (?lb + 1)) = ?e" using range by (simp add: goInt_small)
  have size: "size a < size n" "size b < size n" using form_size [OF f] by auto
  have "sim (keeps (m_stack s)) X w c insts ip lb s ?e (eval (Suc k) ic n t)"
    unfolding eval_when [OF f]
  proof (rule sim_part [OF sub(1) c(1) p(1) *(3, 4) size(1) order_refl])
    fix v t1 s1
    assume s1: "pushes (m_stack s) v (m_stack s1)" "tracks X t1 s1" "m_executed s \<le> m_executed s1"
    show "sim (keeps (m_stack s)) X w c insts (ip + ?la) lb s1 ?e
        (bindI (ToBoolI v a) (\<lambda>x. if x then eval k ic b else returnI VNil) t1)"
    proof (rule sim_branch [OF p(2) go s1(2)])
      show "m_stack s1 = v # m_stack s" using s1(1) by (simp add: pushes_def)
    next
      fix x s2
      assume s2: "tracks X t1 s2" "m_stack s2 = m_stack s" "m_executed s2 = m_executed s1 + 1"
      with s1 have "m_executed s \<le> m_executed s2" by simp
      from simulatesD [OF sub(2) c(2) p(3) s2(1) fuel_below [OF *(4) size(2) this], of ?e] s2
      show "sim (keeps (m_stack s)) X w c insts (if x then ip + ?la + 1 else ?e) lb s2 ?e ((if x then eval k ic b else returnI VNil) t1)"
        by (auto simp: returnI_def intro: sim_done)
    qed
  qed
  with code show "sim (keeps (m_stack s)) X w c insts ip lb s (ip + int (length (fst code))) (eval (Suc k) ic n t)"
    by (simp add: ac_simps)
qed

end
