(* ===== verification/SimLoop.thy ===== *)
theory SimLoop
  imports SimRun
begin

text \<open>
  Loops, and all statements together. The machine keeps the index of a \<open>for\<close> on the stack as a float,
  which is exact as long as the instruction limit is below \<open>2\<^sup>53\<close>.
\<close>

subsection \<open>Loop indices\<close>

lemma intLog2_bound: "1 \<le> n \<Longrightarrow> 2 ^ nat (intLog2 n) \<le> n \<and> 0 \<le> intLog2 n"
proof (induction n rule: intLog2.induct)
  case (1 n)
  show ?case
  proof (cases "n < 2")
    case True
    with 1(2) show ?thesis by (simp add: intLog2.simps [of n])
  next
    case False
    with 1 have ih: "2 ^ nat (intLog2 (n div 2)) \<le> n div 2" "0 \<le> intLog2 (n div 2)" by auto
    then have "2 ^ nat (1 + intLog2 (n div 2)) = 2 * (2 ^ nat (intLog2 (n div 2)) :: int)" by (simp add: nat_add_distrib)
    moreover have "2 * (n div 2) \<le> n" by simp
    ultimately have "2 ^ nat (1 + intLog2 (n div 2)) \<le> n" using ih(1) by linarith
    with ih(2) False show ?thesis by (simp add: intLog2.simps [of n])
  qed
qed

lemma ilog2_int: "1 \<le> i \<Longrightarrow> i < 2 ^ 53 \<Longrightarrow> ilog2 (of_int i) \<le> 52"
proof -
  assume i: "1 \<le> i" "i < 2 ^ 53"
  have "intLog2 i \<le> 52"
  proof (rule ccontr)
    assume "\<not> intLog2 i \<le> 52"
    then have "53 \<le> nat (intLog2 i)" by simp
    then have "(2 :: int) ^ 53 \<le> 2 ^ nat (intLog2 i)" by (rule power_increasing) simp
    with intLog2_bound [OF i(1)] i(2) show False by simp
  qed
  then show ?thesis by (simp add: ilog2_def quotient_of_int intLog2.simps [of 1] Let_def)
qed

lemma roundHalfEven_int: "roundHalfEven (of_int n) = n"
  by (simp add: roundHalfEven_def)

text \<open>The integers below \<open>2\<^sup>53\<close> are exact.\<close>

lemma f64_of_int_exact:
  assumes "0 \<le> i" "i < 2 ^ 53"
  shows "f64_of_int i = F_fin (of_int i)"
proof (cases "i = 0")
  case True
  then show ?thesis by (simp add: f64_of_int_def roundF64_def zeroF_def)
next
  case False
  with assms have i: "1 \<le> i" by simp
  let ?e = "max (- 1074) (ilog2 (of_int i) - 52)"
  have e: "- ?e \<ge> 0" using ilog2_int [OF i assms(2)] by simp
  have p: "pow2 ?e = 1 / 2 ^ nat (- ?e)"
    by (cases "?e = 0") (use e in \<open>simp_all only: pow2_def, auto\<close>)
  then have q: "of_int i / pow2 ?e = of_int (i * 2 ^ nat (- ?e))" by simp
  have "of_int (roundHalfEven (of_int i / pow2 ?e)) * pow2 ?e = of_int i"
    unfolding q roundHalfEven_int unfolding p by simp
  moreover have "(of_int i :: rat) < 2 ^ 1024"
  proof -
    have "(of_int i :: rat) < of_int (2 ^ 53)" using assms(2) by (simp only: of_int_less_iff)
    also have "\<dots> \<le> 2 ^ 1024" by simp
    finally show ?thesis .
  qed
  ultimately show ?thesis
    using i by (simp add: f64_of_int_def roundF64_def Let_def)
qed

subsection \<open>While\<close>

lemma compileWhile_parts:
  assumes "form n ''while'' [a, b]" "compileNode E n = Inr code"
  shows "\<exists>ca cb. compileNode E a = Inr ca \<and> compileNode E b = Inr cb \<and>
    fst code = fst ca @ [instrI OpJumpIfFalse (int (length (fst cb)) + 2)] @ fst cb @
      [instrI OpJump (- (int (length (fst ca)) + 1 + int (length (fst cb))))]"
proof -
  from compile_form [OF assms] obtain hn where "n_Value hn = ''while''" "compileForm E (compileNode E) hn n = Inr code" by blast
  with compileForm_heads(14) have "compileWhile (compileNode E) n = Inr code" by simp
  with assms(1) show ?thesis
    by (auto simp: compileWhile_def compileChild_def childAt_def form_def result_simps joinCode_def Compile.emit_def codeLen_def)
qed

lemma simulates_while:
  assumes f: "form n ''while'' [a, b]" and bound: "int (length insts) < 2 ^ 44"
    and sub: "simulates pushes X E c ic insts w k a" "simulates keeps X E c ic insts w k b"
  shows "simulates keeps X E c ic insts w (Suc k) n"
proof (rule simulatesI)
  fix code ip lb s t
  assume *: "compileNode E n = Inr code" "placed insts ip (fst code)" "tracks X t s"
    "w \<le> m_executed s + int (Suc k) - int (size n)"
  from compileWhile_parts [OF f *(1)] obtain ca cb where c: "compileNode E a = Inr ca" "compileNode E b = Inr cb"
    and code: "fst code = fst ca @ [instrI OpJumpIfFalse (int (length (fst cb)) + 2)] @ fst cb @
      [instrI OpJump (- (int (length (fst ca)) + 1 + int (length (fst cb))))]" by blast
  let ?la = "int (length (fst ca))" and ?lb = "int (length (fst cb))"
  let ?e = "ip + ?la + ?lb + 2"
  from *(2) have p: "placed insts ip (fst ca)" "placed insts (ip + ?la) [instrI OpJumpIfFalse (?lb + 2)]"
    "placed insts (ip + ?la + 1) (fst cb)" "placed insts (ip + ?la + 1 + ?lb) [instrI OpJump (- (?la + 1 + ?lb))]"
    by (simp_all add: code placed_simps ac_simps)
  have range: "0 \<le> ip" "?e < 2 ^ 44" using placed_end [OF *(2)] bound by (simp_all add: code)
  have go: "goInt (ip + ?la + (?lb + 2)) = ?e" "goInt (ip + ?la + 1 + ?lb + (- (?la + 1 + ?lb))) = ip"
    using range by (simp_all add: goInt_small)
  have size: "size a < size n" "size b < size n" "0 < size n" using form_size [OF f] by force+
  have loop: "sim (keeps (m_stack s1)) X w c insts ip lb s1 ?e (whileLoop (eval k ic) n j t1)"
    if "tracks X t1 s1" "m_executed s \<le> m_executed s1" "w \<le> m_executed s1 + int j" for j s1 t1
    using that
  proof (induction j arbitrary: s1 t1)
    case 0
    then show ?case by (simp add: panicI_def sim_idle)
  next
    case (Suc j)
    show ?case
      unfolding whileLoop_form [OF f]
    proof (rule sim_part [OF sub(1) c(1) p(1) Suc.prems(1) *(4) size(1) Suc.prems(2)])
      fix v t2 s2
      assume s2: "pushes (m_stack s1) v (m_stack s2)" "tracks X t2 s2" "m_executed s1 \<le> m_executed s2"
      show "sim (keeps (m_stack s1)) X w c insts (ip + ?la) lb s2 ?e
          (bindI (ToBoolI v a) (\<lambda>x. if x then bindI (eval k ic b) (\<lambda>_. whileLoop (eval k ic) n j) else returnI VNil) t2)"
      proof (rule sim_branch [OF p(2) go(1) s2(2)])
        show "m_stack s2 = v # m_stack s1" using s2(1) by (simp add: pushes_def)
      next
        fix x s3
        assume s3: "tracks X t2 s3" "m_stack s3 = m_stack s1" "m_executed s3 = m_executed s2 + 1"
        have body: "sim (keeps (m_stack s1)) X w c insts (ip + ?la + 1) lb s3 ?e
            (bindI (eval k ic b) (\<lambda>_. whileLoop (eval k ic) n j) t2)"
        proof (rule sim_part [OF sub(2) c(2) p(3) s3(1) *(4) size(2)])
          fix u :: val and t4 s4
          assume s4: "keeps (m_stack s3) u (m_stack s4)" "tracks X t4 s4" "m_executed s3 \<le> m_executed s4"
          show "sim (keeps (m_stack s1)) X w c insts (ip + ?la + 1 + ?lb) lb s4 ?e (whileLoop (eval k ic) n j t4)"
          proof (rule sim_jump [OF p(4) go(2) s4(2)])
            fix s5
            assume s5: "tracks X t4 s5" "m_stack s5 = m_stack s4" "m_executed s5 = m_executed s4 + 1"
            show "sim (keeps (m_stack s1)) X w c insts ip lb s5 ?e (whileLoop (eval k ic) n j t4)"
              by (rule sim_deeper [OF Suc.IH [OF s5(1)], where v = u])
                (use s2 s3 s4 s5 Suc.prems in simp_all)
          qed
        qed (use s2 s3 Suc.prems in simp)
        have "sim (keeps (m_stack s1)) X w c insts ?e lb s3 ?e (returnI VNil t2)"
          unfolding returnI_def using s3 by (intro sim_done) simp_all
        with body show "sim (keeps (m_stack s1)) X w c insts (if x then ip + ?la + 1 else ?e) lb s3 ?e
            ((if x then bindI (eval k ic b) (\<lambda>_. whileLoop (eval k ic) n j) else returnI VNil) t2)"
          by simp
      qed
    qed
  qed
  have "sim (keeps (m_stack s)) X w c insts ip lb s ?e (eval (Suc k) ic n t)"
    unfolding eval_while [OF f] by (rule loop [OF *(3)]) (use *(4) size(3) in simp_all)
  with code show "sim (keeps (m_stack s)) X w c insts ip lb s (ip + int (length (fst code))) (eval (Suc k) ic n t)"
    by (simp add: ac_simps)
qed

subsection \<open>For\<close>

definition forNext :: "string \<Rightarrow> int \<Rightarrow> BCInstruction" where
  "forNext x d = (instrS OpForNext x)\<lparr>i_Int := d\<rparr>"

lemma forNext_fields [simp]: "i_Op (forNext x d) = OpForNext" "i_Str (forNext x d) = x" "i_Int (forNext x d) = d"
  by (simp_all add: forNext_def)

lemma compileFor_parts:
  assumes "form n ''for'' [x, l, b]" "compileNode E n = Inr code"
  shows "\<exists>cl cb. compileNode E l = Inr cl \<and> compileNode E b = Inr cb \<and>
    fst code = fst cl @ [instr OpForInit] @ [forNext (n_Value x) (int (length (fst cb)) + 2)] @ fst cb @
      [instrI OpJump (- (int (length (fst cb)) + 1))]"
proof -
  from compile_form [OF assms] obtain hn where "n_Value hn = ''for''" "compileForm E (compileNode E) hn n = Inr code" by blast
  with compileForm_heads(15) have "compileFor (compileNode E) n = Inr code" by simp
  with assms(1) show ?thesis
    by (auto simp: compileFor_def compileChild_def childValue_def childAt_def form_def result_simps joinCode_def Compile.emit_def
        codeLen_def forNext_def)
qed

lemma sim_for_init:
  assumes "placed insts ip [instr OpForInit]" "tracks X t s" "m_stack s = v # st" "plain v"
    and "\<And>xs s1. v = VList xs \<Longrightarrow> tracks X t s1 \<Longrightarrow> m_stack s1 = VFloat (F_fin 0) # v # st \<Longrightarrow> m_executed s1 = m_executed s + 1 \<Longrightarrow>
      simTo L Y w c insts (ip + 1) (length st # lb) s1 e le (g xs t)"
  shows "simTo L Y w c insts ip lb s e le ((case v of VList xs \<Rightarrow> g xs | _ \<Rightarrow> InterpErr reason n) t)"
proof (cases "\<exists>xs. v = VList xs")
  case True
  then obtain xs where xs: "v = VList xs" by blast
  let ?s = "(gated ip s)\<lparr>m_stack := VFloat (F_fin 0) # v # st\<rparr>"
  have "simTo L Y w c insts ip lb s e le (g xs t)"
  proof (rule sim_step [OF assms(1)])
    show "free (i_Op (instr OpForInit))" by (simp add: jump_free)
    show "dispatch nested c insts ip lb (instr OpForInit) (gated ip s) = (Inr (ip + 1, length st # lb), ?s)" for nested
      using assms(3) xs
      by (simp add: dispatch_def controlTable_def opForInit_def pop_def push_def stackHeight_def bindM_assoc isList_def returnM_def)
    show "simTo L Y w c insts ip lb s e le (g xs t)" if "leads c insts ip lb s (ip + 1) (length st # lb) ?s"
      by (rule sim_leads [OF that assms(5) [OF xs]]) (simp_all add: tracks_executed assms(2))
  qed simp
  with xs show ?thesis by simp
next
  case False
  with assms(4) have bad: "\<not> isList v" by (cases v) (auto simp: isList_def)
  have out: "(case v of VList xs \<Rightarrow> g xs | _ \<Rightarrow> InterpErr reason n) = InterpErr reason n" using False by (cases v) auto
  let ?s = "(gated ip s)\<lparr>m_stack := st\<rparr>"
  obtain err where d: "dispatch nested c insts ip lb (instr OpForInit) (gated ip s) = (Inl (PErr err), ?s)" for nested
    using assms(3) bad
    by (simp add: dispatch_def controlTable_def opForInit_def pop_def bindM_assoc raise_def panicM_def)
  from step_cases [OF assms(1) _ d] jump_free
  have "(\<exists>p s'. limitPanic p \<and> stops c insts ip lb s p s') \<or> stops c insts ip lb s (PErr err) ?s" by auto
  then show ?thesis
    unfolding out err_at
  proof
    assume "stops c insts ip lb s (PErr err) ?s"
    then show "simTo L Y w c insts ip lb s e le (Inl (IErr \<lparr>eo_Reason = reason, eo_Line = n_Line n, eo_Column = n_Column n\<rparr>), t)"
      by (rule sim_fail) (use assms(2) in \<open>auto simp: failing_def tracks_def\<close>)
  qed (auto intro: sim_limit)
qed

lemma loopIndex_int:
  assumes "i < 2 ^ 53"
  shows "loopIndex ip op (VFloat (f64_of_int (int i))) = returnM (int i)"
proof -
  have "int i < 2 ^ 53" using assms by (metis of_nat_less_iff of_nat_numeral of_nat_power)
  then have f: "f64_of_int (int i) = F_fin (of_int (int i))" by (intro f64_of_int_exact) simp_all
  have "f64_to_int (F_fin (of_int (int i))) = int i"
    using \<open>int i < 2 ^ 53\<close> by (simp add: f64_to_int_def truncRat_def inInt64_def)
  then show ?thesis unfolding loopIndex_def ToInt_def f by (simp add: f [symmetric]) (simp add: f)
qed

lemma sim_for_next:
  assumes at: "placed insts ip [forNext x d]" "goInt (ip + d) = ip1" and t: "tracks X t s"
    and st: "m_stack s = g @ VFloat (f64_of_int (int i)) # VList xs # st" and i: "i \<le> length xs" "i < 2 ^ 53"
    and last: "\<And>s1. i = length xs \<Longrightarrow> tracks X t s1 \<Longrightarrow> m_stack s1 = st \<Longrightarrow> m_executed s1 = m_executed s + 1 \<Longrightarrow>
      simTo L Y w c insts ip1 lb s1 e le out"
    and more: "\<And>s1. i < length xs \<Longrightarrow> tracks (insert x X) (t\<lparr>i_env := [(x, xs ! i)] # i_env t\<rparr>) s1 \<Longrightarrow>
      m_stack s1 = VFloat (f64_of_int (int (Suc i))) # VList xs # st \<Longrightarrow> m_executed s1 = m_executed s + 1 \<Longrightarrow>
      simTo L Y w c insts (ip + 1) (length st # lb) s1 e le out"
    and plain: "plain (VList xs)"
  shows "simTo L Y w c insts ip (length st # lb) s e le out"
proof (rule sim_step [OF at(1)])
  let ?r = "if i = length xs then (ip1, lb) else (ip + 1, length st # lb)"
  let ?s = "if i = length xs then (gated ip s)\<lparr>m_stack := st\<rparr>
    else (gated ip s)\<lparr>m_stack := VFloat (f64_of_int (int (Suc i))) # VList xs # st, m_env := bindVar x (xs ! i) (m_env s)\<rparr>"
  show "free (i_Op (forNext x d))" using jump_free by simp
  have trim: "truncated (length st + 2) (m_stack s) = VFloat (f64_of_int (int i)) # VList xs # st"
    using st by (auto simp: truncated_def)
  have next_index: "f64_of_int (int i + 1) = f64_of_int (int (Suc i))" by (simp add: add.commute)
  show "dispatch nested c insts ip (length st # lb) (forNext x d) (gated ip s) = (Inr (fst ?r, snd ?r), ?s)" for nested
    using trim i at(2) loopIndex_int [OF i(2)]
    by (auto simp: dispatch_def controlTable_def opForNext_def trimLoop_def truncateStack_def pop_def push_def storeVar_def bindM_assoc
        isList_def copyItems_def listElement_def Let_def next_index returnM_def)
  have t0: "tracks X t ((gated ip s)\<lparr>m_stack := st'\<rparr>)" for st' using tracks_executed [OF t] by simp
  show "simTo L Y w c insts ip (length st # lb) s e le out"
    if "leads c insts ip (length st # lb) s (fst ?r) (snd ?r) ?s"
  proof (cases "i = length xs")
    case True
    with that have "leads c insts ip (length st # lb) s ip1 lb ((gated ip s)\<lparr>m_stack := st\<rparr>)" by simp
    from sim_leads [OF this last [OF True t0]] show ?thesis by simp
  next
    case False
    with i have less: "i < length xs" by simp
    with plain have "plain (xs ! i)" by simp
    from tracks_enter [OF t0 this, of x "VFloat (f64_of_int (int (Suc i))) # VList xs # st"]
    have "tracks (insert x X) (t\<lparr>i_env := [(x, xs ! i)] # i_env t\<rparr>) ?s" using False by simp
    from more [OF less this] False have "simTo L Y w c insts (ip + 1) (length st # lb) ?s e le out" by simp
    with False that show ?thesis by (intro sim_leads [OF that]) simp
  qed
qed simp

text \<open>Beyond the instruction limit nothing runs.\<close>

lemma sim_over:
  assumes "placed insts ip [inst]" "free (i_Op inst)" "instructionLimit c \<le> m_executed s"
  shows "simTo L X w c insts ip lb s e le out"
proof -
  obtain p s' where g: "gate c ip inst s = (Inl p, s')" "limitPanic p" "m_executed s' = m_executed s"
    using gate_free [OF assms(2), of c ip s] gate_counts [of c ip inst s "Inr ()" "gated ip s"] assms(3) by auto
  then have "step nested c insts ip lb inst s = (Inl p, s')" for nested by (simp add: step_def bindM_def)
  then have "run (n + 1) c insts ip lb s = (Inl p, s')" for n
    using fun_cong [OF run_at [OF assms(1)], of n c lb s] by (simp add: bindM_def)
  with g(3) have "stops c insts ip lb s p s'" unfolding stops_def by (intro exI [of _ 1]) simp
  with g(2) show ?thesis by (rule sim_limit)
qed

lemma simulates_for:
  assumes f: "form n ''for'' [x, l, b]" "n_Value x \<notin> X" and bound: "int (length insts) < 2 ^ 44" "instructionLimit c \<le> 2 ^ 53"
    and sub: "simulates pushes X E c ic insts w k l" "simulates keeps (insert (n_Value x) X) E c ic insts w k b"
    and shape: "shaped (eval k ic b)"
  shows "simulates keeps X E c ic insts w (Suc k) n"
proof (rule simulatesI)
  fix code ip lb s t
  assume *: "compileNode E n = Inr code" "placed insts ip (fst code)" "tracks X t s"
    "w \<le> m_executed s + int (Suc k) - int (size n)"
  from compileFor_parts [OF f(1) *(1)] obtain cl cb where c: "compileNode E l = Inr cl" "compileNode E b = Inr cb"
    and code: "fst code = fst cl @ [instr OpForInit] @ [forNext (n_Value x) (int (length (fst cb)) + 2)] @ fst cb @
      [instrI OpJump (- (int (length (fst cb)) + 1))]" by blast
  let ?ll = "int (length (fst cl))" and ?lb = "int (length (fst cb))"
  let ?e = "ip + ?ll + ?lb + 3" and ?next = "ip + ?ll + 1"
  from *(2) have p: "placed insts ip (fst cl)" "placed insts (ip + ?ll) [instr OpForInit]"
    "placed insts ?next [forNext (n_Value x) (?lb + 2)]" "placed insts (?next + 1) (fst cb)"
    "placed insts (?next + 1 + ?lb) [instrI OpJump (- (?lb + 1))]"
    by (simp_all add: code placed_simps ac_simps)
  have range: "0 \<le> ip" "?e < 2 ^ 44" using placed_end [OF *(2)] bound(1) by (simp_all add: code)
  have go: "goInt (?next + (?lb + 2)) = ?e" "goInt (?next + 1 + ?lb + (- (?lb + 1))) = ?next"
    using range by (simp_all add: goInt_small)
  have size: "size l < size n" "size b < size n" using form_size [OF f(1)] by auto
  have loop: "simTo (keeps st) X w c insts ?next (length st # lb) s1 ?e lb (forLoop (eval k ic) b (n_Value x) (drop i xs) t1)"
    if "tracks X t1 s1" "m_executed s \<le> m_executed s1" "int i \<le> m_executed s1" "i \<le> length xs" "plain (VList xs)"
      "m_stack s1 = g @ VFloat (f64_of_int (int i)) # VList xs # st" for i s1 t1 g xs st
    using that
  proof (induction "length xs - i" arbitrary: i s1 t1 g rule: less_induct)
    case less
    show ?case
    proof (cases "instructionLimit c \<le> m_executed s1")
      case True
      with sim_over [OF p(3)] jump_free show ?thesis by simp
    next
      case False
      with bound(2) less.prems(3) have "int i < int (2 ^ 53)" by simp
      then have small: "i < 2 ^ 53" by (simp only: of_nat_less_iff)
      show ?thesis
      proof (rule sim_for_next [OF p(3) go(1) less.prems(1, 6, 4) small _ _ less.prems(5)])
        fix s2
        assume "i = length xs" "tracks X t1 s2" "m_stack s2 = st"
        then show "sim (keeps st) X w c insts ?e lb s2 ?e (forLoop (eval k ic) b (n_Value x) (drop i xs) t1)"
          unfolding returnI_def by (simp add: returnI_def sim_done)
      next
        fix s2
        assume i: "i < length xs" and s2: "tracks (insert (n_Value x) X) (t1\<lparr>i_env := [(n_Value x, xs ! i)] # i_env t1\<rparr>) s2"
          "m_stack s2 = VFloat (f64_of_int (int (Suc i))) # VList xs # st" "m_executed s2 = m_executed s1 + 1"
        have m: "m_executed s \<le> m_executed s2" using s2(3) less.prems(2) by simp
        have body: "sim (keeps (m_stack s2)) X w c insts (?next + 1) (length st # lb) s2 (?next + 1 + ?lb)
            (inFrame [(n_Value x, xs ! i)] (eval k ic b) t1)"
          by (rule sim_frame [OF simulatesD [OF sub(2) c(2) p(4) s2(1) fuel_below [OF *(4) size(2) m] refl] shape f(2)])
        have "simTo (keeps st) X w c insts (?next + 1) (length st # lb) s2 ?e lb
            (bindI (inFrame [(n_Value x, xs ! i)] (eval k ic b)) (\<lambda>_. forLoop (eval k ic) b (n_Value x) (drop (Suc i) xs)) t1)"
        proof (rule sim_bind [where f = "inFrame [(n_Value x, xs ! i)] (eval k ic b)", OF body])
          fix u :: val and t3 s3
          assume s3: "keeps (m_stack s2) u (m_stack s3)" "tracks X t3 s3" "m_executed s2 \<le> m_executed s3"
          show "simTo (keeps st) X w c insts (?next + 1 + ?lb) (length st # lb) s3 ?e lb
              (forLoop (eval k ic) b (n_Value x) (drop (Suc i) xs) t3)"
          proof (rule sim_jump [OF p(5) go(2) s3(2)])
            fix s4
            assume s4: "tracks X t3 s4" "m_stack s4 = m_stack s3" "m_executed s4 = m_executed s3 + 1"
            from s3(1) s2(2) s4(2) obtain g' where g': "m_stack s4 = g' @ VFloat (f64_of_int (int (Suc i))) # VList xs # st"
              by (auto simp: keeps_def)
            show "simTo (keeps st) X w c insts ?next (length st # lb) s4 ?e lb
                (forLoop (eval k ic) b (n_Value x) (drop (Suc i) xs) t3)"
              by (rule less.hyps [OF _ s4(1) _ _ _ less.prems(5) g']) (use i s2(3) s3(3) s4(3) less.prems m in simp_all)
          qed
        qed
        with i show "simTo (keeps st) X w c insts (?next + 1) (length st # lb) s2 ?e lb
            (forLoop (eval k ic) b (n_Value x) (drop i xs) t1)"
          by (simp add: Cons_nth_drop_Suc [symmetric])
      qed
    qed
  qed
  have "sim (keeps (m_stack s)) X w c insts ip lb s ?e (eval (Suc k) ic n t)"
    unfolding eval_for [OF f(1)]
  proof (rule sim_part [OF sub(1) c(1) p(1) *(3, 4) size(1) order_refl])
    fix v t1 s1
    assume s1: "pushes (m_stack s) v (m_stack s1)" "tracks X t1 s1" "m_executed s \<le> m_executed s1"
    show "sim (keeps (m_stack s)) X w c insts (ip + ?ll) lb s1 ?e ((case v of VList xs \<Rightarrow> forLoop (eval k ic) b (n_Value x) xs
        | _ \<Rightarrow> InterpErr ''for requires a list value to iterate'' l) t1)"
    proof (rule sim_for_init [OF p(2) s1(2)])
      fix xs s2
      assume s2: "v = VList xs" "tracks X t1 s2" "m_stack s2 = VFloat (F_fin 0) # v # m_stack s" "m_executed s2 = m_executed s1 + 1"
      have nonneg: "0 \<le> m_executed s2" using s2(2) by (simp add: tracks_def)
      have zero: "F_fin 0 = f64_of_int 0" by (simp add: f64_of_int_exact)
      from loop [OF s2(2), where i = 0 and g = "[]" and xs = xs and st = "m_stack s"] s1 s2 nonneg
      show "simTo (keeps (m_stack s)) X w c insts (ip + ?ll + 1) (length (m_stack s) # lb) s2 ?e lb
          (forLoop (eval k ic) b (n_Value x) xs t1)"
        by (simp add: zero pushes_def)
    qed (use s1(1) in \<open>simp_all add: pushes_def\<close>)
  qed
  with code show "sim (keeps (m_stack s)) X w c insts ip lb s (ip + int (length (fst code))) (eval (Suc k) ic n t)"
    by (simp add: ac_simps)
qed

subsection \<open>All statements\<close>

lemma simulates_stmt:
  assumes "stmt X n" "paired c ic" "int (length insts) < 2 ^ 44" "size n < 2 ^ 44" "instructionLimit c \<le> 2 ^ 53"
  shows "simulates keeps X E c ic insts w k n"
  using assms(1, 4)
proof (induction arbitrary: w k rule: stmt.induct)
  case (value_of X n)
  then show ?case by (intro simulates_loosen simulates_expr assms)
next
  case (letting n b body x e X)
  have "size e < 2 ^ 44" using binding_size [OF letting(1, 2)] letting.prems by simp
  then have e: "simulates pushes X E c ic insts w k e" for w k by (intro simulates_bindable letting assms)
  have "simulates keeps (insert (n_Value x) X) E c ic insts w k body" for w k
    by (intro letting.IH form_small [OF letting(1) letting.prems]) simp
  with e show ?case
    by (cases k) (simp_all add: simulates_no_fuel simulates_let [OF letting(1-3)] shaped_stmt [OF letting(5)])
next
  case (setting n x e X)
  have "simulates pushes X E c ic insts w k e" for w k
    by (intro simulates_bindable setting assms form_small [OF setting(1) setting.prems]) simp
  then show ?case by (cases k) (simp_all add: simulates_no_fuel simulates_set [OF setting(1, 2)])
next
  case (branch n a b d X)
  have "simulates pushes X E c ic insts w k a" for w k
    by (intro simulates_expr branch assms form_small [OF branch(1) branch.prems]) simp
  moreover have "simulates keeps X E c ic insts w k b" "simulates keeps X E c ic insts w k d" for w k
    by (intro branch.IH form_small [OF branch(1) branch.prems]; simp)+
  ultimately show ?case by (cases k) (simp_all add: simulates_no_fuel simulates_choice [OF branch(1) assms(3)])
next
  case (unless n a b X)
  have "simulates pushes X E c ic insts w k a" for w k
    by (intro simulates_expr unless assms form_small [OF unless(1) unless.prems]) simp
  moreover have "simulates keeps X E c ic insts w k b" for w k
    by (intro unless.IH form_small [OF unless(1) unless.prems]) simp
  ultimately show ?case by (cases k) (simp_all add: simulates_no_fuel simulates_unless [OF unless(1) assms(3)])
next
  case (loop n a b X)
  have "simulates pushes X E c ic insts w k a" for w k
    by (intro simulates_expr loop assms form_small [OF loop(1) loop.prems]) simp
  moreover have "simulates keeps X E c ic insts w k b" for w k
    by (intro loop.IH form_small [OF loop(1) loop.prems]) simp
  ultimately show ?case by (cases k) (simp_all add: simulates_no_fuel simulates_while [OF loop(1) assms(3)])
next
  case (each n x l b X)
  have "simulates pushes X E c ic insts w k l" for w k
    by (intro simulates_expr each assms form_small [OF each(1) each.prems]) simp
  moreover have "simulates keeps (insert (n_Value x) X) E c ic insts w k b" for w k
    by (intro each.IH form_small [OF each(1) each.prems]) simp
  ultimately show ?case
    by (cases k) (simp_all add: simulates_no_fuel simulates_for [OF each(1, 2) assms(3, 5)] shaped_stmt [OF each(4)])
next
  case (block n ns X)
  have "\<forall>a \<in> set ns. simulates keeps X E c ic insts w k a" for w k
    by (intro ballI; use block.IH form_small [OF block(1) block.prems] in blast)
  then show ?case by (cases k) (simp_all add: simulates_no_fuel simulates_block [OF block(1)])
next
  case (printing n args X)
  have "\<forall>a \<in> set args. simulates pushes X E c ic insts w k a" for w k
    by (intro ballI simulates_expr assms form_small [OF printing(1) printing.prems]; use printing(2) in blast)
  then show ?case by (cases k) (simp_all add: simulates_no_fuel simulates_print [OF printing(1) assms(2)])
next
  case (warning n a X)
  have "simulates pushes X E c ic insts w k a" for w k
    by (intro simulates_expr warning assms form_small [OF warning(1) warning.prems]) simp
  then show ?case by (cases k) (simp_all add: simulates_no_fuel simulates_stderr [OF warning(1) assms(2)])
next
  case (appending n l a X)
  have "simulates pushes X E c ic insts w k a" for w k
    by (intro simulates_expr appending assms form_small [OF appending(1) appending.prems]) simp
  then show ?case by (cases k) (simp_all add: simulates_no_fuel simulates_append [OF appending(1-4)])
next
  case (storing n d a b X)
  have "simulates pushes X E c ic insts w k a" "simulates pushes X E c ic insts w k b" for w k
    by (intro simulates_expr storing assms form_small [OF storing(1) storing.prems]; simp)+
  then show ?case by (cases k) (simp_all add: simulates_no_fuel simulates_mapSet [OF storing(1-5)])
next
  case (deleting n d a X)
  have "simulates pushes X E c ic insts w k a" for w k
    by (intro simulates_expr deleting assms form_small [OF deleting(1) deleting.prems]) simp
  then show ?case by (cases k) (simp_all add: simulates_no_fuel simulates_mapDelete [OF deleting(1-4)])
next
  case (result n a X)
  have "simulates pushes X E c ic insts w k a" for w k
    by (intro simulates_expr result assms form_small [OF result(1) result.prems]) simp
  then show ?case by (cases k) (simp_all add: simulates_no_fuel simulates_return [OF result(1)])
qed

end
