(* ===== verification/Scoping.thy ===== *)
theory Scoping
  imports Ast
begin

text \<open>
  The scoping pass of the bytecode compiler (\<open>internal/bytecode/scoping.go\<close>): a binding that shadows a
  visible variable of the same name gets a fresh name, and the references in its scope follow it. The
  pass changes the tree in place; here it gives the new tree and the new value of its counter. The
  scopes are a list of maps from the source name to the current name, innermost first.
\<close>

type_synonym scopes = "string strmap list"

fun lookupName :: "scopes \<Rightarrow> string \<Rightarrow> string option" where
  "lookupName [] name = None"
| "lookupName (m # ms) name = (case lookup m name of Some v \<Rightarrow> Some v | None \<Rightarrow> lookupName ms name)"

definition fresh :: "string \<Rightarrow> nat \<Rightarrow> string \<times> nat" where
  "fresh name n = (name @ ''#'' @ itoa (int (Suc n)), Suc n)"

text \<open>The new innermost scope, the renamed name and the counter.\<close>

definition bindName :: "scopes \<Rightarrow> Node \<Rightarrow> nat \<Rightarrow> scopes \<times> Node \<times> nat" where
  "bindName scopes nameNode n =
     (if isSymbolNode nameNode then
        (let name = n_Value nameNode in
         if lookupName scopes name \<noteq> None then
           (let (renamed, n') = fresh name n in ([(name, renamed)] # scopes, withValue nameNode renamed, n'))
         else ([(name, name)] # scopes, nameNode, n))
      else ([] # scopes, nameNode, n))"

text \<open>A pass over the nodes of a list, in order.\<close>

fun mapState :: "('a \<Rightarrow> nat \<Rightarrow> 'b \<times> nat) \<Rightarrow> 'a list \<Rightarrow> nat \<Rightarrow> 'b list \<times> nat" where
  "mapState f [] n = ([], n)"
| "mapState f (x # xs) n =
     (let r = f x n; rs = mapState f xs (snd r) in (fst r # fst rs, snd rs))"

lemma mapState_cong [fundef_cong]:
  "xs = ys \<Longrightarrow> n = m \<Longrightarrow> (\<And>x k. x \<in> set ys \<Longrightarrow> f x k = g x k) \<Longrightarrow> mapState f xs n = mapState g ys m"
  by (induction xs arbitrary: ys n m) auto

text \<open>The head of a list form, empty when it is no symbol.\<close>

definition headOf :: "Node list \<Rightarrow> string" where
  "headOf kids = (case kids of [] \<Rightarrow> [] | h # _ \<Rightarrow> if isSymbolNode h then n_Value h else [])"

definition pairNode :: "Node \<Rightarrow> bool" where
  "pairNode n \<longleftrightarrow> isListNode n \<and> length (n_Children n) = 2"

definition letForm :: "Node list \<Rightarrow> bool" where
  "letForm kids \<longleftrightarrow> headOf kids = ''let'' \<and> length kids \<ge> 2 \<and> pairNode (kids ! 1)"

definition forForm :: "Node list \<Rightarrow> bool" where
  "forForm kids \<longleftrightarrow> headOf kids = ''for'' \<and> length kids \<ge> 3"

definition tryForm :: "Node list \<Rightarrow> bool" where
  "tryForm kids \<longleftrightarrow> headOf kids = ''try_let'' \<and> length kids = 4 \<and> pairNode (kids ! 1) \<and>
     isListNode (kids ! 2) \<and> length (n_Children (kids ! 2)) = 3"

definition defunForm :: "Node list \<Rightarrow> bool" where
  "defunForm kids \<longleftrightarrow> (headOf kids = ''defun'' \<or> headOf kids = ''lazy_synthesize'') \<and> length kids \<ge> 3 \<and> isListNode (kids ! 2)"

text \<open>A function sees its parameters, the bare symbols of its list.\<close>

definition paramScope :: "Node \<Rightarrow> scopes" where
  "paramScope ps = [map (\<lambda>p. (n_Value p, n_Value p)) (filter isSymbolNode (n_Children ps))]"

lemma grandchild_smaller: "x \<in> set (n_Children n) \<Longrightarrow> y \<in> set (n_Children x) \<Longrightarrow> size y < size n"
  using child_smaller [of y x] child_smaller [of x n] by simp

lemma nth_smaller: "i < length (n_Children n) \<Longrightarrow> size (n_Children n ! i) < size n"
  by (rule child_smaller) simp

lemma nth_nth_smaller:
  "i < length (n_Children n) \<Longrightarrow> j < length (n_Children (n_Children n ! i)) \<Longrightarrow> size (n_Children (n_Children n ! i) ! j) < size n"
  by (rule grandchild_smaller [where x = "n_Children n ! i"]) simp_all

text \<open>A \<open>call\<close> without a function, which the check of the arities refuses before, would panic.\<close>

function walk :: "scopes \<Rightarrow> Node \<Rightarrow> nat \<Rightarrow> Node \<times> nat" where
  "walk scopes node n =
     (if isSymbolNode node then
        (case lookupName scopes (n_Value node) of Some v \<Rightarrow> (withValue node v, n) | None \<Rightarrow> (node, n))
      else if \<not> isListNode node \<or> n_Children node = [] then (node, n)
      else if letForm (n_Children node) then
        (let b = n_Children node ! 1;
             v = walk scopes (n_Children b ! 1) n;
             x = bindName scopes (n_Children b ! 0) (snd v);
             body = mapState (walk (fst x)) (drop 2 (n_Children node)) (snd (snd x))
         in (withChildren node (n_Children node ! 0 # withChildren b [fst (snd x), fst v] # fst body), snd body))
      else if forForm (n_Children node) then
        (let l = walk scopes (n_Children node ! 2) n;
             x = bindName scopes (n_Children node ! 1) (snd l);
             body = mapState (walk (fst x)) (drop 3 (n_Children node)) (snd (snd x))
         in (withChildren node (n_Children node ! 0 # fst (snd x) # fst l # fst body), snd body))
      else if tryForm (n_Children node) then
        (let b = n_Children node ! 1; c = n_Children node ! 2;
             v = walk scopes (n_Children b ! 1) n;
             e = bindName scopes (n_Children c ! 1) (snd v);
             h = walk (fst e) (n_Children c ! 2) (snd (snd e));
             x = bindName scopes (n_Children b ! 0) (snd h);
             body = walk (fst x) (n_Children node ! 3) (snd (snd x))
         in (withChildren node
               [n_Children node ! 0, withChildren b [fst (snd x), fst v],
                withChildren c [n_Children c ! 0, fst (snd e), fst h], fst body], snd body))
      else if defunForm (n_Children node) then
        (let body = mapState (walk (paramScope (n_Children node ! 2))) (drop 3 (n_Children node)) n
         in (withChildren node (take 3 (n_Children node) @ fst body), snd body))
      else if headOf (n_Children node) = ''call'' then
        (let args = mapState (walk scopes) (drop 2 (n_Children node)) n
         in (withChildren node (take 2 (n_Children node) @ fst args), snd args))
      else if headOf (n_Children node) = ''dict'' then
        (let pairs = mapState (\<lambda>p n.
               if pairNode p then
                 (let v = walk scopes (n_Children p ! 1) n in (withChildren p [n_Children p ! 0, fst v], snd v))
               else (p, n)) (drop 1 (n_Children node)) n
         in (withChildren node (take 1 (n_Children node) @ fst pairs), snd pairs))
      else if headOf (n_Children node) \<in> {''type_hint'', ''type_hints'', ''type_param''} then (node, n)
      else
        (let args = mapState (walk scopes) (drop 1 (n_Children node)) n
         in (withChildren node (take 1 (n_Children node) @ fst args), snd args)))"
  by pat_completeness auto
termination
proof (relation "measure (\<lambda>(s, node, n). size node)", goal_cases)
qed (auto simp: letForm_def forForm_def tryForm_def pairNode_def nth_smaller nth_nth_smaller
      intro: nth_nth_smaller [where i = 1 and j = 1, simplified] grandchild_smaller child_smaller dest: in_set_dropD)

declare walk.simps [simp del]

definition ScopeBindings :: "Node \<Rightarrow> Node" where
  "ScopeBindings tree = fst (walk [[]] tree 0)"

end
