(* ===== verification/ScopeLaws.thy ===== *)
theory ScopeLaws
  imports Scoping SimStmt
begin

text \<open>
  The scoping pass is an alpha conversion. On the statements of \<open>SimStmt\<close>, now with bindings that may
  shadow, its result binds no visible name (it is a statement of the compiler proof), has the same
  size and positions, and the interpreter evaluates it to the same value with the same effects.
\<close>

subsection \<open>Names\<close>

definition userName :: "string \<Rightarrow> bool" where
  "userName x \<longleftrightarrow> CHR ''#'' \<notin> set x \<and> x \<noteq> ''true'' \<and> x \<noteq> ''false''"

text \<open>The visible bindings, innermost first: the source name and the current one. \<open>n\<close> fresh names have
  been made.\<close>

type_synonym bindings = "(string \<times> string) list"

definition scopesOf :: "bindings \<Rightarrow> scopes" where
  "scopesOf L = map (\<lambda>p. [p]) L @ [[]]"

definition freshName :: "string \<Rightarrow> nat \<Rightarrow> string" where
  "freshName x k = x @ ''#'' @ itoa (int k)"

definition named :: "nat \<Rightarrow> bindings \<Rightarrow> bool" where
  "named n L \<longleftrightarrow> distinct (map snd L) \<and>
     (\<forall>(x, y) \<in> set L. userName x \<and> (y = x \<or> (\<exists>k \<le> n. y = freshName x k)))"

lemma lookup_scopesOf [simp]: "lookupName (scopesOf L) x = map_of L x"
  by (induction L) (auto simp: scopesOf_def)

lemma scopesOf_Cons: "[(x, y)] # scopesOf L = scopesOf ((x, y) # L)"
  by (simp add: scopesOf_def)

lemma named_mono:
  assumes "named n L" "n \<le> m" shows "named m L"
  unfolding named_def
proof (intro conjI ballI)
  show "distinct (map snd L)" using assms(1) by (simp add: named_def)
  fix p assume "p \<in> set L"
  then have "case p of (x, y) \<Rightarrow> userName x \<and> (y = x \<or> (\<exists>k \<le> n. y = freshName x k))" using assms(1) by (simp add: named_def)
  then show "case p of (x, y) \<Rightarrow> userName x \<and> (y = x \<or> (\<exists>k \<le> m. y = freshName x k))"
    using le_trans [OF _ assms(2)] by (cases p) auto
qed

lemma hash_split: "CHR ''#'' \<notin> set x \<Longrightarrow> CHR ''#'' \<notin> set y \<Longrightarrow> x @ ''#'' @ a = y @ ''#'' @ b \<Longrightarrow> x = y \<and> a = b"
proof (induction x arbitrary: y)
  case Nil
  then show ?case by (cases y) auto
next
  case (Cons c x)
  then show ?case by (cases y) auto
qed

lemma itoa_nat_inj: "itoa (int a) = itoa (int b) \<Longrightarrow> a = b"
proof -
  assume "itoa (int a) = itoa (int b)"
  then have "digitsValue (natDigits a) = digitsValue (natDigits b)" by (simp add: itoa_def)
  then show "a = b" by (simp add: digitsValue_natDigits)
qed

lemma freshName_inj: "userName x \<Longrightarrow> userName y \<Longrightarrow> freshName x a = freshName y b \<Longrightarrow> x = y \<and> a = b"
  unfolding freshName_def userName_def using hash_split itoa_nat_inj by blast

lemma freshName_hash: "CHR ''#'' \<in> set (freshName x k)"
  by (simp add: freshName_def)

lemma freshName_not_user: "\<not> userName (freshName x k)" "freshName x k \<noteq> ''true''" "freshName x k \<noteq> ''false''" "freshName x k \<noteq> []"
  using freshName_hash [of x k] by (auto simp: userName_def)

lemma named_other:
  assumes "named n L" "userName x"
  shows "map_of L x = None \<Longrightarrow> x \<notin> snd ` set L" "freshName x (Suc n) \<notin> snd ` set L"
proof -
  show "x \<notin> snd ` set L" if "map_of L x = None"
  proof
    assume "x \<in> snd ` set L"
    then obtain z where z: "(z, x) \<in> set L" by auto
    with assms(1) have "x = z \<or> (\<exists>k. x = freshName z k)" by (auto simp: named_def)
    then have "x = z" using assms(2) freshName_not_user(1) by metis
    then show False using z that by (simp add: map_of_eq_None_iff image_iff) force
  qed
  show "freshName x (Suc n) \<notin> snd ` set L"
  proof
    assume "freshName x (Suc n) \<in> snd ` set L"
    then obtain z where z: "(z, freshName x (Suc n)) \<in> set L" by auto
    with assms have u: "userName z" "freshName x (Suc n) = z \<or> (\<exists>k \<le> n. freshName x (Suc n) = freshName z k)"
      by (auto simp: named_def)
    then obtain k where "k \<le> n" "freshName x (Suc n) = freshName z k" using freshName_not_user(1) by metis
    with freshName_inj [OF assms(2) u(1)] show False by fastforce
  qed
qed

lemma map_of_current: "map_of L x = Some y \<Longrightarrow> y \<in> snd ` set L"
  by (force dest: map_of_SomeD)

lemma named_current: "named n L \<Longrightarrow> map_of L x = Some y \<Longrightarrow> userName x \<and> (y = x \<or> (\<exists>k. y = freshName x k))"
  by (fastforce simp: named_def dest: map_of_SomeD)

text \<open>A binding is renamed to a name that is not visible.\<close>

lemma bindName_named:
  assumes "named n L" "userName (n_Value x)" "isSymbolNode x"
  obtains y x' m where "bindName (scopesOf L) x n = (scopesOf ((n_Value x, y) # L), x', m)"
    "named m ((n_Value x, y) # L)" "n_Value x' = y" "isSymbolNode x'" "n \<le> m" "size x' = size x"
proof (cases "map_of L (n_Value x)")
  case None
  have "bindName (scopesOf L) x n = (scopesOf ((n_Value x, n_Value x) # L), x, n)"
    using None assms(3) by (simp add: bindName_def scopesOf_Cons Let_def)
  moreover have "named n ((n_Value x, n_Value x) # L)"
    using assms named_other(1) [OF assms(1,2) None] by (simp add: named_def)
  ultimately show thesis using that assms(3) by blast
next
  case (Some z)
  let ?y = "freshName (n_Value x) (Suc n)"
  have "bindName (scopesOf L) x n = (scopesOf ((n_Value x, ?y) # L), withValue x ?y, Suc n)"
    using Some assms(3) by (simp add: bindName_def scopesOf_Cons Let_def fresh_def freshName_def)
  moreover have "named (Suc n) L" using named_mono [OF assms(1)] by simp
  then have "named (Suc n) ((n_Value x, ?y) # L)"
    using assms(2) named_other(2) [OF assms(1,2)] by (auto simp: named_def)
  moreover have "size (withValue x ?y) = size x" by (cases x) (simp add: withValue_def)
  ultimately show thesis using that assms(3) by (metis isSymbolNode_def le_SucI order_refl with_simps(6,7))
qed

subsection \<open>Equal evaluations under two names\<close>

definition frames :: "('a \<Rightarrow> string) \<Rightarrow> 'a list \<Rightarrow> val list \<Rightarrow> dict list" where
  "frames f L vs = map2 (\<lambda>p v. [(f p, v)]) L vs @ [[]]"

definition linked :: "bindings \<Rightarrow> istate \<Rightarrow> istate \<Rightarrow> bool" where
  "linked L t t' \<longleftrightarrow> i_heap t' = i_heap t \<and> i_events t' = i_events t \<and>
     (\<exists>vs. length vs = length L \<and> i_env t = frames fst L vs \<and> i_env t' = frames snd L vs)"

definition same :: "bindings \<Rightarrow> 'a I \<Rightarrow> 'a I \<Rightarrow> bool" where
  "same L m m' \<longleftrightarrow>
     (\<forall>t t'. linked L t t' \<longrightarrow> fst (m t) = fst (m' t') \<and> linked L (snd (m t)) (snd (m' t')))"

named_theorems same_intros

lemma same_return [same_intros]: "same L (returnI a) (returnI a)"
  by (simp add: same_def returnI_def)

lemma same_panic [same_intros]: "same L (panicI p) (panicI p)"
  by (simp add: same_def panicI_def)

lemma same_bind [same_intros]:
  "same L m m' \<Longrightarrow> (\<And>a. same L (f a) (f' a)) \<Longrightarrow> same L (bindI m f) (bindI m' f')"
  unfolding same_def bindI_def by (fastforce split: prod.splits sum.splits)

lemma same_if [same_intros]: "(b \<Longrightarrow> same L m m') \<Longrightarrow> (\<not> b \<Longrightarrow> same L n n') \<Longrightarrow> same L (if b then m else n) (if b then m' else n')"
  by simp

text \<open>Operations that do not read the environment.\<close>

definition envFree :: "'a I \<Rightarrow> bool" where
  "envFree m \<longleftrightarrow> (\<forall>t e. m (t\<lparr>i_env := e\<rparr>) = (fst (m t), (snd (m t))\<lparr>i_env := e\<rparr>) \<and> i_env (snd (m t)) = i_env t)"

lemma linked_env: "linked L t t' \<Longrightarrow> t' = t\<lparr>i_env := i_env t'\<rparr>"
  by (cases t; cases t') (simp add: linked_def)

lemma same_envFree:
  assumes "envFree m" shows "same L m m"
  unfolding same_def
proof (intro allI impI)
  fix t t' assume l: "linked L t t'"
  have "m t' = (fst (m t), (snd (m t))\<lparr>i_env := i_env t'\<rparr>)" "i_env (snd (m t)) = i_env t"
    using assms linked_env [OF l] unfolding envFree_def by metis+
  with l show "fst (m t) = fst (m t') \<and> linked L (snd (m t)) (snd (m t'))" by (simp add: linked_def)
qed

lemma envFree_bind: "envFree m \<Longrightarrow> (\<And>a. envFree (f a)) \<Longrightarrow> envFree (bindI m f)"
  unfolding envFree_def bindI_def by (simp split: prod.split sum.split) (metis fst_conv snd_conv)

lemma envFree_basic: "envFree (returnI a)" "envFree (panicI p)" "envFree (InterpErr r n)"
  by (simp_all add: envFree_def returnI_def panicI_def InterpErr_def)

lemma envFree_get: "(\<And>t e. f (t\<lparr>i_env := e\<rparr>) = f t) \<Longrightarrow> envFree (getI f)"
  by (simp add: envFree_def getI_def)

lemma envFree_modify: "(\<And>t e. f (t\<lparr>i_env := e\<rparr>) = (f t)\<lparr>i_env := e\<rparr>) \<Longrightarrow> (\<And>t. i_env (f t) = i_env t) \<Longrightarrow> envFree (modifyI f)"
  by (simp add: envFree_def modifyI_def)

lemma envFree_cases:
  "envFree m \<Longrightarrow> (\<And>a. envFree (f a)) \<Longrightarrow> envFree (case r of None \<Rightarrow> m | Some a \<Rightarrow> f a)"
  "(\<And>a. envFree (f1 a)) \<Longrightarrow> (\<And>b. envFree (f2 b)) \<Longrightarrow> envFree (case r2 of Inl a \<Rightarrow> f1 a | Inr b \<Rightarrow> f2 b)"
  "(\<And>a b. envFree (f3 a b)) \<Longrightarrow> envFree (case r3 of (a, b) \<Rightarrow> f3 a b)"
  "envFree x \<Longrightarrow> envFree y \<Longrightarrow> envFree (if b then x else y)"
  by (auto split: option.split sum.split prod.split)

lemma envFree_val:
  assumes "envFree a" "\<And>x. envFree (b x)" "\<And>x. envFree (c x)" "\<And>x. envFree (d x)" "\<And>x. envFree (e x)" "\<And>x. envFree (f x)"
    "\<And>x. envFree (g x)" "\<And>x. envFree (h x)" "\<And>x. envFree (i x)" "\<And>x. envFree (j x)"
  shows "envFree (case_val a b c d e f g h i j v)"
  using assms by (cases v) auto

lemma envFree_let: "envFree (f e) \<Longrightarrow> envFree (Let e f)"
  by simp

lemmas envFree_intros = envFree_basic envFree_get envFree_modify envFree_cases envFree_val envFree_let envFree_bind

lemma envFree_ops:
  "envFree (treeI v)" "envFree (sprintI v)" "envFree (textI v)" "envFree (newDictI d)" "envFree (dictAtI a)"
  "envFree (setDictI a d)" "envFree (performI ic e)" "envFree (emitI ic e)"
  unfolding treeI_def sprintI_def textI_def newDictI_def dictAtI_def setDictI_def performI_def emitI_def
  by ((intro envFree_intros); simp)+

lemmas same_ops [same_intros] = envFree_ops [THEN same_envFree]

text \<open>Errors depend on the position of their node only.\<close>

definition samePos :: "Node \<Rightarrow> Node \<Rightarrow> bool" where
  "samePos n n' \<longleftrightarrow> n_Line n' = n_Line n \<and> n_Column n' = n_Column n"

lemma err_pos: "samePos n n' \<Longrightarrow> InterpErr r n' = InterpErr r n"
  by (simp add: samePos_def InterpErr_def)

lemma samePos_ops:
  assumes "samePos n n'"
  shows "ToBoolI v n' = ToBoolI v n" "wantDictI w v n' = wantDictI w v n" "wantListI w v n' = wantListI w v n"
    "typeErrorI w v n' = typeErrorI w v n" "applyBinop op a b n' = applyBinop op a b n"
  unfolding ToBoolI_def wantDictI_def wantListI_def typeErrorI_def applyBinop_def NumericBinop_def interpNumericArithmetic_def
    interpNumericDiv_def interpNumericRelational_def checkedAddInt64_def checkedSubInt64_def checkedMulInt64_def err_pos [OF assms]
  by (rule refl)+

lemma samePos_unary: "samePos m m' \<Longrightarrow> samePos n n' \<Longrightarrow> applyUnary ic h m' n' v = applyUnary ic h m n v"
proof -
  assume p: "samePos m m'" "samePos n n'"
  show ?thesis
    unfolding applyUnary_def numberOf_def lengthOf_def keysOf_def escaped_def err_pos [OF p(1)] err_pos [OF p(2)]
      samePos_ops [OF p(2)] by (rule refl)
qed

lemma envFree_calm:
  "envFree (ToBoolI v n)" "envFree (wantDictI w v n)" "envFree (wantListI w v n)" "envFree (typeErrorI w v n)"
  unfolding ToBoolI_def wantDictI_def wantListI_def typeErrorI_def by (intro envFree_intros)+

lemma envFree_applyBinop: "envFree (applyBinop op a b n)"
  unfolding applyBinop_def NumericBinop_def interpNumericArithmetic_def interpNumericDiv_def interpNumericRelational_def
    checkedAddInt64_def checkedSubInt64_def checkedMulInt64_def
  by (intro envFree_intros)

lemma envFree_applyUnary: "envFree (applyUnary ic h n a v)"
  unfolding applyUnary_def numberOf_def changedText_def lengthOf_def keysOf_def escaped_def
  by (intro envFree_intros envFree_ops envFree_calm)

lemmas same_values [same_intros] = envFree_calm [THEN same_envFree] envFree_applyBinop [THEN same_envFree]
  envFree_applyUnary [THEN same_envFree] envFree_basic(3) [THEN same_envFree]

text \<open>Variables, under their current names.\<close>

lemma frames_Cons: "frames f (p # L) (v # vs) = [(f p, v)] # frames f L vs"
  by (simp add: frames_def)

lemma frames_Nil: "frames f [] [] = [[]]"
  by (simp add: frames_def)

lemma envGet_frames:
  assumes "length vs = length L" "distinct (map snd L)" "map_of L x = Some y"
  shows "\<exists>v. envGet (frames fst L vs) x = Some v \<and> envGet (frames snd L vs) y = Some v"
  using assms by (induction vs L rule: list_induct2) (auto simp: frames_Cons dest: map_of_current)

lemma envSet_frames:
  assumes "length vs = length L" "distinct (map snd L)" "map_of L x = Some y"
  shows "\<exists>vs'. length vs' = length L \<and> envSet (frames fst L vs) x v = Some (frames fst L vs') \<and>
           envSet (frames snd L vs) y v = Some (frames snd L vs')"
  using assms
proof (induction vs L rule: list_induct2)
  case (Cons w vs p L)
  show ?case
  proof (cases "fst p = x")
    case True
    with Cons.prems have "snd p = y" by (cases p) simp
    with True Cons.hyps show ?thesis
      by (intro exI [of _ "v # vs"]) (simp add: frames_Cons AList.update.simps)
  next
    case False
    with Cons.prems have m: "map_of L x = Some y" "snd p \<noteq> y" by (cases p; auto dest: map_of_current)+
    then obtain vs' where "length vs' = length L" "envSet (frames fst L vs) x v = Some (frames fst L vs')"
      "envSet (frames snd L vs) y v = Some (frames snd L vs')" using Cons.IH Cons.prems by auto
    with False m show ?thesis by (intro exI [of _ "w # vs'"]) (simp add: frames_Cons)
  qed
qed simp

lemma same_needVar:
  assumes "distinct (map snd L)" "map_of L x = Some y" shows "same L (needVarI x n) (needVarI y n')"
  unfolding same_def
proof (intro allI impI)
  fix t t' assume l: "linked L t t'"
  then obtain vs where "length vs = length L" "i_env t = frames fst L vs" "i_env t' = frames snd L vs" by (auto simp: linked_def)
  with envGet_frames [OF _ assms] obtain v where "envGet (i_env t) x = Some v" "envGet (i_env t') y = Some v" by metis
  then show "fst (needVarI x n t) = fst (needVarI y n' t') \<and> linked L (snd (needVarI x n t)) (snd (needVarI y n' t'))"
    using l by (simp add: needVarI_def getVarI_def bindI_def getI_def returnI_def)
qed

lemma same_setVar:
  assumes "distinct (map snd L)" "map_of L x = Some y" and that: "same L m m'"
  shows "same L (bindI (setVarI x v) (\<lambda>ok. if ok then m else e)) (bindI (setVarI y v) (\<lambda>ok. if ok then m' else e'))"
  unfolding same_def
proof (intro allI impI)
  fix t t' assume l: "linked L t t'"
  then obtain vs where vs: "length vs = length L" "i_env t = frames fst L vs" "i_env t' = frames snd L vs" by (auto simp: linked_def)
  with envSet_frames [OF _ assms(1,2), of vs v] obtain vs' where vs': "length vs' = length L"
    "envSet (i_env t) x v = Some (frames fst L vs')" "envSet (i_env t') y v = Some (frames snd L vs')" by auto
  have "linked L (t\<lparr>i_env := frames fst L vs'\<rparr>) (t'\<lparr>i_env := frames snd L vs'\<rparr>)"
    using l vs'(1) by (auto simp: linked_def)
  then show "fst (bindI (setVarI x v) (\<lambda>ok. if ok then m else e) t) = fst (bindI (setVarI y v) (\<lambda>ok. if ok then m' else e') t') \<and>
    linked L (snd (bindI (setVarI x v) (\<lambda>ok. if ok then m else e) t)) (snd (bindI (setVarI y v) (\<lambda>ok. if ok then m' else e') t'))"
    using that vs'(2,3) by (simp add: setVarI_def bindI_def getI_def modifyI_def returnI_def same_def)
qed

lemma same_inFrame:
  assumes "same ((x, y) # L) m m'" shows "same L (inFrame [(x, v)] m) (inFrame [(y, v)] m')"
  unfolding same_def
proof (intro allI impI)
  fix t t' assume "linked L t t'"
  then obtain vs where "i_heap t' = i_heap t" "i_events t' = i_events t" "length vs = length L"
    "i_env t = frames fst L vs" "i_env t' = frames snd L vs" by (auto simp: linked_def)
  then have "linked ((x, y) # L) (t\<lparr>i_env := [(x, v)] # i_env t\<rparr>) (t'\<lparr>i_env := [(y, v)] # i_env t'\<rparr>)"
    unfolding linked_def by (intro conjI exI [of _ "v # vs"]) (simp_all add: frames_Cons)
  with assms have r: "fst (m (t\<lparr>i_env := [(x, v)] # i_env t\<rparr>)) = fst (m' (t'\<lparr>i_env := [(y, v)] # i_env t'\<rparr>))"
    "linked ((x, y) # L) (snd (m (t\<lparr>i_env := [(x, v)] # i_env t\<rparr>))) (snd (m' (t'\<lparr>i_env := [(y, v)] # i_env t'\<rparr>)))"
    by (simp_all add: same_def)
  have "linked L (s\<lparr>i_env := drop 1 (i_env s)\<rparr>) (s'\<lparr>i_env := drop 1 (i_env s')\<rparr>)" if "linked ((x, y) # L) s s'" for s s'
    using that unfolding linked_def by (auto simp: frames_Cons length_Suc_conv)
  with r show "fst (inFrame [(x, v)] m t) = fst (inFrame [(y, v)] m' t') \<and>
    linked L (snd (inFrame [(x, v)] m t)) (snd (inFrame [(y, v)] m' t'))"
    by (cases "m (t\<lparr>i_env := [(x, v)] # i_env t\<rparr>)"; cases "m' (t'\<lparr>i_env := [(y, v)] # i_env t'\<rparr>)") (simp add: inFrame_def)
qed

lemma same_traverse:
  "list_all2 (\<lambda>x x'. same L (f x) (f' x')) xs xs' \<Longrightarrow> same L (traverseI f xs) (traverseI f' xs')"
  by (induction xs xs' rule: list_all2_induct) (auto intro!: same_intros)

lemma same_seq:
  "list_all2 (\<lambda>x x'. same L (f x) (f' x')) xs xs' \<Longrightarrow> same L (evalSeq f xs v) (evalSeq f' xs' v)"
  by (induction xs xs' arbitrary: v rule: list_all2_induct) (auto intro!: same_intros)

lemma same_forLoop: "same ((x, y) # L) (rec b) (rec' b') \<Longrightarrow> same L (forLoop rec b x vs) (forLoop rec' b' y vs)"
  by (induction vs) (auto intro!: same_intros same_inFrame)

subsection \<open>The pass on the forms\<close>

text \<open>The head of every form is a symbol, as the pass expects; the interpreter reads its value only.\<close>

fun symbolHeads :: "Node \<Rightarrow> bool" where
  "symbolHeads (Node ty v cs i j) \<longleftrightarrow>
     (\<forall>c \<in> set cs. symbolHeads c) \<and> (ty = ''List'' \<longrightarrow> (case cs of [] \<Rightarrow> True | h # _ \<Rightarrow> isSymbolNode h))"

lemma symbolHeads_form:
  assumes "form n h args" "symbolHeads n"
  obtains hn where "n_Children n = hn # args" "isSymbolNode hn" "n_Value hn = h" "\<forall>a \<in> set args. symbolHeads a"
  using assms by (cases n) (auto simp: form_def isListNode_def)

definition specialHeads :: "string list" where
  "specialHeads =
     [''let'', ''for'', ''try_let'', ''defun'', ''lazy_synthesize'', ''call'', ''dict'', ''type_hint'', ''type_hints'', ''type_param'']"

lemma form_not_symbol: "form n h args \<Longrightarrow> \<not> isSymbolNode n"
  by (auto simp: form_def isSymbolNode_def isListNode_def)

lemma walk_leaf: "\<not> isSymbolNode n \<Longrightarrow> \<not> isListNode n \<Longrightarrow> walk sc n c = (n, c)"
  by (subst walk.simps) simp

lemma walk_symbol: "isSymbolNode n \<Longrightarrow> walk sc n c = (case lookupName sc (n_Value n) of Some v \<Rightarrow> (withValue n v, c) | None \<Rightarrow> (n, c))"
  by (subst walk.simps) simp

lemma walk_form:
  assumes "form n h args" "symbolHeads n" "h \<notin> set specialHeads"
  shows "walk sc n c =
    (withChildren n (hd (n_Children n) # fst (mapState (walk sc) args c)), snd (mapState (walk sc) args c))"
proof -
  obtain hn where c: "n_Children n = hn # args" "isSymbolNode hn" "n_Value hn = h" using symbolHeads_form [OF assms(1,2)] by blast
  have "headOf (n_Children n) = h" using c by (simp add: headOf_def)
  then show ?thesis
    using assms(1,3) c form_not_symbol [OF assms(1)]
    by (subst walk.simps)
      (simp add: letForm_def forForm_def tryForm_def defunForm_def specialHeads_def Let_def)
qed

lemma form_with: "form n h args \<Longrightarrow> form (withChildren n (hd (n_Children n) # args')) h args'"
  by (auto simp: form_def isListNode_def)

lemma samePos_with [simp]: "samePos n (withChildren n cs)" "samePos n (withValue n v)" "samePos n n"
  by (simp_all add: samePos_def)

lemma size_with:
  assumes "map size cs = map size (n_Children n)" shows "size (withChildren n cs) = size n"
proof -
  have "size_list size cs = size_list size (n_Children n)"
    using assms map_eq_imp_length_eq [OF assms] by (simp add: size_list_conv_sum_list)
  then show ?thesis by (cases n) (simp add: withChildren_def)
qed

lemma size_withValue [simp]: "size (withValue n v) = size n"
  by (cases n) (simp add: withValue_def)

lemma size_form_with:
  assumes "form n h args" "list_all2 (\<lambda>a b. size b = size a) args args'"
  shows "size (withChildren n (hd (n_Children n) # args')) = size n"
proof (rule size_with)
  have "map size args' = map size args" using assms(2) by (induction args args' rule: list_all2_induct) auto
  then show "map size (hd (n_Children n) # args') = map size (n_Children n)" using assms(1) by (auto simp: form_def)
qed

text \<open>What the pass makes of a node: same place, same size, same evaluation.\<close>

definition converts :: "bindings \<Rightarrow> Node \<Rightarrow> Node \<Rightarrow> bool" where
  "converts L n n' \<longleftrightarrow> samePos n n' \<and> size n' = size n \<and> (\<forall>k ic. same L (eval k ic n) (eval k ic n'))"

lemma convertsD: "converts L n n' \<Longrightarrow> samePos n n'" "converts L n n' \<Longrightarrow> size n' = size n"
    "converts L n n' \<Longrightarrow> same L (eval k ic n) (eval k ic n')"
  by (simp_all add: converts_def)

lemma converts_form:
  assumes "form n h args" "list_all2 (converts L) args args'"
    "\<And>k ic. same L (eval (Suc k) ic n) (eval (Suc k) ic (withChildren n (hd (n_Children n) # args')))"
  shows "converts L n (withChildren n (hd (n_Children n) # args'))"
proof -
  have "same L (eval k ic n) (eval k ic (withChildren n (hd (n_Children n) # args')))" for k ic
    using assms(3) by (cases k) (auto simp: eval_zero intro: same_panic)
  moreover have "list_all2 (\<lambda>a b. size b = size a) args args'"
    using assms(2) by (rule list_all2_mono) (simp add: convertsD)
  ultimately show ?thesis using size_form_with [OF assms(1)] by (simp add: converts_def)
qed

lemma converts_same: "(\<And>k ic. same L (eval (Suc k) ic n) (eval (Suc k) ic n)) \<Longrightarrow> converts L n n"
proof -
  assume "\<And>k ic. same L (eval (Suc k) ic n) (eval (Suc k) ic n)"
  then have "same L (eval k ic n) (eval k ic n)" for k ic by (cases k) (auto simp: eval_zero intro: same_panic)
  then show ?thesis by (simp add: converts_def)
qed

lemma converts_symbol:
  assumes "named c L" "isSymbolNode n" "\<not> boolName n" "map_of L (n_Value n) = Some y"
  shows "converts L n (withValue n y) \<and> \<not> boolName (withValue n y)"
proof -
  have d: "distinct (map snd L)" using assms(1) by (simp add: named_def)
  have nb: "\<not> boolName (withValue n y)"
    using named_current [OF assms(1,4)] assms(3) freshName_not_user(2,3) by (auto simp: boolName_def)
  have "same L (eval k ic n) (eval k ic (withValue n y))" for k ic
  proof (cases k)
    case (Suc j)
    have "evalSymbol n = needVarI (n_Value n) n" "evalSymbol (withValue n y) = needVarI y (withValue n y)"
      using assms(3) nb by (simp_all add: evalSymbol_def boolName_def)
    moreover have "isSymbolNode (withValue n y)" using assms(2) by (simp add: isSymbolNode_def)
    ultimately show ?thesis using Suc assms(2) same_needVar [OF d assms(4)] by (simp add: eval_leaf)
  qed (simp add: eval_zero same_panic)
  with nb show ?thesis by (simp add: converts_def)
qed

lemma plain_heads:
  "h \<in> set binops \<Longrightarrow> h \<notin> set specialHeads" "h \<in> set unaries \<Longrightarrow> h \<notin> set specialHeads"
  "h = ''and'' \<or> h = ''or'' \<Longrightarrow> h \<notin> set specialHeads"
  "''if'' \<notin> set specialHeads" "''list'' \<notin> set specialHeads" "''map_get'' \<notin> set specialHeads" "''list_get'' \<notin> set specialHeads"
  "''set'' \<notin> set specialHeads" "''while'' \<notin> set specialHeads" "''do'' \<notin> set specialHeads" "''print'' \<notin> set specialHeads"
  "''stderr'' \<notin> set specialHeads" "''append'' \<notin> set specialHeads" "''map_set'' \<notin> set specialHeads"
  "''map_delete'' \<notin> set specialHeads" "''return'' \<notin> set specialHeads" "''cli_app'' \<notin> set specialHeads"
  unfolding binops_def unaries_def specialHeads_def by (elim insertE emptyE disjE; simp | simp)+

lemma mapState_two [simp]: "mapState f [a, b] c = (let r = f a c; q = f b (snd r) in ([fst r, fst q], snd q))"
  "mapState f [a] c = (let r = f a c in ([fst r], snd r))" "mapState f [a, b, d] c =
     (let r = f a c; q = f b (snd r); p = f d (snd q) in ([fst r, fst q, fst p], snd p))"
  by (simp_all add: Let_def)

text \<open>Expressions.\<close>

definition exprGood :: "bindings \<Rightarrow> nat \<Rightarrow> Node \<Rightarrow> Node \<times> nat \<Rightarrow> bool" where
  "exprGood L c n r \<longleftrightarrow> converts L n (fst r) \<and> expr (snd ` set L) (fst r) \<and> snd r = c"

lemma exprGood_pos: "exprGood L c n r \<Longrightarrow> samePos n (fst r)"
  unfolding exprGood_def by (blast dest: convertsD(1))

lemma exprGood_args:
  assumes "\<forall>a \<in> set args. exprGood L c a (walk (scopesOf L) a c)"
  shows "list_all2 (converts L) args (fst (mapState (walk (scopesOf L)) args c))"
    "\<forall>a \<in> set (fst (mapState (walk (scopesOf L)) args c)). expr (snd ` set L) a"
    "snd (mapState (walk (scopesOf L)) args c) = c"
  using assms by (induction args) (auto simp: Let_def exprGood_def)

lemma symbol_good:
  assumes "named c L" "isSymbolNode n" "\<not> boolName n" "n_Value n \<in> fst ` set L"
  obtains y where "map_of L (n_Value n) = Some y" "walk (scopesOf L) n c = (withValue n y, c)" "y \<in> snd ` set L"
    "converts L n (withValue n y)" "\<not> boolName (withValue n y)" "isSymbolNode (withValue n y)"
proof -
  obtain y where y: "map_of L (n_Value n) = Some y" using assms(4) by (metis map_of_eq_None_iff not_None_eq)
  moreover have "walk (scopesOf L) n c = (withValue n y, c)" using assms(2) y by (simp add: walk_symbol)
  ultimately show thesis
    using that map_of_current [OF y] converts_symbol [OF assms(1-3) y] assms(2) by (simp add: isSymbolNode_def)
qed

lemma current_nonempty: "named c L \<Longrightarrow> map_of L x = Some y \<Longrightarrow> x \<noteq> [] \<Longrightarrow> y \<noteq> []"
  using named_current freshName_not_user(4) by metis

lemma named_user: "named c L \<Longrightarrow> x \<in> fst ` set L \<Longrightarrow> x \<noteq> ''true'' \<and> x \<noteq> ''false''"
  by (fastforce simp: named_def userName_def)

lemma expr_good:
  assumes "expr (fst ` set L) n" "symbolHeads n" "named c L"
  shows "exprGood L c n (walk (scopesOf L) n c)"
  using assms(1,2)
proof (induction rule: expr.induct)
  case (literal n)
  then have w: "walk (scopesOf L) n c = (n, c)" by (intro walk_leaf) (auto simp: isSymbolNode_def isListNode_def)
  have "envFree (eval (Suc k) ic n)" for k ic
    using literal(1) by (auto simp: eval_leaf envFree_basic split: option.split)
  then have "converts L n n" by (intro converts_same same_envFree)
  then show ?case using literal(1) w by (auto simp: exprGood_def intro: expr.literal)
next
  case (truth n)
  have "map_of L (n_Value n) = None"
    using truth(2) named_user [OF assms(3)] by (auto simp: boolName_def map_of_eq_None_iff)
  then have w: "walk (scopesOf L) n c = (n, c)" using truth(1) by (simp add: walk_symbol)
  have "envFree (eval (Suc k) ic n)" for k ic
    using truth by (auto simp: eval_leaf evalSymbol_def boolName_def envFree_basic)
  then have "converts L n n" by (intro converts_same same_envFree)
  then show ?case using truth w by (auto simp: exprGood_def intro: expr.truth)
next
  case (variable n)
  obtain y where y: "walk (scopesOf L) n c = (withValue n y, c)" "y \<in> snd ` set L"
    "converts L n (withValue n y)" "\<not> boolName (withValue n y)" "isSymbolNode (withValue n y)"
    by (rule symbol_good [OF assms(3) variable(1-3)]) blast
  have "expr (snd ` set L) (withValue n y)" by (rule expr.variable [OF y(5,4)]) (simp add: y(2))
  then show ?case using y(1,3) by (simp add: exprGood_def)
next
  case (binop n h a b)
  let ?w = "walk (scopesOf L)"
  from binop obtain hn where s: "symbolHeads a" "symbolHeads b" using symbolHeads_form [OF binop(1,7)] by auto
  have g: "exprGood L c a (?w a c)" "exprGood L c b (?w b c)" using binop s by auto
  let ?args = "[fst (?w a c), fst (?w b c)]" and ?n = "withChildren n (hd (n_Children n) # [fst (?w a c), fst (?w b c)])"
  have w: "?w n c = (?n, c)" using walk_form [OF binop(1,7) plain_heads(1) [OF binop(2)]] g by (simp add: exprGood_def Let_def)
  have f: "form ?n h ?args" by (rule form_with [OF binop(1)])
  have "converts L n ?n"
  proof (rule converts_form [OF binop(1)])
    show "list_all2 (converts L) [a, b] ?args" using g by (simp add: exprGood_def)
    show "same L (eval (Suc k) ic n) (eval (Suc k) ic ?n)" for k ic
      using g unfolding eval_binop [OF binop(1,2)] eval_binop [OF f binop(2)]
      by (auto simp: exprGood_def samePos_ops(5) [OF samePos_with(1)] intro!: same_intros dest: convertsD(3))
  qed
  then show ?case using w g expr.binop [OF f binop(2)] by (simp add: exprGood_def)
next
  case (logic n h a b)
  let ?w = "walk (scopesOf L)"
  from logic have s: "symbolHeads a" "symbolHeads b" using symbolHeads_form [OF logic(1,7)] by (metis list.set_intros)+
  have g: "exprGood L c a (?w a c)" "exprGood L c b (?w b c)" using logic s by auto
  let ?args = "[fst (?w a c), fst (?w b c)]" and ?n = "withChildren n (hd (n_Children n) # [fst (?w a c), fst (?w b c)])"
  have w: "?w n c = (?n, c)" using walk_form [OF logic(1,7) plain_heads(3) [OF logic(2)]] g by (simp add: exprGood_def Let_def)
  have f: "form ?n h ?args" by (rule form_with [OF logic(1)])
  have "converts L n ?n"
  proof (rule converts_form [OF logic(1)])
    show "list_all2 (converts L) [a, b] ?args" using g by (simp add: exprGood_def)
    note p = g [THEN exprGood_pos]
    show "same L (eval (Suc k) ic n) (eval (Suc k) ic ?n)" for k ic
      using g unfolding eval_logic [OF logic(1,2)] eval_logic [OF f logic(2)] samePos_ops(1) [OF p(1)] samePos_ops(1) [OF p(2)]
      by (auto simp: exprGood_def intro!: same_intros dest: convertsD(3))
  qed
  then show ?case using w g expr.logic [OF f logic(2)] by (simp add: exprGood_def)
next
  case (unary n h a)
  let ?w = "walk (scopesOf L)"
  from unary have s: "symbolHeads a" using symbolHeads_form [OF unary(1,5)] by (metis list.set_intros(1))
  have g: "exprGood L c a (?w a c)" using unary s by auto
  let ?args = "[fst (?w a c)]" and ?n = "withChildren n (hd (n_Children n) # [fst (?w a c)])"
  have w: "?w n c = (?n, c)" using walk_form [OF unary(1,5) plain_heads(2) [OF unary(2)]] g by (simp add: exprGood_def Let_def)
  have f: "form ?n h ?args" by (rule form_with [OF unary(1)])
  have "converts L n ?n"
  proof (rule converts_form [OF unary(1)])
    show "list_all2 (converts L) [a] ?args" using g by (simp add: exprGood_def)
    note p = g [THEN exprGood_pos]
    show "same L (eval (Suc k) ic n) (eval (Suc k) ic ?n)" for k ic
      using g unfolding eval_unary [OF unary(1,2)] eval_unary [OF f unary(2)]
      by (auto simp: exprGood_def samePos_unary [OF samePos_with(1) p(1)] intro!: same_intros dest: convertsD(3))
  qed
  then show ?case using w g expr.unary [OF f unary(2)] by (simp add: exprGood_def)
next
  case (choice n a b d)
  let ?w = "walk (scopesOf L)"
  from choice have s: "symbolHeads a" "symbolHeads b" "symbolHeads d" using symbolHeads_form [OF choice(1,8)] by (metis list.set_intros)+
  have g: "exprGood L c a (?w a c)" "exprGood L c b (?w b c)" "exprGood L c d (?w d c)" using choice s by auto
  let ?args = "[fst (?w a c), fst (?w b c), fst (?w d c)]"
  let ?n = "withChildren n (hd (n_Children n) # [fst (?w a c), fst (?w b c), fst (?w d c)])"
  have w: "?w n c = (?n, c)" using walk_form [OF choice(1,8) plain_heads(4)] g by (simp add: exprGood_def Let_def)
  have f: "form ?n ''if'' ?args" by (rule form_with [OF choice(1)])
  have "converts L n ?n"
  proof (rule converts_form [OF choice(1)])
    show "list_all2 (converts L) [a, b, d] ?args" using g by (simp add: exprGood_def)
    note p = g [THEN exprGood_pos]
    show "same L (eval (Suc k) ic n) (eval (Suc k) ic ?n)" for k ic
      using g unfolding eval_choice [OF choice(1)] eval_choice [OF f] samePos_ops(1) [OF p(1)]
      by (auto simp: exprGood_def intro!: same_intros dest: convertsD(3))
  qed
  then show ?case using w g expr.choice [OF f] by (simp add: exprGood_def)
next
  case (listing n args)
  let ?w = "walk (scopesOf L)" and ?args = "fst (mapState (walk (scopesOf L)) args c)"
  from listing have "\<forall>a \<in> set args. exprGood L c a (?w a c)" using symbolHeads_form [OF listing(1,3)] by blast
  note g = exprGood_args [OF this]
  let ?n = "withChildren n (hd (n_Children n) # fst (mapState (walk (scopesOf L)) args c))"
  have w: "?w n c = (?n, c)" using walk_form [OF listing(1,3) plain_heads(5)] g(3) by simp
  have f: "form ?n ''list'' ?args" by (rule form_with [OF listing(1)])
  have "converts L n ?n"
  proof (rule converts_form [OF listing(1) g(1)])
    show "same L (eval (Suc k) ic n) (eval (Suc k) ic ?n)" for k ic
      unfolding eval_list [OF listing(1)] eval_list [OF f]
      by (intro same_intros same_traverse list_all2_mono [OF g(1)]) (rule convertsD(3))
  qed
  then show ?case using w g(2) expr.listing [OF f] by (simp add: exprGood_def)
next
  case (entry n d k)
  let ?w = "walk (scopesOf L)"
  from entry have s: "symbolHeads k" using symbolHeads_form [OF entry(1,7)] by (metis list.set_intros)
  have g: "exprGood L c k (?w k c)" using entry s by auto
  have "\<not> boolName d" using named_user [OF assms(3) entry(3)] by (simp add: boolName_def)
  then obtain y where y: "map_of L (n_Value d) = Some y" "?w d c = (withValue d y, c)" "y \<in> snd ` set L"
    "converts L d (withValue d y)" "isSymbolNode (withValue d y)" using symbol_good [OF assms(3) entry(2) _ entry(3)] by metis
  let ?args = "[withValue d y, fst (?w k c)]" and ?n = "withChildren n (hd (n_Children n) # [withValue d y, fst (?w k c)])"
  have w: "?w n c = (?n, c)" using walk_form [OF entry(1,7) plain_heads(6)] g y(2) by (simp add: exprGood_def Let_def)
  have f: "form ?n ''map_get'' ?args" by (rule form_with [OF entry(1)])
  have dist: "distinct (map snd L)" using assms(3) by (simp add: named_def)
  have "converts L n ?n"
  proof (rule converts_form [OF entry(1)])
    show "list_all2 (converts L) [d, k] ?args" using g y(4) by (simp add: exprGood_def)
    show "same L (eval (Suc j) ic n) (eval (Suc j) ic ?n)" for j ic
      using g unfolding eval_entry [OF entry(1,2)] eval_entry [OF f y(5)]
      by (auto simp: exprGood_def samePos_ops(2) [OF samePos_with(2)] intro!: same_intros same_needVar [OF dist y(1)] dest: convertsD(3))
  qed
  then show ?case
    using w g expr.entry [OF f y(5)] y(3) current_nonempty [OF assms(3) y(1) entry(4)] by (simp add: exprGood_def)
next
  case (element n l k)
  let ?w = "walk (scopesOf L)"
  from element have s: "symbolHeads k" using symbolHeads_form [OF element(1,6)] by (metis list.set_intros)
  have g: "exprGood L c k (?w k c)" using element s by auto
  have "\<not> boolName l" using named_user [OF assms(3) element(3)] by (simp add: boolName_def)
  then obtain y where y: "map_of L (n_Value l) = Some y" "?w l c = (withValue l y, c)" "y \<in> snd ` set L"
    "converts L l (withValue l y)" "isSymbolNode (withValue l y)" using symbol_good [OF assms(3) element(2) _ element(3)] by metis
  let ?args = "[withValue l y, fst (?w k c)]" and ?n = "withChildren n (hd (n_Children n) # [withValue l y, fst (?w k c)])"
  have w: "?w n c = (?n, c)" using walk_form [OF element(1,6) plain_heads(7)] g y(2) by (simp add: exprGood_def Let_def)
  have f: "form ?n ''list_get'' ?args" by (rule form_with [OF element(1)])
  have dist: "distinct (map snd L)" using assms(3) by (simp add: named_def)
  note p = g [THEN exprGood_pos]
  have "same L (case r of None \<Rightarrow> typeErrorI m v k | Some i \<Rightarrow> returnI (F i)) (case r of None \<Rightarrow> typeErrorI m v k | Some i \<Rightarrow> returnI (F i))" for r m v F
    by (cases r) (auto intro: same_intros)
  then have "converts L n ?n"
  proof (intro converts_form [OF element(1)])
    show "list_all2 (converts L) [l, k] ?args" using g y(4) by (simp add: exprGood_def)
    show "same L (eval (Suc j) ic n) (eval (Suc j) ic ?n)" for j ic
      using g unfolding eval_element [OF element(1,2)] eval_element [OF f y(5)] samePos_ops(4) [OF p(1)]
      by (auto simp: exprGood_def samePos_ops(3) [OF samePos_with(2)] intro!: same_intros same_needVar [OF dist y(1)]
          dest: convertsD(3) split: option.split)
  qed
  then show ?case using w g expr.element [OF f y(5)] y(3) by (simp add: exprGood_def)
qed

subsection \<open>Statements\<close>

text \<open>The statements over the visible names \<open>X\<close>, as they are written: a binding may shadow.\<close>

inductive source :: "string set \<Rightarrow> Node \<Rightarrow> bool" where
  value_of: "expr X n \<Longrightarrow> source X n"
| letting: "form n ''let'' [b, body] \<Longrightarrow> binding b x e \<Longrightarrow> isSymbolNode x \<Longrightarrow> userName (n_Value x) \<Longrightarrow> bindable X e \<Longrightarrow>
    source (insert (n_Value x) X) body \<Longrightarrow> source X n"
| setting: "form n ''set'' [x, e] \<Longrightarrow> isSymbolNode x \<Longrightarrow> n_Value x \<in> X \<Longrightarrow> bindable X e \<Longrightarrow> source X n"
| branch: "form n ''if'' [a, b, d] \<Longrightarrow> expr X a \<Longrightarrow> source X b \<Longrightarrow> source X d \<Longrightarrow> source X n"
| unless: "form n ''if'' [a, b] \<Longrightarrow> expr X a \<Longrightarrow> source X b \<Longrightarrow> source X n"
| loop: "form n ''while'' [a, b] \<Longrightarrow> expr X a \<Longrightarrow> source X b \<Longrightarrow> source X n"
| each: "form n ''for'' [x, l, b] \<Longrightarrow> isSymbolNode x \<Longrightarrow> userName (n_Value x) \<Longrightarrow> expr X l \<Longrightarrow>
    source (insert (n_Value x) X) b \<Longrightarrow> source X n"
| block: "form n ''do'' ns \<Longrightarrow> \<forall>a \<in> set ns. source X a \<Longrightarrow> source X n"
| printing: "form n ''print'' args \<Longrightarrow> \<forall>a \<in> set args. expr X a \<Longrightarrow> source X n"
| warning: "form n ''stderr'' [a] \<Longrightarrow> expr X a \<Longrightarrow> source X n"
| appending: "form n ''append'' [l, a] \<Longrightarrow> isSymbolNode l \<Longrightarrow> n_Value l \<in> X \<Longrightarrow> expr X a \<Longrightarrow> source X n"
| storing: "form n ''map_set'' [d, a, b] \<Longrightarrow> isSymbolNode d \<Longrightarrow> n_Value d \<in> X \<Longrightarrow> expr X a \<Longrightarrow> expr X b \<Longrightarrow> source X n"
| deleting: "form n ''map_delete'' [d, a] \<Longrightarrow> isSymbolNode d \<Longrightarrow> n_Value d \<in> X \<Longrightarrow> expr X a \<Longrightarrow> source X n"
| result: "form n ''return'' [a] \<Longrightarrow> expr X a \<Longrightarrow> source X n"

definition stmtGood :: "bindings \<Rightarrow> nat \<Rightarrow> Node \<Rightarrow> Node \<times> nat \<Rightarrow> bool" where
  "stmtGood L c n r \<longleftrightarrow> converts L n (fst r) \<and> stmt (snd ` set L) (fst r) \<and> c \<le> snd r"

lemma stmtGoodI: "converts L n n' \<Longrightarrow> stmt (snd ` set L) n' \<Longrightarrow> c \<le> m \<Longrightarrow> w = (n', m) \<Longrightarrow> stmtGood L c n w"
  by (simp add: stmtGood_def)

lemma stmtGood_pos: "stmtGood L c n r \<Longrightarrow> samePos n (fst r)"
  unfolding stmtGood_def by (blast dest: convertsD(1))

lemma stmtGood_args:
  assumes "\<And>a m. a \<in> set args \<Longrightarrow> c \<le> m \<Longrightarrow> stmtGood L m a (walk (scopesOf L) a m)"
  shows "list_all2 (converts L) args (fst (mapState (walk (scopesOf L)) args c)) \<and>
    (\<forall>a \<in> set (fst (mapState (walk (scopesOf L)) args c)). stmt (snd ` set L) a) \<and>
    c \<le> snd (mapState (walk (scopesOf L)) args c)"
  using assms
proof (induction args arbitrary: c)
  case (Cons a args)
  have a: "stmtGood L c a (walk (scopesOf L) a c)" using Cons.prems by simp
  moreover have "\<And>b m. b \<in> set args \<Longrightarrow> snd (walk (scopesOf L) a c) \<le> m \<Longrightarrow> stmtGood L m b (walk (scopesOf L) b m)"
    using Cons.prems a unfolding stmtGood_def by (meson le_trans list.set_intros(2))
  note r = Cons.IH [of "snd (walk (scopesOf L) a c)", OF this]
  show ?case using a r le_trans [of c "snd (walk (scopesOf L) a c)"] by (simp add: Let_def stmtGood_def)
qed simp

lemma walk_let:
  assumes "form n ''let'' [b, body]" "binding b x e" "symbolHeads n"
  shows "walk sc n c =
    (let v = walk sc e c; r = bindName sc x (snd v); w = walk (fst r) body (snd (snd r))
     in (withChildren n (hd (n_Children n) # [withChildren b [fst (snd r), fst v], fst w]), snd w))"
proof -
  obtain hn where c: "n_Children n = [hn, b, body]" "isSymbolNode hn" "n_Value hn = ''let''"
    using symbolHeads_form [OF assms(1,3)] by blast
  then have "letForm (n_Children n)" using assms(2) by (simp add: letForm_def headOf_def pairNode_def binding_def)
  then show ?thesis
    using assms(1,2) c form_not_symbol [OF assms(1)]
    by (subst walk.simps) (simp add: binding_def Let_def)
qed

lemma walk_for:
  assumes "form n ''for'' [x, l, b]" "symbolHeads n"
  shows "walk sc n c =
    (let v = walk sc l c; r = bindName sc x (snd v); w = walk (fst r) b (snd (snd r))
     in (withChildren n (hd (n_Children n) # [fst (snd r), fst v, fst w]), snd w))"
proof -
  obtain hn where c: "n_Children n = [hn, x, l, b]" "isSymbolNode hn" "n_Value hn = ''for''"
    using symbolHeads_form [OF assms] by blast
  then have "forForm (n_Children n)" "\<not> letForm (n_Children n)" by (simp_all add: forForm_def letForm_def headOf_def)
  then show ?thesis
    using assms(1) c form_not_symbol [OF assms(1)]
    by (subst walk.simps) (simp add: Let_def)
qed

lemma walk_dict:
  assumes "form n ''dict'' []" "symbolHeads n" shows "walk sc n c = (n, c)"
proof -
  obtain hn where c: "n_Children n = [hn]" "isSymbolNode hn" "n_Value hn = ''dict''"
    using symbolHeads_form [OF assms] by blast
  then have "\<not> letForm (n_Children n)" "\<not> forForm (n_Children n)" "\<not> tryForm (n_Children n)" "\<not> defunForm (n_Children n)"
    "headOf (n_Children n) = ''dict''"
    by (simp_all add: forForm_def letForm_def tryForm_def defunForm_def headOf_def)
  moreover have "withChildren n [hn] = n" using c(1) withChildren_same [of n] by simp
  ultimately show ?thesis
    using assms(1) c form_not_symbol [OF assms(1)]
    by (subst walk.simps) (simp add: Let_def)
qed

text \<open>A value to be bound.\<close>

definition bindGood :: "bindings \<Rightarrow> nat \<Rightarrow> Node \<Rightarrow> Node \<times> nat \<Rightarrow> bool" where
  "bindGood L c n r \<longleftrightarrow> converts L n (fst r) \<and> bindable (snd ` set L) (fst r) \<and> snd r = c"

lemma bindable_good:
  assumes "bindable (fst ` set L) n" "symbolHeads n" "named c L"
  shows "bindGood L c n (walk (scopesOf L) n c)"
proof (cases "form n ''dict'' []")
  case True
  have "converts L n n" by (rule converts_same) (simp add: eval_dict [OF True] same_ops)
  then show ?thesis using True walk_dict [OF True assms(2)] by (simp add: bindGood_def bindable_def)
next
  case False
  then have "expr (fst ` set L) n" using assms(1) by (simp add: bindable_def)
  from expr_good [OF this assms(2,3)] show ?thesis by (simp add: bindGood_def exprGood_def bindable_def)
qed

lemma source_good:
  assumes "source X n" "X = fst ` set L" "symbolHeads n" "named c L"
  shows "stmtGood L c n (walk (scopesOf L) n c)"
  using assms
proof (induction arbitrary: L c rule: source.induct)
  case (value_of X n)
  with expr_good [of L n c] show ?case by (auto simp: exprGood_def stmtGood_def intro: stmt.value_of)
next
  case (letting n b body x e X)
  obtain hn where h: "n_Children n = [hn, b, body]" "symbolHeads b" "symbolHeads body" using symbolHeads_form [OF letting(1,9)] by auto
  have se: "symbolHeads e" using h(2) letting(2) by (cases b) (auto simp: binding_def)
  obtain e' where e: "walk (scopesOf L) e c = (e', c)" "converts L e e'" "bindable (snd ` set L) e'"
    using bindable_good [OF _ se letting(10)] letting(5,8) by (cases "walk (scopesOf L) e c") (auto simp: bindGood_def)
  obtain y x' m where x: "bindName (scopesOf L) x c = (scopesOf ((n_Value x, y) # L), x', m)" "named m ((n_Value x, y) # L)"
    "n_Value x' = y" "isSymbolNode x'" "c \<le> m" "size x' = size x" using bindName_named [OF letting(10,4,3)] .
  let ?L = "(n_Value x, y) # L"
  obtain body' m' where b: "walk (scopesOf ?L) body m = (body', m')" by fastforce
  have g: "stmtGood ?L m body (body', m')" using letting.IH [OF _ h(3) x(2)] letting(8) b by simp
  let ?b = "withChildren b [x', e']" and ?n = "withChildren n (hd (n_Children n) # [withChildren b [x', e'], body'])"
  have w: "walk (scopesOf L) n c = (?n, m')" using walk_let [OF letting(1,2,9)] e(1) x(1) b by (simp add: Let_def)
  have f: "form ?n ''let'' [?b, body']" by (rule form_with [OF letting(1)])
  have bi: "binding ?b x' e'" using letting(2) by (simp add: binding_def isListNode_def)
  have sb: "size ?b = size b" using letting(2) convertsD(2) [OF e(2)] x(6) by (intro size_with) (simp add: binding_def)
  have sb': "size body' = size body" using g by (auto simp: stmtGood_def dest: convertsD(2))
  have "y \<notin> snd ` set L" using x(2) by (simp add: named_def)
  have "stmt (snd ` set L) ?n"
    by (rule stmt.letting [OF f bi]) (use x(3) \<open>y \<notin> snd ` set L\<close> e(3) g in \<open>simp_all add: stmtGood_def\<close>)
  moreover have "same L (eval k ic n) (eval k ic ?n)" for k ic
  proof (cases k)
    case (Suc j)
    have "same ?L (eval j ic body) (eval j ic body')" using g by (auto simp: stmtGood_def dest: convertsD(3))
    then show ?thesis unfolding Suc eval_let [OF letting(1,2)] eval_let [OF f bi] x(3)
      by (intro same_intros same_inFrame convertsD(3) [OF e(2)])
  qed (simp add: eval_zero same_panic)
  then have "converts L n ?n"
    using size_form_with [OF letting(1), of "[?b, body']"] sb sb' by (simp add: converts_def)
  ultimately show ?case using w g x(5) by (auto simp: stmtGood_def)
next
  case (setting n x e X)
  obtain hn where h: "symbolHeads e" using symbolHeads_form [OF setting(1,6)] by auto
  obtain e' where e: "walk (scopesOf L) e c = (e', c)" "converts L e e'" "bindable (snd ` set L) e'"
    using bindable_good [OF _ h setting(7)] setting(4,5) by (cases "walk (scopesOf L) e c") (auto simp: bindGood_def)
  have nb: "\<not> boolName x" using named_user [OF setting(7)] setting(3,5) by (simp add: boolName_def)
  obtain y where y: "map_of L (n_Value x) = Some y" "walk (scopesOf L) x c = (withValue x y, c)" "y \<in> snd ` set L"
    "converts L x (withValue x y)" using symbol_good [OF setting(7,2) nb] setting(3,5) by blast
  let ?n = "withChildren n (hd (n_Children n) # [withValue x y, e'])"
  have w: "walk (scopesOf L) n c = (?n, c)" using walk_form [OF setting(1,6) plain_heads(8)] y(2) e(1) by (simp add: Let_def)
  have f: "form ?n ''set'' [withValue x y, e']" by (rule form_with [OF setting(1)])
  have d: "distinct (map snd L)" using setting(7) by (simp add: named_def)
  have "converts L n ?n"
  proof (rule converts_form [OF setting(1)])
    show "list_all2 (converts L) [x, e] [withValue x y, e']" using y(4) e(2) by simp
    show "same L (eval (Suc k) ic n) (eval (Suc k) ic ?n)" for k ic
      unfolding eval_set [OF setting(1)] eval_set [OF f] with_simps
      by (intro same_bind convertsD(3) [OF e(2)] same_setVar [OF d y(1)] same_return)
  qed
  moreover have "stmt (snd ` set L) ?n" by (rule stmt.setting [OF f]) (simp_all add: y(3) e(3))
  ultimately show ?case using w by (simp add: stmtGood_def)
next
  case (branch n a b d X)
  let ?w = "walk (scopesOf L)"
  have s: "symbolHeads a" "symbolHeads b" "symbolHeads d" using symbolHeads_form [OF branch(1,8)] by (metis list.set_intros)+
  obtain a' where a: "?w a c = (a', c)" "converts L a a'" "expr (snd ` set L) a'"
    using expr_good [OF _ s(1) branch(9)] branch(2,7) by (cases "?w a c") (auto simp: exprGood_def)
  obtain b' m where b: "?w b c = (b', m)" "converts L b b'" "stmt (snd ` set L) b'" "c \<le> m"
    using branch.IH(1) [OF branch(7) s(2) branch(9)] by (cases "?w b c") (auto simp: stmtGood_def)
  obtain d' m' where d: "?w d m = (d', m')" "converts L d d'" "stmt (snd ` set L) d'" "m \<le> m'"
    using branch.IH(2) [OF branch(7) s(3) named_mono [OF branch(9) b(4)]] by (cases "?w d m") (auto simp: stmtGood_def)
  let ?n = "withChildren n (hd (n_Children n) # [a', b', d'])"
  have w: "?w n c = (?n, m')" using walk_form [OF branch(1,8) plain_heads(4)] a(1) b(1) d(1) by (simp add: Let_def)
  have f: "form ?n ''if'' [a', b', d']" by (rule form_with [OF branch(1)])
  have "converts L n ?n"
  proof (rule converts_form [OF branch(1)])
    show "list_all2 (converts L) [a, b, d] [a', b', d']" using a(2) b(2) d(2) by simp
    show "same L (eval (Suc k) ic n) (eval (Suc k) ic ?n)" for k ic
      unfolding eval_choice [OF branch(1)] eval_choice [OF f] samePos_ops(1) [OF convertsD(1) [OF a(2)]]
      by (intro same_intros convertsD(3) [OF a(2)] convertsD(3) [OF b(2)] convertsD(3) [OF d(2)])
  qed
  with stmt.branch [OF f a(3) b(3) d(3)] w b(4) d(4) show ?case by (simp add: stmtGood_def)
next
  case (unless n a b X)
  let ?w = "walk (scopesOf L)"
  have s: "symbolHeads a" "symbolHeads b" using symbolHeads_form [OF unless(1,6)] by (metis list.set_intros)+
  obtain a' where a: "?w a c = (a', c)" "converts L a a'" "expr (snd ` set L) a'"
    using expr_good [OF _ s(1) unless(7)] unless(2,5) by (cases "?w a c") (auto simp: exprGood_def)
  obtain b' m where b: "?w b c = (b', m)" "converts L b b'" "stmt (snd ` set L) b'" "c \<le> m"
    using unless.IH [OF unless(5) s(2) unless(7)] by (cases "?w b c") (auto simp: stmtGood_def)
  let ?n = "withChildren n (hd (n_Children n) # [a', b'])"
  have w: "?w n c = (?n, m)" using walk_form [OF unless(1,6) plain_heads(4)] a(1) b(1) by (simp add: Let_def)
  have f: "form ?n ''if'' [a', b']" by (rule form_with [OF unless(1)])
  have "converts L n ?n"
  proof (rule converts_form [OF unless(1)])
    show "list_all2 (converts L) [a, b] [a', b']" using a(2) b(2) by simp
    show "same L (eval (Suc k) ic n) (eval (Suc k) ic ?n)" for k ic
      unfolding eval_when [OF unless(1)] eval_when [OF f] samePos_ops(1) [OF convertsD(1) [OF a(2)]]
      by (intro same_intros convertsD(3) [OF a(2)] convertsD(3) [OF b(2)])
  qed
  with stmt.unless [OF f a(3) b(3)] w b(4) show ?case by (simp add: stmtGood_def)
next
  case (loop n a b X)
  let ?w = "walk (scopesOf L)"
  have s: "symbolHeads a" "symbolHeads b" using symbolHeads_form [OF loop(1,6)] by (metis list.set_intros)+
  obtain a' where a: "?w a c = (a', c)" "converts L a a'" "expr (snd ` set L) a'"
    using expr_good [OF _ s(1) loop(7)] loop(2,5) by (cases "?w a c") (auto simp: exprGood_def)
  obtain b' m where b: "?w b c = (b', m)" "converts L b b'" "stmt (snd ` set L) b'" "c \<le> m"
    using loop.IH [OF loop(5) s(2) loop(7)] by (cases "?w b c") (auto simp: stmtGood_def)
  let ?n = "withChildren n (hd (n_Children n) # [a', b'])"
  have w: "?w n c = (?n, m)" using walk_form [OF loop(1,6) plain_heads(9)] a(1) b(1) by (simp add: Let_def)
  have f: "form ?n ''while'' [a', b']" by (rule form_with [OF loop(1)])
  have "converts L n ?n"
  proof (rule converts_form [OF loop(1)])
    show "list_all2 (converts L) [a, b] [a', b']" using a(2) b(2) by simp
    have "same L (whileLoop (eval k ic) n j) (whileLoop (eval k ic) ?n j)" for k ic j
    proof (induction j)
      case (Suc j)
      show ?case
        unfolding whileLoop_form [OF loop(1)] whileLoop_form [OF f] samePos_ops(1) [OF convertsD(1) [OF a(2)]]
        by (intro same_intros convertsD(3) [OF a(2)] convertsD(3) [OF b(2)] Suc)
    qed (simp add: same_panic)
    then show "same L (eval (Suc k) ic n) (eval (Suc k) ic ?n)" for k ic
      unfolding eval_while [OF loop(1)] eval_while [OF f] .
  qed
  with stmt.loop [OF f a(3) b(3)] w b(4) show ?case by (simp add: stmtGood_def)
next
  case (each n x l b X)
  let ?w = "walk (scopesOf L)"
  have s: "symbolHeads l" "symbolHeads b" using symbolHeads_form [OF each(1,8)] by (metis list.set_intros)+
  obtain l' where l: "?w l c = (l', c)" "converts L l l'" "expr (snd ` set L) l'"
    using expr_good [OF _ s(1) each(9)] each(4,7) by (cases "?w l c") (auto simp: exprGood_def)
  obtain y x' m where x: "bindName (scopesOf L) x c = (scopesOf ((n_Value x, y) # L), x', m)" "named m ((n_Value x, y) # L)"
    "n_Value x' = y" "isSymbolNode x'" "c \<le> m" "size x' = size x" using bindName_named [OF each(9,3,2)] .
  let ?L = "(n_Value x, y) # L"
  obtain b' m' where b: "walk (scopesOf ?L) b m = (b', m')" by fastforce
  have g: "stmtGood ?L m b (b', m')" using each.IH [OF _ s(2) x(2)] each(7) b by simp
  let ?n = "withChildren n (hd (n_Children n) # [x', l', b'])"
  have w: "?w n c = (?n, m')" using walk_for [OF each(1,8)] l(1) x(1) b by (simp add: Let_def)
  have f: "form ?n ''for'' [x', l', b']" by (rule form_with [OF each(1)])
  have sb: "size b' = size b" using g by (auto simp: stmtGood_def dest: convertsD(2))
  have "y \<notin> snd ` set L" using x(2) by (simp add: named_def)
  have "stmt (snd ` set L) ?n"
    by (rule stmt.each [OF f]) (use x(3) \<open>y \<notin> snd ` set L\<close> l(3) g in \<open>simp_all add: stmtGood_def\<close>)
  moreover have "same L (eval k ic n) (eval k ic ?n)" for k ic
  proof (cases k)
    case (Suc j)
    have "same ?L (eval j ic b) (eval j ic b')" using g by (auto simp: stmtGood_def dest: convertsD(3))
    then have "same L (forLoop (eval j ic) b (n_Value x) vs) (forLoop (eval j ic) b' y vs)" for vs by (rule same_forLoop)
    then have "same L (case v of VList xs \<Rightarrow> forLoop (eval j ic) b (n_Value x) xs | _ \<Rightarrow> InterpErr m l)
        (case v of VList xs \<Rightarrow> forLoop (eval j ic) b' y xs | _ \<Rightarrow> InterpErr m l)" for v m
      by (cases v) (auto intro: same_values)
    then show ?thesis unfolding Suc eval_for [OF each(1)] eval_for [OF f] x(3) err_pos [OF convertsD(1) [OF l(2)]]
      by (intro same_bind convertsD(3) [OF l(2)])
  qed (simp add: eval_zero same_panic)
  then have "converts L n ?n"
    using size_form_with [OF each(1), of "[x', l', b']"] sb x(6) convertsD(2) [OF l(2)] by (simp add: converts_def)
  ultimately show ?case using w g x(5) by (auto simp: stmtGood_def)
next
  case (block n ns X)
  have "stmtGood L m a (walk (scopesOf L) a m)" if "a \<in> set ns" "c \<le> m" for a m
    using block.IH that symbolHeads_form [OF block(1,4)] named_mono [OF block(5) that(2)] block(3) by blast
  note g = stmtGood_args [of ns c L, OF this]
  let ?args = "fst (mapState (walk (scopesOf L)) ns c)" and ?m = "snd (mapState (walk (scopesOf L)) ns c)"
  let ?n = "withChildren n (hd (n_Children n) # fst (mapState (walk (scopesOf L)) ns c))"
  have w: "walk (scopesOf L) n c = (?n, ?m)" by (rule walk_form [OF block(1,4) plain_heads(10)])
  have f: "form ?n ''do'' ?args" by (rule form_with [OF block(1)])
  have "converts L n ?n"
  proof (rule converts_form [OF block(1)])
    show l: "list_all2 (converts L) ns ?args" using g by blast
    show "same L (eval (Suc k) ic n) (eval (Suc k) ic ?n)" for k ic
      unfolding eval_do [OF block(1)] eval_do [OF f]
      by (intro same_seq list_all2_mono [OF l]) (rule convertsD(3))
  qed
  with stmt.block [OF f] w g show ?case by (simp add: stmtGood_def)
next
  case (printing n args X)
  have "\<forall>a \<in> set args. exprGood L c a (walk (scopesOf L) a c)"
    using printing(2,3) symbolHeads_form [OF printing(1,4)] expr_good [OF _ _ printing(5)] by blast
  note g = exprGood_args [OF this]
  let ?args = "fst (mapState (walk (scopesOf L)) args c)"
  let ?n = "withChildren n (hd (n_Children n) # fst (mapState (walk (scopesOf L)) args c))"
  have w: "walk (scopesOf L) n c = (?n, c)" using walk_form [OF printing(1,4) plain_heads(11)] g(3) by simp
  have f: "form ?n ''print'' ?args" by (rule form_with [OF printing(1)])
  have t: "same L (traverseI textI vs) (traverseI textI vs)" for vs
    by (rule same_traverse) (simp add: list_all2_refl same_ops)
  have "converts L n ?n"
  proof (rule converts_form [OF printing(1) g(1)])
    show "same L (eval (Suc k) ic n) (eval (Suc k) ic ?n)" for k ic
      unfolding eval_print [OF printing(1)] eval_print [OF f]
      by (intro same_intros t same_traverse list_all2_mono [OF g(1)]) (rule convertsD(3))
  qed
  with stmt.printing [OF f g(2)] w show ?case by (simp add: stmtGood_def)
next
  case (warning n a X)
  let ?w = "walk (scopesOf L)"
  have s: "symbolHeads a" using symbolHeads_form [OF warning(1,4)] by (metis list.set_intros(1))
  obtain a' where a: "?w a c = (a', c)" "converts L a a'" "expr (snd ` set L) a'"
    using expr_good [OF _ s warning(5)] warning(2,3) by (cases "?w a c") (auto simp: exprGood_def)
  let ?n = "withChildren n (hd (n_Children n) # [a'])"
  have w: "?w n c = (?n, c)" using walk_form [OF warning(1,4) plain_heads(12)] a(1) by (simp add: Let_def)
  have f: "form ?n ''stderr'' [a']" by (rule form_with [OF warning(1)])
  have "converts L n ?n"
  proof (rule converts_form [OF warning(1)])
    show "list_all2 (converts L) [a] [a']" using a(2) by simp
    show "same L (eval (Suc k) ic n) (eval (Suc k) ic ?n)" for k ic
      unfolding eval_stderr [OF warning(1)] eval_stderr [OF f] by (intro same_intros convertsD(3) [OF a(2)])
  qed
  with stmt.warning [OF f a(3)] w show ?case by (simp add: stmtGood_def)
next
  case (appending n l a X)
  let ?w = "walk (scopesOf L)"
  have s: "symbolHeads a" using symbolHeads_form [OF appending(1,6)] by (metis list.set_intros)
  obtain a' where a: "?w a c = (a', c)" "converts L a a'" "expr (snd ` set L) a'"
    using expr_good [OF _ s appending(7)] appending(4,5) by (cases "?w a c") (auto simp: exprGood_def)
  have nb: "\<not> boolName l" using named_user [OF appending(7)] appending(3,5) by (simp add: boolName_def)
  obtain y where y: "map_of L (n_Value l) = Some y" "?w l c = (withValue l y, c)" "y \<in> snd ` set L"
    "converts L l (withValue l y)" "isSymbolNode (withValue l y)" using symbol_good [OF appending(7,2) nb] appending(3,5) by blast
  let ?n = "withChildren n (hd (n_Children n) # [withValue l y, a'])"
  have w: "?w n c = (?n, c)" using walk_form [OF appending(1,6) plain_heads(13)] a(1) y(2) by (simp add: Let_def)
  have f: "form ?n ''append'' [withValue l y, a']" by (rule form_with [OF appending(1)])
  have d: "distinct (map snd L)" using appending(7) by (simp add: named_def)
  have "converts L n ?n"
  proof (rule converts_form [OF appending(1)])
    show "list_all2 (converts L) [l, a] [withValue l y, a']" using a(2) y(4) by simp
    show "same L (eval (Suc k) ic n) (eval (Suc k) ic ?n)" for k ic
      unfolding eval_append [OF appending(1,2)] eval_append [OF f y(5)] samePos_ops(3) [OF samePos_with(2)] with_simps
      by (intro same_setVar [OF d y(1)] same_intros same_needVar [OF d y(1)] convertsD(3) [OF a(2)])
  qed
  with stmt.appending [OF f y(5) _ a(3)] y(3) w show ?case by (simp add: stmtGood_def)
next
  case (storing n dn a b X)
  let ?w = "walk (scopesOf L)"
  have s: "symbolHeads a" "symbolHeads b" using symbolHeads_form [OF storing(1,7)] by (metis list.set_intros)+
  obtain a' where a: "?w a c = (a', c)" "converts L a a'" "expr (snd ` set L) a'"
    using expr_good [OF _ s(1) storing(8)] storing(4,6) by (cases "?w a c") (auto simp: exprGood_def)
  obtain b' where b: "?w b c = (b', c)" "converts L b b'" "expr (snd ` set L) b'"
    using expr_good [OF _ s(2) storing(8)] storing(5,6) by (cases "?w b c") (auto simp: exprGood_def)
  have nb: "\<not> boolName dn" using named_user [OF storing(8)] storing(3,6) by (simp add: boolName_def)
  obtain y where y: "map_of L (n_Value dn) = Some y" "?w dn c = (withValue dn y, c)" "y \<in> snd ` set L"
    "converts L dn (withValue dn y)" "isSymbolNode (withValue dn y)" using symbol_good [OF storing(8,2) nb] storing(3,6) by blast
  let ?n = "withChildren n (hd (n_Children n) # [withValue dn y, a', b'])"
  have w: "?w n c = (?n, c)" using walk_form [OF storing(1,7) plain_heads(14)] a(1) b(1) y(2) by (simp add: Let_def)
  have f: "form ?n ''map_set'' [withValue dn y, a', b']" by (rule form_with [OF storing(1)])
  have d: "distinct (map snd L)" using storing(8) by (simp add: named_def)
  have "converts L n ?n"
  proof (rule converts_form [OF storing(1)])
    show "list_all2 (converts L) [dn, a, b] [withValue dn y, a', b']" using a(2) b(2) y(4) by simp
    show "same L (eval (Suc k) ic n) (eval (Suc k) ic ?n)" for k ic
      unfolding eval_mapSet [OF storing(1,2)] eval_mapSet [OF f y(5)] samePos_ops(2) [OF samePos_with(2)] with_simps
      by (intro same_intros same_needVar [OF d y(1)] convertsD(3) [OF a(2)] convertsD(3) [OF b(2)])
  qed
  with stmt.storing [OF f y(5) _ a(3) b(3)] y(3) w show ?case by (simp add: stmtGood_def)
next
  case (deleting n dn a X)
  let ?w = "walk (scopesOf L)"
  have s: "symbolHeads a" using symbolHeads_form [OF deleting(1,6)] by (metis list.set_intros)
  obtain a' where a: "?w a c = (a', c)" "converts L a a'" "expr (snd ` set L) a'"
    using expr_good [OF _ s deleting(7)] deleting(4,5) by (cases "?w a c") (auto simp: exprGood_def)
  have nb: "\<not> boolName dn" using named_user [OF deleting(7)] deleting(3,5) by (simp add: boolName_def)
  obtain y where y: "map_of L (n_Value dn) = Some y" "?w dn c = (withValue dn y, c)" "y \<in> snd ` set L"
    "converts L dn (withValue dn y)" "isSymbolNode (withValue dn y)" using symbol_good [OF deleting(7,2) nb] deleting(3,5) by blast
  let ?n = "withChildren n (hd (n_Children n) # [withValue dn y, a'])"
  have w: "?w n c = (?n, c)" using walk_form [OF deleting(1,6) plain_heads(15)] a(1) y(2) by (simp add: Let_def)
  have f: "form ?n ''map_delete'' [withValue dn y, a']" by (rule form_with [OF deleting(1)])
  have d: "distinct (map snd L)" using deleting(7) by (simp add: named_def)
  have "converts L n ?n"
  proof (rule converts_form [OF deleting(1)])
    show "list_all2 (converts L) [dn, a] [withValue dn y, a']" using a(2) y(4) by simp
    show "same L (eval (Suc k) ic n) (eval (Suc k) ic ?n)" for k ic
      unfolding eval_mapDelete [OF deleting(1,2)] eval_mapDelete [OF f y(5)] samePos_ops(2) [OF samePos_with(2)] with_simps
      by (intro same_intros same_needVar [OF d y(1)] convertsD(3) [OF a(2)])
  qed
  with stmt.deleting [OF f y(5) _ a(3)] y(3) w show ?case by (simp add: stmtGood_def)
next
  case (result n a X)
  let ?w = "walk (scopesOf L)"
  have s: "symbolHeads a" using symbolHeads_form [OF result(1,4)] by (metis list.set_intros(1))
  obtain a' where a: "?w a c = (a', c)" "converts L a a'" "expr (snd ` set L) a'"
    using expr_good [OF _ s result(5)] result(2,3) by (cases "?w a c") (auto simp: exprGood_def)
  let ?n = "withChildren n (hd (n_Children n) # [a'])"
  have w: "?w n c = (?n, c)" using walk_form [OF result(1,4) plain_heads(16)] a(1) by (simp add: Let_def)
  have f: "form ?n ''return'' [a']" by (rule form_with [OF result(1)])
  have "converts L n ?n"
  proof (rule converts_form [OF result(1)])
    show "list_all2 (converts L) [a] [a']" using a(2) by simp
    show "same L (eval (Suc k) ic n) (eval (Suc k) ic ?n)" for k ic
      unfolding eval_return [OF result(1)] eval_return [OF f] by (intro same_intros convertsD(3) [OF a(2)])
  qed
  with stmt.result [OF f a(3)] w show ?case by (simp add: stmtGood_def)
qed

subsection \<open>Programs\<close>

text \<open>A \<open>cli_app\<close> of source statements.\<close>

definition sourceProgram :: "Node \<Rightarrow> bool" where
  "sourceProgram ast \<longleftrightarrow>
     symbolHeads ast \<and> (\<exists>stmts. form ast ''cli_app'' stmts \<and> (\<forall>n \<in> set stmts. source {} n))"

lemma form_not_defun: "form n h args \<Longrightarrow> h \<notin> {''defun'', ''lazy_synthesize''} \<Longrightarrow> \<not> IsDefun n"
  by (auto simp: IsDefun_def form_def)

lemma heads_not_defun: "h \<in> set binops \<or> h \<in> set unaries \<Longrightarrow> h \<notin> {''defun'', ''lazy_synthesize''}"
  by (auto simp: binops_def unaries_def)

lemma leaf_not_defun: "\<not> isListNode n \<Longrightarrow> \<not> IsDefun n"
  by (simp add: IsDefun_def)

lemma expr_not_defun: "expr X n \<Longrightarrow> \<not> IsDefun n"
proof (induction rule: expr.induct)
  case (literal n)
  then show ?case by (intro leaf_not_defun) (auto simp: isListNode_def)
next
  case (truth n)
  then show ?case by (intro leaf_not_defun) (auto simp: isListNode_def isSymbolNode_def)
next
  case (variable n)
  then show ?case by (intro leaf_not_defun) (auto simp: isListNode_def isSymbolNode_def)
next
  case (logic n h a b)
  from logic(2) show ?case by (intro form_not_defun [OF logic(1)]) auto
next
  case (binop n h a b)
  from binop(1, 2) show ?case by (intro form_not_defun heads_not_defun) auto
next
  case (unary n h a)
  from unary(1, 2) show ?case by (intro form_not_defun heads_not_defun) auto
qed (erule form_not_defun, simp)+

lemma source_not_defun: "source X n \<Longrightarrow> \<not> IsDefun n"
  by (induction rule: source.induct) (erule expr_not_defun, (erule form_not_defun, simp)+)

text \<open>The pass gives a program of statements without shadowing, of the same size, with the same
  evaluation.\<close>

lemma scoped_program:
  assumes "sourceProgram ast"
  obtains stmts stmts' where "form ast ''cli_app'' stmts" "isSymbolNode (hd (n_Children ast))" "\<forall>n \<in> set stmts. \<not> IsDefun n"
    "form (ScopeBindings ast) ''cli_app'' stmts'" "isSymbolNode (hd (n_Children (ScopeBindings ast)))" "\<forall>n \<in> set stmts'. stmt {} n"
    "size (ScopeBindings ast) = size ast" "\<And>k ic v. same [] (evalSeq (eval k ic) stmts v) (evalSeq (eval k ic) stmts' v)"
proof -
  obtain stmts where f: "form ast ''cli_app'' stmts" and s: "\<forall>n \<in> set stmts. source {} n" and h: "symbolHeads ast"
    using assms unfolding sourceProgram_def by blast
  obtain hn where c: "n_Children ast = hn # stmts" "isSymbolNode hn" "\<forall>a \<in> set stmts. symbolHeads a"
    using symbolHeads_form [OF f h] by blast
  have "stmtGood [] m a (walk (scopesOf []) a m)" if "a \<in> set stmts" "0 \<le> m" for a m
    using s c(3) that by (intro source_good) (auto simp: named_def)
  note g = stmtGood_args [of stmts 0 "[]", OF this]
  let ?args = "fst (mapState (walk (scopesOf [])) stmts 0)"
  have w: "ScopeBindings ast = withChildren ast (hd (n_Children ast) # ?args)"
    using walk_form [OF f h plain_heads(17), of "[[]]" 0] by (simp add: ScopeBindings_def scopesOf_def)
  have l: "list_all2 (converts []) stmts ?args" using g by blast
  have "list_all2 (\<lambda>a b. size b = size a) stmts ?args" using l by (rule list_all2_mono) (rule convertsD(2))
  then have "size (ScopeBindings ast) = size ast" unfolding w by (rule size_form_with [OF f])
  moreover have "form (ScopeBindings ast) ''cli_app'' ?args" unfolding w by (rule form_with [OF f])
  moreover have "same [] (evalSeq (eval k ic) stmts v) (evalSeq (eval k ic) ?args v)" for k ic v
    by (intro same_seq list_all2_mono [OF l]) (rule convertsD(3))
  moreover have "\<forall>n \<in> set ?args. stmt {} n" using g by simp
  moreover have "\<forall>n \<in> set stmts. \<not> IsDefun n" using s source_not_defun by blast
  ultimately show thesis using that f c w by simp
qed

end
