(* ===== verification/CompileCorrect.thy ===== *)
theory CompileCorrect
  imports SimLoop ScopeLaws
begin

text \<open>
  Compiled programs run as they are interpreted: for a \<open>cli_app\<close> of statements, the run of its bytecode has
  the effects and the exit code of the tree-walking interpreter, unless a budget of the machine, which
  the interpreter does not have, ends it.
\<close>

subsection \<open>Programs\<close>




subsection \<open>Whole runs\<close>









subsection \<open>Both engines\<close>







text \<open>A program with a binding that shadows another:
  \<open>(let (s "a") (do (let (s "b") (print s)) (if (= s "a") (print s))))\<close>.\<close>

definition textNode :: "string \<Rightarrow> Node" where
  "textNode s = Node ''STRING'' s [] 1 1"

definition call :: "string \<Rightarrow> Node list \<Rightarrow> Node" where
  "call h args = listNode (symbolNode h # args)"





lemma form_call [simp]: "form (call h args) h' args' \<longleftrightarrow> h' = h \<and> args' = args"
  by (auto simp: form_def call_def listNode_def symbolNode_def isListNode_def)

lemma binding_pair [simp]: "binding (listNode [x, e]) x' e' \<longleftrightarrow> x' = x \<and> e' = e"
  by (auto simp: binding_def listNode_def isListNode_def)

lemma node_simps [simp]: "isSymbolNode (symbolNode v)" "n_Value (symbolNode v) = v" "n_Type (textNode v) = ''STRING''"
  "boolName (symbolNode v) \<longleftrightarrow> v = ''true'' \<or> v = ''false''"
  by (simp_all add: symbolNode_def textNode_def isSymbolNode_def boolName_def)







end
