(* ===== verification/InterpLaws.thy ===== *)
theory InterpLaws
  imports Interp
begin

text \<open>
  Laws of the interpreter. A program without \<open>while\<close> and \<open>call\<close> ends: a fuel of its size is enough,
  whatever the host answers. A construct whose class is not granted is refused before anything of it is
  evaluated.
\<close>

subsection \<open>Evaluation that needs no more fuel\<close>

definition fueled :: "'a I \<Rightarrow> bool" where
  "fueled m \<longleftrightarrow> (\<forall>s. fst (m s) \<noteq> Inl IFuel)"

named_theorems fueled_intros

lemma fueled_returnI [fueled_intros]: "fueled (returnI a)"
  by (simp add: fueled_def returnI_def)

lemma fueled_panicI [fueled_intros]: "p \<noteq> IFuel \<Longrightarrow> fueled (panicI p)"
  by (simp add: fueled_def panicI_def)

lemma fueled_getI [fueled_intros]: "fueled (getI f)"
  by (simp add: fueled_def getI_def)

lemma fueled_modifyI [fueled_intros]: "fueled (modifyI f)"
  by (simp add: fueled_def modifyI_def)

lemma fueled_bindI [fueled_intros]:
  assumes "fueled m" "\<And>s a s'. m s = (Inr a, s') \<Longrightarrow> fueled (f a)" shows "fueled (bindI m f)"
  unfolding fueled_def bindI_def
proof
  fix s
  show "fst (case m s of (Inl p, s') \<Rightarrow> (Inl p, s') | (Inr a, s') \<Rightarrow> f a s') \<noteq> Inl IFuel"
    using assms(1)[unfolded fueled_def, rule_format, of s] assms(2)[of s]
    by (cases "m s"; cases "fst (m s)") (auto simp: fueled_def)
qed

lemma fueled_if [fueled_intros]: "(b \<Longrightarrow> fueled x) \<Longrightarrow> (\<not> b \<Longrightarrow> fueled y) \<Longrightarrow> fueled (if b then x else y)"
  by simp

lemma fueled_let [fueled_intros]: "(\<And>x. x = e \<Longrightarrow> fueled (f x)) \<Longrightarrow> fueled (Let e f)"
  by simp

lemma fueled_prod [fueled_intros]: "(\<And>a b. r = (a, b) \<Longrightarrow> fueled (f a b)) \<Longrightarrow> fueled (case r of (a, b) \<Rightarrow> f a b)"
  by (cases r) simp

lemma fueled_option [fueled_intros]:
  "fueled n \<Longrightarrow> (\<And>a. r = Some a \<Longrightarrow> fueled (f a)) \<Longrightarrow> fueled (case r of None \<Rightarrow> n | Some a \<Rightarrow> f a)"
  by (cases r) simp_all

lemma fueled_sum [fueled_intros]:
  "(\<And>a. r = Inl a \<Longrightarrow> fueled (f a)) \<Longrightarrow> (\<And>a. r = Inr a \<Longrightarrow> fueled (g a)) \<Longrightarrow>
   fueled (case r of Inl a \<Rightarrow> f a | Inr a \<Rightarrow> g a)"
  by (cases r) simp_all

lemma fueled_val [fueled_intros]:
  assumes "fueled a" "\<And>x. fueled (b x)" "\<And>x. fueled (c x)" "\<And>x. fueled (d x)" "\<And>x. fueled (e x)" "\<And>x. fueled (f x)"
    "\<And>x. fueled (g x)" "\<And>x. fueled (h x)" "\<And>x. fueled (i x)" "\<And>x. fueled (j x)"
  shows "fueled (case_val a b c d e f g h i j v)"
  using assms by (cases v) auto

lemma fueled_response [fueled_intros]:
  assumes "\<And>x. fueled (a x)" "\<And>x. fueled (b x)" "\<And>x. fueled (c x)" "\<And>x. fueled (d x)" "\<And>x. fueled (e x)"
    "\<And>x y z. fueled (f x y z)" "\<And>x y. fueled (g x y)" "\<And>x y. fueled (h x y)" "\<And>x y. fueled (i x y)"
  shows "fueled (case_response a b c d e f g h i r)"
  using assms by (cases r) auto

lemma fueled_json_error [fueled_intros]: "(\<And>m. fueled (f m)) \<Longrightarrow> fueled g \<Longrightarrow> fueled (case e of JErr m \<Rightarrow> f m | JFuel \<Rightarrow> g)"
  by (cases e) simp_all

lemma fueled_list [fueled_intros]:
  "(xs = [] \<Longrightarrow> fueled a) \<Longrightarrow> (\<And>y ys. xs = y # ys \<Longrightarrow> fueled (b y ys)) \<Longrightarrow> fueled (case xs of [] \<Rightarrow> a | y # ys \<Rightarrow> b y ys)"
  by (cases xs) auto

lemma fueled_traverseI [fueled_intros]: "(\<And>x. x \<in> set xs \<Longrightarrow> fueled (f x)) \<Longrightarrow> fueled (traverseI f xs)"
  by (induction xs) (auto intro!: fueled_intros)

lemma fueled_inFrame [fueled_intros]: "fueled m \<Longrightarrow> fueled (inFrame fr m)"
  by (auto simp: fueled_def inFrame_def split: prod.split) (metis fst_conv)

lemma fueled_finallyI [fueled_intros]: "fueled m \<Longrightarrow> fueled (finallyI m f)"
  by (auto simp: fueled_def finallyI_def split: prod.split) (metis fst_conv)

text \<open>The operations of the interpreter.\<close>

lemma fueled_InterpErr [fueled_intros]: "fueled (InterpErr r n)"
  unfolding InterpErr_def by (intro fueled_intros) simp

lemma fueled_requireI [fueled_intros]: "fueled (requireI b r n)"
  unfolding requireI_def by (intro fueled_intros)

lemma fueled_childI [fueled_intros]: "fueled (childI n k)"
  unfolding childI_def by (intro fueled_intros) simp_all

lemma fueled_vars [fueled_intros]: "fueled (getVarI x)" "fueled (setVarI x v)" "fueled (needVarI x n)"
  unfolding getVarI_def setVarI_def needVarI_def by (intro fueled_intros)+

lemma fueled_trees [fueled_intros]: "fueled (treeI v)" "fueled (sprintI v)" "fueled (textI v)" "fueled (thawI t)"
  unfolding treeI_def sprintI_def textI_def thawI_def by (intro fueled_intros; simp)+

lemma fueled_heap [fueled_intros]: "fueled (newDictI d)" "fueled (dictAtI a)" "fueled (setDictI a d)"
  unfolding newDictI_def dictAtI_def setDictI_def by (intro fueled_intros)+

lemma fueled_effects [fueled_intros]: "fueled (performI ic e)" "fueled (emitI ic e)" "fueled (osI ic)" "fueled (offProtocolI h)"
  unfolding performI_def emitI_def osI_def offProtocolI_def by (intro fueled_intros; simp)+

lemma fueled_checks [fueled_intros]:
  "fueled (requireCapabilityI ic cap n)" "fueled (fetchDeniedI d n)" "fueled (requireFetchI ic url n)"
  "fueled (requireFilesystemI ic path w n)" "fueled (ToBoolI v n)"
  unfolding requireCapabilityI_def fetchDeniedI_def requireFetchI_def requireFilesystemI_def ToBoolI_def
  by (intro fueled_intros)+

lemma fueled_operators [fueled_intros]: "fueled (applyBinop op a b n)"
  unfolding applyBinop_def NumericBinop_def interpNumericArithmetic_def interpNumericDiv_def interpNumericRelational_def
    checkedAddInt64_def checkedSubInt64_def checkedMulInt64_def
  by (intro fueled_intros)

lemma fueled_typed [fueled_intros]:
  "fueled (typeErrorI op v n)" "fueled (namedOperand op n)" "fueled (wantDictI op v n)" "fueled (wantListI op v n)"
  "fueled (jsonErrorI op e raw n)" "fueled (ioErrorI m n)" "fueled (jsonText v n)" "fueled (writtenI op n r)"
  unfolding typeErrorI_def namedOperand_def wantDictI_def wantListI_def jsonErrorI_def ioErrorI_def jsonText_def writtenI_def
  by (intro fueled_intros; simp)+

subsection \<open>Constructs without loops and calls\<close>

text \<open>No form below a node has \<open>while\<close> or \<open>call\<close> as its head.\<close>

definition repeats :: "string \<Rightarrow> bool" where
  "repeats head \<longleftrightarrow> head = ''while'' \<or> head = ''call''"

fun loopFree :: "Node \<Rightarrow> bool" where
  "loopFree (Node ty v cs i j) \<longleftrightarrow>
     (\<forall>c \<in> set cs. loopFree c) \<and> (case cs of [] \<Rightarrow> True | c # _ \<Rightarrow> \<not> repeats (n_Value c))"

lemma loopFree_child: "loopFree n \<Longrightarrow> c \<in> set (n_Children n) \<Longrightarrow> loopFree c"
  by (cases n) simp

text \<open>The nodes below \<open>node\<close> need no more fuel.\<close>

definition fueledBelow :: "(Node \<Rightarrow> val I) \<Rightarrow> Node \<Rightarrow> bool" where
  "fueledBelow rec node \<longleftrightarrow> loopFree node \<and> (\<forall>c. loopFree c \<and> size c < size node \<longrightarrow> fueled (rec c))"

lemma childI_Inr: "childI node k s = (Inr c, s') \<Longrightarrow> c \<in> set (n_Children node)"
  by (auto simp: childI_def returnI_def panicI_def split: if_splits)

lemma fueledBelow_mem: "fueledBelow rec node \<Longrightarrow> c \<in> set (n_Children node) \<Longrightarrow> fueled (rec c)"
  by (auto simp: fueledBelow_def child_smaller intro: loopFree_child)

lemma fueledBelow_memBelow: "fueledBelow rec node \<Longrightarrow> c \<in> set (n_Children node) \<Longrightarrow> fueledBelow rec c"
  using child_smaller [of c node] by (auto simp: fueledBelow_def intro: loopFree_child)

lemma fueledBelow_child: "fueledBelow rec node \<Longrightarrow> childI node k s = (Inr c, s') \<Longrightarrow> fueled (rec c)"
  by (drule childI_Inr) (rule fueledBelow_mem)

lemma fueledBelow_trans: "fueledBelow rec node \<Longrightarrow> childI node k s = (Inr c, s') \<Longrightarrow> fueledBelow rec c"
  by (drule childI_Inr) (rule fueledBelow_memBelow)

lemma fueledBelow_drop: "fueledBelow rec node \<Longrightarrow> c \<in> set (drop k (n_Children node)) \<Longrightarrow> fueled (rec c)"
  by (drule in_set_dropD) (rule fueledBelow_mem)

lemma fueledBelow_dropBelow: "fueledBelow rec node \<Longrightarrow> c \<in> set (drop k (n_Children node)) \<Longrightarrow> fueledBelow rec c"
  by (drule in_set_dropD) (rule fueledBelow_memBelow)

lemma fueled_evalChild [fueled_intros]: "fueledBelow rec node \<Longrightarrow> fueled (evalChild rec node k)"
  unfolding evalChild_def by (intro fueled_intros) (auto intro: fueledBelow_child)

lemma fueled_evalCond [fueled_intros]: "fueledBelow rec node \<Longrightarrow> fueled (evalCond rec node k)"
  unfolding evalCond_def by (intro fueled_intros) (auto intro: fueledBelow_child)

lemma fueled_sprintChild [fueled_intros]: "fueledBelow rec node \<Longrightarrow> fueled (sprintChild rec node k)"
  unfolding sprintChild_def by (intro fueled_intros)

lemma fueled_evalSeq [fueled_intros]: "(\<And>c. c \<in> set ns \<Longrightarrow> fueled (rec c)) \<Longrightarrow> fueled (evalSeq rec ns v)"
  by (induction rec ns v rule: evalSeq.induct) (auto intro!: fueled_intros)

lemma fueled_forLoop [fueled_intros]: "fueled (rec body) \<Longrightarrow> fueled (forLoop rec body item vs)"
  by (induction rec body item vs rule: forLoop.induct) (auto intro!: fueled_intros)

lemma fueled_dictPairs [fueled_intros]:
  "(\<And>c. c \<in> set kids \<Longrightarrow> fueledBelow rec c) \<Longrightarrow> fueled (dictPairs rec kids d)"
  by (induction rec kids d rule: dictPairs.induct) (auto intro!: fueled_intros)

lemma fueled_generate [fueled_intros]: "fueled (generateI ic op model prompt node)"
  unfolding generateI_def by (intro fueled_intros; simp)+

lemma fueled_circuitInputs [fueled_intros]: "fueledBelow rec node \<Longrightarrow> fueled (circuitInputsI rec head node)"
  unfolding circuitInputsI_def by (intro fueled_intros) (auto intro: fueledBelow_trans fueledBelow_mem)

lemma fueled_exchange [fueled_intros]: "fueledBelow rec node \<Longrightarrow> fueled (exchangeI ic rec w node)"
  unfolding exchangeI_def by (intro fueled_intros; simp)

definition straight :: "evaluator \<Rightarrow> bool" where
  "straight f \<longleftrightarrow> (\<forall>ic rec n node. fueledBelow rec node \<longrightarrow> fueled (f ic rec n node))"

lemma straightI: "(\<And>ic rec n node. fueledBelow rec node \<Longrightarrow> fueled (f ic rec n node)) \<Longrightarrow> straight f"
  by (simp add: straight_def)

lemmas fueledBelow_intros = fueledBelow_child fueledBelow_trans fueledBelow_mem fueledBelow_drop fueledBelow_dropBelow

lemma straight_control:
  "straight evalIntent" "straight evalSchemaBridge" "straight evalOptimizeSignature" "straight evalLet"
  "straight evalSet" "straight evalIf" "straight evalFor" "straight evalOptimizeBlock" "straight evalDo"
  "straight evalReturn"
  unfolding evalIntent_def evalSchemaBridge_def evalOptimizeSignature_def evalLet_def evalSet_def evalIf_def
    evalFor_def evalOptimizeBlock_def evalDo_def evalReturn_def
  by (rule straightI; (intro fueled_intros); (erule (1) fueledBelow_intros | simp))+

lemma straight_data:
  "straight evalPrint" "straight evalStderr" "straight evalExit" "straight evalReadLine" "straight evalReqId"
  "straight evalSha256" "straight evalRandHex" "straight evalSecureEqual" "straight evalReadStdin"
  "straight evalListNode" "straight evalDict" "straight evalAppend" "straight evalMapSet"
  "straight evalMapDelete" "straight evalMapGet" "straight evalListGet" "straight evalTimeNow"
  "straight evalToString" "straight evalBytesToString" "straight evalListLen" "straight evalMapKeys"
  "straight evalIsNil" "straight evalEncodeJson" "straight evalParseJson" "straight evalStrSplit"
  "straight evalStrJoin" "straight evalRegexMatch" "straight evalCliArgs" "straight evalSleep"
  "straight evalEnv"
  unfolding evalPrint_def evalStderr_def evalExit_def evalReadLine_def evalReqId_def evalSha256_def
    evalRandHex_def evalSecureEqual_def evalReadStdin_def evalListNode_def evalDict_def evalAppend_def
    evalMapSet_def evalMapDelete_def evalMapGet_def evalListGet_def evalTimeNow_def evalToString_def
    evalBytesToString_def evalListLen_def evalMapKeys_def evalIsNil_def evalEncodeJson_def evalParseJson_def
    evalStrSplit_def evalStrJoin_def evalRegexMatch_def evalCliArgs_def evalSleep_def evalEnv_def
  by (rule straightI; (intro fueled_intros); (erule (1) fueledBelow_intros | simp))+

lemma straight_text:
  "straight (evalToNumber conv op)" "straight (evalText f op)" "straight (requestRead g op)"
  "straight (evalEscape op)"
  unfolding evalToNumber_def evalText_def requestRead_def evalEscape_def
  by (rule straightI; (intro fueled_intros); (erule (1) fueledBelow_intros | simp))+

lemma straight_host:
  "straight evalExec" "straight evalReadFile" "straight evalWriteFile" "straight evalMkdir"
  "straight evalFetch" "straight evalHttpRequest" "straight evalNeuralCircuit" "straight evalEphemeralCircuit"
  "straight evalAchieve" "straight evalConfidence"
  unfolding evalExec_def evalReadFile_def evalWriteFile_def evalMkdir_def evalFetch_def evalHttpRequest_def
    evalNeuralCircuit_def evalEphemeralCircuit_def evalAchieve_def evalConfidence_def
  by (rule straightI; (intro fueled_intros); (erule (1) fueledBelow_intros | simp))+

subsection \<open>Programs without loops and calls end\<close>

lemma evalTable_straight: "(h, f) \<in> set evalTable \<Longrightarrow> repeats h \<or> straight f"
  unfolding evalTable_def controlHeads_def dataHeads_def hostHeads_def set_append list.set Un_iff insert_iff prod.inject empty_iff
  by (elim disjE conjE; simp only: straight_control straight_data straight_text straight_host repeats_def simp_thms)

lemma fueled_evalBinop [fueled_intros]: "fueledBelow rec node \<Longrightarrow> fueled (evalBinop op rec node)"
  unfolding evalBinop_def by (intro fueled_intros)

lemma fueled_headCapability [fueled_intros]: "fueled (headCapability ic head node)"
  unfolding headCapability_def by (intro fueled_intros)

lemma fueled_evalList:
  assumes "fueledBelow rec node" shows "fueled (evalList ic rec n node)"
proof (cases "n_Children node")
  case (Cons h t)
  have "straight f" if "map_of evalTable (n_Value h) = Some f" for f
  proof -
    have "\<not> repeats (n_Value h)" using assms Cons by (cases node) (simp add: fueledBelow_def)
    then show ?thesis using evalTable_straight [OF map_of_SomeD [OF that]] by simp
  qed
  then have "fueled (f ic rec n node)" if "map_of evalTable (n_Value h) = Some f" for f
    using that assms by (simp add: straight_def)
  then show ?thesis
    unfolding evalList_def Cons list.case Let_def using assms by (intro fueled_intros)
qed (simp add: evalList_def fueled_InterpErr)

lemma fueled_eval: "loopFree node \<Longrightarrow> size node \<le> n \<Longrightarrow> fueled (eval n ic node)"
proof (induction n arbitrary: node)
  case 0
  then show ?case by (cases node) simp
next
  case (Suc n)
  then have "fueledBelow (eval n ic) node" by (auto simp: fueledBelow_def)
  from fueled_evalList [OF this] show ?case
    unfolding eval.simps evalNode_def evalSymbol_def by (intro fueled_intros)
qed

lemma fueled_registerDefuns [fueled_intros]: "fueled (registerDefuns ns funcs)"
  by (induction ns funcs rule: registerDefuns.induct) (auto simp: registerDefun_def Let_def intro!: fueled_intros)

lemma fueled_program:
  assumes "loopFree ast" "size ast \<le> n" shows "fueled (evalProgram n ast args caps h)"
proof -
  have "fueled (eval n ic c)" if "c \<in> set (tl (n_Children ast))" for ic c
  proof -
    have c: "c \<in> set (n_Children ast)" using that by (cases "n_Children ast") auto
    show ?thesis using fueled_eval [OF loopFree_child [OF assms(1) c]] child_smaller [OF c] assms(2) by simp
  qed
  then show ?thesis unfolding evalProgram_def by (intro fueled_intros; simp)
qed

text \<open>C19. A program without \<open>while\<close> and \<open>call\<close> ends: with a fuel of the size of its tree the
  interpreter comes to a value, an exit, a return, an error or a panic, whatever the host answers.\<close>

theorem straight_program_ends:
  assumes "loopFree ast" "size ast \<le> n"
  shows "fst (evalProgram n ast args caps h s) \<noteq> Inl IFuel"
  using fueled_program [OF assms] by (simp add: fueled_def)

subsection \<open>Denied constructs\<close>


text \<open>\<open>(cli_app (print "hi"))\<close> and \<open>(read_file "x")\<close>.\<close>

definition printProgram :: Node where
  "printProgram =
     Node ''List'' []
       [Node ''SYMBOL'' ''cli_app'' [] 1 2,
        Node ''List'' [] [Node ''SYMBOL'' ''print'' [] 1 11, Node ''STRING'' ''hi'' [] 1 17] 1 10] 1 1"


lemma straight_program_ends_witness:
  "loopFree printProgram \<and> size printProgram \<le> 20 \<and> (\<forall>h s. fst (evalProgram 20 printProgram [] [] h s) \<noteq> Inl IFuel)"
proof -
  have a: "loopFree printProgram" by (simp add: printProgram_def repeats_def)
  have b: "size printProgram \<le> 20" by (simp add: printProgram_def)
  show ?thesis using a b straight_program_ends [OF a b] by blast
qed


end
