(* ===== verification/Lexer.thy ===== *)
theory Lexer
  imports Ast Float64
begin

text \<open>
  The lexer (\<open>internal/lexer/lexer.go\<close>): a position in the source bytes with its line and column,
  one code point read at a time. The letter and digit tables beyond ASCII are the record
  \<open>unicode\<close>. \<open>ast.ReportError\<close> ends the process, so the first error is the result. The second half
  shows what the lexer reads from the text of one token followed by a delimiter.
\<close>

datatype TokenType =
  TokenLParen | TokenRParen | TokenSymbol | TokenInt | TokenFloat | TokenString | TokenEOF

fun typeName :: "TokenType \<Rightarrow> string" where
  "typeName TokenLParen = ''LPAREN''"
| "typeName TokenRParen = ''RPAREN''"
| "typeName TokenSymbol = ''SYMBOL''"
| "typeName TokenInt = ''INT''"
| "typeName TokenFloat = ''FLOAT''"
| "typeName TokenString = ''STRING''"
| "typeName TokenEOF = ''EOF''"

record Token =
  tk_Type :: TokenType
  tk_Value :: string
  tk_Line :: int
  tk_Column :: int

record Lexer =
  lx_input :: bytes
  lx_pos :: nat
  lx_line :: int
  lx_column :: int

definition NewLexer :: "bytes \<Rightarrow> Lexer" where
  "NewLexer s = \<lparr>lx_input = s, lx_pos = 0, lx_line = 1, lx_column = 1\<rparr>"

subsection \<open>Reading code points\<close>

definition decodeSourceRune :: "bytes \<Rightarrow> int \<Rightarrow> int \<Rightarrow> compile_error + (rune \<times> nat)" where
  "decodeSourceRune s line column =
     (let (ch, size) = decodeRune s
      in if ch = runeError \<and> size = 1 then Inl (ReportError ''source is not valid UTF-8'' line column)
         else Inr (ch, size))"

definition atEnd :: "Lexer \<Rightarrow> bool" where
  "atEnd l \<longleftrightarrow> lx_pos l \<ge> length (lx_input l)"

definition ahead :: "Lexer \<Rightarrow> bytes" where
  "ahead l = drop (lx_pos l) (lx_input l)"

definition nextChar :: "Lexer \<Rightarrow> compile_error + (rune \<times> Lexer)" where
  "nextChar l =
     (if atEnd l then Inr (0, l)
      else rbind (decodeSourceRune (ahead l) (lx_line l) (lx_column l)) (\<lambda>(ch, size).
        Inr (ch, if ch = 10 then l\<lparr>lx_pos := lx_pos l + size, lx_line := lx_line l + 1, lx_column := 1\<rparr>
                 else l\<lparr>lx_pos := lx_pos l + size, lx_column := lx_column l + 1\<rparr>)))"

definition peekChar :: "Lexer \<Rightarrow> compile_error + rune" where
  "peekChar l =
     (if atEnd l then Inr 0
      else rbind (decodeSourceRune (ahead l) (lx_line l) (lx_column l)) (\<lambda>(ch, size). Inr ch))"

text \<open>The bytes left, the measure of every loop.\<close>

definition left :: "Lexer \<Rightarrow> nat" where
  "left l = length (lx_input l) - lx_pos l"

lemma nextChar_left:
  assumes "nextChar l = Inr (c, l')" shows "left l' \<le> left l" "\<not> atEnd l \<Longrightarrow> left l' < left l"
proof -
  have p: "0 < snd (decodeRune (ahead l))" if "\<not> atEnd l"
    using that decodeRune_Cons_pos [of "ahead l"] by (simp add: ahead_def atEnd_def)
  show "left l' \<le> left l" "\<not> atEnd l \<Longrightarrow> left l' < left l"
    using assms p
    by (auto simp: nextChar_def decodeSourceRune_def left_def atEnd_def result_simps split: if_splits prod.splits)
qed

lemma peekChar_atEnd: "peekChar l = Inr c \<Longrightarrow> c \<noteq> 0 \<Longrightarrow> \<not> atEnd l"
  by (auto simp: peekChar_def)

lemma nextChar_atEnd: "nextChar l = Inr (c, l') \<Longrightarrow> c \<noteq> 0 \<Longrightarrow> \<not> atEnd l"
  by (auto simp: nextChar_def)

lemma nextChar_left_rune: "nextChar l = Inr (c, l') \<Longrightarrow> c \<noteq> 0 \<Longrightarrow> left l' < left l"
  using nextChar_left(2) nextChar_atEnd by blast

lemma peekChar_left_rune: "peekChar l = Inr d \<Longrightarrow> d \<noteq> 0 \<Longrightarrow> nextChar l = Inr (c, l') \<Longrightarrow> left l' < left l"
  using nextChar_left(2) peekChar_atEnd by blast

lemma nextChar_left_snd: "nextChar l = Inr r \<Longrightarrow> fst r \<noteq> 0 \<Longrightarrow> left (snd r) < left l"
  using nextChar_left_rune by (cases r) auto

subsection \<open>The loops\<close>

text \<open>The comment loop stops before the newline; the loops over digits and symbol characters stop at
  the end of the input, where \<open>peekChar\<close> gives the zero rune, in neither class.\<close>

function skipComment :: "Lexer \<Rightarrow> compile_error + Lexer" where
  "skipComment l =
     rbind (peekChar l) (\<lambda>c.
       if c = 0 \<or> c = 10 then Inr l
       else rbind (nextChar l) (\<lambda>r. skipComment (snd r)))"
  by pat_completeness auto
termination
  by (relation "measure left") (auto dest: peekChar_left_rune)

declare skipComment.simps [simp del]

function scanWhile :: "(rune \<Rightarrow> bool) \<Rightarrow> string \<Rightarrow> Lexer \<Rightarrow> compile_error + (string \<times> Lexer)" where
  "scanWhile p val l =
     rbind (peekChar l) (\<lambda>c.
       if c \<noteq> 0 \<and> p c then rbind (nextChar l) (\<lambda>r. scanWhile p (val @ encodeRune (fst r)) (snd r))
       else Inr (val, l))"
  by pat_completeness auto
termination
  by (relation "measure (\<lambda>(p, v, l). left l)") (auto dest: peekChar_left_rune)

declare scanWhile.simps [simp del]

function scanString :: "int \<Rightarrow> int \<Rightarrow> string \<Rightarrow> Lexer \<Rightarrow> compile_error + (string \<times> Lexer)" where
  "scanString line col raw l =
     rbind (nextChar l) (\<lambda>r.
       if fst r = 0 then Inl (ReportError ''Unterminated string'' line col)
       else if fst r = 92 then
         rbind (nextChar (snd r)) (\<lambda>e.
           if fst e = 0 then Inl (ReportError ''Unterminated string escape'' line col)
           else scanString line col
             (raw @ (if fst e = 39 then [CHR 0x27] else [CHR 0x5C] @ encodeRune (fst e))) (snd e))
       else if fst r = 34 then Inr (raw @ encodeRune (fst r), snd r)
       else scanString line col (raw @ encodeRune (fst r)) (snd r))"
  by pat_completeness auto
termination
proof (relation "measure (\<lambda>(line, col, raw, l). left l)", goal_cases)
  case (2 line col raw l r e)
  have "left (snd r) < left l" using 2 by (intro nextChar_left_snd) simp_all
  moreover have "left (snd e) < left (snd r)" using 2 by (intro nextChar_left_snd) simp_all
  ultimately show ?case by simp
next
  case (3 line col raw l r)
  then show ?case using nextChar_left_snd by simp
qed simp

declare scanString.simps [simp del]

subsection \<open>String literals\<close>

text \<open>\<open>strconv.UnquoteChar\<close> with the quote \<open>"\<close>: the bytes one character stands for and the text
  after it.\<close>

fun hexDigits :: "nat \<Rightarrow> string \<Rightarrow> nat \<Rightarrow> (nat \<times> string) option" where
  "hexDigits n [] v = (if n = 0 then Some (v, []) else None)"
| "hexDigits n (c # s) v =
     (if n = 0 then Some (v, c # s)
      else case hexByte c of None \<Rightarrow> None | Some x \<Rightarrow> hexDigits (n - 1) s (v * 16 + x))"

definition validRune :: "rune \<Rightarrow> bool" where
  "validRune r \<longleftrightarrow> r < 0xD800 \<or> (0xDFFF < r \<and> r \<le> 0x10FFFF)"

definition octal :: "char \<Rightarrow> bool" where
  "octal c \<longleftrightarrow> 48 \<le> byte c \<and> byte c \<le> 55"

definition unquoteOctal :: "char \<Rightarrow> string \<Rightarrow> (bytes \<times> string) option" where
  "unquoteOctal c s =
     (case s of
        d # e # t \<Rightarrow>
          if octal d \<and> octal e then
            (let v = (byte c - 48) * 64 + (byte d - 48) * 8 + (byte e - 48)
             in if v > 255 then None else Some ([chr v], t))
          else None
      | _ \<Rightarrow> None)"

definition unquoteRune :: "nat \<Rightarrow> string \<Rightarrow> (bytes \<times> string) option" where
  "unquoteRune n s =
     (case hexDigits n s 0 of
        None \<Rightarrow> None
      | Some (v, t) \<Rightarrow> if validRune v then Some (encodeRune v, t) else None)"

definition unquoteEscape :: "char \<Rightarrow> string \<Rightarrow> (bytes \<times> string) option" where
  "unquoteEscape c s =
     (if c = CHR ''a'' then Some ([CHR 0x07], s)
      else if c = CHR ''b'' then Some ([CHR 0x08], s)
      else if c = CHR ''f'' then Some ([CHR 0x0C], s)
      else if c = CHR ''n'' then Some ([CHR 0x0A], s)
      else if c = CHR ''r'' then Some ([CHR 0x0D], s)
      else if c = CHR ''t'' then Some ([CHR 0x09], s)
      else if c = CHR ''v'' then Some ([CHR 0x0B], s)
      else if c = CHR ''x'' then map_option (\<lambda>(v, t). ([chr v], t)) (hexDigits 2 s 0)
      else if c = CHR ''u'' then unquoteRune 4 s
      else if c = CHR ''U'' then unquoteRune 8 s
      else if octal c then unquoteOctal c s
      else if c = CHR 0x5C \<or> c = CHR 0x22 then Some ([c], s)
      else None)"

definition unquoteChar :: "string \<Rightarrow> (bytes \<times> string) option" where
  "unquoteChar s =
     (case s of
        [] \<Rightarrow> None
      | c # t \<Rightarrow>
         if c = CHR 0x22 then None
         else if byte c \<ge> 128 then (let (r, n) = decodeRune s in Some (encodeRune r, drop n s))
         else if c \<noteq> CHR 0x5C then Some ([c], t)
         else (case t of [] \<Rightarrow> None | e # u \<Rightarrow> unquoteEscape e u))"

lemma hexDigits_shorter: "hexDigits n s v = Some (w, t) \<Longrightarrow> length t \<le> length s"
  by (induction n s v rule: hexDigits.induct) (auto split: option.splits if_splits)

lemma unquoteEscape_shorter: "unquoteEscape c s = Some (bs, t) \<Longrightarrow> length t \<le> length s"
  by (auto simp: unquoteEscape_def unquoteOctal_def unquoteRune_def Let_def
      split: if_splits list.splits option.splits dest: hexDigits_shorter)

lemma unquoteChar_shorter:
  assumes "unquoteChar s = Some (bs, t)" shows "length t < length s"
proof (cases s)
  case (Cons c u)
  have "0 < snd (decodeRune s)" using Cons decodeRune_Cons_pos by blast
  then show ?thesis
    using assms Cons
    by (auto simp: unquoteChar_def split: if_splits list.splits prod.splits dest: unquoteEscape_shorter)
qed (use assms in \<open>simp add: unquoteChar_def\<close>)

text \<open>The loop of \<open>strconv.Unquote\<close> after the opening quote: an unescaped newline is an error, and
  the closing quote has to be the last byte.\<close>

function unquoteBody :: "string \<Rightarrow> bytes option" where
  "unquoteBody s =
     (case s of
        [] \<Rightarrow> None
      | c # t \<Rightarrow>
         if c = CHR 0x22 then (if t = [] then Some [] else None)
         else if c = CHR 0x0A then None
         else (case unquoteChar s of
                 None \<Rightarrow> None
               | Some r \<Rightarrow> map_option (\<lambda>x. fst r @ x) (unquoteBody (snd r))))"
  by pat_completeness auto
termination
  by (relation "measure length") (auto dest: unquoteChar_shorter [of _ "fst r" "snd r" for r, simplified])

declare unquoteBody.simps [simp del]

definition Unquote :: "string \<Rightarrow> bytes option" where
  "Unquote s = (case s of c # t \<Rightarrow> if c = CHR 0x22 then unquoteBody t else None | [] \<Rightarrow> None)"

subsection \<open>Tokens\<close>

text \<open>Blanks and comments before a token.\<close>

lemma skipComment_left: "skipComment l = Inr l' \<Longrightarrow> left l' \<le> left l"
proof (induction l rule: skipComment.induct)
  case (1 l)
  then show ?case
    by (subst (asm) (2) skipComment.simps)
      (fastforce simp: result_simps split: if_splits dest: nextChar_left(1))
qed

lemma skipComment_left_less:
  assumes "skipComment l = Inr l'" "peekChar l = Inr 59" shows "left l' < left l"
proof -
  obtain r where "nextChar l = Inr r" "skipComment (snd r) = Inr l'"
    using assms by (subst (asm) skipComment.simps) (auto simp: result_simps)
  then show ?thesis
    using peekChar_left_rune [OF assms(2), of "fst r" "snd r"] skipComment_left by fastforce
qed

function skipBlanks :: "Lexer \<Rightarrow> compile_error + Lexer" where
  "skipBlanks l =
     rbind (peekChar l) (\<lambda>ch.
       if ch = 0 then Inr l
       else if isSpace ch then rbind (nextChar l) (\<lambda>r. skipBlanks (snd r))
       else if ch = 59 then rbind (skipComment l) (\<lambda>l'. skipBlanks l')
       else Inr l)"
  by pat_completeness auto
termination
  by (relation "measure left") (auto dest: peekChar_left_rune skipComment_left_less)

declare skipBlanks.simps [simp del]

definition punctuation :: "rune set" where
  "punctuation = {95, 47, 45, 61, 46, 43, 42, 60, 62, 33}"

definition isSymbolStart :: "unicode \<Rightarrow> rune \<Rightarrow> bool" where
  "isSymbolStart u ch \<longleftrightarrow> isLetter u ch \<or> ch = 37 \<or> ch \<in> punctuation"

definition isSymbolPart :: "unicode \<Rightarrow> rune \<Rightarrow> bool" where
  "isSymbolPart u ch \<longleftrightarrow> isLetter u ch \<or> isDigit u ch \<or> ch \<in> punctuation"

definition mkToken :: "TokenType \<Rightarrow> string \<Rightarrow> int \<Rightarrow> int \<Rightarrow> Token" where
  "mkToken ty v line col = \<lparr>tk_Type = ty, tk_Value = v, tk_Line = line, tk_Column = col\<rparr>"

text \<open>The digits after the first one, then a fraction; a dot without a digit after it is put back.\<close>

definition scanNumber :: "unicode \<Rightarrow> int \<Rightarrow> int \<Rightarrow> string \<Rightarrow> Lexer \<Rightarrow> compile_error + (Token \<times> Lexer)" where
  "scanNumber u line col val l =
     rbind (scanWhile (isDigit u) val l) (\<lambda>(val, l).
     rbind (peekChar l) (\<lambda>c.
       if c = 46 then
         rbind (nextChar l) (\<lambda>(_, l1).
         rbind (peekChar l1) (\<lambda>d.
           if isDigit u d then
             rbind (scanWhile (isDigit u) (val @ ''.'') l1) (\<lambda>(val, l2).
               Inr (mkToken TokenFloat val line col, l2))
           else Inr (mkToken TokenInt val line col,
                     l1\<lparr>lx_pos := lx_pos l1 - 1, lx_column := lx_column l1 - 1\<rparr>)))
       else Inr (mkToken TokenInt val line col, l)))"

text \<open>A number or a symbol: a \<open>-\<close> directly before a digit starts a negative number.\<close>

definition scanWord :: "unicode \<Rightarrow> int \<Rightarrow> int \<Rightarrow> rune \<Rightarrow> Lexer \<Rightarrow> compile_error + (Token \<times> Lexer)" where
  "scanWord u line col ch0 l0 =
     rbind (if ch0 = 45 then rbind (peekChar l0) (\<lambda>d. Inr (isDigit u d)) else Inr False) (\<lambda>neg.
     rbind (if neg then nextChar l0 else Inr (ch0, l0)) (\<lambda>(ch, l).
     if isDigit u ch then
       scanNumber u line col ((if neg then ''-'' else []) @ encodeRune ch) l
     else if isSymbolStart u ch then
       rbind (scanWhile (isSymbolPart u) (encodeRune ch) l) (\<lambda>(val, l).
         Inr (mkToken TokenSymbol val line col, l))
     else Inl (ReportError (''Unexpected character: '' @ encodeRune ch) line col)))"

definition NextToken :: "unicode \<Rightarrow> Lexer \<Rightarrow> compile_error + (Token \<times> Lexer)" where
  "NextToken u l0 =
     rbind (skipBlanks l0) (\<lambda>l.
     rbind (peekChar l) (\<lambda>first.
     if first = 0 then Inr (mkToken TokenEOF [] (lx_line l) (lx_column l), l)
     else
       (let line = lx_line l; col = lx_column l in
       rbind (nextChar l) (\<lambda>(ch, l).
       if ch = 40 then Inr (mkToken TokenLParen ''('' line col, l)
       else if ch = 41 then Inr (mkToken TokenRParen '')'' line col, l)
       else if ch = 34 then
         rbind (scanString line col [CHR 0x22] l) (\<lambda>(raw, l).
           case Unquote raw of
             None \<Rightarrow> Inl (ReportError ''Invalid string literal: invalid syntax'' line col)
           | Some v \<Rightarrow> Inr (mkToken TokenString v line col, l))
       else scanWord u line col ch l))))"

subsection \<open>What is read from a text\<close>

text \<open>\<open>l\<close> has \<open>s\<close> left to read; an ASCII byte is one code point.\<close>

definition reads :: "Lexer \<Rightarrow> bytes \<Rightarrow> bool" where
  "reads l s \<longleftrightarrow> ahead l = s \<and> lx_pos l \<le> length (lx_input l)"

definition ascii :: "char \<Rightarrow> bool" where
  "ascii c \<longleftrightarrow> 0 < byte c \<and> byte c < 128"

lemma reads_NewLexer [simp]: "reads (NewLexer s) s"
  by (simp add: reads_def NewLexer_def ahead_def)

lemma encodeRune_ascii [simp]: "ascii c \<Longrightarrow> encodeRune (byte c) = [c]"
  by (simp add: encodeRune_def ascii_def)

lemma peekChar_end: "reads l [] \<Longrightarrow> peekChar l = Inr 0"
  by (auto simp: reads_def peekChar_def atEnd_def ahead_def)

lemma peekChar_ascii: "reads l (c # s) \<Longrightarrow> ascii c \<Longrightarrow> peekChar l = Inr (byte c)"
  by (auto simp: reads_def peekChar_def atEnd_def ahead_def decodeSourceRune_def decodeRune_ascii ascii_def runeError_def)

lemma nextChar_ascii:
  assumes "reads l (c # s)" "ascii c" obtains l' where "nextChar l = Inr (byte c, l')" "reads l' s"
proof -
  have d: "drop (Suc (lx_pos l)) (lx_input l) = s" "lx_pos l < length (lx_input l)" "ahead l = c # s"
    using assms(1) by (auto simp: reads_def ahead_def drop_Suc tl_drop [symmetric] intro: ccontr)
  then show thesis
    using assms(2) that
    by (auto simp: nextChar_def atEnd_def decodeSourceRune_def decodeRune_ascii ascii_def runeError_def reads_def ahead_def
        split: if_splits)
qed

lemma skipBlanks_stays:
  assumes "reads l (c # s)" "ascii c" "\<not> isSpace (byte c)" "byte c \<noteq> 59" shows "skipBlanks l = Inr l"
  using assms by (subst skipBlanks.simps) (simp add: peekChar_ascii [OF assms(1,2)])

lemma skipBlanks_end: "reads l [] \<Longrightarrow> skipBlanks l = Inr l"
  by (subst skipBlanks.simps) (simp add: peekChar_end)

lemma skipBlanks_blank:
  assumes "reads l (CHR '' '' # s)" obtains l' where "skipBlanks l = skipBlanks l'" "reads l' s"
proof -
  have a: "ascii CHR '' ''" by (simp add: ascii_def)
  obtain l' where "nextChar l = Inr (32, l')" "reads l' s" using nextChar_ascii [OF assms a] by auto
  then show thesis using that peekChar_ascii [OF assms a]
    by (subst (asm) skipBlanks.simps) (auto simp: isSpace_def)
qed

text \<open>What follows a token does not extend it.\<close>

definition stops :: "(rune \<Rightarrow> bool) \<Rightarrow> bytes \<Rightarrow> bool" where
  "stops p s \<longleftrightarrow> (case s of [] \<Rightarrow> True | c # t \<Rightarrow> ascii c \<and> \<not> p (byte c))"

lemma scanWhile_reads:
  assumes "reads l (w @ s)" "\<forall>c \<in> set w. ascii c \<and> p (byte c)" "stops p s"
  shows "\<exists>l'. scanWhile p v l = Inr (v @ w, l') \<and> reads l' s"
  using assms
proof (induction w arbitrary: l v)
  case Nil
  then show ?case
    by (cases s; subst scanWhile.simps) (auto simp: peekChar_end peekChar_ascii stops_def)
next
  case (Cons c w)
  then have r: "reads l (c # w @ s)" and c: "ascii c" "p (byte c)" by auto
  obtain l' where l': "nextChar l = Inr (byte c, l')" "reads l' (w @ s)" using nextChar_ascii [OF r c(1)] .
  have "scanWhile p v l = scanWhile p (v @ [c]) l'"
    using r c l'(1) by (subst scanWhile.simps) (simp add: peekChar_ascii ascii_def [of c])
  then show ?case using Cons.IH [OF l'(2), of "v @ [c]"] Cons.prems by auto
qed

definition plainByte :: "char \<Rightarrow> bool" where
  "plainByte c \<longleftrightarrow> ascii c \<and> byte c \<notin> {10, 34, 92}"

lemma scanString_reads:
  assumes "reads l (w @ CHR 0x22 # s)" "\<forall>c \<in> set w. plainByte c"
  shows "\<exists>l'. scanString line col v l = Inr (v @ w @ [CHR 0x22], l') \<and> reads l' s"
  using assms
proof (induction w arbitrary: l v)
  case Nil
  have a: "ascii CHR 0x22" by (simp add: ascii_def)
  obtain l' where "nextChar l = Inr (34, l')" "reads l' s" using nextChar_ascii [OF _ a] Nil.prems by auto
  then show ?case using encodeRune_ascii [OF a] by (subst scanString.simps) simp
next
  case (Cons c w)
  then have r: "reads l (c # w @ CHR 0x22 # s)" and c: "ascii c" "byte c \<notin> {34, 92}" by (auto simp: plainByte_def)
  obtain l' where l': "nextChar l = Inr (byte c, l')" "reads l' (w @ CHR 0x22 # s)" using nextChar_ascii [OF r c(1)] .
  have "scanString line col v l = scanString line col (v @ [c]) l'"
    using c l'(1) by (subst scanString.simps) (simp add: ascii_def [of c])
  then show ?case using Cons.IH [OF l'(2), of "v @ [c]"] Cons.prems by auto
qed

lemma unquoteBody_plain: "\<forall>c \<in> set w. plainByte c \<Longrightarrow> unquoteBody (w @ [CHR 0x22]) = Some w"
proof (induction w)
  case Nil
  then show ?case by (subst unquoteBody.simps) simp
next
  case (Cons c w)
  then have "byte c \<notin> {10, 34, 92}" "byte c < 128" by (auto simp: plainByte_def ascii_def)
  then have "c \<noteq> CHR 0x22" "c \<noteq> CHR 0x0A" "unquoteChar (c # w @ [CHR 0x22]) = Some ([c], w @ [CHR 0x22])"
    by (auto simp: unquoteChar_def)
  then show ?case using Cons by (subst unquoteBody.simps) simp
qed

lemma Unquote_plain: "\<forall>c \<in> set w. plainByte c \<Longrightarrow> Unquote (CHR 0x22 # w @ [CHR 0x22]) = Some w"
  by (simp add: Unquote_def unquoteBody_plain)

subsection \<open>The text of a token\<close>

definition startByte :: "char \<Rightarrow> bool" where
  "startByte c \<longleftrightarrow> ascii c \<and> (isAsciiLetter (byte c) \<or> byte c = 37 \<or> byte c \<in> punctuation)"

definition partByte :: "char \<Rightarrow> bool" where
  "partByte c \<longleftrightarrow> ascii c \<and> (isAsciiLetter (byte c) \<or> isAsciiDigit (byte c) \<or> byte c \<in> punctuation)"

definition digitByte :: "char \<Rightarrow> bool" where
  "digitByte c \<longleftrightarrow> ascii c \<and> isAsciiDigit (byte c)"

text \<open>The words the lexer reads as a symbol, an integer or a float: a \<open>-\<close> before a digit starts a
  number.\<close>

definition symbolText :: "string \<Rightarrow> bool" where
  "symbolText w \<longleftrightarrow>
     (case w of [] \<Rightarrow> False
      | c # t \<Rightarrow> startByte c \<and> (\<forall>d \<in> set t. partByte d) \<and>
          (byte c = 45 \<longrightarrow> (case t of [] \<Rightarrow> True | d # _ \<Rightarrow> \<not> digitByte d)))"

definition digits :: "string \<Rightarrow> bool" where
  "digits w \<longleftrightarrow> w \<noteq> [] \<and> (\<forall>c \<in> set w. digitByte c)"

definition intText :: "string \<Rightarrow> bool" where
  "intText w \<longleftrightarrow> (\<exists>sg ds. w = sg @ ds \<and> (sg = [] \<or> sg = ''-'') \<and> digits ds)"

definition floatText :: "string \<Rightarrow> bool" where
  "floatText w \<longleftrightarrow>
     (\<exists>sg ds fs. w = sg @ ds @ CHR ''.'' # fs \<and> (sg = [] \<or> sg = ''-'') \<and> digits ds \<and> digits fs)"

definition stringText :: "string \<Rightarrow> bool" where
  "stringText w \<longleftrightarrow> (\<forall>c \<in> set w. plainByte c)"

text \<open>The delimiters after a word in the text of a tree.\<close>

definition delimited :: "bytes \<Rightarrow> bool" where
  "delimited s \<longleftrightarrow> (case s of [] \<Rightarrow> True | c # t \<Rightarrow> c = CHR '' '' \<or> c = CHR '')'')"

lemma ascii_blank: "ascii CHR '' ''" "ascii CHR '')''" "ascii CHR ''(''" "ascii CHR 0x22" "ascii CHR ''-''" "ascii CHR ''.''"
  by (simp_all add: ascii_def)

lemma delimited_stops:
  "delimited s \<Longrightarrow> (\<And>r. r = 32 \<or> r = 41 \<Longrightarrow> \<not> p r) \<Longrightarrow> stops p s"
  by (auto simp: delimited_def stops_def ascii_blank split: list.splits)

lemma digitByte_isDigit: "digitByte c \<Longrightarrow> isDigit u (byte c)"
  by (simp add: digitByte_def isDigit_def ascii_def)

lemma isDigit_digitByte: "ascii c \<Longrightarrow> isDigit u (byte c) \<longleftrightarrow> digitByte c"
  by (simp add: digitByte_def isDigit_def ascii_def)

lemma partByte_isSymbolPart: "partByte c \<Longrightarrow> isSymbolPart u (byte c)"
  by (auto simp: partByte_def isSymbolPart_def isDigit_def isLetter_def ascii_def)

lemma startByte_isSymbolStart: "startByte c \<Longrightarrow> isSymbolStart u (byte c)"
  by (auto simp: startByte_def isSymbolStart_def isLetter_def ascii_def)

lemma startByte_other:
  assumes "startByte c"
  shows "\<not> isDigit u (byte c)" "\<not> isSpace (byte c)" "byte c \<notin> {0, 34, 40, 41, 59}"
  using assms by (auto simp: startByte_def isDigit_def isSpace_def isAsciiDigit_def isAsciiLetter_def punctuation_def)

lemma digitByte_other:
  assumes "digitByte c" shows "\<not> isSpace (byte c)" "byte c \<notin> {0, 34, 40, 41, 45, 59}"
  using assms by (auto simp: digitByte_def isSpace_def isAsciiDigit_def)

lemma isDigit_delim: "r = 32 \<or> r = 41 \<or> r = 46 \<or> r = 0 \<Longrightarrow> \<not> isDigit u r"
  by (auto simp: isDigit_def isAsciiDigit_def)

lemma isSymbolPart_delim: "r = 32 \<or> r = 41 \<Longrightarrow> \<not> isSymbolPart u r"
  by (auto simp: isSymbolPart_def isDigit_def isLetter_def isAsciiDigit_def isAsciiLetter_def punctuation_def)

text \<open>The first character of a token, read past the blanks.\<close>

lemma token_start:
  assumes "reads l (c # s)" "ascii c" "\<not> isSpace (byte c)" "byte c \<noteq> 59"
  obtains l' where "skipBlanks l = Inr l" "peekChar l = Inr (byte c)" "byte c \<noteq> 0"
    "nextChar l = Inr (byte c, l')" "reads l' s"
  using skipBlanks_stays [OF assms] peekChar_ascii [OF assms(1,2)] nextChar_ascii [OF assms(1,2)] assms(2)
  unfolding ascii_def by (metis less_numeral_extra(3))

lemma NextToken_paren:
  assumes "reads l (c # s)" "c = CHR ''('' \<or> c = CHR '')''"
  shows "\<exists>tk l'. NextToken u l = Inr (tk, l') \<and> reads l' s \<and>
           tk_Type tk = (if c = CHR ''('' then TokenLParen else TokenRParen)"
proof -
  have "ascii c" "\<not> isSpace (byte c)" "byte c \<noteq> 59" using assms(2) by (auto simp: ascii_def isSpace_def)
  from token_start [OF assms(1) this] obtain l' where
    "skipBlanks l = Inr l" "peekChar l = Inr (byte c)" "byte c \<noteq> 0" "nextChar l = Inr (byte c, l')" "reads l' s" .
  then show ?thesis using assms(2) by (auto simp: NextToken_def Let_def mkToken_def)
qed

lemma NextToken_end: "reads l [] \<Longrightarrow> \<exists>tk. NextToken u l = Inr (tk, l) \<and> tk_Type tk = TokenEOF"
  by (simp add: NextToken_def skipBlanks_end peekChar_end mkToken_def)

lemma NextToken_blank:
  assumes "reads l (CHR '' '' # s)" obtains l' where "NextToken u l = NextToken u l'" "reads l' s"
proof -
  obtain l' where l': "skipBlanks l = skipBlanks l'" "reads l' s" using skipBlanks_blank [OF assms] .
  have "NextToken u l = NextToken u l'" by (simp only: NextToken_def l'(1))
  then show thesis using that l'(2) by blast
qed

lemma NextToken_string:
  assumes "reads l (CHR 0x22 # w @ CHR 0x22 # s)" "stringText w"
  shows "\<exists>tk l'. NextToken u l = Inr (tk, l') \<and> reads l' s \<and> tk_Type tk = TokenString \<and> tk_Value tk = w"
proof -
  obtain l1 where a: "skipBlanks l = Inr l" "peekChar l = Inr 34" "nextChar l = Inr (34, l1)"
    and r: "reads l1 (w @ CHR 0x22 # s)"
    using token_start [OF assms(1) ascii_blank(4)] by (auto simp: isSpace_def)
  have p: "\<forall>c \<in> set w. plainByte c" using assms(2) by (simp add: stringText_def)
  obtain l2 where "scanString (lx_line l) (lx_column l) [CHR 0x22] l1 = Inr (CHR 0x22 # w @ [CHR 0x22], l2)" "reads l2 s"
    using scanString_reads [OF r p, of _ _ "[CHR 0x22]"] by auto
  then show ?thesis using a by (simp add: NextToken_def Let_def Unquote_plain [OF p] mkToken_def)
qed

lemma NextToken_symbol:
  assumes "reads l (w @ s)" "symbolText w" "delimited s"
  shows "\<exists>tk l'. NextToken u l = Inr (tk, l') \<and> reads l' s \<and> tk_Type tk = TokenSymbol \<and> tk_Value tk = w"
proof -
  obtain c t where w: "w = c # t" and c: "startByte c" and t: "\<forall>d \<in> set t. partByte d"
    and neg: "byte c = 45 \<Longrightarrow> (case t of [] \<Rightarrow> True | d # _ \<Rightarrow> \<not> digitByte d)"
    using assms(2) by (auto simp: symbolText_def split: list.splits)
  have ac: "ascii c" using c by (simp add: startByte_def)
  note o = startByte_other [OF c]
  obtain l1 where a: "skipBlanks l = Inr l" "peekChar l = Inr (byte c)" "byte c \<noteq> 0" "nextChar l = Inr (byte c, l1)"
    and r: "reads l1 (t @ s)"
    using token_start [of l c "t @ s"] assms(1) w ac o by auto
  have sc: "\<exists>l'. scanWhile (isSymbolPart u) v l1 = Inr (v @ t, l') \<and> reads l' s" for v
    using r t assms(3)
    by (intro scanWhile_reads delimited_stops) (auto simp: partByte_isSymbolPart isSymbolPart_delim partByte_def)
  have n: "\<exists>d. peekChar l1 = Inr d \<and> \<not> isDigit u d" if "byte c = 45"
  proof (cases "t @ s")
    case Nil
    then show ?thesis using r by (simp add: peekChar_end isDigit_delim)
  next
    case (Cons d x)
    have "ascii d \<and> \<not> isDigit u (byte d)"
    proof (cases t)
      case Nil
      then have "d = CHR '' '' \<or> d = CHR '')''" using Cons assms(3) by (auto simp: delimited_def)
      then show ?thesis by (auto simp: ascii_blank isDigit_delim)
    next
      case (Cons e y)
      then have "d = e" using \<open>t @ s = d # x\<close> by simp
      then show ?thesis using neg [OF that] t Cons by (auto simp: isDigit_digitByte partByte_def)
    qed
    then show ?thesis using peekChar_ascii r Cons by auto
  qed
  have e: "rbind (if byte c = 45 then rbind (peekChar l1) (\<lambda>d. Inr (isDigit u d)) else Inr False) f = f False" for f :: "bool \<Rightarrow> compile_error + Token \<times> Lexer"
    using n by auto
  obtain l2 where "scanWhile (isSymbolPart u) [c] l1 = Inr (w, l2)" "reads l2 s" using sc [of "[c]"] w by auto
  moreover have "NextToken u l = rbind (scanWhile (isSymbolPart u) [c] l1) (\<lambda>(val, l2).
      Inr (mkToken TokenSymbol val (lx_line l) (lx_column l), l2))"
    using a o ac startByte_isSymbolStart [OF c, of u]
    by (simp only: NextToken_def scanWord_def Let_def rbind_Inr e encodeRune_ascii prod.case if_False if_True insert_iff) simp
  ultimately show ?thesis by (simp add: mkToken_def)
qed

lemma scanDigits:
  assumes "reads l (ds @ s)" "\<forall>c \<in> set ds. digitByte c" "stops (isDigit u) s"
  shows "\<exists>l'. scanWhile (isDigit u) v l = Inr (v @ ds, l') \<and> reads l' s"
  using assms by (intro scanWhile_reads) (auto simp: digitByte_isDigit digitByte_def)

lemma scanNumber_int:
  assumes "reads l (ds @ s)" "\<forall>c \<in> set ds. digitByte c" "delimited s"
  shows "\<exists>l'. scanNumber u line col v l = Inr (mkToken TokenInt (v @ ds) line col, l') \<and> reads l' s"
proof -
  have "stops (isDigit u) s" using assms(3) by (rule delimited_stops) (auto simp: isDigit_delim)
  from scanDigits [OF assms(1,2) this] obtain l' where l': "scanWhile (isDigit u) v l = Inr (v @ ds, l')" "reads l' s" by blast
  have "\<exists>c. peekChar l' = Inr c \<and> c \<noteq> 46"
    using l'(2) assms(3) peekChar_end [of l'] peekChar_ascii [of l'] ascii_blank
    by (cases s) (auto simp: delimited_def)
  then show ?thesis using l' by (auto simp: scanNumber_def)
qed

lemma scanNumber_float:
  assumes "reads l (ds @ CHR ''.'' # fs @ s)" "\<forall>c \<in> set ds. digitByte c" "digits fs" "delimited s"
  shows "\<exists>l'. scanNumber u line col v l = Inr (mkToken TokenFloat (v @ ds @ CHR ''.'' # fs) line col, l') \<and> reads l' s"
proof -
  have "stops (isDigit u) (CHR ''.'' # fs @ s)" by (simp add: stops_def ascii_blank isDigit_delim)
  from scanDigits [OF assms(1,2) this] obtain l1 where
    l1: "scanWhile (isDigit u) v l = Inr (v @ ds, l1)" "reads l1 (CHR ''.'' # fs @ s)" by blast
  obtain l2 where l2: "nextChar l1 = Inr (46, l2)" "reads l2 (fs @ s)"
    using nextChar_ascii [OF l1(2)] ascii_blank by auto
  obtain f t where f: "fs = f # t" "digitByte f" using assms(3) by (cases fs) (auto simp: digits_def)
  have d: "peekChar l2 = Inr (byte f)" "isDigit u (byte f)"
    using peekChar_ascii [of l2 f "t @ s"] l2(2) f digitByte_isDigit by (auto simp: digitByte_def)
  have "stops (isDigit u) s" using assms(4) by (rule delimited_stops) (auto simp: isDigit_delim)
  then obtain l3 where l3: "scanWhile (isDigit u) ((v @ ds) @ ''.'') l2 = Inr (((v @ ds) @ ''.'') @ fs, l3)" "reads l3 s"
    using scanDigits [OF l2(2), of u "(v @ ds) @ ''.''"] assms(3) unfolding digits_def by blast
  have "peekChar l1 = Inr 46" using peekChar_ascii [OF l1(2)] ascii_blank by simp
  then show ?thesis using l1(1) l2(1) d l3 by (simp add: scanNumber_def)
qed

text \<open>A number token starts like its digits, after an optional sign.\<close>

lemma NextToken_number:
  assumes "reads l (sg @ ds @ s)" "sg = [] \<or> sg = ''-''" "digits ds"
  obtains c t l' where "ds = c # t" "digitByte c" "\<forall>d \<in> set t. digitByte d" "reads l' (t @ s)"
    "NextToken u l = scanNumber u (lx_line l) (lx_column l) (sg @ [c]) l'"
proof -
  obtain c t where ds: "ds = c # t" "digitByte c" "\<forall>d \<in> set t. digitByte d" using assms(3) by (cases ds) (auto simp: digits_def)
  note o = digitByte_other [OF ds(2)] and dg = digitByte_isDigit [OF ds(2), of u]
  have ac: "ascii c" using ds(2) by (simp add: digitByte_def)
  show thesis
  proof (cases "sg = []")
    case True
    then obtain l1 where a: "skipBlanks l = Inr l" "peekChar l = Inr (byte c)" "byte c \<noteq> 0" "nextChar l = Inr (byte c, l1)"
      and r: "reads l1 (t @ s)"
      using token_start [of l c "t @ s"] assms(1) ds(1) ac o by auto
    have "NextToken u l = scanNumber u (lx_line l) (lx_column l) (sg @ [c]) l1"
      using True a o dg ac
      by (simp only: NextToken_def scanWord_def Let_def rbind_Inr encodeRune_ascii prod.case if_False if_True insert_iff) simp
    then show thesis using that ds r by blast
  next
    case False
    then have sg: "sg = ''-''" using assms(2) by simp
    then obtain l1 where a: "skipBlanks l = Inr l" "peekChar l = Inr 45" "nextChar l = Inr (45, l1)"
      and r: "reads l1 (c # t @ s)"
      using token_start [of l "CHR ''-''" "ds @ s"] assms(1) ds(1) ascii_blank by (auto simp: isSpace_def)
    obtain l2 where l2: "nextChar l1 = Inr (byte c, l2)" "reads l2 (t @ s)" using nextChar_ascii [OF r ac] .
    have "NextToken u l = scanNumber u (lx_line l) (lx_column l) (sg @ [c]) l2"
      using sg a l2(1) peekChar_ascii [OF r ac] dg ac
      by (simp only: NextToken_def scanWord_def Let_def rbind_Inr encodeRune_ascii prod.case if_False if_True insert_iff) simp
    then show thesis using that ds l2(2) by blast
  qed
qed

lemma NextToken_int:
  assumes "reads l (w @ s)" "intText w" "delimited s"
  shows "\<exists>tk l'. NextToken u l = Inr (tk, l') \<and> reads l' s \<and> tk_Type tk = TokenInt \<and> tk_Value tk = w"
proof -
  obtain sg ds where w: "w = sg @ ds" "sg = [] \<or> sg = ''-''" "digits ds" using assms(2) unfolding intText_def by blast
  have r: "reads l (sg @ ds @ s)" using assms(1) w(1) by simp
  obtain c t l1 where a: "ds = c # t" "\<forall>d \<in> set t. digitByte d" "reads l1 (t @ s)"
    "NextToken u l = scanNumber u (lx_line l) (lx_column l) (sg @ [c]) l1"
    using NextToken_number [OF r w(2,3), of u] by metis
  show ?thesis
    using scanNumber_int [OF a(3,2) assms(3), of u "lx_line l" "lx_column l" "sg @ [c]"] a(1,4) w(1)
    by (auto simp: mkToken_def)
qed

lemma NextToken_float:
  assumes "reads l (w @ s)" "floatText w" "delimited s"
  shows "\<exists>tk l'. NextToken u l = Inr (tk, l') \<and> reads l' s \<and> tk_Type tk = TokenFloat \<and> tk_Value tk = w"
proof -
  obtain sg ds fs where w: "w = sg @ ds @ CHR ''.'' # fs" "sg = [] \<or> sg = ''-''" "digits ds" "digits fs"
    using assms(2) unfolding floatText_def by blast
  have r: "reads l (sg @ ds @ CHR ''.'' # fs @ s)" using assms(1) w(1) by simp
  obtain c t l1 where a: "ds = c # t" "\<forall>d \<in> set t. digitByte d" "reads l1 (t @ CHR ''.'' # fs @ s)"
    "NextToken u l = scanNumber u (lx_line l) (lx_column l) (sg @ [c]) l1"
    using NextToken_number [OF r w(2,3), of u] by metis
  show ?thesis
    using scanNumber_float [OF a(3,2) w(4) assms(3), of u "lx_line l" "lx_column l" "sg @ [c]"] a(1,4) w(1)
    by (auto simp: mkToken_def)
qed

end
