(* ===== verification/Parser.thy ===== *)
theory Parser
  imports Lexer GoPath
begin

text \<open>
  The parser (\<open>internal/parser/parser.go\<close>): one token of lookahead over the lexer, a recursive
  descent that builds the syntax tree, the report on what follows the program's form, and the
  expansion of \<open>include\<close> and \<open>use\<close> forms, whose files the parameter \<open>readFile\<close> gives. The fuel of the
  descent is a bound on the tokens left: \<open>parse_returns\<close> shows that it never runs out, so every
  source either parses or is reported. \<open>parse_Stringify\<close> reads back what \<open>Stringify\<close> prints.
\<close>

record Parser =
  ps_lexer :: Lexer
  ps_Cur :: Token
  ps_depth :: int
  ps_rootHead :: string
  ps_rootLine :: int
  ps_rootCol :: int
  ps_rootCloseLine :: int
  ps_rootCloseC :: int

definition NewParser :: "unicode \<Rightarrow> Lexer \<Rightarrow> compile_error + Parser" where
  "NewParser u lx =
     rbind (NextToken u lx) (\<lambda>(tk, lx). Inr
       \<lparr>ps_lexer = lx, ps_Cur = tk, ps_depth = 0, ps_rootHead = [], ps_rootLine = 0, ps_rootCol = 0,
        ps_rootCloseLine = 0, ps_rootCloseC = 0\<rparr>)"

text \<open>\<open>p.Cur = p.lexer.NextToken()\<close>.\<close>

definition advance :: "unicode \<Rightarrow> Parser \<Rightarrow> compile_error + Parser" where
  "advance u p = rbind (NextToken u (ps_lexer p)) (\<lambda>(tk, lx). Inr (p\<lparr>ps_lexer := lx, ps_Cur := tk\<rparr>))"

definition headWord :: "Node list \<Rightarrow> string" where
  "headWord cs = (if cs \<noteq> [] \<and> isSymbolNode (hd cs) then n_Value (hd cs) else ''(empty)'')"

definition unclosed :: "Token \<Rightarrow> Node list \<Rightarrow> Token \<Rightarrow> compile_error" where
  "unclosed opened cs cur =
     ReportError (''Unclosed '' @ [CHR 0x27] @ ''('' @ [CHR 0x27] @ '' (form: '' @ headWord cs @
       '') opened here is never closed; the file ends at line '' @ itoa (tk_Line cur) @
       '' without its matching '' @ [CHR 0x27] @ '')'' @ [CHR 0x27] @ ''. Add a '' @ [CHR 0x27] @ '')'' @
       [CHR 0x27] @ '' where this form ends'') (tk_Line opened) (tk_Column opened)"

text \<open>The closing parenthesis of a list: at depth 0 the form is the root.\<close>

definition closeList :: "Token \<Rightarrow> Node list \<Rightarrow> Parser \<Rightarrow> Parser" where
  "closeList opened cs p =
     (let p = p\<lparr>ps_depth := ps_depth p - 1\<rparr>
      in if ps_depth p = 0 then
           p\<lparr>ps_rootHead := headWord cs, ps_rootLine := tk_Line opened, ps_rootCol := tk_Column opened,
             ps_rootCloseLine := tk_Line (ps_Cur p), ps_rootCloseC := tk_Column (ps_Cur p)\<rparr>
         else p)"

definition isAtom :: "TokenType \<Rightarrow> bool" where
  "isAtom ty \<longleftrightarrow> ty = TokenSymbol \<or> ty = TokenInt \<or> ty = TokenFloat \<or> ty = TokenString"

fun parseExpr :: "unicode \<Rightarrow> nat \<Rightarrow> Parser \<Rightarrow> compile_error + (Node \<times> Parser)"
  and parseChildren :: "unicode \<Rightarrow> nat \<Rightarrow> Parser \<Rightarrow> Node list \<Rightarrow> compile_error + (Node list \<times> Parser)" where
  "parseExpr u 0 p = Inl NoFuel"
| "parseExpr u (Suc k) p =
     (let cur = ps_Cur p in
      if tk_Type cur = TokenLParen then
        rbind (advance u p) (\<lambda>p1.
        rbind (parseChildren u k (p1\<lparr>ps_depth := ps_depth p1 + 1\<rparr>) []) (\<lambda>r.
        if tk_Type (ps_Cur (snd r)) \<noteq> TokenRParen then Inl (unclosed cur (fst r) (ps_Cur (snd r)))
        else rbind (advance u (closeList cur (fst r) (snd r))) (\<lambda>p3.
          Inr (Node ''List'' [] (fst r) (tk_Line cur) (tk_Column cur), p3))))
      else if isAtom (tk_Type cur) then
        rbind (advance u p) (\<lambda>p1.
          Inr (Node (typeName (tk_Type cur)) (tk_Value cur) [] (tk_Line cur) (tk_Column cur), p1))
      else Inl (ReportError (''Unexpected token: '' @ tk_Value cur) (tk_Line cur) (tk_Column cur)))"
| "parseChildren u 0 p cs = Inl NoFuel"
| "parseChildren u (Suc k) p cs =
     (if tk_Type (ps_Cur p) = TokenRParen \<or> tk_Type (ps_Cur p) = TokenEOF then Inr (cs, p)
      else rbind (parseExpr u k p) (\<lambda>r. parseChildren u k (snd r) (cs @ [fst r])))"

text \<open>The tokens left, and the descent with enough fuel for them.\<close>

definition tokensLeft :: "Parser \<Rightarrow> nat" where
  "tokensLeft p = left (ps_lexer p) + (if tk_Type (ps_Cur p) = TokenEOF then 0 else 1)"

definition ParseExpression :: "unicode \<Rightarrow> Parser \<Rightarrow> compile_error + (Node \<times> Parser)" where
  "ParseExpression u p = parseExpr u (2 * tokensLeft p + 1) p"

definition ReportTrailing :: "Parser \<Rightarrow> compile_error" where
  "ReportTrailing p =
     (let cur = ps_Cur p; q = [CHR 0x27] in
      if tk_Type cur = TokenRParen then
        ReportError (''Unexpected '' @ q @ '')'' @ q @ '' here: there is no open '' @ q @ ''('' @ q @
          '' for it. The program'' @ q @ ''s form '' @ ps_rootHead p @ '' (opened on line '' @ itoa (ps_rootLine p) @
          '') was already complete; remove this extra '' @ q @ '')'' @ q @ '' or add a matching '' @ q @ ''('' @ q)
          (tk_Line cur) (tk_Column cur)
      else if ps_rootHead p \<noteq> [] then
        ReportError (''The program'' @ q @ ''s form '' @ ps_rootHead p @ '' (opened on line '' @ itoa (ps_rootLine p) @
          '', column '' @ itoa (ps_rootCol p) @ '') is closed here, but more code follows at line '' @
          itoa (tk_Line cur) @ '', column '' @ itoa (tk_Column cur) @ ''. An extra '' @ q @ '')'' @ q @
          '' on or before this line closes '' @ ps_rootHead p @ '' too early; remove it'')
          (ps_rootCloseLine p) (ps_rootCloseC p)
      else ReportError ''Unexpected tokens after EOF'' (tk_Line cur) (tk_Column cur))"

text \<open>The start of every command that takes a file (\<open>howlframe.go\<close>).\<close>

definition parseSource :: "unicode \<Rightarrow> bytes \<Rightarrow> compile_error + Node" where
  "parseSource u content =
     rbind (NewParser u (NewLexer content)) (\<lambda>p.
     rbind (ParseExpression u p) (\<lambda>(root, p).
       if tk_Type (ps_Cur p) \<noteq> TokenEOF then Inl (ReportTrailing p) else Inr root))"

subsection \<open>The descent returns\<close>

lemma skipBlanks_left: "skipBlanks l = Inr l' \<Longrightarrow> left l' \<le> left l"
proof (induction l rule: skipBlanks.induct)
  case (1 l)
  then show ?case
    by (subst (asm) (3) skipBlanks.simps)
      (fastforce simp: result_simps split: if_splits dest: nextChar_left(1) skipComment_left)
qed

lemma scanWhile_left: "scanWhile p v l = Inr (w, l') \<Longrightarrow> left l' \<le> left l"
proof (induction p v l rule: scanWhile.induct)
  case (1 p v l)
  then show ?case
    by (subst (asm) (2) scanWhile.simps)
      (fastforce simp: result_simps split: if_splits dest: nextChar_left(1))
qed

lemma scanString_left: "scanString line col v l = Inr (w, l') \<Longrightarrow> left l' \<le> left l"
proof (induction line col v l rule: scanString.induct)
  case (1 line col v l)
  then show ?case
    by (subst (asm) (3) scanString.simps)
      (fastforce simp: result_simps split: if_splits dest: nextChar_left(1))
qed

lemma scanNumber_left: "scanNumber u line col v l = Inr (tk, l') \<Longrightarrow> left l' \<le> left l"
proof -
  have dot: "left (l1\<lparr>lx_pos := lx_pos l1 - 1, lx_column := c\<rparr>) \<le> left l"
    if "left l1 < left l" for l1 :: Lexer and c using that by (simp add: left_def)
  have n: "left l1 < left l2" if "nextChar l2 = Inr (c, l1)" "peekChar l2 = Inr 46" for c l1 l2
    using peekChar_left_rune [OF that(2) _ that(1)] by simp
  assume "scanNumber u line col v l = Inr (tk, l')"
  then obtain v1 l1 c where a: "scanWhile (isDigit u) v l = Inr (v1, l1)" "peekChar l1 = Inr c"
    and b: "(if c = 46 then rbind (nextChar l1) (\<lambda>(_, l1). rbind (peekChar l1) (\<lambda>d.
           if isDigit u d then rbind (scanWhile (isDigit u) (v1 @ ''.'') l1) (\<lambda>(val, l2). Inr (mkToken TokenFloat val line col, l2))
           else Inr (mkToken TokenInt v1 line col, l1\<lparr>lx_pos := lx_pos l1 - 1, lx_column := lx_column l1 - 1\<rparr>)))
       else Inr (mkToken TokenInt v1 line col, l1)) = Inr (tk, l')"
    by (auto simp: scanNumber_def result_simps)
  have l1: "left l1 \<le> left l" using scanWhile_left a(1) .
  show "left l' \<le> left l"
  proof (cases "c = 46")
    case True
    then obtain x l2 d where x: "nextChar l1 = Inr (x, l2)" "peekChar l2 = Inr d"
      and y: "(if isDigit u d then rbind (scanWhile (isDigit u) (v1 @ ''.'') l2) (\<lambda>(val, l2). Inr (mkToken TokenFloat val line col, l2))
           else Inr (mkToken TokenInt v1 line col, l2\<lparr>lx_pos := lx_pos l2 - 1, lx_column := lx_column l2 - 1\<rparr>)) = Inr (tk, l')"
      using b by (auto simp: result_simps)
    have "left l2 < left l" using n [OF x(1)] True a(2) l1 by simp
    show ?thesis
    proof (cases "isDigit u d")
      case True
      with y have "\<exists>w. scanWhile (isDigit u) (v1 @ ''.'') l2 = Inr (w, l')" by (auto simp: result_simps)
      then show ?thesis using scanWhile_left \<open>left l2 < left l\<close> by fastforce
    next
      case False
      with y have "l' = l2\<lparr>lx_pos := lx_pos l2 - 1, lx_column := lx_column l2 - 1\<rparr>" by simp
      then show ?thesis using dot \<open>left l2 < left l\<close> by blast
    qed
  qed (use b l1 in simp)
qed

lemma scanWord_left:
  assumes "scanWord u line col ch l = Inr (tk, l')" shows "left l' \<le> left l"
proof -
  obtain neg where "rbind (if neg then nextChar l else Inr (ch, l)) (\<lambda>(ch, l).
     if isDigit u ch then scanNumber u line col ((if neg then ''-'' else []) @ encodeRune ch) l
     else if isSymbolStart u ch then
       rbind (scanWhile (isSymbolPart u) (encodeRune ch) l) (\<lambda>(val, l). Inr (mkToken TokenSymbol val line col, l))
     else Inl (ReportError (''Unexpected character: '' @ encodeRune ch) line col)) = Inr (tk, l')"
    using assms unfolding scanWord_def rbind_eq_Inr by blast
  then obtain ch1 l1 where a: "(if neg then nextChar l else Inr (ch, l)) = Inr (ch1, l1)"
    and b: "(if isDigit u ch1 then scanNumber u line col ((if neg then ''-'' else []) @ encodeRune ch1) l1
     else if isSymbolStart u ch1 then
       rbind (scanWhile (isSymbolPart u) (encodeRune ch1) l1) (\<lambda>(val, l). Inr (mkToken TokenSymbol val line col, l))
     else Inl (ReportError (''Unexpected character: '' @ encodeRune ch1) line col)) = Inr (tk, l')"
    by (auto simp: rbind_eq_Inr)
  have "left l1 \<le> left l" using a nextChar_left(1) by (auto split: if_splits)
  moreover have "left l' \<le> left l1"
  proof (cases "isDigit u ch1")
    case True
    then show ?thesis using b scanNumber_left by simp
  next
    case False
    then have "\<exists>v. scanWhile (isSymbolPart u) (encodeRune ch1) l1 = Inr (v, l')"
      using b by (auto simp: rbind_eq_Inr split: if_splits)
    then show ?thesis using scanWhile_left by blast
  qed
  ultimately show ?thesis by simp
qed

lemma NextToken_left:
  assumes "NextToken u l = Inr (tk, l')"
  shows "left l' \<le> left l" "tk_Type tk \<noteq> TokenEOF \<Longrightarrow> left l' < left l"
proof -
  obtain l1 c where s: "skipBlanks l = Inr l1" "peekChar l1 = Inr c" using assms by (auto simp: NextToken_def result_simps)
  have l1: "left l1 \<le> left l" using skipBlanks_left s(1) .
  have "(c = 0 \<and> tk_Type tk = TokenEOF \<and> l' = l1) \<or> left l' < left l1"
  proof (cases "c = 0")
    case True
    then show ?thesis using assms s by (auto simp: NextToken_def mkToken_def)
  next
    case False
    obtain ch l2 where n: "nextChar l1 = Inr (ch, l2)" using assms s False by (auto simp: NextToken_def result_simps Let_def)
    have l2: "left l2 < left l1" using peekChar_left_rune [OF s(2) False n] .
    consider "ch = 40" | "ch = 41" | "ch = 34" | "ch \<notin> {40, 41, 34}" by blast
    then have "left l' \<le> left l2"
    proof cases
      case 3
      then show ?thesis using assms s n False
        by (auto simp: NextToken_def result_simps Let_def split: option.splits dest: scanString_left)
    next
      case 4
      then have "scanWord u (lx_line l1) (lx_column l1) ch l2 = Inr (tk, l')"
        using assms s n False by (simp add: NextToken_def Let_def)
      then show ?thesis by (rule scanWord_left)
    qed (use assms s n False in \<open>auto simp: NextToken_def Let_def mkToken_def\<close>)
    with l2 show ?thesis by simp
  qed
  then show "left l' \<le> left l" "tk_Type tk \<noteq> TokenEOF \<Longrightarrow> left l' < left l" using l1 by auto
qed

text \<open>Every failure of the lexer is a report.\<close>

definition reported :: "compile_error + 'a \<Rightarrow> bool" where
  "reported r \<longleftrightarrow> (\<forall>e. r = Inl e \<longrightarrow> (\<exists>out. e = Reported out))"

named_theorems reported_intros

lemma reported_Inr [reported_intros]: "reported (Inr x)"
  by (simp add: reported_def)

lemma reported_error [reported_intros]: "reported (Inl (ReportError s i j))"
  by (simp add: reported_def ReportError_def)

lemma reported_rbind [reported_intros]:
  "reported m \<Longrightarrow> (\<And>x. m = Inr x \<Longrightarrow> reported (f x)) \<Longrightarrow> reported (rbind m f)"
  by (cases m) (auto simp: reported_def)

lemma reported_if [reported_intros]: "(b \<Longrightarrow> reported x) \<Longrightarrow> (\<not> b \<Longrightarrow> reported y) \<Longrightarrow> reported (if b then x else y)"
  by simp

lemma reported_case [reported_intros]: "(\<And>a b. r = (a, b) \<Longrightarrow> reported (f a b)) \<Longrightarrow> reported (case r of (a, b) \<Rightarrow> f a b)"
  by (cases r) simp

lemma reported_option [reported_intros]:
  "reported n \<Longrightarrow> (\<And>a. reported (f a)) \<Longrightarrow> reported (case r of None \<Rightarrow> n | Some a \<Rightarrow> f a)"
  by (cases r) simp_all

lemma reported_decode [reported_intros]: "reported (decodeSourceRune s i j)"
  unfolding decodeSourceRune_def Let_def by (intro reported_intros)

lemma reported_nextChar [reported_intros]: "reported (nextChar l)"
  unfolding nextChar_def by (intro reported_intros)

lemma reported_peekChar [reported_intros]: "reported (peekChar l)"
  unfolding peekChar_def by (intro reported_intros)

lemma reported_skipComment [reported_intros]: "reported (skipComment l)"
proof (induction l rule: skipComment.induct)
  case (1 l)
  show ?case by (subst skipComment.simps) (intro reported_intros 1; assumption)
qed

lemma reported_skipBlanks [reported_intros]: "reported (skipBlanks l)"
proof (induction l rule: skipBlanks.induct)
  case (1 l)
  show ?case by (subst skipBlanks.simps) (intro reported_intros 1; assumption)
qed

lemma reported_scanWhile [reported_intros]: "reported (scanWhile p v l)"
proof (induction p v l rule: scanWhile.induct)
  case (1 p v l)
  show ?case by (subst scanWhile.simps) (intro reported_intros 1; assumption)
qed

lemma reported_scanString [reported_intros]: "reported (scanString i j v l)"
proof (induction i j v l rule: scanString.induct)
  case (1 i j v l)
  show ?case by (subst scanString.simps) (intro reported_intros 1; assumption)
qed

lemma reported_NextToken [reported_intros]: "reported (NextToken u l)"
  unfolding NextToken_def scanWord_def scanNumber_def Let_def by (intro reported_intros)

lemma reported_advance [reported_intros]: "reported (advance u p)"
  unfolding advance_def by (intro reported_intros)

text \<open>Every token read is one token less.\<close>

lemma advance_left:
  assumes "advance u p = Inr p'" "tk_Type (ps_Cur p) \<noteq> TokenEOF" shows "tokensLeft p' < tokensLeft p"
  using assms NextToken_left [of u "ps_lexer p"]
  by (fastforce simp: advance_def tokensLeft_def result_simps)

lemma closeList_same [simp]:
  "ps_lexer (closeList t cs p) = ps_lexer p" "ps_Cur (closeList t cs p) = ps_Cur p"
  by (simp_all add: closeList_def Let_def)

lemma tokensLeft_same [simp]:
  "tokensLeft (p\<lparr>ps_depth := d\<rparr>) = tokensLeft p" "tokensLeft (closeList t cs p) = tokensLeft p"
  by (simp_all add: tokensLeft_def)

lemma parse_left:
  "parseExpr u k p = Inr (n, p') \<Longrightarrow> tokensLeft p' < tokensLeft p"
  "parseChildren u k p cs = Inr (ns, p') \<Longrightarrow> tokensLeft p' \<le> tokensLeft p"
proof (induction k arbitrary: p n ns cs p')
  case (Suc k)
  { case 1
    show ?case
    proof (cases "tk_Type (ps_Cur p) = TokenLParen")
      case True
      then obtain p1 r where a: "advance u p = Inr p1" "parseChildren u k (p1\<lparr>ps_depth := ps_depth p1 + 1\<rparr>) [] = Inr r"
        and b: "tk_Type (ps_Cur (snd r)) = TokenRParen" "advance u (closeList (ps_Cur p) (fst r) (snd r)) = Inr p'"
        using 1 by (auto simp: Let_def result_simps split: if_splits)
      have "tokensLeft p1 < tokensLeft p" using advance_left [OF a(1)] True by simp
      moreover have "tokensLeft (snd r) \<le> tokensLeft p1" using Suc.IH(2) [of _ _ "fst r" "snd r"] a(2) by fastforce
      moreover have "tokensLeft p' < tokensLeft (snd r)" using advance_left [OF b(2)] b(1) by simp
      ultimately show ?thesis by simp
    next
      case False
      then have "isAtom (tk_Type (ps_Cur p))" "advance u p = Inr p'" using 1 by (auto simp: Let_def result_simps split: if_splits)
      then show ?thesis using advance_left by (auto simp: isAtom_def)
    qed
  next
    case 2
    show ?case
    proof (cases "tk_Type (ps_Cur p) = TokenRParen \<or> tk_Type (ps_Cur p) = TokenEOF")
      case False
      then obtain r where "parseExpr u k p = Inr r" "parseChildren u k (snd r) (cs @ [fst r]) = Inr (ns, p')"
        using 2 by (auto simp: result_simps)
      then show ?thesis using Suc.IH(1) [of p "fst r" "snd r"] Suc.IH(2) [of "snd r"] by fastforce
    qed (use 2 in auto)
  }
qed simp_all

lemma parse_reported:
  "2 * tokensLeft p < k \<Longrightarrow> reported (parseExpr u k p)"
  "2 * tokensLeft p + 1 < k \<Longrightarrow> reported (parseChildren u k p cs)"
proof (induction k arbitrary: p cs)
  case (Suc k)
  { case 1
    have "reported (parseChildren u k (p1\<lparr>ps_depth := d\<rparr>) [])"
      if "advance u p = Inr p1" "tk_Type (ps_Cur p) = TokenLParen" for p1 d
      using advance_left [OF that(1)] that(2) 1 by (intro Suc.IH) simp
    then show ?case unfolding parseExpr.simps Let_def unclosed_def by (intro reported_intros)
  next
    case 2
    have "reported (parseExpr u k p)" using 2 by (intro Suc.IH) simp
    moreover have "reported (parseChildren u k (snd r) (cs @ [fst r]))" if "parseExpr u k p = Inr r" for r
      using parse_left(1) [of u k p "fst r" "snd r"] that 2 by (intro Suc.IH) simp
    ultimately show ?case unfolding parseChildren.simps by (intro reported_intros)
  }
qed simp_all

lemma reported_ParseExpression [reported_intros]: "reported (ParseExpression u p)"
  unfolding ParseExpression_def by (intro parse_reported) simp

lemma reported_parseSource: "reported (parseSource u s)"
  unfolding parseSource_def NewParser_def ReportTrailing_def Let_def by (intro reported_intros; simp add: reported_intros)

text \<open>C17. Lexing and parsing any bytes ends with a syntax tree or with a reported error that carries a
  line and a column: the descent never runs out of fuel and no step of it fails in another way.\<close>

theorem parse_returns:
  "(\<exists>n. parseSource u s = Inr n) \<or> (\<exists>out. parseSource u s = Inl (Reported out))"
  using reported_parseSource [of u s] unfolding reported_def by (cases "parseSource u s") auto

subsection \<open>Reading back what is printed\<close>

text \<open>The trees whose text \<open>Stringify\<close> prints faithfully (it does not escape strings), and a tree
  without its positions.\<close>

definition plainAtom :: "string \<Rightarrow> string \<Rightarrow> bool" where
  "plainAtom ty v \<longleftrightarrow>
     (ty = typeName TokenSymbol \<and> symbolText v) \<or> (ty = typeName TokenInt \<and> intText v) \<or>
     (ty = typeName TokenFloat \<and> floatText v) \<or> (ty = typeName TokenString \<and> stringText v)"

fun plainTree :: "Node \<Rightarrow> bool" where
  "plainTree (Node ty v cs i j) \<longleftrightarrow>
     (if ty = ''List'' then v = [] \<and> (\<forall>c \<in> set cs. plainTree c) else cs = [] \<and> plainAtom ty v)"

fun unplaced :: "Node \<Rightarrow> Node" where
  "unplaced (Node ty v cs i j) = Node ty v (map unplaced cs) 0 0"

text \<open>The text of an atom is read as its token.\<close>

definition atomText :: "string \<Rightarrow> string \<Rightarrow> string" where
  "atomText ty v = (if ty = typeName TokenString then [CHR 0x22] @ v @ [CHR 0x22] else v)"

lemma typeName_inj: "typeName a = typeName b \<longleftrightarrow> a = b"
  by (cases a; cases b) simp_all

lemma typeName_List: "typeName a \<noteq> ''List''"
  by (cases a) simp_all

lemma NextToken_atom:
  assumes "reads l (atomText ty v @ s)" "plainAtom ty v" "delimited s"
  shows "\<exists>tk l'. NextToken u l = Inr (tk, l') \<and> reads l' s \<and> typeName (tk_Type tk) = ty \<and> tk_Value tk = v \<and>
           isAtom (tk_Type tk)"
proof -
  consider "ty = typeName TokenSymbol" "symbolText v" | "ty = typeName TokenInt" "intText v"
    | "ty = typeName TokenFloat" "floatText v" | "ty = typeName TokenString" "stringText v"
    using assms(2) unfolding plainAtom_def by blast
  then show ?thesis
  proof cases
    case 1
    then have "reads l (v @ s)" using assms(1) by (simp only: atomText_def typeName_inj TokenType.distinct if_False)
    from NextToken_symbol [OF this 1(2) assms(3), of u] show ?thesis using 1 unfolding isAtom_def by metis
  next
    case 2
    then have "reads l (v @ s)" using assms(1) by (simp only: atomText_def typeName_inj TokenType.distinct if_False)
    from NextToken_int [OF this 2(2) assms(3), of u] show ?thesis using 2 unfolding isAtom_def by metis
  next
    case 3
    then have "reads l (v @ s)" using assms(1) by (simp only: atomText_def typeName_inj TokenType.distinct if_False)
    from NextToken_float [OF this 3(2) assms(3), of u] show ?thesis using 3 unfolding isAtom_def by metis
  next
    case 4
    then have "reads l (CHR 0x22 # v @ CHR 0x22 # s)" using assms(1) by (simp add: atomText_def)
    from NextToken_string [OF this 4(2), of u] show ?thesis using 4 unfolding isAtom_def by metis
  qed
qed

lemma NextToken_open:
  "reads l (CHR ''('' # s) \<Longrightarrow> \<exists>tk l'. NextToken u l = Inr (tk, l') \<and> reads l' s \<and> tk_Type tk = TokenLParen"
  using NextToken_paren [of l "CHR ''(''" s u] by simp

lemma NextToken_close:
  "reads l (CHR '')'' # s) \<Longrightarrow> \<exists>tk l'. NextToken u l = Inr (tk, l') \<and> reads l' s \<and> tk_Type tk = TokenRParen"
  using NextToken_paren [of l "CHR '')''" s u] by simp

text \<open>The parser stands before \<open>s\<close>: its token is the first one of \<open>s\<close>. A token can be read from
  \<open>lexable\<close> text.\<close>

definition before :: "unicode \<Rightarrow> Parser \<Rightarrow> bytes \<Rightarrow> bool" where
  "before u p s \<longleftrightarrow> (\<exists>l. reads l s \<and> NextToken u l = Inr (ps_Cur p, ps_lexer p))"

definition lexable :: "unicode \<Rightarrow> bytes \<Rightarrow> bool" where
  "lexable u s \<longleftrightarrow> (\<forall>l. reads l s \<longrightarrow> (\<exists>r. NextToken u l = Inr r))"

lemma before_blank: "before u p (CHR '' '' # s) \<Longrightarrow> before u p s"
  unfolding before_def by (metis NextToken_blank)

lemma lexable_blank: "lexable u s \<Longrightarrow> lexable u (CHR '' '' # s)"
  unfolding lexable_def by (metis NextToken_blank)

lemma lexable_close: "lexable u (CHR '')'' # s)"
  unfolding lexable_def using NextToken_close by blast

lemma lexable_end: "lexable u []"
  unfolding lexable_def using NextToken_end by blast

lemma advance_before:
  assumes "reads (ps_lexer p) s" "lexable u s"
  obtains p' where "advance u p = Inr p'" "before u p' s" "tk_Type (ps_Cur p) \<noteq> TokenEOF \<Longrightarrow> tokensLeft p' < tokensLeft p"
proof -
  obtain tk l' where n: "NextToken u (ps_lexer p) = Inr (tk, l')" using assms unfolding lexable_def by fastforce
  let ?p = "p\<lparr>ps_lexer := l', ps_Cur := tk\<rparr>"
  have "advance u p = Inr ?p" using n by (simp add: advance_def)
  moreover have "before u ?p s" unfolding before_def using assms(1) n by auto
  ultimately show thesis using that advance_left by blast
qed

lemma Stringify_List:
  "Stringify (Node ''List'' v cs i j) @ s = CHR ''('' # join '' '' (map Stringify cs) @ CHR '')'' # s"
  by (subst Stringify.simps) (simp add: isListNode_def)

lemma Stringify_atom: "ty \<noteq> ''List'' \<Longrightarrow> Stringify (Node ty v cs i j) = atomText ty v"
  by (subst Stringify.simps) (simp add: isListNode_def atomText_def)

lemma lexable_Stringify:
  assumes "plainTree n" "delimited s" shows "lexable u (Stringify n @ s)"
proof (cases n)
  case (Node ty v cs i j)
  show ?thesis
  proof (cases "ty = ''List''")
    case True
    then show ?thesis unfolding Node lexable_def using NextToken_open by (simp add: Stringify_List) blast
  next
    case False
    then have "plainAtom ty v" using assms(1) Node by simp
    then show ?thesis unfolding Node Stringify_atom [OF False] lexable_def using NextToken_atom assms(2) by blast
  qed
qed

text \<open>Parsing the text of a tree gives the tree and leaves what follows; parsing the children of a
  list stops at its closing parenthesis.\<close>

definition readsBack :: "unicode \<Rightarrow> Node \<Rightarrow> bool" where
  "readsBack u n \<longleftrightarrow>
     (\<forall>p s k. before u p (Stringify n @ s) \<longrightarrow> delimited s \<longrightarrow> lexable u s \<longrightarrow> 2 * tokensLeft p < k \<longrightarrow>
        (\<exists>n' p'. parseExpr u k p = Inr (n', p') \<and> unplaced n' = unplaced n \<and> before u p' s))"

lemma before_start:
  assumes "before u p (Stringify n @ s)" "plainTree n" "delimited s"
  shows "tk_Type (ps_Cur p) = TokenLParen \<or> isAtom (tk_Type (ps_Cur p))"
proof (cases n)
  case (Node ty v cs i j)
  show ?thesis
  proof (cases "ty = ''List''")
    case True
    obtain l where l: "reads l (Stringify n @ s)" "NextToken u l = Inr (ps_Cur p, ps_lexer p)"
      using assms(1) unfolding before_def by blast
    have "reads l (CHR ''('' # join '' '' (map Stringify cs) @ CHR '')'' # s)" using l(1) unfolding Node True Stringify_List .
    from NextToken_open [OF this, of u] show ?thesis using l(2) by auto
  next
    case False
    then have "plainAtom ty v" using assms(2) Node by simp
    obtain l where l: "reads l (atomText ty v @ s)" "NextToken u l = Inr (ps_Cur p, ps_lexer p)"
      using assms(1) unfolding before_def Node Stringify_atom [OF False] by blast
    from NextToken_atom [OF l(1) \<open>plainAtom ty v\<close> assms(3), of u] l(2) show ?thesis by auto
  qed
qed

lemma delimited_close: "delimited (CHR '')'' # s)" "delimited (CHR '' '' # s)" "delimited []"
  by (simp_all add: delimited_def)

lemma before_close: "before u p (CHR '')'' # s) \<Longrightarrow> tk_Type (ps_Cur p) = TokenRParen \<and> reads (ps_lexer p) s"
proof -
  assume "before u p (CHR '')'' # s)"
  then obtain l where l: "reads l (CHR '')'' # s)" "NextToken u l = Inr (ps_Cur p, ps_lexer p)" unfolding before_def by blast
  from NextToken_close [OF l(1), of u] l(2) show ?thesis by auto
qed

lemma parseChildren_reads:
  assumes "\<forall>c \<in> set cs. plainTree c \<and> readsBack u c"
    "before u p (join '' '' (map Stringify cs) @ CHR '')'' # s)" "2 * tokensLeft p + 1 < k"
  shows "\<exists>cs' p'. parseChildren u k p acc = Inr (acc @ cs', p') \<and> map unplaced cs' = map unplaced cs \<and>
           before u p' (CHR '')'' # s)"
  using assms
proof (induction cs arbitrary: p k acc)
  case Nil
  then obtain j where "k = Suc j" by (cases k) auto
  then show ?case using Nil.prems(2) before_close by auto
next
  case (Cons c cs)
  obtain j where j: "k = Suc j" "2 * tokensLeft p < j" using Cons.prems(3) by (cases k) auto
  define r where "r = (if cs = [] then CHR '')'' # s else CHR '' '' # join '' '' (map Stringify cs) @ CHR '')'' # s)"
  have t: "join '' '' (map Stringify (c # cs)) @ CHR '')'' # s = Stringify c @ r"
    by (cases cs) (auto simp: r_def)
  have d: "delimited r" by (simp add: r_def delimited_close)
  have lx: "lexable u r"
  proof (cases cs)
    case (Cons b bs)
    have "\<exists>q. join '' '' (map Stringify (b # bs)) @ CHR '')'' # s = Stringify b @ q \<and> delimited q"
      by (cases bs) (auto simp: delimited_close)
    then show ?thesis using Cons Cons.prems(1) lexable_Stringify [of b] lexable_blank unfolding r_def by fastforce
  qed (simp add: r_def lexable_close)
  have b: "before u p (Stringify c @ r)" using Cons.prems(2) t by simp
  obtain n' p1 where n: "parseExpr u j p = Inr (n', p1)" "unplaced n' = unplaced c" "before u p1 r"
    using Cons.prems(1) b d lx j(2) unfolding readsBack_def by (metis list.set_intros(1))
  have "before u p1 (join '' '' (map Stringify cs) @ CHR '')'' # s)"
    using n(3) before_blank by (cases "cs = []") (auto simp: r_def)
  moreover have "2 * tokensLeft p1 + 1 < j" using parse_left(1) [OF n(1)] j(2) by simp
  ultimately obtain cs' p' where "parseChildren u j p1 (acc @ [n']) = Inr ((acc @ [n']) @ cs', p')"
    "map unplaced cs' = map unplaced cs" "before u p' (CHR '')'' # s)"
    using Cons.IH Cons.prems(1) by (meson list.set_intros(2))
  moreover have "\<not> (tk_Type (ps_Cur p) = TokenRParen \<or> tk_Type (ps_Cur p) = TokenEOF)"
    using before_start [OF b _ d] Cons.prems(1) by (auto simp: isAtom_def)
  ultimately show ?case using n(1,2) j(1) by auto
qed

lemma readsBack_atom:
  assumes "ty \<noteq> ''List''" "plainAtom ty v" shows "readsBack u (Node ty v [] i j)"
  unfolding readsBack_def Stringify_atom [OF assms(1)]
proof (intro allI impI)
  fix p s k
  assume b: "before u p (atomText ty v @ s)" and d: "delimited s" and lx: "lexable u s" and k: "2 * tokensLeft p < k"
  obtain m where m: "k = Suc m" using k by (cases k) auto
  obtain l where l: "reads l (atomText ty v @ s)" "NextToken u l = Inr (ps_Cur p, ps_lexer p)"
    using b unfolding before_def by blast
  have c: "typeName (tk_Type (ps_Cur p)) = ty" "tk_Value (ps_Cur p) = v" "isAtom (tk_Type (ps_Cur p))" "reads (ps_lexer p) s"
    using NextToken_atom [OF l(1) assms(2) d, of u] l(2) by auto
  obtain p' where "advance u p = Inr p'" "before u p' s" using advance_before [OF c(4) lx] by blast
  moreover have "tk_Type (ps_Cur p) \<noteq> TokenLParen" using c(3) by (auto simp: isAtom_def)
  ultimately show "\<exists>n' p'. parseExpr u k p = Inr (n', p') \<and> unplaced n' = unplaced (Node ty v [] i j) \<and> before u p' s"
    using c(1-3) m by (simp add: Let_def)
qed

lemma before_same: "ps_lexer q = ps_lexer p \<Longrightarrow> ps_Cur q = ps_Cur p \<Longrightarrow> before u q s \<longleftrightarrow> before u p s"
  by (simp add: before_def)

lemma readsBack_List:
  assumes "\<forall>c \<in> set cs. plainTree c \<and> readsBack u c" shows "readsBack u (Node ''List'' [] cs i j)"
  unfolding readsBack_def Stringify_List
proof (intro allI impI)
  fix p s k
  assume b: "before u p (CHR ''('' # join '' '' (map Stringify cs) @ CHR '')'' # s)" and d: "delimited s"
    and lx: "lexable u s" and k: "2 * tokensLeft p < k"
  let ?t = "join '' '' (map Stringify cs) @ CHR '')'' # s"
  obtain m where m: "k = Suc m" using k by (cases k) auto
  obtain l where l: "reads l (CHR ''('' # ?t)" "NextToken u l = Inr (ps_Cur p, ps_lexer p)"
    using b unfolding before_def by blast
  have c: "tk_Type (ps_Cur p) = TokenLParen" "reads (ps_lexer p) ?t" using NextToken_open [OF l(1), of u] l(2) by auto
  have "lexable u ?t"
  proof (cases cs)
    case (Cons b bs)
    have "\<exists>q. ?t = Stringify b @ q \<and> delimited q" using Cons by (cases bs) (auto simp: delimited_close)
    then show ?thesis using Cons assms lexable_Stringify [of b] by fastforce
  qed (simp add: lexable_close)
  then obtain p1 where p1: "advance u p = Inr p1" "before u p1 ?t" "tokensLeft p1 < tokensLeft p"
    using advance_before [OF c(2)] c(1) by auto
  let ?p1 = "p1\<lparr>ps_depth := ps_depth p1 + 1\<rparr>"
  have "before u ?p1 ?t" using p1(2) by (simp add: before_def)
  moreover have "2 * tokensLeft ?p1 + 1 < m" using p1(3) k m by simp
  ultimately obtain cs' p2 where p2: "parseChildren u m ?p1 [] = Inr (cs', p2)" "map unplaced cs' = map unplaced cs"
    "before u p2 (CHR '')'' # s)"
    using parseChildren_reads [OF assms, of ?p1 s m "[]"] by auto
  note e = before_close [OF p2(3)]
  let ?q = "closeList (ps_Cur p) cs' p2"
  have "reads (ps_lexer ?q) s" using e by simp
  then obtain p3 where "advance u ?q = Inr p3" "before u p3 s" using advance_before lx by blast
  then show "\<exists>n' p'. parseExpr u k p = Inr (n', p') \<and> unplaced n' = unplaced (Node ''List'' [] cs i j) \<and> before u p' s"
    using m c(1) p1(1) p2(1,2) e by (simp add: Let_def)
qed

lemma plainTree_readsBack: "plainTree n \<Longrightarrow> readsBack u n"
proof (induction n)
  case (Node ty v cs i j)
  then show ?case
    by (cases "ty = ''List''") (auto intro: readsBack_List readsBack_atom split: if_splits)
qed

text \<open>C16. The printer and the parser agree: the text \<open>Stringify\<close> gives for a tree of symbols, numbers,
  plain strings and lists parses, with nothing left over, to the same tree up to positions.\<close>

theorem parse_Stringify:
  assumes "plainTree n"
  shows "\<exists>n'. parseSource u (Stringify n) = Inr n' \<and> unplaced n' = unplaced n"
proof -
  let ?l = "NewLexer (Stringify n)"
  obtain tk l' where t: "NextToken u ?l = Inr (tk, l')"
    using lexable_Stringify [OF assms delimited_close(3), of u] reads_NewLexer [of "Stringify n"]
    unfolding lexable_def by fastforce
  then obtain p where p: "NewParser u ?l = Inr p" "ps_Cur p = tk" "ps_lexer p = l'" by (simp add: NewParser_def)
  have "before u p (Stringify n @ [])" unfolding before_def using t p(2,3)
    by (intro exI [of _ ?l]) simp
  then obtain n' p' where n: "ParseExpression u p = Inr (n', p')" "unplaced n' = unplaced n" "before u p' []"
    using plainTree_readsBack [OF assms, of u] delimited_close(3) lexable_end
    unfolding readsBack_def ParseExpression_def by (metis less_add_one)
  obtain l where "reads l []" "NextToken u l = Inr (ps_Cur p', ps_lexer p')" using n(3) unfolding before_def by blast
  then have "tk_Type (ps_Cur p') = TokenEOF" using NextToken_end [of l u] by auto
  then show ?thesis using n(1,2) p(1) by (simp add: parseSource_def)
qed

text \<open>\<open>(let (x -3) (str "ok"))\<close>.\<close>

definition sampleTree :: Node where
  "sampleTree =
     Node ''List'' []
       [Node ''SYMBOL'' ''let'' [] 1 2,
        Node ''List'' [] [Node ''SYMBOL'' ''x'' [] 1 7, Node ''INT'' ''-3'' [] 1 9] 1 6,
        Node ''List'' [] [Node ''SYMBOL'' ''str'' [] 1 14, Node ''STRING'' ''ok'' [] 1 18] 1 13] 1 1"

lemma sampleTree_plain: "plainTree sampleTree"
proof -
  have i: "intText ''-3''" unfolding intText_def
    by (intro exI [of _ "''-''"] exI [of _ "''3''"]) (simp add: digits_def digitByte_def ascii_def isAsciiDigit_def)
  have sy: "symbolText ''let''" "symbolText ''x''" "symbolText ''str''"
    by (simp_all add: symbolText_def startByte_def partByte_def ascii_def isAsciiLetter_def)
  have st: "stringText ''ok''" by (simp add: stringText_def plainByte_def ascii_def)
  show ?thesis unfolding sampleTree_def using i sy st by (simp add: plainAtom_def)
qed

lemma parse_Stringify_witness:
  "plainTree sampleTree \<and> (\<forall>u. \<exists>n'. parseSource u (Stringify sampleTree) = Inr n' \<and> unplaced n' = unplaced sampleTree)"
  using sampleTree_plain parse_Stringify [OF sampleTree_plain] by blast

text \<open>A NUL byte ends the program: what follows it is not read.\<close>

lemma nul_ends_source: "parseSource u (''()'' @ CHR 0x00 # ''(rest'') = Inr (Node ''List'' [] [] 1 1)"
  by code_simp

end
