(* ===== verification/Positions.thy ===== *)
theory Positions
  imports Parser
begin

text \<open>
  The positions of the lexer and the parser stay inside the source: every node of a parsed tree, and
  every error reported for a source, has a line and a column of at least one that together are at most
  two more than the length of the source in bytes.
\<close>

definition placed :: "nat \<Rightarrow> int \<Rightarrow> int \<Rightarrow> bool" where
  "placed k line col \<longleftrightarrow> 1 \<le> line \<and> 1 \<le> col \<and> line + col \<le> int k + 2"

definition goodLexer :: "nat \<Rightarrow> Lexer \<Rightarrow> bool" where
  "goodLexer k l \<longleftrightarrow>
     length (lx_input l) = k \<and> lx_pos l \<le> k \<and> placed (lx_pos l) (lx_line l) (lx_column l)"

text \<open>A result whose error is placed and whose value satisfies \<open>q\<close>.\<close>

definition ensures :: "nat \<Rightarrow> ('a \<Rightarrow> bool) \<Rightarrow> compile_error + 'a \<Rightarrow> bool" where
  "ensures k q r \<longleftrightarrow>
     (case r of
        Inl e \<Rightarrow> (\<forall>out. e = Reported out \<longrightarrow> placed k (eo_Line out) (eo_Column out))
      | Inr x \<Rightarrow> q x)"

lemma ensures_Inr [simp]: "ensures k q (Inr x) \<longleftrightarrow> q x"
  by (simp add: ensures_def)

lemma ensures_report [simp]: "ensures k q (Inl (ReportError s i j)) \<longleftrightarrow> placed k i j"
  by (simp add: ensures_def ReportError_def)

lemma ensures_fuel [simp]: "ensures k q (Inl NoFuel)"
  by (simp add: ensures_def)



lemma ensures_mono: "ensures k q r \<Longrightarrow> (\<And>x. q x \<Longrightarrow> q' x) \<Longrightarrow> ensures k q' r"
  by (auto simp: ensures_def split: sum.splits)

lemma placed_mono: "placed j a b \<Longrightarrow> j \<le> k \<Longrightarrow> placed k a b"
  by (auto simp: placed_def)

lemma goodLexer_placed: "goodLexer k l \<Longrightarrow> placed k (lx_line l) (lx_column l)"
  by (auto simp: goodLexer_def intro: placed_mono)


subsection \<open>The lexer\<close>

lemma nextChar_good: "goodLexer k l \<Longrightarrow> ensures k (\<lambda>r. goodLexer k (snd r)) (nextChar l)"
proof -
  assume g: "goodLexer k l"
  show ?thesis
  proof (cases "atEnd l")
    case False
    obtain ch size where d: "decodeRune (ahead l) = (ch, size)" by fastforce
    have "0 < size" using decodeRune_Cons_pos [of "ahead l"] False d by (simp add: ahead_def atEnd_def)
    moreover have "lx_pos l + size \<le> length (lx_input l)"
      using decodeRune_bound [of "ahead l"] d False by (simp add: ahead_def atEnd_def)
    ultimately show ?thesis
      using g False d goodLexer_placed [OF g]
      by (auto simp: nextChar_def decodeSourceRune_def goodLexer_def placed_def)
  qed (use g in \<open>simp add: nextChar_def\<close>)
qed

lemma nextChar_good_Inr: "goodLexer k l \<Longrightarrow> nextChar l = Inr r \<Longrightarrow> goodLexer k (snd r)"
  using nextChar_good [of k l] by simp






text \<open>A token at a place.\<close>

definition goodToken :: "nat \<Rightarrow> Token \<times> Lexer \<Rightarrow> bool" where
  "goodToken k r \<longleftrightarrow> placed k (tk_Line (fst r)) (tk_Column (fst r)) \<and> goodLexer k (snd r)"

lemma goodToken_mk [simp]: "goodToken k (mkToken ty v i j, l) \<longleftrightarrow> placed k i j \<and> goodLexer k l"
  by (simp add: goodToken_def mkToken_def)





subsection \<open>The parser\<close>


definition goodParser :: "nat \<Rightarrow> Parser \<Rightarrow> bool" where
  "goodParser k p \<longleftrightarrow>
     goodToken k (ps_Cur p, ps_lexer p) \<and>
     (ps_rootHead p \<noteq> [] \<longrightarrow> placed k (ps_rootCloseLine p) (ps_rootCloseC p))"

lemma goodParser_depth [simp]: "goodParser k (p\<lparr>ps_depth := d\<rparr>) \<longleftrightarrow> goodParser k p"
  by (simp add: goodParser_def)








end
