(* ===== verification/Includes.thy ===== *)
theory Includes
  imports Parser Values
begin

text \<open>
  The expansion of \<open>(use "file" as alias)\<close> and \<open>(include "file")\<close> (\<open>ExpandIncludes\<close> of
  \<open>internal/parser/parser.go\<close>). The files are a parameter, a function from a path to their bytes or the
  message of the read error; the printed deprecation warnings are the log of the result. Nodes do not
  carry their file name, so the name that the error of a nested \<open>use\<close> prints is an argument: it is the
  same for all the nodes of one file.
\<close>

subsection \<open>Results with a log\<close>

type_synonym 'a logged = "string list \<times> (compile_error + 'a)"

definition lbind :: "'a logged \<Rightarrow> ('a \<Rightarrow> 'b logged) \<Rightarrow> 'b logged" where
  "lbind m f =
     (case snd m of
        Inl e \<Rightarrow> (fst m, Inl e)
      | Inr x \<Rightarrow> (let r = f x in (fst m @ fst r, snd r)))"

definition quiet :: "compile_error + 'a \<Rightarrow> 'a logged" where
  "quiet r = ([], r)"

definition printLine :: "string \<Rightarrow> unit logged" where
  "printLine s = ([s], Inr ())"

fun ltraverse :: "('a \<Rightarrow> 'b logged) \<Rightarrow> 'a list \<Rightarrow> 'b list logged" where
  "ltraverse f [] = quiet (Inr [])"
| "ltraverse f (x # xs) = lbind (f x) (\<lambda>y. lbind (ltraverse f xs) (\<lambda>ys. quiet (Inr (y # ys))))"

lemma lbind_cong [fundef_cong]:
  "m = m' \<Longrightarrow> (\<And>x. snd m' = Inr x \<Longrightarrow> f x = g x) \<Longrightarrow> lbind m f = lbind m' g"
  by (auto simp: lbind_def split: sum.split)

lemma ltraverse_cong [fundef_cong]:
  "xs = ys \<Longrightarrow> (\<And>x. x \<in> set ys \<Longrightarrow> f x = g x) \<Longrightarrow> ltraverse f xs = ltraverse g ys"
  by (induction xs arbitrary: ys) auto

lemma quiet_simps [simp]: "snd (quiet r) = r" "fst (quiet r) = []"
  by (simp_all add: quiet_def)




subsection \<open>The forms\<close>

definition isUse :: "Node \<Rightarrow> bool" where
  "isUse n \<longleftrightarrow>
     isListNode n \<and> length (n_Children n) = 4 \<and> isSymbolNode (n_Children n ! 0) \<and> n_Value (n_Children n ! 0) = ''use'' \<and>
     isSymbolNode (n_Children n ! 2) \<and> n_Value (n_Children n ! 2) = ''as''"

definition isInclude :: "Node \<Rightarrow> bool" where
  "isInclude n \<longleftrightarrow>
     isListNode n \<and> length (n_Children n) = 2 \<and> isSymbolNode (n_Children n ! 0) \<and> n_Value (n_Children n ! 0) = ''include''"

text \<open>The file a \<open>use\<close> names and its alias.\<close>

definition useTarget :: "unicode \<Rightarrow> string \<Rightarrow> nat \<Rightarrow> Node \<Rightarrow> compile_error + (string \<times> string)" where
  "useTarget u file depth child =
     (let filenameNode = n_Children child ! 1; filename = n_Value filenameNode; aliasNode = n_Children child ! 3
      in if n_Type filenameNode \<noteq> ''STRING'' then Inl (reportAt ''use expects a string filename'' child)
         else if depth > 0 then
           Inl (reportAt (''nested module import: '' @ quote u file @ '' uses '' @ quote u filename @
             '', but only a program'' @ [CHR 0x27] @ ''s top-level file may declare (use ...); flatten the import chain so the top-level file uses '' @
             quote u filename @ '' directly (real transitive module linking is not yet supported)'') child)
         else if n_Type aliasNode \<noteq> ''SYMBOL'' then Inl (reportAt ''use expects a symbol alias'' child)
         else Inr (filename, n_Value aliasNode))"

definition includeTarget :: "Node \<Rightarrow> compile_error + string" where
  "includeTarget child =
     (let filenameNode = n_Children child ! 1
      in if n_Type filenameNode \<noteq> ''STRING'' then Inl (reportAt ''include expects a string filename'' child)
         else Inr (n_Value filenameNode))"

text \<open>Reading and parsing the file; \<open>verb\<close> is \<open>used\<close> or \<open>included\<close>.\<close>

definition loadFile ::
    "unicode \<Rightarrow> (string \<Rightarrow> string + bytes) \<Rightarrow> string \<Rightarrow> string \<Rightarrow> string \<Rightarrow> Node \<Rightarrow> compile_error + Node" where
  "loadFile u readFile fullPath verb filename child =
     (case readFile fullPath of
        Inl err \<Rightarrow> Inl (reportAt (''Failed to read '' @ verb @ '' file '' @ quote u filename @ '': '' @ err) child)
      | Inr content \<Rightarrow>
          rbind (NewParser u (NewLexer content)) (\<lambda>p.
          rbind (ParseExpression u p) (\<lambda>(root, p).
            if tk_Type (ps_Cur p) \<noteq> TokenEOF then
              Inl (ReportError (''Unexpected tokens after EOF in '' @ verb @ '' file '' @ quote u filename)
                (tk_Line (ps_Cur p)) (tk_Column (ps_Cur p)))
            else Inr root)))"

definition isModule :: "Node \<Rightarrow> bool" where
  "isModule n \<longleftrightarrow> isListNode n \<and> n_Children n \<noteq> [] \<and> n_Value (hd (n_Children n)) = ''module''"

text \<open>What an included tree contributes: the forms of a module, else itself.\<close>

definition moduleForms :: "Node \<Rightarrow> Node list" where
  "moduleForms n = (if isModule n then tl (n_Children n) else [n])"

definition moduleNode :: "Node \<Rightarrow> string \<Rightarrow> Node \<Rightarrow> Node" where
  "moduleNode child alias n =
     Node ''List'' []
       ([Node ''SYMBOL'' ''module'' [] (n_Line child) (n_Column child),
         Node ''STRING'' alias [] (n_Line child) (n_Column child)] @ moduleForms n)
       (n_Line child) (n_Column child)"

definition MaxIncludeDepth :: nat where "MaxIncludeDepth = 100"

function ExpandIncludes ::
    "unicode \<Rightarrow> (string \<Rightarrow> string + bytes) \<Rightarrow> string \<Rightarrow> string \<Rightarrow> nat \<Rightarrow> Node \<Rightarrow> Node logged" where
  "ExpandIncludes u readFile file baseDir depth node =
     (if depth > MaxIncludeDepth then quiet (Inl (reportAt ''Include depth exceeded (circular include?)'' node))
      else if \<not> isListNode node then quiet (Inr node)
      else
        lbind (ltraverse (\<lambda>child.
          if isUse child then
            lbind (quiet (useTarget u file depth child)) (\<lambda>target.
            let fullPath = joinPath baseDir (fst target) in
            lbind (quiet (loadFile u readFile fullPath ''used'' (fst target) child)) (\<lambda>tree.
            lbind (ExpandIncludes u readFile (baseName fullPath) (dirName fullPath) (Suc depth) tree) (\<lambda>tree.
              quiet (Inr [moduleNode child (snd target) tree]))))
          else if isInclude child then
            lbind (printLine ''Warning: (include) is deprecated, please migrate to (use ...)'') (\<lambda>_.
            lbind (quiet (includeTarget child)) (\<lambda>filename.
            let fullPath = joinPath baseDir filename in
            lbind (quiet (loadFile u readFile fullPath ''included'' filename child)) (\<lambda>tree.
            lbind (ExpandIncludes u readFile (baseName fullPath) (dirName fullPath) (Suc depth) tree) (\<lambda>tree.
              quiet (Inr (moduleForms tree))))))
          else
            lbind (ExpandIncludes u readFile file baseDir depth child) (\<lambda>c. quiet (Inr [c])))
          (n_Children node)) (\<lambda>cs. quiet (Inr (withChildren node (concat cs)))))"
  by pat_completeness auto
termination
  by (relation "measures [\<lambda>(u, rf, f, d, depth, n). 101 - depth, \<lambda>(u, rf, f, d, depth, n). size n]")
    (auto simp: MaxIncludeDepth_def child_smaller)

declare ExpandIncludes.simps [simp del]

text \<open>Trees without these forms are left as they are.\<close>

function includeFree :: "Node \<Rightarrow> bool" where
  "includeFree n \<longleftrightarrow>
     isListNode n \<longrightarrow> (\<forall>c \<in> set (n_Children n). \<not> isUse c \<and> \<not> isInclude c \<and> includeFree c)"
  by pat_completeness auto
termination by (relation "measure size") (auto simp: child_smaller)

declare includeFree.simps [simp del]

lemma ltraverse_quiet: "\<forall>x \<in> set xs. f x = quiet (Inr [x]) \<Longrightarrow> ltraverse f xs = quiet (Inr (map (\<lambda>x. [x]) xs))"
  by (induction xs) (auto simp: lbind_def quiet_def Let_def)

lemma lbind_quiet [simp]: "lbind (quiet (Inr x)) f = f x" "lbind (quiet (Inl e)) f = quiet (Inl e)"
  by (simp_all add: lbind_def quiet_def Let_def)

lemma concat_singletons [simp]: "concat (map (\<lambda>x. [x]) xs) = xs"
  by (induction xs) auto

lemma ExpandIncludes_id:
  "depth \<le> MaxIncludeDepth \<Longrightarrow> includeFree n \<Longrightarrow> ExpandIncludes u readFile file baseDir depth n = quiet (Inr n)"
proof (induction n rule: includeFree.induct)
  case (1 n)
  show ?case
  proof (cases "isListNode n")
    case True
    have "ltraverse (\<lambda>child. if isUse child then x child else if isInclude child then y child
            else lbind (ExpandIncludes u readFile file baseDir depth child) (\<lambda>c. quiet (Inr [c]))) (n_Children n)
          = quiet (Inr (map (\<lambda>x. [x]) (n_Children n)))" for x y
      using 1 True by (intro ltraverse_quiet) (auto simp: includeFree.simps [of n])
    then show ?thesis using 1(2) True by (subst ExpandIncludes.simps) simp
  qed (use 1 in \<open>subst ExpandIncludes.simps; simp\<close>)
qed







end
