(* ===== verification/Desugar.thy ===== *)
theory Desugar
  imports Scoping
begin

text \<open>
  Desugaring (\<open>desugar.go\<close>, \<open>desugar_compact.go\<close>, \<open>desugar_corelib.go\<close>, \<open>desugar_controlflow.go\<close> and
  \<open>desugar_records.go\<close> of \<open>internal/ast\<close>): sugar is expanded into the constructs of the compiler. The pass
  changes the tree in place; here it gives the new tree. The nodes that an expansion places twice are
  symbols, of which no pass changes one occurrence only; the one exception is the handle of \<open>sinc\<close>, which
  the source shares and which is two copies here. A counter makes temporary names; the note on which
  nodes a numeric template made, which only the checker reads, is left out.
\<close>

subsection \<open>Nodes and temporaries\<close>

type_synonym 'a D = "nat \<Rightarrow> compile_error + ('a \<times> nat)"

definition retD :: "'a \<Rightarrow> 'a D" where
  "retD x = (\<lambda>n. Inr (x, n))"

definition failD :: "compile_error \<Rightarrow> 'a D" where
  "failD e = (\<lambda>n. Inl e)"

definition bindD :: "'a D \<Rightarrow> ('a \<Rightarrow> 'b D) \<Rightarrow> 'b D" where
  "bindD m f = (\<lambda>n. rbind (m n) (\<lambda>(x, n'). f x n'))"

definition liftD :: "compile_error + 'a \<Rightarrow> 'a D" where
  "liftD r = (\<lambda>n. rbind r (\<lambda>x. Inr (x, n)))"

fun mapD :: "('a \<Rightarrow> 'b D) \<Rightarrow> 'a list \<Rightarrow> 'b list D" where
  "mapD f [] = retD []"
| "mapD f (x # xs) = bindD (f x) (\<lambda>y. bindD (mapD f xs) (\<lambda>ys. retD (y # ys)))"

definition compactTemp :: "string \<Rightarrow> string D" where
  "compactTemp prefix = (\<lambda>n. Inr (''__'' @ prefix @ itoa (int (Suc n)), Suc n))"

text \<open>New nodes take the position of a node.\<close>

definition leaf :: "string \<Rightarrow> string \<Rightarrow> Node \<Rightarrow> Node" where
  "leaf ty v pos = Node ty v [] (n_Line pos) (n_Column pos)"

definition symNode :: "string \<Rightarrow> Node \<Rightarrow> Node" where
  "symNode v pos = leaf ''SYMBOL'' v pos"

definition strNode :: "string \<Rightarrow> Node \<Rightarrow> Node" where
  "strNode v pos = leaf ''STRING'' v pos"

definition intLit :: "string \<Rightarrow> Node \<Rightarrow> Node" where
  "intLit v pos = leaf ''INT'' v pos"

definition rnList :: "Node \<Rightarrow> Node list \<Rightarrow> Node" where
  "rnList pos kids = Node ''List'' [] kids (n_Line pos) (n_Column pos)"

text \<open>A construct at the position of a node.\<close>

definition con :: "Node \<Rightarrow> string \<Rightarrow> Node list \<Rightarrow> Node" where
  "con pos h args = rnList pos (symNode h pos # args)"

definition rnLet :: "Node \<Rightarrow> Node \<Rightarrow> Node list \<Rightarrow> Node" where
  "rnLet pos body pairs = con pos ''let'' [rnList pos pairs, body]"

text \<open>\<open>node.Children = other.Children\<close>, and a report at the node.\<close>

definition become :: "Node \<Rightarrow> Node \<Rightarrow> Node" where
  "become n m = withChildren n (n_Children m)"

definition reportD :: "string \<Rightarrow> Node \<Rightarrow> 'a D" where
  "reportD reason n = failD (reportAt reason n)"

definition symbolHead :: "Node \<Rightarrow> string \<Rightarrow> bool" where
  "symbolHead n h \<longleftrightarrow> isListNode n \<and> n_Children n \<noteq> [] \<and> isSymbolNode (hd (n_Children n)) \<and> n_Value (hd (n_Children n)) = h"

subsection \<open>Templates\<close>

text \<open>A token of a template after its placeholders are replaced.\<close>

datatype item = Open | Close | Item Node

fun spacedParens :: "string \<Rightarrow> string" where
  "spacedParens [] = []"
| "spacedParens (c # cs) = (if c = CHR ''('' \<or> c = CHR '')'' then [CHR '' '', c, CHR '' ''] else [c]) @ spacedParens cs"

definition templateTokens :: "string \<Rightarrow> string list" where
  "templateTokens src = GoText.fields (spacedParens src)"

text \<open>The second use of a placeholder is a copy of the symbol it stands for, at the position of the
  form.\<close>

definition trimQuotes :: "string \<Rightarrow> string" where
  "trimQuotes t = rev (dropWhile (\<lambda>c. c = CHR 0x22) (rev (dropWhile (\<lambda>c. c = CHR 0x22) t)))"

definition constantItem :: "Node \<Rightarrow> string \<Rightarrow> item" where
  "constantItem pos t =
     (if t = ''('' then Open
      else if t = '')'' then Close
      else if hasPrefix t [CHR 0x22] then Item (strNode (trimQuotes t) pos)
      else if t \<noteq> [] \<and> CHR ''0'' \<le> hd t \<and> hd t \<le> CHR ''9'' then Item (intLit t pos)
      else Item (symNode t pos))"

fun resolveTokens :: "Node strmap \<Rightarrow> Node strmap \<Rightarrow> Node \<Rightarrow> string list \<Rightarrow> string list \<Rightarrow> compile_error + item list" where
  "resolveTokens consts args pos used [] = Inr []"
| "resolveTokens consts args pos used (t # ts) =
     (if hasPrefix t ''$'' then
        (let k = drop 1 t in
         case lookup consts k of
           Some c \<Rightarrow> rbind (resolveTokens consts args pos used ts) (\<lambda>items. Inr (Item c # items))
         | None \<Rightarrow>
            (case lookup args k of
               None \<Rightarrow> Inl GoPanic
             | Some a \<Rightarrow>
                if k \<in> set used then
                  (if isSymbolNode a then
                     rbind (resolveTokens consts args pos used ts) (\<lambda>items. Inr (Item (symNode (n_Value a) pos) # items))
                   else Inl GoPanic)
                else rbind (resolveTokens consts args pos (k # used) ts) (\<lambda>items. Inr (Item a # items))))
      else rbind (resolveTokens consts args pos used ts) (\<lambda>items. Inr (constantItem pos t # items)))"

text \<open>One form of the template: a list is its first form put in front of the list of the rest.\<close>

fun parseTemplate :: "nat \<Rightarrow> Node \<Rightarrow> item list \<Rightarrow> compile_error + (Node \<times> item list)" where
  "parseTemplate 0 pos items = Inl NoFuel"
| "parseTemplate (Suc k) pos items =
     (case items of
        [] \<Rightarrow> Inl GoPanic
      | Item n # rest \<Rightarrow> Inr (n, rest)
      | Close # rest \<Rightarrow> Inr (symNode '')'' pos, rest)
      | Open # Close # rest \<Rightarrow> Inr (rnList pos [], rest)
      | Open # rest \<Rightarrow>
          rbind (parseTemplate k pos rest) (\<lambda>(n, rest1).
          rbind (parseTemplate k pos (Open # rest1)) (\<lambda>(l, rest2).
          Inr (withChildren l (n # n_Children l), rest2))))"

definition buildTemplate :: "Node strmap \<Rightarrow> Node strmap \<Rightarrow> string \<Rightarrow> Node \<Rightarrow> compile_error + Node" where
  "buildTemplate consts args src pos =
     rbind (resolveTokens consts args pos [] (templateTokens src)) (\<lambda>items.
     rbind (parseTemplate (Suc (length items)) pos items) (\<lambda>(n, _). Inr n))"

text \<open>One temporary for each name, in order.\<close>

definition temporaries :: "string \<Rightarrow> string list \<Rightarrow> Node \<Rightarrow> Node strmap D" where
  "temporaries prefix names pos =
     mapD (\<lambda>v. bindD (compactTemp (prefix @ v)) (\<lambda>t. retD (v, symNode t pos))) names"

subsection \<open>Plain expansions\<close>

text \<open>A construct with exactly \<open>k\<close> arguments, else the report.\<close>

definition exactly :: "nat \<Rightarrow> string \<Rightarrow> Node \<Rightarrow> (Node list \<Rightarrow> Node D) \<Rightarrow> Node D" where
  "exactly k reason n f =
     (if length (n_Children n) = Suc k then f (tl (n_Children n)) else reportD reason n)"

definition declaresVoid :: "Node \<Rightarrow> bool" where
  "declaresVoid pair \<longleftrightarrow> n_Value (n_Children pair ! 0) = ''return'' \<and> n_Value (n_Children pair ! 1) = ''void''"

definition defunDeclaresVoidReturn :: "Node \<Rightarrow> bool" where
  "defunDeclaresVoidReturn n \<longleftrightarrow> isListNode n \<and> n_Children n \<noteq> [] \<and>
     (let head = n_Value (hd (n_Children n)) in
      if head = ''type_hint'' then
        length (n_Children n) \<ge> 3 \<and> n_Value (n_Children n ! 1) = ''return'' \<and> n_Value (n_Children n ! 2) = ''void''
      else if head = ''type_hints'' then
        list_ex (\<lambda>p. isListNode p \<and> length (n_Children p) \<ge> 2 \<and> declaresVoid p) (tl (n_Children n))
      else False)"

definition isAnnotationForm :: "Node \<Rightarrow> bool" where
  "isAnnotationForm n \<longleftrightarrow> isListNode n \<and> n_Children n \<noteq> [] \<and>
     n_Value (hd (n_Children n)) \<in> set [''type_hint'', ''type_hints'', ''type_param'']"

definition isReturnForm :: "Node \<Rightarrow> bool" where
  "isReturnForm n \<longleftrightarrow> headed n ''return''"

definition exprBodyHeads :: "string list" where
  "exprBodyHeads =
     [''+'', ''-'', ''*'', ''/'', ''<'', ''>'', ''<='', ''>='', ''=='', ''!='', ''='', ''and'', ''or'',
      ''call'', ''list'', ''dict'', ''map_get'', ''list_get'', ''list_len'', ''map_keys'',
      ''to_int'', ''to_float'', ''to_string'', ''bytes_to_string'', ''to_lower'', ''to_upper'', ''str_trim'',
      ''env'', ''read_file'', ''read_line'', ''read_stdin'', ''read_text'', ''cli_args'',
      ''lines'', ''str_split'', ''str_join'', ''str'', ''str_contains'', ''str_replace'', ''starts_with'', ''ends_with'',
      ''http_body'', ''http_status'', ''list_contains'', ''not'', ''blank'', ''unix_now'', ''regex_match'', ''sha256_hex'',
      ''rand_hex'', ''secure_equal'', ''parse_json'', ''encode_json'', ''is_nil'', ''nz'', ''map_has'',
      ''html_escape'', ''attr_escape'', ''time_now'', ''req_header'', ''req_id'', ''req_body'', ''req_url_path'',
      ''utf8_valid'', ''granted'', ''port_available'', ''req_method'', ''req_path'', ''req_query'', ''http_request'', ''fetch'']"

definition isExprBodyForm :: "Node \<Rightarrow> bool" where
  "isExprBodyForm n \<longleftrightarrow>
     (if n_Type n \<in> set [''SYMBOL'', ''STRING'', ''INT'', ''FLOAT'', ''NUMBER''] then True
      else isListNode n \<and> n_Children n \<noteq> [] \<and> isSymbolNode (hd (n_Children n)) \<and>
        n_Value (hd (n_Children n)) \<in> set exprBodyHeads)"

text \<open>The last value form of a function body becomes its return value.\<close>

definition wrapReturn :: "Node \<Rightarrow> Node" where
  "wrapReturn x = con x ''return'' [x]"

definition desugarDefunExprBody :: "Node \<Rightarrow> Node" where
  "desugarDefunExprBody n =
     (let cs = n_Children n;
          typed = length cs > 4 \<and> isSymbolNode (cs ! 3);
          start = (if typed then 4 else 3) in
      if length cs < 4 \<or> (typed \<and> n_Value (cs ! 3) = ''void'') \<or> list_ex defunDeclaresVoidReturn (drop start cs)
         \<or> isAnnotationForm (last cs) \<or> isReturnForm (last cs) \<or> \<not> isExprBodyForm (last cs)
      then n else withChildren n (butlast cs @ [wrapReturn (last cs)]))"

definition desugarLines :: "Node \<Rightarrow> Node D" where
  "desugarLines n = exactly 1 ''lines expects (lines expr)'' n (\<lambda>as.
     retD (become n (con n ''str_split'' [con n ''bytes_to_string'' as, strNode [CHR 0x0A] n])))"

definition desugarReadText :: "Node \<Rightarrow> Node D" where
  "desugarReadText n = exactly 1 ''read_text expects (read_text path)'' n (\<lambda>as.
     retD (become n (con n ''bytes_to_string'' [con n ''read_file'' as])))"

text \<open>The bindings of a \<open>let\<close> one inside the other, the first outermost.\<close>

fun nestLets :: "Node \<Rightarrow> Node \<Rightarrow> Node list \<Rightarrow> Node \<Rightarrow> Node" where
  "nestLets n b (x # v # y # w # rest) body = con n ''let'' [rnList b [x, v], nestLets n b (y # w # rest) body]"
| "nestLets n b pairs body = con n ''let'' [rnList b pairs, body]"

definition desugarMultiLet :: "Node \<Rightarrow> Node" where
  "desugarMultiLet n =
     (if length (n_Children n) < 3 then n
      else let b = n_Children n ! 1; k = length (n_Children b) in
        if \<not> isListNode b \<or> k \<le> 2 \<or> odd k then n
        else become n (nestLets n b (n_Children b) (n_Children n ! 2)))"

definition wrapBodyForms :: "Node list \<Rightarrow> Node \<Rightarrow> Node" where
  "wrapBodyForms forms pos = (if length forms = 1 then hd forms else con pos ''do'' forms)"

text \<open>The clauses are expanded from the last one backwards; \<open>acc\<close> is the rest of the chain.\<close>

fun condClauses :: "Node \<Rightarrow> Node list \<Rightarrow> bool \<Rightarrow> Node option \<Rightarrow> Node option D" where
  "condClauses n [] final acc = retD acc"
| "condClauses n (clause # earlier) final acc =
     (if \<not> isListNode clause \<or> length (n_Children clause) < 2 then
        reportD ''cond clause expects (test body...) or (else body...)'' n
      else
        let body = wrapBodyForms (tl (n_Children clause)) clause; test = hd (n_Children clause) in
        if isSymbolNode test \<and> n_Value test = ''else'' then
          (if final then condClauses n earlier False (Some body)
           else reportD ''cond else clause must be last'' test)
        else
          condClauses n earlier False
            (Some (con n ''if'' [test, body, (case acc of None \<Rightarrow> con n ''do'' [] | Some a \<Rightarrow> a)])))"

definition desugarCond :: "Node \<Rightarrow> Node D" where
  "desugarCond n =
     (if length (n_Children n) < 2 then reportD ''cond expects at least one clause'' n
      else bindD (condClauses n (rev (tl (n_Children n))) True None) (\<lambda>acc.
        retD (case acc of None \<Rightarrow> n | Some a \<Rightarrow> become n a)))"

definition desugarSGet :: "Node \<Rightarrow> Node D" where
  "desugarSGet n = exactly 2 ''sget expects (sget handle key)'' n (\<lambda>as.
     let tmp = symNode ''__sget'' n in
     retD (become n (rnLet n
       (con n ''if'' [con n ''is_nil'' [tmp], tmp, con n ''map_get'' [tmp, strNode ''val'' n]])
       [tmp, con n ''store_get'' as])))"

definition desugarSPut :: "Node \<Rightarrow> Node D" where
  "desugarSPut n = exactly 3 ''sput expects (sput handle key val)'' n (\<lambda>as.
     retD (become n (con n ''store_put'' [as ! 0, as ! 1, con n ''dict'' [rnList n [strNode ''val'' n, as ! 2]]])))"

definition desugarSInc :: "Node \<Rightarrow> Node D" where
  "desugarSInc n = exactly 2 ''sinc expects (sinc handle key)'' n (\<lambda>as.
     let handle = as ! 0; key = as ! 1; k = symNode ''__k'' n; v = symNode ''__v'' n; m = symNode ''__n'' n in
     retD (become n (rnLet n
       (con n ''do'' [con n ''sput'' [handle, k, con n ''to_string'' [m]], con n ''print'' [m]])
       [k, key, v, con n ''sget'' [handle, k],
        m, con n ''+'' [con n ''if'' [con n ''is_nil'' [v], intLit ''0'' n, con n ''to_int'' [v]], intLit ''1'' n]])))"

definition switchClause :: "Node \<Rightarrow> Node \<Rightarrow> Node \<Rightarrow> Node D" where
  "switchClause n tmp clause =
     (if \<not> isListNode clause \<or> length (n_Children clause) < 2 then
        reportD ''switch clause expects (pat body...) or (else body...)'' n
      else
        let pat = hd (n_Children clause); body = tl (n_Children clause) in
        if isSymbolNode pat \<and> n_Value pat \<in> set [''else'', ''default'', ''_''] then
          retD (rnList clause (symNode ''else'' pat # body))
        else retD (rnList clause (con clause ''='' [tmp, pat] # body)))"

definition desugarSwitch :: "Node \<Rightarrow> Node D" where
  "desugarSwitch n =
     (if length (n_Children n) < 3 then reportD ''switch expects (switch expr clause...)'' n
      else
        let tmp = symNode ''__sw'' n in
        bindD (mapD (switchClause n tmp) (drop 2 (n_Children n))) (\<lambda>clauses.
        retD (become n (rnLet n (con n ''cond'' clauses) [tmp, n_Children n ! 1]))))"

definition desugarStep :: "string \<Rightarrow> string \<Rightarrow> Node \<Rightarrow> Node D" where
  "desugarStep op reason n =
     (if length (n_Children n) \<noteq> 2 \<or> \<not> isSymbolNode (n_Children n ! 1) then reportD reason n
      else let sym = n_Children n ! 1 in
        retD (become n (con n ''set'' [sym, con n op [symNode (n_Value sym) sym, intLit ''1'' n]])))"

definition desugarInc :: "Node \<Rightarrow> Node D" where
  "desugarInc n = desugarStep ''+'' ''inc expects (inc symbol)'' n"

definition desugarDec :: "Node \<Rightarrow> Node D" where
  "desugarDec n = desugarStep ''-'' ''dec expects (dec symbol)'' n"

definition desugarHTTPBody :: "Node \<Rightarrow> Node D" where
  "desugarHTTPBody n = exactly 1 ''http_body expects (http_body response)'' n (\<lambda>as.
     retD (become n (con n ''bytes_to_string'' [con n ''map_get'' [as ! 0, strNode ''body'' n]])))"

definition desugarHTTPStatus :: "Node \<Rightarrow> Node D" where
  "desugarHTTPStatus n = exactly 1 ''http_status expects (http_status response)'' n (\<lambda>as.
     retD (become n (con n ''map_get'' [as ! 0, strNode ''status'' n])))"

definition desugarHTTPRes :: "Node \<Rightarrow> Node D" where
  "desugarHTTPRes n = exactly 1 ''http_res expects (http_res response)'' n (\<lambda>as.
     let r = symNode ''__r'' n in
     retD (become n (rnLet n
       (con n ''res'' [con n ''http_status'' [r], strNode ''application/json'' n, con n ''http_body'' [r]])
       [r, as ! 0])))"

definition desugarNot :: "Node \<Rightarrow> Node D" where
  "desugarNot n = exactly 1 ''not expects (not expr)'' n (\<lambda>as.
     retD (become n (con n ''if''
       [as ! 0, con n ''='' [intLit ''0'' n, intLit ''1'' n], con n ''='' [intLit ''1'' n, intLit ''1'' n]])))"

definition desugarBlank :: "Node \<Rightarrow> Node D" where
  "desugarBlank n = exactly 1 ''blank expects (blank expr)'' n (\<lambda>as.
     retD (become n (con n ''='' [as ! 0, strNode [] n])))"

definition desugarUnixNow :: "Node \<Rightarrow> Node D" where
  "desugarUnixNow n = exactly 0 ''unix_now expects (unix_now)'' n (\<lambda>as.
     retD (become n (con n ''to_string'' [con n ''time_now'' []])))"

text \<open>The scan that \<open>list_contains\<close> and \<open>map_has\<close> share: a flag that a loop sets.\<close>

definition scanFor :: "Node \<Rightarrow> Node \<Rightarrow> Node \<Rightarrow> Node \<Rightarrow> Node \<Rightarrow> Node" where
  "scanFor n h i xs x =
     con n ''do'' [con n ''for'' [i, xs, con n ''if'' [con n ''='' [i, x], con n ''set'' [h, intLit ''1'' n]]],
       con n ''='' [h, intLit ''1'' n]]"

definition desugarListContains :: "Node \<Rightarrow> Node D" where
  "desugarListContains n = exactly 2 ''list_contains expects (list_contains list value)'' n (\<lambda>as.
     let lst = symNode ''__lst'' n; x = symNode ''__x'' n; h = symNode ''__h'' n; i = symNode ''__i'' n in
     retD (become n (rnLet n (scanFor n h i lst x) [lst, as ! 0, x, as ! 1, h, intLit ''0'' n])))"

definition desugarMapHas :: "Node \<Rightarrow> Node D" where
  "desugarMapHas n = exactly 2 ''map_has expects (map_has dict key)'' n (\<lambda>as.
     let d = symNode ''__d'' n; k = symNode ''__k'' n; h = symNode ''__h'' n; x = symNode ''__x'' n in
     retD (become n (rnLet n (scanFor n h x (con n ''map_keys'' [d]) k) [d, as ! 0, k, as ! 1, h, intLit ''0'' n])))"

definition desugarStr :: "Node \<Rightarrow> Node D" where
  "desugarStr n =
     (if length (n_Children n) < 2 then reportD ''str expects (str part...)'' n
      else retD (become n (con n ''str_join''
        [con n ''list'' (map (\<lambda>p. con n ''to_string'' [p]) (tl (n_Children n))), strNode [] n])))"

definition desugarNz :: "Node \<Rightarrow> Node D" where
  "desugarNz n = exactly 2 ''nz expects (nz value default)'' n (\<lambda>as.
     let tmp = symNode ''__nz'' n in
     retD (become n (rnLet n (con n ''if'' [con n ''is_nil'' [tmp], as ! 1, tmp]) [tmp, as ! 0])))"

definition desugarStrContains :: "Node \<Rightarrow> Node D" where
  "desugarStrContains n = exactly 2 ''str_contains expects (str_contains hay needle)'' n (\<lambda>as.
     retD (become n (con n ''>'' [con n ''list_len'' [con n ''str_split'' as], intLit ''1'' n])))"

definition desugarStrReplace :: "Node \<Rightarrow> Node D" where
  "desugarStrReplace n = exactly 3 ''str_replace expects (str_replace s old new)'' n (\<lambda>as.
     retD (become n (con n ''str_join'' [con n ''str_split'' [as ! 0, as ! 1], as ! 2])))"

definition desugarStartsEndsWith :: "Node \<Rightarrow> Node D" where
  "desugarStartsEndsWith n =
     (let head = n_Value (hd (n_Children n)) in
      exactly 2 (head @ '' expects ('' @ head @ '' s prefix)'') n (\<lambda>as.
        let s = symNode ''__s'' n; p = symNode ''__p'' n; parts = symNode ''__parts'' n;
            emptyP = con n ''='' [p, strNode [] n];
            sentinel = strNode [CHR 0x1E] n;
            bindings = [s, as ! 0, p, as ! 1] in
        retD (become n
          (if head = ''starts_with'' then
             rnLet n
               (con n ''or'' [emptyP, con n ''and'' [con n ''!='' [s, strNode [] n],
                  con n ''='' [con n ''list_get'' [parts, intLit ''0'' n], strNode [] n]]])
               (bindings @ [parts, con n ''str_split'' [s, p]])
           else
             rnLet n (con n ''or'' [emptyP, con n ''str_contains'' [con n ''str'' [s, sentinel], con n ''str'' [p, sentinel]]])
               bindings))))"

text \<open>\<open>(or a b c)\<close> is \<open>(or a (or b c))\<close>.\<close>

fun nestLogic :: "Node \<Rightarrow> Node \<Rightarrow> Node list \<Rightarrow> Node" where
  "nestLogic n h [] = rnList n []"
| "nestLogic n h [x] = x"
| "nestLogic n h (x # y # rest) = rnList n [symNode (n_Value h) h, x, nestLogic n h (y # rest)]"

definition desugarNaryLogic :: "Node \<Rightarrow> Node" where
  "desugarNaryLogic n =
     (if length (n_Children n) < 4 then n else become n (nestLogic n (hd (n_Children n)) (tl (n_Children n))))"

definition desugarWhenUnless :: "Node \<Rightarrow> Node D" where
  "desugarWhenUnless n =
     (let head = n_Value (hd (n_Children n)) in
      if length (n_Children n) < 3 then reportD (head @ '' expects ( '' @ head @ '' test body...)'') n
      else
        let body = wrapBodyForms (drop 2 (n_Children n)) n; none = con n ''do'' [] in
        retD (become n (con n ''if'' (n_Children n ! 1 # (if head = ''unless'' then [none, body] else [body, none])))))"

definition desugarAssert :: "Node \<Rightarrow> Node D" where
  "desugarAssert n = exactly 1 ''assert expects (assert expr)'' n (\<lambda>as.
     retD (become n (con n ''if'' [as ! 0, con n ''do'' [],
       con n ''do'' [con n ''stderr'' [strNode (''assertion failed'' @ [CHR 0x0A]) n], con n ''exit'' [intLit ''1'' n]]])))"

subsection \<open>Conditionals on versions, all and any, operands\<close>

definition versionTemplate :: "string \<Rightarrow> string" where
  \<open>versionTemplate order =
    (''(let ($A (str_split $a ".") $B (str_split $b ".")'' @
     '' $a0 (to_int (list_get $A 0)) $a1 (to_int (list_get $A 1)) $a2 (to_int (list_get $A 2))'' @
     '' $b0 (to_int (list_get $B 0)) $b1 (to_int (list_get $B 1)) $b2 (to_int (list_get $B 2)))'' @
     '' (or (> $a0 $b0) (and (= $a0 $b0) (or (> $a1 $b1) (and (= $a1 $b1) ('' @ order @ '' $a2 $b2))))))'')\<close>

definition expandWith :: "Node strmap \<Rightarrow> Node strmap \<Rightarrow> string \<Rightarrow> Node \<Rightarrow> Node D" where
  "expandWith consts args src n = bindD (liftD (buildTemplate consts args src n)) (\<lambda>t. retD (become n t))"

definition desugarVersionCompare :: "bool \<Rightarrow> Node \<Rightarrow> Node D" where
  "desugarVersionCompare orEqual n =
     (let head = n_Value (hd (n_Children n)) in
      exactly 2 (head @ '' expects ('' @ head @ '' a b) over x.y.z strings'') n (\<lambda>as.
        bindD (temporaries ''v'' [''A'', ''B'', ''a0'', ''a1'', ''a2'', ''b0'', ''b1'', ''b2''] n) (\<lambda>temps.
        expandWith [] ([(''a'', as ! 0), (''b'', as ! 1)] @ temps) (versionTemplate (if orEqual then ''>='' else ''>'')) n)))"

definition allTemplate :: string where
  "allTemplate = ''(let ($L $lst $F 1) (do (for $x $L (when (not $pred) (set $F 0))) (= $F 1)))''"

definition anyTemplate :: string where
  "anyTemplate = ''(let ($L $lst $F 0) (do (for $x $L (when $pred (set $F 1))) (= $F 1)))''"

definition desugarAllAny :: "bool \<Rightarrow> Node \<Rightarrow> Node D" where
  "desugarAllAny isAll n =
     (let head = n_Value (hd (n_Children n)); cs = n_Children n in
      if length cs \<noteq> 4 \<or> \<not> isSymbolNode (cs ! 1) then reportD (head @ '' expects ('' @ head @ '' var list predicate)'') n
      else
        bindD (compactTemp ''ql'') (\<lambda>l. bindD (compactTemp ''qf'') (\<lambda>f.
        expandWith [] [(''x'', cs ! 1), (''lst'', cs ! 2), (''pred'', cs ! 3), (''L'', symNode l n), (''F'', symNode f n)]
          (if isAll then allTemplate else anyTemplate) n)))"

text \<open>The result is \<open>None\<close> where the source returns false: the form stays as it is.\<close>

definition desugarBindOperand :: "nat \<Rightarrow> string \<Rightarrow> Node \<Rightarrow> Node option D" where
  "desugarBindOperand idx prefix n =
     (if length (n_Children n) \<le> idx \<or> \<not> isListNode (n_Children n ! idx) then retD None
      else bindD (compactTemp prefix) (\<lambda>tmp.
        retD (Some (become n (rnLet n (rnList n ((n_Children n)[idx := symNode tmp n])) [symNode tmp n, n_Children n ! idx])))))"

definition isListLiteral :: "Node \<Rightarrow> nat \<Rightarrow> bool" where
  "isListLiteral n idx \<longleftrightarrow> idx < length (n_Children n) \<and> symbolHead (n_Children n ! idx) ''list''"

subsection \<open>The core library and the control-flow forms\<close>

definition cfFloaty :: "string \<Rightarrow> string" where
  \<open>cfFloaty x =
    (''(if (and (< '' @
     x @
     '' $LIM) (> '' @
     x @
     '' $NLIM)) (str_contains (str (+ '' @
     x @
     '' $P62)) $EXP) (or (str_contains (str '' @
     x @
     '') $EXP) (str_contains (str '' @
     x @
     '') $INF) (str_contains (str '' @
     x @
     '') $NAN)))'')\<close>

definition cfIsFloatX :: "string" where
  \<open>cfIsFloatX =
    (''(or '' @
     cfFloaty (''$A'') @
     '' '' @
     cfFloaty (''$B'') @
     '')'')\<close>

definition cfSmall :: "string" where
  \<open>cfSmall =
    (''(and (< $A $LIM) (> $A $NLIM) (< $B $LIM) (> $B $NLIM) (= $A (to_int $A)) (= $B (to_int $B)))'')\<close>

definition cfCheapMod :: "string" where
  \<open>cfCheapMod =
    (''(let ($R (- $A (* $B (to_int (/ $A $B))))) (if (and (!= $R 0) (!= (< $R 0) (< $B 0))) (+ $R $B) (if (= '' @
     ''$R 0) (if (< $B 0) (* (- 0 1) (* $R $R)) (* $R $R)) $R)))'')\<close>

definition cfFloatCore :: "string \<Rightarrow> string" where
  \<open>cfFloatCore extra =
    (''(let ($S (if (= $B 0) (/ $A $B) (/ 0 1)) $ZF (+ (* 0 $A) (* 0 $B))) (let ($N (+ $A $ZF) $DN (+ $B $ZF)) '' @
     ''(let ($R (if (< $N 0) (- 0 $N) $N) $AD (if (< $DN 0) (- 0 $DN) $DN) $P (list) $Q $ZF $I 0) (do '' @
     ''(when (or (str_contains (str $A) $INFS) (str_contains (str $A) $NANS) (str_contains (str $B) $INFS) '' @
     ''(str_contains (str $B) $NANS)) (do (stderr $FMSG) (exit 1))) '' @
     extra @
     '' (set $Q $AD) (when (<= $Q $R) (do (append $P $Q) (while (<= $Q (- $R $Q)) (do (set $Q (* $Q 2)) '' @
     ''(append $P $Q))))) (set $I (- (list_len $P) 1)) (while (>= $I 0) (do (when (>= $R (list_get $P $I)) '' @
     ''(set $R (- $R (list_get $P $I)))) (set $I (- $I 1)))) (when (< $N 0) (set $R (- 0 $R))) '')\<close>

definition cfFloatMod :: "string" where
  \<open>cfFloatMod =
    (cfFloatCore ('''') @
     ''(if (= $R 0) (if (< $DN 0) (* (- 0 1) (* $R $R)) (* $R $R)) (if (!= (< $R 0) (< $DN 0)) (+ $R $DN) '' @
     ''$R))))))'')\<close>

definition cfFloatDiv :: "string" where
  \<open>cfFloatDiv =
    (cfFloatCore (''(when (> (/ $R $TWO63) $AD) (do (stderr $RMSG) (exit 1)))'') @
     ''(let ($T (/ (- $N $R) $DN)) (do (when (and (!= $R 0) (!= (< $DN 0) (< $R 0))) (set $T (- $T 1))) (when '' @
     ''(or (>= $T $TWO63) (< $T $NTWO63)) (do (stderr $RMSG) (exit 1))) (let ($I (to_int $T)) (do (when (> $I '' @
     ''$T) (set $I (- $I 1))) (when (> (- $T $I) $HALF) (set $I (+ $I 1))) $I))))))))'')\<close>

definition cfIntCore :: "string" where
  \<open>cfIntCore =
    (''(let ($N (if (< $A 0) $A (- 0 $A)) $DN (if (< $B 0) $B (- 0 $B)) $Q (- (to_int (/ $N $DN)) 2048)) (do '' @
     ''(when (< $Q 0) (set $Q 0)) (let ($R (- $N (* $DN $Q)) $T (- (to_int (/ $R $DN)) 1)) (do (when (< $T 0) '' @
     ''(set $T 0)) (set $R (- $R (* $DN $T))) (set $Q (+ $Q $T)) (while (<= $R $DN) (do (set $R (- $R $DN)) '' @
     ''(set $Q (+ $Q 1))))'')\<close>

definition cfW :: "string \<Rightarrow> string" where
  \<open>cfW x =
    (''(+ (+ '' @
     x @
     '' (* 0 $A)) (* 0 $B))'')\<close>

record templateSpec =
  t_arity :: nat
  t_vars :: "string list"
  t_temps :: "string list"
  t_tpl :: string
  t_binder :: "nat option"

definition tpl_list_slice :: string where
  \<open>tpl_list_slice =
    (''(let ($L $lst $A $a $B $b $R (list) $I 0) (do (when (< $A 0) (set $A (+ $A (list_len $L)))) (when (< $B '' @
     ''0) (set $B (+ $B (list_len $L)))) (for $X $L (do (when (and (>= $I $A) (< $I $B)) (append $R $X)) (set '' @
     ''$I (+ $I 1)))) $R))'')\<close>

definition tpl_str_slice :: string where
  \<open>tpl_str_slice =
    (''(str_join (list_slice (str_split $s "") $a $b) "")'')\<close>

definition tpl_str_len :: string where
  \<open>tpl_str_len =
    (''(list_len (str_split $s ""))'')\<close>

definition tpl_index_of :: string where
  \<open>tpl_index_of =
    (''(let ($L $lst $V $v $R (- 0 1) $I 0) (do (for $X $L (do (when (and (= $R (- 0 1)) (= $X $V)) (set $R '' @
     ''$I)) (set $I (+ $I 1)))) $R))'')\<close>

definition tpl_map_list :: string where
  \<open>tpl_map_list =
    (''(let ($L $lst $R (list)) (do (for $x $L (append $R $expr)) $R))'')\<close>

definition tpl_filter :: string where
  \<open>tpl_filter =
    (''(let ($L $lst $R (list)) (do (for $x $L (when $pred (append $R $x))) $R))'')\<close>

definition tpl_reduce :: string where
  \<open>tpl_reduce =
    (''(let ($acc $init $L $lst) (do (for $x $L (set $acc $expr)) $acc))'')\<close>

definition tpl_sum :: string where
  \<open>tpl_sum =
    (''(let ($L $lst $S (map_get (dict) "")) (do (for $X $L (set $S (if (is_nil $S) $X (+ $S $X)))) (nz $S 0)))'')\<close>

definition tpl_min :: string where
  \<open>tpl_min =
    (''(let ($L $lst $M (list_get $L 0)) (do (when (= (list_len $L) 0) (do (stderr $msg) (exit 1))) (for $X $L '' @
     ''(when (< $X $M) (set $M $X))) $M))'')\<close>

definition tpl_max :: string where
  \<open>tpl_max =
    (''(let ($L $lst $M (list_get $L 0)) (do (when (= (list_len $L) 0) (do (stderr $msg) (exit 1))) (for $X $L '' @
     ''(when (> $X $M) (set $M $X))) $M))'')\<close>

definition tpl_reverse :: string where
  \<open>tpl_reverse =
    (''(let ($L $lst $R (list) $N (list_len $L)) (do (while (> $N 0) (do (set $N (- $N 1)) (append $R '' @
     ''(list_get $L $N)))) $R))'')\<close>

definition tpl_count_by :: string where
  \<open>tpl_count_by =
    (''(let ($L $lst $D (dict)) (do (for $x $L (let ($K $key) (map_set $D $K (+ (nz (map_get $D $K) 0) 1)))) '' @
     ''$D))'')\<close>

definition tpl_sort :: string where
  \<open>tpl_sort =
    (''(let ($L $lst $R (list)) (do (for $X $L (let ($N (list) $F 0) (do (for $Y $R (do (when (and (= $F 0) (< '' @
     ''$X $Y)) (do (append $N $X) (set $F 1))) (append $N $Y))) (when (= $F 0) (append $N $X)) (set $R $N)))) '' @
     ''$R))'')\<close>

definition corelibTemplates :: "templateSpec strmap" where
  "corelibTemplates =
    [(''list_slice'', \<lparr>t_arity = 3, t_vars = [''lst'', ''a'', ''b''], t_temps = [''L'', ''A'', ''B'', ''R'', ''I'', ''X''], t_tpl = tpl_list_slice, t_binder = None\<rparr>),
     (''str_slice'', \<lparr>t_arity = 3, t_vars = [''s'', ''a'', ''b''], t_temps = [], t_tpl = tpl_str_slice, t_binder = None\<rparr>),
     (''str_len'', \<lparr>t_arity = 1, t_vars = [''s''], t_temps = [], t_tpl = tpl_str_len, t_binder = None\<rparr>),
     (''index_of'', \<lparr>t_arity = 2, t_vars = [''lst'', ''v''], t_temps = [''L'', ''V'', ''R'', ''I'', ''X''], t_tpl = tpl_index_of, t_binder = None\<rparr>),
     (''map_list'', \<lparr>t_arity = 3, t_vars = [''x'', ''lst'', ''expr''], t_temps = [''L'', ''R''], t_tpl = tpl_map_list, t_binder = Some 0\<rparr>),
     (''filter'', \<lparr>t_arity = 3, t_vars = [''x'', ''lst'', ''pred''], t_temps = [''L'', ''R''], t_tpl = tpl_filter, t_binder = Some 0\<rparr>),
     (''reduce'', \<lparr>t_arity = 5, t_vars = [''acc'', ''init'', ''x'', ''lst'', ''expr''], t_temps = [''L''], t_tpl = tpl_reduce, t_binder = Some 2\<rparr>),
     (''sum'', \<lparr>t_arity = 1, t_vars = [''lst''], t_temps = [''L'', ''S'', ''X''], t_tpl = tpl_sum, t_binder = None\<rparr>),
     (''min'', \<lparr>t_arity = 1, t_vars = [''lst''], t_temps = [''L'', ''M'', ''X''], t_tpl = tpl_min, t_binder = None\<rparr>),
     (''max'', \<lparr>t_arity = 1, t_vars = [''lst''], t_temps = [''L'', ''M'', ''X''], t_tpl = tpl_max, t_binder = None\<rparr>),
     (''reverse'', \<lparr>t_arity = 1, t_vars = [''lst''], t_temps = [''L'', ''R'', ''N''], t_tpl = tpl_reverse, t_binder = None\<rparr>),
     (''count_by'', \<lparr>t_arity = 3, t_vars = [''x'', ''lst'', ''key''], t_temps = [''L'', ''D'', ''K''], t_tpl = tpl_count_by, t_binder = Some 0\<rparr>),
     (''sort'', \<lparr>t_arity = 1, t_vars = [''lst''], t_temps = [''L'', ''R'', ''X'', ''N'', ''F'', ''Y''], t_tpl = tpl_sort, t_binder = None\<rparr>)]"

definition tpl_mod :: string where
  \<open>tpl_mod =
    (''(let ($A $a $B $b) (if '' @
     cfSmall @
     '' '' @
     cfCheapMod @
     '' (if '' @
     cfIsFloatX @
     '' '' @
     cfFloatMod @
     '' (if (or (= $B 1) (= $B (- 0 1))) '' @
     cfW (''0'') @
     '' '' @
     cfIntCore @
     '' (let ($T (if (< $A 0) $R (- 0 $R))) (if (and (!= $T 0) (!= (< $T 0) (< $B 0))) '' @
     cfW (''(+ $T $B)'') @
     '' '' @
     cfW (''$T'') @
     ''))))))))))'')\<close>

definition tpl_div :: string where
  \<open>tpl_div =
    (''(let ($A $a $B $b) (if '' @
     cfSmall @
     '' (to_int (/ (- $A (% $A $B)) $B)) (if '' @
     cfIsFloatX @
     '' '' @
     cfFloatDiv @
     '' (if (= $B 1) (to_int $A) (if (= $B (- 0 1)) (to_int (- 0 $A)) '' @
     cfIntCore @
     '' (if (= (< $A 0) (< $B 0)) $Q (if (= $R 0) (- 0 $Q) (- 0 (+ $Q 1)))))))))))))'')\<close>

definition tpl_range :: string where
  \<open>tpl_range =
    (''(let ($A $a $B $b $R (list)) (do (while (< $A $B) (do (append $R $A) (set $A (+ $A 1)))) $R))'')\<close>

definition tpl_max_by :: string where
  \<open>tpl_max_by =
    (''(let ($L $lst $KS (map_list $x $L $key) $I 0 $M (list_get $L 0) $MK (list_get $KS 0)) (do (when (= '' @
     ''(list_len $L) 0) (do (stderr $msg) (exit 1))) (for $K $KS (do (when (> $K $MK) (do (set $M (list_get $L '' @
     ''$I)) (set $MK $K))) (set $I (+ $I 1)))) $M))'')\<close>

definition tpl_min_by :: string where
  \<open>tpl_min_by =
    (''(let ($L $lst $KS (map_list $x $L $key) $I 0 $M (list_get $L 0) $MK (list_get $KS 0)) (do (when (= '' @
     ''(list_len $L) 0) (do (stderr $msg) (exit 1))) (for $K $KS (do (when (< $K $MK) (do (set $M (list_get $L '' @
     ''$I)) (set $MK $K))) (set $I (+ $I 1)))) $M))'')\<close>

definition tpl_sort_by :: string where
  \<open>tpl_sort_by =
    (''(let ($L $lst $KS (map_list $x $L $key) $R (list) $I 0) (do (for $K $KS (let ($N (list) $F 0) (do (for '' @
     ''$J $R (do (when (and (= $F 0) (< $K (list_get $KS $J))) (do (append $N $I) (set $F 1))) (append $N '' @
     ''$J))) (when (= $F 0) (append $N $I)) (set $R $N) (set $I (+ $I 1))))) (map_list $Y $R (list_get $L '' @
     ''$Y))))'')\<close>

definition tpl_pad_left :: string where
  \<open>tpl_pad_left =
    (''(let ($S (str $s) $N $n $C $ch $P $E) (do (while (< (+ (str_len $P) (str_len $S)) $N) (set $P (str $P '' @
     ''$C))) (str $P $S)))'')\<close>

definition tpl_pad_right :: string where
  \<open>tpl_pad_right =
    (''(let ($S (str $s) $N $n $C $ch) (do (while (< (str_len $S) $N) (set $S (str $S $C))) $S))'')\<close>

definition tpl_str_repeat :: string where
  \<open>tpl_str_repeat =
    (''(let ($S $s $N $n $K 0 $R $E) (do (while (> $N 0) (do (set $K (+ $K 1)) (set $N (- $N 1)))) (let ($P '' @
     ''(str $E $S) $H 0) (do (while (> $K 0) (do (set $H (to_int (/ $K 2))) (when (> $K (* $H 2)) (set $R (str '' @
     ''$R $P))) (set $K $H) (when (> $K 0) (set $P (str $P $P))))) $R))))'')\<close>

definition tpl_rtrim :: string where
  \<open>tpl_rtrim =
    (''(let ($C (str_split $s $E) $N (list_len $C)) (do (while (and (> $N 0) (list_contains $WS (list_get $C '' @
     ''(- $N 1)))) (set $N (- $N 1))) (str_join (list_slice $C 0 $N) $E)))'')\<close>

definition tpl_ltrim :: string where
  \<open>tpl_ltrim =
    (''(let ($C (str_split $s $E) $N (list_len $C) $I 0) (do (while (and (< $I $N) (list_contains $WS '' @
     ''(list_get $C $I))) (set $I (+ $I 1))) (str_join (list_slice $C $I $N) $E)))'')\<close>

definition tpl_to_base :: string where
  \<open>tpl_to_base =
    (''(let ($N $n $B $b $G (str_split $D $E) $R $E $NEG (< $N 0) $M (* 0 $N)) (do (when (or (< $B 2) (> $B '' @
     ''36)) (do (stderr $msg) (exit 1))) (when (not $NEG) (set $N (- 0 $N))) (while (< $N 0) (do (set $M (% $N '' @
     ''$B)) (set $N (// $N $B)) (when (!= $M 0) (do (set $M (- $B $M)) (set $N (+ $N 1)))) (set $R (str '' @
     ''(list_get $G $M) $R)))) (when (= $R $E) (set $R $Z)) (when $NEG (set $R (str $MINUS $R))) $R))'')\<close>

definition controlflowTemplates :: "templateSpec strmap" where
  "controlflowTemplates =
    [(''%'', \<lparr>t_arity = 2, t_vars = [''a'', ''b''], t_temps = [''A'', ''B'', ''R'', ''N'', ''DN'', ''Q'', ''T'', ''S'', ''ZF'', ''AD'', ''P'', ''I''], t_tpl = tpl_mod, t_binder = None\<rparr>),
     (''//'', \<lparr>t_arity = 2, t_vars = [''a'', ''b''], t_temps = [''A'', ''B'', ''R'', ''N'', ''DN'', ''Q'', ''T'', ''S'', ''ZF'', ''AD'', ''P'', ''I''], t_tpl = tpl_div, t_binder = None\<rparr>),
     (''range'', \<lparr>t_arity = 2, t_vars = [''a'', ''b''], t_temps = [''A'', ''B'', ''R''], t_tpl = tpl_range, t_binder = None\<rparr>),
     (''max_by'', \<lparr>t_arity = 3, t_vars = [''x'', ''lst'', ''key''], t_temps = [''L'', ''KS'', ''I'', ''M'', ''MK'', ''K''], t_tpl = tpl_max_by, t_binder = Some 0\<rparr>),
     (''min_by'', \<lparr>t_arity = 3, t_vars = [''x'', ''lst'', ''key''], t_temps = [''L'', ''KS'', ''I'', ''M'', ''MK'', ''K''], t_tpl = tpl_min_by, t_binder = Some 0\<rparr>),
     (''sort_by'', \<lparr>t_arity = 3, t_vars = [''x'', ''lst'', ''key''], t_temps = [''L'', ''KS'', ''R'', ''I'', ''K'', ''N'', ''F'', ''J'', ''Y''], t_tpl = tpl_sort_by, t_binder = Some 0\<rparr>),
     (''pad_left'', \<lparr>t_arity = 3, t_vars = [''s'', ''n'', ''ch''], t_temps = [''S'', ''N'', ''C'', ''P''], t_tpl = tpl_pad_left, t_binder = None\<rparr>),
     (''pad_right'', \<lparr>t_arity = 3, t_vars = [''s'', ''n'', ''ch''], t_temps = [''S'', ''N'', ''C''], t_tpl = tpl_pad_right, t_binder = None\<rparr>),
     (''str_repeat'', \<lparr>t_arity = 2, t_vars = [''s'', ''n''], t_temps = [''S'', ''N'', ''K'', ''R'', ''P'', ''H''], t_tpl = tpl_str_repeat, t_binder = None\<rparr>),
     (''rtrim'', \<lparr>t_arity = 1, t_vars = [''s''], t_temps = [''C'', ''N''], t_tpl = tpl_rtrim, t_binder = None\<rparr>),
     (''ltrim'', \<lparr>t_arity = 1, t_vars = [''s''], t_temps = [''C'', ''N'', ''I''], t_tpl = tpl_ltrim, t_binder = None\<rparr>),
     (''to_base'', \<lparr>t_arity = 2, t_vars = [''n'', ''b''], t_temps = [''N'', ''B'', ''G'', ''R'', ''NEG'', ''M''], t_tpl = tpl_to_base, t_binder = None\<rparr>)]"

definition bindVars :: "string list \<Rightarrow> Node list \<Rightarrow> Node strmap" where
  "bindVars vs as = zip vs as"

definition astItoa :: "int \<Rightarrow> string" where
  "astItoa i = (if i = 0 then ''0'' else if i < 0 then [] else itoa i)"

text \<open>What both tables share: the checks of the arity and of the names that are bound.\<close>

definition checkedTemplate :: "templateSpec \<Rightarrow> Node \<Rightarrow> Node D \<Rightarrow> Node D" where
  "checkedTemplate spec n body =
     (let head = n_Value (hd (n_Children n)) in
      if length (n_Children n) \<noteq> Suc (t_arity spec) then
        reportD (head @ '' expects '' @ astItoa (int (t_arity spec)) @ '' arguments'') n
      else
        case t_binder spec of
          None \<Rightarrow> body
        | Some b \<Rightarrow>
            if isSymbolNode (n_Children n ! Suc b) then body
            else reportD (head @ '' expects a variable name as argument '' @ astItoa (int (Suc b))) n)"

definition withDefault :: "Node \<Rightarrow> nat \<Rightarrow> Node \<Rightarrow> Node" where
  "withDefault n k x = (if length (n_Children n) = k then withChildren n (n_Children n @ [x]) else n)"

definition corelibDefaults :: "Node \<Rightarrow> Node" where
  "corelibDefaults n =
     (if n_Value (hd (n_Children n)) \<in> set [''list_slice'', ''str_slice'']
      then withDefault n 3 (intLit ''9007199254740991'' n) else n)"

definition desugarCorelib :: "Node \<Rightarrow> Node D" where
  "desugarCorelib n0 =
     (let n = corelibDefaults n0; head = n_Value (hd (n_Children n)) in
      case lookup corelibTemplates head of
        None \<Rightarrow> failD GoPanic
      | Some spec \<Rightarrow>
          checkedTemplate spec n
            (if head = ''reduce'' \<and> \<not> isSymbolNode (n_Children n ! 1) then
               reportD ''reduce expects an accumulator name as argument 1'' n
             else
               bindD (temporaries ''cl'' (t_temps spec) n) (\<lambda>temps.
               expandWith []
                 (bindVars (t_vars spec) (tl (n_Children n)) @
                  (if head = ''min'' \<or> head = ''max''
                   then [(''msg'', strNode (''VALUE_ERROR: '' @ head @ '' of empty list'' @ [CHR 0x0A]) n)] else []) @ temps)
                 (t_tpl spec) n)))"

definition atPos :: "Node \<Rightarrow> string" where
  "atPos n = (if n_Line n \<le> 0 then [] else '' at line '' @ astItoa (n_Line n) @ '', column '' @ astItoa (n_Column n))"

definition floatNode :: "string \<Rightarrow> Node \<Rightarrow> Node" where
  "floatNode v pos = leaf ''FLOAT'' v pos"

definition controlflowConsts :: "Node \<Rightarrow> Node strmap" where
  "controlflowConsts n =
     [(''E'', strNode [] n), (''Z'', strNode ''0'' n), (''MINUS'', strNode ''-'' n), (''DOT'', strNode ''.'' n),
      (''LIM'', intLit ''4503599627370496'' n), (''NLIM'', intLit ''-4503599627370496'' n), (''EXP'', strNode ''e'' n),
      (''INFS'', strNode ''Inf'' n), (''NANS'', strNode ''NaN'' n),
      (''FMSG'', strNode (''VALUE_ERROR: % and // need finite operands'' @ atPos n @ [CHR 0x0A]) n),
      (''RMSG'', strNode (''VALUE_ERROR: // result outside int64'' @ atPos n @ [CHR 0x0A]) n),
      (''TWO63'', floatNode ''9223372036854775808.0'' n), (''P62'', intLit ''4611686018427387904'' n),
      (''HALF'', floatNode ''0.5'' n), (''NTWO63'', floatNode ''-9223372036854775808.0'' n),
      (''INF'', strNode ''n'' n), (''NAN'', strNode ''N'' n),
      (''D'', strNode ''0123456789abcdefghijklmnopqrstuvwxyz'' n),
      (''WS'', con n ''list'' [strNode '' '' n, strNode [CHR 0x09] n, strNode [CHR 0x0A] n, strNode [CHR 0x0D] n])]"

definition controlflowDefaults :: "Node \<Rightarrow> Node" where
  "controlflowDefaults n =
     (let head = n_Value (hd (n_Children n)) in
      if head = ''range'' \<and> length (n_Children n) = 2 then
        withChildren n [hd (n_Children n), intLit ''0'' n, n_Children n ! 1]
      else if head = ''pad_left'' \<or> head = ''pad_right'' then withDefault n 3 (strNode '' '' n)
      else n)"

definition controlflowMessage :: "string \<Rightarrow> Node \<Rightarrow> Node strmap" where
  "controlflowMessage head n =
     (if head = ''max_by'' \<or> head = ''min_by'' then [(''msg'', strNode (''VALUE_ERROR: '' @ head @ '' of empty list'' @ [CHR 0x0A]) n)]
      else if head = ''to_base'' then [(''msg'', strNode (''VALUE_ERROR: to_base base must be 2..36'' @ [CHR 0x0A]) n)]
      else [])"

definition desugarControlflow :: "Node \<Rightarrow> Node D" where
  "desugarControlflow n0 =
     (let n = controlflowDefaults n0; head = n_Value (hd (n_Children n)) in
      case lookup controlflowTemplates head of
        None \<Rightarrow> failD GoPanic
      | Some spec \<Rightarrow>
          checkedTemplate spec n
            (bindD (temporaries ''cl'' (t_temps spec) n) (\<lambda>temps.
             expandWith (controlflowConsts n)
               (bindVars (t_vars spec) (tl (n_Children n)) @ controlflowMessage head n @ temps) (t_tpl spec) n)))"

subsection \<open>Records\<close>

text \<open>\<open>args[i]\<close>.\<close>

definition argAt :: "Node list \<Rightarrow> nat \<Rightarrow> Node D" where
  "argAt as i = (if i < length as then retD (as ! i) else failD GoPanic)"

definition rnTemp :: "string \<Rightarrow> string D" where
  "rnTemp prefix = compactTemp (''rc'' @ prefix)"

definition rnIsIntLit :: "Node \<Rightarrow> bool" where
  "rnIsIntLit n \<longleftrightarrow> n_Type n = ''INT''"

definition rnKey :: "string \<Rightarrow> Node \<Rightarrow> Node D" where
  "rnKey head n =
     (if isSymbolNode n \<or> n_Type n = ''STRING'' then retD (strNode (n_Value n) n)
      else reportD (head @ '' keys must be names or string literals'') n)"

definition rnStep :: "Node \<Rightarrow> string \<Rightarrow> Node \<Rightarrow> Node" where
  "rnStep n t key = con n (if rnIsIntLit key then ''list_get'' else ''map_get'') [symNode t n, key]"

fun recPairs :: "Node \<Rightarrow> Node list \<Rightarrow> Node list D" where
  "recPairs n (k # v # rest) =
     bindD (rnKey ''rec'' k) (\<lambda>key. bindD (recPairs n rest) (\<lambda>ps. retD (rnList n [key, v] # ps)))"
| "recPairs n kvs = retD []"

definition desugarRec :: "Node \<Rightarrow> Node D" where
  "desugarRec n =
     (if odd (length (tl (n_Children n))) then reportD ''rec expects key/value pairs'' n
      else bindD (recPairs n (tl (n_Children n))) (\<lambda>ps. retD (become n (con n ''dict'' ps))))"

fun getPath :: "Node \<Rightarrow> string \<Rightarrow> Node list \<Rightarrow> Node D" where
  "getPath n cur [] = failD GoPanic"
| "getPath n cur [k] = retD (rnStep n cur k)"
| "getPath n cur (k # k' # ks) =
     bindD (rnTemp ''G'') (\<lambda>t. bindD (getPath n t (k' # ks)) (\<lambda>rest.
     retD (rnLet n rest [symNode t n, rnStep n cur k])))"

definition desugarGet :: "Node \<Rightarrow> Node D" where
  "desugarGet n =
     bindD (rnTemp ''G'') (\<lambda>t.
     bindD (getPath n t (drop 2 (n_Children n))) (\<lambda>path.
     bindD (argAt (tl (n_Children n)) 0) (\<lambda>m.
     retD (become n (rnLet n path [symNode t n, m])))))"

fun putPath :: "Node \<Rightarrow> Node \<Rightarrow> string \<Rightarrow> Node list \<Rightarrow> Node D" where
  "putPath n v cur [] = failD GoPanic"
| "putPath n v cur [k] = retD (con n ''map_set'' [symNode cur n, k, v])"
| "putPath n v cur (k # k' # ks) =
     bindD (rnTemp ''P'') (\<lambda>t.
       if rnIsIntLit k then
         bindD (putPath n v t (k' # ks)) (\<lambda>rest. retD (rnLet n rest [symNode t n, rnStep n cur k]))
       else
         bindD (rnTemp ''K'') (\<lambda>kt.
         bindD (putPath n v t (k' # ks)) (\<lambda>rest.
         let get = con n ''map_get'' [symNode cur n, symNode kt n];
             fill = con n ''when'' [con n ''is_nil'' [get], con n ''map_set'' [symNode cur n, symNode kt n, con n ''dict'' []]] in
         retD (rnLet n (con n ''do'' [fill, rnLet n rest [symNode t n, get]]) [symNode kt n, k]))))"

definition desugarPut :: "Node \<Rightarrow> Node D" where
  "desugarPut n =
     (let as = tl (n_Children n); k = length as in
      if k < 2 then failD GoPanic
      else if rnIsIntLit (as ! (k - 2)) then
        reportD ''put: the last key must be a map key, not a list index'' n
      else
        bindD (rnTemp ''P'') (\<lambda>t.
        bindD (putPath n (last as) t (tl (butlast as))) (\<lambda>path.
        retD (become n (rnLet n (con n ''do'' [path, symNode t n]) [symNode t n, as ! 0])))))"

definition desugarReadJson :: "Node \<Rightarrow> Node D" where
  "desugarReadJson n = bindD (argAt (tl (n_Children n)) 0) (\<lambda>p.
     retD (become n (con n ''parse_json'' [symNode ''Any'' n, con n ''read_text'' [p]])))"

definition desugarWriteJson :: "Node \<Rightarrow> Node D" where
  "desugarWriteJson n = bindD (argAt (tl (n_Children n)) 0) (\<lambda>p. bindD (argAt (tl (n_Children n)) 1) (\<lambda>v.
     retD (become n (con n ''write_file'' [p, con n ''encode_json'' [v]]))))"

definition desugarPluck :: "Node \<Rightarrow> Node D" where
  "desugarPluck n =
     bindD (rnTemp ''X'') (\<lambda>x. bindD (rnTemp ''K'') (\<lambda>k.
     bindD (argAt (tl (n_Children n)) 0) (\<lambda>xs. bindD (argAt (tl (n_Children n)) 1) (\<lambda>key.
     retD (become n (rnLet n
       (con n ''map_list'' [symNode x n, xs, con n ''map_get'' [symNode x n, symNode k n]]) [symNode k n, key]))))))"

definition selectPair :: "Node \<Rightarrow> string \<Rightarrow> Node \<Rightarrow> Node D" where
  "selectPair n x a =
     bindD (rnKey ''select'' a) (\<lambda>k.
     retD (rnList n [k, con n ''map_get'' [symNode x n, strNode (n_Value k) n]]))"

definition desugarSelect :: "Node \<Rightarrow> Node D" where
  "desugarSelect n =
     bindD (rnTemp ''X'') (\<lambda>x.
     bindD (argAt (tl (n_Children n)) 0) (\<lambda>xs.
     bindD (mapD (selectPair n x) (drop 2 (n_Children n))) (\<lambda>ps.
     retD (become n (con n ''map_list'' [symNode x n, xs, con n ''dict'' ps])))))"

definition desugarGroupBy :: "Node \<Rightarrow> Node D" where
  "desugarGroupBy n =
     bindD (argAt (tl (n_Children n)) 0) (\<lambda>x.
     if \<not> isSymbolNode x then reportD ''group_by expects a variable name as argument 1'' n
     else
       bindD (rnTemp ''R'') (\<lambda>r. bindD (rnTemp ''K'') (\<lambda>k. bindD (rnTemp ''G'') (\<lambda>g.
       bindD (argAt (tl (n_Children n)) 2) (\<lambda>key. bindD (argAt (tl (n_Children n)) 1) (\<lambda>xs.
       let r = symNode r n; k = symNode k n; g = symNode g n;
           inner = rnLet n
             (con n ''do'' [con n ''append'' [g, symNode (n_Value x) n], con n ''map_set'' [r, k, g]])
             [k, con n ''str'' [key], g, con n ''nz'' [con n ''map_get'' [r, k], con n ''list'' []]] in
       retD (become n (rnLet n (con n ''do'' [con n ''for'' [x, xs, inner], r]) [r, con n ''dict'' []]))))))))"

fun mergePieces :: "Node \<Rightarrow> Node \<Rightarrow> Node list \<Rightarrow> (Node list \<times> Node list) D" where
  "mergePieces n r [] = retD ([], [])"
| "mergePieces n r (a # as) =
     bindD (rnTemp ''S'') (\<lambda>s. bindD (rnTemp ''K'') (\<lambda>k.
     bindD (mergePieces n r as) (\<lambda>(pairs, loops).
     let s = symNode s n; k = symNode k n in
     retD (s # a # pairs,
       con n ''for'' [k, con n ''map_keys'' [s], con n ''map_set'' [r, k, con n ''map_get'' [s, k]]] # loops))))"

definition desugarMerge :: "Node \<Rightarrow> Node D" where
  "desugarMerge n =
     bindD (rnTemp ''R'') (\<lambda>r.
     let r = symNode r n in
     bindD (mergePieces n r (tl (n_Children n))) (\<lambda>(pairs, loops).
     retD (become n (rnLet n (con n ''do'' (loops @ [r])) ([r, con n ''dict'' []] @ pairs)))))"

definition recordForms :: "(Node \<Rightarrow> Node D) strmap" where
  "recordForms =
     [(''rec'', desugarRec), (''get'', desugarGet), (''put'', desugarPut), (''read_json'', desugarReadJson),
      (''write_json'', desugarWriteJson), (''pluck'', desugarPluck), (''select'', desugarSelect),
      (''group_by'', desugarGroupBy), (''merge'', desugarMerge)]"

subsection \<open>Many-armed if, destructuring, break\<close>

fun nestIf :: "Node \<Rightarrow> Node list \<Rightarrow> Node" where
  "nestIf n [] = rnList n []"
| "nestIf n [e] = e"
| "nestIf n [c, t] = con n ''if'' [c, t]"
| "nestIf n (c # t # e # rest) = con n ''if'' [c, t, nestIf n (e # rest)]"

definition desugarNaryIf :: "Node \<Rightarrow> Node" where
  "desugarNaryIf n =
     (if length (n_Children n) \<le> 4 then n else become n (nestIf n (tl (n_Children n))))"

definition isPattern :: "Node \<Rightarrow> bool" where
  "isPattern x \<longleftrightarrow> isListNode x \<and> n_Children x \<noteq> [] \<and> list_all isSymbolNode (n_Children x)"

text \<open>The elements of the temporary, by index.\<close>

fun patternGets :: "string \<Rightarrow> nat \<Rightarrow> Node list \<Rightarrow> Node list" where
  "patternGets tmp j [] = []"
| "patternGets tmp j (s # ss) =
     s # con s ''list_get'' [symNode tmp s, intLit (astItoa (int j)) s] # patternGets tmp (Suc j) ss"

definition patternCheck :: "string \<Rightarrow> Node \<Rightarrow> Node" where
  "patternCheck tmp p =
     (let k = astItoa (int (length (n_Children p))) in
      con p ''do''
        [con p ''when'' [con p ''!='' [con p ''list_len'' [symNode tmp p], intLit k p],
           con p ''do''
             [con p ''stderr'' [strNode (''VALUE_ERROR: destructuring expects '' @ k @ '' elements'' @ atPos p @ [CHR 0x0A]) p],
              con p ''exit'' [intLit ''1'' p]]],
         intLit ''0'' p])"

fun destructure :: "Node \<Rightarrow> Node list \<Rightarrow> Node list D" where
  "destructure n (name # v # rest) =
     (if isPattern name then
        bindD (compactTemp ''clDS'') (\<lambda>tmp. bindD (compactTemp ''clDSN'') (\<lambda>chk.
        bindD (destructure n rest) (\<lambda>out.
        retD ([symNode tmp n, v, symNode chk n, patternCheck tmp name] @ patternGets tmp 0 (n_Children name) @ out))))
      else bindD (destructure n rest) (\<lambda>out. retD (name # v # out)))"
| "destructure n pairs = retD pairs"

definition desugarDestructure :: "Node \<Rightarrow> Node D" where
  "desugarDestructure n =
     (if length (n_Children n) < 3 then retD n
      else let b = n_Children n ! 1 in
        if \<not> isListNode b \<or> odd (length (n_Children b)) then retD n
        else bindD (destructure n (n_Children b)) (\<lambda>out.
          retD (withChildren n ((n_Children n)[1 := withChildren b out]))))"

definition isBreak :: "Node \<Rightarrow> bool" where
  "isBreak n \<longleftrightarrow> symbolHead n ''break''"

definition isLoop :: "Node \<Rightarrow> bool" where
  "isLoop n \<longleftrightarrow> symbolHead n ''for'' \<or> symbolHead n ''while''"

definition flagIsZero :: "string \<Rightarrow> Node \<Rightarrow> Node" where
  "flagIsZero flag n = con n ''='' [symNode flag n, intLit ''0'' n]"

text \<open>The statements of a block; those behind a break run only while the flag is zero.\<close>

fun rewriteSeq :: "(Node \<Rightarrow> compile_error + (bool \<times> Node)) \<Rightarrow> string \<Rightarrow> Node \<Rightarrow> Node list \<Rightarrow> compile_error + (bool \<times> Node list)" where
  "rewriteSeq f flag n [] = Inr (False, [])"
| "rewriteSeq f flag n (s # rest) =
     rbind (f s) (\<lambda>(hit, s').
       if \<not> hit then rbind (rewriteSeq f flag n rest) (\<lambda>(h, rest'). Inr (h, s # rest'))
       else if rest = [] then Inr (True, [s'])
       else rbind (rewriteSeq f flag n rest) (\<lambda>(_, rest').
         Inr (True, [s', con n ''if'' [flagIsZero flag n, con n ''do'' rest']])))"

lemma rewriteSeq_cong [fundef_cong]:
  "flag = flag' \<Longrightarrow> n = n' \<Longrightarrow> xs = ys \<Longrightarrow> (\<And>x. x \<in> set ys \<Longrightarrow> f x = g x) \<Longrightarrow> rewriteSeq f flag n xs = rewriteSeq g flag' n' ys"
  by (induction ys arbitrary: xs) (auto intro!: rbind_cong)

function rewriteBreaks :: "string \<Rightarrow> Node \<Rightarrow> compile_error + (bool \<times> Node)" where
  "rewriteBreaks flag n =
     (if \<not> isListNode n \<or> n_Children n = [] \<or> isLoop n then Inr (False, n)
      else if isBreak n then
        (if length (n_Children n) \<noteq> 1 then Inl (reportAt ''break takes no arguments'' n)
         else Inr (True, become n (con n ''set'' [symNode flag n, intLit ''1'' n])))
      else if headOf (n_Children n) \<in> {''do'', ''cli_app''} then
        rbind (rewriteSeq (rewriteBreaks flag) flag n (drop 1 (n_Children n))) (\<lambda>(hit, rest).
        Inr (hit, withChildren n (take 1 (n_Children n) @ rest)))
      else if headOf (n_Children n) = ''if'' then
        rbind (traverse (rewriteBreaks flag) (drop 2 (n_Children n))) (\<lambda>rs.
        Inr (list_ex fst rs, withChildren n (take 2 (n_Children n) @ map snd rs)))
      else if headOf (n_Children n) = ''let'' \<and> length (n_Children n) > 2 then
        rbind (rewriteBreaks flag (n_Children n ! 2)) (\<lambda>(hit, body).
        Inr (hit, withChildren n ((n_Children n)[2 := body])))
      else Inr (False, n))"
  by pat_completeness auto
termination
  by (relation "measure (size \<circ> snd)") (auto intro: child_smaller dest: in_set_dropD)

declare rewriteBreaks.simps [simp del]

definition desugarLoopBreak :: "Node \<Rightarrow> Node D" where
  "desugarLoopBreak n =
     (if length (n_Children n) < 3 then retD n
      else
        bindD (compactTemp ''clBRK'') (\<lambda>flag.
        bindD (liftD (rewriteBreaks flag (last (n_Children n)))) (\<lambda>(hit, body).
        if \<not> hit then retD n
        else
          let cs = butlast (n_Children n) @ [body];
              loop = rnList n
                (if n_Value (hd cs) = ''while'' then cs[1 := con n ''and'' [flagIsZero flag n, cs ! 1]]
                 else butlast cs @ [con n ''if'' [flagIsZero flag n, last cs]]) in
          retD (become n (rnLet n loop [symNode flag n, intLit ''0'' n])))))"

lemma first_error_cong [fundef_cong]:
  "xs = ys \<Longrightarrow> (\<And>x. x \<in> set ys \<Longrightarrow> f x = g x) \<Longrightarrow> first_error f xs = first_error g ys"
  by (induction ys arbitrary: xs) (auto intro!: rbind_cong)

function reportStrayBreaks :: "Node \<Rightarrow> compile_error + unit" where
  "reportStrayBreaks n =
     (if \<not> isListNode n then Inr ()
      else if isBreak n then
        Inl (reportAt ''break must be a statement inside for/while (directly or in do/if/when/unless/let bodies)'' n)
      else first_error reportStrayBreaks (n_Children n))"
  by pat_completeness auto
termination
  by (relation "measure size") (auto intro: child_smaller)

declare reportStrayBreaks.simps [simp del]

subsection \<open>The pass\<close>

definition jsHostSugarParents :: "string list" where
  "jsHostSugarParents =
     [''base64_text'', ''dialog_close'', ''dialog_open'', ''dom_attr'', ''dom_checked'', ''dom_focus'',
      ''dom_query'', ''dom_query_all'', ''dom_text'', ''dom_value'', ''download_file'', ''element_box'',
      ''event_attr'', ''fetch'', ''event_key'', ''event_prevent'', ''file_read_input'', ''image_decode'',
      ''image_encode'', ''media_matches'', ''off'', ''on_event'', ''on_media'', ''on_scroll'',
      ''on_visible'', ''pref_get'', ''pref_put'', ''remove_attr'', ''richtext_attach'',
      ''richtext_command'', ''richtext_get'', ''richtext_set'', ''scroll_y'', ''set_attr'',
      ''set_checked'', ''set_class'', ''set_html'', ''set_style_var'', ''set_text'', ''scroll_into_view'',
      ''set_value'', ''sniff_media_type'', ''storage_delete'', ''storage_get'', ''storage_keys'',
      ''storage_put'', ''subscription_count'', ''toggle_class'', ''url_encode'', ''viewport_height'',
      ''zip_build'', ''zip_read'']"

definition valueParents :: "string list" where
  "valueParents =
     [''root'', ''cli_app'', ''do'', ''http_server'', ''web_app'', ''wasm_app'', ''if'', ''while'',
      ''print'', ''stderr'', ''return'', ''call'', ''assert'', ''cond'', ''+'', ''-'', ''*'', ''/'',
      ''='', ''=='', ''!='', ''<'', ''>'', ''<='', ''>='', ''and'', ''or'', ''list'', ''append'',
      ''map_set'', ''map_get'', ''map_delete'', ''list_get'', ''str_split'', ''str_join'',
      ''encode_json'', ''to_int'', ''to_float'', ''to_string'', ''bytes_to_string'', ''set'', ''exit'',
      ''spawn'', ''spawn_agent'', ''task'', ''res'', ''res_json'', ''route'', ''middleware'',
      ''optimize_block'', ''optimize_signature'', ''schema_bridge'', ''test'', ''let_value'', ''sget'',
      ''sput'', ''sinc'', ''store_get'', ''store_put'', ''store_delete'', ''http_request'', ''fetch'',
      ''switch'', ''inc'', ''dec'', ''str'', ''nz'', ''map_has'', ''when'', ''unless'',
      ''str_contains'', ''str_replace'', ''starts_with'', ''ends_with'', ''http_body'', ''http_status'',
      ''http_res'', ''list_contains'', ''not'', ''blank'', ''unix_now'', ''ver_gt'', ''ver_ge'',
      ''all'', ''any'', ''parse_json'', ''list_len'', ''write_file'', ''read_file'', ''mkdir'',
      ''to_lower'', ''to_upper'', ''str_trim'', ''html_escape'', ''attr_escape'', ''regex_match'',
      ''sha256_hex'', ''rand_hex'', ''secure_equal'', ''is_nil'', ''map_keys'', ''env'', ''sleep'',
      ''exec'', ''cli_args'', ''read_line'', ''read_stdin'', ''time_now'', ''store_open'',
      ''store_keys'', ''res_header'', ''req_header'', ''req_id'', ''req_body'', ''req_url_path'',
      ''utf8_valid'', ''granted'', ''port_available'', ''req_method'', ''req_path'', ''req_query'',
      ''llm_generate'', ''confidence'', ''list_slice'', ''str_slice'', ''str_len'', ''index_of'',
      ''map_list'', ''filter'', ''reduce'', ''sum'', ''min'', ''max'', ''reverse'', ''count_by'',
      ''sort'', ''%'', ''//'', ''range'', ''max_by'', ''min_by'', ''sort_by'', ''pad_left'',
      ''pad_right'', ''str_repeat'', ''rtrim'', ''ltrim'', ''to_base'', ''rec'', ''get'', ''put'',
      ''read_json'', ''write_json'', ''pluck'', ''select'', ''group_by'', ''merge'']"

definition reservedCallHeads :: "string list" where
  "reservedCallHeads =
     [''+'', ''-'', ''*'', ''/'', ''<'', ''>'', ''<='', ''>='', ''=='', ''!='', ''='', ''and'', ''or'',
      ''assert'', ''call'', ''cli_app'', ''do'', ''defun'', ''lines'', ''read_text'', ''cond'', ''sget'',
      ''sput'', ''sinc'', ''switch'', ''inc'', ''dec'', ''str'', ''nz'', ''map_has'', ''when'', ''unless'',
      ''str_contains'', ''str_replace'', ''starts_with'', ''ends_with'', ''http_body'', ''http_status'',
      ''http_res'', ''list_contains'', ''not'', ''blank'', ''unix_now'', ''ver_gt'', ''ver_ge'', ''all'',
      ''any'', ''parse_json'', ''list_slice'', ''str_slice'', ''str_len'', ''index_of'', ''map_list'',
      ''filter'', ''reduce'', ''sum'', ''min'', ''max'', ''reverse'', ''count_by'', ''sort'', ''%'',
      ''//'', ''range'', ''max_by'', ''min_by'', ''sort_by'', ''pad_left'', ''pad_right'', ''str_repeat'',
      ''rtrim'', ''ltrim'', ''to_base'', ''break'', ''rec'', ''get'', ''put'', ''read_json'',
      ''write_json'', ''pluck'', ''select'', ''group_by'', ''merge'', ''dict'', ''exit'', ''for'', ''if'',
      ''let'', ''list'', ''print'', ''return'', ''set'', ''stderr'', ''to_lower'', ''to_upper'',
      ''str_trim'', ''test'', ''try_let'', ''type_hint'', ''type_hints'', ''type_param'', ''while'',
      ''http_server'', ''web_app'', ''wasm_app'', ''route'', ''lambda'', ''import'', ''module'',
      ''export'', ''use'', ''include'', ''map_get'', ''map_set'', ''map_delete'', ''map_keys'',
      ''list_get'', ''list_len'', ''append'', ''store_open'', ''store_get'', ''store_put'',
      ''store_delete'', ''http_request'', ''fetch'', ''req_method'', ''req_path'', ''req_query'',
      ''req_header'', ''res'', ''res_json'']"

text \<open>Whether a child of a construct, at its index, is an expression whose sugar is expanded.\<close>

definition isSugarExprContext :: "string \<Rightarrow> nat \<Rightarrow> bool" where
  "isSugarExprContext parent i \<longleftrightarrow>
     (if parent \<in> set valueParents then True
      else if parent = ''for'' \<or> parent = ''try_let'' then i = 2 \<or> i = 3
      else if parent = ''let'' \<or> parent = ''catch'' then i = 2
      else if parent = ''lambda'' then i \<ge> 2
      else if parent = ''params'' \<or> parent = ''binding'' then False
      else parent \<in> set jsHostSugarParents)"

definition childParent :: "string \<Rightarrow> string \<Rightarrow> nat \<Rightarrow> string" where
  "childParent head parent i =
     (if head \<in> {''defun'', ''lazy_synthesize''} \<and> i = 2 \<or> head = ''lambda'' \<and> i = 1 then ''params''
      else if head \<in> {''let'', ''try_let''} \<and> i = 1 \<or> head \<in> {''dict'', ''type_hints'', ''type_hint'', ''type_param''} then ''binding''
      else if head = [] then parent else head)"

text \<open>The expansions that need an expression context: \<open>True\<close> where the result is walked again.\<close>

definition sugarForms :: "((Node \<Rightarrow> Node D) \<times> bool) strmap" where
  "sugarForms =
     [(''assert'', desugarAssert, False), (''lines'', desugarLines, False), (''read_text'', desugarReadText, False),
      (''cond'', desugarCond, False), (''sget'', desugarSGet, False), (''sput'', desugarSPut, False),
      (''sinc'', desugarSInc, True), (''switch'', desugarSwitch, True), (''inc'', desugarInc, False), (''dec'', desugarDec, False),
      (''str'', desugarStr, False), (''nz'', desugarNz, False), (''map_has'', desugarMapHas, True),
      (''when'', desugarWhenUnless, True), (''unless'', desugarWhenUnless, True),
      (''str_contains'', desugarStrContains, False), (''str_replace'', desugarStrReplace, False),
      (''starts_with'', desugarStartsEndsWith, True), (''ends_with'', desugarStartsEndsWith, True),
      (''http_body'', desugarHTTPBody, False), (''http_status'', desugarHTTPStatus, False), (''http_res'', desugarHTTPRes, True),
      (''list_contains'', desugarListContains, True), (''not'', desugarNot, False), (''blank'', desugarBlank, False),
      (''unix_now'', desugarUnixNow, False), (''ver_gt'', desugarVersionCompare False, True),
      (''ver_ge'', desugarVersionCompare True, True), (''all'', desugarAllAny True, True), (''any'', desugarAllAny False, True)]
     @ map (\<lambda>(h, _). (h, desugarCorelib, True)) corelibTemplates
     @ map (\<lambda>(h, _). (h, desugarControlflow, True)) controlflowTemplates
     @ map (\<lambda>(h, f). (h, f, True)) recordForms"

text \<open>The switch behind the walk of the children. The result says whether to walk the node again.\<close>

definition expandHead :: "string \<Rightarrow> bool \<Rightarrow> Node \<Rightarrow> (Node \<times> bool) D" where
  "expandHead head sugar n =
     (if head = ''defun'' then retD (desugarDefunExprBody n, False)
      else if head = ''if'' then retD (desugarNaryIf n, False)
      else if head = ''for'' \<or> head = ''while'' then bindD (desugarLoopBreak n) (\<lambda>m. retD (m, False))
      else if \<not> sugar then retD (n, False)
      else if head = ''and'' \<or> head = ''or'' then
        retD (if length (n_Children n) > 3 then (desugarNaryLogic n, True) else (n, False))
      else if head = ''list_get'' \<and> isListLiteral n 1 then retD (n, False)
      else if head = ''list_get'' \<or> head = ''parse_json'' then
        bindD (if head = ''list_get'' then desugarBindOperand 1 ''lg'' n else desugarBindOperand 2 ''pj'' n) (\<lambda>r.
        retD (case r of None \<Rightarrow> (n, False) | Some m \<Rightarrow> (m, True)))
      else
        case lookup sugarForms head of
          None \<Rightarrow> retD (n, False)
        | Some (f, again) \<Rightarrow> bindD (f n) (\<lambda>m. retD (m, again)))"

text \<open>One unit of fuel for a level of nesting or another walk of a node.\<close>

fun desugarInContext :: "nat \<Rightarrow> string \<Rightarrow> nat \<Rightarrow> Node \<Rightarrow> Node D" where
  "desugarInContext 0 parent i n = failD NoFuel"
| "desugarInContext (Suc k) parent i n =
     (if \<not> isListNode n then retD n
      else if parent = ''binding'' \<or> parent = ''params'' then
        (if length (n_Children n) \<ge> 2 then
           bindD (desugarInContext k ''let_value'' 1 (n_Children n ! 1)) (\<lambda>c.
           retD (withChildren n ((n_Children n)[1 := c])))
         else retD n)
      else
        let head = headOf (n_Children n) in
        bindD (if head = ''let'' then bindD (desugarDestructure n) (\<lambda>m. retD (desugarMultiLet m)) else retD n) (\<lambda>n1.
        bindD (mapD (\<lambda>(j, c). desugarInContext k (childParent head parent j) j c) (enumerate 0 (n_Children n1))) (\<lambda>cs.
        bindD (expandHead head (isSugarExprContext parent i) (withChildren n1 cs)) (\<lambda>(n2, again).
        if again then desugarInContext k parent i n2 else retD n2))))"

function collectDefunNames :: "Node \<Rightarrow> string list" where
  "collectDefunNames n =
     (if \<not> isListNode n \<or> n_Children n = [] then []
      else
        (if symbolHead n ''defun'' \<and> length (n_Children n) > 1 \<and> isSymbolNode (n_Children n ! 1)
            \<and> n_Value (n_Children n ! 1) \<notin> set reservedCallHeads
         then [n_Value (n_Children n ! 1)] else [])
        @ concat (map collectDefunNames (n_Children n)))"
  by pat_completeness auto
termination
  by (relation "measure size") (auto intro: child_smaller)

declare collectDefunNames.simps [simp del]

text \<open>\<open>(f args)\<close> becomes \<open>(call f args)\<close> for a function \<open>f\<close> of the program.\<close>

definition autoCall :: "string list \<Rightarrow> Node \<Rightarrow> Node" where
  "autoCall funcs n =
     (let sym = hd (n_Children n) in
      if isSymbolNode sym \<and> n_Value sym \<noteq> ''call'' \<and> n_Value sym \<notin> set reservedCallHeads \<and> n_Value sym \<in> set funcs
      then withChildren n (symNode ''call'' sym # n_Children n) else n)"

function rewriteAutoCalls :: "string list \<Rightarrow> string \<Rightarrow> nat \<Rightarrow> Node \<Rightarrow> Node" where
  "rewriteAutoCalls funcs parent i n =
     (if \<not> isListNode n \<or> n_Children n = [] then n
      else if parent = ''binding'' \<or> parent = ''params'' then
        (if length (n_Children n) \<ge> 2
         then withChildren n ((n_Children n)[1 := rewriteAutoCalls funcs ''let_value'' 1 (n_Children n ! 1)]) else n)
      else
        let head = headOf (n_Children n);
            m = withChildren n (map (\<lambda>(j, c). rewriteAutoCalls funcs (childParent head parent j) j c)
                  (enumerate 0 (n_Children n))) in
        if isSugarExprContext parent i then autoCall funcs m else m)"
  by pat_completeness auto
termination
  by (relation "measure (\<lambda>(_, _, _, n). size n)") (auto intro: child_smaller nth_smaller dest: in_set_enumerate_eq [THEN iffD1] simp: in_set_enumerate_eq)

declare rewriteAutoCalls.simps [simp del]

definition rootDo :: "Node \<Rightarrow> Node" where
  "rootDo n =
     (if symbolHead n ''do'' then withChildren n (withValue (hd (n_Children n)) ''cli_app'' # tl (n_Children n)) else n)"

definition Desugar :: "nat \<Rightarrow> Node \<Rightarrow> Node D" where
  "Desugar k tree =
     (let funcs = collectDefunNames (rootDo tree) in
      bindD (desugarInContext k ''root'' 0 (rootDo tree)) (\<lambda>n.
      let m = rewriteAutoCalls funcs ''root'' 0 n in
      bindD (liftD (reportStrayBreaks m)) (\<lambda>_. retD m)))"

end
