(* ===== verification/SugarLaws.thy ===== *)
theory SugarLaws
  imports Desugar SimStmt
begin

text \<open>
  What expansions mean: the trees that the text tests expand into, evaluated by the interpreter, decide
  the test on the strings of their operands.
\<close>

subsection \<open>Splitting and occurrence\<close>

lemma indexOf_zero: "indexOf s p = Some 0 \<longleftrightarrow> hasPrefix s p"
  by (cases s; cases p) auto

lemma contains_iff: "contains s p \<longleftrightarrow> (\<exists>u v. s = u @ p @ v)"
proof
  assume "contains s p"
  then obtain i where "indexOf s p = Some i" by (auto simp: contains_def)
  from indexOf_take_drop [OF this] show "\<exists>u v. s = u @ p @ v" by blast
next
  have "indexOf (u @ p @ v) p \<noteq> None" for u v
  proof (induction u)
    case Nil
    then show ?case using indexOf_zero [of "p @ v" p] by simp
  qed (simp del: hasPrefix_Cons)
  then show "\<exists>u v. s = u @ p @ v \<Longrightarrow> contains s p" by (auto simp: contains_def)
qed

lemma splitOn_many: "p \<noteq> [] \<Longrightarrow> 1 < length (splitOn p s) \<longleftrightarrow> contains s p"
  by (subst splitOn.simps) (auto simp: contains_def splitOn_not_Nil split: option.splits)

lemma splitOn_length: "length (splitOn p s) \<le> Suc (length s)"
proof (induction p s rule: splitOn.induct)
  case (1 sep s)
  show ?case
  proof (cases "sep = [] \<or> indexOf s sep = None")
    case True
    then show ?thesis by (subst splitOn.simps) auto
  next
    case False
    then obtain i where i: "sep \<noteq> []" "indexOf s sep = Some i" by auto
    from 1 [OF i] indexOf_bound [OF i(2)] i show ?thesis
      by (subst splitOn.simps) (cases sep; auto)
  qed
qed

lemma splitOn_head: "p \<noteq> [] \<Longrightarrow> s \<noteq> [] \<Longrightarrow> hd (splitOn p s) = [] \<longleftrightarrow> hasPrefix s p"
  by (subst splitOn.simps) (auto simp: indexOf_zero [symmetric] split: option.splits)

subsection \<open>Values of expressions\<close>

text \<open>The node has this value, and nothing else happens.\<close>

definition computes :: "nat \<Rightarrow> icfg \<Rightarrow> istate \<Rightarrow> Node \<Rightarrow> val \<Rightarrow> bool" where
  "computes k ic t n v \<longleftrightarrow> eval k ic n t = (Inr v, t)"

lemma node_fields [simp]:
  "n_Type (symNode x p) = ''SYMBOL''" "n_Value (symNode x p) = x" "n_Type (strNode x p) = ''STRING''" "n_Value (strNode x p) = x"
  "n_Type (intLit x p) = ''INT''" "n_Value (intLit x p) = x" "n_Type (rnList p cs) = ''List''" "n_Children (rnList p cs) = cs"
  "n_Children (symNode x p) = []" "n_Children (strNode x p) = []" "n_Children (intLit x p) = []" "n_Value (rnList p cs) = []"
  by (simp_all add: symNode_def strNode_def intLit_def leaf_def rnList_def)

lemma node_kinds [simp]:
  "isSymbolNode (symNode x p)" "\<not> isSymbolNode (strNode x p)" "\<not> isSymbolNode (intLit x p)" "\<not> isSymbolNode (rnList p cs)"
  "\<not> isListNode (symNode x p)" "\<not> isListNode (strNode x p)" "\<not> isListNode (intLit x p)" "isListNode (rnList p cs)"
  by (simp_all add: isSymbolNode_def isListNode_def)

lemma con_form: "form (con p h as) h as"
  by (simp add: form_def con_def)

lemma become_form: "isListNode n \<Longrightarrow> form (become n (con p h as)) h as"
  by (simp add: form_def become_def con_def isListNode_def)

lemma pair_binding: "binding (rnList p [x, e]) x e"
  by (simp add: binding_def)

lemma computes_str: "computes (Suc k) ic t (strNode s p) (VStr s)"
  by (simp add: computes_def eval_leaf returnI_def)

lemma computes_var:
  "envGet (i_env t) x = Some v \<Longrightarrow> x \<noteq> ''true'' \<Longrightarrow> x \<noteq> ''false'' \<Longrightarrow> computes (Suc k) ic t (symNode x p) v"
  by (simp add: computes_def eval_leaf evalSymbol_def needVarI_def getVarI_def monadI_defs bindI_def)

lemma computes_binop:
  assumes "form n h [a, b]" "h \<in> set binops" "computes k ic t a x" "computes k ic t b y" "applyBinop h x y n t = (Inr r, t)"
  shows "computes (Suc k) ic t n r"
  using assms(3-) by (simp add: computes_def eval_binop [OF assms(1,2)] bindI_def)

lemma computes_logic:
  assumes "form n h [a, b]" "h = ''and'' \<or> h = ''or''" "computes k ic t a (VBool x)"
    "x \<noteq> (h = ''or'') \<Longrightarrow> computes k ic t b (VBool y)" "x = (h = ''or'') \<Longrightarrow> y = x"
  shows "computes (Suc k) ic t n (VBool y)"
  using assms(3-) by (cases "x = (h = ''or'')") (simp_all add: computes_def eval_logic [OF assms(1,2)] bindI_def ToBoolI_def returnI_def)

lemma computes_let:
  assumes "form n ''let'' [b, body]" "binding b x e" "computes k ic t e v" "computes k ic (t\<lparr>i_env := [(n_Value x, v)] # i_env t\<rparr>) body r"
  shows "computes (Suc k) ic t n r"
  using assms(3-) by (simp add: computes_def eval_let [OF assms(1,2)] bindI_def inFrame_def)

lemma sprintI_str: "sprintI (VStr s) t = (Inr s, t)"
  by (simp add: sprintI_def treeI_def monadI_defs bindI_def treeOf_def)

lemma textHeads: "plainHead ''str_split'' evalStrSplit" "plainHead ''str_join'' evalStrJoin"
  by (simp_all add: table_defs)

lemma eval_split:
  "form n ''str_split'' [a, b] \<Longrightarrow> eval (Suc k) ic n =
    bindI (eval k ic a) (\<lambda>x. bindI (sprintI x) (\<lambda>s. bindI (eval k ic b) (\<lambda>y. bindI (sprintI y) (\<lambda>sep.
      returnI (VList (map VStr (splitString s sep)))))))"
  by (simp add: eval_plain [OF _ textHeads(1)] evalStrSplit_def form_simps bindI_assoc)

lemma computes_split:
  "form n ''str_split'' [a, b] \<Longrightarrow> computes k ic t a (VStr s) \<Longrightarrow> computes k ic t b (VStr sep) \<Longrightarrow>
    computes (Suc k) ic t n (VList (map VStr (splitString s sep)))"
  by (simp add: computes_def eval_split bindI_def sprintI_str returnI_def)







lemma computes_length:
  "form n ''list_len'' [a] \<Longrightarrow> computes k ic t a (VList xs) \<Longrightarrow> computes (Suc k) ic t n (intVal (int (length xs)))"
  by (simp add: computes_def eval_unary unaries_def bindI_def applyUnary_def lengthOf_def collectionLen_def returnI_def)

lemma small_literals: "parseInt ''0'' = Some 0" "parseInt ''1'' = Some 1" "parseInt (trimSpace (itoa 0)) = Some 0"
  by code_simp+

lemma computes_int:
  "computes (Suc k) ic t (intLit ''0'' p) (intVal 0)" "computes (Suc k) ic t (intLit ''1'' p) (intVal 1)"
  by (simp_all add: computes_def eval_leaf returnI_def small_literals)

lemma computes_element:
  assumes "form n ''list_get'' [symNode x p, intLit ''0'' q]" "envGet (i_env t) x = Some (VList (v # vs))"
  shows "computes (Suc (Suc k)) ic t n v"
  using assms(2) computes_int(1) [of k ic t q]
  by (simp add: computes_def eval_element [OF assms(1)] needVarI_def getVarI_def monadI_defs bindI_def wantListI_def
    sprintI_def treeI_def treeOf_def intVal_def small_literals returnI_def)

lemma equal_strings: "applyBinop ''='' (VStr a) (VStr b) n t = (Inr (VBool (a = b)), t)"
  "applyBinop ''!='' (VStr a) (VStr b) n t = (Inr (VBool (a \<noteq> b)), t)"
  by (simp_all add: applyBinop_def ValuesEqual_def isCollection_def numericEqual_def returnI_def asInt64_def toFloat64_def)

lemma greater_ints:
  assumes "inInt64 i" "inInt64 j"
  shows "applyBinop ''>'' (intVal i) (intVal j) n t = (Inr (VBool (j < i)), t)"
  by (simp add: applyBinop_def NumericBinop_def interpNumericRelational_def intVal_def relationalHasNaN_def compareNumeric_def
    asInt64_def toFloat64_def f64_of_int_not_NaN sint_word_of_int64 assms orderHolds_def cmpInt_def returnI_def)

subsection \<open>Text tests\<close>

lemma contains_test:
  assumes "form n ''>'' [l, intLit ''1'' p]" "form l ''list_len'' [c]" "form c ''str_split'' [a, b]"
    "computes k ic t a (VStr hay)" "computes k ic t b (VStr needle)" "needle \<noteq> []" "length hay < 2 ^ 62"
  shows "computes (Suc (Suc (Suc k))) ic t n (VBool (contains hay needle))"
proof -
  let ?parts = "splitString hay needle"
  have parts: "?parts = splitOn needle hay" using assms(6) by (simp add: splitString_def)
  have "inInt64 (int (length ?parts))" using splitOn_length [of needle hay] assms(7) by (simp add: parts inInt64_def)
  moreover have "inInt64 1" by (simp add: inInt64_def)
  ultimately have "applyBinop ''>'' (intVal (int (length ?parts))) (intVal 1) n t = (Inr (VBool (1 < int (length ?parts))), t)"
    by (rule greater_ints)
  moreover have "(1 < int (length ?parts)) = contains hay needle"
    using splitOn_many [OF assms(6), of hay] by (simp add: parts)
  ultimately have g: "applyBinop ''>'' (intVal (int (length ?parts))) (intVal 1) n t = (Inr (VBool (contains hay needle)), t)"
    by simp
  have "computes (Suc (Suc k)) ic t l (intVal (int (length ?parts)))"
    using computes_length [OF assms(2) computes_split [OF assms(3-5)]] by simp
  from computes_binop [OF assms(1) _ this computes_int(2) g] show ?thesis by (simp add: binops_def)
qed

text \<open>C30. \<open>(str_contains hay needle)\<close> expands into a tree that is true exactly when the needle, if it is not
  empty, occurs in the hay: whatever the operands are, if they evaluate to these strings.\<close>

theorem str_contains_expansion:
  assumes "symbolHead n ''str_contains''" "n_Children n = [h, a, b]"
    and "eval k ic a t = (Inr (VStr hay), t)" "eval k ic b t = (Inr (VStr needle), t)" "needle \<noteq> []" "length hay < 2 ^ 62"
  shows "\<exists>m. desugarStrContains n c = Inr (m, c) \<and>
    eval (k + 3) ic m t = (Inr (VBool (\<exists>u v. hay = u @ needle @ v)), t)"
proof -
  let ?m = "become n (con n ''>'' [con n ''list_len'' [con n ''str_split'' [a, b]], intLit ''1'' n])"
  have "isListNode n" using assms(1) by (simp add: symbolHead_def)
  then have "computes (Suc (Suc (Suc k))) ic t ?m (VBool (contains hay needle))"
    using assms(3-6) by (intro contains_test [OF become_form con_form con_form]) (simp_all add: computes_def)
  moreover have "desugarStrContains n c = Inr (?m, c)"
    using assms(2) by (simp add: desugarStrContains_def exactly_def retD_def)
  ultimately show ?thesis by (auto simp: computes_def contains_iff eval_nat_numeral)
qed

lemma lookup_forms:
  "lookup sugarForms ''starts_with'' = Some (desugarStartsEndsWith, True)"
  "lookup sugarForms ''ends_with'' = Some (desugarStartsEndsWith, True)"
  "lookup sugarForms ''str_contains'' = Some (desugarStrContains, False)"
  "lookup sugarForms ''str'' = Some (desugarStr, False)"
  "lookup sugarForms ''let'' = None" "lookup sugarForms ''='' = None" "lookup sugarForms ''!='' = None"
  "lookup sugarForms ''str_split'' = None" "lookup sugarForms ''>'' = None" "lookup sugarForms ''list_len'' = None"
  by (simp_all add: sugarForms_def corelibTemplates_def controlflowTemplates_def recordForms_def)

subsection \<open>Walks\<close>

text \<open>Positions are those of the form.\<close>

lemma positions [simp]:
  "n_Line (rnList p cs) = n_Line p" "n_Column (rnList p cs) = n_Column p" "n_Line (con p h as) = n_Line p"
  "n_Column (con p h as) = n_Column p" "symNode x (con p h as) = symNode x p" "strNode x (con p h as) = strNode x p"
  "intLit x (con p h as) = intLit x p" "rnList (con p h as) cs = rnList p cs" "con (con p h as) g bs = con p g bs"
  "become (con p h as) (con p g bs) = con p g bs" "withChildren (con p h as) (symNode h p # bs) = con p h bs"
  "n_Children (con p h as) = symNode h p # as" "isListNode (con p h as)" "\<not> isSymbolNode (con p h as)"
  "rnLet (con p h as) e bs = rnLet p e bs" "rnList (rnList p as) cs = rnList p cs"
  by (simp_all add: rnList_def con_def symNode_def strNode_def intLit_def leaf_def become_def withChildren_def isListNode_def
    isSymbolNode_def rnLet_def)

text \<open>With this fuel the walk turns a tree into another and makes no temporary.\<close>

definition walks :: "nat \<Rightarrow> string \<Rightarrow> nat \<Rightarrow> Node \<Rightarrow> Node \<Rightarrow> bool" where
  "walks k parent i n m \<longleftrightarrow> (\<forall>c. desugarInContext k parent i n c = Inr (m, c))"

fun walksFrom :: "nat \<Rightarrow> string \<Rightarrow> string \<Rightarrow> nat \<Rightarrow> Node list \<Rightarrow> Node list \<Rightarrow> bool" where
  "walksFrom k head parent j (n # ns) (m # ms) \<longleftrightarrow> walks k (childParent head parent j) j n m \<and> walksFrom k head parent (Suc j) ns ms"
| "walksFrom k head parent j ns ms \<longleftrightarrow> ns = [] \<and> ms = []"

definition formParent :: "string \<Rightarrow> bool" where
  "formParent parent \<longleftrightarrow> parent \<noteq> ''binding'' \<and> parent \<noteq> ''params''"

definition inert :: "string \<Rightarrow> bool" where
  "inert h \<longleftrightarrow> h \<notin> {''defun'', ''if'', ''for'', ''while'', ''list_get'', ''parse_json'', ''let''} \<and> lookup sugarForms h = None"

lemma walks_leaf [simp]: "\<not> isListNode n \<Longrightarrow> walks (Suc k) parent i n n"
  by (simp add: walks_def retD_def)

lemma mapD_walks:
  "walksFrom k head parent j ns ms \<Longrightarrow>
    mapD (\<lambda>(j, c). desugarInContext k (childParent head parent j) j c) (enumerate j ns) c = Inr (ms, c)"
  by (induction k head parent j ns ms rule: walksFrom.induct) (simp_all add: retD_def bindD_def walks_def)

lemma expandHead_inert:
  "inert h \<Longrightarrow> (h = ''and'' \<or> h = ''or'' \<Longrightarrow> length (n_Children n) \<le> 3) \<Longrightarrow> expandHead h b n = retD (n, False)"
  unfolding inert_def expandHead_def by (cases "h = ''and'' \<or> h = ''or''") (simp_all add: not_less)

text \<open>A form is walked by its children, then expanded.\<close>

lemma walks_expand:
  assumes "formParent parent" "h \<noteq> ''let''" "walksFrom k h parent 0 (symNode h p # as) (symNode h p # bs)"
    "expandHead h (isSugarExprContext parent i) (con p h bs) = retD (m, again)" "again \<Longrightarrow> walks k parent i m r" "\<not> again \<Longrightarrow> r = m"
  shows "walks (Suc k) parent i (con p h as) r"
  using assms(1,2,4-6) mapD_walks [OF assms(3)]
  by (cases again) (simp_all add: walks_def formParent_def headOf_def bindD_def retD_def Let_def)

lemma walks_inert:
  assumes "formParent parent" "inert h" "h = ''and'' \<or> h = ''or'' \<Longrightarrow> length bs \<le> 2" "walksFrom k h parent 0 (symNode h p # as) (symNode h p # bs)"
  shows "walks (Suc k) parent i (con p h as) (con p h bs)"
  by (rule walks_expand [where again = False, OF assms(1) _ assms(4) expandHead_inert]) (use assms(2,3) in \<open>auto simp: inert_def\<close>)

lemma sugar_parent: "isSugarExprContext parent i \<Longrightarrow> formParent parent"
  by (auto simp: isSugarExprContext_def valueParents_def formParent_def)

lemma sugarForms_heads:
  "lookup sugarForms h = Some v \<Longrightarrow> h \<notin> {''defun'', ''if'', ''for'', ''while'', ''list_get'', ''parse_json'', ''let'', ''and'', ''or''}"
  by (rule ccontr) (auto simp: sugarForms_def corelibTemplates_def controlflowTemplates_def recordForms_def)

lemma walks_sugar:
  assumes "isSugarExprContext parent i" "lookup sugarForms h = Some (f, again)"
    "walksFrom k h parent 0 (symNode h p # as) (symNode h p # bs)" "f (con p h bs) = retD m"
    "again \<Longrightarrow> walks k parent i m r" "\<not> again \<Longrightarrow> r = m"
  shows "walks (Suc k) parent i (con p h as) r"
proof (rule walks_expand [OF sugar_parent [OF assms(1)] _ assms(3) _ assms(5,6)])
  show "h \<noteq> ''let''" "expandHead h (isSugarExprContext parent i) (con p h bs) = retD (m, again)"
    using sugarForms_heads [OF assms(2)] assms(1,2,4) by (auto simp: expandHead_def bindD_def retD_def)
qed

lemma walks_element:
  assumes "formParent parent" "walks k ''list_get'' 2 x y" "\<not> isListNode l" "k \<noteq> 0"
  shows "walks (Suc k) parent i (con p ''list_get'' [l, x]) (con p ''list_get'' [l, y])"
proof (rule walks_expand [where again = False, OF assms(1)])
  show "walksFrom k ''list_get'' parent 0 [symNode ''list_get'' p, l, x] [symNode ''list_get'' p, l, y]"
    using assms(2-4) by (cases k) (simp_all add: childParent_def eval_nat_numeral)
  show "expandHead ''list_get'' (isSugarExprContext parent i) (con p ''list_get'' [l, y]) = retD (con p ''list_get'' [l, y], False)"
    using assms(3) by (simp add: expandHead_def isListLiteral_def symbolHead_def desugarBindOperand_def bindD_def retD_def)
qed simp_all

lemma walks_let:
  assumes "formParent parent" "isSymbolNode x" "walks k ''let_value'' 1 e f" "walks (Suc k) ''let'' 2 body rest"
    "desugarDestructure (con p ''let'' [bs, b]) = retD (con p ''let'' [bs, b])"
    "desugarMultiLet (con p ''let'' [bs, b]) = con p ''let'' [rnList p [x, e], body]"
  shows "walks (Suc (Suc k)) parent i (con p ''let'' [bs, b]) (con p ''let'' [rnList p [x, f], rest])"
proof -
  have "walks (Suc k) ''binding'' 1 (rnList p [x, e]) (rnList p [x, f])"
    using assms(3) by (simp add: walks_def bindD_def retD_def withChildren_def rnList_def isListNode_def)
  with assms(4) have "walksFrom (Suc k) ''let'' parent 0 [symNode ''let'' p, rnList p [x, e], body] [symNode ''let'' p, rnList p [x, f], rest]"
    by (simp add: childParent_def eval_nat_numeral)
  from mapD_walks [OF this] assms(1,5,6) show ?thesis
    by (simp add: walks_def formParent_def headOf_def bindD_def retD_def Let_def expandHead_def lookup_forms)
qed

text \<open>Bindings of symbols need no destructuring.\<close>

fun plainPairs :: "Node list \<Rightarrow> bool" where
  "plainPairs (x # v # rest) \<longleftrightarrow> isSymbolNode x \<and> plainPairs rest"
| "plainPairs pairs \<longleftrightarrow> pairs = []"

lemma destructure_plain: "plainPairs pairs \<Longrightarrow> destructure n pairs = retD pairs"
  by (induction pairs rule: plainPairs.induct) (auto simp: isPattern_def isSymbolNode_def isListNode_def bindD_def retD_def)

lemma desugarDestructure_plain:
  "plainPairs pairs \<Longrightarrow> desugarDestructure (con p ''let'' [rnList p pairs, b]) = retD (con p ''let'' [rnList p pairs, b])"
  by (simp add: desugarDestructure_def destructure_plain Let_def) (simp add: bindD_def retD_def withChildren_def rnList_def con_def)

lemma walks_let1:
  assumes "formParent parent" "isSymbolNode x" "walks k ''let_value'' 1 e f" "walks (Suc k) ''let'' 2 b rest"
  shows "walks (Suc (Suc k)) parent i (con p ''let'' [rnList p [x, e], b]) (con p ''let'' [rnList p [x, f], rest])"
  using assms by (intro walks_let [OF assms(1-4)] desugarDestructure_plain) (simp_all add: desugarMultiLet_def)

lemma nestLets_position: "nestLets (con p h as) (rnList p bs) pairs body = nestLets p p pairs body"
  by (induction "con p h as" "rnList p bs" pairs body rule: nestLets.induct) simp_all

lemma walks_let2:
  assumes "formParent parent" "isSymbolNode x" "isSymbolNode y" "plainPairs others" "even (length others)" "walks k ''let_value'' 1 e f"
    "walks (Suc k) ''let'' 2 (nestLets p p (y # v # others) b) rest"
  shows "walks (Suc (Suc k)) parent i (con p ''let'' [rnList p (x # e # y # v # others), b]) (con p ''let'' [rnList p [x, f], rest])"
  using assms by (intro walks_let [OF assms(1,2,6,7)] desugarDestructure_plain)
    (simp_all add: desugarMultiLet_def nestLets_position)

text \<open>Prefixes and suffixes.\<close>

lemma text_inert: "inert ''or''" "inert ''and''" "inert ''=''" "inert ''!=''" "inert ''str_split''" "inert ''>''" "inert ''list_len''"
    "inert ''str_join''" "inert ''list''" "inert ''to_string''"
  by (simp_all add: inert_def sugarForms_def corelibTemplates_def controlflowTemplates_def recordForms_def)

lemma text_parents [simp]:
  "formParent ''or''" "formParent ''and''" "formParent ''=''" "formParent ''let''" "formParent ''let_value''" "formParent ''str_contains''"
  by (simp_all add: formParent_def)

lemma text_contexts [simp]: "isSugarExprContext ''let'' 2" "isSugarExprContext ''or'' i" "isSugarExprContext ''str_contains'' i"
  by (simp_all add: isSugarExprContext_def valueParents_def)

definition startsTest :: "Node \<Rightarrow> Node" where
  "startsTest p =
     con p ''or'' [con p ''='' [symNode ''__p'' p, strNode [] p],
       con p ''and'' [con p ''!='' [symNode ''__s'' p, strNode [] p],
         con p ''='' [con p ''list_get'' [symNode ''__parts'' p, intLit ''0'' p], strNode [] p]]]"

lemma walks_startsTest: "walks (Suc (Suc (Suc (Suc (Suc k))))) ''let'' 2 (startsTest p) (startsTest p)"
  unfolding startsTest_def
  by (simp add: walks_inert walks_element text_inert childParent_def)

lemma computes_equal:
  "form n ''='' [a, b] \<Longrightarrow> computes k ic t a (VStr x) \<Longrightarrow> computes k ic t b (VStr y) \<Longrightarrow> computes (Suc k) ic t n (VBool (x = y))"
  "form n ''!='' [a, b] \<Longrightarrow> computes k ic t a (VStr x) \<Longrightarrow> computes k ic t b (VStr y) \<Longrightarrow> computes (Suc k) ic t n (VBool (x \<noteq> y))"
  using equal_strings by (auto intro!: computes_binop simp: binops_def)

lemma computes_starts:
  assumes "envGet (i_env t) ''__s'' = Some (VStr s)" "envGet (i_env t) ''__p'' = Some (VStr q)"
    "envGet (i_env t) ''__parts'' = Some (VList (map VStr (splitString s q)))"
  shows "computes (Suc (Suc (Suc (Suc (Suc k))))) ic t (startsTest p) (VBool (hasPrefix s q))"
proof -
  have e: "computes (Suc (Suc (Suc (Suc k)))) ic t (con p ''='' [symNode ''__p'' p, strNode [] p]) (VBool (q = []))"
    by (rule computes_equal [OF con_form]) (simp_all add: computes_str computes_var assms)
  have n: "computes (Suc (Suc (Suc k))) ic t (con p ''!='' [symNode ''__s'' p, strNode [] p]) (VBool (s \<noteq> []))"
    by (rule computes_equal [OF con_form]) (simp_all add: computes_str computes_var assms)
  have f: "computes (Suc (Suc (Suc k))) ic t (con p ''='' [con p ''list_get'' [symNode ''__parts'' p, intLit ''0'' p], strNode [] p])
      (VBool (hasPrefix s q))" if "q \<noteq> []" "s \<noteq> []"
  proof -
    have q: "splitString s q = splitOn q s" using that(1) by (simp add: splitString_def)
    obtain v vs where w: "splitOn q s = v # vs" using splitOn_not_Nil [of q s] by (cases "splitOn q s") auto
    with q have v: "splitString s q = v # vs" by simp
    have l: "computes (Suc (Suc k)) ic t (con p ''list_get'' [symNode ''__parts'' p, intLit ''0'' p]) (VStr v)"
      by (rule computes_element [OF con_form]) (simp add: assms(3) v)
    have h: "(v = []) = hasPrefix s q" using splitOn_head [OF that] w by simp
    show ?thesis using computes_equal(1) [OF con_form l computes_str, of p "[]" p] h by simp
  qed
  have "computes (Suc (Suc (Suc (Suc k)))) ic t (con p ''and'' [con p ''!='' [symNode ''__s'' p, strNode [] p],
      con p ''='' [con p ''list_get'' [symNode ''__parts'' p, intLit ''0'' p], strNode [] p]]) (VBool (hasPrefix s q))" if "q \<noteq> []"
    by (rule computes_logic [OF con_form _ n], simp, rule f [OF that], simp, use that in \<open>cases q; simp\<close>)
  then show ?thesis
    unfolding startsTest_def by (intro computes_logic [OF con_form _ e]) auto
qed

text \<open>C29. On variables that hold strings, \<open>(starts_with x y)\<close> desugars, wherever expressions are desugared,
  into a tree that is true exactly when the second string is a prefix of the first: the empty prefix
  and the empty subject included.\<close>

theorem starts_with_expansion:
  assumes "isSugarExprContext parent i" "x \<notin> {''true'', ''false''}" "y \<notin> {''true'', ''false'', ''__s''}"
    and "envGet (i_env t) x = Some (VStr s)" "envGet (i_env t) y = Some (VStr q)"
  shows "\<exists>m. desugarInContext (k + 12) parent i (con p ''starts_with'' [symNode x p, symNode y p]) c = Inr (m, c) \<and>
    eval (j + 8) ic m t = (Inr (VBool (hasPrefix s q)), t)"
proof -
  let ?split = "con p ''str_split'' [symNode ''__s'' p, symNode ''__p'' p]"
  let ?b1 = "[symNode ''__s'' p, symNode x p]" and ?b2 = "[symNode ''__p'' p, symNode y p]" and ?b3 = "[symNode ''__parts'' p, ?split]"
  let ?m3 = "con p ''let'' [rnList p ?b3, startsTest p]"
  let ?m = "con p ''let'' [rnList p ?b1, con p ''let'' [rnList p ?b2, ?m3]]"
  have w3: "walks (Suc (Suc (Suc (Suc (Suc (Suc l)))))) ''let'' 2 ?m3 ?m3" for l
    by (rule walks_let1) (simp_all add: walks_startsTest walks_inert text_inert childParent_def)
  have w2: "walks (Suc (Suc (Suc (Suc (Suc (Suc (Suc l))))))) ''let'' 2
      (con p ''let'' [rnList p ?b2, ?m3]) (con p ''let'' [rnList p ?b2, ?m3])" for l
    by (rule walks_let1) (use w3 in simp_all)
  have w1: "walks (Suc (Suc (Suc (Suc (Suc (Suc (Suc (Suc l)))))))) parent i
      (con p ''let'' [rnList p (?b1 @ ?b2 @ ?b3), startsTest p]) ?m" for l
    by (simp, rule walks_let2) (use w2 sugar_parent [OF assms(1)] in simp_all)
  have "walks (k + 12) parent i (con p ''starts_with'' [symNode x p, symNode y p]) ?m"
  proof (simp add: eval_nat_numeral, rule walks_sugar [OF assms(1) lookup_forms(1)])
    show "desugarStartsEndsWith (con p ''starts_with'' [symNode x p, symNode y p]) =
        retD (con p ''let'' [rnList p (?b1 @ ?b2 @ ?b3), startsTest p])"
      by (simp add: desugarStartsEndsWith_def exactly_def startsTest_def) (simp add: rnLet_def Let_def)
    show "True \<Longrightarrow> walks (Suc (Suc (Suc (Suc (Suc (Suc (Suc (Suc (Suc (Suc (Suc k))))))))))) parent i
        (con p ''let'' [rnList p (?b1 @ ?b2 @ ?b3), startsTest p]) ?m"
      using w1 [of "Suc (Suc (Suc k))"] by simp
  qed simp_all
  moreover have "computes (j + 8) ic t ?m (VBool (hasPrefix s q))"
  proof -
    let ?t1 = "t\<lparr>i_env := [(''__s'', VStr s)] # i_env t\<rparr>"
    let ?t2 = "?t1\<lparr>i_env := [(''__p'', VStr q)] # i_env ?t1\<rparr>"
    let ?t3 = "?t2\<lparr>i_env := [(''__parts'', VList (map VStr (splitString s q)))] # i_env ?t2\<rparr>"
    have "computes (Suc (Suc (Suc (Suc (Suc j))))) ic ?t3 (startsTest p) (VBool (hasPrefix s q))"
      by (rule computes_starts) simp_all
    moreover have "computes (Suc (Suc (Suc (Suc (Suc j))))) ic ?t2 ?split (VList (map VStr (splitString s q)))"
      by (rule computes_split [OF con_form]) (simp_all add: computes_var)
    ultimately have "computes (Suc (Suc (Suc (Suc (Suc (Suc j)))))) ic ?t2 ?m3 (VBool (hasPrefix s q))"
      by - (rule computes_let [OF con_form pair_binding], simp_all)
    moreover have "computes (Suc (Suc (Suc (Suc (Suc (Suc j)))))) ic ?t1 (symNode y p) (VStr q)"
      by (rule computes_var) (use assms in auto)
    ultimately have "computes (Suc (Suc (Suc (Suc (Suc (Suc (Suc j))))))) ic ?t1 (con p ''let'' [rnList p ?b2, ?m3]) (VBool (hasPrefix s q))"
      by - (rule computes_let [OF con_form pair_binding], simp_all)
    moreover have "computes (Suc (Suc (Suc (Suc (Suc (Suc (Suc j))))))) ic t (symNode x p) (VStr s)"
      by (rule computes_var) (use assms in auto)
    ultimately show ?thesis
      by (simp add: eval_nat_numeral) (rule computes_let [OF con_form pair_binding], simp_all)
  qed
  ultimately show ?thesis by (auto simp: walks_def computes_def)
qed









text \<open>Examples.\<close>

definition textState :: "string \<Rightarrow> string \<Rightarrow> istate" where
  "textState s q = \<lparr>i_env = [[(''x'', VStr s), (''y'', VStr q)]], i_heap = [], i_events = []\<rparr>"

theorem str_contains_expansion_witness:
  "\<forall>ic p c. \<exists>m. desugarStrContains (con p ''str_contains'' [strNode ''a.b'' p, strNode ''.'' p]) c = Inr (m, c) \<and>
    eval (Suc 0 + 3) ic m (textState [] []) = (Inr (VBool True), textState [] [])"
proof (intro allI)
  fix ic :: icfg and p and c
  have "\<exists>u v. ''a.b'' = u @ ''.'' @ v" by (intro exI [of _ "''a''"] exI [of _ "''b''"]) simp
  then show "\<exists>m. desugarStrContains (con p ''str_contains'' [strNode ''a.b'' p, strNode ''.'' p]) c = Inr (m, c) \<and>
    eval (Suc 0 + 3) ic m (textState [] []) = (Inr (VBool True), textState [] [])"
    using str_contains_expansion [of "con p ''str_contains'' [strNode ''a.b'' p, strNode ''.'' p]" "symNode ''str_contains'' p"
      "strNode ''a.b'' p" "strNode ''.'' p" "Suc 0" ic "textState [] []" "''a.b''" "''.''" c]
    by (simp add: symbolHead_def computes_str [unfolded computes_def])
qed

theorem starts_with_expansion_witness:
  "\<forall>ic p. \<exists>m. desugarInContext (0 + 12) ''print'' 1 (con p ''starts_with'' [symNode ''x'' p, symNode ''y'' p]) 0 = Inr (m, 0) \<and>
    eval (0 + 8) ic m (textState ''HTTP/1.1'' ''HTTP'') = (Inr (VBool True), textState ''HTTP/1.1'' ''HTTP'')"
proof (intro allI)
  fix ic p
  show "\<exists>m. desugarInContext (0 + 12) ''print'' 1 (con p ''starts_with'' [symNode ''x'' p, symNode ''y'' p]) 0 = Inr (m, 0) \<and>
    eval (0 + 8) ic m (textState ''HTTP/1.1'' ''HTTP'') = (Inr (VBool True), textState ''HTTP/1.1'' ''HTTP'')"
    using starts_with_expansion [of "''print''" 1 "''x''" "''y''" "textState ''HTTP/1.1'' ''HTTP''" "''HTTP/1.1''" "''HTTP''" 0 p 0 0 ic]
    by (simp add: isSugarExprContext_def valueParents_def textState_def)
qed


end
