(* ===== verification/FuelLaws.thy ===== *)
theory FuelLaws
  imports InterpLaws
begin

text \<open>
  The fuel of the interpreter is a bound and nothing else: whatever comes out of an evaluation with some
  fuel, an error or a panic included, comes out with every larger one.
\<close>

subsection \<open>Computations that agree as far as they get\<close>

definition extends :: "'a I \<Rightarrow> 'a I \<Rightarrow> bool" where
  "extends m m' \<longleftrightarrow> (\<forall>s. fst (m s) \<noteq> Inl IFuel \<longrightarrow> m' s = m s)"

lemma extendsD: "extends m m' \<Longrightarrow> fst (m s) \<noteq> Inl IFuel \<Longrightarrow> m' s = m s"
  by (simp add: extends_def)

named_theorems extends_intros

lemma extends_refl [simp]: "extends m m"
  by (simp add: extends_def)

lemma extends_trans: "extends l m \<Longrightarrow> extends m n \<Longrightarrow> extends l n"
  by (simp add: extends_def)

lemma extends_fuel: "extends (panicI IFuel) m"
  by (simp add: extends_def panicI_def)

lemma extends_bindI [extends_intros]:
  assumes "extends m m'" "\<And>a. extends (f a) (f' a)" shows "extends (bindI m f) (bindI m' f')"
  unfolding extends_def
proof (intro allI impI)
  fix s
  assume e: "fst (bindI m f s) \<noteq> Inl IFuel"
  then have "m' s = m s" by (intro extendsD [OF assms(1)]) (auto simp: bindI_def split: prod.splits)
  with e show "bindI m' f' s = bindI m f s"
    by (cases "m s") (auto simp: bindI_def split: sum.splits intro: extendsD [OF assms(2)])
qed

lemma extends_if [extends_intros]: "extends x x' \<Longrightarrow> extends y y' \<Longrightarrow> extends (if b then x else y) (if b then x' else y')"
  by simp

lemma extends_let [extends_intros]: "(\<And>x. extends (f x) (f' x)) \<Longrightarrow> extends (Let e f) (Let e f')"
  by simp

lemma extends_prod [extends_intros]:
  "(\<And>a b. extends (f a b) (f' a b)) \<Longrightarrow> extends (case r of (a, b) \<Rightarrow> f a b) (case r of (a, b) \<Rightarrow> f' a b)"
  by (cases r) simp

lemma extends_option [extends_intros]:
  "extends n n' \<Longrightarrow> (\<And>a. extends (f a) (f' a)) \<Longrightarrow>
   extends (case r of None \<Rightarrow> n | Some a \<Rightarrow> f a) (case r of None \<Rightarrow> n' | Some a \<Rightarrow> f' a)"
  by (cases r) simp_all

lemma extends_list [extends_intros]:
  "extends n n' \<Longrightarrow> (\<And>a b. extends (f a b) (f' a b)) \<Longrightarrow>
   extends (case r of [] \<Rightarrow> n | a # b \<Rightarrow> f a b) (case r of [] \<Rightarrow> n' | a # b \<Rightarrow> f' a b)"
  by (cases r) simp_all

lemma extends_val [extends_intros]:
  assumes "extends a a'" "\<And>x. extends (b x) (b' x)" "\<And>x. extends (c x) (c' x)" "\<And>x. extends (d x) (d' x)"
    "\<And>x. extends (e x) (e' x)" "\<And>x. extends (f x) (f' x)" "\<And>x. extends (g x) (g' x)" "\<And>x. extends (h x) (h' x)"
    "\<And>x. extends (i x) (i' x)" "\<And>x. extends (j x) (j' x)"
  shows "extends (case_val a b c d e f g h i j v) (case_val a' b' c' d' e' f' g' h' i' j' v)"
  using assms by (cases v) auto

lemma extends_response [extends_intros]:
  assumes "\<And>x. extends (a x) (a' x)" "\<And>x. extends (b x) (b' x)" "\<And>x. extends (c x) (c' x)" "\<And>x. extends (d x) (d' x)"
    "\<And>x. extends (e x) (e' x)" "\<And>x y z. extends (f x y z) (f' x y z)" "\<And>x y. extends (g x y) (g' x y)"
    "\<And>x y. extends (h x y) (h' x y)" "\<And>x y. extends (i x y) (i' x y)"
  shows "extends (case_response a b c d e f g h i r) (case_response a' b' c' d' e' f' g' h' i' r)"
  using assms by (cases r) auto

lemma extends_sum [extends_intros]:
  "(\<And>a. extends (f a) (f' a)) \<Longrightarrow> (\<And>a. extends (g a) (g' a)) \<Longrightarrow>
   extends (case r of Inl a \<Rightarrow> f a | Inr a \<Rightarrow> g a) (case r of Inl a \<Rightarrow> f' a | Inr a \<Rightarrow> g' a)"
  by (cases r) simp_all

lemma extends_traverseI [extends_intros]: "(\<And>x. extends (f x) (f' x)) \<Longrightarrow> extends (traverseI f xs) (traverseI f' xs)"
  by (induction xs) (auto intro!: extends_intros)

lemma extends_inFrame [extends_intros]: "extends m m' \<Longrightarrow> extends (inFrame fr m) (inFrame fr m')"
  by (auto simp: extends_def inFrame_def split: prod.split)

lemma extends_inCall [extends_intros]: "extends m m' \<Longrightarrow> extends (inCall fr m) (inCall fr m')"
  by (auto simp: extends_def inCall_def split: prod.split)

lemma extends_finallyI [extends_intros]: "extends m m' \<Longrightarrow> extends (finallyI m f) (finallyI m' f)"
  by (auto simp: extends_def finallyI_def split: prod.split)

lemma extends_catchReturn [extends_intros]: 
  assumes "extends m m'" shows "extends (catchReturn m) (catchReturn m')"
  unfolding extends_def
proof (intro allI impI)
  fix s
  assume "fst (catchReturn m s) \<noteq> Inl IFuel"
  then have "fst (m s) \<noteq> Inl IFuel" by (cases "m s") (auto simp: catchReturn_def)
  from extendsD [OF assms this] show "catchReturn m' s = catchReturn m s" by (simp add: catchReturn_def)
qed

subsection \<open>Constructs\<close>

definition extendsAll :: "(Node \<Rightarrow> val I) \<Rightarrow> (Node \<Rightarrow> val I) \<Rightarrow> bool" where
  "extendsAll rec rec' \<longleftrightarrow> (\<forall>c. extends (rec c) (rec' c))"

lemma extends_rec: "extendsAll rec rec' \<Longrightarrow> extends (rec c) (rec' c)"
  by (simp add: extendsAll_def)

lemma extends_children [extends_intros]:
  assumes "extendsAll rec rec'"
  shows "extends (evalChild rec node k) (evalChild rec' node k)" "extends (evalCond rec node k) (evalCond rec' node k)"
    "extends (sprintChild rec node k) (sprintChild rec' node k)"
  unfolding evalChild_def evalCond_def sprintChild_def by (rule extends_refl | rule extends_rec [OF assms] | rule extends_intros)+

lemma extends_evalSeq [extends_intros]: "extendsAll rec rec' \<Longrightarrow> extends (evalSeq rec ns v) (evalSeq rec' ns v)"
  by (induction ns arbitrary: v) (simp_all add: extends_bindI extends_rec)

lemma extends_forLoop [extends_intros]: "extendsAll rec rec' \<Longrightarrow> extends (forLoop rec body item vs) (forLoop rec' body item vs)"
  by (induction vs) (simp_all add: extends_bindI extends_inFrame extends_rec)

lemma extends_whileLoop [extends_intros]:
  "extendsAll rec rec' \<Longrightarrow> n \<le> n' \<Longrightarrow> extends (whileLoop rec node n) (whileLoop rec' node n')"
proof (induction n arbitrary: n')
  case (Suc n)
  then show ?case by (cases n') (auto intro!: extends_bindI extends_if extends_children)
qed (simp add: extends_fuel)

lemma extends_dictPairs [extends_intros]: "extendsAll rec rec' \<Longrightarrow> extends (dictPairs rec kids d) (dictPairs rec' kids d)"
  by (induction kids arbitrary: d) (simp_all add: extends_bindI extends_children)

lemma extends_circuitInputs [extends_intros]:
  assumes "extendsAll rec rec'" shows "extends (circuitInputsI rec head node) (circuitInputsI rec' head node)"
  unfolding circuitInputsI_def by (rule extends_refl | rule assms | rule extends_rec [OF assms] | rule extends_intros)+

lemma extends_exchange [extends_intros]: "extendsAll rec rec' \<Longrightarrow> extends (exchangeI ic rec w node) (exchangeI ic rec' w node)"
  unfolding exchangeI_def by (rule extends_refl | assumption | rule extends_intros)+

definition smooth :: "evaluator \<Rightarrow> bool" where
  "smooth f \<longleftrightarrow> (\<forall>ic rec rec' n n' node. extendsAll rec rec' \<and> n \<le> n' \<longrightarrow> extends (f ic rec n node) (f ic rec' n' node))"

lemma smoothI: "(\<And>ic rec rec' n n' node. extendsAll rec rec' \<Longrightarrow> n \<le> n' \<Longrightarrow> extends (f ic rec n node) (f ic rec' n' node)) \<Longrightarrow> smooth f"
  by (simp add: smooth_def)

lemma smooth_control:
  "smooth evalIntent" "smooth evalSchemaBridge" "smooth evalOptimizeSignature" "smooth evalLet" "smooth evalSet" "smooth evalIf"
  "smooth evalWhile" "smooth evalFor" "smooth evalOptimizeBlock" "smooth evalDo" "smooth evalReturn" "smooth evalCall"
  unfolding evalIntent_def evalSchemaBridge_def evalOptimizeSignature_def evalLet_def evalSet_def evalIf_def evalWhile_def
    evalFor_def evalOptimizeBlock_def evalDo_def evalReturn_def evalCall_def
  by (rule smoothI; (rule extends_refl | assumption | erule extends_rec | rule extends_intros)+)+

lemma smooth_data:
  "smooth evalPrint" "smooth evalStderr" "smooth evalExit" "smooth evalReadLine" "smooth evalReqId"
  "smooth evalSha256" "smooth evalRandHex" "smooth evalSecureEqual" "smooth evalReadStdin"
  "smooth evalListNode" "smooth evalDict" "smooth evalAppend" "smooth evalMapSet"
  "smooth evalMapDelete" "smooth evalMapGet" "smooth evalListGet" "smooth evalTimeNow"
  "smooth evalToString" "smooth evalBytesToString" "smooth evalListLen" "smooth evalMapKeys"
  "smooth evalIsNil" "smooth evalEncodeJson" "smooth evalParseJson" "smooth evalStrSplit"
  "smooth evalStrJoin" "smooth evalRegexMatch" "smooth evalCliArgs" "smooth evalSleep"
  "smooth evalEnv"
  unfolding evalPrint_def evalStderr_def evalExit_def evalReadLine_def evalReqId_def evalSha256_def
    evalRandHex_def evalSecureEqual_def evalReadStdin_def evalListNode_def evalDict_def evalAppend_def
    evalMapSet_def evalMapDelete_def evalMapGet_def evalListGet_def evalTimeNow_def evalToString_def
    evalBytesToString_def evalListLen_def evalMapKeys_def evalIsNil_def evalEncodeJson_def evalParseJson_def
    evalStrSplit_def evalStrJoin_def evalRegexMatch_def evalCliArgs_def evalSleep_def evalEnv_def
  by (rule smoothI; (rule extends_refl | assumption | erule extends_rec | rule extends_intros)+)+

lemma smooth_text:
  "smooth (evalToNumber conv op)" "smooth (evalText f op)" "smooth (requestRead g op)" "smooth (evalEscape op)"
  unfolding evalToNumber_def evalText_def requestRead_def evalEscape_def
  by (rule smoothI; (rule extends_refl | assumption | erule extends_rec | rule extends_intros)+)+

lemma smooth_host:
  "smooth evalExec" "smooth evalReadFile" "smooth evalWriteFile" "smooth evalMkdir"
  "smooth evalFetch" "smooth evalHttpRequest" "smooth evalNeuralCircuit" "smooth evalEphemeralCircuit"
  "smooth evalAchieve" "smooth evalConfidence"
  unfolding evalExec_def evalReadFile_def evalWriteFile_def evalMkdir_def evalFetch_def evalHttpRequest_def
    evalNeuralCircuit_def evalEphemeralCircuit_def evalAchieve_def evalConfidence_def
  by (rule smoothI; (rule extends_refl | assumption | erule extends_rec | rule extends_intros)+)+

lemma evalTable_smooth: "(h, f) \<in> set evalTable \<Longrightarrow> smooth f"
  unfolding evalTable_def controlHeads_def dataHeads_def hostHeads_def set_append list.set Un_iff insert_iff prod.inject empty_iff
  by (elim disjE conjE; simp only: smooth_control smooth_data smooth_text smooth_host)

subsection \<open>Evaluation\<close>

lemma extends_evalList:
  assumes "extendsAll rec rec'" "n \<le> n'" shows "extends (evalList ic rec n node) (evalList ic rec' n' node)"
proof -
  have "extends (f ic rec n node) (f ic rec' n' node)" if "map_of evalTable h = Some f" for h f
    using evalTable_smooth [OF map_of_SomeD [OF that]] assms by (simp add: smooth_def)
  moreover have "extends (evalBinop h rec node) (evalBinop h rec' node)" for h
    unfolding evalBinop_def by (rule extends_refl assms(1) extends_intros)+
  ultimately show ?thesis
    unfolding evalList_def by (auto simp: Let_def split: list.split option.split intro!: extends_bindI)
qed

lemma extends_eval: "n \<le> n' \<Longrightarrow> extends (eval n ic node) (eval n' ic node)"
proof (induction n arbitrary: n' node)
  case (Suc n)
  then obtain k where k: "n' = Suc k" "n \<le> k" by (cases n') auto
  then have "extendsAll (eval n ic) (eval k ic)" using Suc.IH by (simp add: extendsAll_def)
  from extends_evalList [OF this k(2)] show ?case
    unfolding k eval.simps evalNode_def by (intro extends_if extends_refl)
qed (simp add: extends_fuel)

lemma eval_more: "eval n ic node s = r \<Longrightarrow> fst r \<noteq> Inl IFuel \<Longrightarrow> n \<le> n' \<Longrightarrow> eval n' ic node s = r"
  using extendsD [OF extends_eval] by blast

lemma extends_evalProgram: "n \<le> n' \<Longrightarrow> extends (evalProgram n ast args caps h) (evalProgram n' ast args caps h)"
  unfolding evalProgram_def by (intro extends_intros extends_refl) (simp add: extendsAll_def extends_eval)

text \<open>C0. Two evaluations of a program that both come to an end, with whatever fuel, come to the same: the
  same value, error or panic, and the same state and effects. So a program has one outcome, and the fuel only
  says how long it is looked for.\<close>

theorem outcome_unique:
  assumes "fst (evalProgram n ast args caps h s) \<noteq> Inl IFuel" "fst (evalProgram n' ast args caps h s) \<noteq> Inl IFuel"
  shows "evalProgram n ast args caps h s = evalProgram n' ast args caps h s"
  using extendsD [OF extends_evalProgram [of n n' ast args caps h]] extendsD [OF extends_evalProgram [of n' n ast args caps h]] assms
  by (cases "n \<le> n'") auto

theorem outcome_unique_witness:
  "\<forall>h s. evalProgram 20 printProgram [] [] h s = evalProgram 30 printProgram [] [] h s"
proof (intro allI)
  fix h s
  have "loopFree printProgram" "size printProgram \<le> 20" by (simp_all add: printProgram_def repeats_def)
  then have "fueled (evalProgram 20 printProgram [] [] h)" "fueled (evalProgram 30 printProgram [] [] h)"
    by (auto intro: fueled_program)
  then show "evalProgram 20 printProgram [] [] h s = evalProgram 30 printProgram [] [] h s"
    by (intro outcome_unique) (simp_all add: fueled_def)
qed

end
