(* ===== verification/ChoiceLaws.thy ===== *)
theory ChoiceLaws
  imports SugarLaws FuelLaws
begin

text \<open>
  The meaning of the conditional sugar. Since fuel is only a bound, evaluation to a value is a relation; a
  \<open>cond\<close> is related to the value of the body of its first clause whose test is true.
\<close>

subsection \<open>Evaluation as a relation\<close>

declare eval.simps [simp del]

definition evaluates :: "icfg \<Rightarrow> Node \<Rightarrow> istate \<Rightarrow> val \<Rightarrow> istate \<Rightarrow> bool" where
  "evaluates ic n t v t' \<longleftrightarrow> (\<exists>k. eval k ic n t = (Inr v, t'))"

lemma evaluatesI: "eval k ic n t = (Inr v, t') \<Longrightarrow> evaluates ic n t v t'"
  by (auto simp: evaluates_def)

lemma evaluates_more:
  assumes "evaluates ic n t v t'" obtains k where "\<forall>j\<ge>k. eval j ic n t = (Inr v, t')"
  using assms eval_more [of _ ic n t "(Inr v, t')"] by (auto simp: evaluates_def)

lemma evaluates_step: "evaluates ic n t v t' \<longleftrightarrow> (\<exists>k. eval (Suc k) ic n t = (Inr v, t'))"
proof
  assume "evaluates ic n t v t'"
  then obtain k where "\<forall>j\<ge>k. eval j ic n t = (Inr v, t')" by (rule evaluates_more)
  then have "eval (Suc k) ic n t = (Inr v, t')" by simp
  then show "\<exists>k. eval (Suc k) ic n t = (Inr v, t')" by blast
qed (blast intro: evaluatesI)

lemma bindI_Inr: "bindI m f t = (Inr v, t') \<longleftrightarrow> (\<exists>a t1. m t = (Inr a, t1) \<and> f a t1 = (Inr v, t'))"
  by (auto simp: bindI_def split: prod.splits sum.splits)

lemma ToBoolI_Inr: "ToBoolI v n t = (Inr x, t') \<longleftrightarrow> v = VBool x \<and> t' = t"
  by (cases v) (auto simp: ToBoolI_def returnI_def InterpErr_def panicI_def)

lemma evaluates_choice:
  assumes "form n ''if'' [a, b, d]"
  shows "evaluates ic n t v t' \<longleftrightarrow> (\<exists>x t1. evaluates ic a t (VBool x) t1 \<and> evaluates ic (if x then b else d) t1 v t')"
proof
  assume "evaluates ic n t v t'"
  then obtain k where "eval (Suc k) ic n t = (Inr v, t')" by (auto simp: evaluates_step)
  then obtain x t1 where "eval k ic a t = (Inr (VBool x), t1)" "(if x then eval k ic b else eval k ic d) t1 = (Inr v, t')"
    by (auto simp: eval_choice [OF assms] bindI_Inr ToBoolI_Inr)
  then show "\<exists>x t1. evaluates ic a t (VBool x) t1 \<and> evaluates ic (if x then b else d) t1 v t'"
    by (intro exI [of _ x] exI [of _ t1]) (auto intro: evaluatesI split: if_splits)
next
  assume "\<exists>x t1. evaluates ic a t (VBool x) t1 \<and> evaluates ic (if x then b else d) t1 v t'"
  then obtain x t1 where "evaluates ic a t (VBool x) t1" "evaluates ic (if x then b else d) t1 v t'" by blast
  then obtain i j where "\<forall>k\<ge>i. eval k ic a t = (Inr (VBool x), t1)" "\<forall>k\<ge>j. eval k ic (if x then b else d) t1 = (Inr v, t')"
    by (elim evaluates_more)
  then have "eval (max i j) ic a t = (Inr (VBool x), t1)" "eval (max i j) ic (if x then b else d) t1 = (Inr v, t')" by simp_all
  then have "eval (Suc (max i j)) ic n t = (Inr v, t')"
    by (cases x) (simp_all add: eval_choice [OF assms] bindI_def ToBoolI_def returnI_def)
  then show "evaluates ic n t v t'" by (rule evaluatesI)
qed

text \<open>The forms of a block, one after the other.\<close>

fun runsSeq :: "icfg \<Rightarrow> Node list \<Rightarrow> val \<Rightarrow> istate \<Rightarrow> val \<Rightarrow> istate \<Rightarrow> bool" where
  "runsSeq ic [] r t v t' \<longleftrightarrow> v = r \<and> t' = t"
| "runsSeq ic (n # ns) r t v t' \<longleftrightarrow> (\<exists>w t1. evaluates ic n t w t1 \<and> runsSeq ic ns w t1 v t')"

lemma runsSeq_evalSeq: "runsSeq ic ns r t v t' \<longleftrightarrow> (\<exists>k. \<forall>j\<ge>k. evalSeq (eval j ic) ns r t = (Inr v, t'))"
proof (induction ns arbitrary: r t)
  case (Cons n ns)
  show ?case
  proof
    assume "runsSeq ic (n # ns) r t v t'"
    then obtain w t1 where 1: "evaluates ic n t w t1" "runsSeq ic ns w t1 v t'" by auto
    from 1(1) obtain i where i: "\<forall>j\<ge>i. eval j ic n t = (Inr w, t1)" by (rule evaluates_more)
    from 1(2) Cons.IH obtain l where "\<forall>j\<ge>l. evalSeq (eval j ic) ns w t1 = (Inr v, t')" by blast
    with i have "\<forall>j\<ge>max i l. evalSeq (eval j ic) (n # ns) r t = (Inr v, t')" by (simp add: bindI_def)
    then show "\<exists>k. \<forall>j\<ge>k. evalSeq (eval j ic) (n # ns) r t = (Inr v, t')" by blast
  next
    assume "\<exists>k. \<forall>j\<ge>k. evalSeq (eval j ic) (n # ns) r t = (Inr v, t')"
    then obtain k where k: "\<And>j. k \<le> j \<Longrightarrow> evalSeq (eval j ic) (n # ns) r t = (Inr v, t')" by blast
    from k [of k] obtain w t1 where 1: "eval k ic n t = (Inr w, t1)" by (auto simp: bindI_Inr)
    have "evalSeq (eval j ic) ns w t1 = (Inr v, t')" if "k \<le> j" for j
      using k [OF that] eval_more [OF 1 _ that] by (simp add: bindI_def)
    then have "runsSeq ic ns w t1 v t'" using Cons.IH by blast
    with 1 show "runsSeq ic (n # ns) r t v t'" by (auto intro: evaluatesI)
  qed
qed (auto simp: returnI_def)

lemma evaluates_block:
  assumes "form n ''do'' ns" shows "evaluates ic n t v t' \<longleftrightarrow> runsSeq ic ns VNil t v t'"
proof -
  have e: "eval (Suc k) ic n = evalSeq (eval k ic) ns VNil" for k
    using assms by (simp add: eval_plain [OF _ plainHeads(6)] evalDo_def form_simps)
  show ?thesis
  proof
    assume "evaluates ic n t v t'"
    then obtain k where "\<forall>j\<ge>k. eval j ic n t = (Inr v, t')" by (rule evaluates_more)
    then have "\<forall>j\<ge>k. evalSeq (eval j ic) ns VNil t = (Inr v, t')" by (simp flip: e)
    then show "runsSeq ic ns VNil t v t'" by (auto simp: runsSeq_evalSeq)
  next
    assume "runsSeq ic ns VNil t v t'"
    then obtain k where "eval (Suc k) ic n t = (Inr v, t')" by (auto simp: runsSeq_evalSeq e)
    then show "evaluates ic n t v t'" by (rule evaluatesI)
  qed
qed

lemma evaluates_body: "ns \<noteq> [] \<Longrightarrow> evaluates ic (wrapBodyForms ns p) t v t' \<longleftrightarrow> runsSeq ic ns VNil t v t'"
  by (cases "length ns = 1") (auto simp: wrapBodyForms_def length_Suc_conv evaluates_block [OF con_form])

subsection \<open>Cond\<close>

definition elseClause :: "Node \<Rightarrow> bool" where
  "elseClause cl \<longleftrightarrow> isSymbolNode (hd (n_Children cl)) \<and> n_Value (hd (n_Children cl)) = ''else''"

text \<open>What a \<open>cond\<close> means: the first clause whose test is true, else nil.\<close>

inductive condRuns :: "icfg \<Rightarrow> Node list \<Rightarrow> istate \<Rightarrow> val \<Rightarrow> istate \<Rightarrow> bool" for ic where
  nothing: "condRuns ic [] t VNil t"
| otherwise: "elseClause cl \<Longrightarrow> runsSeq ic (tl (n_Children cl)) VNil t v t' \<Longrightarrow> condRuns ic (cl # cls) t v t'"
| taken: "\<not> elseClause cl \<Longrightarrow> evaluates ic (hd (n_Children cl)) t (VBool True) t1 \<Longrightarrow>
    runsSeq ic (tl (n_Children cl)) VNil t1 v t' \<Longrightarrow> condRuns ic (cl # cls) t v t'"
| skipped: "\<not> elseClause cl \<Longrightarrow> evaluates ic (hd (n_Children cl)) t (VBool False) t1 \<Longrightarrow> condRuns ic cls t1 v t' \<Longrightarrow>
    condRuns ic (cl # cls) t v t'"

inductive_simps condRuns_simps: "condRuns ic [] t v t'" "condRuns ic (cl # cls) t v t'"

fun chainOf :: "Node \<Rightarrow> Node list \<Rightarrow> Node option \<Rightarrow> Node option" where
  "chainOf n [] acc = acc"
| "chainOf n (cl # cls) acc =
     (if elseClause cl then Some (wrapBodyForms (tl (n_Children cl)) cl)
      else Some (con n ''if'' [hd (n_Children cl), wrapBodyForms (tl (n_Children cl)) cl,
        (case chainOf n cls acc of None \<Rightarrow> con n ''do'' [] | Some a \<Rightarrow> a)]))"

lemma chainOf_append: "chainOf n (ys @ zs) acc = chainOf n ys (chainOf n zs acc)"
  by (induction ys) simp_all

definition goodClause :: "Node \<Rightarrow> bool" where
  "goodClause cl \<longleftrightarrow> isListNode cl \<and> 2 \<le> length (n_Children cl)"

lemma condClauses_chain:
  "condClauses n (rev cls) final acc c = Inr (r, c') \<Longrightarrow> c' = c \<and> r = chainOf n cls acc \<and> list_all goodClause cls"
proof (induction cls arbitrary: final acc rule: rev_induct)
  case (snoc y ys)
  from snoc.prems have y: "goodClause y"
    by (auto simp: goodClause_def reportD_def failD_def split: if_splits)
  with snoc.prems have "condClauses n (rev ys) False (chainOf n [y] acc) c = Inr (r, c')"
    by (auto simp: goodClause_def elseClause_def Let_def reportD_def failD_def split: if_splits)
  from snoc.IH [OF this] y show ?case by (simp add: chainOf_append)
qed (auto simp: retD_def)

lemma chain_runs:
  "list_all goodClause cls \<Longrightarrow>
    evaluates ic (case chainOf n cls None of None \<Rightarrow> con n ''do'' [] | Some a \<Rightarrow> a) t v t' \<longleftrightarrow> condRuns ic cls t v t'"
proof (induction cls arbitrary: t)
  case Nil
  show ?case by (auto simp: evaluates_block [OF con_form] condRuns_simps)
next
  case (Cons cl cls)
  then have b: "tl (n_Children cl) \<noteq> []" by (cases "n_Children cl") (auto simp: goodClause_def)
  show ?case
  proof (cases "elseClause cl")
    case False
    then show ?thesis using Cons
      by (simp add: evaluates_choice [OF con_form] condRuns_simps evaluates_body [OF b]) (metis (full_types))
  qed (simp add: condRuns_simps evaluates_body [OF b])
qed

text \<open>C0. A \<open>cond\<close> that desugars, and whose first clause has a test, has after its expansion exactly the
  meaning of its clauses: a value and a final state are reached exactly when they are those of the body of the
  first clause whose test is true, with the effects of the tests before it, of the else clause when there is
  one and no test is true, or nil.\<close>

theorem cond_expansion:
  assumes "isListNode n" "desugarCond n c = Inr (m, c')" "\<not> elseClause (n_Children n ! 1)"
  shows "c' = c \<and> (evaluates ic m t v t' \<longleftrightarrow> condRuns ic (tl (n_Children n)) t v t')"
proof -
  obtain h cl cls where n: "n_Children n = h # cl # cls"
    using assms(2) by (cases "n_Children n"; cases "tl (n_Children n)") (auto simp: desugarCond_def reportD_def failD_def)
  from assms(2) obtain r c1 where r: "condClauses n (rev (cl # cls)) True None c = Inr (r, c1)"
    and m: "m = (case r of None \<Rightarrow> n | Some a \<Rightarrow> become n a)"
    by (auto simp: desugarCond_def n bindD_def retD_def rbind_eq_Inr)
  from condClauses_chain [OF r] have good: "list_all goodClause (cl # cls)" and r': "r = chainOf n (cl # cls) None" and "c1 = c"
    by auto
  with assms(2) r have "c' = c" by (auto simp: desugarCond_def n bindD_def retD_def)
  let ?rest = "case chainOf n cls None of None \<Rightarrow> con n ''do'' [] | Some a \<Rightarrow> a"
  let ?args = "[hd (n_Children cl), wrapBodyForms (tl (n_Children cl)) cl, ?rest]"
  have e: "\<not> elseClause cl" using assms(3) by (simp add: n)
  then have "form m ''if'' ?args" using m r' by (simp add: become_form [OF assms(1)])
  then have "evaluates ic m t v t' \<longleftrightarrow> evaluates ic (con n ''if'' ?args) t v t'"
    by (simp only: evaluates_choice [OF con_form] evaluates_choice)
  also have "\<dots> \<longleftrightarrow> condRuns ic (cl # cls) t v t'" using chain_runs [OF good] e by simp
  finally show ?thesis using \<open>c' = c\<close> by (simp add: n)
qed

definition elseCond :: "Node \<Rightarrow> Node" where
  "elseCond p = con p ''cond'' [rnList p [symNode ''x'' p, strNode ''yes'' p], rnList p [symNode ''else'' p, strNode ''no'' p]]"

theorem cond_expansion_witness:
  "\<forall>ic p. \<exists>m. desugarCond (elseCond p) 0 = Inr (m, 0) \<and>
    evaluates ic m \<lparr>i_env = [[(''x'', VBool False)]], i_heap = [], i_events = []\<rparr> (VStr ''no'')
      \<lparr>i_env = [[(''x'', VBool False)]], i_heap = [], i_events = []\<rparr>"
proof (intro allI)
  fix ic :: icfg and p :: Node
  let ?t = "\<lparr>i_env = [[(''x'', VBool False)]], i_heap = [], i_events = []\<rparr>" and ?e = "rnList p [symNode ''else'' p, strNode ''no'' p]"
  have d: "\<exists>m. desugarCond (elseCond p) 0 = Inr (m, 0)"
    by (simp add: desugarCond_def elseCond_def bindD_def retD_def Let_def)
  then obtain m where m: "desugarCond (elseCond p) 0 = Inr (m, 0)" by blast
  have "evaluates ic (symNode ''x'' p) ?t (VBool False) ?t" "evaluates ic (strNode ''no'' p) ?t (VStr ''no'') ?t"
    using computes_var [of ?t "''x''" "VBool False" 0 ic p] computes_str [of 0 ic ?t "''no''" p]
    by (auto simp: computes_def intro: evaluatesI)
  then have "condRuns ic (tl (n_Children (elseCond p))) ?t (VStr ''no'') ?t"
    by (simp add: elseCond_def) (rule condRuns.skipped [OF _ _ condRuns.otherwise]; auto simp: elseClause_def)
  with cond_expansion [of "elseCond p" 0 m 0 ic ?t "VStr ''no''" ?t] m
  have "evaluates ic m ?t (VStr ''no'') ?t" by (simp add: elseCond_def elseClause_def)
  with m show "\<exists>m. desugarCond (elseCond p) 0 = Inr (m, 0) \<and> evaluates ic m ?t (VStr ''no'') ?t" by blast
qed

end
